(* ===== verification/Prelude.thy ===== *)
theory Prelude
  imports Complex_Main "HOL-Library.AList" "HOL-Library.Multiset" "HOL-Library.Product_Lexorder"
    "HOL-Library.List_Lexorder" "HOL-Library.Char_ord"
begin

text \<open>
  What every component shares: the JavaScript value types, insertion-ordered maps
  (\<open>Map\<close> and \<open>Set\<close> of the source), JSON values, and the lemmas on lists and maps the
  component proofs use.

  Conventions. A JavaScript \<open>number\<close> that is a count is a \<open>nat\<close>; any other number is an
  exact rational (\<open>number\<close>), so floating-point rounding is not modelled. An ISO timestamp
  written by \<open>toISOString\<close> is the number of milliseconds it denotes (\<open>timestamp\<close>):
  \<open>Date.parse\<close> inverts \<open>toISOString\<close>, and \<open>localeCompare\<close> on two such strings is the
  order of the numbers. A nullable field is an \<open>option\<close>. A string is a list of characters
  that the code only compares and concatenates; where the code looks at UTF-16 code units
  the component has its own type. The literal fields \<open>schemaId\<close> and \<open>schemaVersion\<close> of a
  record type are left out of the HOL record, since its type already says them, and appear
  where the code writes or checks them.
\<close>

type_synonym number = rat
type_synonym timestamp = int

named_theorems map_simps "lookups in maps after the operations of the program"

section \<open>Insertion-ordered maps\<close>

text \<open>
  A JavaScript \<open>Map\<close> keeps its entries in insertion order: \<open>set\<close> on a key that is present
  replaces the value in place, \<open>set\<close> on a new key appends, \<open>delete\<close> removes the entry. It is
  an association list with \<open>AList.update\<close>, \<open>AList.delete\<close> and \<open>map_of\<close>.
\<close>

type_synonym ('k, 'v) jsmap = "('k \<times> 'v) list"

abbreviation map_set :: "'k \<Rightarrow> 'v \<Rightarrow> ('k, 'v) jsmap \<Rightarrow> ('k, 'v) jsmap" where
  "map_set \<equiv> AList.update"

abbreviation map_delete :: "'k \<Rightarrow> ('k, 'v) jsmap \<Rightarrow> ('k, 'v) jsmap" where
  "map_delete \<equiv> AList.delete"

abbreviation map_values :: "('k, 'v) jsmap \<Rightarrow> 'v list" where
  "map_values m \<equiv> map snd m"

abbreviation wf_map :: "('k, 'v) jsmap \<Rightarrow> bool" where
  "wf_map m \<equiv> distinct (map fst m)"

lemma map_of_map_set [map_simps, simp]:
  "map_of (map_set k v m) = (map_of m)(k \<mapsto> v)"
  by (rule update_conv')

lemma map_of_map_delete [map_simps, simp]:
  "map_of (map_delete k m) = (map_of m)(k := None)"
  by (rule delete_conv')

lemma wf_map_set [simp, intro]: "wf_map m \<Longrightarrow> wf_map (map_set k v m)"
  by (rule distinct_update)

lemma wf_map_delete [simp, intro]: "wf_map m \<Longrightarrow> wf_map (map_delete k m)"
  by (rule distinct_delete)

lemma map_set_new: "map_of m k = None \<Longrightarrow> map_set k v m = m @ [(k, v)]"
  by (induction m) auto

lemma map_set_keys_present: "map_of m k \<noteq> None \<Longrightarrow> map fst (map_set k v m) = map fst m"
  by (induction m) auto

lemma map_set_new_keys: "map_of m k = None \<Longrightarrow> map fst (map_set k v m) = map fst m @ [k]"
  by (simp add: map_set_new)

lemma length_map_set:
  "length (map_set k v m) = (if map_of m k = None then Suc (length m) else length m)"
  by (induction m) auto

lemma length_map_delete:
  "wf_map m \<Longrightarrow> map_of m k = Some v \<Longrightarrow> Suc (length (map_delete k m)) = length m"
proof (induction m)
  case Nil
  then show ?case by simp
next
  case (Cons p m)
  show ?case
  proof (cases "fst p = k")
    case True
    with Cons.prems have "k \<notin> fst ` set m" by auto
    with True show ?thesis by simp
  next
    case False
    with Cons.prems have "map_of m k = Some v" and "wf_map m" by auto
    with Cons.IH False show ?thesis by simp
  qed
qed

lemma mset_map_values_set_new:
  "map_of m k = None \<Longrightarrow> mset (map_values (map_set k v m)) = add_mset v (mset (map_values m))"
  by (simp add: map_set_new)

lemma mset_map_values_delete:
  "wf_map m \<Longrightarrow> map_of m k = Some v \<Longrightarrow>
     mset (map_values m) = add_mset v (mset (map_values (map_delete k m)))"
proof (induction m)
  case Nil
  then show ?case by simp
next
  case (Cons p m)
  show ?case
  proof (cases "fst p = k")
    case True
    with Cons.prems have "k \<notin> fst ` set m" and "snd p = v" by (auto split: if_splits)
    with True show ?thesis by simp
  next
    case False
    with Cons.prems have "map_of m k = Some v" and "wf_map m" by auto
    with Cons.IH False show ?thesis by simp
  qed
qed

lemma mset_map_values_replace:
  "wf_map m \<Longrightarrow> map_of m k = Some v \<Longrightarrow>
     add_mset v (mset (map_values (map_set k v' m))) = add_mset v' (mset (map_values m))"
proof (induction m)
  case Nil
  then show ?case by simp
next
  case (Cons p m)
  then show ?case by (cases "fst p = k") auto
qed

lemma in_values_iff: "wf_map m \<Longrightarrow> v \<in> set (map_values m) \<longleftrightarrow> (\<exists>k. map_of m k = Some v)"
  by (force simp: map_of_eq_Some_iff)

section \<open>Lists\<close>

lemma filter_sort_key: "filter P (sort_key f xs) = sort_key f (filter P xs)"
  by (rule filter_sort)

lemma dropWhile_takeWhile_mset: "mset (takeWhile P xs) + mset (dropWhile P xs) = mset xs"
  by (metis mset_append takeWhile_dropWhile_id)

lemma sum_list_map_set_new:
  "map_of m k = None \<Longrightarrow> sum_list (map_values (map_set k v m)) = sum_list (map_values m) + v"
  by (simp add: map_set_new)

section \<open>Strings\<close>

text \<open>\<open>String.prototype.trim\<close> on the characters below 256, and \<open>split("\n")\<close>.\<close>

definition is_space :: "char \<Rightarrow> bool" where
  "is_space c \<longleftrightarrow> of_char c \<in> {9, 10, 11, 12, 13, 32, 160 :: nat}"

definition trim :: "string \<Rightarrow> string" where
  "trim s = rev (dropWhile is_space (rev (dropWhile is_space s)))"

definition newline :: char where
  "newline = CHR 0x0A"

fun split_on :: "'a \<Rightarrow> 'a list \<Rightarrow> 'a list list" where
  "split_on d [] = [[]]"
| "split_on d (c # cs) =
     (if c = d then [] # split_on d cs
      else case split_on d cs of [] \<Rightarrow> [[c]] | l # ls \<Rightarrow> (c # l) # ls)"

lemma split_on_nonempty [simp]: "split_on d s \<noteq> []"
  by (cases s) (auto split: list.splits)

lemma split_on_none: "d \<notin> set s \<Longrightarrow> split_on d s = [s]"
  by (induction s) auto

lemma split_on_append: "d \<notin> set s \<Longrightarrow> split_on d (s @ d # t) = s # split_on d t"
  by (induction s) auto

lemma trim_id:
  assumes "s \<noteq> []" and "\<not> is_space (hd s)" and "\<not> is_space (last s)"
  shows "trim s = s"
proof -
  have "dropWhile is_space s = s" and "dropWhile is_space (rev s) = rev s"
    using assms by (simp_all add: dropWhile_eq_self_iff hd_rev)
  then show ?thesis by (simp add: trim_def)
qed

lemma join_split:
  "split_on d s = ls \<Longrightarrow> s = concat (map (\<lambda>l. l @ [d]) (butlast ls)) @ last ls"
  by (induction s arbitrary: ls) (auto split: list.splits)

text \<open>\<open>indexOf\<close> of one character, with \<open>None\<close> for -1, and \<open>toLowerCase\<close> on ASCII letters.\<close>

fun index_of :: "'a \<Rightarrow> 'a list \<Rightarrow> nat option" where
  "index_of x [] = None"
| "index_of x (y # ys) = (if x = y then Some 0 else map_option Suc (index_of x ys))"

lemma index_of_Some: "index_of x ys = Some i \<Longrightarrow> i < length ys \<and> ys ! i = x \<and> x \<notin> set (take i ys)"
  by (induction ys arbitrary: i) (auto split: if_splits)

lemma index_of_None: "index_of x ys = None \<longleftrightarrow> x \<notin> set ys"
  by (induction ys) auto

definition lower_char :: "char \<Rightarrow> char" where
  "lower_char c = (let n = of_char c :: nat in if 65 \<le> n \<and> n \<le> 90 then char_of (n + 32) else c)"

definition to_lower :: "string \<Rightarrow> string" where
  "to_lower = map lower_char"

lemma lower_char_idem [simp]: "lower_char (lower_char c) = lower_char c"
  by (simp add: lower_char_def Let_def)

lemma to_lower_idem [simp]: "to_lower (to_lower s) = to_lower s"
  by (simp add: to_lower_def)

definition ends_with :: "'a list \<Rightarrow> 'a list \<Rightarrow> bool" where
  "ends_with s t \<longleftrightarrow> length t \<le> length s \<and> drop (length s - length t) s = t"

lemma ends_with_iff: "ends_with s t \<longleftrightarrow> (\<exists>p. s = p @ t)"
proof
  assume "ends_with s t"
  then have "s = take (length s - length t) s @ t"
    unfolding ends_with_def by (metis append_take_drop_id)
  then show "\<exists>p. s = p @ t" by blast
qed (auto simp: ends_with_def)

section \<open>Star patterns\<close>

text \<open>
  The regular expressions the code builds by escaping a pattern and replacing every star by
  \<open>.*\<close>, anchored at the start and, with \<open>anch\<close>, at the end. \<open>lt\<close> tells the line
  terminators, which \<open>.\<close> does not match.
\<close>

fun glob :: "('a \<Rightarrow> bool) \<Rightarrow> 'a \<Rightarrow> bool \<Rightarrow> 'a list \<Rightarrow> 'a list \<Rightarrow> bool" where
  "glob lt star anch [] s = (anch \<longrightarrow> s = [])"
| "glob lt star anch (p # ps) s =
     (if p = star
      then glob lt star anch ps s \<or>
           (case s of [] \<Rightarrow> False | c # cs \<Rightarrow> \<not> lt c \<and> glob lt star anch (p # ps) cs)
      else (case s of [] \<Rightarrow> False | c # cs \<Rightarrow> c = p \<and> glob lt star anch ps cs))"

declare glob.simps(2) [simp del]

text \<open>The words a pattern stands for: each star any text without a line terminator.\<close>

inductive expands :: "('a \<Rightarrow> bool) \<Rightarrow> 'a \<Rightarrow> 'a list \<Rightarrow> 'a list \<Rightarrow> bool" for lt star where
  expands_Nil: "expands lt star [] []"
| expands_star: "(\<And>c. c \<in> set w \<Longrightarrow> \<not> lt c) \<Longrightarrow> expands lt star ps s \<Longrightarrow> expands lt star (star # ps) (w @ s)"
| expands_lit: "p \<noteq> star \<Longrightarrow> expands lt star ps s \<Longrightarrow> expands lt star (p # ps) (p # s)"

inductive_simps expands_Nil_simp [simp]: "expands lt star [] s"
inductive_cases expands_ConsE: "expands lt star (p # ps) s"

lemma expands_star_step:
  assumes "\<not> lt c" and "expands lt star (star # ps) s"
  shows "expands lt star (star # ps) (c # s)"
proof -
  from assms(2) obtain w s' where s: "s = w @ s'" "\<And>c. c \<in> set w \<Longrightarrow> \<not> lt c" "expands lt star ps s'"
    by (auto elim: expands_ConsE)
  with assms(1) have "expands lt star (star # ps) ((c # w) @ s')" by (intro expands_star) auto
  with s show ?thesis by simp
qed

lemma glob_sound: "glob lt star anch ps s \<Longrightarrow> \<exists>w t. s = w @ t \<and> expands lt star ps w \<and> (anch \<longrightarrow> t = [])"
proof (induction lt star anch ps s rule: glob.induct)
  case (1 lt star anch s)
  then show ?case by (intro exI [of _ "[]"] exI [of _ s]) simp
next
  case (2 lt star anch p ps s)
  show ?case
  proof (cases "p = star")
    case True
    with "2.prems" consider "glob lt star anch ps s"
      | c cs where "s = c # cs" "\<not> lt c" "glob lt star anch (p # ps) cs"
      unfolding glob.simps(2) [of lt star anch p ps s] by (auto split: list.splits)
    then show ?thesis
    proof cases
      case 1
      with "2.IH"(1) True obtain w t where "s = w @ t" "expands lt star ps w" "anch \<longrightarrow> t = []" by blast
      with True expands_star [of "[]" lt star ps w] show ?thesis by auto
    next
      case 2
      with "2.IH"(2) True obtain w t where "cs = w @ t" "expands lt star (p # ps) w" "anch \<longrightarrow> t = []"
        by blast
      with 2 True expands_star_step [of lt c star ps w] show ?thesis
        by (intro exI [of _ "c # w"] exI [of _ t]) auto
    qed
  next
    case False
    with "2.prems" obtain cs where s: "s = p # cs" "glob lt star anch ps cs"
      by (auto simp: glob.simps(2) [of lt star anch p ps s] split: list.splits)
    with "2.IH"(3) False obtain w t where "cs = w @ t" "expands lt star ps w" "anch \<longrightarrow> t = []"
      by blast
    with s False show ?thesis
      by (intro exI [of _ "p # w"] exI [of _ t]) (auto intro: expands_lit)
  qed
qed

lemma glob_star_prefix:
  "(\<And>c. c \<in> set w \<Longrightarrow> \<not> lt c) \<Longrightarrow> glob lt star anch ps s \<Longrightarrow> glob lt star anch (star # ps) (w @ s)"
  by (induction w) (auto simp: glob.simps(2))

lemma glob_complete:
  "expands lt star ps w \<Longrightarrow> (anch \<longrightarrow> t = []) \<Longrightarrow> glob lt star anch ps (w @ t)"
proof (induction rule: expands.induct)
  case expands_Nil
  then show ?case by simp
next
  case (expands_star w ps s)
  then show ?case using glob_star_prefix [of w lt star anch ps "s @ t"] by simp
next
  case (expands_lit p ps s)
  then show ?case by (simp add: glob.simps(2))
qed

lemma glob_iff:
  "glob lt star anch ps s \<longleftrightarrow> (\<exists>w t. s = w @ t \<and> expands lt star ps w \<and> (anch \<longrightarrow> t = []))"
  using glob_sound glob_complete by metis

section \<open>JSON values\<close>

text \<open>
  What \<open>JSON.parse\<close> returns and \<open>JSON.stringify\<close> takes. An object is the list of its own
  enumerable properties, in order.
\<close>

datatype json =
    JNull
  | JBool bool
  | JNum number
  | JStr string
  | JArr "json list"
  | JObj "(string \<times> json) list"

fun opt_str :: "string option \<Rightarrow> json" where
  "opt_str None = JNull"
| "opt_str (Some s) = JStr s"

definition field :: "(string \<times> json) list \<Rightarrow> string \<Rightarrow> json option" where
  "field fs k = map_of fs k"

section \<open>Results\<close>

type_synonym ('e, 'a) result = "'e + 'a"

definition bind_result :: "('e, 'a) result \<Rightarrow> ('a \<Rightarrow> ('e, 'b) result) \<Rightarrow> ('e, 'b) result" where
  "bind_result r f = (case r of Inl e \<Rightarrow> Inl e | Inr a \<Rightarrow> f a)"

lemma bind_result_simps [simp]:
  "bind_result (Inl e) f = Inl e"
  "bind_result (Inr a) f = f a"
  by (simp_all add: bind_result_def)

lemma bind_result_Inr: "bind_result r f = Inr b \<longleftrightarrow> (\<exists>a. r = Inr a \<and> f a = Inr b)"
  by (cases r) auto

end
