(* ===== verification/Records.thy ===== *)
theory Records
  imports Prelude
begin

text \<open>
  The records the crawler passes between its parts: requests, seeds, discoveries, request
  states and enqueue decisions (\<open>requests/types.ts\<close>, \<open>links/types.ts\<close>,
  \<open>diagnostics/types.ts\<close>, \<open>results/types.ts\<close>, \<open>frontier/types.ts\<close>, \<open>url/types.ts\<close>), with
  the exhaustive switches over their unions (\<open>frontier/queue-order.ts\<close>).
\<close>

section \<open>Unions\<close>

datatype render_policy = RenderNever | RenderAuto | RenderAlways

datatype request_method = GET | HEAD

datatype terminal_request_state = Handled | Failed | Skipped | Cancelled

datatype request_state = Pending | InProgress | Terminal terminal_request_state | Retrying

datatype crawl_source =
    Seed | HtmlLink | Sitemap | SitemapIndex | RobotsSitemap | Feed | Redirect
  | Manual | Hook | JavascriptStatic | CssStatic

datatype frontier_order = OrderPriority | OrderBfs | OrderDfs

datatype skip_reason =
    INVALID_URL | UNSUPPORTED_PROTOCOL | SCOPE_REJECTED | ROBOTS_DISALLOWED
  | NETWORK_SAFETY_REJECTED | MAX_DEPTH_EXCEEDED | MAX_REQUESTS_EXCEEDED
  | MAX_QUEUE_SIZE_EXCEEDED | MAX_URL_LENGTH_EXCEEDED | MAX_PATH_SEGMENTS_EXCEEDED
  | MAX_QUERY_PARAMS_EXCEEDED | PATH_PATTERN_LIMIT_EXCEEDED | DIRECTORY_LIMIT_EXCEEDED
  | DUPLICATE | CONTENT_TYPE_EXCLUDED | USER_EXCLUDE_PATTERN | ASSET_SKIPPED
  | RENDER_LIMIT_EXCEEDED | SITEMAP_LIMIT_EXCEEDED | DUPLICATE_BODY_PATTERN_LIMIT_EXCEEDED

datatype enqueue_decision_status =
    Enqueued | AlreadySeen | RejectedScope | RejectedRobots | RejectedNetworkSafety
  | RejectedProtocol | InvalidUrl | MaxDepth | QueueLimit | UserRule | AssetSkipped
  | DuplicateStatus | TrapGuard

datatype scope_mode = ScopeOrigin | ScopeHost | ScopeDomain | ScopeCustom

section \<open>Records\<close>

record scope_config =
  sc_mode :: scope_mode
  sc_include :: "string list"
  sc_exclude :: "string list"
  sc_allowedHosts :: "string list"
  sc_deniedHosts :: "string list"
  sc_maxUrlLength :: nat
  sc_maxPathSegments :: nat
  sc_maxQueryParams :: nat
  sc_maxUrlsPerDirectory :: nat
  sc_maxUrlsPerPathPattern :: nat

record resolved_seed =
  sd_url :: string
  sd_normalizedUrl :: string
  sd_scope :: scope_config
  sd_maxDepth :: "number option"
  sd_maxScheduledRequests :: "nat option"
  sd_label :: "string option"

record crawl_request =
  rq_id :: string
  rq_uniqueKey :: string
  rq_rawUrl :: string
  rq_resolvedUrl :: string
  rq_normalizedUrl :: string
  rq_referrerUrl :: "string option"
  rq_source :: crawl_source
  rq_seedUrl :: string
  rq_seedLabel :: "string option"
  rq_depth :: number
  rq_sitemapIndexDepth :: number
  rq_sitemapAncestors :: "string list"
  rq_priority :: number
  rq_method :: request_method
  rq_headers :: "(string \<times> string) list"
  rq_renderPolicy :: render_policy
  rq_retryCount :: number
  rq_maxRetries :: number
  rq_createdAt :: timestamp
  rq_updatedAt :: timestamp
  rq_userData :: "(string \<times> json) list"

record enqueue_decision =
  ed_status :: enqueue_decision_status
  ed_reason :: "string option"
  ed_requestId :: "string option"

record discovery_record =
  dr_runId :: string
  dr_uniqueKey :: string
  dr_requestId :: "string option"
  dr_rawUrl :: string
  dr_resolvedUrl :: "string option"
  dr_normalizedUrl :: "string option"
  dr_referrerUrl :: "string option"
  dr_source :: crawl_source
  dr_seedUrl :: string
  dr_seedLabel :: "string option"
  dr_depth :: number
  dr_firstSeen :: bool
  dr_decision :: enqueue_decision
  dr_createdAt :: timestamp

record request_state_record =
  rs_runId :: string
  rs_requestId :: string
  rs_uniqueKey :: string
  rs_state :: request_state
  rs_reason :: "string option"
  rs_updatedAt :: timestamp

record skipped_url =
  sk_runId :: string
  sk_rawUrl :: string
  sk_resolvedUrl :: "string option"
  sk_normalizedUrl :: "string option"
  sk_referrerUrl :: "string option"
  sk_reason :: skip_reason
  sk_policyName :: "string option"
  sk_detail :: "string option"
  sk_createdAt :: timestamp

record enqueue_input =
  ei_rawUrl :: string
  ei_referrerUrl :: "string option"
  ei_source :: crawl_source
  ei_depth :: number
  ei_sitemapIndexDepth :: "number option"
  ei_sitemapAncestors :: "string list option"
  ei_seed :: resolved_seed

record enqueue_result =
  er_decision :: enqueue_decision
  er_request :: "crawl_request option"
  er_skipped :: "skipped_url option"
  er_discovery :: "discovery_record option"
  er_state :: "request_state_record option"

record request_lease =
  ls_leaseId :: string
  ls_request :: crawl_request
  ls_leasedAt :: timestamp
  ls_expiresAt :: timestamp

record frontier_snapshot =
  fs_resumedRequests :: nat
  fs_recoveredLeases :: nat
  fs_deferredLeases :: nat

record deferred_request =
  df_request :: crawl_request
  df_expiresAt :: timestamp

section \<open>Switches over the unions\<close>

fun priorityForSource :: "crawl_source \<Rightarrow> number" where
  "priorityForSource Seed = 100"
| "priorityForSource RobotsSitemap = 90"
| "priorityForSource SitemapIndex = 80"
| "priorityForSource Sitemap = 70"
| "priorityForSource HtmlLink = 60"
| "priorityForSource JavascriptStatic = 50"
| "priorityForSource CssStatic = 45"
| "priorityForSource Feed = 40"
| "priorityForSource Redirect = 30"
| "priorityForSource Manual = 20"
| "priorityForSource Hook = 10"

fun decisionStatusForSkip :: "skip_reason \<Rightarrow> enqueue_decision_status" where
  "decisionStatusForSkip INVALID_URL = InvalidUrl"
| "decisionStatusForSkip UNSUPPORTED_PROTOCOL = RejectedProtocol"
| "decisionStatusForSkip SCOPE_REJECTED = RejectedScope"
| "decisionStatusForSkip ROBOTS_DISALLOWED = RejectedRobots"
| "decisionStatusForSkip NETWORK_SAFETY_REJECTED = RejectedNetworkSafety"
| "decisionStatusForSkip MAX_DEPTH_EXCEEDED = MaxDepth"
| "decisionStatusForSkip MAX_REQUESTS_EXCEEDED = QueueLimit"
| "decisionStatusForSkip MAX_QUEUE_SIZE_EXCEEDED = QueueLimit"
| "decisionStatusForSkip USER_EXCLUDE_PATTERN = UserRule"
| "decisionStatusForSkip ASSET_SKIPPED = AssetSkipped"
| "decisionStatusForSkip DUPLICATE = DuplicateStatus"
| "decisionStatusForSkip MAX_URL_LENGTH_EXCEEDED = TrapGuard"
| "decisionStatusForSkip MAX_PATH_SEGMENTS_EXCEEDED = TrapGuard"
| "decisionStatusForSkip MAX_QUERY_PARAMS_EXCEEDED = TrapGuard"
| "decisionStatusForSkip PATH_PATTERN_LIMIT_EXCEEDED = TrapGuard"
| "decisionStatusForSkip DIRECTORY_LIMIT_EXCEEDED = TrapGuard"
| "decisionStatusForSkip CONTENT_TYPE_EXCLUDED = TrapGuard"
| "decisionStatusForSkip RENDER_LIMIT_EXCEEDED = TrapGuard"
| "decisionStatusForSkip SITEMAP_LIMIT_EXCEEDED = TrapGuard"
| "decisionStatusForSkip DUPLICATE_BODY_PATTERN_LIMIT_EXCEEDED = TrapGuard"

lemma decisionStatusForSkip_not_enqueued [simp]:
  "decisionStatusForSkip r \<noteq> Enqueued" "decisionStatusForSkip r \<noteq> AlreadySeen"
  by (cases r; simp)+

section \<open>The names the unions have in persisted records\<close>

fun source_name :: "crawl_source \<Rightarrow> string" where
  "source_name Seed = ''seed''"
| "source_name HtmlLink = ''html-link''"
| "source_name Sitemap = ''sitemap''"
| "source_name SitemapIndex = ''sitemap-index''"
| "source_name RobotsSitemap = ''robots-sitemap''"
| "source_name Feed = ''feed''"
| "source_name Redirect = ''redirect''"
| "source_name Manual = ''manual''"
| "source_name Hook = ''hook''"
| "source_name JavascriptStatic = ''javascript-static''"
| "source_name CssStatic = ''css-static''"

fun method_name :: "request_method \<Rightarrow> string" where
  "method_name GET = ''GET''"
| "method_name HEAD = ''HEAD''"

fun render_policy_name :: "render_policy \<Rightarrow> string" where
  "render_policy_name RenderNever = ''never''"
| "render_policy_name RenderAuto = ''auto''"
| "render_policy_name RenderAlways = ''always''"

fun terminal_name :: "terminal_request_state \<Rightarrow> string" where
  "terminal_name Handled = ''handled''"
| "terminal_name Failed = ''failed''"
| "terminal_name Skipped = ''skipped''"
| "terminal_name Cancelled = ''cancelled''"

end
