(* ===== verification/Frontier_Queue.thy ===== *)
theory Frontier_Queue
  imports Records
begin

text \<open>
  The in-memory frontier queue, class \<open>FrontierState\<close> of \<open>frontier/state.ts\<close>, with the
  ordering of \<open>frontier/queue-order.ts\<close>. \<open>Array.prototype.sort\<close> is stable, as
  \<open>sort_key\<close> is; the comparator of \<open>sortRequests\<close> (priority descending, then depth, then
  creation time) is the lexicographic order of \<open>request_key\<close>. \<open>Date.now()\<close> is an argument.
  The selection predicate of \<open>takeNext\<close> may have effects (it reserves politeness slots), so
  it threads a state, and it is called on the candidates in the order the code calls it.
\<close>

section \<open>Ordering\<close>

definition request_key :: "crawl_request \<Rightarrow> number \<times> number \<times> timestamp" where
  "request_key r = (- rq_priority r, rq_depth r, rq_createdAt r)"

definition sortRequests :: "crawl_request list \<Rightarrow> frontier_order \<Rightarrow> crawl_request list" where
  "sortRequests q ord = (if ord \<noteq> OrderPriority then q else sort_key request_key q)"

lemma mset_sortRequests [simp]: "mset (sortRequests q ord) = mset q"
  by (simp add: sortRequests_def)

lemma set_sortRequests [simp]: "set (sortRequests q ord) = set q"
  by (simp add: sortRequests_def)

lemma length_sortRequests [simp]: "length (sortRequests q ord) = length q"
  by (simp add: sortRequests_def)

lemma sortRequests_sorted:
  "ord = OrderPriority \<Longrightarrow> sorted (map request_key (sortRequests q ord))"
  by (simp add: sortRequests_def)

section \<open>State and operations\<close>

record frontier_state =
  st_queue :: "crawl_request list"
  st_deferred :: "deferred_request list"
  st_requestsByKey :: "(string, crawl_request) jsmap"
  st_order :: frontier_order

definition new_state :: "frontier_order \<Rightarrow> frontier_state" where
  "new_state ord = \<lparr>st_queue = [], st_deferred = [], st_requestsByKey = [], st_order = ord\<rparr>"

definition state_size :: "frontier_state \<Rightarrow> nat" where
  "state_size s = length (st_queue s) + length (st_deferred s)"

definition state_requestForKey :: "frontier_state \<Rightarrow> string \<Rightarrow> crawl_request option" where
  "state_requestForKey s k = map_of (st_requestsByKey s) k"

definition count_seed :: "(string, nat) jsmap \<Rightarrow> crawl_request \<Rightarrow> (string, nat) jsmap" where
  "count_seed counts r =
     map_set (rq_seedUrl r) (case map_of counts (rq_seedUrl r) of None \<Rightarrow> 1 | Some n \<Rightarrow> n + 1) counts"

definition state_seedRequestCounts :: "frontier_state \<Rightarrow> (string, nat) jsmap" where
  "state_seedRequestCounts s = foldl count_seed [] (map_values (st_requestsByKey s))"

definition state_knownRequests :: "frontier_state \<Rightarrow> crawl_request list" where
  "state_knownRequests s = map_values (st_requestsByKey s)"

definition remember :: "frontier_state \<Rightarrow> crawl_request \<Rightarrow> frontier_state" where
  "remember s r = s\<lparr>st_requestsByKey := map_set (rq_uniqueKey r) r (st_requestsByKey s)\<rparr>"

definition requeue :: "frontier_state \<Rightarrow> crawl_request \<Rightarrow> frontier_state" where
  "requeue s r = s\<lparr>st_queue := sortRequests (st_queue s @ [r]) (st_order s)\<rparr>"

definition addPending :: "frontier_state \<Rightarrow> crawl_request \<Rightarrow> frontier_state" where
  "addPending s r =
     (let s' = remember s r
      in s'\<lparr>st_queue := sortRequests (st_queue s' @ [r]) (st_order s')\<rparr>)"

definition addDeferred :: "frontier_state \<Rightarrow> deferred_request \<Rightarrow> frontier_state" where
  "addDeferred s d =
     (let s' = remember s (df_request d)
      in s'\<lparr>st_deferred := sort_key df_expiresAt (st_deferred s' @ [d])\<rparr>)"

text \<open>The \<open>while\<close> loop of \<open>promoteDeferred\<close>: shift the head as long as it has expired.\<close>

fun promote_loop ::
  "timestamp \<Rightarrow> deferred_request list \<Rightarrow> crawl_request list \<Rightarrow> deferred_request list \<times> crawl_request list"
where
  "promote_loop now [] q = ([], q)"
| "promote_loop now (d # ds) q =
     (if df_expiresAt d > now then (d # ds, q) else promote_loop now ds (q @ [df_request d]))"

definition promoteDeferred :: "timestamp \<Rightarrow> frontier_state \<Rightarrow> frontier_state" where
  "promoteDeferred now s =
     (let (ds, q) = promote_loop now (st_deferred s) (st_queue s)
      in s\<lparr>st_deferred := ds, st_queue := sortRequests q (st_order s)\<rparr>)"

text \<open>\<open>findIndex\<close> and \<open>splice\<close>: the first request the predicate accepts, removed.\<close>

fun find_take ::
  "('p \<Rightarrow> 'r \<Rightarrow> bool \<times> 'p) \<Rightarrow> 'p \<Rightarrow> 'r list \<Rightarrow> 'r option \<times> 'r list \<times> 'p"
where
  "find_take f p [] = (None, [], p)"
| "find_take f p (r # rs) =
     (case f p r of
        (True, p') \<Rightarrow> (Some r, rs, p')
      | (False, p') \<Rightarrow> (case find_take f p' rs of (found, rest, p'') \<Rightarrow> (found, r # rest, p'')))"

definition takeNext ::
  "timestamp \<Rightarrow> ('p \<Rightarrow> crawl_request \<Rightarrow> bool \<times> 'p) \<Rightarrow> 'p \<Rightarrow> frontier_state
     \<Rightarrow> crawl_request option \<times> frontier_state \<times> 'p"
where
  "takeNext now f p s0 =
     (let s = promoteDeferred now s0 in
      if st_order s = OrderDfs
      then (case find_take f p (rev (st_queue s)) of
              (found, rest, p') \<Rightarrow> (found, s\<lparr>st_queue := rev rest\<rparr>, p'))
      else (case find_take f p (st_queue s) of
              (found, rest, p') \<Rightarrow> (found, s\<lparr>st_queue := rest\<rparr>, p')))"

definition state_nextDeferredAt :: "frontier_state \<Rightarrow> timestamp option" where
  "state_nextDeferredAt s = (case st_deferred s of [] \<Rightarrow> None | d # _ \<Rightarrow> Some (df_expiresAt d))"

section \<open>Invariant\<close>

definition queue_ok :: "frontier_state \<Rightarrow> bool" where
  "queue_ok s \<longleftrightarrow>
     sorted (map df_expiresAt (st_deferred s)) \<and>
     (st_order s = OrderPriority \<longrightarrow> sorted (map request_key (st_queue s))) \<and>
     wf_map (st_requestsByKey s) \<and>
     (\<forall>(k, r) \<in> set (st_requestsByKey s). rq_uniqueKey r = k)"

definition waiting :: "frontier_state \<Rightarrow> crawl_request multiset" where
  "waiting s = mset (st_queue s) + mset (map df_request (st_deferred s))"

lemma size_waiting: "size (waiting s) = state_size s"
  by (simp add: waiting_def state_size_def)

lemma queue_ok_new [simp]: "queue_ok (new_state ord)"
  by (simp add: queue_ok_def new_state_def)

lemma keys_map_set:
  "(\<forall>(k, r) \<in> set m. rq_uniqueKey r = k) \<Longrightarrow>
     (\<forall>(k, r) \<in> set (map_set (rq_uniqueKey x) x m). rq_uniqueKey r = k)"
  by (induction m) (auto split: if_splits)

lemma queue_ok_remember [intro]: "queue_ok s \<Longrightarrow> queue_ok (remember s r)"
  using keys_map_set [of "st_requestsByKey s" r] by (auto simp: queue_ok_def remember_def)

lemma queue_ok_requeue [intro]: "queue_ok s \<Longrightarrow> queue_ok (requeue s r)"
  by (auto simp: queue_ok_def requeue_def sortRequests_sorted)

lemma queue_ok_addPending [intro]: "queue_ok s \<Longrightarrow> queue_ok (addPending s r)"
  using queue_ok_requeue [OF queue_ok_remember, of s r r]
  by (simp add: addPending_def requeue_def Let_def)

lemma queue_ok_addDeferred [intro]: "queue_ok s \<Longrightarrow> queue_ok (addDeferred s d)"
  using queue_ok_remember [of s "df_request d"]
  by (auto simp: addDeferred_def queue_ok_def remember_def Let_def)

subsection \<open>Promotion\<close>

lemma promote_loop_mset:
  "promote_loop now ds q = (ds', q') \<Longrightarrow>
     mset q' + mset (map df_request ds') = mset q + mset (map df_request ds)"
  by (induction now ds q rule: promote_loop.induct) (auto split: if_splits)

lemma promote_loop_eq:
  "promote_loop now ds q =
     (dropWhile (\<lambda>d. df_expiresAt d \<le> now) ds,
      q @ map df_request (takeWhile (\<lambda>d. df_expiresAt d \<le> now) ds))"
  by (induction now ds q rule: promote_loop.induct) auto

lemma sorted_dropWhile_expired:
  assumes "sorted (map df_expiresAt ds)"
  shows "dropWhile (\<lambda>d. df_expiresAt d \<le> now) ds = filter (\<lambda>d. now < df_expiresAt d) ds"
  using assms
proof (induction ds)
  case Nil
  then show ?case by simp
next
  case (Cons d ds)
  show ?case
  proof (cases "df_expiresAt d \<le> now")
    case True
    with Cons show ?thesis by simp
  next
    case False
    with Cons.prems have "\<forall>e \<in> set ds. now < df_expiresAt e" by fastforce
    then have "filter (\<lambda>d. now < df_expiresAt d) ds = ds" by (simp add: filter_id_conv)
    with False show ?thesis by simp
  qed
qed

lemma sorted_takeWhile_expired:
  assumes "sorted (map df_expiresAt ds)"
  shows "takeWhile (\<lambda>d. df_expiresAt d \<le> now) ds = filter (\<lambda>d. df_expiresAt d \<le> now) ds"
  using assms
proof (induction ds)
  case Nil
  then show ?case by simp
next
  case (Cons d ds)
  show ?case
  proof (cases "df_expiresAt d \<le> now")
    case True
    with Cons show ?thesis by simp
  next
    case False
    with Cons.prems have "\<forall>e \<in> set ds. \<not> df_expiresAt e \<le> now" by fastforce
    then have "filter (\<lambda>d. df_expiresAt d \<le> now) ds = []" by (simp add: filter_empty_conv)
    with False show ?thesis by simp
  qed
qed

lemma promoteDeferred_fields [simp]:
  "st_requestsByKey (promoteDeferred now s) = st_requestsByKey s"
  "st_order (promoteDeferred now s) = st_order s"
  by (simp_all add: promoteDeferred_def split: prod.split)

lemma promoteDeferred_split:
  assumes "queue_ok s"
  shows "st_deferred (promoteDeferred now s) = filter (\<lambda>d. now < df_expiresAt d) (st_deferred s)"
    and "st_queue (promoteDeferred now s) =
       sortRequests (st_queue s @ map df_request (filter (\<lambda>d. df_expiresAt d \<le> now) (st_deferred s)))
         (st_order s)"
  using assms
  by (simp_all add: promoteDeferred_def promote_loop_eq queue_ok_def sorted_dropWhile_expired
      sorted_takeWhile_expired)

lemma waiting_promoteDeferred [simp]: "waiting (promoteDeferred now s) = waiting s"
  by (auto simp: waiting_def promoteDeferred_def split: prod.split dest: promote_loop_mset)

lemma queue_ok_promoteDeferred [intro]:
  assumes "queue_ok s"
  shows "queue_ok (promoteDeferred now s)"
  using assms promoteDeferred_split [OF assms, of now]
  by (auto simp: queue_ok_def sortRequests_sorted sorted_filter)

subsection \<open>Selection\<close>

lemma find_take_None_iff_rest:
  "find_take f p rs = (found, rest, p') \<Longrightarrow>
     mset rs = mset rest + (case found of None \<Rightarrow> {#} | Some r \<Rightarrow> {#r#})"
  by (induction f p rs arbitrary: found rest p' rule: find_take.induct)
    (auto split: prod.splits bool.splits option.splits)

lemma find_take_None_rest: "find_take f p rs = (None, rest, p') \<Longrightarrow> rest = rs"
  by (induction f p rs arbitrary: rest p' rule: find_take.induct)
    (auto split: prod.splits bool.splits)

lemma find_take_Some_accepted:
  "find_take f p rs = (Some r, rest, p') \<Longrightarrow> \<exists>p1. f p1 r = (True, p')"
  by (induction f p rs arbitrary: rest rule: find_take.induct)
    (auto split: prod.splits bool.splits)

lemma find_take_sorted:
  "find_take f p rs = (found, rest, p') \<Longrightarrow> sorted (map key rs) \<Longrightarrow> sorted (map key rest)"
proof (induction f p rs arbitrary: found rest p' rule: find_take.induct)
  case (1 f p)
  then show ?case by simp
next
  case (2 f p r rs)
  show ?case
  proof (cases "fst (f p r)")
    case True
    with 2 show ?thesis by (auto split: prod.splits)
  next
    case False
    with 2 obtain p1 rest1 where step: "find_take f p1 rs = (found, rest1, p')"
      and rest: "rest = r # rest1" and eq: "f p r = (False, p1)"
      by (auto split: prod.splits bool.splits)
    from 2 eq step have "sorted (map key rest1)" by auto
    moreover from find_take_None_iff_rest [OF step] have "set rest1 \<subseteq> set rs"
      by (metis mset_subset_eq_add_left set_mset_mono set_mset_mset)
    ultimately show ?thesis using rest 2(3) by auto
  qed
qed

text \<open>A predicate with no effect: the first accepted element, everything before it refused.\<close>

lemma find_take_pure:
  "find_take (\<lambda>p r. (P r, p)) p rs =
     (case List.find P rs of None \<Rightarrow> (None, rs, p) | Some r \<Rightarrow> (Some r, remove1 r rs, p))"
proof (induction rs)
  case Nil
  then show ?case by simp
next
  case (Cons r rs)
  show ?case
  proof (cases "P r")
    case False
    then have "\<And>r'. List.find P rs = Some r' \<Longrightarrow> r' \<noteq> r"
      by (auto simp: find_Some_iff)
    with False Cons show ?thesis by (auto split: option.splits)
  qed simp
qed

lemma takeNext_fields:
  "takeNext now f p s = (found, s', p') \<Longrightarrow>
     st_requestsByKey s' = st_requestsByKey s \<and> st_order s' = st_order s"
  by (auto simp: takeNext_def Let_def split: prod.splits if_splits)

lemma takeNext_waiting:
  "takeNext now f p s = (found, s', p') \<Longrightarrow>
     waiting s = waiting s' + (case found of None \<Rightarrow> {#} | Some r \<Rightarrow> {#r#})"
proof -
  assume "takeNext now f p s = (found, s', p')"
  then have "waiting (promoteDeferred now s) = waiting s' + (case found of None \<Rightarrow> {#} | Some r \<Rightarrow> {#r#})"
    by (auto simp: takeNext_def Let_def waiting_def split: prod.splits if_splits
        dest!: find_take_None_iff_rest)
  then show ?thesis by simp
qed

lemma queue_ok_takeNext:
  assumes "queue_ok s" and "takeNext now f p s = (found, s', p')"
  shows "queue_ok s'"
proof -
  have "queue_ok (promoteDeferred now s)" using assms(1) by auto
  with assms(2) show ?thesis
    by (auto simp: takeNext_def Let_def queue_ok_def split: prod.splits if_splits
        dest: find_take_sorted)
qed

lemma waiting_simps [simp]:
  "waiting (new_state ord) = {#}"
  "waiting (remember s r) = waiting s"
  "waiting (requeue s r) = add_mset r (waiting s)"
  "waiting (addPending s r) = add_mset r (waiting s)"
  "waiting (addDeferred s d) = add_mset (df_request d) (waiting s)"
  by (simp_all add: waiting_def new_state_def remember_def requeue_def addPending_def
      addDeferred_def Let_def)

lemma sort_key_image_mset: "mset (map g (sort_key f xs)) = mset (map g xs)"
  by simp

end
