(* ===== verification/Journal.thy ===== *)
theory Journal
  imports Records
begin

text \<open>
  The frontier journal: its records (\<open>frontier/types.ts\<close>), the checksum chain
  (\<open>frontier/journal-codec.ts\<close>), the validation that every load runs
  (\<open>frontier/journal-validation.ts\<close>) and the recovery of the queue from the records
  (\<open>frontier/recovery.ts\<close>).

  \<open>sha256\<close> of the serialised record is a parameter \<open>H\<close>: a function of the values that
  \<open>journalChecksum\<close> puts into the hashed object, in their order. No law of \<open>H\<close> is used,
  except that a statement about tampering names the two inputs that collide.
\<close>

section \<open>Records\<close>

datatype journal_body =
    JEnqueued crawl_request
  | JLeased string string timestamp
  | JRenewed string string timestamp
  | JFinished terminal_request_state string string "string option"
  | JReleased string string "string option"

record unsequenced_record =
  ur_body :: journal_body
  ur_createdAt :: timestamp

record journal_record =
  jr_sequence :: nat
  jr_previousChecksum :: "string option"
  jr_checksum :: string
  jr_entry :: unsequenced_record

type_synonym hash = "nat \<times> string option \<times> unsequenced_record \<Rightarrow> string"

fun journal_request_id :: "journal_body \<Rightarrow> string" where
  "journal_request_id (JEnqueued r) = rq_id r"
| "journal_request_id (JLeased i l e) = i"
| "journal_request_id (JRenewed i l e) = i"
| "journal_request_id (JFinished s i l m) = i"
| "journal_request_id (JReleased i l m) = i"

definition journalChecksum :: "hash \<Rightarrow> unsequenced_record \<Rightarrow> nat \<Rightarrow> string option \<Rightarrow> string" where
  "journalChecksum H r seq prev = H (seq, prev, r)"

definition buildJournalRecord ::
  "hash \<Rightarrow> unsequenced_record \<Rightarrow> nat \<Rightarrow> string option \<Rightarrow> journal_record"
where
  "buildJournalRecord H r seq prev =
     (let checksum = journalChecksum H r seq prev
      in \<lparr>jr_sequence = seq, jr_previousChecksum = prev, jr_checksum = checksum, jr_entry = r\<rparr>)"

definition checksumFor :: "hash \<Rightarrow> journal_record \<Rightarrow> string" where
  "checksumFor H r = journalChecksum H (jr_entry r) (jr_sequence r) (jr_previousChecksum r)"

section \<open>Validation\<close>

datatype journal_error =
    SequenceGap nat nat
  | ChecksumChain nat
  | ChecksumInvalid nat
  | EnqueuedTwice string
  | UnknownRequest string
  | TerminalTransition string
  | InvalidLease string

record request_journal_state =
  js_request :: crawl_request
  js_terminal :: bool
  js_leaseId :: "string option"

type_synonym journal_states = "(string, request_journal_state) jsmap"

text \<open>
  \<open>applyTransition\<close>. A record of a request that is unknown or terminal is refused; a lease
  needs a request with no lease; a renewal, release or completion needs the current lease.
\<close>

fun applyTransition :: "journal_body \<Rightarrow> journal_states \<Rightarrow> (journal_error, journal_states) result" where
  "applyTransition (JEnqueued r) states =
     (if map_of states (rq_id r) \<noteq> None then Inl (EnqueuedTwice (rq_id r))
      else Inr (map_set (rq_id r) \<lparr>js_request = r, js_terminal = False, js_leaseId = None\<rparr> states))"
| "applyTransition (JLeased i l e) states =
     (case map_of states i of
        None \<Rightarrow> Inl (UnknownRequest i)
      | Some cur \<Rightarrow>
          if js_terminal cur then Inl (TerminalTransition i)
          else if js_leaseId cur \<noteq> None then Inl (InvalidLease i)
          else Inr (map_set i (cur\<lparr>js_leaseId := Some l\<rparr>) states))"
| "applyTransition (JRenewed i l e) states =
     (case map_of states i of
        None \<Rightarrow> Inl (UnknownRequest i)
      | Some cur \<Rightarrow>
          if js_terminal cur then Inl (TerminalTransition i)
          else if js_leaseId cur \<noteq> Some l then Inl (InvalidLease i)
          else Inr states)"
| "applyTransition (JReleased i l m) states =
     (case map_of states i of
        None \<Rightarrow> Inl (UnknownRequest i)
      | Some cur \<Rightarrow>
          if js_terminal cur then Inl (TerminalTransition i)
          else if js_leaseId cur \<noteq> Some l then Inl (InvalidLease i)
          else Inr (map_set i (cur\<lparr>js_leaseId := None\<rparr>) states))"
| "applyTransition (JFinished s i l m) states =
     (case map_of states i of
        None \<Rightarrow> Inl (UnknownRequest i)
      | Some cur \<Rightarrow>
          if js_terminal cur then Inl (TerminalTransition i)
          else if js_leaseId cur \<noteq> Some l then Inl (InvalidLease i)
          else Inr (map_set i \<lparr>js_request = js_request cur, js_terminal = True, js_leaseId = None\<rparr>
                      states))"

text \<open>The loop of \<open>validateJournal\<close>, with its three variables.\<close>

fun validate_loop ::
  "hash \<Rightarrow> journal_record list \<Rightarrow> nat \<Rightarrow> string option \<Rightarrow> journal_states
     \<Rightarrow> (journal_error, journal_states) result"
where
  "validate_loop H [] expected prev states = Inr states"
| "validate_loop H (r # rs) expected prev states =
     (if jr_sequence r \<noteq> expected then Inl (SequenceGap (jr_sequence r) (expected - 1))
      else if jr_previousChecksum r \<noteq> prev then Inl (ChecksumChain (jr_sequence r))
      else if checksumFor H r \<noteq> jr_checksum r then Inl (ChecksumInvalid (jr_sequence r))
      else case applyTransition (ur_body (jr_entry r)) states of
             Inl e \<Rightarrow> Inl e
           | Inr states' \<Rightarrow> validate_loop H rs (expected + 1) (Some (jr_checksum r)) states')"

definition validateJournal :: "hash \<Rightarrow> journal_record list \<Rightarrow> (journal_error, journal_states) result" where
  "validateJournal H rs = validate_loop H rs 1 None []"

section \<open>Recovery\<close>

record recovery_state =
  rc_request :: crawl_request
  rc_terminal :: bool
  rc_leaseExpiresAt :: "timestamp option"

record recovered_frontier =
  rf_requests :: "crawl_request list"
  rf_pending :: "crawl_request list"
  rf_deferred :: "deferred_request list"
  rf_recoveredLeases :: nat

fun recover_step :: "(string, recovery_state) jsmap \<Rightarrow> journal_body \<Rightarrow> (string, recovery_state) jsmap" where
  "recover_step states (JEnqueued r) =
     map_set (rq_id r) \<lparr>rc_request = r, rc_terminal = False, rc_leaseExpiresAt = None\<rparr> states"
| "recover_step states (JLeased i l e) =
     (case map_of states i of None \<Rightarrow> states
      | Some cur \<Rightarrow> map_set i (cur\<lparr>rc_leaseExpiresAt := Some e\<rparr>) states)"
| "recover_step states (JRenewed i l e) =
     (case map_of states i of None \<Rightarrow> states
      | Some cur \<Rightarrow> map_set i (cur\<lparr>rc_leaseExpiresAt := Some e\<rparr>) states)"
| "recover_step states (JReleased i l m) =
     (case map_of states i of None \<Rightarrow> states
      | Some cur \<Rightarrow> map_set i (cur\<lparr>rc_leaseExpiresAt := None\<rparr>) states)"
| "recover_step states (JFinished s i l m) =
     (case map_of states i of None \<Rightarrow> states
      | Some cur \<Rightarrow>
          map_set i \<lparr>rc_request = rc_request cur, rc_terminal = True, rc_leaseExpiresAt = None\<rparr> states)"

fun recover_classify :: "timestamp \<Rightarrow> recovery_state list \<Rightarrow> recovered_frontier \<Rightarrow> recovered_frontier" where
  "recover_classify now [] acc = acc"
| "recover_classify now (s # ss) acc =
     recover_classify now ss
       (if rc_terminal s then acc
        else case rc_leaseExpiresAt s of
               None \<Rightarrow> acc\<lparr>rf_pending := rf_pending acc @ [rc_request s]\<rparr>
             | Some e \<Rightarrow>
                 if e \<le> now
                 then acc\<lparr>rf_pending := rf_pending acc @ [rc_request s],
                          rf_recoveredLeases := rf_recoveredLeases acc + 1\<rparr>
                 else acc\<lparr>rf_deferred :=
                            rf_deferred acc @ [\<lparr>df_request = rc_request s, df_expiresAt = e\<rparr>]\<rparr>)"

definition recover_states :: "journal_record list \<Rightarrow> (string, recovery_state) jsmap" where
  "recover_states rs = foldl recover_step [] (map (ur_body \<circ> jr_entry) rs)"

definition recoverFrontier :: "journal_record list \<Rightarrow> timestamp \<Rightarrow> recovered_frontier" where
  "recoverFrontier rs now =
     (let states = recover_states rs
      in recover_classify now (map_values states)
           \<lparr>rf_requests = map rc_request (map_values states), rf_pending = [], rf_deferred = [],
            rf_recoveredLeases = 0\<rparr>)"

section \<open>Lemmas on validation\<close>

lemmas applyTransition_splits = if_splits option.splits

lemma validate_loop_append:
  "validate_loop H (rs @ ss) n prev states =
     (case validate_loop H rs n prev states of
        Inl e \<Rightarrow> Inl e
      | Inr states' \<Rightarrow>
          validate_loop H ss (n + length rs) (if rs = [] then prev else Some (jr_checksum (last rs))) states')"
proof (induction H rs n prev states rule: validate_loop.induct)
  case (1 H n prev states)
  then show ?case by simp
next
  case (2 H r rs n prev states)
  show ?case
  proof (cases "jr_sequence r = n \<and> jr_previousChecksum r = prev \<and> checksumFor H r = jr_checksum r")
    case True
    with 2 show ?thesis
      by (cases "applyTransition (ur_body (jr_entry r)) states") (auto split: sum.splits)
  next
    case False
    then show ?thesis by auto
  qed
qed

lemma validateJournal_snoc:
  assumes "validateJournal H rs = Inr states"
  shows "validateJournal H (rs @ [r]) =
     (if jr_sequence r \<noteq> length rs + 1 then Inl (SequenceGap (jr_sequence r) (length rs))
      else if jr_previousChecksum r \<noteq> (if rs = [] then None else Some (jr_checksum (last rs)))
        then Inl (ChecksumChain (jr_sequence r))
      else if checksumFor H r \<noteq> jr_checksum r then Inl (ChecksumInvalid (jr_sequence r))
      else applyTransition (ur_body (jr_entry r)) states)"
  using assms
  by (simp add: validateJournal_def validate_loop_append split: sum.split)

lemma checksumFor_build [simp]:
  "checksumFor H (buildJournalRecord H r n prev) = jr_checksum (buildJournalRecord H r n prev)"
  by (simp add: checksumFor_def buildJournalRecord_def Let_def)

lemma build_fields [simp]:
  "jr_sequence (buildJournalRecord H r n prev) = n"
  "jr_previousChecksum (buildJournalRecord H r n prev) = prev"
  "jr_entry (buildJournalRecord H r n prev) = r"
  by (simp_all add: buildJournalRecord_def Let_def)

text \<open>What the journal writer appends next, after the records \<open>rs\<close>.\<close>

definition next_record :: "hash \<Rightarrow> journal_record list \<Rightarrow> unsequenced_record \<Rightarrow> journal_record" where
  "next_record H rs u =
     buildJournalRecord H u (length rs + 1) (if rs = [] then None else Some (jr_checksum (last rs)))"

lemma validateJournal_next:
  assumes "validateJournal H rs = Inr states"
  shows "validateJournal H (rs @ [next_record H rs u]) = applyTransition (ur_body u) states"
  using assms by (simp add: validateJournal_snoc next_record_def)

lemma applyTransition_wf:
  "applyTransition b states = Inr states' \<Longrightarrow> wf_map states \<Longrightarrow> wf_map states'"
  by (cases b) (auto split: if_splits option.splits)

lemma validate_loop_wf:
  "validate_loop H rs n prev states = Inr states' \<Longrightarrow> wf_map states \<Longrightarrow> wf_map states'"
  by (induction H rs n prev states rule: validate_loop.induct)
    (auto split: if_splits sum.splits dest: applyTransition_wf)

lemma validateJournal_wf: "validateJournal H rs = Inr states \<Longrightarrow> wf_map states"
  by (simp add: validateJournal_def validate_loop_wf)

lemma validate_loop_chain:
  "validate_loop H rs n prev states = Inr states' \<Longrightarrow>
     (\<forall>i < length rs. jr_sequence (rs ! i) = n + i \<and> jr_checksum (rs ! i) = checksumFor H (rs ! i)
        \<and> jr_previousChecksum (rs ! i) = (if i = 0 then prev else Some (jr_checksum (rs ! (i - 1)))))"
proof (induction H rs n prev states arbitrary: states' rule: validate_loop.induct)
  case (1 H n prev states)
  then show ?case by simp
next
  case (2 H r rs n prev states)
  from "2.prems" obtain s1 where ok: "jr_sequence r = n" "jr_previousChecksum r = prev"
      "checksumFor H r = jr_checksum r"
    and step: "applyTransition (ur_body (jr_entry r)) states = Inr s1"
    and rest: "validate_loop H rs (n + 1) (Some (jr_checksum r)) s1 = Inr states'"
    by (auto split: if_splits sum.splits)
  note IH = "2.IH" [OF _ _ _ step, of states']
  show ?case
  proof (intro allI impI)
    fix i
    assume "i < length (r # rs)"
    with ok IH rest show "jr_sequence ((r # rs) ! i) = n + i
        \<and> jr_checksum ((r # rs) ! i) = checksumFor H ((r # rs) ! i)
        \<and> jr_previousChecksum ((r # rs) ! i) =
            (if i = 0 then prev else Some (jr_checksum ((r # rs) ! (i - 1))))"
      by (cases i) (auto simp: nth_Cons split: nat.splits)
  qed
qed

section \<open>Lemmas on recovery\<close>

lemma recover_states_snoc:
  "recover_states (rs @ [r]) = recover_step (recover_states rs) (ur_body (jr_entry r))"
  by (simp add: recover_states_def)

lemma recover_step_wf: "wf_map states \<Longrightarrow> wf_map (recover_step states b)"
  by (cases b) (auto split: option.splits)

lemma recover_states_wf: "wf_map (recover_states rs)"
  by (induction rs rule: rev_induct) (auto simp: recover_states_snoc recover_step_wf, simp add: recover_states_def)

lemma recover_classify_eq:
  "recover_classify now ss acc =
     acc\<lparr>rf_pending := rf_pending acc @ map rc_request (filter (\<lambda>s. \<not> rc_terminal s \<and>
            (case rc_leaseExpiresAt s of None \<Rightarrow> True | Some e \<Rightarrow> e \<le> now)) ss),
         rf_deferred := rf_deferred acc @ map (\<lambda>s. \<lparr>df_request = rc_request s,
            df_expiresAt = the (rc_leaseExpiresAt s)\<rparr>) (filter (\<lambda>s. \<not> rc_terminal s \<and>
            (case rc_leaseExpiresAt s of None \<Rightarrow> False | Some e \<Rightarrow> now < e)) ss),
         rf_recoveredLeases := rf_recoveredLeases acc + length (filter (\<lambda>s. \<not> rc_terminal s \<and>
            (case rc_leaseExpiresAt s of None \<Rightarrow> False | Some e \<Rightarrow> e \<le> now)) ss)\<rparr>"
  by (induction now ss acc rule: recover_classify.induct) (auto split: option.splits)

text \<open>
  The two readers of the journal agree: \<open>rec_matches\<close> relates the state validation keeps of
  a request to the state recovery keeps.
\<close>

definition rec_matches :: "request_journal_state \<Rightarrow> recovery_state \<Rightarrow> bool" where
  "rec_matches v r \<longleftrightarrow>
     js_request v = rc_request r \<and> js_terminal v = rc_terminal r \<and>
     (js_leaseId v = None \<longleftrightarrow> rc_leaseExpiresAt r = None)"

definition maps_match :: "journal_states \<Rightarrow> (string, recovery_state) jsmap \<Rightarrow> bool" where
  "maps_match vs rs \<longleftrightarrow>
     map fst vs = map fst rs \<and>
     (\<forall>k. rel_option rec_matches (map_of vs k) (map_of rs k))"

lemma maps_match_keys: "maps_match vs rs \<Longrightarrow> map_of vs k = None \<longleftrightarrow> map_of rs k = None"
  by (metis maps_match_def option.rel_distinct(1,2) option.exhaust)

lemma maps_match_Some:
  "maps_match vs rs \<Longrightarrow> map_of vs k = Some v \<Longrightarrow> \<exists>r. map_of rs k = Some r \<and> rec_matches v r"
  by (metis maps_match_def option_rel_Some1)

lemma maps_match_set:
  assumes "maps_match vs rs" and "rec_matches v r"
  shows "maps_match (map_set k v vs) (map_set k r rs)"
proof -
  have "map fst (map_set k v vs) = map fst (map_set k r rs)"
  proof (cases "map_of vs k = None")
    case True
    with assms maps_match_keys [OF assms(1), of k] show ?thesis
      by (simp add: map_set_new maps_match_def)
  next
    case False
    with assms maps_match_keys [OF assms(1), of k] show ?thesis
      by (simp add: map_set_keys_present maps_match_def)
  qed
  with assms show ?thesis by (auto simp: maps_match_def)
qed

lemma maps_match_same:
  "maps_match vs rs \<Longrightarrow> map_of vs k = Some v \<Longrightarrow> rec_matches v r \<Longrightarrow> maps_match vs (map_set k r rs)"
  by (metis maps_match_set update_triv)

lemma applyTransition_recover:
  assumes "applyTransition b vs = Inr vs'" and "maps_match vs rs"
  shows "maps_match vs' (recover_step rs b)"
proof (cases b)
  case (JEnqueued r)
  with assms show ?thesis by (auto split: if_splits simp: rec_matches_def intro!: maps_match_set)
next
  case (JLeased i l e)
  with assms obtain cur where cur: "map_of vs i = Some cur" "\<not> js_terminal cur"
    and vs': "vs' = map_set i (cur\<lparr>js_leaseId := Some l\<rparr>) vs"
    by (auto split: option.splits if_splits)
  from maps_match_Some [OF assms(2) cur(1)] obtain c where c: "map_of rs i = Some c" "rec_matches cur c"
    by blast
  with JLeased vs' assms(2) show ?thesis
    by (auto simp: rec_matches_def intro!: maps_match_set)
next
  case (JRenewed i l e)
  with assms obtain cur where cur: "map_of vs i = Some cur" "\<not> js_terminal cur" "js_leaseId cur = Some l"
    and vs': "vs' = vs"
    by (auto split: option.splits if_splits)
  from maps_match_Some [OF assms(2) cur(1)] obtain c where c: "map_of rs i = Some c" "rec_matches cur c"
    by blast
  from c(2) cur have "rec_matches cur (c\<lparr>rc_leaseExpiresAt := Some e\<rparr>)" by (simp add: rec_matches_def)
  from maps_match_same [OF assms(2) cur(1) this] c JRenewed vs' show ?thesis by simp
next
  case (JFinished s i l m)
  with assms obtain cur where cur: "map_of vs i = Some cur"
    and vs': "vs' = map_set i \<lparr>js_request = js_request cur, js_terminal = True, js_leaseId = None\<rparr> vs"
    by (auto split: option.splits if_splits)
  from maps_match_Some [OF assms(2) cur(1)] obtain c where c: "map_of rs i = Some c" "rec_matches cur c"
    by blast
  with JFinished vs' assms(2) show ?thesis
    by (auto simp: rec_matches_def intro!: maps_match_set)
next
  case (JReleased i l m)
  with assms obtain cur where cur: "map_of vs i = Some cur"
    and vs': "vs' = map_set i (cur\<lparr>js_leaseId := None\<rparr>) vs"
    by (auto split: option.splits if_splits)
  from maps_match_Some [OF assms(2) cur(1)] obtain c where c: "map_of rs i = Some c" "rec_matches cur c"
    by blast
  with JReleased vs' assms(2) show ?thesis
    by (auto simp: rec_matches_def intro!: maps_match_set)
qed

lemma validate_loop_recover:
  "validate_loop H rs n prev vs = Inr vs' \<Longrightarrow> maps_match vs ss \<Longrightarrow>
     maps_match vs' (foldl recover_step ss (map (ur_body \<circ> jr_entry) rs))"
  by (induction H rs n prev vs arbitrary: ss rule: validate_loop.induct)
    (auto split: if_splits sum.splits dest: applyTransition_recover)

lemma validated_recover_match:
  "validateJournal H rs = Inr vs \<Longrightarrow> maps_match vs (recover_states rs)"
  unfolding validateJournal_def recover_states_def
  by (erule validate_loop_recover) (simp add: maps_match_def)

end
