(* ===== verification/Url_Scope.thy ===== *)
theory Url_Scope
  imports Records
begin

text \<open>
  URLs and scope: \<open>url/normalizer.ts\<close>, \<open>url/path-pattern.ts\<close>, \<open>url/scope-policy.ts\<close> and the
  glob patterns of \<open>core/utils.ts\<close>.

  A \<open>URL\<close> object is the record of its parts, \<open>href\<close> and \<open>origin\<close> are put together from
  them as the URL standard does for http and https. The parser \<open>new URL(raw, base)\<close> is the
  platform's and is a parameter, \<open>None\<close> where it throws.
\<close>

section \<open>URL objects\<close>

record url =
  u_protocol :: string
  u_username :: string
  u_password :: string
  u_hostname :: string
  u_port :: string
  u_pathname :: string
  u_search :: string
  u_hash :: string

type_synonym url_parser = "string \<Rightarrow> string option \<Rightarrow> url option"

definition url_host :: "url \<Rightarrow> string" where
  "url_host u = u_hostname u @ (if u_port u = [] then [] else '':'' @ u_port u)"

definition url_origin :: "url \<Rightarrow> string" where
  "url_origin u = u_protocol u @ ''//'' @ url_host u"

definition url_href :: "url \<Rightarrow> string" where
  "url_href u =
     u_protocol u @ ''//''
     @ (if u_username u = [] \<and> u_password u = [] then []
        else u_username u @ (if u_password u = [] then [] else '':'' @ u_password u) @ ''@'')
     @ url_host u @ u_pathname u @ u_search u @ u_hash u"

text \<open>The names in \<open>url.searchParams\<close>: split at ampersands, empty parts dropped.\<close>

definition hex_value :: "char \<Rightarrow> nat option" where
  "hex_value c = (let n = of_char c :: nat in
     if 48 \<le> n \<and> n \<le> 57 then Some (n - 48)
     else if 65 \<le> n \<and> n \<le> 70 then Some (n - 55)
     else if 97 \<le> n \<and> n \<le> 102 then Some (n - 87)
     else None)"

fun form_decode :: "string \<Rightarrow> string" where
  "form_decode [] = []"
| "form_decode (c # cs) =
     (if c = CHR ''+'' then CHR '' '' # form_decode cs
      else if c = CHR ''%'' then
        (case cs of
           h # l # rest \<Rightarrow>
             (case (hex_value h, hex_value l) of
                (Some a, Some b) \<Rightarrow> char_of (16 * a + b) # form_decode rest
              | _ \<Rightarrow> c # form_decode cs)
         | _ \<Rightarrow> c # form_decode cs)
      else c # form_decode cs)"

definition search_keys :: "url \<Rightarrow> string list" where
  "search_keys u =
     map (\<lambda>p. form_decode (takeWhile (\<lambda>c. c \<noteq> CHR ''='') p))
       (filter (\<lambda>p. p \<noteq> []) (split_on CHR ''&'' (drop 1 (u_search u))))"

section \<open>normalizeUrl\<close>

record normalized_url =
  nu_rawUrl :: string
  nu_baseUrl :: "string option"
  nu_resolvedUrl :: string
  nu_normalizedUrl :: string
  nu_displayUrl :: string

definition normalized_parts :: "url \<Rightarrow> url" where
  "normalized_parts p =
     (let p = p\<lparr>u_hash := []\<rparr>;
          p = p\<lparr>u_protocol := to_lower (u_protocol p)\<rparr>;
          p = p\<lparr>u_hostname := to_lower (u_hostname p)\<rparr>
      in if (u_protocol p = ''http:'' \<and> u_port p = ''80'') \<or> (u_protocol p = ''https:'' \<and> u_port p = ''443'')
         then p\<lparr>u_port := []\<rparr> else p)"

definition normalizeUrl ::
  "url_parser \<Rightarrow> string \<Rightarrow> string option \<Rightarrow> (string, normalized_url) result"
where
  "normalizeUrl parse rawUrl baseUrl =
     (case parse rawUrl baseUrl of
        None \<Rightarrow> Inl ''Invalid URL''
      | Some p \<Rightarrow>
          if u_username p \<noteq> [] \<or> u_password p \<noteq> []
          then Inl ''URLs containing credentials are rejected.''
          else if u_protocol p \<noteq> ''http:'' \<and> u_protocol p \<noteq> ''https:''
          then Inl (''Unsupported protocol: '' @ u_protocol p)
          else let href = url_href (normalized_parts p)
               in Inr \<lparr>nu_rawUrl = rawUrl, nu_baseUrl = baseUrl, nu_resolvedUrl = href,
                       nu_normalizedUrl = href, nu_displayUrl = href\<rparr>)"

section \<open>Path patterns\<close>

definition pathSegments :: "url \<Rightarrow> nat" where
  "pathSegments u = length (filter (\<lambda>s. s \<noteq> []) (split_on CHR ''/'' (u_pathname u)))"

definition queryParamCount :: "url \<Rightarrow> nat" where
  "queryParamCount u = length (search_keys u)"

definition last_index_of :: "char \<Rightarrow> string \<Rightarrow> nat option" where
  "last_index_of c s = map_option (\<lambda>i. length s - 1 - i) (index_of c (rev s))"

definition directoryOf :: "string \<Rightarrow> string" where
  "directoryOf pathname =
     (case last_index_of CHR ''/'' pathname of
        None \<Rightarrow> ''/''
      | Some i \<Rightarrow> if i = 0 then ''/'' else take (i + 1) pathname)"

definition is_digit :: "char \<Rightarrow> bool" where
  "is_digit c \<longleftrightarrow> (let n = of_char c :: nat in 48 \<le> n \<and> n \<le> 57)"

definition patternSegment :: "string \<Rightarrow> string" where
  "patternSegment s =
     (if s \<noteq> [] \<and> list_all is_digit s then '':number''
      else if length s > 24 then '':long'' else s)"

fun join :: "string \<Rightarrow> string list \<Rightarrow> string" where
  "join d [] = []"
| "join d [s] = s"
| "join d (s # ss) = s @ d @ join d ss"

definition pathPattern :: "string \<Rightarrow> string" where
  "pathPattern pathname = join ''/'' (map patternSegment (split_on CHR ''/'' pathname))"

definition queryPattern :: "url \<Rightarrow> string" where
  "queryPattern u = join ''&'' (sort (search_keys u))"

section \<open>Compiled scopes\<close>

definition line_terminator :: "char \<Rightarrow> bool" where
  "line_terminator c \<longleftrightarrow> c = CHR 0x0A \<or> c = CHR 0x0D"

text \<open>\<open>globishToRegExp(pattern).test(url)\<close>.\<close>

definition globish_test :: "string \<Rightarrow> string \<Rightarrow> bool" where
  "globish_test pattern s = glob line_terminator CHR ''*'' True pattern s"

record scope_decision =
  sn_allowed :: bool
  sn_reason :: "string option"
  sn_policyName :: "string option"

definition denied :: "string \<Rightarrow> string \<Rightarrow> scope_decision" where
  "denied reason policyName =
     \<lparr>sn_allowed = False, sn_reason = Some reason, sn_policyName = Some policyName\<rparr>"

definition scope_allowed :: scope_decision where
  "scope_allowed = \<lparr>sn_allowed = True, sn_reason = None, sn_policyName = None\<rparr>"

record compiled_scope =
  cs_config :: scope_config
  cs_seeds :: "url list"
  cs_include :: "string list"
  cs_exclude :: "string list"

text \<open>\<open>compileScope\<close>; \<open>None\<close> where \<open>new URL(seed.normalizedUrl)\<close> throws.\<close>

fun parse_all :: "url_parser \<Rightarrow> string list \<Rightarrow> url list option" where
  "parse_all parse [] = Some []"
| "parse_all parse (s # ss) =
     (case parse s None of None \<Rightarrow> None | Some u \<Rightarrow> map_option (\<lambda>us. u # us) (parse_all parse ss))"

definition compileScope :: "url_parser \<Rightarrow> scope_config \<Rightarrow> resolved_seed list \<Rightarrow> compiled_scope option" where
  "compileScope parse config seeds =
     map_option (\<lambda>us. \<lparr>cs_config = config, cs_seeds = us, cs_include = sc_include config,
                       cs_exclude = sc_exclude config\<rparr>)
       (parse_all parse (map sd_normalizedUrl seeds))"

definition inScope :: "url \<Rightarrow> compiled_scope \<Rightarrow> bool" where
  "inScope u sc =
     (case sc_mode (cs_config sc) of
        ScopeOrigin \<Rightarrow> list_ex (\<lambda>seed. url_origin seed = url_origin u) (cs_seeds sc)
      | ScopeHost \<Rightarrow> list_ex (\<lambda>seed. u_hostname seed = u_hostname u) (cs_seeds sc)
      | ScopeDomain \<Rightarrow>
          list_ex (\<lambda>seed. u_hostname u = u_hostname seed \<or>
                          ends_with (u_hostname u) (''.'' @ u_hostname seed)) (cs_seeds sc)
      | ScopeCustom \<Rightarrow>
          sc_allowedHosts (cs_config sc) = [] \<or> List.member (sc_allowedHosts (cs_config sc)) (u_hostname u))"

fun mode_name :: "scope_mode \<Rightarrow> string" where
  "mode_name ScopeOrigin = ''origin''"
| "mode_name ScopeHost = ''host''"
| "mode_name ScopeDomain = ''domain''"
| "mode_name ScopeCustom = ''custom''"

definition decideWithCompiledScope ::
  "url_parser \<Rightarrow> string \<Rightarrow> number \<Rightarrow> compiled_scope \<Rightarrow> scope_decision"
where
  "decideWithCompiledScope parse url depth scope =
     (let config = cs_config scope in
      case parse url None of
        None \<Rightarrow> denied ''Invalid URL'' ''url''
      | Some parsed \<Rightarrow>
          if u_protocol parsed \<noteq> ''http:'' \<and> u_protocol parsed \<noteq> ''https:''
          then denied (''Unsupported protocol '' @ u_protocol parsed) ''protocol''
          else if length url > sc_maxUrlLength config
          then denied ''URL length exceeds maximum'' ''maxUrlLength''
          else if pathSegments parsed > sc_maxPathSegments config
          then denied ''Path segment count exceeds maximum'' ''maxPathSegments''
          else if queryParamCount parsed > sc_maxQueryParams config
          then denied ''Query parameter count exceeds maximum'' ''maxQueryParams''
          else if List.member (sc_deniedHosts config) (u_hostname parsed)
          then denied ''Host is explicitly denied'' ''deniedHosts''
          else if length (sc_allowedHosts config) > 0 \<and>
                  \<not> List.member (sc_allowedHosts config) (u_hostname parsed)
          then denied ''Host is not explicitly allowed'' ''allowedHosts''
          else if list_ex (\<lambda>p. globish_test p url) (cs_exclude scope)
          then denied ''URL matched exclude pattern'' ''exclude''
          else if length (cs_include scope) > 0 \<and> \<not> list_ex (\<lambda>p. globish_test p url) (cs_include scope)
          then denied ''URL did not match include pattern'' ''include''
          else if \<not> inScope parsed scope
          then denied (''URL is outside '' @ mode_name (sc_mode config) @ '' scope'') ''scope''
          else if depth < 0 then denied ''Negative depth'' ''depth''
          else scope_allowed)"

section \<open>The policy and its reservations\<close>

record scope_policy =
  sp_global :: compiled_scope
  sp_bySeed :: "(string, compiled_scope) jsmap"
  sp_directoryCounts :: "(string, nat) jsmap"
  sp_patternCounts :: "(string, nat) jsmap"
  sp_seeds :: "resolved_seed list"

fun compile_seeds ::
  "url_parser \<Rightarrow> resolved_seed list \<Rightarrow> (string, compiled_scope) jsmap \<Rightarrow> (string, compiled_scope) jsmap option"
where
  "compile_seeds parse [] m = Some m"
| "compile_seeds parse (s # ss) m =
     (case compileScope parse (sd_scope s) [s] of
        None \<Rightarrow> None
      | Some c \<Rightarrow> compile_seeds parse ss (map_set (sd_normalizedUrl s) c m))"

definition new_ScopePolicy :: "url_parser \<Rightarrow> scope_config \<Rightarrow> resolved_seed list \<Rightarrow> scope_policy option" where
  "new_ScopePolicy parse config seeds =
     (case compileScope parse config seeds of
        None \<Rightarrow> None
      | Some g \<Rightarrow>
          map_option (\<lambda>m. \<lparr>sp_global = g, sp_bySeed = m, sp_directoryCounts = [],
                           sp_patternCounts = [], sp_seeds = seeds\<rparr>)
            (compile_seeds parse seeds []))"

definition seedFor :: "scope_policy \<Rightarrow> string option \<Rightarrow> resolved_seed option" where
  "seedFor sp seedUrl =
     (case seedUrl of
        None \<Rightarrow> None
      | Some u \<Rightarrow> List.find (\<lambda>s. sd_normalizedUrl s = u \<or> sd_url s = u) (sp_seeds sp))"

definition seed_scope :: "scope_policy \<Rightarrow> resolved_seed \<Rightarrow> compiled_scope" where
  "seed_scope sp s = (case map_of (sp_bySeed sp) (sd_normalizedUrl s) of None \<Rightarrow> sp_global sp | Some c \<Rightarrow> c)"

definition compiledFor :: "scope_policy \<Rightarrow> string option \<Rightarrow> string \<times> compiled_scope" where
  "compiledFor sp seedUrl =
     (case seedFor sp seedUrl of
        None \<Rightarrow> (''global'', sp_global sp)
      | Some s \<Rightarrow> (sd_normalizedUrl s, seed_scope sp s))"

definition scope_decide ::
  "url_parser \<Rightarrow> scope_policy \<Rightarrow> string \<Rightarrow> number \<Rightarrow> string option \<Rightarrow> scope_decision"
where
  "scope_decide parse sp url depth seedUrl =
     (let seed = seedFor sp seedUrl;
          compiled = (case seed of None \<Rightarrow> sp_global sp | Some s \<Rightarrow> seed_scope sp s)
      in if (case seed of None \<Rightarrow> False
             | Some s \<Rightarrow> (case sd_maxDepth s of None \<Rightarrow> False | Some d \<Rightarrow> d < depth))
         then denied ''Seed depth limit exceeded'' ''seed.maxDepth''
         else decideWithCompiledScope parse url depth compiled)"

definition nul :: string where
  "nul = [CHR 0x00]"

definition directory_key :: "string \<Rightarrow> url \<Rightarrow> string" where
  "directory_key key u = key @ nul @ url_origin u @ directoryOf (u_pathname u)"

definition pattern_key :: "string \<Rightarrow> url \<Rightarrow> string" where
  "pattern_key key u = key @ nul @ url_origin u @ pathPattern (u_pathname u) @ ''?'' @ queryPattern u"

definition count_of :: "(string, nat) jsmap \<Rightarrow> string \<Rightarrow> nat" where
  "count_of m k = (case map_of m k of None \<Rightarrow> 0 | Some n \<Rightarrow> n)"

text \<open>
  A reservation: its decision, and, when it is allowed, the two counters with the values that
  \<open>commit\<close> stores, and whether it has been committed.
\<close>

record scope_reservation =
  sr_decision :: scope_decision
  sr_counts :: "((string \<times> nat) \<times> (string \<times> nat)) option"
  sr_committed :: bool

definition noReservation :: "scope_decision \<Rightarrow> scope_reservation" where
  "noReservation d = \<lparr>sr_decision = d, sr_counts = None, sr_committed = False\<rparr>"

definition prepareReservation ::
  "url_parser \<Rightarrow> scope_policy \<Rightarrow> string \<Rightarrow> string option \<Rightarrow> scope_reservation"
where
  "prepareReservation parse sp url seedUrl =
     (case parse url None of
        None \<Rightarrow> noReservation (denied ''Invalid URL'' ''url'')
      | Some parsed \<Rightarrow>
          let (key, scope) = compiledFor sp seedUrl;
              dk = directory_key key parsed;
              pk = pattern_key key parsed;
              dc = count_of (sp_directoryCounts sp) dk + 1;
              pc = count_of (sp_patternCounts sp) pk + 1
          in if dc > sc_maxUrlsPerDirectory (cs_config scope)
             then noReservation (denied ''Directory URL limit exceeded'' ''maxUrlsPerDirectory'')
             else if pc > sc_maxUrlsPerPathPattern (cs_config scope)
             then noReservation (denied ''Path pattern URL limit exceeded'' ''maxUrlsPerPathPattern'')
             else \<lparr>sr_decision = scope_allowed, sr_counts = Some ((dk, dc), (pk, pc)), sr_committed = False\<rparr>)"

definition commitReservation :: "scope_policy \<Rightarrow> scope_reservation \<Rightarrow> scope_policy \<times> scope_reservation" where
  "commitReservation sp r =
     (case sr_counts r of
        None \<Rightarrow> (sp, r)
      | Some ((dk, dc), (pk, pc)) \<Rightarrow>
          if sr_committed r then (sp, r)
          else (sp\<lparr>sp_directoryCounts := map_set dk dc (sp_directoryCounts sp),
                   sp_patternCounts := map_set pk pc (sp_patternCounts sp)\<rparr>,
                r\<lparr>sr_committed := True\<rparr>))"

definition restore_one :: "url_parser \<Rightarrow> scope_policy \<Rightarrow> crawl_request \<Rightarrow> scope_policy" where
  "restore_one parse sp r =
     (case parse (rq_normalizedUrl r) None of
        None \<Rightarrow> sp
      | Some parsed \<Rightarrow>
          let (key, scope) = compiledFor sp (Some (rq_seedUrl r));
              dk = directory_key key parsed;
              pk = pattern_key key parsed
          in sp\<lparr>sp_directoryCounts :=
                   map_set dk (count_of (sp_directoryCounts sp) dk + 1) (sp_directoryCounts sp),
                sp_patternCounts :=
                   map_set pk (count_of (sp_patternCounts sp) pk + 1) (sp_patternCounts sp)\<rparr>)"

definition restoreReservations :: "url_parser \<Rightarrow> scope_policy \<Rightarrow> crawl_request list \<Rightarrow> scope_policy" where
  "restoreReservations parse sp requests =
     foldl (restore_one parse) (sp\<lparr>sp_directoryCounts := [], sp_patternCounts := []\<rparr>) requests"

end
