(* ===== verification/Politeness.thy ===== *)
theory Politeness
  imports Records
begin

text \<open>
  Politeness per origin: class \<open>PolitenessController\<close> of \<open>politeness/index.ts\<close> with the delay
  arithmetic of \<open>politeness/model.ts\<close>, the types of \<open>politeness/types.ts\<close> and the request
  outcomes of \<open>crawler/types.ts\<close>.

  Numbers are exact rationals. \<open>now\<close> is \<open>Date.now()\<close>; its readings within one call are taken
  to be equal. The origin of a request, \<open>new URL(request.normalizedUrl).origin\<close>, is a
  parameter of the calls that take a request: the URL of a request always parses, since
  \<open>normalizeUrl\<close> has produced it. The notifier that wakes up waiting workers has no effect on
  the slots and is left out.
\<close>

section \<open>Configuration, outcomes and slots\<close>

record auto_throttle =
  at_enabled :: bool
  at_targetConcurrencyPerOrigin :: number
  at_startDelayMs :: number
  at_minDelayMs :: number
  at_maxDelayMs :: number
  at_smoothing :: number

datatype protocol_preference = PreferAuto | PreferHttp1 | PreferHttp2

record network_config =
  nc_maxConcurrency :: nat
  nc_maxConcurrencyPerOrigin :: nat
  nc_requestTimeoutMs :: number
  nc_connectTimeoutMs :: number
  nc_firstByteTimeoutMs :: number
  nc_maxRedirects :: int
  nc_retries :: number
  nc_retryBackoffMs :: number
  nc_respectRetryAfter :: bool
  nc_minDelayMsPerOrigin :: number
  nc_maxRequestsPerMinutePerOrigin :: "number option"
  nc_protocolPreference :: protocol_preference
  nc_rejectUnauthorized :: bool
  nc_autoThrottle :: auto_throttle
  nc_headers :: "(string \<times> string) list"

datatype outcome_kind = OutFetched | OutTransportFailed | OutRequestFailed | OutSkipped | OutCancelled

record request_outcome =
  oc_kind :: outcome_kind
  oc_statusCode :: "int option"
  oc_responseTimeMs :: number
  oc_latencyMs :: number

record origin_slot =
  os_active :: nat
  os_delayMs :: number
  os_nextAllowedAt :: number
  os_requests :: nat
  os_failures :: nat
  os_responseTimeTotalMs :: number
  os_latencyTotalMs :: number
  os_tokens :: number
  os_lastRefillAt :: number

type_synonym slots = "(string, origin_slot) jsmap"

datatype throttle_reason = ThrottleSuccess | ThrottleError | ThrottleRobots

record throttle_change =
  tc_origin :: string
  tc_previousDelayMs :: number
  tc_delayMs :: number
  tc_reason :: throttle_reason

section \<open>Delays\<close>

definition clamp :: "number \<Rightarrow> number \<Rightarrow> number \<Rightarrow> number" where
  "clamp value lo hi = max lo (min hi value)"

definition js_round :: "number \<Rightarrow> number" where
  "js_round x = of_int \<lfloor>x + 1 / 2\<rfloor>"

definition isFailure :: "request_outcome \<Rightarrow> bool" where
  "isFailure r \<longleftrightarrow>
     oc_kind r = OutTransportFailed \<or> oc_kind r = OutRequestFailed \<or>
     oc_statusCode r = Some 429 \<or> oc_statusCode r = Some 500 \<or> oc_statusCode r = Some 502 \<or>
     oc_statusCode r = Some 503 \<or> oc_statusCode r = Some 504"

definition adjustedDelay :: "network_config \<Rightarrow> origin_slot \<Rightarrow> request_outcome \<Rightarrow> bool \<Rightarrow> number" where
  "adjustedDelay cfg slot result failed =
     (let throttle = nc_autoThrottle cfg;
          target = clamp (oc_latencyMs result / at_targetConcurrencyPerOrigin throttle)
                     (at_minDelayMs throttle) (at_maxDelayMs throttle)
      in if failed
         then max (max (os_delayMs slot) target) (min (os_delayMs slot * 2) (at_maxDelayMs throttle))
         else js_round (clamp (os_delayMs slot * (1 - at_smoothing throttle) + target * at_smoothing throttle)
                          (at_minDelayMs throttle) (at_maxDelayMs throttle)))"

section \<open>The token bucket\<close>

definition usesRateLimit :: "network_config \<Rightarrow> bool" where
  "usesRateLimit cfg \<longleftrightarrow> nc_maxRequestsPerMinutePerOrigin cfg \<noteq> None"

definition rateCapacity :: "network_config \<Rightarrow> number" where
  "rateCapacity cfg = max 1 (of_nat (nc_maxConcurrencyPerOrigin cfg))"

definition rateIntervalMs :: "network_config \<Rightarrow> number" where
  "rateIntervalMs cfg =
     (case nc_maxRequestsPerMinutePerOrigin cfg of None \<Rightarrow> 0 | Some rate \<Rightarrow> 60000 / rate)"

definition refillTokens :: "network_config \<Rightarrow> number \<Rightarrow> origin_slot \<Rightarrow> origin_slot" where
  "refillTokens cfg now slot =
     (if \<not> usesRateLimit cfg then slot
      else let elapsed = now - os_lastRefillAt slot
           in slot\<lparr>os_lastRefillAt := now,
                   os_tokens := min (rateCapacity cfg) (os_tokens slot + elapsed / rateIntervalMs cfg)\<rparr>)"

definition eligibleAt :: "network_config \<Rightarrow> number \<Rightarrow> origin_slot \<Rightarrow> number" where
  "eligibleAt cfg now slot =
     (if \<not> usesRateLimit cfg \<or> os_tokens slot \<ge> 1 then os_nextAllowedAt slot
      else max (os_nextAllowedAt slot) (now + (1 - os_tokens slot) * rateIntervalMs cfg))"

section \<open>Operations\<close>

definition new_slot :: "network_config \<Rightarrow> number \<Rightarrow> origin_slot" where
  "new_slot cfg now =
     \<lparr>os_active = 0, os_delayMs = at_startDelayMs (nc_autoThrottle cfg), os_nextAllowedAt = now,
      os_requests = 0, os_failures = 0, os_responseTimeTotalMs = 0, os_latencyTotalMs = 0,
      os_tokens = rateCapacity cfg, os_lastRefillAt = now\<rparr>"

text \<open>\<open>slot(origin)\<close> adds the slot of a new origin to the map and returns it by reference.\<close>

definition slot_of :: "network_config \<Rightarrow> number \<Rightarrow> slots \<Rightarrow> string \<Rightarrow> origin_slot" where
  "slot_of cfg now slots origin =
     (case map_of slots origin of Some s \<Rightarrow> s | None \<Rightarrow> new_slot cfg now)"

text \<open>The decision of \<open>tryReserve\<close> on the slot, and the slot it leaves.\<close>

definition reserve_slot :: "network_config \<Rightarrow> number \<Rightarrow> origin_slot \<Rightarrow> bool \<times> origin_slot" where
  "reserve_slot cfg now slot0 =
     (let slot = refillTokens cfg now slot0 in
      if os_active slot \<ge> nc_maxConcurrencyPerOrigin cfg then (False, slot)
      else if now < eligibleAt cfg now slot then (False, slot)
      else if usesRateLimit cfg \<and> os_tokens slot < 1 then (False, slot)
      else let slot = slot\<lparr>os_active := os_active slot + 1\<rparr>
           in (True, if usesRateLimit cfg then slot\<lparr>os_tokens := os_tokens slot - 1\<rparr> else slot))"

definition tryReserve ::
  "network_config \<Rightarrow> (crawl_request \<Rightarrow> string) \<Rightarrow> number \<Rightarrow> slots \<Rightarrow> crawl_request \<Rightarrow> bool \<times> slots"
where
  "tryReserve cfg origin_of now slots request =
     (case reserve_slot cfg now (slot_of cfg now slots (origin_of request)) of
        (ok, slot) \<Rightarrow> (ok, map_set (origin_of request) slot slots))"

definition releaseReservation ::
  "network_config \<Rightarrow> (crawl_request \<Rightarrow> string) \<Rightarrow> number \<Rightarrow> slots \<Rightarrow> crawl_request \<Rightarrow> slots"
where
  "releaseReservation cfg origin_of now slots request =
     (let slot = slot_of cfg now slots (origin_of request)
      in map_set (origin_of request) (slot\<lparr>os_active := os_active slot - 1\<rparr>) slots)"

text \<open>\<open>applyRobotsDelay\<close>: the new slots, the change reported, and how long the caller waits.\<close>

definition applyRobotsDelay ::
  "network_config \<Rightarrow> number \<Rightarrow> slots \<Rightarrow> string \<Rightarrow> number \<Rightarrow> slots \<times> throttle_change option \<times> number"
where
  "applyRobotsDelay cfg now slots origin minimumDelayMs =
     (if minimumDelayMs \<le> 0 then (slots, None, 0)
      else let slot = slot_of cfg now slots origin;
               previous = os_delayMs slot;
               slot = slot\<lparr>os_delayMs := max (os_delayMs slot) minimumDelayMs,
                           os_nextAllowedAt := max (os_nextAllowedAt slot) (now + minimumDelayMs)\<rparr>
           in (map_set origin slot slots,
               if os_delayMs slot \<noteq> previous
               then Some \<lparr>tc_origin = origin, tc_previousDelayMs = previous, tc_delayMs = os_delayMs slot,
                          tc_reason = ThrottleRobots\<rparr>
               else None,
               max 0 (os_nextAllowedAt slot - now)))"

definition release_slot :: "network_config \<Rightarrow> number \<Rightarrow> origin_slot \<Rightarrow> request_outcome \<Rightarrow> origin_slot" where
  "release_slot cfg now slot result =
     (let failed = isFailure result;
          slot = slot\<lparr>os_active := os_active slot - 1,
                      os_requests := os_requests slot + 1,
                      os_responseTimeTotalMs := os_responseTimeTotalMs slot + oc_responseTimeMs result,
                      os_latencyTotalMs := os_latencyTotalMs slot + oc_latencyMs result,
                      os_failures := (if failed then os_failures slot + 1 else os_failures slot)\<rparr>;
          slot = (if at_enabled (nc_autoThrottle cfg)
                  then slot\<lparr>os_delayMs := adjustedDelay cfg slot result failed\<rparr> else slot)
      in slot\<lparr>os_nextAllowedAt :=
           now + max (max (nc_minDelayMsPerOrigin cfg) (rateIntervalMs cfg)) (os_delayMs slot)\<rparr>)"

definition politeness_release ::
  "network_config \<Rightarrow> number \<Rightarrow> slots \<Rightarrow> string \<Rightarrow> request_outcome \<Rightarrow> slots \<times> throttle_change option"
where
  "politeness_release cfg now slots origin result =
     (let slot = slot_of cfg now slots origin;
          slot' = release_slot cfg now slot result
      in (map_set origin slot' slots,
          if os_delayMs slot' \<noteq> os_delayMs slot
          then Some \<lparr>tc_origin = origin, tc_previousDelayMs = os_delayMs slot, tc_delayMs = os_delayMs slot',
                     tc_reason = (if isFailure result then ThrottleError else ThrottleSuccess)\<rparr>
          else None))"

fun eligible_loop :: "network_config \<Rightarrow> number \<Rightarrow> slots \<Rightarrow> number option \<Rightarrow> number option \<times> slots" where
  "eligible_loop cfg now [] best = (best, [])"
| "eligible_loop cfg now ((origin, slot) # rest) best =
     (if os_active slot \<ge> nc_maxConcurrencyPerOrigin cfg
      then (case eligible_loop cfg now rest best of (r, rest') \<Rightarrow> (r, (origin, slot) # rest'))
      else let slot = refillTokens cfg now slot;
               eligible = eligibleAt cfg now slot;
               best = (case best of None \<Rightarrow> Some eligible
                                | Some n \<Rightarrow> if eligible < n then Some eligible else best)
           in (case eligible_loop cfg now rest best of (r, rest') \<Rightarrow> (r, (origin, slot) # rest')))"

definition nextEligibleAt :: "network_config \<Rightarrow> number \<Rightarrow> slots \<Rightarrow> number option \<times> slots" where
  "nextEligibleAt cfg now slots = eligible_loop cfg now slots None"

definition availability_wait :: "network_config \<Rightarrow> number \<Rightarrow> slots \<Rightarrow> number \<Rightarrow> number \<times> slots" where
  "availability_wait cfg now slots fallbackMs =
     (case nextEligibleAt cfg now slots of
        (next, slots') \<Rightarrow>
          (case next of None \<Rightarrow> fallbackMs | Some n \<Rightarrow> max 1 (min fallbackMs (n - now)), slots'))"

record origin_stats =
  ot_origin :: string
  ot_requests :: nat
  ot_failures :: nat
  ot_averageResponseTimeMs :: number
  ot_averageLatencyMs :: number
  ot_currentDelayMs :: number
  ot_activeRequests :: nat
  ot_nextEligibleAt :: number

definition politeness_stats :: "network_config \<Rightarrow> number \<Rightarrow> slots \<Rightarrow> origin_stats list" where
  "politeness_stats cfg now slots =
     map (\<lambda>(origin, slot).
       \<lparr>ot_origin = origin, ot_requests = os_requests slot, ot_failures = os_failures slot,
        ot_averageResponseTimeMs =
          (if os_requests slot = 0 then 0 else os_responseTimeTotalMs slot / of_nat (os_requests slot)),
        ot_averageLatencyMs =
          (if os_requests slot = 0 then 0 else os_latencyTotalMs slot / of_nat (os_requests slot)),
        ot_currentDelayMs = os_delayMs slot, ot_activeRequests = os_active slot,
        ot_nextEligibleAt = eligibleAt cfg now slot\<rparr>) slots"

end
