(* ===== verification/Samples.thy ===== *)
theory Samples
  imports Journal Url_Scope Politeness
begin

text \<open>
  Concrete inputs on which the properties are evaluated: a URL parser that reads
  \<open>http://host/path?query#hash\<close>, a hash, a seed and requests. They are examples, not models of
  the platform's functions.
\<close>

definition sample_parse :: url_parser where
  "sample_parse raw base =
     (if take 7 raw = ''http://''
      then let rest = drop 7 raw;
               host = takeWhile (\<lambda>c. c \<noteq> CHR ''/'') rest;
               tail = dropWhile (\<lambda>c. c \<noteq> CHR ''/'') rest;
               before = takeWhile (\<lambda>c. c \<noteq> CHR ''#'') tail
           in Some \<lparr>u_protocol = ''http:'', u_username = [], u_password = [], u_hostname = host,
                    u_port = [], u_pathname = takeWhile (\<lambda>c. c \<noteq> CHR ''?'') before,
                    u_search = dropWhile (\<lambda>c. c \<noteq> CHR ''?'') before,
                    u_hash = dropWhile (\<lambda>c. c \<noteq> CHR ''#'') tail\<rparr>
      else None)"

definition sample_hash :: hash where
  "sample_hash x = replicate (fst x) CHR ''h''"

definition sample_scope :: scope_config where
  "sample_scope =
     \<lparr>sc_mode = ScopeHost, sc_include = [], sc_exclude = [], sc_allowedHosts = [], sc_deniedHosts = [],
      sc_maxUrlLength = 100, sc_maxPathSegments = 10, sc_maxQueryParams = 5,
      sc_maxUrlsPerDirectory = 2, sc_maxUrlsPerPathPattern = 3\<rparr>"

definition sample_seed :: resolved_seed where
  "sample_seed =
     \<lparr>sd_url = ''http://a/'', sd_normalizedUrl = ''http://a/'', sd_scope = sample_scope,
      sd_maxDepth = None, sd_maxScheduledRequests = None, sd_label = None\<rparr>"

definition sample_request :: "string \<Rightarrow> number \<Rightarrow> number \<Rightarrow> crawl_request" where
  "sample_request path priority depth =
     \<lparr>rq_id = ''req_'' @ path, rq_uniqueKey = ''http://a'' @ path @ ''#GET'',
      rq_rawUrl = ''http://a'' @ path, rq_resolvedUrl = ''http://a'' @ path,
      rq_normalizedUrl = ''http://a'' @ path, rq_referrerUrl = None, rq_source = Seed,
      rq_seedUrl = ''http://a/'', rq_seedLabel = None, rq_depth = depth, rq_sitemapIndexDepth = 0,
      rq_sitemapAncestors = [], rq_priority = priority, rq_method = GET, rq_headers = [],
      rq_renderPolicy = RenderNever, rq_retryCount = 0, rq_maxRetries = 2, rq_createdAt = 0,
      rq_updatedAt = 0, rq_userData = []\<rparr>"

definition sample_entry :: "journal_body \<Rightarrow> unsequenced_record" where
  "sample_entry b = \<lparr>ur_body = b, ur_createdAt = 0\<rparr>"

text \<open>The journal of a list of transitions.\<close>

definition sample_journal :: "journal_body list \<Rightarrow> journal_record list" where
  "sample_journal bs = foldl (\<lambda>rs b. rs @ [next_record sample_hash rs (sample_entry b)]) [] bs"

definition sample_network :: network_config where
  "sample_network = \<lparr>nc_maxConcurrency = 4, nc_maxConcurrencyPerOrigin = 2, nc_requestTimeoutMs = 30000,
     nc_connectTimeoutMs = 10000, nc_firstByteTimeoutMs = 15000, nc_maxRedirects = 5, nc_retries = 2,
     nc_retryBackoffMs = 500, nc_respectRetryAfter = True, nc_minDelayMsPerOrigin = 10,
     nc_maxRequestsPerMinutePerOrigin = Some 60, nc_protocolPreference = PreferAuto,
     nc_rejectUnauthorized = True,
     nc_autoThrottle = \<lparr>at_enabled = True, at_targetConcurrencyPerOrigin = 1, at_startDelayMs = 100,
       at_minDelayMs = 50, at_maxDelayMs = 1000, at_smoothing = 1 / 2\<rparr>,
     nc_headers = []\<rparr>"

end
