(* ===== verification/Journal_Properties.thy ===== *)
theory Journal_Properties
  imports Samples
begin

text \<open>
  What the journal promises: validation accepts exactly the checksum chains whose requests
  follow the request lifecycle, the last checksum authenticates the whole journal, recovery
  sorts every unfinished request into exactly one of pending and deferred, and the journal
  that a resumed run extends.
\<close>

section \<open>The request lifecycle, as an abstract specification\<close>

datatype life = Unknown | Waiting | LeasedTo string | Ended

fun life_step :: "life \<Rightarrow> journal_body \<Rightarrow> life option" where
  "life_step Unknown (JEnqueued r) = Some Waiting"
| "life_step Waiting (JLeased i l e) = Some (LeasedTo l)"
| "life_step (LeasedTo l') (JRenewed i l e) = (if l = l' then Some (LeasedTo l) else None)"
| "life_step (LeasedTo l') (JReleased i l m) = (if l = l' then Some Waiting else None)"
| "life_step (LeasedTo l') (JFinished s i l m) = (if l = l' then Some Ended else None)"
| "life_step _ _ = None"

fun life_run :: "life \<Rightarrow> journal_body list \<Rightarrow> life option" where
  "life_run x [] = Some x"
| "life_run x (b # bs) = (case life_step x b of None \<Rightarrow> None | Some y \<Rightarrow> life_run y bs)"

definition life_of :: "request_journal_state option \<Rightarrow> life" where
  "life_of s = (case s of
       None \<Rightarrow> Unknown
     | Some c \<Rightarrow> if js_terminal c then Ended
                 else case js_leaseId c of None \<Rightarrow> Waiting | Some l \<Rightarrow> LeasedTo l)"

definition history :: "string \<Rightarrow> journal_record list \<Rightarrow> journal_body list" where
  "history i rs = filter (\<lambda>b. journal_request_id b = i) (map (ur_body \<circ> jr_entry) rs)"

text \<open>The chain that validation checks, stated without the loop.\<close>

definition chain_ok :: "hash \<Rightarrow> journal_record list \<Rightarrow> bool" where
  "chain_ok H rs \<longleftrightarrow>
     (\<forall>i < length rs. jr_sequence (rs ! i) = i + 1 \<and> jr_checksum (rs ! i) = checksumFor H (rs ! i)
        \<and> jr_previousChecksum (rs ! i) = (if i = 0 then None else Some (jr_checksum (rs ! (i - 1)))))"

lemma life_run_append:
  "life_run x (bs @ cs) = (case life_run x bs of None \<Rightarrow> None | Some y \<Rightarrow> life_run y cs)"
  by (induction x bs rule: life_run.induct) (auto split: option.splits)

definition link_ok :: "hash \<Rightarrow> journal_record list \<Rightarrow> nat \<Rightarrow> bool" where
  "link_ok H rs i \<longleftrightarrow>
     jr_sequence (rs ! i) = i + 1 \<and> jr_checksum (rs ! i) = checksumFor H (rs ! i)
        \<and> jr_previousChecksum (rs ! i) = (if i = 0 then None else Some (jr_checksum (rs ! (i - 1))))"

lemma link_ok_append: "i < length rs \<Longrightarrow> link_ok H (rs @ [r]) i = link_ok H rs i"
  by (auto simp: link_ok_def nth_append)

lemma chain_ok_snoc:
  "chain_ok H (rs @ [r]) \<longleftrightarrow> chain_ok H rs \<and> jr_sequence r = length rs + 1 \<and>
     jr_checksum r = checksumFor H r \<and>
     jr_previousChecksum r = (if rs = [] then None else Some (jr_checksum (last rs)))"
proof -
  have "chain_ok H (rs @ [r]) \<longleftrightarrow> (\<forall>i < Suc (length rs). link_ok H (rs @ [r]) i)"
    by (simp only: chain_ok_def link_ok_def length_append_singleton)
  also have "\<dots> \<longleftrightarrow> (\<forall>i < length rs. link_ok H (rs @ [r]) i) \<and> link_ok H (rs @ [r]) (length rs)"
    by (metis less_Suc_eq)
  also have "(\<forall>i < length rs. link_ok H (rs @ [r]) i) \<longleftrightarrow> chain_ok H rs"
    by (simp add: link_ok_append) (simp add: chain_ok_def link_ok_def)
  finally show ?thesis by (auto simp: link_ok_def nth_append last_conv_nth)
qed

lemma applyTransition_life:
  "applyTransition b states = Inr states' \<Longrightarrow>
     life_step (life_of (map_of states (journal_request_id b))) b
       = Some (life_of (map_of states' (journal_request_id b))) \<and>
     (\<forall>k. k \<noteq> journal_request_id b \<longrightarrow> map_of states' k = map_of states k)"
  by (cases b) (auto simp: life_of_def split: if_splits option.splits)

lemma applyTransition_accepts:
  "(\<exists>states'. applyTransition b states = Inr states') \<longleftrightarrow>
     life_step (life_of (map_of states (journal_request_id b))) b \<noteq> None"
  by (cases b) (auto simp: life_of_def split: if_splits option.splits)

lemma history_snoc:
  "history i (rs @ [r]) =
     history i rs @ (if journal_request_id (ur_body (jr_entry r)) = i then [ur_body (jr_entry r)] else [])"
  by (simp add: history_def)

lemma validateJournal_snoc_Inr:
  "validateJournal H (rs @ [r]) = Inr states' \<longleftrightarrow>
     (\<exists>states. validateJournal H rs = Inr states \<and> jr_sequence r = length rs + 1 \<and>
        jr_checksum r = checksumFor H r \<and>
        jr_previousChecksum r = (if rs = [] then None else Some (jr_checksum (last rs))) \<and>
        applyTransition (ur_body (jr_entry r)) states = Inr states')"
proof (cases "validateJournal H rs")
  case (Inl e)
  then have "validateJournal H (rs @ [r]) = Inl e"
    by (simp add: validateJournal_def validate_loop_append)
  with Inl show ?thesis by simp
next
  case (Inr states)
  from validateJournal_snoc [OF Inr, of r] Inr show ?thesis by (auto split: if_splits)
qed

lemma validateJournal_life:
  "validateJournal H rs = Inr states \<Longrightarrow>
     chain_ok H rs \<and> (\<forall>i. life_run Unknown (history i rs) = Some (life_of (map_of states i)))"
proof (induction rs arbitrary: states rule: rev_induct)
  case Nil
  then show ?case
    by (auto simp: chain_ok_def history_def validateJournal_def life_of_def)
next
  case (snoc r rs)
  from snoc.prems obtain s0 where s0: "validateJournal H rs = Inr s0"
    and ok: "jr_sequence r = length rs + 1" "jr_checksum r = checksumFor H r"
      "jr_previousChecksum r = (if rs = [] then None else Some (jr_checksum (last rs)))"
    and step: "applyTransition (ur_body (jr_entry r)) s0 = Inr states"
    by (auto simp: validateJournal_snoc_Inr)
  from snoc.IH [OF s0] ok have "chain_ok H (rs @ [r])" by (simp add: chain_ok_snoc)
  moreover have "life_run Unknown (history i (rs @ [r])) = Some (life_of (map_of states i))" for i
    using snoc.IH [OF s0] applyTransition_life [OF step]
    by (auto simp: history_snoc life_run_append)
  ultimately show ?case by blast
qed

lemma validateJournal_complete:
  "chain_ok H rs \<Longrightarrow> (\<And>i. life_run Unknown (history i rs) \<noteq> None) \<Longrightarrow>
     \<exists>states. validateJournal H rs = Inr states"
proof (induction rs rule: rev_induct)
  case Nil
  then show ?case by (simp add: validateJournal_def)
next
  case (snoc r rs)
  have "life_run Unknown (history i rs) \<noteq> None" for i
    using snoc.prems(2) [of i] by (auto simp: history_snoc life_run_append split: option.splits)
  with snoc.IH snoc.prems(1) obtain s0 where s0: "validateJournal H rs = Inr s0"
    by (auto simp: chain_ok_snoc)
  let ?b = "ur_body (jr_entry r)"
  from snoc.prems(2) [of "journal_request_id ?b"] validateJournal_life [OF s0]
  have "life_step (life_of (map_of s0 (journal_request_id ?b))) ?b \<noteq> None"
    by (auto simp: history_snoc life_run_append split: option.splits)
  then obtain s1 where "applyTransition ?b s0 = Inr s1"
    using applyTransition_accepts by blast
  with s0 snoc.prems(1) show ?case by (auto simp: validateJournal_snoc_Inr chain_ok_snoc)
qed

text \<open>
  C3: Validation of the frontier journal accepts a list of records exactly when their
  sequence numbers and checksums form a chain starting at 1 and the records of every request
  follow its lifecycle: enqueued once, then leased, renewed, released or finished under the
  current lease, and nothing after it has finished.
\<close>

theorem validateJournal_iff_lifecycle:
  "(\<exists>states. validateJournal H rs = Inr states) \<longleftrightarrow>
     chain_ok H rs \<and> (\<forall>i. life_run Unknown (history i rs) \<noteq> None)"
  using validateJournal_life [of H rs] validateJournal_complete [of H rs] by (metis option.distinct(1))

section \<open>The chain authenticates the journal\<close>

lemma journal_record_eqI:
  "jr_sequence r = jr_sequence r' \<Longrightarrow> jr_previousChecksum r = jr_previousChecksum r' \<Longrightarrow>
   jr_checksum r = jr_checksum r' \<Longrightarrow> jr_entry r = jr_entry r' \<Longrightarrow> r = (r' :: journal_record)"
  by simp

lemma chain_ok_eq:
  assumes inj: "\<And>x y. H x = H y \<Longrightarrow> x = y"
  shows "chain_ok H rs \<Longrightarrow> chain_ok H rs' \<Longrightarrow> rs \<noteq> [] \<Longrightarrow> rs' \<noteq> [] \<Longrightarrow>
     jr_checksum (last rs) = jr_checksum (last rs') \<Longrightarrow> rs = rs'"
proof (induction rs arbitrary: rs' rule: rev_induct)
  case Nil
  then show ?case by simp
next
  case (snoc r rs)
  from snoc.prems(4) obtain qs q where rs': "rs' = qs @ [q]" by (metis rev_exhaust)
  with snoc.prems have same: "checksumFor H r = checksumFor H q" "jr_checksum r = jr_checksum q"
    by (simp_all add: chain_ok_snoc)
  from inj [OF same(1) [unfolded checksumFor_def journalChecksum_def]]
  have eq: "jr_sequence r = jr_sequence q" "jr_previousChecksum r = jr_previousChecksum q"
      "jr_entry r = jr_entry q" by simp_all
  with snoc.prems rs' have len: "length rs = length qs"
    and prev: "(if rs = [] then None else Some (jr_checksum (last rs)))
       = (if qs = [] then None else Some (jr_checksum (last qs)))"
    by (simp_all add: chain_ok_snoc)
  have "rs = qs"
  proof (cases "rs = []")
    case True
    with len show ?thesis by simp
  next
    case False
    with len have "qs \<noteq> []" by auto
    with False prev have "jr_checksum (last rs) = jr_checksum (last qs)" by simp
    with \<open>qs \<noteq> []\<close> snoc.IH [of qs] snoc.prems(1,2) rs' False show ?thesis by (simp add: chain_ok_snoc)
  qed
  moreover from eq same(2) have "r = q" by (intro journal_record_eqI) simp_all
  ultimately show ?case using rs' by simp
qed

text \<open>
  The last checksum authenticates the whole journal. Two non-empty journals that both
  pass validation and end in the same checksum are the same record for record, or the hash
  function has a collision.
\<close>

theorem journal_last_checksum_authenticates:
  assumes "validateJournal H rs = Inr a" and "validateJournal H rs' = Inr b"
    and "rs \<noteq> []" and "rs' \<noteq> []" and "jr_checksum (last rs) = jr_checksum (last rs')"
  shows "rs = rs' \<or> (\<exists>x y. x \<noteq> y \<and> H x = H y)"
  using assms chain_ok_eq [of H rs rs'] validateJournal_life [of H rs] validateJournal_life [of H rs']
  by blast

lemma journal_last_checksum_authenticates_witness:
  "sample_journal [JEnqueued (sample_request ''/x'' 1 0)] = sample_journal [JEnqueued (sample_request ''/y'' 1 0)]
     \<or> (\<exists>x y. x \<noteq> y \<and> sample_hash x = sample_hash y)"
  by (rule journal_last_checksum_authenticates [where
        a = "[(''req_/x'', \<lparr>js_request = sample_request ''/x'' 1 0, js_terminal = False, js_leaseId = None\<rparr>)]" and
        b = "[(''req_/y'', \<lparr>js_request = sample_request ''/y'' 1 0, js_terminal = False, js_leaseId = None\<rparr>)]"])
    code_simp+

section \<open>Recovery\<close>

definition unfinished :: "journal_states \<Rightarrow> crawl_request multiset" where
  "unfinished states = mset (map js_request (filter (\<lambda>s. \<not> js_terminal s) (map_values states)))"

lemma maps_match_values:
  assumes "maps_match vs rs" and "wf_map vs"
  shows "list_all2 rec_matches (map_values vs) (map_values rs)"
proof -
  have wf: "wf_map rs" using assms by (simp add: maps_match_def)
  have keys: "map fst vs = map fst rs" using assms(1) by (simp add: maps_match_def)
  then have len: "length vs = length rs" by (metis length_map)
  have "rec_matches (snd (vs ! i)) (snd (rs ! i))" if "i < length vs" for i
  proof -
    have k: "fst (vs ! i) = fst (rs ! i)" using keys that len by (metis nth_map)
    have "map_of vs (fst (vs ! i)) = Some (snd (vs ! i))"
      using that assms(2) by (simp add: map_of_eq_Some_iff)
    moreover have "map_of rs (fst (rs ! i)) = Some (snd (rs ! i))"
      using that len wf by (simp add: map_of_eq_Some_iff)
    ultimately show ?thesis
      using assms(1) k by (metis maps_match_def option.rel_inject(2))
  qed
  with len show ?thesis by (simp add: list_all2_conv_all_nth)
qed

lemma recover_partition:
  "list_all2 rec_matches vs rs \<Longrightarrow>
     mset (map rc_request (filter (\<lambda>s. \<not> rc_terminal s \<and>
        (case rc_leaseExpiresAt s of None \<Rightarrow> True | Some e \<Rightarrow> e \<le> now)) rs)) +
     mset (map rc_request (filter (\<lambda>s. \<not> rc_terminal s \<and>
        (case rc_leaseExpiresAt s of None \<Rightarrow> False | Some e \<Rightarrow> now < e)) rs))
     = mset (map js_request (filter (\<lambda>s. \<not> js_terminal s) vs))"
  by (induction rule: list_all2_induct) (auto simp: rec_matches_def split: option.splits)

lemma recover_requests:
  "list_all2 rec_matches vs rs \<Longrightarrow> map rc_request rs = map js_request vs"
  by (induction rule: list_all2_induct) (auto simp: rec_matches_def)

lemma recoverFrontier_lists:
  "rf_requests (recoverFrontier rs now) = map rc_request (map_values (recover_states rs))"
  "rf_pending (recoverFrontier rs now) = map rc_request (filter (\<lambda>s. \<not> rc_terminal s \<and>
      (case rc_leaseExpiresAt s of None \<Rightarrow> True | Some e \<Rightarrow> e \<le> now)) (map_values (recover_states rs)))"
  "rf_deferred (recoverFrontier rs now) = map (\<lambda>s. \<lparr>df_request = rc_request s,
      df_expiresAt = the (rc_leaseExpiresAt s)\<rparr>) (filter (\<lambda>s. \<not> rc_terminal s \<and>
      (case rc_leaseExpiresAt s of None \<Rightarrow> False | Some e \<Rightarrow> now < e)) (map_values (recover_states rs)))"
  by (simp_all add: recoverFrontier_def recover_classify_eq Let_def)

lemma recoverFrontier_partition:
  assumes "validateJournal H rs = Inr states"
  shows "rf_requests (recoverFrontier rs now) = map js_request (map_values states)
    \<and> mset (rf_pending (recoverFrontier rs now))
        + mset (map df_request (rf_deferred (recoverFrontier rs now))) = unfinished states
    \<and> list_all (\<lambda>d. now < df_expiresAt d) (rf_deferred (recoverFrontier rs now))"
proof -
  have match: "list_all2 rec_matches (map_values states) (map_values (recover_states rs))"
    by (rule maps_match_values [OF validated_recover_match [OF assms] validateJournal_wf [OF assms]])
  have "mset (map df_request (rf_deferred (recoverFrontier rs now))) =
      mset (map rc_request (filter (\<lambda>s. \<not> rc_terminal s \<and>
        (case rc_leaseExpiresAt s of None \<Rightarrow> False | Some e \<Rightarrow> now < e)) (map_values (recover_states rs))))"
    by (simp add: recoverFrontier_lists comp_def)
  moreover have "list_all (\<lambda>d. now < df_expiresAt d) (rf_deferred (recoverFrontier rs now))"
    by (auto simp: recoverFrontier_lists list_all_iff split: option.splits)
  ultimately show ?thesis
    using recover_partition [OF match, of now] recover_requests [OF match]
    by (simp add: recoverFrontier_lists unfinished_def)
qed

text \<open>
  C10: Recovery loses and duplicates no work. From a journal that passes validation it
  returns every request the journal knows, and puts every unfinished request into exactly
  one of the pending and the deferred list, every deferred one with a lease that has not
  expired yet.
\<close>

theorem recovery_partitions_unfinished:
  assumes "validateJournal H rs = Inr states"
  shows "rf_requests (recoverFrontier rs now) = map js_request (map_values states)
    \<and> mset (rf_pending (recoverFrontier rs now))
        + mset (map df_request (rf_deferred (recoverFrontier rs now))) = unfinished states
    \<and> list_all (\<lambda>d. now < df_expiresAt d) (rf_deferred (recoverFrontier rs now))"
  using assms by (rule recoverFrontier_partition)

lemma recovery_partitions_unfinished_witness:
  "rf_pending (recoverFrontier (sample_journal
       [JEnqueued (sample_request ''/x'' 1 0), JEnqueued (sample_request ''/y'' 1 0),
        JLeased ''req_/x'' ''l'' 50]) 20) = [sample_request ''/y'' 1 0] \<and>
   mset (rf_pending (recoverFrontier (sample_journal
       [JEnqueued (sample_request ''/x'' 1 0), JEnqueued (sample_request ''/y'' 1 0),
        JLeased ''req_/x'' ''l'' 50]) 20)) +
   mset (map df_request (rf_deferred (recoverFrontier (sample_journal
       [JEnqueued (sample_request ''/x'' 1 0), JEnqueued (sample_request ''/y'' 1 0),
        JLeased ''req_/x'' ''l'' 50]) 20))) =
   unfinished
    [(''req_/x'', \<lparr>js_request = sample_request ''/x'' 1 0, js_terminal = False, js_leaseId = Some ''l''\<rparr>),
     (''req_/y'', \<lparr>js_request = sample_request ''/y'' 1 0, js_terminal = False, js_leaseId = None\<rparr>)]"
proof -
  have "validateJournal sample_hash (sample_journal
       [JEnqueued (sample_request ''/x'' 1 0), JEnqueued (sample_request ''/y'' 1 0),
        JLeased ''req_/x'' ''l'' 50]) = Inr [(''req_/x'', \<lparr>js_request = sample_request ''/x'' 1 0, js_terminal = False, js_leaseId = Some ''l''\<rparr>),
     (''req_/y'', \<lparr>js_request = sample_request ''/y'' 1 0, js_terminal = False, js_leaseId = None\<rparr>)]"
    by code_simp
  from recovery_partitions_unfinished [OF this, of 20] show ?thesis
    by (auto simp: recoverFrontier_def) code_simp
qed

lemma relet_rejected:
  assumes "validateJournal H rs = Inr states" and "map_of states i = Some s"
    and "\<not> js_terminal s" and "js_leaseId s \<noteq> None"
  shows "validateJournal H
      (rs @ [next_record H rs \<lparr>ur_body = JLeased i l' e', ur_createdAt = t\<rparr>]) = Inl (InvalidLease i)"
  using assms by (simp add: validateJournal_next)

end
