(* ===== verification/Frontier_Backend.thy ===== *)
theory Frontier_Backend
  imports Frontier_Queue Journal_Properties Url_Scope
begin

text \<open>
  The journal-backed frontier: the lease manager (\<open>frontier/lease-manager.ts\<close>), the request
  factory (\<open>frontier/request-factory.ts\<close>), the enqueuer (\<open>frontier/enqueuer.ts\<close>) and the
  backend that composes them (\<open>frontier/backends/journal-backend.ts\<close>). The in-memory frontier
  is this backend with the journal file disabled.

  What the platform provides is the record \<open>platform\<close>: \<open>sha256\<close> as a function on strings, the
  hash of a serialised journal record, \<open>toISOString\<close> and the URL parser. \<open>now\<close> is the clock;
  its readings within one operation are taken to be equal. \<open>ok\<close> tells whether the journal
  append of the operation is resolved (True) or rejected (False); the journal is the list of
  the records appended so far (\<open>Journal_File\<close> relates it to the file).
\<close>

section \<open>Platform and configuration\<close>

record platform =
  pf_sha256 :: "string \<Rightarrow> string"
  pf_hash :: hash
  pf_iso :: "timestamp \<Rightarrow> string"
  pf_parse :: url_parser

definition makeId :: "platform \<Rightarrow> string \<Rightarrow> string \<Rightarrow> string" where
  "makeId pf prefix input = prefix @ ''_'' @ take 24 (pf_sha256 pf input)"

record frontier_config =
  fc_runId :: string
  fc_order :: frontier_order
  fc_resume :: bool                 \<comment> \<open>\<open>config.storage.resumeFrom !== null\<close>\<close>
  fc_leaseDurationMs :: int
  fc_maxDepth :: number
  fc_maxQueueSize :: nat
  fc_renderMode :: render_policy
  fc_retries :: number

section \<open>The request factory\<close>

definition factory_create ::
  "platform \<Rightarrow> frontier_config \<Rightarrow> timestamp \<Rightarrow> enqueue_input \<Rightarrow> string \<Rightarrow> string \<Rightarrow> string \<Rightarrow> crawl_request"
where
  "factory_create pf cfg now input uniqueKey resolvedUrl normalizedUrl =
     \<lparr>rq_id = makeId pf ''req'' (fc_runId cfg @ '':'' @ uniqueKey),
      rq_uniqueKey = uniqueKey,
      rq_rawUrl = ei_rawUrl input,
      rq_resolvedUrl = resolvedUrl,
      rq_normalizedUrl = normalizedUrl,
      rq_referrerUrl = ei_referrerUrl input,
      rq_source = ei_source input,
      rq_seedUrl = sd_normalizedUrl (ei_seed input),
      rq_seedLabel = sd_label (ei_seed input),
      rq_depth = ei_depth input,
      rq_sitemapIndexDepth = (case ei_sitemapIndexDepth input of None \<Rightarrow> 0 | Some d \<Rightarrow> d),
      rq_sitemapAncestors = (case ei_sitemapAncestors input of None \<Rightarrow> [] | Some a \<Rightarrow> a),
      rq_priority = priorityForSource (ei_source input),
      rq_method = GET,
      rq_headers = [],
      rq_renderPolicy = fc_renderMode cfg,
      rq_retryCount = 0,
      rq_maxRetries = fc_retries cfg,
      rq_createdAt = now,
      rq_updatedAt = now,
      rq_userData = []\<rparr>"

definition factory_discovery ::
  "frontier_config \<Rightarrow> timestamp \<Rightarrow> enqueue_input \<Rightarrow> string \<Rightarrow> string option \<Rightarrow> string option
     \<Rightarrow> string option \<Rightarrow> bool \<Rightarrow> discovery_record"
where
  "factory_discovery cfg now input uniqueKey requestId resolvedUrl normalizedUrl firstSeen =
     \<lparr>dr_runId = fc_runId cfg,
      dr_uniqueKey = uniqueKey,
      dr_requestId = requestId,
      dr_rawUrl = ei_rawUrl input,
      dr_resolvedUrl = resolvedUrl,
      dr_normalizedUrl = normalizedUrl,
      dr_referrerUrl = ei_referrerUrl input,
      dr_source = ei_source input,
      dr_seedUrl = sd_normalizedUrl (ei_seed input),
      dr_seedLabel = sd_label (ei_seed input),
      dr_depth = ei_depth input,
      dr_firstSeen = firstSeen,
      dr_decision = \<lparr>ed_status = (if firstSeen then Enqueued else AlreadySeen), ed_reason = None,
                     ed_requestId = requestId\<rparr>,
      dr_createdAt = now\<rparr>"

definition factory_skipped ::
  "platform \<Rightarrow> frontier_config \<Rightarrow> timestamp \<Rightarrow> enqueue_input \<Rightarrow> skip_reason \<Rightarrow> string \<Rightarrow> string \<Rightarrow> enqueue_result"
where
  "factory_skipped pf cfg now input reason policyName detail =
     (let normalized = normalizeUrl (pf_parse pf) (ei_rawUrl input) (ei_referrerUrl input);
          skipped =
            \<lparr>sk_runId = fc_runId cfg,
             sk_rawUrl = ei_rawUrl input,
             sk_resolvedUrl = (case normalized of Inr n \<Rightarrow> Some (nu_resolvedUrl n) | Inl _ \<Rightarrow> None),
             sk_normalizedUrl = (case normalized of Inr n \<Rightarrow> Some (nu_normalizedUrl n) | Inl _ \<Rightarrow> None),
             sk_referrerUrl = ei_referrerUrl input,
             sk_reason = reason,
             sk_policyName = Some policyName,
             sk_detail = Some detail,
             sk_createdAt = now\<rparr>
      in \<lparr>er_decision = \<lparr>ed_status = decisionStatusForSkip reason, ed_reason = Some detail,
                         ed_requestId = None\<rparr>,
          er_request = None, er_skipped = Some skipped, er_discovery = None, er_state = None\<rparr>)"

definition duplicateEnqueueResult :: "crawl_request \<Rightarrow> discovery_record \<Rightarrow> enqueue_result" where
  "duplicateEnqueueResult existing discovery =
     \<lparr>er_decision = \<lparr>ed_status = AlreadySeen, ed_reason = Some ''Duplicate normalized URL'',
                     ed_requestId = Some (rq_id existing)\<rparr>,
      er_request = None, er_skipped = None, er_discovery = Some discovery, er_state = None\<rparr>"

definition createStateRecord ::
  "string \<Rightarrow> timestamp \<Rightarrow> crawl_request \<Rightarrow> request_state \<Rightarrow> string option \<Rightarrow> request_state_record"
where
  "createStateRecord runId now request state reason =
     \<lparr>rs_runId = runId, rs_requestId = rq_id request, rs_uniqueKey = rq_uniqueKey request,
      rs_state = state, rs_reason = reason, rs_updatedAt = now\<rparr>"

section \<open>State\<close>

record journal_backend =
  jb_state :: frontier_state
  jb_active :: "(string, request_lease) jsmap"
  jb_states :: "(string, request_state) jsmap"
  jb_log :: "journal_record list"
  jb_open :: bool

datatype frontier_error = JournalIsClosing | JournalWriteFailed | StaleLease string

definition new_backend :: "frontier_config \<Rightarrow> journal_record list \<Rightarrow> journal_backend" where
  "new_backend cfg records =
     \<lparr>jb_state = new_state (fc_order cfg), jb_active = [], jb_states = [], jb_log = records,
      jb_open = True\<rparr>"

definition backend_size :: "journal_backend \<Rightarrow> nat" where
  "backend_size jb = state_size (jb_state jb)"

definition backend_outstandingCount :: "journal_backend \<Rightarrow> nat" where
  "backend_outstandingCount jb = state_size (jb_state jb) + length (jb_active jb)"

definition log_append ::
  "platform \<Rightarrow> bool \<Rightarrow> journal_backend \<Rightarrow> unsequenced_record \<Rightarrow> (frontier_error, journal_backend) result"
where
  "log_append pf ok jb u =
     (if \<not> jb_open jb then Inl JournalIsClosing
      else if \<not> ok then Inl JournalWriteFailed
      else Inr (jb\<lparr>jb_log := jb_log jb @ [next_record (pf_hash pf) (jb_log jb) u]\<rparr>))"

section \<open>The lease manager\<close>

definition lease_restorePending :: "journal_backend \<Rightarrow> crawl_request \<Rightarrow> journal_backend" where
  "lease_restorePending jb r = jb\<lparr>jb_states := map_set (rq_id r) Pending (jb_states jb)\<rparr>"

definition lease_lease ::
  "platform \<Rightarrow> frontier_config \<Rightarrow> timestamp \<Rightarrow> bool \<Rightarrow> journal_backend \<Rightarrow> crawl_request
     \<Rightarrow> (frontier_error, request_lease \<times> journal_backend) result"
where
  "lease_lease pf cfg now ok jb request =
     (let lease = \<lparr>ls_leaseId = makeId pf ''lease'' (rq_id request @ '':'' @ pf_iso pf now),
                   ls_request = request, ls_leasedAt = now,
                   ls_expiresAt = now + fc_leaseDurationMs cfg\<rparr>
      in bind_result
           (log_append pf ok jb
              \<lparr>ur_body = JLeased (rq_id request) (ls_leaseId lease) (ls_expiresAt lease), ur_createdAt = now\<rparr>)
           (\<lambda>jb'. Inr (lease, jb'\<lparr>jb_active := map_set (rq_id request) lease (jb_active jb'),
                                 jb_states := map_set (rq_id request) InProgress (jb_states jb')\<rparr>)))"

definition assertActive :: "journal_backend \<Rightarrow> request_lease \<Rightarrow> bool" where
  "assertActive jb lease \<longleftrightarrow>
     map_option ls_leaseId (map_of (jb_active jb) (rq_id (ls_request lease))) = Some (ls_leaseId lease)"

definition lease_renew ::
  "platform \<Rightarrow> frontier_config \<Rightarrow> timestamp \<Rightarrow> bool \<Rightarrow> journal_backend \<Rightarrow> request_lease
     \<Rightarrow> (frontier_error, request_lease \<times> journal_backend) result"
where
  "lease_renew pf cfg now ok jb lease =
     (if \<not> assertActive jb lease then Inl (StaleLease (rq_id (ls_request lease)))
      else let renewed = lease\<lparr>ls_expiresAt := now + fc_leaseDurationMs cfg\<rparr>
           in bind_result
                (log_append pf ok jb
                   \<lparr>ur_body = JRenewed (rq_id (ls_request lease)) (ls_leaseId lease) (ls_expiresAt renewed),
                    ur_createdAt = now\<rparr>)
                (\<lambda>jb'. Inr (renewed, jb'\<lparr>jb_active :=
                    map_set (rq_id (ls_request lease)) renewed (jb_active jb')\<rparr>)))"

definition lease_release ::
  "platform \<Rightarrow> frontier_config \<Rightarrow> timestamp \<Rightarrow> bool \<Rightarrow> journal_backend \<Rightarrow> request_lease \<Rightarrow> string option
     \<Rightarrow> (frontier_error, request_state_record \<times> journal_backend) result"
where
  "lease_release pf cfg now ok jb lease reason =
     (if \<not> assertActive jb lease then Inl (StaleLease (rq_id (ls_request lease)))
      else bind_result
             (log_append pf ok jb
                \<lparr>ur_body = JReleased (rq_id (ls_request lease)) (ls_leaseId lease) reason, ur_createdAt = now\<rparr>)
             (\<lambda>jb'. Inr (createStateRecord (fc_runId cfg) now (ls_request lease) Pending reason,
                  jb'\<lparr>jb_active := map_delete (rq_id (ls_request lease)) (jb_active jb'),
                      jb_states := map_set (rq_id (ls_request lease)) Pending (jb_states jb')\<rparr>)))"

definition lease_finish ::
  "platform \<Rightarrow> frontier_config \<Rightarrow> timestamp \<Rightarrow> bool \<Rightarrow> journal_backend \<Rightarrow> request_lease
     \<Rightarrow> terminal_request_state \<Rightarrow> string option \<Rightarrow> (frontier_error, request_state_record \<times> journal_backend) result"
where
  "lease_finish pf cfg now ok jb lease state reason =
     (if \<not> assertActive jb lease then Inl (StaleLease (rq_id (ls_request lease)))
      else bind_result
             (log_append pf ok jb
                \<lparr>ur_body = JFinished state (rq_id (ls_request lease)) (ls_leaseId lease) reason,
                 ur_createdAt = now\<rparr>)
             (\<lambda>jb'. Inr (createStateRecord (fc_runId cfg) now (ls_request lease) (Terminal state) reason,
                  jb'\<lparr>jb_active := map_delete (rq_id (ls_request lease)) (jb_active jb'),
                      jb_states := map_set (rq_id (ls_request lease)) (Terminal state) (jb_states jb')\<rparr>)))"

section \<open>The enqueuer\<close>

definition unique_key :: "normalized_url \<Rightarrow> string" where
  "unique_key n = nu_normalizedUrl n @ ''#GET''"

definition backend_enqueue ::
  "platform \<Rightarrow> frontier_config \<Rightarrow> timestamp \<Rightarrow> bool \<Rightarrow> journal_backend \<Rightarrow> enqueue_input
     \<Rightarrow> (frontier_error, enqueue_result \<times> journal_backend) result"
where
  "backend_enqueue pf cfg now ok jb input =
     (case normalizeUrl (pf_parse pf) (ei_rawUrl input) (ei_referrerUrl input) of
        Inl err \<Rightarrow> Inr (factory_skipped pf cfg now input INVALID_URL ''url'' err, jb)
      | Inr n \<Rightarrow>
          let uniqueKey = unique_key n;
              existing = state_requestForKey (jb_state jb) uniqueKey;
              discovery = factory_discovery cfg now input uniqueKey (map_option rq_id existing)
                            (Some (nu_resolvedUrl n)) (Some (nu_normalizedUrl n)) (existing = None)
          in case existing of
               Some e \<Rightarrow> Inr (duplicateEnqueueResult e discovery, jb)
             | None \<Rightarrow>
                 if ei_depth input > fc_maxDepth cfg
                 then Inr (factory_skipped pf cfg now input MAX_DEPTH_EXCEEDED ''maxDepth''
                             ''Maximum depth exceeded'', jb)
                 else if state_size (jb_state jb) \<ge> fc_maxQueueSize cfg
                 then Inr (factory_skipped pf cfg now input MAX_QUEUE_SIZE_EXCEEDED ''maxQueueSize''
                             ''Maximum queue size exceeded'', jb)
                 else let request = factory_create pf cfg now input uniqueKey (nu_resolvedUrl n)
                                      (nu_normalizedUrl n)
                      in bind_result
                           (log_append pf ok jb \<lparr>ur_body = JEnqueued request, ur_createdAt = now\<rparr>)
                           (\<lambda>jb'.
                             let jb'' = lease_restorePending (jb'\<lparr>jb_state := addPending (jb_state jb') request\<rparr>)
                                          request
                             in Inr (\<lparr>er_decision = \<lparr>ed_status = Enqueued, ed_reason = None,
                                                     ed_requestId = Some (rq_id request)\<rparr>,
                                      er_request = Some request, er_skipped = None,
                                      er_discovery = Some (discovery\<lparr>dr_requestId := Some (rq_id request)\<rparr>),
                                      er_state = Some (createStateRecord (fc_runId cfg) now request Pending None)\<rparr>,
                                     jb'')))"

text \<open>\<open>enqueueMany\<close> stops at the first append that is rejected; \<open>oks\<close> gives each append's outcome.\<close>

fun backend_enqueueMany ::
  "platform \<Rightarrow> frontier_config \<Rightarrow> timestamp \<Rightarrow> (nat \<Rightarrow> bool) \<Rightarrow> nat \<Rightarrow> journal_backend \<Rightarrow> enqueue_input list
     \<Rightarrow> (frontier_error, enqueue_result list) result \<times> journal_backend"
where
  "backend_enqueueMany pf cfg now oks i jb [] = (Inr [], jb)"
| "backend_enqueueMany pf cfg now oks i jb (x # xs) =
     (case backend_enqueue pf cfg now (oks i) jb x of
        Inl e \<Rightarrow> (Inl e, jb)
      | Inr (r, jb') \<Rightarrow>
          (case backend_enqueueMany pf cfg now oks (i + 1) jb' xs of
             (Inl e, jb'') \<Rightarrow> (Inl e, jb'')
           | (Inr rs, jb'') \<Rightarrow> (Inr (r # rs), jb'')))"

section \<open>The backend\<close>

record 'p lease_selection =
  sel_tryReserve :: "'p \<Rightarrow> crawl_request \<Rightarrow> bool \<times> 'p"
  sel_releaseReservation :: "'p \<Rightarrow> crawl_request \<Rightarrow> 'p"

definition backend_restorePending :: "journal_backend \<Rightarrow> crawl_request \<Rightarrow> journal_backend" where
  "backend_restorePending jb r =
     lease_restorePending (jb\<lparr>jb_state := addPending (jb_state jb) r\<rparr>) r"

definition backend_init ::
  "frontier_config \<Rightarrow> timestamp \<Rightarrow> journal_record list \<Rightarrow> frontier_snapshot \<times> journal_backend"
where
  "backend_init cfg now records =
     (let jb = new_backend cfg records in
      if \<not> fc_resume cfg
      then (\<lparr>fs_resumedRequests = 0, fs_recoveredLeases = 0, fs_deferredLeases = 0\<rparr>, jb)
      else let recovered = recoverFrontier records now;
               jb = jb\<lparr>jb_state := foldl remember (jb_state jb) (rf_requests recovered)\<rparr>;
               jb = foldl backend_restorePending jb (rf_pending recovered);
               jb = jb\<lparr>jb_state := foldl addDeferred (jb_state jb) (rf_deferred recovered)\<rparr>
           in (\<lparr>fs_resumedRequests = length (rf_pending recovered) + length (rf_deferred recovered),
                fs_recoveredLeases = rf_recoveredLeases recovered,
                fs_deferredLeases = length (rf_deferred recovered)\<rparr>, jb))"

text \<open>
  \<open>leaseNext\<close> is two steps with an \<open>await\<close> between them: \<open>backend_take\<close> removes the selected
  request from the queue, \<open>backend_grant\<close> runs when the lease has been journalled or refused.
  \<open>backend_leaseNext\<close> is the two in a row, with nothing in between.
\<close>

definition backend_take ::
  "timestamp \<Rightarrow> 'p lease_selection \<Rightarrow> 'p \<Rightarrow> journal_backend
     \<Rightarrow> crawl_request option \<times> journal_backend \<times> 'p"
where
  "backend_take now sel p jb =
     (case takeNext now (sel_tryReserve sel) p (jb_state jb) of
        (found, st, p') \<Rightarrow> (found, jb\<lparr>jb_state := st\<rparr>, p'))"

definition backend_grant ::
  "platform \<Rightarrow> frontier_config \<Rightarrow> timestamp \<Rightarrow> bool \<Rightarrow> 'p lease_selection \<Rightarrow> 'p \<Rightarrow> journal_backend
     \<Rightarrow> crawl_request \<Rightarrow> (frontier_error, request_lease) result \<times> journal_backend \<times> 'p"
where
  "backend_grant pf cfg now ok sel p jb request =
     (case lease_lease pf cfg now ok jb request of
        Inr (lease, jb') \<Rightarrow> (Inr lease, jb', p)
      | Inl e \<Rightarrow>
          (Inl e, jb\<lparr>jb_state := requeue (jb_state jb) request\<rparr>, sel_releaseReservation sel p request))"

definition backend_leaseNext ::
  "platform \<Rightarrow> frontier_config \<Rightarrow> timestamp \<Rightarrow> bool \<Rightarrow> 'p lease_selection \<Rightarrow> 'p \<Rightarrow> journal_backend
     \<Rightarrow> (frontier_error, request_lease option) result \<times> journal_backend \<times> 'p"
where
  "backend_leaseNext pf cfg now ok sel p jb =
     (case backend_take now sel p jb of
        (None, jb', p') \<Rightarrow> (Inr None, jb', p')
      | (Some request, jb', p') \<Rightarrow>
          (case backend_grant pf cfg now ok sel p' jb' request of
             (res, jb'', p'') \<Rightarrow> (map_sum id Some res, jb'', p'')))"

definition backend_release ::
  "platform \<Rightarrow> frontier_config \<Rightarrow> timestamp \<Rightarrow> bool \<Rightarrow> journal_backend \<Rightarrow> request_lease \<Rightarrow> string option
     \<Rightarrow> (frontier_error, request_state_record \<times> journal_backend) result"
where
  "backend_release pf cfg now ok jb lease reason =
     bind_result (lease_release pf cfg now ok jb lease reason)
       (\<lambda>(rec, jb'). Inr (rec, jb'\<lparr>jb_state := requeue (jb_state jb') (ls_request lease)\<rparr>))"

definition backend_markHandled where
  "backend_markHandled pf cfg now ok jb lease = lease_finish pf cfg now ok jb lease Handled None"

definition backend_markFailed where
  "backend_markFailed pf cfg now ok jb lease reason = lease_finish pf cfg now ok jb lease Failed reason"

definition backend_markSkipped where
  "backend_markSkipped pf cfg now ok jb lease reason = lease_finish pf cfg now ok jb lease Skipped reason"

definition backend_markCancelled where
  "backend_markCancelled pf cfg now ok jb lease reason = lease_finish pf cfg now ok jb lease Cancelled reason"

definition backend_close :: "journal_backend \<Rightarrow> journal_backend" where
  "backend_close jb = jb\<lparr>jb_open := False\<rparr>"

end
