(* ===== verification/Frontier_System.thy ===== *)
theory Frontier_System
  imports Frontier_Backend
begin

text \<open>
  The journal backend under concurrent workers. The code awaits the journal in the middle of
  \<open>leaseNext\<close> and of \<open>release\<close>, so other operations run in between: a request may be taken
  from the queue and not yet leased, or released and not yet back in the queue. The step
  relation splits the operations at these points. \<open>fy_taken\<close> and \<open>fy_releasing\<close> are the
  requests that live in a suspended call; \<open>fy_finished\<close> are those with a terminal record, kept
  for the statements only.
\<close>

record frontier_system =
  fy_backend :: journal_backend
  fy_taken :: "crawl_request list"
  fy_releasing :: "crawl_request list"
  fy_finished :: "crawl_request list"

definition known :: "journal_backend \<Rightarrow> crawl_request list" where
  "known jb = state_knownRequests (jb_state jb)"

definition start_system :: "frontier_config \<Rightarrow> frontier_system" where
  "start_system cfg =
     \<lparr>fy_backend = new_backend cfg [], fy_taken = [], fy_releasing = [], fy_finished = []\<rparr>"

text \<open>
  A lease argument is one the backend handed out: it may be stale, but a lease that is still
  active names the request it was granted for. The identifier of a new request differs from
  those of the other requests (no collision of the truncated hash).
\<close>

definition genuine :: "journal_backend \<Rightarrow> request_lease \<Rightarrow> bool" where
  "genuine jb l \<longleftrightarrow>
     (case map_of (jb_active jb) (rq_id (ls_request l)) of
        None \<Rightarrow> True
      | Some a \<Rightarrow> ls_leaseId a = ls_leaseId l \<longrightarrow> ls_request a = ls_request l)"

inductive frontier_step ::
  "platform \<Rightarrow> frontier_config \<Rightarrow> 'p lease_selection \<Rightarrow> frontier_system \<Rightarrow> frontier_system \<Rightarrow> bool"
  for pf cfg sel
where
  enqueue: "backend_enqueue pf cfg now True (fy_backend s) input = Inr (res, jb') \<Longrightarrow>
     (case er_request res of None \<Rightarrow> True
      | Some r \<Rightarrow> rq_id r \<notin> rq_id ` set (known (fy_backend s))) \<Longrightarrow>
     frontier_step pf cfg sel s (s\<lparr>fy_backend := jb'\<rparr>)"
| take: "backend_take now sel p (fy_backend s) = (Some r, jb', p') \<Longrightarrow>
     frontier_step pf cfg sel s (s\<lparr>fy_backend := jb', fy_taken := r # fy_taken s\<rparr>)"
| take_none: "backend_take now sel p (fy_backend s) = (None, jb', p') \<Longrightarrow>
     frontier_step pf cfg sel s (s\<lparr>fy_backend := jb'\<rparr>)"
| grant: "r \<in> set (fy_taken s) \<Longrightarrow>
     backend_grant pf cfg now ok sel p (fy_backend s) r = (res, jb', p') \<Longrightarrow>
     frontier_step pf cfg sel s (s\<lparr>fy_backend := jb', fy_taken := remove1 r (fy_taken s)\<rparr>)"
| renew: "genuine (fy_backend s) l \<Longrightarrow> lease_renew pf cfg now True (fy_backend s) l = Inr (l', jb') \<Longrightarrow>
     frontier_step pf cfg sel s (s\<lparr>fy_backend := jb'\<rparr>)"
| release: "genuine (fy_backend s) l \<Longrightarrow>
     lease_release pf cfg now True (fy_backend s) l reason = Inr (rec, jb') \<Longrightarrow>
     frontier_step pf cfg sel s (s\<lparr>fy_backend := jb', fy_releasing := ls_request l # fy_releasing s\<rparr>)"
| requeue: "r \<in> set (fy_releasing s) \<Longrightarrow>
     frontier_step pf cfg sel s
       (s\<lparr>fy_backend := (fy_backend s)\<lparr>jb_state := Frontier_Queue.requeue (jb_state (fy_backend s)) r\<rparr>,
          fy_releasing := remove1 r (fy_releasing s)\<rparr>)"
| finish: "genuine (fy_backend s) l \<Longrightarrow>
     lease_finish pf cfg now True (fy_backend s) l state reason = Inr (rec, jb') \<Longrightarrow>
     frontier_step pf cfg sel s (s\<lparr>fy_backend := jb', fy_finished := ls_request l # fy_finished s\<rparr>)"

inductive frontier_reachable ::
  "platform \<Rightarrow> frontier_config \<Rightarrow> 'p lease_selection \<Rightarrow> frontier_system \<Rightarrow> bool" for pf cfg sel
where
  start: "frontier_reachable pf cfg sel (start_system cfg)"
| step: "frontier_reachable pf cfg sel s \<Longrightarrow> frontier_step pf cfg sel s t \<Longrightarrow>
     frontier_reachable pf cfg sel t"

section \<open>The invariant\<close>

definition parts :: "frontier_system \<Rightarrow> crawl_request multiset" where
  "parts s = waiting (jb_state (fy_backend s)) + mset (fy_taken s)
     + mset (map ls_request (map_values (jb_active (fy_backend s))))
     + mset (fy_releasing s) + mset (fy_finished s)"

definition life_in :: "frontier_system \<Rightarrow> crawl_request \<Rightarrow> life" where
  "life_in s r =
     (if r \<in> set (fy_finished s) then Ended
      else case map_of (jb_active (fy_backend s)) (rq_id r) of
             None \<Rightarrow> Waiting | Some l \<Rightarrow> LeasedTo (ls_leaseId l))"

definition active_ok :: "journal_backend \<Rightarrow> bool" where
  "active_ok jb \<longleftrightarrow> wf_map (jb_active jb) \<and> (\<forall>(i, l) \<in> set (jb_active jb). rq_id (ls_request l) = i)"

definition log_agrees :: "platform \<Rightarrow> frontier_system \<Rightarrow> bool" where
  "log_agrees pf s \<longleftrightarrow>
     (\<exists>states. validateJournal (pf_hash pf) (jb_log (fy_backend s)) = Inr states \<and>
        map fst states = map rq_id (known (fy_backend s)) \<and>
        map js_request (map_values states) = known (fy_backend s) \<and>
        (\<forall>r \<in> set (known (fy_backend s)). life_of (map_of states (rq_id r)) = life_in s r))"

definition frontier_inv :: "platform \<Rightarrow> frontier_system \<Rightarrow> bool" where
  "frontier_inv pf s \<longleftrightarrow>
     queue_ok (jb_state (fy_backend s)) \<and> active_ok (fy_backend s) \<and>
     distinct (map rq_id (known (fy_backend s))) \<and>
     parts s = mset (known (fy_backend s)) \<and> log_agrees pf s"

subsection \<open>Consequences\<close>

lemma active_lookup:
  "active_ok jb \<Longrightarrow> map_of (jb_active jb) i = Some l \<Longrightarrow> rq_id (ls_request l) = i"
  by (auto simp: active_ok_def dest: map_of_SomeD)

lemma known_if_part: "frontier_inv pf s \<Longrightarrow> r \<in># parts s \<Longrightarrow> r \<in> set (known (fy_backend s))"
  by (metis frontier_inv_def set_mset_mset)

text \<open>Two places of the system never hold the same identifier.\<close>

lemma split_parts_distinct:
  assumes "frontier_inv pf s" and "parts s = A + B" and "r \<in># A" and "q \<in># B"
  shows "rq_id r \<noteq> rq_id q"
proof -
  obtain as bs where ab: "mset as = A" "mset bs = B" by (metis ex_mset)
  with assms(1,2) have "mset (as @ bs) = mset (known (fy_backend s))" by (simp add: frontier_inv_def)
  then have "mset (map rq_id (as @ bs)) = mset (map rq_id (known (fy_backend s)))"
    by (metis mset_map)
  with assms(1) have "distinct (map rq_id (as @ bs))"
    by (metis frontier_inv_def mset_eq_imp_distinct_iff)
  moreover from assms(3,4) ab have "r \<in> set as" and "q \<in> set bs" by auto
  ultimately show ?thesis by auto
qed

lemma active_part:
  "map_of (jb_active (fy_backend s)) i = Some l \<Longrightarrow>
     ls_request l \<in># mset (map ls_request (map_values (jb_active (fy_backend s))))"
  by (force dest: map_of_SomeD)

lemma not_active_if_elsewhere:
  assumes "frontier_inv pf s" and "active_ok (fy_backend s)"
    and "r \<in># waiting (jb_state (fy_backend s)) + mset (fy_taken s) + mset (fy_releasing s) + mset (fy_finished s)"
  shows "map_of (jb_active (fy_backend s)) (rq_id r) = None"
proof (rule ccontr)
  assume "map_of (jb_active (fy_backend s)) (rq_id r) \<noteq> None"
  then obtain l where l: "map_of (jb_active (fy_backend s)) (rq_id r) = Some l" by blast
  have "parts s = (waiting (jb_state (fy_backend s)) + mset (fy_taken s) + mset (fy_releasing s)
      + mset (fy_finished s)) + mset (map ls_request (map_values (jb_active (fy_backend s))))"
    by (simp add: parts_def ac_simps)
  from split_parts_distinct [OF assms(1) this assms(3) active_part [OF l]]
  show False using active_lookup [OF assms(2) l] by simp
qed

lemma not_finished_if_elsewhere:
  assumes "frontier_inv pf s"
    and "r \<in># waiting (jb_state (fy_backend s)) + mset (fy_taken s) + mset (fy_releasing s)
      + mset (map ls_request (map_values (jb_active (fy_backend s))))"
  shows "r \<notin> set (fy_finished s)"
proof
  assume "r \<in> set (fy_finished s)"
  then have r: "r \<in># mset (fy_finished s)" by simp
  have "parts s = (waiting (jb_state (fy_backend s)) + mset (fy_taken s) + mset (fy_releasing s)
      + mset (map ls_request (map_values (jb_active (fy_backend s))))) + mset (fy_finished s)"
    by (simp add: parts_def ac_simps)
  from split_parts_distinct [OF assms(1) this assms(2) r] show False by simp
qed

section \<open>Preservation\<close>

lemma values_set_same:
  "map_of m k = Some v \<Longrightarrow> f v' = f v \<Longrightarrow> map f (map_values (map_set k v' m)) = map f (map_values m)"
  by (induction m) (auto split: if_splits)

lemma applyTransition_requests:
  "applyTransition b states = Inr states' \<Longrightarrow> (\<forall>r. b \<noteq> JEnqueued r) \<Longrightarrow>
     map fst states' = map fst states \<and>
     map js_request (map_values states') = map js_request (map_values states)"
  by (cases b)
    (auto split: if_splits option.splits simp: map_set_keys_present values_set_same simp del: map_map)

text \<open>A journalled transition of a known request moves its lifecycle one step.\<close>

lemma log_agrees_step:
  assumes agrees: "log_agrees pf s" and "distinct (map rq_id (known (fy_backend s)))"
    and b: "\<forall>r. b \<noteq> JEnqueued r" "r \<in> set (known (fy_backend s))" "rq_id r = journal_request_id b"
    and life: "life_step (life_in s r) b = Some (life_in t r)"
    and others: "\<And>q. q \<in> set (known (fy_backend s)) \<Longrightarrow> rq_id q \<noteq> rq_id r \<Longrightarrow> life_in t q = life_in s q"
    and t: "known (fy_backend t) = known (fy_backend s)"
      "jb_log (fy_backend t) = jb_log (fy_backend s)
         @ [next_record (pf_hash pf) (jb_log (fy_backend s)) \<lparr>ur_body = b, ur_createdAt = now\<rparr>]"
  shows "log_agrees pf t"
proof -
  from agrees obtain states where states:
      "validateJournal (pf_hash pf) (jb_log (fy_backend s)) = Inr states"
      "map fst states = map rq_id (known (fy_backend s))"
      "map js_request (map_values states) = known (fy_backend s)"
      "\<forall>r \<in> set (known (fy_backend s)). life_of (map_of states (rq_id r)) = life_in s r"
    by (auto simp: log_agrees_def)
  with b life have "life_step (life_of (map_of states (journal_request_id b))) b \<noteq> None" by auto
  with applyTransition_accepts obtain states' where step: "applyTransition b states = Inr states'"
    by blast
  have valid: "validateJournal (pf_hash pf) (jb_log (fy_backend t)) = Inr states'"
    using validateJournal_next [OF states(1), of "\<lparr>ur_body = b, ur_createdAt = now\<rparr>"] step t(2) by simp
  have "life_of (map_of states' (rq_id q)) = life_in t q" if q: "q \<in> set (known (fy_backend s))" for q
  proof (cases "rq_id q = rq_id r")
    case True
    with q b(2) assms(2) have "q = r" by (simp add: distinct_map inj_on_def)
    with applyTransition_life [OF step] life states(4) b show ?thesis by auto
  next
    case False
    with applyTransition_life [OF step] others [OF q False] states(4) b(3) q show ?thesis by auto
  qed
  with valid states applyTransition_requests [OF step b(1)] t(1) show ?thesis
    by (auto simp: log_agrees_def)
qed

lemma inv_agrees: "frontier_inv pf s \<Longrightarrow> log_agrees pf s"
  by (simp add: frontier_inv_def)

lemma inv_distinct: "frontier_inv pf s \<Longrightarrow> distinct (map rq_id (known (fy_backend s)))"
  by (simp add: frontier_inv_def)

lemma log_agrees_same:
  assumes "log_agrees pf s" and "known (fy_backend t) = known (fy_backend s)"
    and "jb_log (fy_backend t) = jb_log (fy_backend s)"
    and "\<And>q. q \<in> set (known (fy_backend s)) \<Longrightarrow> life_in t q = life_in s q"
  shows "log_agrees pf t"
  using assms by (auto simp: log_agrees_def)

subsection \<open>Enqueue\<close>

lemma factory_skipped_fields [simp]:
  "er_request (factory_skipped pf cfg now input reason name detail) = None"
  "ed_status (er_decision (factory_skipped pf cfg now input reason name detail)) = decisionStatusForSkip reason"
  by (simp_all add: factory_skipped_def Let_def)

lemma duplicateEnqueueResult_fields [simp]:
  "er_request (duplicateEnqueueResult e d) = None"
  "ed_status (er_decision (duplicateEnqueueResult e d)) = AlreadySeen"
  by (simp_all add: duplicateEnqueueResult_def)

definition enqueued_backend ::
  "platform \<Rightarrow> timestamp \<Rightarrow> journal_backend \<Rightarrow> crawl_request \<Rightarrow> journal_backend"
where
  "enqueued_backend pf now jb r =
     jb\<lparr>jb_state := addPending (jb_state jb) r,
        jb_states := map_set (rq_id r) Pending (jb_states jb),
        jb_log := jb_log jb @ [next_record (pf_hash pf) (jb_log jb)
                    \<lparr>ur_body = JEnqueued r, ur_createdAt = now\<rparr>]\<rparr>"

lemma enqueued_backend_fields [simp]:
  "jb_state (enqueued_backend pf now jb r) = addPending (jb_state jb) r"
  "jb_active (enqueued_backend pf now jb r) = jb_active jb"
  "jb_log (enqueued_backend pf now jb r) = jb_log jb @ [next_record (pf_hash pf) (jb_log jb)
                    \<lparr>ur_body = JEnqueued r, ur_createdAt = now\<rparr>]"
  by (simp_all add: enqueued_backend_def)

text \<open>
  What the result of an enqueue says about the state: nothing changed unless the decision is
  \<open>enqueued\<close>, and then the request is new, within the limits, journalled and in the queue.
\<close>

definition enqueue_effect ::
  "platform \<Rightarrow> frontier_config \<Rightarrow> timestamp \<Rightarrow> bool \<Rightarrow> journal_backend \<Rightarrow> enqueue_result \<Rightarrow> journal_backend \<Rightarrow> bool"
where
  "enqueue_effect pf cfg now ok jb res jb' \<longleftrightarrow>
     (case er_request res of
        None \<Rightarrow> jb' = jb \<and> ed_status (er_decision res) \<noteq> Enqueued
      | Some r \<Rightarrow>
          ed_status (er_decision res) = Enqueued \<and> ok \<and> jb_open jb \<and>
          state_requestForKey (jb_state jb) (rq_uniqueKey r) = None \<and>
          rq_depth r \<le> fc_maxDepth cfg \<and> state_size (jb_state jb) < fc_maxQueueSize cfg \<and>
          jb' = enqueued_backend pf now jb r)"

lemma log_append_Inr [simp]:
  "log_append pf ok jb u = Inr jb' \<longleftrightarrow>
     ok \<and> jb_open jb \<and> jb' = jb\<lparr>jb_log := jb_log jb @ [next_record (pf_hash pf) (jb_log jb) u]\<rparr>"
  by (auto simp: log_append_def)

lemma backend_enqueue_effect:
  assumes enq: "backend_enqueue pf cfg now ok jb input = Inr (res, jb')"
  shows "enqueue_effect pf cfg now ok jb res jb'"
proof (cases "normalizeUrl (pf_parse pf) (ei_rawUrl input) (ei_referrerUrl input)")
  case (Inl e)
  with enq show ?thesis by (auto simp: backend_enqueue_def enqueue_effect_def)
next
  case (Inr n)
  note eq = enq [unfolded backend_enqueue_def Inr sum.case Let_def]
  show ?thesis
  proof (cases "state_requestForKey (jb_state jb) (unique_key n)")
    case (Some e)
    with eq show ?thesis by (auto simp: enqueue_effect_def)
  next
    case None
    then consider "ei_depth input > fc_maxDepth cfg" | "state_size (jb_state jb) \<ge> fc_maxQueueSize cfg"
      | "\<not> ei_depth input > fc_maxDepth cfg" "\<not> state_size (jb_state jb) \<ge> fc_maxQueueSize cfg"
      by blast
    then show ?thesis
    proof cases
      case 1
      with eq None show ?thesis by (auto simp: enqueue_effect_def)
    next
      case 2
      with eq None show ?thesis by (auto simp: enqueue_effect_def split: if_splits)
    next
      case 3
      let ?r = "factory_create pf cfg now input (unique_key n) (nu_resolvedUrl n) (nu_normalizedUrl n)"
      have r: "rq_uniqueKey ?r = unique_key n" "rq_depth ?r = ei_depth input"
        by (simp_all add: factory_create_def)
      from eq None 3 have "ok" and "jb_open jb" and "er_request res = Some ?r"
        and "ed_status (er_decision res) = Enqueued" and "jb' = enqueued_backend pf now jb ?r"
        by (auto simp: bind_result_Inr lease_restorePending_def enqueued_backend_def)
      with r None 3 show ?thesis by (simp add: enqueue_effect_def)
    qed
  qed
qed

lemma known_enqueued:
  "state_requestForKey (jb_state jb) (rq_uniqueKey r) = None \<Longrightarrow>
     known (enqueued_backend pf now jb r) = known jb @ [r]"
  by (simp add: known_def state_knownRequests_def addPending_def remember_def Let_def
      state_requestForKey_def map_set_new)

lemma inv_enqueue:
  assumes inv: "frontier_inv pf s"
    and new: "state_requestForKey (jb_state (fy_backend s)) (rq_uniqueKey r) = None"
    and fresh: "rq_id r \<notin> rq_id ` set (known (fy_backend s))"
  shows "frontier_inv pf (s\<lparr>fy_backend := enqueued_backend pf now (fy_backend s) r\<rparr>)" (is "frontier_inv pf ?t")
proof -
  let ?jb = "fy_backend s"
  note known = known_enqueued [OF new, of pf now]
  from inv obtain states where states:
      "validateJournal (pf_hash pf) (jb_log ?jb) = Inr states"
      "map fst states = map rq_id (known ?jb)"
      "map js_request (map_values states) = known ?jb"
      "\<forall>q \<in> set (known ?jb). life_of (map_of states (rq_id q)) = life_in s q"
    by (auto simp: log_agrees_def frontier_inv_def)
  let ?new = "\<lparr>js_request = r, js_terminal = False, js_leaseId = None\<rparr>"
  have "rq_id r \<notin> set (map fst states)" using fresh states(2) by simp
  then have none: "map_of states (rq_id r) = None" by (simp add: map_of_eq_None_iff)
  have valid: "validateJournal (pf_hash pf) (jb_log (fy_backend ?t)) = Inr (map_set (rq_id r) ?new states)"
    using validateJournal_next [OF states(1)] none by simp
  have notin: "r \<notin># parts s" using fresh known_if_part [OF inv, of r] by auto
  then have nf: "r \<notin> set (fy_finished s)" by (simp add: parts_def)
  have na: "map_of (jb_active ?jb) (rq_id r) = None"
  proof (rule ccontr)
    assume "map_of (jb_active ?jb) (rq_id r) \<noteq> None"
    then obtain l where l: "map_of (jb_active ?jb) (rq_id r) = Some l" by blast
    have "ls_request l \<in># parts s" using active_part [OF l] by (simp add: parts_def)
    from known_if_part [OF inv this] have "rq_id (ls_request l) \<in> rq_id ` set (known ?jb)" by simp
    with fresh active_lookup [OF _ l] inv show False by (simp add: frontier_inv_def)
  qed
  have "log_agrees pf ?t"
    unfolding log_agrees_def
  proof (intro exI conjI ballI)
    show "validateJournal (pf_hash pf) (jb_log (fy_backend ?t)) = Inr (map_set (rq_id r) ?new states)"
      by (rule valid)
    show "map fst (map_set (rq_id r) ?new states) = map rq_id (known (fy_backend ?t))"
      using none states(2) known by (simp add: map_set_new)
    show "map js_request (map_values (map_set (rq_id r) ?new states)) = known (fy_backend ?t)"
      using none states(3) known by (simp add: map_set_new)
    fix q
    assume q: "q \<in> set (known (fy_backend ?t))"
    show "life_of (map_of (map_set (rq_id r) ?new states) (rq_id q)) = life_in ?t q"
    proof (cases "q = r")
      case True
      with nf na show ?thesis by (simp add: life_of_def life_in_def)
    next
      case False
      with q known have q': "q \<in> set (known ?jb)" by simp
      with fresh have "rq_id q \<noteq> rq_id r" by (metis image_eqI)
      with q' states(4) show ?thesis by (simp add: life_in_def)
    qed
  qed
  moreover have "parts ?t = mset (known (fy_backend ?t))"
    using inv known by (simp add: parts_def frontier_inv_def)
  ultimately show ?thesis
    using inv fresh known by (auto simp: frontier_inv_def active_ok_def)
qed

subsection \<open>Take, grant, requeue\<close>

lemma backend_take_cases:
  assumes "backend_take now sel p jb = (found, jb', p')"
  shows "\<exists>st. jb' = jb\<lparr>jb_state := st\<rparr> \<and> st_requestsByKey st = st_requestsByKey (jb_state jb) \<and>
     waiting (jb_state jb) = waiting st + (case found of None \<Rightarrow> {#} | Some r \<Rightarrow> {#r#}) \<and>
     (queue_ok (jb_state jb) \<longrightarrow> queue_ok st)"
proof -
  from assms obtain st where "takeNext now (sel_tryReserve sel) p (jb_state jb) = (found, st, p')"
    and "jb' = jb\<lparr>jb_state := st\<rparr>"
    by (auto simp: backend_take_def split: prod.splits)
  with takeNext_fields [of now "sel_tryReserve sel" p "jb_state jb"] takeNext_waiting [of now "sel_tryReserve sel" p "jb_state jb"]
    queue_ok_takeNext [of "jb_state jb" now "sel_tryReserve sel" p]
  show ?thesis by auto
qed

lemma inv_move:
  assumes inv: "frontier_inv pf s"
    and t: "jb_active (fy_backend t) = jb_active (fy_backend s)"
      "jb_log (fy_backend t) = jb_log (fy_backend s)"
      "st_requestsByKey (jb_state (fy_backend t)) = st_requestsByKey (jb_state (fy_backend s))"
      "queue_ok (jb_state (fy_backend t))" "parts t = parts s" "fy_finished t = fy_finished s"
  shows "frontier_inv pf t"
proof -
  have known: "known (fy_backend t) = known (fy_backend s)"
    using t(3) by (simp add: known_def state_knownRequests_def)
  have "life_in t q = life_in s q" for q using t by (simp add: life_in_def)
  with log_agrees_same [of pf s t] inv known t show ?thesis
    by (simp add: frontier_inv_def active_ok_def)
qed

lemma inv_take:
  assumes "frontier_inv pf s" and "backend_take now sel p (fy_backend s) = (Some r, jb', p')"
  shows "frontier_inv pf (s\<lparr>fy_backend := jb', fy_taken := r # fy_taken s\<rparr>)"
  by (rule inv_move [OF assms(1)])
    (use backend_take_cases [OF assms(2)] assms(1) in \<open>auto simp: parts_def frontier_inv_def\<close>)

lemma inv_take_none:
  assumes "frontier_inv pf s" and "backend_take now sel p (fy_backend s) = (None, jb', p')"
  shows "frontier_inv pf (s\<lparr>fy_backend := jb'\<rparr>)"
  by (rule inv_move [OF assms(1)])
    (use backend_take_cases [OF assms(2)] assms(1) in \<open>auto simp: parts_def frontier_inv_def\<close>)

lemma requeue_fields [simp]:
  "st_requestsByKey (Frontier_Queue.requeue st r) = st_requestsByKey st"
  by (simp add: requeue_def)

lemma inv_requeue:
  assumes "frontier_inv pf s" and "r \<in> set (fy_releasing s)"
  shows "frontier_inv pf
     (s\<lparr>fy_backend := (fy_backend s)\<lparr>jb_state := Frontier_Queue.requeue (jb_state (fy_backend s)) r\<rparr>,
        fy_releasing := remove1 r (fy_releasing s)\<rparr>)"
  by (rule inv_move [OF assms(1)]) (use assms in \<open>auto simp: parts_def frontier_inv_def\<close>)

lemma inv_grant_failed:
  assumes "frontier_inv pf s" and "r \<in> set (fy_taken s)"
  shows "frontier_inv pf
     (s\<lparr>fy_backend := (fy_backend s)\<lparr>jb_state := Frontier_Queue.requeue (jb_state (fy_backend s)) r\<rparr>,
        fy_taken := remove1 r (fy_taken s)\<rparr>)"
  by (rule inv_move [OF assms(1)]) (use assms in \<open>auto simp: parts_def frontier_inv_def\<close>)

lemma active_ok_set:
  "active_ok jb \<Longrightarrow> rq_id (ls_request l) = i \<Longrightarrow> active_ok (jb\<lparr>jb_active := map_set i l (jb_active jb)\<rparr>)"
proof -
  assume a: "active_ok jb" and i: "rq_id (ls_request l) = i"
  have "\<forall>(j, x) \<in> set (map_set i l m). rq_id (ls_request x) = j"
    if "\<forall>(j, x) \<in> set m. rq_id (ls_request x) = j" for m
    using that i by (induction m) (auto split: if_splits)
  with a show ?thesis by (auto simp: active_ok_def)
qed

lemma active_ok_delete: "active_ok jb \<Longrightarrow> active_ok (jb\<lparr>jb_active := map_delete i (jb_active jb)\<rparr>)"
proof -
  assume "active_ok jb"
  moreover have "set (map_delete i (jb_active jb)) \<subseteq> set (jb_active jb)"
    by (auto simp: AList.delete_eq)
  ultimately show ?thesis by (auto simp: active_ok_def)
qed

lemma inv_granted:
  assumes inv: "frontier_inv pf s" and r: "r \<in> set (fy_taken s)"
    and lease: "lease_lease pf cfg now ok (fy_backend s) r = Inr (l, jb')"
  shows "frontier_inv pf (s\<lparr>fy_backend := jb', fy_taken := remove1 r (fy_taken s)\<rparr>)" (is "frontier_inv pf ?t")
proof -
  let ?jb = "fy_backend s"
  from lease have l: "ls_request l = r" and jb': "jb_state jb' = jb_state ?jb"
      "jb_active jb' = map_set (rq_id r) l (jb_active ?jb)"
    and log: "jb_log jb' = jb_log ?jb @ [next_record (pf_hash pf) (jb_log ?jb)
      \<lparr>ur_body = JLeased (rq_id r) (ls_leaseId l) (ls_expiresAt l), ur_createdAt = now\<rparr>]"
    by (auto simp: lease_lease_def bind_result_Inr Let_def)
  have na: "map_of (jb_active ?jb) (rq_id r) = None"
    using not_active_if_elsewhere [OF inv, of r] inv r by (auto simp: frontier_inv_def)
  have nf: "r \<notin> set (fy_finished s)" using not_finished_if_elsewhere [OF inv, of r] r by auto
  have rk: "r \<in> set (known ?jb)" using known_if_part [OF inv, of r] r by (simp add: parts_def)
  have known: "known (fy_backend ?t) = known ?jb" using jb' by (simp add: known_def)
  have "life_step (life_in s r) (JLeased (rq_id r) (ls_leaseId l) (ls_expiresAt l)) = Some (life_in ?t r)"
    using na nf jb' by (simp add: life_in_def)
  moreover have "life_in ?t q = life_in s q" if "rq_id q \<noteq> rq_id r" for q
    using that jb' by (simp add: life_in_def)
  ultimately have "log_agrees pf ?t"
    by (intro log_agrees_step [OF inv_agrees [OF inv] inv_distinct [OF inv] _ rk _ _ _ known]) (simp_all add: log)
  moreover have "active_ok jb'"
    using active_ok_set [of ?jb l "rq_id r"] inv l jb' by (simp add: frontier_inv_def active_ok_def)
  moreover have "parts ?t = parts s"
    using r na l jb' by (simp add: parts_def map_set_new)
  ultimately show ?thesis using inv known jb' by (simp add: frontier_inv_def)
qed

subsection \<open>Renew, release, finish\<close>

lemma assertActive_lease:
  assumes "frontier_inv pf s" and "assertActive (fy_backend s) l" and "genuine (fy_backend s) l"
  obtains a where "map_of (jb_active (fy_backend s)) (rq_id (ls_request l)) = Some a"
    "ls_leaseId a = ls_leaseId l" "ls_request a = ls_request l"
    "ls_request l \<in> set (known (fy_backend s))" "ls_request l \<notin> set (fy_finished s)"
proof -
  from assms(2) obtain a where a: "map_of (jb_active (fy_backend s)) (rq_id (ls_request l)) = Some a"
    "ls_leaseId a = ls_leaseId l"
    by (auto simp: assertActive_def)
  with assms(3) have req: "ls_request a = ls_request l" by (simp add: genuine_def)
  note part = active_part [OF a(1), unfolded req]
  then have "ls_request l \<in># parts s" by (simp add: parts_def)
  from known_if_part [OF assms(1) this] not_finished_if_elsewhere [OF assms(1)] part a req that
  show thesis by simp
qed

lemma inv_renew:
  assumes inv: "frontier_inv pf s" and gen: "genuine (fy_backend s) l"
    and renew: "lease_renew pf cfg now ok (fy_backend s) l = Inr (l', jb')"
  shows "frontier_inv pf (s\<lparr>fy_backend := jb'\<rparr>)" (is "frontier_inv pf ?t")
proof -
  let ?jb = "fy_backend s" and ?i = "rq_id (ls_request l)"
  from renew have act: "assertActive ?jb l" and l': "ls_request l' = ls_request l" "ls_leaseId l' = ls_leaseId l"
    and jb': "jb_state jb' = jb_state ?jb" "jb_active jb' = map_set ?i l' (jb_active ?jb)"
    and log: "jb_log jb' = jb_log ?jb @ [next_record (pf_hash pf) (jb_log ?jb)
      \<lparr>ur_body = JRenewed ?i (ls_leaseId l) (ls_expiresAt l'), ur_createdAt = now\<rparr>]"
    by (auto simp: lease_renew_def bind_result_Inr Let_def split: if_splits)
  from assertActive_lease [OF inv act gen] obtain a where
    a: "map_of (jb_active ?jb) ?i = Some a" "ls_leaseId a = ls_leaseId l" "ls_request a = ls_request l"
      "ls_request l \<in> set (known ?jb)" "ls_request l \<notin> set (fy_finished s)" .
  have known: "known (fy_backend ?t) = known ?jb" using jb' by (simp add: known_def)
  have "life_step (life_in s (ls_request l)) (JRenewed ?i (ls_leaseId l) (ls_expiresAt l'))
      = Some (life_in ?t (ls_request l))"
    using a l' jb' by (simp add: life_in_def)
  moreover have "life_in ?t q = life_in s q" if "rq_id q \<noteq> ?i" for q
    using that jb' by (simp add: life_in_def)
  ultimately have "log_agrees pf ?t"
    by (intro log_agrees_step [OF inv_agrees [OF inv] inv_distinct [OF inv] _ a(4) _ _ _ known]) (simp_all add: log)
  moreover have "active_ok jb'"
    using active_ok_set [of ?jb l' ?i] inv l' jb' by (simp add: frontier_inv_def active_ok_def)
  moreover have "parts ?t = parts s"
    using a l' jb' values_set_same [OF a(1), of ls_request l']
    by (simp add: parts_def del: map_map)
  ultimately show ?thesis using inv known jb' by (simp add: frontier_inv_def)
qed

text \<open>Release and completion both remove the lease; \<open>t\<close> is the system with the request moved.\<close>

lemma inv_unlease:
  assumes inv: "frontier_inv pf s" and gen: "genuine (fy_backend s) l"
    and act: "assertActive (fy_backend s) l"
    and b: "\<forall>r. b \<noteq> JEnqueued r" "journal_request_id b = rq_id (ls_request l)"
      "life_step (LeasedTo (ls_leaseId l)) b = Some (life_in t (ls_request l))"
    and t: "jb_state (fy_backend t) = jb_state (fy_backend s)"
      "jb_active (fy_backend t) = map_delete (rq_id (ls_request l)) (jb_active (fy_backend s))"
      "jb_log (fy_backend t) = jb_log (fy_backend s) @ [next_record (pf_hash pf) (jb_log (fy_backend s))
         \<lparr>ur_body = b, ur_createdAt = now\<rparr>]"
      "fy_taken t = fy_taken s"
      "mset (fy_releasing t) + mset (fy_finished t)
         = add_mset (ls_request l) (mset (fy_releasing s) + mset (fy_finished s))"
      "\<And>q. q \<noteq> ls_request l \<Longrightarrow> q \<in> set (fy_finished t) \<longleftrightarrow> q \<in> set (fy_finished s)"
  shows "frontier_inv pf t"
proof -
  let ?jb = "fy_backend s" and ?i = "rq_id (ls_request l)"
  from assertActive_lease [OF inv act gen] obtain a where
    a: "map_of (jb_active ?jb) ?i = Some a" "ls_leaseId a = ls_leaseId l" "ls_request a = ls_request l"
      "ls_request l \<in> set (known ?jb)" "ls_request l \<notin> set (fy_finished s)" .
  have known: "known (fy_backend t) = known ?jb" using t(1) by (simp add: known_def)
  have "life_in s (ls_request l) = LeasedTo (ls_leaseId l)" using a by (simp add: life_in_def)
  moreover have "life_in t q = life_in s q" if "rq_id q \<noteq> ?i" for q
    using that t(2) t(6) [of q] by (auto simp: life_in_def)
  ultimately have "log_agrees pf t"
    using b(3) by (intro log_agrees_step [OF inv_agrees [OF inv] inv_distinct [OF inv] b(1) a(4) b(2) [symmetric] _ _ known t(3)])
      simp_all
  moreover have "active_ok (fy_backend t)"
    using active_ok_delete [of ?jb ?i] inv t(2) by (simp add: frontier_inv_def active_ok_def)
  moreover have "parts t = parts s"
  proof -
    have "wf_map (jb_active ?jb)" using inv by (simp add: frontier_inv_def active_ok_def)
    from arg_cong [OF mset_map_values_delete [OF this a(1)], of "image_mset ls_request"] a(3)
    have "image_mset (ls_request \<circ> snd) (mset (jb_active ?jb))
        = add_mset (ls_request l) (image_mset (ls_request \<circ> snd) (mset (map_delete ?i (jb_active ?jb))))"
      by (simp add: multiset.map_comp)
    then show ?thesis using t(1,2,4,5) by (simp add: parts_def)
  qed
  ultimately show ?thesis using inv known t(1) by (simp add: frontier_inv_def)
qed

end
