(* ===== verification/Frontier_Properties.thy ===== *)
theory Frontier_Properties
  imports Frontier_System
begin

text \<open>
  What the journal-backed frontier guarantees in every state that concurrent workers can
  reach, the promises of the queue, and two runs in which the code does not do what it means
  to do.
\<close>

section \<open>Every step keeps the invariant\<close>

lemma inv_step:
  assumes inv: "frontier_inv pf s" and step: "frontier_step pf cfg sel s t"
  shows "frontier_inv pf t"
  using step
proof cases
  case (enqueue now input res jb')
  show ?thesis
  proof (cases "er_request res")
    case None
    with backend_enqueue_effect [OF enqueue(2)] enqueue(1) inv show ?thesis
      by (simp add: enqueue_effect_def)
  next
    case (Some r)
    with backend_enqueue_effect [OF enqueue(2)] enqueue(1,3) inv_enqueue [OF inv, of r now]
    show ?thesis by (simp add: enqueue_effect_def)
  qed
next
  case (take now p r jb' p')
  with inv_take [OF inv] show ?thesis by simp
next
  case (take_none now p jb' p')
  with inv_take_none [OF inv] show ?thesis by simp
next
  case (grant r now ok p res jb' p')
  then show ?thesis
    using inv_granted [OF inv grant(2), of cfg now ok] inv_grant_failed [OF inv grant(2)]
    by (auto simp: backend_grant_def split: sum.splits)
next
  case (renew l now l' jb')
  with inv_renew [OF inv] show ?thesis by blast
next
  case (release l now reason rec jb')
  from release(3) have "assertActive (fy_backend s) l"
    by (simp add: lease_release_def split: if_splits)
  from assertActive_lease [OF inv this release(2)] have "ls_request l \<notin> set (fy_finished s)" .
  show ?thesis
    unfolding release(1)
    by (rule inv_unlease [OF inv release(2), where b = "JReleased (rq_id (ls_request l)) (ls_leaseId l) reason" and now = now])
      (use release(3) \<open>ls_request l \<notin> set (fy_finished s)\<close> in \<open>auto simp: lease_release_def bind_result_Inr life_in_def split: if_splits\<close>)
next
  case (requeue r)
  with inv_requeue [OF inv] show ?thesis by simp
next
  case (finish l now state reason rec jb')
  show ?thesis
    unfolding finish(1)
    by (rule inv_unlease [OF inv finish(2), where b = "JFinished state (rq_id (ls_request l)) (ls_leaseId l) reason" and now = now])
      (use finish(3) in \<open>auto simp: lease_finish_def bind_result_Inr life_in_def split: if_splits\<close>)
qed

lemma inv_start: "frontier_inv pf (start_system cfg)"
  by (simp add: frontier_inv_def start_system_def new_backend_def known_def state_knownRequests_def
      new_state_def active_ok_def parts_def log_agrees_def validateJournal_def queue_ok_def waiting_def)

lemma reachable_inv: "frontier_reachable pf cfg sel s \<Longrightarrow> frontier_inv pf s"
  by (induction rule: frontier_reachable.induct) (auto intro: inv_start inv_step)

section \<open>A sample run\<close>

definition sample_platform :: platform where
  "sample_platform = \<lparr>pf_sha256 = rev, pf_hash = sample_hash, pf_iso = (\<lambda>t. ''t''), pf_parse = sample_parse\<rparr>"

definition sample_config :: frontier_config where
  "sample_config = \<lparr>fc_runId = ''run'', fc_order = OrderPriority, fc_resume = False, fc_leaseDurationMs = 30,
     fc_maxDepth = 3, fc_maxQueueSize = 10, fc_renderMode = RenderNever, fc_retries = 2\<rparr>"

definition sample_input :: enqueue_input where
  "sample_input = \<lparr>ei_rawUrl = ''http://a/x'', ei_referrerUrl = None, ei_source = Seed, ei_depth = 0,
     ei_sitemapIndexDepth = None, ei_sitemapAncestors = None, ei_seed = sample_seed\<rparr>"

definition sample_sel :: "unit lease_selection" where
  "sample_sel = \<lparr>sel_tryReserve = (\<lambda>p r. (True, p)), sel_releaseReservation = (\<lambda>p r. p)\<rparr>"

definition sample_enqueued :: journal_backend where
  "sample_enqueued =
     snd (projr (backend_enqueue sample_platform sample_config 0 True (new_backend sample_config []) sample_input))"

definition sample_first :: crawl_request where
  "sample_first = the (fst (backend_take 5 sample_sel () sample_enqueued))"

definition sample_empty :: journal_backend where
  "sample_empty = fst (snd (backend_take 5 sample_sel () sample_enqueued))"

definition sample_granted :: journal_backend where
  "sample_granted = fst (snd (backend_grant sample_platform sample_config 5 True sample_sel () sample_empty sample_first))"

definition sample_taken_system :: frontier_system where
  "sample_taken_system = \<lparr>fy_backend = sample_empty, fy_taken = [sample_first], fy_releasing = [], fy_finished = []\<rparr>"

definition sample_granted_system :: frontier_system where
  "sample_granted_system = \<lparr>fy_backend = sample_granted, fy_taken = [], fy_releasing = [], fy_finished = []\<rparr>"

lemma sample_enqueue:
  "backend_enqueue sample_platform sample_config 0 True (new_backend sample_config []) sample_input =
     Inr (fst (projr (backend_enqueue sample_platform sample_config 0 True (new_backend sample_config []) sample_input)),
          sample_enqueued)"
  by code_simp

lemma sample_take: "backend_take 5 sample_sel () sample_enqueued = (Some sample_first, sample_empty, ())"
  by code_simp

lemma sample_grant:
  "backend_grant sample_platform sample_config 5 True sample_sel () sample_empty sample_first =
     (fst (backend_grant sample_platform sample_config 5 True sample_sel () sample_empty sample_first),
      sample_granted, ())"
  by code_simp

lemma sample_enqueued_reachable:
  "frontier_reachable sample_platform sample_config sample_sel
     ((start_system sample_config)\<lparr>fy_backend := sample_enqueued\<rparr>)"
proof -
  have "frontier_step sample_platform sample_config sample_sel (start_system sample_config)
      ((start_system sample_config)\<lparr>fy_backend := sample_enqueued\<rparr>)"
    by (rule frontier_step.enqueue [where input = sample_input and now = 0])
      (use sample_enqueue in \<open>simp_all add: start_system_def known_def state_knownRequests_def
        new_backend_def new_state_def split: option.split\<close>)
  then show ?thesis by (rule frontier_reachable.step [OF frontier_reachable.start])
qed

lemma sample_taken_reachable:
  "frontier_reachable sample_platform sample_config sample_sel sample_taken_system"
proof -
  let ?s1 = "(start_system sample_config)\<lparr>fy_backend := sample_enqueued\<rparr>"
  have "frontier_step sample_platform sample_config sample_sel ?s1
      (?s1\<lparr>fy_backend := sample_empty, fy_taken := sample_first # fy_taken ?s1\<rparr>)"
    by (rule frontier_step.take [where now = 5]) (simp add: sample_take)
  moreover have "?s1\<lparr>fy_backend := sample_empty, fy_taken := sample_first # fy_taken ?s1\<rparr> = sample_taken_system"
    by (simp add: start_system_def sample_taken_system_def)
  ultimately show ?thesis using frontier_reachable.step [OF sample_enqueued_reachable] by metis
qed

lemma sample_granted_reachable:
  "frontier_reachable sample_platform sample_config sample_sel sample_granted_system"
proof -
  have "frontier_step sample_platform sample_config sample_sel sample_taken_system
      (sample_taken_system\<lparr>fy_backend := sample_granted, fy_taken := remove1 sample_first (fy_taken sample_taken_system)\<rparr>)"
    by (rule frontier_step.grant [where now = 5 and ok = True and p = "()" and p' = "()" and
          res = "fst (backend_grant sample_platform sample_config 5 True sample_sel () sample_empty sample_first)"])
      (simp add: sample_taken_system_def, simp add: sample_taken_system_def sample_grant [symmetric])
  moreover have "sample_taken_system\<lparr>fy_backend := sample_granted,
      fy_taken := remove1 sample_first (fy_taken sample_taken_system)\<rparr> = sample_granted_system"
    by (simp add: sample_taken_system_def sample_granted_system_def)
  ultimately show ?thesis using frontier_reachable.step [OF sample_taken_reachable] by metis
qed

section \<open>Conservation\<close>

text \<open>
  C1: No interleaving of the workers loses or duplicates a request. In every reachable state
  each known request is in exactly one place: queued or deferred, taken by a suspended
  \<open>leaseNext\<close>, leased, in a suspended \<open>release\<close>, or finished; and the identifiers of the known
  requests are distinct.
\<close>

theorem reachable_conservation:
  assumes "frontier_reachable pf cfg sel s"
  shows "mset (known (fy_backend s)) =
      waiting (jb_state (fy_backend s)) + mset (fy_taken s)
      + mset (map ls_request (map_values (jb_active (fy_backend s))))
      + mset (fy_releasing s) + mset (fy_finished s)
    \<and> distinct (map rq_id (known (fy_backend s)))"
  using reachable_inv [OF assms] by (simp add: frontier_inv_def parts_def del: map_map)

lemma reachable_conservation_witness:
  "known sample_granted = [sample_first] \<and>
   mset (known sample_granted) =
     waiting (jb_state sample_granted) + mset (map ls_request (map_values (jb_active sample_granted)))"
proof -
  have "known sample_granted = [sample_first]" by code_simp
  with reachable_conservation [OF sample_granted_reachable] show ?thesis
    by (simp add: sample_granted_system_def)
qed

lemma outstanding_parts:
  assumes "frontier_reachable pf cfg sel s"
  shows "backend_outstandingCount (fy_backend s) + length (fy_taken s) + length (fy_releasing s)
      + length (fy_finished s) = length (known (fy_backend s))"
proof -
  from reachable_inv [OF assms] have "size (parts s) = length (known (fy_backend s))"
    by (metis frontier_inv_def size_mset)
  then show ?thesis by (simp add: parts_def size_waiting backend_outstandingCount_def)
qed

text \<open>
  \<open>outstandingCount\<close> is what it is used for exactly while no call is suspended: in every
  reachable state it is the number of known requests without a terminal record, less the
  requests that suspended \<open>leaseNext\<close> and \<open>release\<close> calls hold.
\<close>

theorem outstandingCount_formula:
  assumes "frontier_reachable pf cfg sel s"
  shows "int (backend_outstandingCount (fy_backend s)) =
     int (length (known (fy_backend s))) - int (length (fy_finished s))
       - int (length (fy_taken s) + length (fy_releasing s))"
  using outstanding_parts [OF assms] by linarith

lemma outstandingCount_formula_witness:
  "backend_outstandingCount sample_granted = 1"
proof -
  have "known sample_granted = [sample_first]" by code_simp
  with outstandingCount_formula [OF sample_granted_reachable] show ?thesis
    by (simp add: sample_granted_system_def)
qed

text \<open>
  Between the removal of a request from the queue and the journalling of its lease the
  frontier reports that nothing is outstanding. When the last queued request is taken and no
  lease is active, \<open>outstandingCount\<close> is 0 although that request is known and not finished,
  so another worker that looks at this moment finds the crawl complete.
\<close>

theorem taken_request_not_outstanding:
  assumes "frontier_reachable pf cfg sel s" and "backend_outstandingCount (fy_backend s) = 1"
    and "jb_active (fy_backend s) = []"
    and "backend_take now sel p (fy_backend s) = (Some r, jb', p')"
  shows "backend_outstandingCount jb' = 0 \<and> r \<in> set (known jb') \<and> r \<notin> set (fy_finished s)"
proof -
  note inv = reachable_inv [OF assms(1)]
  from backend_take_cases [OF assms(4)] have q: "known jb' = known (fy_backend s)" "jb_active jb' = []"
    "waiting (jb_state (fy_backend s)) = add_mset r (waiting (jb_state jb'))"
    using assms(3) inv by (auto simp: known_def state_knownRequests_def frontier_inv_def)
  from arg_cong [OF q(3), of size] assms(2,3) q(2) have "backend_outstandingCount jb' = 0"
    by (simp add: backend_outstandingCount_def size_waiting)
  moreover from q(3) have "r \<in># parts s" by (simp add: parts_def)
  moreover from q(3) have "r \<notin> set (fy_finished s)" by (intro not_finished_if_elsewhere [OF inv]) simp
  ultimately show ?thesis using known_if_part [OF inv, of r] q(1) by simp
qed

lemma taken_request_not_outstanding_witness:
  "backend_outstandingCount sample_enqueued = 1 \<and> backend_outstandingCount sample_empty = 0 \<and>
     sample_first \<in> set (known sample_empty)"
proof -
  have pre: "backend_outstandingCount sample_enqueued = 1" "jb_active sample_enqueued = []" by code_simp+
  with taken_request_not_outstanding [OF sample_enqueued_reachable, of 5 "()" sample_first sample_empty "()"]
  show ?thesis by (simp add: sample_take)
qed

section \<open>Crash and resume\<close>

lemma filter_by_keys:
  "map f xs = ys \<Longrightarrow> (\<And>x. x \<in> set xs \<Longrightarrow> P x = Q (f x)) \<Longrightarrow> map f (filter P xs) = filter Q ys"
  by (induction xs arbitrary: ys) auto

lemma unfinished_reachable:
  assumes inv: "frontier_inv pf s"
    and states: "validateJournal (pf_hash pf) (jb_log (fy_backend s)) = Inr states"
      "map fst states = map rq_id (known (fy_backend s))"
      "map js_request (map_values states) = known (fy_backend s)"
      "\<forall>r \<in> set (known (fy_backend s)). life_of (map_of states (rq_id r)) = life_in s r"
  shows "unfinished states + mset (fy_finished s) = mset (known (fy_backend s))"
proof -
  let ?known = "known (fy_backend s)"
  have wf: "wf_map states" using states(1) by (rule validateJournal_wf)
  have fin: "\<not> js_terminal v \<longleftrightarrow> js_request v \<notin> set (fy_finished s)" if v: "v \<in> set (map_values states)" for v
  proof -
    from v obtain i where i: "i < length states" "v = snd (states ! i)" by (auto simp: in_set_conv_nth)
    have len: "length ?known = length states" using states(2) by (metis length_map)
    have k: "fst (states ! i) = rq_id (?known ! i)" "js_request v = ?known ! i"
      using arg_cong [OF states(2), of "\<lambda>xs. xs ! i"] arg_cong [OF states(3), of "\<lambda>xs. xs ! i"] i len
      by simp_all
    have "(fst (states ! i), v) \<in> set states" using i by (metis nth_mem prod.collapse)
    then have "map_of states (rq_id (?known ! i)) = Some v" using wf k(1) by simp
    moreover have "?known ! i \<in> set ?known" using i len by simp
    ultimately have "life_of (Some v) = life_in s (?known ! i)" using states(4) by fastforce
    then show ?thesis using k(2) by (auto simp: life_of_def life_in_def split: if_splits option.splits)
  qed
  have "map js_request (filter (\<lambda>v. \<not> js_terminal v) (map_values states))
      = filter (\<lambda>r. r \<notin> set (fy_finished s)) ?known"
    by (rule filter_by_keys [OF states(3)], rule fin)
  then have "unfinished states = {#r \<in># mset ?known. r \<notin> set (fy_finished s)#}"
    by (metis mset_filter unfinished_def)
  moreover obtain A where A: "mset ?known = A + mset (fy_finished s)" "\<And>r. r \<in># A \<Longrightarrow> r \<notin> set (fy_finished s)"
    using inv not_finished_if_elsewhere [OF inv]
    by (metis (no_types, lifting) frontier_inv_def parts_def union_assoc union_commute)
  moreover have "{#r \<in># A. r \<notin> set (fy_finished s)#} = A"
    using A(2) by (metis (mono_tags, lifting) filter_mset_True filter_mset_cong)
  moreover have "{#r \<in># mset (fy_finished s). r \<notin> set (fy_finished s)#} = {#}"
    by (metis (mono_tags, lifting) mset_filter mset_zero_iff filter_False)
  ultimately show ?thesis by simp
qed

text \<open>
  C2: A crash at any moment loses no work. In every state reachable by a fresh run the journal
  written so far passes validation, and recovery from it returns every known request, and as
  pending or deferred exactly those that have no terminal record.
\<close>

theorem crash_recovery_complete:
  assumes "frontier_reachable pf cfg sel s"
  shows "\<exists>states. validateJournal (pf_hash pf) (jb_log (fy_backend s)) = Inr states \<and>
    rf_requests (recoverFrontier (jb_log (fy_backend s)) now) = known (fy_backend s) \<and>
    mset (rf_pending (recoverFrontier (jb_log (fy_backend s)) now))
      + mset (map df_request (rf_deferred (recoverFrontier (jb_log (fy_backend s)) now)))
      + mset (fy_finished s) = mset (known (fy_backend s))"
proof -
  note inv = reachable_inv [OF assms]
  then obtain states where states:
      "validateJournal (pf_hash pf) (jb_log (fy_backend s)) = Inr states"
      "map fst states = map rq_id (known (fy_backend s))"
      "map js_request (map_values states) = known (fy_backend s)"
      "\<forall>r \<in> set (known (fy_backend s)). life_of (map_of states (rq_id r)) = life_in s r"
    by (auto simp: log_agrees_def frontier_inv_def)
  from recoverFrontier_partition [OF states(1), of now] unfinished_reachable [OF inv states] states(1,3)
  show ?thesis by (simp del: map_map)
qed

lemma crash_recovery_complete_witness:
  "mset (rf_pending (recoverFrontier (jb_log sample_granted) 6))
     + mset (map df_request (rf_deferred (recoverFrontier (jb_log sample_granted) 6))) = {#sample_first#}"
proof -
  have "known sample_granted = [sample_first]" by code_simp
  with crash_recovery_complete [OF sample_granted_reachable, of 6] show ?thesis
    by (auto simp: sample_granted_system_def)
qed

text \<open>
  What a resume does to a request that was leased when the previous run stopped.
\<close>

lemma restorePending_fold_log [simp]:
  "jb_log (foldl backend_restorePending jb rs) = jb_log jb"
  "jb_open (foldl backend_restorePending jb rs) = jb_open jb"
  by (induction rs arbitrary: jb) (auto simp: backend_restorePending_def lease_restorePending_def)

lemma backend_init_log [simp]:
  "jb_log (snd (backend_init cfg now records)) = records"
  by (simp add: backend_init_def new_backend_def Let_def)

lemma backend_leaseNext_log:
  assumes "backend_leaseNext pf cfg now ok sel p jb = (Inr (Some l), jb', p')"
  shows "jb_log jb' = jb_log jb @ [next_record (pf_hash pf) (jb_log jb)
     \<lparr>ur_body = JLeased (rq_id (ls_request l)) (ls_leaseId l) (ls_expiresAt l), ur_createdAt = now\<rparr>]"
  using assms
  by (auto simp: backend_leaseNext_def backend_take_def backend_grant_def lease_lease_def Let_def
      bind_result_Inr split: prod.splits option.splits sum.splits)

text \<open>
  C40: A resumed run destroys its own journal when it continues an interrupted request. The
  journal of the crashed run is valid and holds an open lease; recovery hands the request out
  again without journalling that the old lease is over; so as soon as the resumed run leases
  it, the journal is one that no later load accepts.
\<close>

theorem resume_of_leased_request_breaks_journal:
  assumes "validateJournal (pf_hash pf) records = Inr states"
    and "map_of states (rq_id (ls_request l)) = Some st" and "\<not> js_terminal st" and "js_leaseId st \<noteq> None"
    and "backend_leaseNext pf cfg now ok sel p (snd (backend_init cfg started records)) = (Inr (Some l), jb', p')"
  shows "validateJournal (pf_hash pf) (jb_log jb') = Inl (InvalidLease (rq_id (ls_request l)))"
  using relet_rejected [OF assms(1-4)] backend_leaseNext_log [OF assms(5)] by simp

definition sample_resume_config :: frontier_config where
  "sample_resume_config = sample_config\<lparr>fc_resume := True\<rparr>"

definition sample_crash_journal :: "journal_record list" where
  "sample_crash_journal =
     sample_journal [JEnqueued (sample_request ''/x'' 1 0), JLeased ''req_/x'' ''old'' 50]"

lemma resume_of_leased_request_breaks_journal_witness:
  "validateJournal sample_hash
     (jb_log (fst (snd (backend_leaseNext sample_platform sample_resume_config 100 True sample_sel ()
        (snd (backend_init sample_resume_config 100 sample_crash_journal))))))
   = Inl (InvalidLease ''req_/x'')"
proof -
  let ?res = "backend_leaseNext sample_platform sample_resume_config 100 True sample_sel ()
        (snd (backend_init sample_resume_config 100 sample_crash_journal))"
  define l where "l = the (projr (fst ?res))"
  have lease: "?res = (Inr (Some l), fst (snd ?res), ())" and id: "rq_id (ls_request l) = ''req_/x''"
    unfolding l_def by code_simp+
  have valid: "validateJournal (pf_hash sample_platform) sample_crash_journal =
      Inr [(''req_/x'', \<lparr>js_request = sample_request ''/x'' 1 0, js_terminal = False, js_leaseId = Some ''old''\<rparr>)]"
    by code_simp
  have "pf_hash sample_platform = sample_hash" by (simp add: sample_platform_def)
  with resume_of_leased_request_breaks_journal [OF valid _ _ _ lease] show ?thesis
    by (simp add: id)
qed

section \<open>Selection\<close>

text \<open>The requests a call at time \<open>now\<close> may select from, in queue order.\<close>

definition eligible :: "timestamp \<Rightarrow> frontier_state \<Rightarrow> crawl_request list" where
  "eligible now s = st_queue s @ map df_request (filter (\<lambda>d. df_expiresAt d \<le> now) (st_deferred s))"

text \<open>
  The specification of the selection: nothing only if no candidate is acceptable; by priority
  no acceptable candidate comes before the selected one; breadth first takes the first
  acceptable candidate, depth first the last.
\<close>

definition selects ::
  "(crawl_request \<Rightarrow> bool) \<Rightarrow> frontier_order \<Rightarrow> crawl_request list \<Rightarrow> crawl_request option \<Rightarrow> bool"
where
  "selects P ord rs found \<longleftrightarrow>
     (case found of
        None \<Rightarrow> list_all (\<lambda>q. \<not> P q) rs
      | Some r \<Rightarrow> P r \<and>
          (case ord of
             OrderPriority \<Rightarrow> r \<in> set rs \<and> list_all (\<lambda>q. P q \<longrightarrow> request_key r \<le> request_key q) rs
           | OrderBfs \<Rightarrow> \<exists>xs ys. rs = xs @ r # ys \<and> list_all (\<lambda>q. \<not> P q) xs
           | OrderDfs \<Rightarrow> \<exists>xs ys. rs = xs @ r # ys \<and> list_all (\<lambda>q. \<not> P q) ys))"

lemma find_split:
  "List.find P rs = Some r \<Longrightarrow> P r \<and> (\<exists>xs ys. rs = xs @ r # ys \<and> list_all (\<lambda>q. \<not> P q) xs)"
proof (induction rs)
  case (Cons x rs)
  show ?case
  proof (cases "P x")
    case True
    with Cons.prems show ?thesis by (auto intro: exI [of _ "[]"])
  next
    case False
    with Cons obtain xs ys where "P r" "rs = xs @ r # ys" "list_all (\<lambda>q. \<not> P q) xs" by auto
    with False show ?thesis by (intro conjI exI [of _ "x # xs"] exI [of _ ys]) simp_all
  qed
qed simp

lemma find_sorted_least:
  assumes "List.find P rs = Some r" and "sorted (map key rs)"
  shows "list_all (\<lambda>q. P q \<longrightarrow> key r \<le> key q) rs"
proof -
  from find_split [OF assms(1)] obtain xs ys where
    rs: "rs = xs @ r # ys" and no: "list_all (\<lambda>q. \<not> P q) xs" by blast
  have "list_all (\<lambda>q. key r \<le> key q) ys" using assms(2) by (simp add: rs sorted_append list_all_iff)
  with no show ?thesis unfolding rs list_all_iff by auto
qed

text \<open>
  \<open>takeNext\<close> selects the best acceptable request. From the queued requests and those whose
  deferral has expired it returns, in priority order, one that no acceptable request precedes
  (higher priority, then smaller depth, then earlier creation); breadth first the first
  acceptable and depth first the last one; and nothing only when none is acceptable. What it
  returns is removed, once, and nothing else is.
\<close>

theorem takeNext_selects:
  assumes "queue_ok s" and "takeNext now (\<lambda>p r. (P r, p)) p s = (found, s', p')"
  shows "selects P (st_order s) (eligible now s) found \<and>
    waiting s = waiting s' + (case found of None \<Rightarrow> {#} | Some r \<Rightarrow> {#r#})"
proof -
  let ?q = "st_queue (promoteDeferred now s)"
  have ord: "st_order (promoteDeferred now s) = st_order s" by simp
  have q: "?q = sortRequests (eligible now s) (st_order s)"
    using promoteDeferred_split(2) [OF assms(1), of now] by (simp add: eligible_def)
  have found: "found = List.find P (if st_order s = OrderDfs then rev ?q else ?q)"
    using assms(2)
    by (auto simp: takeNext_def Let_def find_take_pure split: if_splits prod.splits option.splits)
  have "selects P (st_order s) (eligible now s) found"
  proof (cases found)
    case None
    with found [symmetric] have "\<forall>r \<in> set ?q. \<not> P r" by (auto simp: find_None_iff split: if_splits)
    with None q show ?thesis by (simp add: selects_def list_all_iff)
  next
    case (Some r)
    show ?thesis
    proof (cases "st_order s")
      case OrderPriority
      with found Some have f: "List.find P ?q = Some r" by simp
      have "sorted (map request_key ?q)" using q OrderPriority by (simp add: sortRequests_sorted)
      from find_sorted_least [OF f this] find_split [OF f] q OrderPriority Some show ?thesis
        by (auto simp: selects_def list_all_iff sortRequests_def) (metis in_set_conv_decomp set_sort)
    next
      case OrderBfs
      with found Some q have "List.find P (eligible now s) = Some r" by (simp add: sortRequests_def)
      from find_split [OF this] OrderBfs Some show ?thesis by (simp add: selects_def)
    next
      case OrderDfs
      with found Some q have "List.find P (rev (eligible now s)) = Some r" by (simp add: sortRequests_def)
      from find_split [OF this] obtain xs ys where "P r" "rev (eligible now s) = xs @ r # ys"
        "list_all (\<lambda>q. \<not> P q) xs" by blast
      then have "eligible now s = rev ys @ r # rev xs" "list_all (\<lambda>q. \<not> P q) (rev xs)"
        by (simp_all add: rev_swap)
      then have "\<exists>xs ys. eligible now s = xs @ r # ys \<and> list_all (\<lambda>q. \<not> P q) ys" by blast
      with OrderDfs Some \<open>P r\<close> show ?thesis by (simp add: selects_def)
    qed
  qed
  with takeNext_waiting [OF assms(2)] show ?thesis by blast
qed

lemma takeNext_selects_witness:
  "selects (\<lambda>r. rq_depth r < 2) OrderPriority
     (eligible 10 \<lparr>st_queue = [sample_request ''/x'' 60 0, sample_request ''/y'' 50 1],
        st_deferred = [\<lparr>df_request = sample_request ''/z'' 70 2, df_expiresAt = 10\<rparr>],
        st_requestsByKey = [], st_order = OrderPriority\<rparr>)
     (Some (sample_request ''/x'' 60 0))"
proof -
  let ?s = "\<lparr>st_queue = [sample_request ''/x'' 60 0, sample_request ''/y'' 50 1],
        st_deferred = [\<lparr>df_request = sample_request ''/z'' 70 2, df_expiresAt = 10\<rparr>],
        st_requestsByKey = [], st_order = OrderPriority\<rparr>"
  have ok: "queue_ok ?s" by code_simp
  have "takeNext 10 (\<lambda>p r. (rq_depth r < 2, p)) () ?s =
      (Some (sample_request ''/x'' 60 0),
       fst (snd (takeNext 10 (\<lambda>p r. (rq_depth r < 2, p)) () ?s)), ())"
    by code_simp
  from takeNext_selects [OF ok this] show ?thesis by simp
qed

section \<open>Enqueueing twice\<close>

lemma backend_enqueue_known:
  assumes "normalizeUrl (pf_parse pf) (ei_rawUrl input) (ei_referrerUrl input) = Inr n"
    and "state_requestForKey (jb_state jb) (unique_key n) = Some e"
  shows "\<exists>d. backend_enqueue pf cfg now ok jb input = Inr (duplicateEnqueueResult e d, jb)"
  using assms by (auto simp: backend_enqueue_def Let_def)

lemma backend_enqueue_key:
  assumes "backend_enqueue pf cfg now ok jb input = Inr (res, jb')" and "er_request res = Some r"
    and "normalizeUrl (pf_parse pf) (ei_rawUrl input) (ei_referrerUrl input) = Inr n"
  shows "rq_uniqueKey r = unique_key n"
  using assms
  by (auto simp: backend_enqueue_def Let_def bind_result_Inr factory_create_def duplicateEnqueueResult_def
      factory_skipped_def split: option.splits if_splits)

text \<open>
  A URL is enqueued once. After an input has been enqueued, any input whose URL normalises
  to the same URL, whatever its referrer, source, depth or seed, is answered as already seen,
  with the identifier of the first request, and changes neither the queue nor the journal.
\<close>

theorem enqueue_deduplicates:
  assumes "backend_enqueue pf cfg now ok jb input = Inr (res, jb')" and "er_request res = Some r"
    and "normalizeUrl (pf_parse pf) (ei_rawUrl input) (ei_referrerUrl input) = Inr n"
    and "normalizeUrl (pf_parse pf) (ei_rawUrl input') (ei_referrerUrl input') = Inr n'"
    and "nu_normalizedUrl n' = nu_normalizedUrl n"
  shows "\<exists>res'. backend_enqueue pf cfg now' ok' jb' input' = Inr (res', jb') \<and>
     er_request res' = None \<and> ed_status (er_decision res') = AlreadySeen \<and>
     ed_requestId (er_decision res') = Some (rq_id r)"
proof -
  from backend_enqueue_effect [OF assms(1)] assms(2) have "jb' = enqueued_backend pf now jb r"
    by (simp add: enqueue_effect_def)
  moreover have "rq_uniqueKey r = unique_key n'"
    using backend_enqueue_key [OF assms(1-3)] assms(5) by (simp add: unique_key_def)
  ultimately have "state_requestForKey (jb_state jb') (unique_key n') = Some r"
    by (simp add: state_requestForKey_def addPending_def remember_def Let_def)
  from backend_enqueue_known [OF assms(4) this] obtain d where
    "backend_enqueue pf cfg now' ok' jb' input' = Inr (duplicateEnqueueResult r d, jb')" by blast
  then show ?thesis by (simp add: duplicateEnqueueResult_def)
qed

lemma enqueue_deduplicates_witness:
  "\<exists>res'. backend_enqueue sample_platform sample_config 7 True sample_enqueued
       (sample_input\<lparr>ei_rawUrl := ''http://a/x#top'', ei_source := HtmlLink\<rparr>) = Inr (res', sample_enqueued) \<and>
     ed_status (er_decision res') = AlreadySeen"
proof -
  let ?i = "sample_input\<lparr>ei_rawUrl := ''http://a/x#top'', ei_source := HtmlLink\<rparr>"
  have a: "er_request (fst (projr (backend_enqueue sample_platform sample_config 0 True (new_backend sample_config []) sample_input)))
      = Some sample_first" by code_simp
  have b: "normalizeUrl (pf_parse sample_platform) (ei_rawUrl sample_input) (ei_referrerUrl sample_input) =
     Inr (projr (normalizeUrl (pf_parse sample_platform) (ei_rawUrl sample_input) (ei_referrerUrl sample_input)))"
    by code_simp
  have c: "normalizeUrl (pf_parse sample_platform) (ei_rawUrl ?i) (ei_referrerUrl ?i) =
     Inr (projr (normalizeUrl (pf_parse sample_platform) (ei_rawUrl ?i) (ei_referrerUrl ?i)))"
    by code_simp
  have d: "nu_normalizedUrl (projr (normalizeUrl (pf_parse sample_platform) (ei_rawUrl ?i) (ei_referrerUrl ?i)))
      = nu_normalizedUrl (projr (normalizeUrl (pf_parse sample_platform) (ei_rawUrl sample_input) (ei_referrerUrl sample_input)))"
    by code_simp
  from enqueue_deduplicates [OF sample_enqueue a b c d, of 7 True] show ?thesis by auto
qed

end
