(* ===== verification/Selection.thy ===== *)
theory Selection
  imports Frontier_Backend
begin

text \<open>
  The interface \<open>LeaseSelection\<close> of \<open>frontier/backend-types.ts\<close>, through which the frontier asks
  whether a candidate may be leased now. The contract: an accepted candidate holds one
  reservation of its origin, a refused one holds none, and \<open>releaseReservation\<close> gives one back.
  Under it \<open>leaseNext\<close> keeps the books of any selection: it leaves exactly one reservation
  behind for the request it leases, and none when it returns nothing or fails.
\<close>

definition leased_request :: "(frontier_error, request_lease option) result \<Rightarrow> crawl_request option" where
  "leased_request res = (case res of Inl e \<Rightarrow> None | Inr l \<Rightarrow> map_option ls_request l)"

locale lease_selection =
  fixes sel :: "'p lease_selection"
    and valid :: "'p \<Rightarrow> bool"
    and held :: "'p \<Rightarrow> string multiset"
    and origin :: "crawl_request \<Rightarrow> string"
  assumes reserve_valid: "valid p \<Longrightarrow> sel_tryReserve sel p r = (b, p') \<Longrightarrow> valid p'"
    and reserve_accepts: "valid p \<Longrightarrow> sel_tryReserve sel p r = (True, p') \<Longrightarrow> held p' = add_mset (origin r) (held p)"
    and reserve_refuses: "valid p \<Longrightarrow> sel_tryReserve sel p r = (False, p') \<Longrightarrow> held p' = held p"
    and undo_valid: "valid p \<Longrightarrow> valid (sel_releaseReservation sel p r)"
    and undo_held: "valid p \<Longrightarrow> origin r \<in># held p \<Longrightarrow> held (sel_releaseReservation sel p r) = held p - {#origin r#}"
begin

definition reserved :: "crawl_request option \<Rightarrow> string multiset" where
  "reserved found = (case found of None \<Rightarrow> {#} | Some r \<Rightarrow> {#origin r#})"

lemma reserved_simps [simp]: "reserved None = {#}" "reserved (Some r) = {#origin r#}"
  by (simp_all add: reserved_def)

lemma find_take_books:
  "find_take (sel_tryReserve sel) p rs = (found, rest, p') \<Longrightarrow> valid p \<Longrightarrow>
     valid p' \<and> held p' = held p + reserved found"
proof (induction rs arbitrary: p found rest p')
  case Nil
  then show ?case by simp
next
  case (Cons r rs)
  obtain b p1 where tr: "sel_tryReserve sel p r = (b, p1)" by fastforce
  show ?case
  proof (cases b)
    case True
    with Cons.prems tr reserve_valid [OF Cons.prems(2) tr] reserve_accepts [OF Cons.prems(2), of r p1]
    show ?thesis by auto
  next
    case False
    with Cons.prems tr obtain rest1 where "find_take (sel_tryReserve sel) p1 rs = (found, rest1, p')"
      by (auto split: prod.splits)
    from Cons.IH [OF this reserve_valid [OF Cons.prems(2) tr]] reserve_refuses [OF Cons.prems(2), of r p1] tr False
    show ?thesis by simp
  qed
qed

lemma take_books:
  "backend_take now sel p jb = (found, jb', p') \<Longrightarrow> valid p \<Longrightarrow> valid p' \<and> held p' = held p + reserved found"
  by (auto simp: backend_take_def takeNext_def Let_def split: prod.splits if_splits dest: find_take_books)

lemma grant_books:
  assumes "backend_grant pf cfg now ok sel p jb r = (res, jb', p')" and "valid p" and "origin r \<in># held p"
  shows "valid p' \<and> held p' = (case res of Inl e \<Rightarrow> held p - {#origin r#} | Inr l \<Rightarrow> held p)"
  using assms undo_valid undo_held by (auto simp: backend_grant_def split: sum.splits)

lemma grant_request:
  "backend_grant pf cfg now ok sel p jb r = (Inr l, jb', p') \<Longrightarrow> ls_request l = r"
  by (auto simp: backend_grant_def lease_lease_def Let_def bind_result_Inr split: sum.splits)

lemma leaseNext_books:
  assumes "backend_leaseNext pf cfg now ok sel p jb = (res, jb', p')" and "valid p"
  shows "valid p' \<and> held p' = held p + reserved (leased_request res)"
proof -
  obtain found jb1 p1 where take: "backend_take now sel p jb = (found, jb1, p1)" by (metis prod_cases3)
  note books = take_books [OF take assms(2)]
  show ?thesis
  proof (cases found)
    case None
    with assms take books show ?thesis by (auto simp: backend_leaseNext_def leased_request_def)
  next
    case (Some r)
    obtain res1 where grant: "backend_grant pf cfg now ok sel p1 jb1 r = (res1, jb', p')"
      and res: "res = map_sum id Some res1"
      using assms(1) take Some by (auto simp: backend_leaseNext_def split: prod.splits)
    from grant_books [OF grant] grant_request [of pf cfg now ok p1 jb1 r _ jb' p'] grant books Some res show ?thesis
      by (cases res1) (auto simp: leased_request_def)
  qed
qed

end

end
