(* ===== verification/Politeness_Properties.thy ===== *)
theory Politeness_Properties
  imports Politeness Selection Frontier_Properties
begin

text \<open>
  What politeness guarantees: the limits on concurrency and rate per origin in every run of
  its operations, the bounds of the adapted delay, and, through the contract of
  \<open>Selection\<close>, that leases and reservations match.
\<close>

section \<open>Runs\<close>

datatype politeness_op =
    Reserve crawl_request
  | Undo crawl_request
  | RobotsDelay string number
  | Release string request_outcome
  | NextEligible

fun politeness_step ::
  "network_config \<Rightarrow> (crawl_request \<Rightarrow> string) \<Rightarrow> number \<Rightarrow> politeness_op \<Rightarrow> slots \<Rightarrow> slots"
where
  "politeness_step cfg origin_of now (Reserve r) slots = snd (tryReserve cfg origin_of now slots r)"
| "politeness_step cfg origin_of now (Undo r) slots = releaseReservation cfg origin_of now slots r"
| "politeness_step cfg origin_of now (RobotsDelay o' d) slots = fst (applyRobotsDelay cfg now slots o' d)"
| "politeness_step cfg origin_of now (Release o' res) slots = fst (politeness_release cfg now slots o' res)"
| "politeness_step cfg origin_of now NextEligible slots = snd (nextEligibleAt cfg now slots)"

fun politeness_run ::
  "network_config \<Rightarrow> (crawl_request \<Rightarrow> string) \<Rightarrow> (number \<times> politeness_op) list \<Rightarrow> slots \<Rightarrow> slots"
where
  "politeness_run cfg origin_of [] slots = slots"
| "politeness_run cfg origin_of ((now, op) # ops) slots =
     politeness_run cfg origin_of ops (politeness_step cfg origin_of now op slots)"

section \<open>Concurrency\<close>

definition slot_ok :: "network_config \<Rightarrow> origin_slot \<Rightarrow> bool" where
  "slot_ok cfg s \<longleftrightarrow> os_active s \<le> nc_maxConcurrencyPerOrigin cfg \<and> os_tokens s \<le> rateCapacity cfg"

lemma slot_ok_new [simp]: "slot_ok cfg (new_slot cfg now)"
  by (simp add: slot_ok_def new_slot_def)

lemma slot_ok_refill: "slot_ok cfg s \<Longrightarrow> slot_ok cfg (refillTokens cfg now s)"
  by (simp add: slot_ok_def refillTokens_def Let_def)

lemma slot_ok_reserve: "slot_ok cfg s \<Longrightarrow> slot_ok cfg (snd (reserve_slot cfg now s))"
  using slot_ok_refill [of cfg s now] by (auto simp: slot_ok_def reserve_slot_def Let_def)

lemma slot_ok_release: "slot_ok cfg s \<Longrightarrow> slot_ok cfg (release_slot cfg now s res)"
  by (auto simp: slot_ok_def release_slot_def Let_def)

definition slots_ok :: "network_config \<Rightarrow> slots \<Rightarrow> bool" where
  "slots_ok cfg slots \<longleftrightarrow> wf_map slots \<and> list_all (\<lambda>(o', s). slot_ok cfg s) slots"

lemma slots_ok_set: "slots_ok cfg slots \<Longrightarrow> slot_ok cfg s \<Longrightarrow> slots_ok cfg (map_set o' s slots)"
proof -
  assume ok: "slots_ok cfg slots" "slot_ok cfg s"
  have "set (map_set o' s slots) \<subseteq> insert (o', s) (set slots)" by (induction slots) auto
  with ok show ?thesis by (auto simp: slots_ok_def list_all_iff)
qed

lemma slot_of_ok: "slots_ok cfg slots \<Longrightarrow> slot_ok cfg (slot_of cfg now slots o')"
  by (auto simp: slot_of_def slots_ok_def list_all_iff split: option.splits dest!: map_of_SomeD)

lemma eligible_loop_slots:
  "snd (eligible_loop cfg now slots best) =
     map (\<lambda>(o', s). (o', if os_active s \<ge> nc_maxConcurrencyPerOrigin cfg then s else refillTokens cfg now s)) slots"
proof (induction slots arbitrary: best)
  case (Cons p slots)
  have "snd (case x of (r, rest') \<Rightarrow> (r, y # rest')) = y # snd x" for x :: "number option \<times> slots" and y
    by (cases x) simp
  with Cons show ?case by (cases p) (simp add: Let_def)
qed simp

lemma slots_ok_step: "slots_ok cfg slots \<Longrightarrow> slots_ok cfg (politeness_step cfg origin_of now op slots)"
proof (induction cfg origin_of now op slots rule: politeness_step.induct)
  case (1 cfg origin_of now r slots)
  then show ?case
    using slot_ok_reserve [OF slot_of_ok [OF 1]]
    by (simp add: tryReserve_def slots_ok_set split: prod.split) (metis slots_ok_set snd_conv)
next
  case (2 cfg origin_of now r slots)
  then show ?case
    using slot_of_ok [OF 2, of now "origin_of r"]
    by (auto simp: releaseReservation_def Let_def slot_ok_def intro!: slots_ok_set)
next
  case (3 cfg origin_of now o' d slots)
  then show ?case
    using slot_of_ok [OF 3, of now o']
    by (auto simp: applyRobotsDelay_def Let_def slot_ok_def intro!: slots_ok_set)
next
  case (4 cfg origin_of now o' res slots)
  then show ?case
    using slot_ok_release [OF slot_of_ok [OF 4]]
    by (auto simp: politeness_release_def Let_def intro!: slots_ok_set)
next
  case (5 cfg origin_of now slots)
  then show ?case
    by (auto simp: nextEligibleAt_def eligible_loop_slots slots_ok_def list_all_iff slot_ok_refill
        case_prod_unfold comp_def)
qed

lemma slots_ok_run: "slots_ok cfg slots \<Longrightarrow> slots_ok cfg (politeness_run cfg origin_of ops slots)"
  by (induction cfg origin_of ops slots rule: politeness_run.induct) (auto simp: slots_ok_step)

text \<open>
  No origin is ever reserved more often than \<open>maxConcurrencyPerOrigin\<close>. After any sequence
  of reservations, withdrawals, robots delays, completions and availability checks, at any
  times, the active count of every origin is within the limit, and its token bucket is not
  above its capacity.
\<close>

theorem politeness_concurrency_bounded:
  "list_all (\<lambda>(o', s). os_active s \<le> nc_maxConcurrencyPerOrigin cfg \<and> os_tokens s \<le> rateCapacity cfg)
     (politeness_run cfg origin_of ops [])"
proof -
  have "slots_ok cfg (politeness_run cfg origin_of ops [])"
    by (rule slots_ok_run) (simp add: slots_ok_def)
  then show ?thesis by (simp add: slots_ok_def slot_ok_def)
qed

section \<open>Rate\<close>

text \<open>The number of reservations of one origin that a run grants.\<close>

definition granted ::
  "network_config \<Rightarrow> (crawl_request \<Rightarrow> string) \<Rightarrow> string \<Rightarrow> number \<Rightarrow> slots \<Rightarrow> politeness_op \<Rightarrow> nat"
where
  "granted cfg origin_of o' now slots op =
     (case op of
        Reserve r \<Rightarrow> if origin_of r = o' \<and> fst (tryReserve cfg origin_of now slots r) then 1 else 0
      | _ \<Rightarrow> 0)"

fun grants ::
  "network_config \<Rightarrow> (crawl_request \<Rightarrow> string) \<Rightarrow> string \<Rightarrow> (number \<times> politeness_op) list \<Rightarrow> slots \<Rightarrow> nat"
where
  "grants cfg origin_of o' [] slots = 0"
| "grants cfg origin_of o' ((now, op) # ops) slots =
     granted cfg origin_of o' now slots op
     + grants cfg origin_of o' ops (politeness_step cfg origin_of now op slots)"

text \<open>The tokens a slot would have at time \<open>t\<close>, without the cap.\<close>

definition virtual_tokens :: "network_config \<Rightarrow> number \<Rightarrow> origin_slot \<Rightarrow> number" where
  "virtual_tokens cfg t s = os_tokens s + (t - os_lastRefillAt s) / rateIntervalMs cfg"

definition tokens_at :: "network_config \<Rightarrow> number \<Rightarrow> slots \<Rightarrow> string \<Rightarrow> number" where
  "tokens_at cfg t slots o' =
     (case map_of slots o' of None \<Rightarrow> rateCapacity cfg | Some s \<Rightarrow> virtual_tokens cfg t s)"

lemma tokens_at_set [simp]:
  "tokens_at cfg t (map_set k s slots) o' =
     (if k = o' then virtual_tokens cfg t s else tokens_at cfg t slots o')"
  by (simp add: tokens_at_def)

lemma tokens_at_slot: "tokens_at cfg t slots o' = virtual_tokens cfg t (slot_of cfg t slots o')"
  by (auto simp: tokens_at_def slot_of_def new_slot_def virtual_tokens_def split: option.split)

lemma tokens_at_later:
  assumes "0 < rateIntervalMs cfg" and "t \<le> now"
  shows "tokens_at cfg now slots o' \<le> tokens_at cfg t slots o' + (now - t) / rateIntervalMs cfg"
proof (cases "map_of slots o'")
  case None
  with assms show ?thesis by (simp add: tokens_at_def)
next
  case (Some s)
  then show ?thesis
    by (simp add: tokens_at_def virtual_tokens_def diff_divide_distrib)
qed

lemma virtual_refill:
  "usesRateLimit cfg \<Longrightarrow> virtual_tokens cfg now (refillTokens cfg now s) \<le> virtual_tokens cfg now s"
  by (simp add: virtual_tokens_def refillTokens_def Let_def)

lemma virtual_refill_nonneg:
  "usesRateLimit cfg \<Longrightarrow> 0 \<le> virtual_tokens cfg now s \<Longrightarrow> 0 \<le> virtual_tokens cfg now (refillTokens cfg now s)"
  by (simp add: virtual_tokens_def refillTokens_def Let_def rateCapacity_def)

lemma reserve_slot_cases:
  assumes "usesRateLimit cfg"
  obtains (refused) "reserve_slot cfg now s = (False, refillTokens cfg now s)"
  | (granted) s' where "reserve_slot cfg now s = (True, s')" "1 \<le> virtual_tokens cfg now (refillTokens cfg now s)"
      "virtual_tokens cfg now s' = virtual_tokens cfg now (refillTokens cfg now s) - 1"
proof -
  have last: "os_lastRefillAt (refillTokens cfg now s) = now"
    using assms by (simp add: refillTokens_def Let_def)
  show ?thesis
  proof (cases "fst (reserve_slot cfg now s)")
    case True
    with assms last granted show ?thesis
      unfolding reserve_slot_def Let_def virtual_tokens_def by (auto split: if_splits)
  next
    case False
    with refused show ?thesis unfolding reserve_slot_def Let_def by (auto split: if_splits)
  qed
qed

lemma virtual_reserve:
  assumes "usesRateLimit cfg"
  shows "virtual_tokens cfg now (snd (reserve_slot cfg now s)) +
      (if fst (reserve_slot cfg now s) then 1 else 0) \<le> virtual_tokens cfg now s"
    and "0 \<le> virtual_tokens cfg now s \<Longrightarrow> 0 \<le> virtual_tokens cfg now (snd (reserve_slot cfg now s))"
  using virtual_refill [OF assms, of now s] virtual_refill_nonneg [OF assms, of now s]
  by (cases rule: reserve_slot_cases [OF assms, of now s]; simp)+

lemma tokens_at_eligible:
  "tokens_at cfg now (map (\<lambda>(k, s). (k, f s)) slots) o' =
     (case map_of slots o' of None \<Rightarrow> rateCapacity cfg | Some s \<Rightarrow> virtual_tokens cfg now (f s))"
  by (simp add: tokens_at_def map_of_map split: option.split)

lemmas slot_updates =
  releaseReservation_def applyRobotsDelay_def politeness_release_def release_slot_def Let_def virtual_tokens_def

lemma step_tokens:
  assumes "usesRateLimit cfg"
  shows "tokens_at cfg now (politeness_step cfg origin_of now op slots) o' +
      of_nat (granted cfg origin_of o' now slots op) \<le> tokens_at cfg now slots o'"
proof (cases op)
  case (Reserve r)
  show ?thesis
  proof (cases "origin_of r = o'")
    case True
    then show ?thesis
      using Reserve virtual_reserve(1) [OF assms, of now "slot_of cfg now slots o'"]
      by (auto simp: granted_def tryReserve_def tokens_at_slot [of cfg now slots] case_prod_unfold split: if_splits)
  next
    case False
    with Reserve show ?thesis by (simp add: granted_def tryReserve_def split: prod.splits)
  qed
next
  case NextEligible
  then show ?thesis
    using virtual_refill [OF assms, of now]
    by (simp add: granted_def nextEligibleAt_def eligible_loop_slots tokens_at_eligible)
      (simp add: tokens_at_def split: option.split)
qed (auto simp: granted_def slot_updates tokens_at_slot [of cfg now slots])

lemma step_tokens_nonneg:
  assumes "usesRateLimit cfg" and "0 \<le> tokens_at cfg now slots o'"
  shows "0 \<le> tokens_at cfg now (politeness_step cfg origin_of now op slots) o'"
proof (cases op)
  case (Reserve r)
  with assms virtual_reserve(2) [OF assms(1), of now "slot_of cfg now slots o'"] show ?thesis
    by (cases "origin_of r = o'") (simp_all add: tryReserve_def tokens_at_slot [of cfg now slots] case_prod_unfold)
next
  case NextEligible
  with assms virtual_refill_nonneg [OF assms(1), of now] show ?thesis
    by (auto simp: nextEligibleAt_def eligible_loop_slots tokens_at_eligible)
      (auto simp: tokens_at_def split: option.splits)
qed (use assms in \<open>auto simp: slot_updates tokens_at_slot [of cfg now slots]\<close>)

lemma grants_bound:
  assumes "usesRateLimit cfg" and "0 < rateIntervalMs cfg"
  shows "sorted (t # map fst ops) \<Longrightarrow> list_all (\<lambda>x. fst x \<le> T) ops \<Longrightarrow> t \<le> T \<Longrightarrow>
    0 \<le> tokens_at cfg t slots o' \<Longrightarrow>
    of_nat (grants cfg origin_of o' ops slots) \<le> tokens_at cfg t slots o' + (T - t) / rateIntervalMs cfg"
proof (induction ops arbitrary: t slots)
  case Nil
  with assms(2) show ?case by simp
next
  case (Cons x ops)
  obtain now op where x: "x = (now, op)" by (cases x)
  let ?I = "rateIntervalMs cfg"
  let ?slots = "politeness_step cfg origin_of now op slots"
  let ?n = "granted cfg origin_of o' now slots op"
  from Cons.prems(1,2) x have t: "t \<le> now" "now \<le> T" "sorted (now # map fst ops)" by auto
  have "tokens_at cfg t slots o' \<le> tokens_at cfg now slots o'"
    using t(1) assms(2) by (auto simp: tokens_at_def virtual_tokens_def divide_right_mono split: option.split)
  with Cons.prems(4) have nonneg: "0 \<le> tokens_at cfg now slots o'" by simp
  have "of_nat (grants cfg origin_of o' ops ?slots) \<le> tokens_at cfg now ?slots o' + (T - now) / ?I"
    using Cons.prems(2) t step_tokens_nonneg [OF assms(1) nonneg] by (intro Cons.IH) auto
  with step_tokens [OF assms(1), of now origin_of op slots o']
  have "of_nat (?n + grants cfg origin_of o' ops ?slots) \<le> tokens_at cfg now slots o' + (T - now) / ?I"
    by simp
  also have "\<dots> \<le> tokens_at cfg t slots o' + (now - t) / ?I + (T - now) / ?I"
    using tokens_at_later [OF assms(2) t(1)] by simp
  also have "\<dots> = tokens_at cfg t slots o' + (T - t) / ?I" by (simp add: diff_divide_distrib)
  finally show ?case using x by simp
qed


section \<open>The adapted delay\<close>

lemma clamp_range: "lo \<le> hi \<Longrightarrow> lo \<le> clamp x lo hi \<and> clamp x lo hi \<le> hi"
  by (simp add: clamp_def)

lemma js_round_range: "x \<in> {of_int a..of_int b} \<Longrightarrow> js_round x \<in> {of_int a..of_int b}"
proof -
  assume x: "x \<in> {of_int a..of_int b}"
  have "a \<le> \<lfloor>x + 1 / 2\<rfloor>" using x by (simp add: le_floor_iff)
  moreover have "\<lfloor>x + 1 / 2\<rfloor> \<le> b" using x by (simp add: floor_le_iff)
  ultimately show ?thesis by (simp add: js_round_def)
qed

text \<open>
  Auto-throttling stays within its configuration and backs off. With integer bounds
  \<open>lo \<le> hi\<close> and a delay within them, the delay after a completed request is within them; after
  a failure it is at least the old one and at least twice the old one or the upper bound; and
  the origin is not eligible again before the delay has passed.
\<close>

theorem throttle_bounds:
  assumes "at_enabled (nc_autoThrottle cfg)"
    and "at_minDelayMs (nc_autoThrottle cfg) = of_int lo" and "at_maxDelayMs (nc_autoThrottle cfg) = of_int hi"
    and "lo \<le> hi" and "of_int lo \<le> os_delayMs slot" and "os_delayMs slot \<le> of_int hi"
  shows "of_int lo \<le> os_delayMs (release_slot cfg now slot res) \<and>
    os_delayMs (release_slot cfg now slot res) \<le> of_int hi \<and>
    now + os_delayMs (release_slot cfg now slot res) \<le> os_nextAllowedAt (release_slot cfg now slot res) \<and>
    \<not> (isFailure res \<and> os_delayMs (release_slot cfg now slot res)
         < max (os_delayMs slot) (min (2 * os_delayMs slot) (of_int hi)))"
proof -
  let ?t = "nc_autoThrottle cfg"
  let ?target = "clamp (oc_latencyMs res / at_targetConcurrencyPerOrigin ?t) (of_int lo) (of_int hi)"
  let ?mix = "os_delayMs slot * (1 - at_smoothing ?t) + ?target * at_smoothing ?t"
  have delay: "os_delayMs (release_slot cfg now slot res) =
      (if isFailure res then max (max (os_delayMs slot) ?target) (min (os_delayMs slot * 2) (of_int hi))
       else js_round (clamp ?mix (of_int lo) (of_int hi)))"
    using assms(1-3) by (simp add: release_slot_def adjustedDelay_def Let_def)
  have nx: "now + os_delayMs (release_slot cfg now slot res) \<le> os_nextAllowedAt (release_slot cfg now slot res)"
    by (simp add: release_slot_def Let_def)
  have tgt: "of_int lo \<le> ?target" "?target \<le> of_int hi"
    using clamp_range [of "of_int lo :: rat" "of_int hi"] assms(4) by simp_all
  have "js_round (clamp ?mix (of_int lo) (of_int hi)) \<in> {of_int lo..of_int hi}"
    using clamp_range [of "of_int lo :: rat" "of_int hi" ?mix] assms(4) by (intro js_round_range) simp
  with delay nx tgt assms(5,6) show ?thesis by (auto simp: mult.commute max_def min_def split: if_splits)
qed

definition sample_failure :: request_outcome where
  "sample_failure = \<lparr>oc_kind = OutFetched, oc_statusCode = Some 503, oc_responseTimeMs = 30, oc_latencyMs = 20\<rparr>"

lemma throttle_bounds_witness:
  "os_delayMs (release_slot sample_network 0 (new_slot sample_network 0) sample_failure) \<le> 1000 \<and>
   \<not> os_delayMs (release_slot sample_network 0 (new_slot sample_network 0) sample_failure) < 200"
  using throttle_bounds [of sample_network 50 1000 "new_slot sample_network 0" 0 sample_failure]
  by (simp add: sample_network_def new_slot_def sample_failure_def isFailure_def)


section \<open>Leases and reservations\<close>

text \<open>The reservations the slots hold.\<close>

definition held_reservations :: "slots \<Rightarrow> string multiset" where
  "held_reservations slots = (\<Sum>(o', s) \<leftarrow> slots. replicate_mset (os_active s) o')"

lemma held_set:
  "held_reservations (map_set o' s slots) + replicate_mset (case map_of slots o' of None \<Rightarrow> 0 | Some t \<Rightarrow> os_active t) o'
     = held_reservations slots + replicate_mset (os_active s) o'"
  by (induction slots) (auto simp: held_reservations_def ac_simps)

lemma held_slot:
  "held_reservations (map_set o' s slots) + replicate_mset (os_active (slot_of cfg now slots o')) o'
     = held_reservations slots + replicate_mset (os_active s) o'"
  using held_set [of o' s slots] by (auto simp: slot_of_def new_slot_def split: option.splits)

lemma held_absent: "o' \<notin> fst ` set slots \<Longrightarrow> count (held_reservations slots) o' = 0"
  by (induction slots) (auto simp: held_reservations_def)

lemma held_count: "wf_map slots \<Longrightarrow> count (held_reservations slots) o' =
    (case map_of slots o' of None \<Rightarrow> 0 | Some s \<Rightarrow> os_active s)"
proof (induction slots)
  case (Cons p slots)
  have "held_reservations (p # slots) = replicate_mset (os_active (snd p)) (fst p) + held_reservations slots"
    by (cases p) (simp add: held_reservations_def)
  moreover have "map_of slots (fst p) = None" using Cons.prems by (simp add: map_of_eq_None_iff)
  ultimately show ?case using Cons held_absent [of "fst p" slots] by simp
qed (simp add: held_reservations_def)

definition politeness_selection ::
  "network_config \<Rightarrow> (crawl_request \<Rightarrow> string) \<Rightarrow> number \<Rightarrow> slots lease_selection"
where
  "politeness_selection cfg origin_of now =
     \<lparr>sel_tryReserve = tryReserve cfg origin_of now, sel_releaseReservation = releaseReservation cfg origin_of now\<rparr>"

lemma reserve_slot_active:
  "reserve_slot cfg now s = (b, s') \<Longrightarrow> os_active s' = (if b then os_active s + 1 else os_active s)"
  by (auto simp: reserve_slot_def refillTokens_def Let_def split: if_splits)

lemma tryReserve_held:
  assumes "tryReserve cfg origin_of now slots r = (b, slots')"
  shows "held_reservations slots' = (if b then add_mset (origin_of r) (held_reservations slots) else held_reservations slots)"
proof -
  obtain s' where s': "reserve_slot cfg now (slot_of cfg now slots (origin_of r)) = (b, s')"
    and slots': "slots' = map_set (origin_of r) s' slots"
    using assms by (auto simp: tryReserve_def split: prod.splits)
  from held_slot [of "origin_of r" s' slots cfg now] reserve_slot_active [OF s'] slots' show ?thesis
    by (cases b) (simp_all add: ac_simps)
qed

lemma held_minus:
  assumes "wf_map slots" "o' \<in># held_reservations slots"
    and "os_active s = os_active (slot_of cfg now slots o') - 1"
  shows "held_reservations (map_set o' s slots) = held_reservations slots - {#o'#}"
proof -
  from assms(2) held_count [OF assms(1), of "o'"] have "0 < os_active (slot_of cfg now slots o')"
    by (auto simp: slot_of_def count_greater_zero_iff [symmetric] split: option.splits)
  then have "os_active (slot_of cfg now slots o') = Suc (os_active s)" using assms(3) by simp
  with held_slot [of "o'" s slots cfg now]
  have "add_mset o' (held_reservations (map_set o' s slots)) = held_reservations slots" by simp
  then show ?thesis by (metis add_mset_remove_trivial)
qed

lemma releaseReservation_held:
  assumes "wf_map slots" and "origin_of r \<in># held_reservations slots"
  shows "held_reservations (releaseReservation cfg origin_of now slots r) = held_reservations slots - {#origin_of r#}"
  using held_minus [OF assms, of _ cfg now] by (simp add: releaseReservation_def Let_def)

interpretation politeness: lease_selection "politeness_selection cfg origin_of now" wf_map
    held_reservations origin_of for cfg origin_of now
  by unfold_locales
    (auto simp: politeness_selection_def tryReserve_held releaseReservation_held,
     auto simp: tryReserve_def releaseReservation_def Let_def split: prod.splits)

text \<open>
  Leases and reservations match. One call of \<open>leaseNext\<close> with the politeness controller
  adds one reservation of the leased request's origin when it returns a lease, and leaves the
  reservations unchanged when it returns none or fails to journal the lease: no slot leaks.
\<close>

theorem leaseNext_reserves_exactly:
  assumes "backend_leaseNext pf cfg now ok (politeness_selection net origin_of t) slots jb = (res, jb', slots')"
    and "wf_map slots"
  shows "held_reservations slots' = held_reservations slots +
    (case res of Inr (Some l) \<Rightarrow> {#origin_of (ls_request l)#} | _ \<Rightarrow> {#})"
  using politeness.leaseNext_books [OF assms]
  by (auto simp: leased_request_def politeness.reserved_def split: sum.splits option.splits)

lemma leaseNext_reserves_exactly_witness:
  "held_reservations (snd (snd (backend_leaseNext sample_platform sample_config 0 True
      (politeness_selection sample_network (\<lambda>_. ''http://a'') 0) [] sample_enqueued))) = {#''http://a''#}"
proof -
  let ?r = "backend_leaseNext sample_platform sample_config 0 True
      (politeness_selection sample_network (\<lambda>_. ''http://a'') 0) [] sample_enqueued"
  have lease: "?r = (Inr (Some (the (projr (fst ?r)))), fst (snd ?r), snd (snd ?r))" by code_simp
  have wf: "wf_map ([] :: slots)" by simp
  show ?thesis
    using leaseNext_reserves_exactly [OF lease wf] by (simp add: held_reservations_def [of "[]"])
qed

end
