(* ===== verification/Run_Controller.thy ===== *)
theory Run_Controller
  imports Records
begin

text \<open>
  The run controller, class \<open>RunController\<close> of \<open>runtime/run-controller.ts\<close> with the types of
  \<open>runtime/types.ts\<close>, and what it shares with the rest of the crawler: crawl errors
  (\<open>diagnostics/types.ts\<close>, \<open>diagnostics/factory.ts\<close>) and the counters of \<open>crawler/types.ts\<close>
  that modelled components write.

  \<open>now\<close> is \<open>performance.now()\<close>. A thrown error is \<open>None\<close>. The abort signal is the reason it
  was aborted with.
\<close>

section \<open>Errors\<close>

datatype (plugins only: code) crawl_error_code =
    E_CONFIG_ERROR | E_URL_PARSE_ERROR | E_UNSUPPORTED_PROTOCOL | E_SCOPE_REJECTED
  | E_ROBOTS_DISALLOWED | E_ROBOTS_FETCH_FAILED | E_ROBOTS_PARSE_ERROR
  | E_NETWORK_SAFETY_REJECTED | E_DNS_ERROR | E_TLS_ERROR | E_FETCH_TIMEOUT
  | E_FETCH_CONNECT_TIMEOUT | E_FETCH_FIRST_BYTE_TIMEOUT | E_FETCH_ABORTED
  | E_FETCH_NETWORK_ERROR | E_FETCH_DECOMPRESSION_ERROR | E_UNSUPPORTED_CONTENT_ENCODING
  | E_HTTP_ERROR | E_TOO_MANY_REDIRECTS | E_REDIRECT_LOOP | E_REDIRECT_TARGET_REJECTED
  | E_RESPONSE_TOO_LARGE | E_DECOMPRESSED_RESPONSE_TOO_LARGE | E_UNSUPPORTED_CONTENT_TYPE
  | E_DECODE_ERROR | E_HTML_PARSE_ERROR | E_HTML_BUDGET_EXCEEDED | E_XML_PARSE_ERROR
  | E_XML_BUDGET_EXCEEDED | E_SITEMAP_FETCH_FAILED | E_SITEMAP_PARSE_ERROR | E_FEED_PARSE_ERROR
  | E_RENDER_TIMEOUT | E_RENDER_ERROR | E_STORAGE_WRITE_ERROR | E_FRONTIER_JOURNAL_ERROR
  | E_SNAPSHOT_WRITE_ERROR | E_EXTENSION_ERROR | E_RESUME_ERROR | E_INTERNAL_ERROR

record crawl_error =
  ce_code :: crawl_error_code
  ce_message :: string
  ce_url :: "string option"
  ce_requestId :: "string option"
  ce_retryable :: bool
  ce_fatal :: bool
  ce_attempt :: "nat option"
  ce_causeName :: "string option"
  ce_causeMessage :: "string option"
  ce_createdAt :: timestamp

text \<open>\<open>crawlError\<close> with its defaults; a cause is its name and its message.\<close>

definition crawlError ::
  "timestamp \<Rightarrow> crawl_error_code \<Rightarrow> string \<Rightarrow> string option \<Rightarrow> string option \<Rightarrow> bool option \<Rightarrow> bool option
     \<Rightarrow> nat option \<Rightarrow> (string \<times> string) option \<Rightarrow> crawl_error"
where
  "crawlError now code message url requestId retryable fatal attempt cause =
     \<lparr>ce_code = code, ce_message = message, ce_url = url, ce_requestId = requestId,
      ce_retryable = (case retryable of None \<Rightarrow> False | Some b \<Rightarrow> b),
      ce_fatal = (case fatal of None \<Rightarrow> False | Some b \<Rightarrow> b),
      ce_attempt = attempt, ce_causeName = map_option fst cause,
      ce_causeMessage = map_option snd cause, ce_createdAt = now\<rparr>"

section \<open>Counters\<close>

record crawl_counters =
  cc_requestsScheduled :: nat
  cc_requestsAttempted :: nat
  cc_requestsFetched :: nat
  cc_requestsTransportFailed :: nat
  cc_requestsPolicySkipped :: nat
  cc_requestsCancelled :: nat
  cc_requestsFailed :: nat
  cc_urlsSkipped :: nat
  cc_retries :: nat
  cc_resourcesRecorded :: nat
  cc_htmlPagesParsed :: nat
  cc_xmlResourcesParsed :: nat
  cc_sitemapsFetched :: nat
  cc_sitemapEntriesDiscovered :: nat
  cc_sitemapFilesDiscovered :: nat
  cc_feedsFetched :: nat
  cc_feedEntriesDiscovered :: nat
  cc_linksExtracted :: nat
  cc_internalLinksExtracted :: nat
  cc_externalLinksExtracted :: nat
  cc_javascriptResourcesParsed :: nat
  cc_javascriptLinksExtracted :: nat
  cc_cssStylesheetsParsed :: nat
  cc_cssLinksExtracted :: nat
  cc_redirectsFollowed :: nat
  cc_redirectsBlocked :: nat
  cc_robotsFilesFetched :: nat
  cc_robotsDisallowedUrls :: nat
  cc_scopeRejectedUrls :: nat
  cc_networkSafetyRejectedUrls :: nat
  cc_parserErrors :: nat
  cc_decodeErrors :: nat
  cc_bytesDownloaded :: nat
  cc_responseCount :: nat
  cc_responseTimeMsTotal :: number
  cc_peakConcurrency :: nat
  cc_peakQueueSize :: nat
  cc_resumedRequests :: nat
  cc_recoveredLeases :: nat
  cc_renewedLeases :: nat
  cc_releasedLeases :: nat
  cc_storageBackpressureEvents :: nat
  cc_droppedEvents :: nat
  cc_changesRecorded :: nat
  cc_workerHeartbeats :: nat
  cc_replaysCompleted :: nat

section \<open>Phases and stops\<close>

datatype run_phase =
  PhCreated | PhInitializing | PhRunning | PhStopping | PhDraining | PhFinalizing | PhClosed

datatype limit_reason =
    LimScheduledRequests | LimFetchedResources | LimRunTime | LimDownloadedBytes | LimQueueSize
  | LimSitemapFiles | LimSitemapEntries | LimSitemapIndexDepth | LimRenderedPages

datatype stop_detail =
    FrontierEmpty
  | StopLimit limit_reason
  | StopCancelled string
  | StopFatal crawl_error

datatype stop_reason = RFrontierEmpty | RLimitReached | RAborted | RFatalError

definition SOFT_LIMITS :: "limit_reason list" where
  "SOFT_LIMITS = [LimScheduledRequests, LimQueueSize, LimSitemapFiles, LimSitemapEntries,
     LimSitemapIndexDepth, LimRenderedPages]"

fun stopPriority :: "stop_detail \<Rightarrow> nat" where
  "stopPriority (StopFatal e) = 4"
| "stopPriority (StopCancelled r) = 3"
| "stopPriority (StopLimit l) = (if List.member SOFT_LIMITS l then 1 else 2)"
| "stopPriority FrontierEmpty = 0"

record crawl_limits =
  cl_maxScheduledRequests :: nat
  cl_maxFetchedResources :: nat
  cl_maxRunTimeMs :: number
  cl_maxDownloadedBytes :: nat

section \<open>The controller\<close>

record run_controller =
  rc_phase :: run_phase
  rc_stop :: "stop_detail option"
  rc_active :: nat
  rc_startedMs :: number
  rc_reported :: "limit_reason list"     \<comment> \<open>the set \<open>reportedLimits\<close>, in insertion order\<close>
  rc_observed :: bool                    \<comment> \<open>\<open>onLimit !== null\<close>\<close>
  rc_notified :: "limit_reason list"     \<comment> \<open>the calls of \<open>onLimit\<close>\<close>
  rc_aborted :: "stop_detail option"
  rc_counters :: crawl_counters

definition fatalError :: "run_controller \<Rightarrow> crawl_error option" where
  "fatalError rc = (case rc_stop rc of Some (StopFatal e) \<Rightarrow> Some e | _ \<Rightarrow> None)"

definition setStop :: "stop_detail \<Rightarrow> bool \<Rightarrow> run_controller \<Rightarrow> run_controller" where
  "setStop detail abortActive rc =
     (let rc = (if rc_stop rc = None \<or> (case detail of StopFatal e \<Rightarrow> True | _ \<Rightarrow> False) \<or>
                   stopPriority detail > stopPriority (the (rc_stop rc))
                then rc\<lparr>rc_stop := Some detail\<rparr> else rc);
          rc = (if rc_phase rc = PhRunning then rc\<lparr>rc_phase := PhStopping\<rparr> else rc)
      in if abortActive \<and> rc_aborted rc = None then rc\<lparr>rc_aborted := Some detail\<rparr> else rc)"

definition transition :: "run_phase \<Rightarrow> run_phase \<Rightarrow> run_controller \<Rightarrow> run_controller option" where
  "transition expected target rc =
     (if rc_phase rc \<noteq> expected then None else Some (rc\<lparr>rc_phase := target\<rparr>))"

definition beginInitialization where
  "beginInitialization rc = transition PhCreated PhInitializing rc"

definition beginRunning where
  "beginRunning rc = transition PhInitializing PhRunning rc"

definition beginDraining :: "run_controller \<Rightarrow> run_controller" where
  "beginDraining rc =
     (if rc_phase rc = PhRunning \<or> rc_phase rc = PhStopping then rc\<lparr>rc_phase := PhDraining\<rparr> else rc)"

definition beginFinalization :: "run_controller \<Rightarrow> run_controller" where
  "beginFinalization rc = (if rc_phase rc \<noteq> PhClosed then rc\<lparr>rc_phase := PhFinalizing\<rparr> else rc)"

definition controller_close :: "run_controller \<Rightarrow> run_controller" where
  "controller_close rc = rc\<lparr>rc_phase := PhClosed\<rparr>"

definition startClock :: "number \<Rightarrow> run_controller \<Rightarrow> run_controller" where
  "startClock now rc = rc\<lparr>rc_startedMs := now\<rparr>"

definition cancel :: "string \<Rightarrow> run_controller \<Rightarrow> run_controller" where
  "cancel reason rc = setStop (StopCancelled reason) True rc"

definition fail_run :: "crawl_error \<Rightarrow> run_controller \<Rightarrow> run_controller" where
  "fail_run error rc = setStop (StopFatal error) True rc"

definition failFromUnknown :: "timestamp \<Rightarrow> string \<times> string \<Rightarrow> run_controller \<Rightarrow> run_controller" where
  "failFromUnknown now cause rc =
     fail_run (crawlError now E_INTERNAL_ERROR ''Fatal crawler runtime error'' None None None
                 (Some True) None (Some cause)) rc"

definition noteLimit :: "limit_reason \<Rightarrow> run_controller \<Rightarrow> run_controller" where
  "noteLimit limit rc =
     (let rc = setStop (StopLimit limit) False rc
      in if List.member (rc_reported rc) limit then rc
         else let rc = rc\<lparr>rc_reported := rc_reported rc @ [limit]\<rparr>
              in if rc_observed rc then rc\<lparr>rc_notified := rc_notified rc @ [limit]\<rparr> else rc)"

definition observeLimits :: "run_controller \<Rightarrow> run_controller" where
  "observeLimits rc = rc\<lparr>rc_observed := True\<rparr>"

definition completeFrontier :: "run_controller \<Rightarrow> run_controller" where
  "completeFrontier rc = (if rc_stop rc = None then rc\<lparr>rc_stop := Some FrontierEmpty\<rparr> else rc)"

definition beginRequest :: "run_controller \<Rightarrow> run_controller" where
  "beginRequest rc =
     (let rc = rc\<lparr>rc_active := rc_active rc + 1\<rparr>; c = rc_counters rc
      in rc\<lparr>rc_counters := c\<lparr>cc_requestsAttempted := cc_requestsAttempted c + 1,
                              cc_peakConcurrency := max (cc_peakConcurrency c) (rc_active rc)\<rparr>\<rparr>)"

definition finishRequest :: "run_controller \<Rightarrow> run_controller" where
  "finishRequest rc = rc\<lparr>rc_active := rc_active rc - 1\<rparr>"

definition refreshLimits :: "crawl_limits \<Rightarrow> number \<Rightarrow> run_controller \<Rightarrow> run_controller" where
  "refreshLimits limits now rc =
     (let rc = (if cc_requestsFetched (rc_counters rc) \<ge> cl_maxFetchedResources limits
                then noteLimit LimFetchedResources rc else rc);
          rc = (if now - rc_startedMs rc \<ge> cl_maxRunTimeMs limits then noteLimit LimRunTime rc else rc)
      in if cc_bytesDownloaded (rc_counters rc) \<ge> cl_maxDownloadedBytes limits
         then noteLimit LimDownloadedBytes rc else rc)"

definition recordFetched ::
  "crawl_limits \<Rightarrow> number \<Rightarrow> nat \<Rightarrow> number \<Rightarrow> run_controller \<Rightarrow> run_controller"
where
  "recordFetched limits now bytes responseTimeMs rc =
     (let c = rc_counters rc
      in refreshLimits limits now
           (rc\<lparr>rc_counters := c\<lparr>cc_requestsFetched := cc_requestsFetched c + 1,
                cc_bytesDownloaded := cc_bytesDownloaded c + bytes,
                cc_responseCount := cc_responseCount c + 1,
                cc_responseTimeMsTotal := cc_responseTimeMsTotal c + responseTimeMs\<rparr>\<rparr>))"

definition may_lease :: "stop_detail option \<Rightarrow> bool" where
  "may_lease stop =
     (case stop of
        None \<Rightarrow> True
      | Some FrontierEmpty \<Rightarrow> True
      | Some (StopCancelled r) \<Rightarrow> False
      | Some (StopFatal e) \<Rightarrow> False
      | Some (StopLimit l) \<Rightarrow> List.member SOFT_LIMITS l)"

definition shouldLeaseMore :: "crawl_limits \<Rightarrow> number \<Rightarrow> run_controller \<Rightarrow> bool \<times> run_controller" where
  "shouldLeaseMore limits now rc =
     (let rc = refreshLimits limits now rc in (may_lease (rc_stop rc), rc))"

definition stopReason :: "run_controller \<Rightarrow> stop_reason" where
  "stopReason rc =
     (case rc_stop rc of
        None \<Rightarrow> RFrontierEmpty
      | Some FrontierEmpty \<Rightarrow> RFrontierEmpty
      | Some (StopLimit l) \<Rightarrow> RLimitReached
      | Some (StopCancelled r) \<Rightarrow> RAborted
      | Some (StopFatal e) \<Rightarrow> RFatalError)"

section \<open>Runs of the controller\<close>

datatype controller_op =
    OpInitialization | OpRunning | OpDraining | OpFinalization | OpClose
  | OpClock number
  | OpCancel string
  | OpFail crawl_error
  | OpLimit limit_reason
  | OpObserve
  | OpComplete
  | OpBegin | OpFinish
  | OpFetched number nat number
  | OpShouldLease number

text \<open>A call that throws leaves the controller as it is.\<close>

fun controller_step :: "crawl_limits \<Rightarrow> controller_op \<Rightarrow> run_controller \<Rightarrow> run_controller" where
  "controller_step limits OpInitialization rc = (case beginInitialization rc of None \<Rightarrow> rc | Some rc' \<Rightarrow> rc')"
| "controller_step limits OpRunning rc = (case beginRunning rc of None \<Rightarrow> rc | Some rc' \<Rightarrow> rc')"
| "controller_step limits OpDraining rc = beginDraining rc"
| "controller_step limits OpFinalization rc = beginFinalization rc"
| "controller_step limits OpClose rc = controller_close rc"
| "controller_step limits (OpClock now) rc = startClock now rc"
| "controller_step limits (OpCancel reason) rc = cancel reason rc"
| "controller_step limits (OpFail e) rc = fail_run e rc"
| "controller_step limits (OpLimit l) rc = noteLimit l rc"
| "controller_step limits OpObserve rc = observeLimits rc"
| "controller_step limits OpComplete rc = completeFrontier rc"
| "controller_step limits OpBegin rc = beginRequest rc"
| "controller_step limits OpFinish rc = finishRequest rc"
| "controller_step limits (OpFetched now bytes ms) rc = recordFetched limits now bytes ms rc"
| "controller_step limits (OpShouldLease now) rc = snd (shouldLeaseMore limits now rc)"

definition controller_run :: "crawl_limits \<Rightarrow> controller_op list \<Rightarrow> run_controller \<Rightarrow> run_controller" where
  "controller_run limits ops rc = foldl (\<lambda>rc op. controller_step limits op rc) rc ops"

definition new_counters :: crawl_counters where
  "new_counters =
     \<lparr>cc_requestsScheduled = 0, cc_requestsAttempted = 0, cc_requestsFetched = 0,
      cc_requestsTransportFailed = 0, cc_requestsPolicySkipped = 0, cc_requestsCancelled = 0,
      cc_requestsFailed = 0, cc_urlsSkipped = 0, cc_retries = 0, cc_resourcesRecorded = 0,
      cc_htmlPagesParsed = 0, cc_xmlResourcesParsed = 0, cc_sitemapsFetched = 0,
      cc_sitemapEntriesDiscovered = 0, cc_sitemapFilesDiscovered = 0, cc_feedsFetched = 0,
      cc_feedEntriesDiscovered = 0, cc_linksExtracted = 0, cc_internalLinksExtracted = 0,
      cc_externalLinksExtracted = 0, cc_javascriptResourcesParsed = 0,
      cc_javascriptLinksExtracted = 0, cc_cssStylesheetsParsed = 0, cc_cssLinksExtracted = 0,
      cc_redirectsFollowed = 0, cc_redirectsBlocked = 0, cc_robotsFilesFetched = 0,
      cc_robotsDisallowedUrls = 0, cc_scopeRejectedUrls = 0, cc_networkSafetyRejectedUrls = 0,
      cc_parserErrors = 0, cc_decodeErrors = 0, cc_bytesDownloaded = 0, cc_responseCount = 0,
      cc_responseTimeMsTotal = 0, cc_peakConcurrency = 0, cc_peakQueueSize = 0,
      cc_resumedRequests = 0, cc_recoveredLeases = 0, cc_renewedLeases = 0, cc_releasedLeases = 0,
      cc_storageBackpressureEvents = 0, cc_droppedEvents = 0, cc_changesRecorded = 0,
      cc_workerHeartbeats = 0, cc_replaysCompleted = 0\<rparr>"

definition new_controller :: "number \<Rightarrow> run_controller" where
  "new_controller now =
     \<lparr>rc_phase = PhCreated, rc_stop = None, rc_active = 0, rc_startedMs = now, rc_reported = [],
      rc_observed = False, rc_notified = [], rc_aborted = None, rc_counters = new_counters\<rparr>"

end
