(* ===== verification/Controller_Properties.thy ===== *)
theory Controller_Properties
  imports Run_Controller
begin

text \<open>
  What the run controller promises, whatever the order of the calls: the stop detail only gets
  stronger, a run that has to stop leases nothing more, the phases only move forward, and
  every limit is reported once.
\<close>

section \<open>Strength of the stop\<close>

definition stop_rank :: "run_controller \<Rightarrow> int" where
  "stop_rank rc = (case rc_stop rc of None \<Rightarrow> -1 | Some d \<Rightarrow> int (stopPriority d))"

lemma stopPriority_le: "stopPriority d \<le> 4"
  by (cases d) auto

lemma setStop_stop:
  "rc_stop (setStop d a rc) =
     (if rc_stop rc = None \<or> (case d of StopFatal e \<Rightarrow> True | _ \<Rightarrow> False) \<or>
         stopPriority d > stopPriority (the (rc_stop rc)) then Some d else rc_stop rc)"
  by (simp add: setStop_def Let_def)

lemma setStop_rank: "stop_rank rc \<le> stop_rank (setStop d a rc)"
  using stopPriority_le [of "the (rc_stop rc)"]
  by (auto simp: stop_rank_def setStop_stop split: option.splits stop_detail.splits)

lemma setStop_reaches: "int (stopPriority d) \<le> stop_rank (setStop d a rc)"
  by (auto simp: stop_rank_def setStop_stop split: option.splits)

lemma noteLimit_stop: "rc_stop (noteLimit l rc) = rc_stop (setStop (StopLimit l) False rc)"
  by (simp add: noteLimit_def Let_def)

lemma noteLimit_rank: "stop_rank rc \<le> stop_rank (noteLimit l rc)"
  using setStop_rank [of rc "StopLimit l" False] by (simp add: stop_rank_def noteLimit_stop)

lemma noteLimit_mono: "x \<le> stop_rank rc \<Longrightarrow> x \<le> stop_rank (noteLimit l rc)"
  using noteLimit_rank [of rc l] by simp

lemma refresh_rank: "stop_rank rc \<le> stop_rank (refreshLimits limits now rc)"
  by (simp add: refreshLimits_def Let_def noteLimit_mono)

lemma stop_rank_updates [simp]:
  "stop_rank (rc\<lparr>rc_phase := p\<rparr>) = stop_rank rc" "stop_rank (rc\<lparr>rc_active := n\<rparr>) = stop_rank rc"
  "stop_rank (rc\<lparr>rc_startedMs := t\<rparr>) = stop_rank rc" "stop_rank (rc\<lparr>rc_observed := b\<rparr>) = stop_rank rc"
  "stop_rank (rc\<lparr>rc_counters := c\<rparr>) = stop_rank rc"
  by (simp_all add: stop_rank_def)

lemmas controller_defs =
  beginInitialization_def beginRunning_def transition_def beginDraining_def beginFinalization_def
  controller_close_def startClock_def cancel_def fail_run_def observeLimits_def completeFrontier_def
  beginRequest_def finishRequest_def recordFetched_def shouldLeaseMore_def

lemma refresh_mono: "x \<le> stop_rank rc \<Longrightarrow> x \<le> stop_rank (refreshLimits limits now rc)"
  using refresh_rank [of rc limits now] by simp

lemma step_rank: "stop_rank rc \<le> stop_rank (controller_step limits op rc)"
proof (cases op)
  case OpComplete
  then show ?thesis by (simp add: completeFrontier_def stop_rank_def)
qed (simp_all add: controller_defs Let_def setStop_rank noteLimit_mono refresh_mono)

lemma run_rank: "stop_rank rc \<le> stop_rank (controller_run limits ops rc)"
proof (induction ops arbitrary: rc)
  case Nil
  then show ?case by (simp add: controller_run_def)
next
  case (Cons op ops)
  have "stop_rank rc \<le> stop_rank (controller_step limits op rc)" by (rule step_rank)
  also have "\<dots> \<le> stop_rank (controller_run limits ops (controller_step limits op rc))" by (rule Cons.IH)
  finally show ?case by (simp add: controller_run_def)
qed

lemma may_lease_rank: "may_lease (rc_stop rc) \<longleftrightarrow> stop_rank rc \<le> 1"
  by (auto simp: may_lease_def stop_rank_def split: option.splits stop_detail.splits)

text \<open>
  A stop is final. After a cancellation, a fatal error or a hard limit, in any later state
  of the controller, whatever calls are made in between, \<open>shouldLeaseMore\<close> is false; and the
  stop detail is never replaced by a weaker one.
\<close>

theorem stop_is_final:
  assumes "rc_stop rc = Some d" and "2 \<le> stopPriority d"
  shows "\<not> fst (shouldLeaseMore limits now (controller_run limits' ops rc)) \<and>
    (\<exists>d'. rc_stop (controller_run limits' ops rc) = Some d' \<and> stopPriority d \<le> stopPriority d')"
proof -
  let ?rc = "controller_run limits' ops rc"
  have "int (stopPriority d) \<le> stop_rank ?rc" using run_rank [of rc limits' ops] assms(1) by (simp add: stop_rank_def)
  moreover from this have "\<exists>d'. rc_stop ?rc = Some d' \<and> stopPriority d \<le> stopPriority d'"
    by (cases "rc_stop ?rc") (simp_all add: stop_rank_def)
  moreover have "stop_rank ?rc \<le> stop_rank (refreshLimits limits now ?rc)" by (rule refresh_rank)
  ultimately show ?thesis
    using assms(2) by (simp add: shouldLeaseMore_def Let_def may_lease_rank)
qed

lemma stop_is_final_witness:
  "\<not> fst (shouldLeaseMore \<lparr>cl_maxScheduledRequests = 5, cl_maxFetchedResources = 5, cl_maxRunTimeMs = 100,
        cl_maxDownloadedBytes = 100\<rparr> 7
      (controller_run \<lparr>cl_maxScheduledRequests = 5, cl_maxFetchedResources = 5, cl_maxRunTimeMs = 100,
        cl_maxDownloadedBytes = 100\<rparr> [OpComplete, OpLimit LimQueueSize, OpBegin]
        (cancel ''ctrl-c'' (new_controller 0))))"
proof -
  have "rc_stop (cancel ''ctrl-c'' (new_controller 0)) = Some (StopCancelled ''ctrl-c'')" by code_simp
  from stop_is_final [OF this, of "\<lparr>cl_maxScheduledRequests = 5, cl_maxFetchedResources = 5, cl_maxRunTimeMs = 100,
        cl_maxDownloadedBytes = 100\<rparr>"] show ?thesis by simp
qed

section \<open>Limits\<close>

lemma noteLimit_counters [simp]:
  "rc_counters (noteLimit l rc) = rc_counters rc" "rc_startedMs (noteLimit l rc) = rc_startedMs rc"
  by (simp_all add: noteLimit_def setStop_def Let_def)

lemma noteLimit_reaches: "int (stopPriority (StopLimit l)) \<le> stop_rank (noteLimit l rc)"
  using setStop_reaches [of "StopLimit l" False rc] by (simp add: stop_rank_def noteLimit_stop)

lemma hard_limits [simp]:
  "stopPriority (StopLimit LimFetchedResources) = 2" "stopPriority (StopLimit LimRunTime) = 2"
  "stopPriority (StopLimit LimDownloadedBytes) = 2"
  by (simp_all add: SOFT_LIMITS_def)

text \<open>
  \<open>shouldLeaseMore\<close> enforces the hard limits. It is true exactly when fewer resources than
  allowed have been fetched, the run time is not used up, fewer bytes than allowed have been
  downloaded, and the run has not been cancelled, failed or stopped by a hard limit before.
\<close>

theorem shouldLeaseMore_iff:
  "fst (shouldLeaseMore limits now rc) \<longleftrightarrow>
     cc_requestsFetched (rc_counters rc) < cl_maxFetchedResources limits \<and>
     now - rc_startedMs rc < cl_maxRunTimeMs limits \<and>
     cc_bytesDownloaded (rc_counters rc) < cl_maxDownloadedBytes limits \<and>
     (case rc_stop rc of
        Some (StopCancelled r) \<Rightarrow> False
      | Some (StopFatal e) \<Rightarrow> False
      | Some (StopLimit l) \<Rightarrow> l \<in> set SOFT_LIMITS
      | _ \<Rightarrow> True)"
proof -
  have rank: "fst (shouldLeaseMore limits now rc) \<longleftrightarrow> stop_rank (refreshLimits limits now rc) \<le> 1"
    by (simp add: shouldLeaseMore_def Let_def may_lease_rank)
  have reach: "2 \<le> stop_rank (noteLimit LimFetchedResources rc')" "2 \<le> stop_rank (noteLimit LimRunTime rc')"
    "2 \<le> stop_rank (noteLimit LimDownloadedBytes rc')" for rc'
    using noteLimit_reaches [of LimFetchedResources rc'] noteLimit_reaches [of LimRunTime rc']
      noteLimit_reaches [of LimDownloadedBytes rc'] by (simp_all del: stopPriority.simps)
  have soft: "stop_rank rc \<le> 1 \<longleftrightarrow>
      (case rc_stop rc of Some (StopCancelled r) \<Rightarrow> False | Some (StopFatal e) \<Rightarrow> False
       | Some (StopLimit l) \<Rightarrow> l \<in> set SOFT_LIMITS | _ \<Rightarrow> True)"
    by (auto simp: stop_rank_def split: option.splits stop_detail.splits)
  show ?thesis
  proof (cases "cc_requestsFetched (rc_counters rc) < cl_maxFetchedResources limits \<and>
      now - rc_startedMs rc < cl_maxRunTimeMs limits \<and>
      cc_bytesDownloaded (rc_counters rc) < cl_maxDownloadedBytes limits")
    case True
    then have "refreshLimits limits now rc = rc" by (simp add: refreshLimits_def)
    with True rank soft show ?thesis by simp
  next
    case False
    have "2 \<le> stop_rank (refreshLimits limits now rc)"
      using False unfolding refreshLimits_def Let_def by (auto simp: reach not_less)
    with False rank show ?thesis by auto
  qed
qed

section \<open>Phases\<close>

fun phase_rank :: "run_phase \<Rightarrow> nat" where
  "phase_rank PhCreated = 0"
| "phase_rank PhInitializing = 1"
| "phase_rank PhRunning = 2"
| "phase_rank PhStopping = 3"
| "phase_rank PhDraining = 4"
| "phase_rank PhFinalizing = 5"
| "phase_rank PhClosed = 6"

lemma phase_rank_le: "phase_rank p \<le> 6" and phase_rank_open: "p \<noteq> PhClosed \<Longrightarrow> phase_rank p \<le> 5"
  by (cases p; simp)+

lemma setStop_phase: "rc_phase (setStop d a rc) = (if rc_phase rc = PhRunning then PhStopping else rc_phase rc)"
  by (simp add: setStop_def Let_def)

lemma noteLimit_phase: "rc_phase (noteLimit l rc) = (if rc_phase rc = PhRunning then PhStopping else rc_phase rc)"
  by (simp add: noteLimit_def Let_def setStop_phase)

lemma refresh_phase: "phase_rank (rc_phase rc) \<le> phase_rank (rc_phase (refreshLimits limits now rc))"
  by (simp add: refreshLimits_def Let_def noteLimit_phase)

lemma step_phase: "phase_rank (rc_phase rc) \<le> phase_rank (rc_phase (controller_step limits op rc))"
proof (cases op)
  case (OpFetched now bytes ms)
  then show ?thesis
    using refresh_phase [of "rc\<lparr>rc_counters := (rc_counters rc)\<lparr>
        cc_requestsFetched := cc_requestsFetched (rc_counters rc) + 1,
        cc_bytesDownloaded := cc_bytesDownloaded (rc_counters rc) + bytes,
        cc_responseCount := cc_responseCount (rc_counters rc) + 1,
        cc_responseTimeMsTotal := cc_responseTimeMsTotal (rc_counters rc) + ms\<rparr>\<rparr>" limits now]
    by (simp add: controller_defs Let_def)
qed (auto simp: controller_defs Let_def setStop_phase noteLimit_phase refresh_phase phase_rank_le phase_rank_open)

text \<open>
  The phases of a run only move forward, from created over initializing, running,
  stopping, draining and finalizing to closed: no call, in any order, moves a run back.
\<close>

theorem phases_move_forward:
  "phase_rank (rc_phase (controller_run limits ops rc))
     \<le> phase_rank (rc_phase (controller_run limits (ops @ ops') rc))"
proof (induction ops' rule: rev_induct)
  case Nil
  then show ?case by simp
next
  case (snoc op ops')
  have "controller_run limits (ops @ ops' @ [op]) rc = controller_step limits op (controller_run limits (ops @ ops') rc)"
    by (simp add: controller_run_def)
  with snoc step_phase [of "controller_run limits (ops @ ops') rc" limits op] show ?case by simp
qed

section \<open>Reports\<close>

definition reports_ok :: "run_controller \<Rightarrow> bool" where
  "reports_ok rc \<longleftrightarrow> distinct (rc_reported rc) \<and> distinct (rc_notified rc) \<and> set (rc_notified rc) \<subseteq> set (rc_reported rc)"

lemma setStop_reports [simp]:
  "rc_reported (setStop d a rc) = rc_reported rc" "rc_notified (setStop d a rc) = rc_notified rc"
  "rc_observed (setStop d a rc) = rc_observed rc"
  by (simp_all add: setStop_def Let_def)

lemma noteLimit_reports: "reports_ok rc \<Longrightarrow> reports_ok (noteLimit l rc)"
  by (auto simp: reports_ok_def noteLimit_def Let_def)

lemma refresh_reports: "reports_ok rc \<Longrightarrow> reports_ok (refreshLimits limits now rc)"
  by (simp add: refreshLimits_def Let_def noteLimit_reports)

lemma reports_same:
  "reports_ok rc \<Longrightarrow> rc_reported rc' = rc_reported rc \<Longrightarrow> rc_notified rc' = rc_notified rc \<Longrightarrow> reports_ok rc'"
  by (simp add: reports_ok_def)

lemma step_reports: "reports_ok rc \<Longrightarrow> reports_ok (controller_step limits op rc)"
proof (cases op)
  case (OpFetched now bytes ms)
  assume "reports_ok rc"
  then have "reports_ok (rc\<lparr>rc_counters := c\<rparr>)" for c by (rule reports_same) simp_all
  with OpFetched show ?thesis by (simp add: controller_defs Let_def refresh_reports)
qed (auto simp: controller_defs Let_def noteLimit_reports refresh_reports elim!: reports_same)

text \<open>
  Every limit is reported to the observer at most once in a run, and only limits that were
  noted.
\<close>

theorem limits_reported_once:
  "distinct (rc_notified (controller_run limits ops (new_controller now))) \<and>
   set (rc_notified (controller_run limits ops (new_controller now)))
     \<subseteq> set (rc_reported (controller_run limits ops (new_controller now)))"
proof -
  have "reports_ok (controller_run limits ops (new_controller now))"
    by (induction ops rule: rev_induct)
      (simp_all add: controller_run_def step_reports, simp add: reports_ok_def new_controller_def)
  then show ?thesis by (simp add: reports_ok_def)
qed

end
