(* ===== verification/Scheduler.thy ===== *)
theory Scheduler
  imports Frontier_Backend Run_Controller
begin

text \<open>
  The request scheduler, class \<open>RequestScheduler\<close> of \<open>crawler/request-scheduler.ts\<close>, with the
  skip recorder (\<open>crawler/skip-recorder.ts\<close>): the quotas, the scope and its reservations in
  front of the frontier, and the accounting that a resume restores.

  An admission holds the admission lock from its start to its end, so admissions follow one
  another. The result store is the list of what has been written; \<open>store_ok\<close> tells which
  writes succeed. A call that throws returns \<open>Inl\<close> with the state its statements up to there
  have left. Events and user hooks run outside the lock, on the result of an admission, and
  change nothing here; they are left out.
\<close>

section \<open>State\<close>

datatype store_record =
    WDiscovery discovery_record
  | WRequest crawl_request
  | WRequestState request_state_record
  | WSkipped skipped_url

record scheduler_config =
  sg_frontier :: frontier_config
  sg_maxScheduledRequests :: nat
  sg_maxSitemapFiles :: nat
  sg_writeSkippedUrls :: bool

record scheduler =
  sx_frontier :: journal_backend
  sx_scope :: scope_policy
  sx_counters :: crawl_counters
  sx_seedCounts :: "(string, nat) jsmap"
  sx_limits :: "limit_reason list"       \<comment> \<open>the calls of \<open>onLimit\<close>\<close>
  sx_written :: "store_record list"

datatype scheduler_error = FrontierFailed frontier_error | StoreFailed

type_synonym 'a scheduled = "(scheduler_error, 'a) result \<times> scheduler"

record admission_result =
  ar_decision :: enqueue_decision
  ar_request :: "crawl_request option"
  ar_skipped :: "skipped_url option"

text \<open>The surroundings of an admission: clock, outcome of the journal append, store.\<close>

record admission_env =
  ae_now :: timestamp
  ae_journal_ok :: bool
  ae_store_ok :: "store_record \<Rightarrow> bool"

definition and_then :: "'a scheduled \<Rightarrow> ('a \<Rightarrow> scheduler \<Rightarrow> 'b scheduled) \<Rightarrow> 'b scheduled" where
  "and_then m f = (case m of (Inl e, s) \<Rightarrow> (Inl e, s) | (Inr a, s) \<Rightarrow> f a s)"

lemma and_then_simps [simp]:
  "and_then (Inl e, s) f = (Inl e, s)"
  "and_then (Inr a, s) f = f a s"
  by (simp_all add: and_then_def)

lemma and_then_Inr: "and_then m f = (Inr b, t) \<longleftrightarrow> (\<exists>a s. m = (Inr a, s) \<and> f a s = (Inr b, t))"
  by (cases m; cases "fst m") auto

definition store_write :: "admission_env \<Rightarrow> store_record \<Rightarrow> scheduler \<Rightarrow> unit scheduled" where
  "store_write env r s =
     (if ae_store_ok env r then (Inr (), s\<lparr>sx_written := sx_written s @ [r]\<rparr>) else (Inl StoreFailed, s))"

section \<open>The skip recorder\<close>

definition createRecord ::
  "scheduler_config \<Rightarrow> admission_env \<Rightarrow> string \<Rightarrow> string option \<Rightarrow> string option \<Rightarrow> string option
     \<Rightarrow> skip_reason \<Rightarrow> string option \<Rightarrow> string option \<Rightarrow> skipped_url"
where
  "createRecord cfg env rawUrl referrerUrl resolvedUrl normalizedUrl reason policyName detail =
     \<lparr>sk_runId = fc_runId (sg_frontier cfg), sk_rawUrl = rawUrl, sk_resolvedUrl = resolvedUrl,
      sk_normalizedUrl = normalizedUrl, sk_referrerUrl = referrerUrl, sk_reason = reason,
      sk_policyName = policyName, sk_detail = detail, sk_createdAt = ae_now env\<rparr>"

definition incrementPolicyCounter :: "crawl_counters \<Rightarrow> skip_reason \<Rightarrow> crawl_counters" where
  "incrementPolicyCounter c reason =
     (if reason = SCOPE_REJECTED then c\<lparr>cc_scopeRejectedUrls := cc_scopeRejectedUrls c + 1\<rparr>
      else if reason = ROBOTS_DISALLOWED then c\<lparr>cc_robotsDisallowedUrls := cc_robotsDisallowedUrls c + 1\<rparr>
      else if reason = NETWORK_SAFETY_REJECTED
      then c\<lparr>cc_networkSafetyRejectedUrls := cc_networkSafetyRejectedUrls c + 1\<rparr> else c)"

definition skip_persist :: "scheduler_config \<Rightarrow> admission_env \<Rightarrow> skipped_url \<Rightarrow> scheduler \<Rightarrow> unit scheduled" where
  "skip_persist cfg env skipped s =
     (let c = sx_counters s;
          s = s\<lparr>sx_counters := incrementPolicyCounter (c\<lparr>cc_urlsSkipped := cc_urlsSkipped c + 1\<rparr>) (sk_reason skipped)\<rparr>
      in if sg_writeSkippedUrls cfg then store_write env (WSkipped skipped) s else (Inr (), s))"

definition skippedRecord ::
  "scheduler_config \<Rightarrow> admission_env \<Rightarrow> string \<Rightarrow> string option \<Rightarrow> string option \<Rightarrow> string option
     \<Rightarrow> skip_reason \<Rightarrow> string option \<Rightarrow> string option \<Rightarrow> scheduler \<Rightarrow> skipped_url scheduled"
where
  "skippedRecord cfg env rawUrl referrerUrl resolvedUrl normalizedUrl reason policyName detail s =
     (let skipped = createRecord cfg env rawUrl referrerUrl resolvedUrl normalizedUrl reason policyName detail
      in and_then (skip_persist cfg env skipped s) (\<lambda>_ s. (Inr skipped, s)))"

section \<open>Admission\<close>

definition isSitemapFileSource :: "crawl_source \<Rightarrow> bool" where
  "isSitemapFileSource source \<longleftrightarrow> source = RobotsSitemap \<or> source = SitemapIndex"

definition rejected :: "string option \<Rightarrow> enqueue_decision" where
  "rejected reason = \<lparr>ed_status = RejectedScope, ed_reason = reason, ed_requestId = None\<rparr>"

definition guarded :: "string option \<Rightarrow> enqueue_decision" where
  "guarded reason = \<lparr>ed_status = TrapGuard, ed_reason = reason, ed_requestId = None\<rparr>"

definition outcome_of :: "enqueue_decision \<Rightarrow> skipped_url \<Rightarrow> admission_result" where
  "outcome_of decision skipped = \<lparr>ar_decision = decision, ar_request = None, ar_skipped = Some skipped\<rparr>"

definition sitemapLimitReached :: "scheduler_config \<Rightarrow> scheduler \<Rightarrow> crawl_source \<Rightarrow> bool" where
  "sitemapLimitReached cfg s source \<longleftrightarrow>
     isSitemapFileSource source \<and> cc_sitemapFilesDiscovered (sx_counters s) \<ge> sg_maxSitemapFiles cfg"

definition seedLimitReached :: "scheduler \<Rightarrow> resolved_seed \<Rightarrow> bool" where
  "seedLimitReached s seed \<longleftrightarrow>
     (case sd_maxScheduledRequests seed of
        None \<Rightarrow> False
      | Some m \<Rightarrow> count_of (sx_seedCounts s) (sd_normalizedUrl seed) \<ge> m)"

definition account_request :: "crawl_request \<Rightarrow> resolved_seed \<Rightarrow> scheduler \<Rightarrow> scheduler" where
  "account_request request seed s =
     (let c = sx_counters s;
          c = c\<lparr>cc_requestsScheduled := cc_requestsScheduled c + 1\<rparr>;
          c = (if isSitemapFileSource (rq_source request)
               then c\<lparr>cc_sitemapFilesDiscovered := cc_sitemapFilesDiscovered c + 1\<rparr> else c);
          c = c\<lparr>cc_peakQueueSize := max (cc_peakQueueSize c) (backend_size (sx_frontier s))\<rparr>
      in s\<lparr>sx_counters := c,
           sx_seedCounts := map_set (sd_normalizedUrl seed)
             (count_of (sx_seedCounts s) (sd_normalizedUrl seed) + 1) (sx_seedCounts s)\<rparr>)"

definition persistAdmission ::
  "admission_env \<Rightarrow> enqueue_result \<Rightarrow> resolved_seed \<Rightarrow> scheduler \<Rightarrow> unit scheduled"
where
  "persistAdmission env result seed s =
     and_then (case er_discovery result of None \<Rightarrow> (Inr (), s) | Some d \<Rightarrow> store_write env (WDiscovery d) s)
       (\<lambda>_ s.
         case er_request result of
           None \<Rightarrow> (Inr (), s)
         | Some request \<Rightarrow>
             and_then (store_write env (WRequest request) (account_request request seed s))
               (\<lambda>_ s. case er_state result of
                         None \<Rightarrow> (Inr (), s)
                       | Some st \<Rightarrow> store_write env (WRequestState st) s))"

definition enqueueThroughFrontier ::
  "platform \<Rightarrow> scheduler_config \<Rightarrow> admission_env \<Rightarrow> enqueue_input \<Rightarrow> scheduler \<Rightarrow> admission_result scheduled"
where
  "enqueueThroughFrontier pf cfg env input s =
     (case backend_enqueue pf (sg_frontier cfg) (ae_now env) (ae_journal_ok env) (sx_frontier s) input of
        Inl e \<Rightarrow> (Inl (FrontierFailed e), s)
      | Inr (result, jb) \<Rightarrow>
          and_then
            (case er_skipped result of
               None \<Rightarrow> (Inr (), s\<lparr>sx_frontier := jb\<rparr>)
             | Some skipped \<Rightarrow> skip_persist cfg env skipped (s\<lparr>sx_frontier := jb\<rparr>))
            (\<lambda>_ s. and_then (persistAdmission env result (ei_seed input) s)
              (\<lambda>_ s. (Inr \<lparr>ar_decision = er_decision result, ar_request = er_request result,
                           ar_skipped = er_skipped result\<rparr>, s))))"

definition recordRequestLimit ::
  "scheduler_config \<Rightarrow> admission_env \<Rightarrow> enqueue_input \<Rightarrow> normalized_url \<Rightarrow> string \<Rightarrow> string
     \<Rightarrow> scheduler \<Rightarrow> admission_result scheduled"
where
  "recordRequestLimit cfg env input n detail policyName s =
     and_then
       (skippedRecord cfg env (ei_rawUrl input) (ei_referrerUrl input) (Some (nu_resolvedUrl n))
          (Some (nu_normalizedUrl n)) MAX_REQUESTS_EXCEEDED (Some policyName) (Some detail) s)
       (\<lambda>skipped s. (Inr (outcome_of \<lparr>ed_status = QueueLimit, ed_reason = Some detail, ed_requestId = None\<rparr>
                                     skipped), s))"

definition admit ::
  "platform \<Rightarrow> scheduler_config \<Rightarrow> admission_env \<Rightarrow> enqueue_input \<Rightarrow> scheduler \<Rightarrow> admission_result scheduled"
where
  "admit pf cfg env input s =
     (let seed = ei_seed input;
          skip = (\<lambda>n reason policyName detail s. skippedRecord cfg env (ei_rawUrl input) (ei_referrerUrl input)
                    (Some (nu_resolvedUrl n)) (Some (nu_normalizedUrl n)) reason policyName detail s)
      in case normalizeUrl (pf_parse pf) (ei_rawUrl input) (ei_referrerUrl input) of
           Inl err \<Rightarrow> enqueueThroughFrontier pf cfg env input s
         | Inr n \<Rightarrow>
             if state_requestForKey (jb_state (sx_frontier s)) (unique_key n) \<noteq> None
             then enqueueThroughFrontier pf cfg env input s
             else if sitemapLimitReached cfg s (ei_source input)
             then and_then
                    (skip n SITEMAP_LIMIT_EXCEEDED (Some ''sitemaps.maxSitemapFiles'')
                       (Some ''Maximum sitemap file count reached'')
                       (s\<lparr>sx_limits := sx_limits s @ [LimSitemapFiles]\<rparr>))
                    (\<lambda>skipped s. (Inr (outcome_of (guarded (Some ''Maximum sitemap file count reached'')) skipped), s))
             else if cc_requestsScheduled (sx_counters s) \<ge> sg_maxScheduledRequests cfg
             then recordRequestLimit cfg env input n ''Maximum scheduled request count reached''
                    ''limits.maxScheduledRequests'' (s\<lparr>sx_limits := sx_limits s @ [LimScheduledRequests]\<rparr>)
             else let scope = scope_decide (pf_parse pf) (sx_scope s) (nu_normalizedUrl n) (ei_depth input)
                                (Some (sd_normalizedUrl seed))
                  in if \<not> sn_allowed scope
                     then and_then (skip n SCOPE_REJECTED (sn_policyName scope) (sn_reason scope) s)
                            (\<lambda>skipped s. (Inr (outcome_of (rejected (sn_reason scope)) skipped), s))
                     else if seedLimitReached s seed
                     then recordRequestLimit cfg env input n ''Seed scheduled request limit reached''
                            ''seed.maxScheduledRequests'' s
                     else let reservation = prepareReservation (pf_parse pf) (sx_scope s) (nu_normalizedUrl n)
                                              (Some (sd_normalizedUrl seed));
                              decision = sr_decision reservation
                          in if \<not> sn_allowed decision
                             then and_then
                                    (skip n (if sn_policyName decision = Some ''maxUrlsPerDirectory''
                                             then DIRECTORY_LIMIT_EXCEEDED else PATH_PATTERN_LIMIT_EXCEEDED)
                                       (sn_policyName decision) (sn_reason decision) s)
                                    (\<lambda>skipped s. (Inr (outcome_of (guarded (sn_reason decision)) skipped), s))
                             else and_then (enqueueThroughFrontier pf cfg env input s)
                                    (\<lambda>result s.
                                      (Inr result,
                                       if ed_status (ar_decision result) = Enqueued
                                       then s\<lparr>sx_scope := fst (commitReservation (sx_scope s) reservation)\<rparr>
                                       else s)))"

definition scheduler_enqueue ::
  "platform \<Rightarrow> scheduler_config \<Rightarrow> admission_env \<Rightarrow> enqueue_input \<Rightarrow> resolved_seed option \<Rightarrow> scheduler
     \<Rightarrow> enqueue_decision scheduled"
where
  "scheduler_enqueue pf cfg env input seed s =
     (case seed of
        None \<Rightarrow> (Inr (rejected (Some ''No seed available for request'')), s)
      | Some sd \<Rightarrow>
          and_then (admit pf cfg env (input\<lparr>ei_seed := sd\<rparr>) s) (\<lambda>result s. (Inr (ar_decision result), s)))"

section \<open>Start and resume\<close>

definition restoreAccounting :: "platform \<Rightarrow> scheduler \<Rightarrow> scheduler" where
  "restoreAccounting pf s =
     s\<lparr>sx_seedCounts := foldl (\<lambda>m (seed, n). map_set seed n m) []
          (state_seedRequestCounts (jb_state (sx_frontier s))),
       sx_scope := restoreReservations (pf_parse pf) (sx_scope s)
          (state_knownRequests (jb_state (sx_frontier s)))\<rparr>"

fun enqueueSeeds ::
  "platform \<Rightarrow> scheduler_config \<Rightarrow> admission_env \<Rightarrow> resolved_seed list \<Rightarrow> scheduler \<Rightarrow> unit scheduled"
where
  "enqueueSeeds pf cfg env [] s = (Inr (), s)"
| "enqueueSeeds pf cfg env (seed # seeds) s =
     and_then
       (scheduler_enqueue pf cfg env
          \<lparr>ei_rawUrl = sd_normalizedUrl seed, ei_referrerUrl = None, ei_source = Seed, ei_depth = 0,
           ei_sitemapIndexDepth = Some 0, ei_sitemapAncestors = Some [], ei_seed = seed\<rparr>
          (Some seed) s)
       (\<lambda>_ s. enqueueSeeds pf cfg env seeds s)"

end
