(* ===== verification/Url_Properties.thy ===== *)
theory Url_Properties
  imports Samples
begin

text \<open>
  What URL normalisation and the scope policy promise: a normal form, the conjunction of
  conditions an admitted URL satisfies, and the bookkeeping of the directory and path pattern
  limits across a run and across a resume.
\<close>

section \<open>Normal form\<close>

lemma normalized_parts_fields [simp]:
  "u_hash (normalized_parts u) = []"
  "u_username (normalized_parts u) = u_username u"
  "u_password (normalized_parts u) = u_password u"
  "u_protocol (normalized_parts u) = to_lower (u_protocol u)"
  "u_hostname (normalized_parts u) = to_lower (u_hostname u)"
  "u_pathname (normalized_parts u) = u_pathname u"
  "u_search (normalized_parts u) = u_search u"
  by (simp_all add: normalized_parts_def Let_def)

lemma normalized_parts_port:
  "u_port (normalized_parts u) =
     (if (to_lower (u_protocol u) = ''http:'' \<and> u_port u = ''80'') \<or>
         (to_lower (u_protocol u) = ''https:'' \<and> u_port u = ''443'')
      then [] else u_port u)"
  by (simp add: normalized_parts_def Let_def)

lemma normalized_parts_idem [simp]: "normalized_parts (normalized_parts u) = normalized_parts u"
  by (rule url.equality) (auto simp: normalized_parts_port)

lemma normalized_parts_hash [simp]: "normalized_parts (u\<lparr>u_hash := h\<rparr>) = normalized_parts u"
  by (rule url.equality) (auto simp: normalized_parts_port)

lemma normalizeUrl_Inr:
  "normalizeUrl parse raw base = Inr n \<longleftrightarrow>
     (\<exists>p. parse raw base = Some p \<and> u_username p = [] \<and> u_password p = [] \<and>
        (u_protocol p = ''http:'' \<or> u_protocol p = ''https:'') \<and>
        n = \<lparr>nu_rawUrl = raw, nu_baseUrl = base, nu_resolvedUrl = url_href (normalized_parts p),
             nu_normalizedUrl = url_href (normalized_parts p),
             nu_displayUrl = url_href (normalized_parts p)\<rparr>)"
  by (auto simp: normalizeUrl_def Let_def split: option.splits if_splits)

text \<open>
  Normalisation is idempotent. When the platform parser reads the normalised URL back to
  the parts it was put together from, normalising the normalised URL succeeds and gives the
  same URL, so the unique key of a request does not depend on how often it was normalised.
\<close>

theorem normalizeUrl_idempotent:
  assumes "normalizeUrl parse raw base = Inr n" and "parse raw base = Some p"
    and "parse (url_href (normalized_parts p)) None = Some (normalized_parts p)"
  shows "\<exists>n'. normalizeUrl parse (nu_normalizedUrl n) None = Inr n' \<and>
     nu_normalizedUrl n' = nu_normalizedUrl n"
proof -
  have lower: "to_lower ''http:'' = ''http:''" "to_lower ''https:'' = ''https:''"
    by (simp_all add: to_lower_def lower_char_def)
  from assms lower show ?thesis by (auto simp: normalizeUrl_Inr)
qed

lemma normalizeUrl_idempotent_witness:
  "\<exists>n'. normalizeUrl sample_parse ''http://a/b?c=1'' None = Inr n' \<and> nu_normalizedUrl n' = ''http://a/b?c=1''"
proof -
  let ?n = "\<lparr>nu_rawUrl = ''http://a/b?c=1#d'', nu_baseUrl = None, nu_resolvedUrl = ''http://a/b?c=1'',
     nu_normalizedUrl = ''http://a/b?c=1'', nu_displayUrl = ''http://a/b?c=1''\<rparr>"
  have n: "normalizeUrl sample_parse ''http://a/b?c=1#d'' None = Inr ?n" by code_simp
  have p: "sample_parse ''http://a/b?c=1#d'' None = Some (the (sample_parse ''http://a/b?c=1#d'' None))" by code_simp
  have q: "sample_parse (url_href (normalized_parts (the (sample_parse ''http://a/b?c=1#d'' None)))) None
      = Some (normalized_parts (the (sample_parse ''http://a/b?c=1#d'' None)))" by code_simp
  from normalizeUrl_idempotent [OF n p q] show ?thesis by simp
qed

text \<open>
  The fragment does not take part in the identity of a request: two URLs whose parses
  differ only in the fragment are both rejected with the same error or both normalise to the
  same URL.
\<close>

theorem normalizeUrl_ignores_fragment:
  assumes "parse raw base = Some p" and "parse raw' base' = Some (p\<lparr>u_hash := h\<rparr>)"
  shows "map_sum id nu_normalizedUrl (normalizeUrl parse raw base)
       = map_sum id nu_normalizedUrl (normalizeUrl parse raw' base')"
  using assms by (simp add: normalizeUrl_def Let_def)

lemma normalizeUrl_ignores_fragment_witness:
  "map_sum id nu_normalizedUrl (normalizeUrl sample_parse ''http://a/b'' None)
     = map_sum id nu_normalizedUrl (normalizeUrl sample_parse ''http://a/b#c'' None)"
  by (rule normalizeUrl_ignores_fragment [where p = "the (sample_parse ''http://a/b'' None)" and h = "''#c''"])
    code_simp+

section \<open>Admission by scope\<close>

definition pattern_matches :: "string \<Rightarrow> string \<Rightarrow> bool" where
  "pattern_matches p s \<longleftrightarrow> expands line_terminator CHR ''*'' p s"

lemma globish_test_iff: "globish_test p s \<longleftrightarrow> pattern_matches p s"
  by (simp add: globish_test_def pattern_matches_def glob_iff)

definition within_mode :: "url \<Rightarrow> compiled_scope \<Rightarrow> bool" where
  "within_mode u sc \<longleftrightarrow>
     (case sc_mode (cs_config sc) of
        ScopeOrigin \<Rightarrow> url_origin u \<in> url_origin ` set (cs_seeds sc)
      | ScopeHost \<Rightarrow> u_hostname u \<in> u_hostname ` set (cs_seeds sc)
      | ScopeDomain \<Rightarrow>
          \<exists>seed \<in> set (cs_seeds sc). \<exists>sub. u_hostname u = sub @ u_hostname seed \<and>
            (sub = [] \<or> last sub = CHR ''.'')
      | ScopeCustom \<Rightarrow>
          sc_allowedHosts (cs_config sc) = [] \<or> u_hostname u \<in> set (sc_allowedHosts (cs_config sc)))"

lemma subdomain_iff:
  "(h = s \<or> ends_with h (''.'' @ s)) \<longleftrightarrow> (\<exists>sub. h = sub @ s \<and> (sub = [] \<or> last sub = CHR ''.''))"
proof
  assume "h = s \<or> ends_with h (''.'' @ s)"
  then consider "h = [] @ s" | p where "h = (p @ ''.'') @ s" by (auto simp: ends_with_iff)
  then show "\<exists>sub. h = sub @ s \<and> (sub = [] \<or> last sub = CHR ''.'')"
    by cases (blast, metis last_snoc)
next
  assume "\<exists>sub. h = sub @ s \<and> (sub = [] \<or> last sub = CHR ''.'')"
  then obtain sub where h: "h = sub @ s" and sub: "sub = [] \<or> last sub = CHR ''.''" by blast
  show "h = s \<or> ends_with h (''.'' @ s)"
  proof (cases "sub = []")
    case False
    with sub have "sub = butlast sub @ ''.''" by (metis append_butlast_last_id)
    with h have "h = butlast sub @ (''.'' @ s)" by simp
    then show ?thesis by (auto simp: ends_with_iff)
  qed (simp add: h)
qed

lemma inScope_iff: "inScope u sc \<longleftrightarrow> within_mode u sc"
proof (cases "sc_mode (cs_config sc)")
  case ScopeOrigin
  then show ?thesis by (simp add: inScope_def within_mode_def list_ex_iff) (metis (no_types) image_iff)
next
  case ScopeHost
  then show ?thesis by (simp add: inScope_def within_mode_def list_ex_iff) (metis (no_types) image_iff)
next
  case ScopeDomain
  then show ?thesis unfolding inScope_def within_mode_def list_ex_iff subdomain_iff by simp
next
  case ScopeCustom
  then show ?thesis by (simp add: inScope_def within_mode_def)
qed

lemma sn_allowed_simps:
  "\<not> sn_allowed (denied reason name)" "sn_allowed scope_allowed"
  by (simp_all add: denied_def scope_allowed_def)

text \<open>
  A URL is admitted by a compiled scope exactly when it parses as http or https, respects
  the three size limits, its host is not denied and, if hosts are listed, is listed, it
  matches no exclude pattern and, if there are include patterns, one of them, it lies in the
  scope of a seed (for the domain mode: its host is a seed's host or ends in a dot followed by
  it), and its depth is not negative. Patterns mean: stars stand for any text without a line
  break.
\<close>

theorem scope_admits_iff:
  "sn_allowed (decideWithCompiledScope parse url depth sc) \<longleftrightarrow>
     (\<exists>u. parse url None = Some u \<and> u_protocol u \<in> {''http:'', ''https:''} \<and>
        length url \<le> sc_maxUrlLength (cs_config sc) \<and>
        pathSegments u \<le> sc_maxPathSegments (cs_config sc) \<and>
        queryParamCount u \<le> sc_maxQueryParams (cs_config sc) \<and>
        u_hostname u \<notin> set (sc_deniedHosts (cs_config sc)) \<and>
        (sc_allowedHosts (cs_config sc) = [] \<or> u_hostname u \<in> set (sc_allowedHosts (cs_config sc))) \<and>
        (\<nexists>p. p \<in> set (cs_exclude sc) \<and> pattern_matches p url) \<and>
        (cs_include sc = [] \<or> (\<exists>p. p \<in> set (cs_include sc) \<and> pattern_matches p url)) \<and>
        within_mode u sc \<and> 0 \<le> depth)"
proof (cases "parse url None")
  case None
  then show ?thesis by (simp add: decideWithCompiledScope_def sn_allowed_simps)
next
  case (Some u)
  then show ?thesis
    by (simp add: sn_allowed_simps decideWithCompiledScope_def Let_def list_ex_iff globish_test_iff inScope_iff not_less Bex_def)
qed

section \<open>Reservations\<close>

text \<open>
  The scheduler reserves for one request after the other (it holds the admission lock), and
  commits the reservations that are granted.
\<close>

fun admit_all :: "url_parser \<Rightarrow> scope_policy \<Rightarrow> crawl_request list \<Rightarrow> crawl_request list \<times> scope_policy" where
  "admit_all parse sp [] = ([], sp)"
| "admit_all parse sp (r # rs) =
     (let res = prepareReservation parse sp (rq_normalizedUrl r) (Some (rq_seedUrl r))
      in if sn_allowed (sr_decision res)
         then (case admit_all parse (fst (commitReservation sp res)) rs of (acc, sp') \<Rightarrow> (r # acc, sp'))
         else admit_all parse sp rs)"

lemma prepare_commit_restore:
  "sn_allowed (sr_decision (prepareReservation parse sp (rq_normalizedUrl r) (Some (rq_seedUrl r)))) \<Longrightarrow>
     fst (commitReservation sp (prepareReservation parse sp (rq_normalizedUrl r) (Some (rq_seedUrl r))))
       = restore_one parse sp r"
  by (cases "parse (rq_normalizedUrl r) None"; cases "compiledFor sp (Some (rq_seedUrl r))")
    (simp_all add: prepareReservation_def restore_one_def commitReservation_def noReservation_def
      Let_def sn_allowed_simps split: if_splits)

lemma admit_all_restore:
  "admit_all parse sp rs = (acc, sp') \<Longrightarrow> foldl (restore_one parse) sp acc = sp'"
proof (induction parse sp rs arbitrary: acc sp' rule: admit_all.induct)
  case (1 parse sp)
  then show ?case by simp
next
  case (2 parse sp r rs)
  let ?res = "prepareReservation parse sp (rq_normalizedUrl r) (Some (rq_seedUrl r))"
  show ?case
  proof (cases "sn_allowed (sr_decision ?res)")
    case True
    with 2 show ?thesis by (auto simp: Let_def prepare_commit_restore split: prod.splits)
  next
    case False
    with 2 show ?thesis by (simp add: Let_def)
  qed
qed

text \<open>
  A resume reconstructs the reservations. Starting without counts, restoring the requests
  that a run admitted, in their order, gives exactly the policy state that reserving and
  committing for them one by one had built.
\<close>

theorem restore_rebuilds_reservations:
  assumes "admit_all parse (sp\<lparr>sp_directoryCounts := [], sp_patternCounts := []\<rparr>) rs = (acc, sp')"
  shows "restoreReservations parse sp acc = sp'"
  using admit_all_restore [OF assms] by (simp add: restoreReservations_def)

definition sample_policy :: scope_policy where
  "sample_policy =
     \<lparr>sp_global = \<lparr>cs_config = sample_scope, cs_seeds = [the (sample_parse ''http://a/'' None)],
                   cs_include = [], cs_exclude = []\<rparr>,
      sp_bySeed = [], sp_directoryCounts = [], sp_patternCounts = [], sp_seeds = [sample_seed]\<rparr>"

lemma sample_admitted:
  "admit_all sample_parse (sample_policy\<lparr>sp_directoryCounts := [], sp_patternCounts := []\<rparr>)
     [sample_request ''/d/x'' 1 0, sample_request ''/d/y'' 1 0, sample_request ''/d/z'' 1 0]
   = ([sample_request ''/d/x'' 1 0, sample_request ''/d/y'' 1 0],
      snd (admit_all sample_parse (sample_policy\<lparr>sp_directoryCounts := [], sp_patternCounts := []\<rparr>)
     [sample_request ''/d/x'' 1 0, sample_request ''/d/y'' 1 0, sample_request ''/d/z'' 1 0]))"
  by code_simp

lemma restore_rebuilds_reservations_witness:
  "restoreReservations sample_parse sample_policy [sample_request ''/d/x'' 1 0, sample_request ''/d/y'' 1 0]
   = snd (admit_all sample_parse (sample_policy\<lparr>sp_directoryCounts := [], sp_patternCounts := []\<rparr>)
     [sample_request ''/d/x'' 1 0, sample_request ''/d/y'' 1 0, sample_request ''/d/z'' 1 0])"
  by (rule restore_rebuilds_reservations [OF sample_admitted])

definition request_directory :: "url_parser \<Rightarrow> scope_policy \<Rightarrow> crawl_request \<Rightarrow> string option" where
  "request_directory parse sp r =
     map_option (directory_key (fst (compiledFor sp (Some (rq_seedUrl r)))))
       (parse (rq_normalizedUrl r) None)"

definition request_pattern :: "url_parser \<Rightarrow> scope_policy \<Rightarrow> crawl_request \<Rightarrow> string option" where
  "request_pattern parse sp r =
     map_option (pattern_key (fst (compiledFor sp (Some (rq_seedUrl r)))))
       (parse (rq_normalizedUrl r) None)"

definition request_config :: "scope_policy \<Rightarrow> crawl_request \<Rightarrow> scope_config" where
  "request_config sp r = cs_config (snd (compiledFor sp (Some (rq_seedUrl r))))"

definition same_scopes :: "scope_policy \<Rightarrow> scope_policy \<Rightarrow> bool" where
  "same_scopes sp sp' \<longleftrightarrow>
     sp_global sp = sp_global sp' \<and> sp_bySeed sp = sp_bySeed sp' \<and> sp_seeds sp = sp_seeds sp'"

lemma compiledFor_same: "same_scopes sp sp' \<Longrightarrow> compiledFor sp u = compiledFor sp' u"
  by (simp add: same_scopes_def compiledFor_def seedFor_def seed_scope_def split: option.split)

lemma same_scopes_request:
  assumes "same_scopes sp sp'"
  shows "request_directory parse sp r = request_directory parse sp' r"
    and "request_pattern parse sp r = request_pattern parse sp' r"
    and "request_config sp r = request_config sp' r"
  using compiledFor_same [OF assms]
  by (simp_all add: request_directory_def request_pattern_def request_config_def)

lemma restore_one_same: "same_scopes sp (restore_one parse sp r)"
  by (auto simp: same_scopes_def restore_one_def Let_def split: option.splits prod.splits)

lemma count_of_set: "count_of (map_set k n m) k' = (if k' = k then n else count_of m k')"
  by (simp add: count_of_def)

text \<open>One admitted request raises its own two counters, within its limits.\<close>

lemma admitted_counts:
  assumes "sn_allowed (sr_decision (prepareReservation parse sp (rq_normalizedUrl r) (Some (rq_seedUrl r))))"
  shows "\<exists>dk pk. request_directory parse sp r = Some dk \<and> request_pattern parse sp r = Some pk \<and>
     count_of (sp_directoryCounts sp) dk < sc_maxUrlsPerDirectory (request_config sp r) \<and>
     count_of (sp_patternCounts sp) pk < sc_maxUrlsPerPathPattern (request_config sp r) \<and>
     (\<forall>k. count_of (sp_directoryCounts (restore_one parse sp r)) k =
        count_of (sp_directoryCounts sp) k + (if k = dk then 1 else 0)) \<and>
     (\<forall>k. count_of (sp_patternCounts (restore_one parse sp r)) k =
        count_of (sp_patternCounts sp) k + (if k = pk then 1 else 0))"
  using assms
  by (auto simp: prepareReservation_def request_directory_def request_pattern_def request_config_def
      restore_one_def noReservation_def denied_def Let_def count_of_set split: option.splits prod.splits if_splits)

definition occupancy :: "(crawl_request \<Rightarrow> string option) \<Rightarrow> string \<Rightarrow> crawl_request list \<Rightarrow> nat" where
  "occupancy f k rs = length (filter (\<lambda>r. f r = Some k) rs)"

definition limits_respected :: "url_parser \<Rightarrow> scope_policy \<Rightarrow> crawl_request list \<Rightarrow> bool" where
  "limits_respected parse sp acc \<longleftrightarrow>
     (\<forall>before r after. acc = before @ r # after \<longrightarrow>
        (\<exists>dk pk. request_directory parse sp r = Some dk \<and> request_pattern parse sp r = Some pk \<and>
           occupancy (request_directory parse sp) dk (before @ [r]) \<le> sc_maxUrlsPerDirectory (request_config sp r) \<and>
           occupancy (request_pattern parse sp) pk (before @ [r]) \<le> sc_maxUrlsPerPathPattern (request_config sp r)))"

definition counts_match :: "url_parser \<Rightarrow> scope_policy \<Rightarrow> crawl_request list \<Rightarrow> bool" where
  "counts_match parse sp acc \<longleftrightarrow>
     (\<forall>k. count_of (sp_directoryCounts sp) k = occupancy (request_directory parse sp) k acc \<and>
          count_of (sp_patternCounts sp) k = occupancy (request_pattern parse sp) k acc)"

lemma occupancy_snoc:
  "occupancy f k (rs @ [r]) = occupancy f k rs + (if f r = Some k then 1 else 0)"
  by (simp add: occupancy_def)

lemma limits_respected_snoc:
  "limits_respected parse sp (acc @ [r]) \<longleftrightarrow> limits_respected parse sp acc \<and>
     (\<exists>dk pk. request_directory parse sp r = Some dk \<and> request_pattern parse sp r = Some pk \<and>
        occupancy (request_directory parse sp) dk (acc @ [r]) \<le> sc_maxUrlsPerDirectory (request_config sp r) \<and>
        occupancy (request_pattern parse sp) pk (acc @ [r]) \<le> sc_maxUrlsPerPathPattern (request_config sp r))"
  (is "?L \<longleftrightarrow> _ \<and> ?P acc r")
proof
  assume L: ?L
  have "?P acc r" using L by (simp add: limits_respected_def)
  moreover have "limits_respected parse sp acc"
    unfolding limits_respected_def
  proof (intro allI impI)
    fix before x after
    assume "acc = before @ x # after"
    then have "acc @ [r] = before @ x # (after @ [r])" by simp
    with L show "?P before x" unfolding limits_respected_def by blast
  qed
  ultimately show "limits_respected parse sp acc \<and> ?P acc r" by simp
next
  assume R: "limits_respected parse sp acc \<and> ?P acc r"
  show ?L
    unfolding limits_respected_def
  proof (intro allI impI)
    fix before x after
    assume eq: "acc @ [r] = before @ x # after"
    show "?P before x"
    proof (cases after rule: rev_cases)
      case Nil
      with eq R show ?thesis by simp
    next
      case (snoc ys y)
      with eq have "acc = before @ x # ys" by simp
      with R show ?thesis unfolding limits_respected_def by blast
    qed
  qed
qed

lemma counts_match_same: "same_scopes sp sp' \<Longrightarrow>
    occupancy (request_directory parse sp) k acc = occupancy (request_directory parse sp') k acc \<and>
    occupancy (request_pattern parse sp) k acc = occupancy (request_pattern parse sp') k acc"
  by (simp add: occupancy_def same_scopes_request)

lemma limits_respected_same: "same_scopes sp sp' \<Longrightarrow> limits_respected parse sp acc = limits_respected parse sp' acc"
  using counts_match_same [of sp sp'] by (simp add: limits_respected_def same_scopes_request)

lemma same_scopes_trans: "same_scopes a b \<Longrightarrow> same_scopes b c \<Longrightarrow> same_scopes a c"
  by (simp add: same_scopes_def)

lemma admit_all_invariant:
  "admit_all parse sp rs = (acc, sp') \<Longrightarrow> counts_match parse sp done \<Longrightarrow> limits_respected parse sp done \<Longrightarrow>
     same_scopes sp sp' \<and> counts_match parse sp' (done @ acc) \<and> limits_respected parse sp' (done @ acc)"
proof (induction parse sp rs arbitrary: acc sp' "done" rule: admit_all.induct)
  case (1 parse sp)
  then show ?case by (simp add: same_scopes_def)
next
  case (2 parse sp r rs)
  let ?res = "prepareReservation parse sp (rq_normalizedUrl r) (Some (rq_seedUrl r))"
  show ?case
  proof (cases "sn_allowed (sr_decision ?res)")
    case False
    with "2.IH"(2) [OF refl False, of acc sp' "done"] "2.prems" show ?thesis by (simp add: Let_def)
  next
    case True
    let ?sp1 = "restore_one parse sp r"
    from "2.prems"(1) True obtain acc1 where run: "admit_all parse ?sp1 rs = (acc1, sp')"
      and acc: "acc = r # acc1"
      by (auto simp: Let_def prepare_commit_restore split: prod.splits)
    note same = restore_one_same [of sp parse r]
    from admitted_counts [OF True] obtain dk pk where keys:
        "request_directory parse sp r = Some dk" "request_pattern parse sp r = Some pk"
      and lim: "count_of (sp_directoryCounts sp) dk < sc_maxUrlsPerDirectory (request_config sp r)"
        "count_of (sp_patternCounts sp) pk < sc_maxUrlsPerPathPattern (request_config sp r)"
      and cnt: "\<And>k. count_of (sp_directoryCounts ?sp1) k =
          count_of (sp_directoryCounts sp) k + (if k = dk then 1 else 0)"
        "\<And>k. count_of (sp_patternCounts ?sp1) k =
          count_of (sp_patternCounts sp) k + (if k = pk then 1 else 0)"
      by blast
    have "counts_match parse ?sp1 (done @ [r])"
      using "2.prems"(2) cnt keys counts_match_same [OF same, of parse]
      by (simp add: counts_match_def occupancy_snoc same_scopes_request [OF same, symmetric])
    moreover have "limits_respected parse sp (done @ [r])"
      using "2.prems"(2,3) keys lim
      by (auto simp: limits_respected_snoc counts_match_def occupancy_snoc)
    ultimately have IH: "same_scopes ?sp1 sp' \<and> counts_match parse sp' ((done @ [r]) @ acc1) \<and>
        limits_respected parse sp' ((done @ [r]) @ acc1)"
      using "2.IH"(1) [OF refl True, of acc1 sp' "done @ [r]"] run limits_respected_same [OF same]
      by (simp add: prepare_commit_restore [OF True])
    with acc same_scopes_trans [OF same] show ?thesis by auto
  qed
qed

text \<open>
  The directory and path pattern limits hold. Whatever requests are offered, at the moment
  a request is admitted the number of requests admitted so far in its directory, itself
  included, is at most the directory limit of its scope, and likewise for its path pattern.
\<close>

theorem reservation_limits_hold:
  assumes "admit_all parse (sp\<lparr>sp_directoryCounts := [], sp_patternCounts := []\<rparr>) rs = (acc, sp')"
    and "acc = before @ r # after"
  shows "\<exists>dk pk. request_directory parse sp r = Some dk \<and> request_pattern parse sp r = Some pk \<and>
     occupancy (request_directory parse sp) dk (before @ [r]) \<le> sc_maxUrlsPerDirectory (request_config sp r) \<and>
     occupancy (request_pattern parse sp) pk (before @ [r]) \<le> sc_maxUrlsPerPathPattern (request_config sp r)"
proof -
  let ?sp0 = "sp\<lparr>sp_directoryCounts := [], sp_patternCounts := []\<rparr>"
  have "counts_match parse ?sp0 []" and "limits_respected parse ?sp0 []"
    by (simp_all add: counts_match_def limits_respected_def occupancy_def count_of_def)
  from admit_all_invariant [OF assms(1) this]
  have "limits_respected parse sp' acc" and "same_scopes sp sp'"
    by (simp_all add: same_scopes_def)
  with assms(2) limits_respected_same have "limits_respected parse sp (before @ r # after)" by blast
  then show ?thesis unfolding limits_respected_def by blast
qed

lemma reservation_limits_hold_witness:
  "\<exists>dk pk. request_directory sample_parse sample_policy (sample_request ''/d/y'' 1 0) = Some dk \<and>
     request_pattern sample_parse sample_policy (sample_request ''/d/y'' 1 0) = Some pk \<and>
     occupancy (request_directory sample_parse sample_policy) dk
       [sample_request ''/d/x'' 1 0, sample_request ''/d/y'' 1 0] \<le> 2 \<and>
     occupancy (request_pattern sample_parse sample_policy) pk
       [sample_request ''/d/x'' 1 0, sample_request ''/d/y'' 1 0] \<le> 3"
proof -
  have c: "sc_maxUrlsPerDirectory (request_config sample_policy (sample_request ''/d/y'' 1 0)) = 2"
    "sc_maxUrlsPerPathPattern (request_config sample_policy (sample_request ''/d/y'' 1 0)) = 3" by code_simp+
  from reservation_limits_hold [OF sample_admitted, of "[sample_request ''/d/x'' 1 0]" "sample_request ''/d/y'' 1 0" "[]"]
  show ?thesis by (simp add: c)
qed

end
