(* ===== verification/Scheduler_Properties.thy ===== *)
theory Scheduler_Properties
  imports Scheduler Frontier_Properties Url_Properties
begin

text \<open>
  What the scheduler guarantees after any sequence of admissions: the quotas hold, everything
  in the frontier is in scope, and the accounting is the one a resume would restore.
\<close>

section \<open>What an admission changes\<close>

text \<open>The part of the state the quotas depend on.\<close>

definition accounting ::
  "scheduler \<Rightarrow> journal_backend \<times> scope_policy \<times> (string, nat) jsmap \<times> nat \<times> nat"
where
  "accounting s = (sx_frontier s, sx_scope s, sx_seedCounts s, cc_requestsScheduled (sx_counters s),
     cc_sitemapFilesDiscovered (sx_counters s))"

lemma accounting_updates [simp]:
  "accounting (s\<lparr>sx_written := w\<rparr>) = accounting s"
  "accounting (s\<lparr>sx_limits := l\<rparr>) = accounting s"
  by (simp_all add: accounting_def)

lemma incrementPolicyCounter_fields [simp]:
  "cc_requestsScheduled (incrementPolicyCounter c r) = cc_requestsScheduled c"
  "cc_sitemapFilesDiscovered (incrementPolicyCounter c r) = cc_sitemapFilesDiscovered c"
  by (simp_all add: incrementPolicyCounter_def)

lemma store_write_accounting: "store_write env r s = (Inr u, t) \<Longrightarrow> accounting t = accounting s"
  by (auto simp: store_write_def split: if_splits)

lemma skip_persist_accounting: "skip_persist cfg env k s = (Inr u, t) \<Longrightarrow> accounting t = accounting s"
  by (auto simp: skip_persist_def Let_def store_write_def accounting_def split: if_splits)

lemma skippedRecord_accounting: "skippedRecord cfg env a b c d e f g s = (Inr u, t) \<Longrightarrow> accounting t = accounting s"
  by (auto simp: skippedRecord_def Let_def and_then_Inr dest: skip_persist_accounting)

lemma recordRequestLimit_result:
  "recordRequestLimit cfg env input n d p s = (Inr res, t) \<Longrightarrow> ar_request res = None \<and> accounting t = accounting s"
  by (auto simp: recordRequestLimit_def and_then_Inr outcome_of_def dest: skippedRecord_accounting)

text \<open>The state after a request has been accounted for, and the writes are done.\<close>

lemma account_accounting:
  "accounting s = accounting t \<Longrightarrow> accounting (account_request r seed s) = accounting (account_request r seed t)"
  by (simp add: accounting_def account_request_def Let_def)

definition accounted :: "enqueue_result \<Rightarrow> resolved_seed \<Rightarrow> scheduler \<Rightarrow> scheduler" where
  "accounted result seed s = (case er_request result of None \<Rightarrow> s | Some r \<Rightarrow> account_request r seed s)"

lemma persistAdmission_accounting:
  assumes "persistAdmission env result seed s = (Inr u, t)"
  shows "accounting t = accounting (accounted result seed s)"
proof -
  from assms obtain s1 where
    first: "(case er_discovery result of None \<Rightarrow> (Inr (), s) | Some d \<Rightarrow> store_write env (WDiscovery d) s) = (Inr (), s1)"
    and rest: "(case er_request result of
           None \<Rightarrow> (Inr (), s1)
         | Some request \<Rightarrow>
             and_then (store_write env (WRequest request) (account_request request seed s1))
               (\<lambda>_ s. case er_state result of None \<Rightarrow> (Inr (), s) | Some st \<Rightarrow> store_write env (WRequestState st) s))
        = (Inr u, t)"
    by (auto simp: persistAdmission_def and_then_Inr)
  have s1: "accounting s1 = accounting s"
    using first by (auto split: option.splits dest: store_write_accounting)
  show ?thesis
  proof (cases "er_request result")
    case None
    with rest s1 show ?thesis by (simp add: accounted_def)
  next
    case (Some r)
    with rest have "accounting t = accounting (account_request r seed s1)"
      by (auto simp: and_then_Inr split: option.splits dest!: store_write_accounting)
    with Some account_accounting [OF s1] show ?thesis by (simp add: accounted_def)
  qed
qed

lemma enqueueThroughFrontier_result:
  assumes "enqueueThroughFrontier pf cfg env input s = (Inr res, t)"
  obtains result jb where
    "backend_enqueue pf (sg_frontier cfg) (ae_now env) (ae_journal_ok env) (sx_frontier s) input = Inr (result, jb)"
    "ar_request res = er_request result" "ar_decision res = er_decision result"
    "accounting t = accounting (accounted result (ei_seed input) (s\<lparr>sx_frontier := jb\<rparr>))"
proof -
  from assms obtain result jb s1 where
    enq: "backend_enqueue pf (sg_frontier cfg) (ae_now env) (ae_journal_ok env) (sx_frontier s) input = Inr (result, jb)"
    and skip: "(case er_skipped result of None \<Rightarrow> (Inr (), s\<lparr>sx_frontier := jb\<rparr>)
       | Some k \<Rightarrow> skip_persist cfg env k (s\<lparr>sx_frontier := jb\<rparr>)) = (Inr (), s1)"
    and adm: "persistAdmission env result (ei_seed input) s1 = (Inr (), t)"
    and res: "res = \<lparr>ar_decision = er_decision result, ar_request = er_request result, ar_skipped = er_skipped result\<rparr>"
    by (auto simp: enqueueThroughFrontier_def and_then_Inr split: sum.splits)
  have "accounting s1 = accounting (s\<lparr>sx_frontier := jb\<rparr>)"
    using skip by (auto split: option.splits dest: skip_persist_accounting)
  then have "accounting (accounted result (ei_seed input) s1) =
      accounting (accounted result (ei_seed input) (s\<lparr>sx_frontier := jb\<rparr>))"
    by (cases "er_request result") (auto simp: accounted_def intro: account_accounting)
  with persistAdmission_accounting [OF adm]
  have "accounting t = accounting (accounted result (ei_seed input) (s\<lparr>sx_frontier := jb\<rparr>))" by simp
  from that [OF enq _ _ this] res show thesis by simp
qed

lemma backend_enqueue_request:
  assumes "backend_enqueue pf cfg now ok jb input = Inr (res, jb')" and "er_request res = Some r"
  shows "\<exists>n. normalizeUrl (pf_parse pf) (ei_rawUrl input) (ei_referrerUrl input) = Inr n \<and>
    r = factory_create pf cfg now input (unique_key n) (nu_resolvedUrl n) (nu_normalizedUrl n)"
  using assms
  by (auto simp: backend_enqueue_def Let_def bind_result_Inr duplicateEnqueueResult_def
      factory_skipped_def split: sum.splits option.splits if_splits)

lemma factory_create_fields [simp]:
  "rq_uniqueKey (factory_create pf cfg now input k u n) = k"
  "rq_normalizedUrl (factory_create pf cfg now input k u n) = n"
  "rq_seedUrl (factory_create pf cfg now input k u n) = sd_normalizedUrl (ei_seed input)"
  "rq_source (factory_create pf cfg now input k u n) = ei_source input"
  "rq_depth (factory_create pf cfg now input k u n) = ei_depth input"
  by (simp_all add: factory_create_def)

lemma enqueueThroughFrontier_none:
  assumes "enqueueThroughFrontier pf cfg env input s = (Inr res, t)" and "ar_request res = None"
  shows "accounting t = accounting s"
proof -
  obtain result jb where
    enq: "backend_enqueue pf (sg_frontier cfg) (ae_now env) (ae_journal_ok env) (sx_frontier s) input = Inr (result, jb)"
    and "ar_request res = er_request result"
    and t: "accounting t = accounting (accounted result (ei_seed input) (s\<lparr>sx_frontier := jb\<rparr>))"
    using enqueueThroughFrontier_result [OF assms(1)] by metis
  with assms(2) backend_enqueue_effect [OF enq] show ?thesis by (simp add: enqueue_effect_def accounted_def)
qed

text \<open>A request is only created past every guard of \<open>admit\<close>.\<close>

lemma enqueueThroughFrontier_blocked:
  assumes "enqueueThroughFrontier pf cfg env input s = (Inr res, t)"
    and "normalizeUrl (pf_parse pf) (ei_rawUrl input) (ei_referrerUrl input) = Inl e \<or>
      normalizeUrl (pf_parse pf) (ei_rawUrl input) (ei_referrerUrl input) = Inr n \<and>
        state_requestForKey (jb_state (sx_frontier s)) (unique_key n) \<noteq> None"
  shows "ar_request res = None"
proof (rule ccontr)
  assume "ar_request res \<noteq> None"
  then obtain r where r: "ar_request res = Some r" by blast
  from enqueueThroughFrontier_result [OF assms(1)] r obtain result jb where
    enq: "backend_enqueue pf (sg_frontier cfg) (ae_now env) (ae_journal_ok env) (sx_frontier s) input = Inr (result, jb)"
    and "er_request result = Some r" by metis
  with backend_enqueue_effect [OF enq] backend_enqueue_request [OF enq] assms(2) show False
    by (auto simp: enqueue_effect_def)
qed

section \<open>The admission of a request\<close>

definition created ::
  "platform \<Rightarrow> scheduler_config \<Rightarrow> admission_env \<Rightarrow> enqueue_input \<Rightarrow> normalized_url \<Rightarrow> crawl_request"
where
  "created pf cfg env input n =
     factory_create pf (sg_frontier cfg) (ae_now env) input (unique_key n) (nu_resolvedUrl n) (nu_normalizedUrl n)"

text \<open>What holds when \<open>admit\<close> has created the request \<open>r\<close> and reached the state \<open>t\<close>.\<close>

definition admitted_request ::
  "platform \<Rightarrow> scheduler_config \<Rightarrow> scheduler \<Rightarrow> enqueue_input \<Rightarrow> crawl_request \<Rightarrow> scheduler \<Rightarrow> bool"
where
  "admitted_request pf cfg s input r t \<longleftrightarrow>
     \<not> sitemapLimitReached cfg s (rq_source r) \<and>
     cc_requestsScheduled (sx_counters s) < sg_maxScheduledRequests cfg \<and>
     sn_allowed (scope_decide (pf_parse pf) (sx_scope s) (rq_normalizedUrl r) (rq_depth r) (Some (rq_seedUrl r))) \<and>
     \<not> seedLimitReached s (ei_seed input) \<and> rq_seedUrl r = sd_normalizedUrl (ei_seed input) \<and>
     state_knownRequests (jb_state (sx_frontier t)) = state_knownRequests (jb_state (sx_frontier s)) @ [r] \<and>
     sx_scope t = restore_one (pf_parse pf) (sx_scope s) r \<and>
     sx_seedCounts t = count_seed (sx_seedCounts s) r \<and>
     cc_requestsScheduled (sx_counters t) = cc_requestsScheduled (sx_counters s) + 1 \<and>
     cc_sitemapFilesDiscovered (sx_counters t) =
       cc_sitemapFilesDiscovered (sx_counters s) + (if isSitemapFileSource (rq_source r) then 1 else 0)"

lemma account_fields:
  "accounting (account_request r seed s) =
     (sx_frontier s, sx_scope s,
      map_set (sd_normalizedUrl seed) (count_of (sx_seedCounts s) (sd_normalizedUrl seed) + 1) (sx_seedCounts s),
      cc_requestsScheduled (sx_counters s) + 1,
      cc_sitemapFilesDiscovered (sx_counters s) + (if isSitemapFileSource (rq_source r) then 1 else 0))"
  by (simp add: accounting_def account_request_def Let_def)

lemma count_seed_eq:
  "rq_seedUrl r = u \<Longrightarrow> map_set u (count_of m u + 1) m = count_seed m r"
  by (auto simp: count_seed_def count_of_def split: option.split)

lemma known_enqueued_backend:
  "state_requestForKey (jb_state jb) (rq_uniqueKey r) = None \<Longrightarrow>
     state_knownRequests (jb_state (enqueued_backend pf now jb r)) = state_knownRequests (jb_state jb) @ [r]"
  using known_enqueued [of jb r pf now] by (simp add: known_def)

lemma admit_created:
  assumes adm: "admit pf cfg env input s = (Inr res, t)" and req: "ar_request res = Some r"
  shows "admitted_request pf cfg s input r t"
proof -
  obtain n where n: "normalizeUrl (pf_parse pf) (ei_rawUrl input) (ei_referrerUrl input) = Inr n"
    using adm req enqueueThroughFrontier_blocked
    by (cases "normalizeUrl (pf_parse pf) (ei_rawUrl input) (ei_referrerUrl input)") (fastforce simp: admit_def)+
  let ?res = "prepareReservation (pf_parse pf) (sx_scope s) (nu_normalizedUrl n) (Some (sd_normalizedUrl (ei_seed input)))"
  have new: "state_requestForKey (jb_state (sx_frontier s)) (unique_key n) = None"
    using adm req n enqueueThroughFrontier_blocked by (fastforce simp: admit_def)
  note eq = adm [unfolded admit_def Let_def n sum.case]
  have guards: "\<not> sitemapLimitReached cfg s (ei_source input)"
      "cc_requestsScheduled (sx_counters s) < sg_maxScheduledRequests cfg"
      "sn_allowed (scope_decide (pf_parse pf) (sx_scope s) (nu_normalizedUrl n) (ei_depth input)
         (Some (sd_normalizedUrl (ei_seed input))))"
      "\<not> seedLimitReached s (ei_seed input)" "sn_allowed (sr_decision ?res)"
    using eq new req
    by (auto simp: and_then_Inr outcome_of_def not_less dest: recordRequestLimit_result split: if_splits)
  then obtain s1 where enq: "enqueueThroughFrontier pf cfg env input s = (Inr res, s1)"
    and t: "t = (if ed_status (ar_decision res) = Enqueued
      then s1\<lparr>sx_scope := fst (commitReservation (sx_scope s1) ?res)\<rparr> else s1)"
    using eq new by (auto simp: and_then_Inr)
  from enqueueThroughFrontier_result [OF enq] obtain result jb where
    b: "backend_enqueue pf (sg_frontier cfg) (ae_now env) (ae_journal_ok env) (sx_frontier s) input = Inr (result, jb)"
    and res: "er_request result = Some r" "ar_decision res = er_decision result"
    and s1: "accounting s1 = accounting (account_request r (ei_seed input) (s\<lparr>sx_frontier := jb\<rparr>))"
    using req by (metis accounted_def option.simps(5))
  from backend_enqueue_effect [OF b] res have eff: "ed_status (er_decision result) = Enqueued"
      "jb = enqueued_backend pf (ae_now env) (sx_frontier s) r"
    by (simp_all add: enqueue_effect_def)
  from backend_enqueue_request [OF b res(1)] n have r: "r = created pf cfg env input n"
    by (simp add: created_def)
  from s1 eff have s1f: "sx_frontier s1 = jb" "sx_scope s1 = sx_scope s"
      "sx_seedCounts s1 = map_set (sd_normalizedUrl (ei_seed input))
         (count_of (sx_seedCounts s) (sd_normalizedUrl (ei_seed input)) + 1) (sx_seedCounts s)"
      "cc_requestsScheduled (sx_counters s1) = cc_requestsScheduled (sx_counters s) + 1"
      "cc_sitemapFilesDiscovered (sx_counters s1) =
         cc_sitemapFilesDiscovered (sx_counters s) + (if isSitemapFileSource (rq_source r) then 1 else 0)"
    by (simp_all add: account_fields) (simp_all add: accounting_def)
  have rf: "rq_normalizedUrl r = nu_normalizedUrl n" "rq_seedUrl r = sd_normalizedUrl (ei_seed input)"
    "rq_uniqueKey r = unique_key n" "rq_source r = ei_source input" "rq_depth r = ei_depth input"
    using r by (simp_all add: created_def)
  have "sn_allowed (sr_decision (prepareReservation (pf_parse pf) (sx_scope s) (rq_normalizedUrl r) (Some (rq_seedUrl r))))"
    using guards(5) rf by simp
  from prepare_commit_restore [OF this] have "sx_scope t = restore_one (pf_parse pf) (sx_scope s) r"
    using t eff(1) res(2) s1f(2) rf by simp
  moreover have "state_knownRequests (jb_state (sx_frontier t)) = state_knownRequests (jb_state (sx_frontier s)) @ [r]"
    using known_enqueued_backend [of "sx_frontier s" r] new rf(3) t s1f(1) eff(2) by simp
  ultimately show ?thesis
    using guards rf s1f t count_seed_eq [OF rf(2)] by (simp add: admitted_request_def)
qed

lemma admit_not_created:
  assumes adm: "admit pf cfg env input s = (Inr res, t)" and req: "ar_request res = None"
  shows "accounting t = accounting s"
proof (cases "normalizeUrl (pf_parse pf) (ei_rawUrl input) (ei_referrerUrl input)")
  case (Inl e)
  with adm req show ?thesis by (auto simp: admit_def dest: enqueueThroughFrontier_none)
next
  case (Inr n)
  note eq = adm [unfolded admit_def Let_def Inr sum.case]
  have last: "accounting t = accounting s"
    if enq: "enqueueThroughFrontier pf cfg env input s = (Inr res, s1)"
      and t: "t = (if ed_status (ar_decision res) = Enqueued then s1\<lparr>sx_scope := sp\<rparr> else s1)" for s1 sp
  proof -
    from enqueueThroughFrontier_result [OF enq] obtain result jb where
      "backend_enqueue pf (sg_frontier cfg) (ae_now env) (ae_journal_ok env) (sx_frontier s) input = Inr (result, jb)"
      "ar_request res = er_request result" "ar_decision res = er_decision result" by metis
    with backend_enqueue_effect req have "ed_status (ar_decision res) \<noteq> Enqueued"
      by (fastforce simp: enqueue_effect_def)
    with t enqueueThroughFrontier_none [OF enq req] show ?thesis by simp
  qed
  show ?thesis
    using eq req last
    by (auto simp: and_then_Inr dest: enqueueThroughFrontier_none recordRequestLimit_result skippedRecord_accounting
        split: if_splits)
qed

section \<open>The accounting invariant\<close>

definition known_of :: "scheduler \<Rightarrow> crawl_request list" where
  "known_of s = state_knownRequests (jb_state (sx_frontier s))"

definition in_scope :: "platform \<Rightarrow> scope_policy \<Rightarrow> crawl_request \<Rightarrow> bool" where
  "in_scope pf sp r \<longleftrightarrow>
     sn_allowed (scope_decide (pf_parse pf) sp (rq_normalizedUrl r) (rq_depth r) (Some (rq_seedUrl r)))"

definition accounting_ok :: "platform \<Rightarrow> scheduler_config \<Rightarrow> scope_policy \<Rightarrow> scheduler \<Rightarrow> bool" where
  "accounting_ok pf cfg sp s \<longleftrightarrow>
     cc_requestsScheduled (sx_counters s) = length (known_of s) \<and>
     length (known_of s) \<le> sg_maxScheduledRequests cfg \<and>
     cc_sitemapFilesDiscovered (sx_counters s)
       = length (filter (\<lambda>r. isSitemapFileSource (rq_source r)) (known_of s)) \<and>
     cc_sitemapFilesDiscovered (sx_counters s) \<le> sg_maxSitemapFiles cfg \<and>
     sx_seedCounts s = foldl count_seed [] (known_of s) \<and>
     same_scopes sp (sx_scope s) \<and>
     sx_scope s = restoreReservations (pf_parse pf) (sx_scope s) (known_of s) \<and>
     list_all (in_scope pf sp) (known_of s)"

definition seed_respected :: "string \<Rightarrow> nat \<Rightarrow> scheduler \<Rightarrow> bool" where
  "seed_respected u m s \<longleftrightarrow> length (filter (\<lambda>r. rq_seedUrl r = u) (known_of s)) \<le> m"

lemma accounting_fields:
  "accounting t = accounting s \<Longrightarrow> sx_frontier t = sx_frontier s \<and> sx_scope t = sx_scope s \<and>
     sx_seedCounts t = sx_seedCounts s \<and>
     cc_requestsScheduled (sx_counters t) = cc_requestsScheduled (sx_counters s) \<and>
     cc_sitemapFilesDiscovered (sx_counters t) = cc_sitemapFilesDiscovered (sx_counters s)"
  by (simp add: accounting_def)

lemma scope_decide_same:
  assumes "same_scopes sp sp'"
  shows "scope_decide parse sp url d seed = scope_decide parse sp' url d seed"
proof -
  have "seedFor sp = seedFor sp'" "seed_scope sp = seed_scope sp'" "sp_global sp = sp_global sp'"
    using assms by (auto simp: same_scopes_def seedFor_def seed_scope_def fun_eq_iff split: option.split)
  then show ?thesis by (simp add: scope_decide_def Let_def cong: option.case_cong)
qed

lemma restore_step:
  assumes "sp = restoreReservations parse sp rs"
  shows "restore_one parse sp r = restoreReservations parse (restore_one parse sp r) (rs @ [r])"
proof -
  have "(restore_one parse sp r)\<lparr>sp_directoryCounts := [], sp_patternCounts := []\<rparr>
      = sp\<lparr>sp_directoryCounts := [], sp_patternCounts := []\<rparr>"
    by (simp add: restore_one_def Let_def split: option.split prod.split)
  with assms show ?thesis by (simp add: restoreReservations_def)
qed

lemma count_seed_count:
  "count_of (foldl count_seed [] rs) u = length (filter (\<lambda>r. rq_seedUrl r = u) rs)"
  by (induction rs rule: rev_induct) (auto simp: count_seed_def count_of_def split: option.splits)

lemma accounting_ok_admit:
  assumes ok: "accounting_ok pf cfg sp s" and adm: "admit pf cfg env input s = (Inr res, t)"
  shows "accounting_ok pf cfg sp t"
proof (cases "ar_request res")
  case None
  with admit_not_created [OF adm] accounting_fields [of t s] ok show ?thesis
    by (simp add: accounting_ok_def known_of_def)
next
  case (Some r)
  note a = admit_created [OF adm Some, unfolded admitted_request_def]
  from ok have same: "same_scopes sp (sx_scope s)" by (simp add: accounting_ok_def)
  have known: "known_of t = known_of s @ [r]" using a by (simp add: known_of_def)
  have "same_scopes sp (sx_scope t)"
    using same_scopes_trans [OF same restore_one_same] a by simp
  moreover have "sx_scope t = restoreReservations (pf_parse pf) (sx_scope t) (known_of t)"
    using restore_step [of "sx_scope s" "pf_parse pf" "known_of s" r] ok a known by (simp add: accounting_ok_def)
  moreover have "in_scope pf sp r"
    unfolding in_scope_def scope_decide_same [OF same] using a by blast
  ultimately show ?thesis
    using ok a known by (auto simp: accounting_ok_def sitemapLimitReached_def)
qed

lemma seed_respected_admit:
  assumes ok: "accounting_ok pf cfg sp s" and adm: "admit pf cfg env input s = (Inr res, t)"
    and seed: "sd_normalizedUrl (ei_seed input) = u \<longrightarrow> sd_maxScheduledRequests (ei_seed input) = Some m"
    and resp: "seed_respected u m s"
  shows "seed_respected u m t"
proof (cases "ar_request res")
  case None
  with admit_not_created [OF adm] accounting_fields [of t s] resp show ?thesis
    by (simp add: seed_respected_def known_of_def)
next
  case (Some r)
  note a = admit_created [OF adm Some, unfolded admitted_request_def]
  have known: "known_of t = known_of s @ [r]" using a by (simp add: known_of_def)
  show ?thesis
  proof (cases "rq_seedUrl r = u")
    case True
    with a seed have "count_of (sx_seedCounts s) u < m" by (simp add: seedLimitReached_def)
    with ok have "length (filter (\<lambda>r. rq_seedUrl r = u) (known_of s)) < m"
      by (simp add: accounting_ok_def count_seed_count)
    with known True show ?thesis by (simp add: seed_respected_def)
  next
    case False
    with known resp show ?thesis by (simp add: seed_respected_def)
  qed
qed

section \<open>Sequences of admissions\<close>

fun admissions ::
  "platform \<Rightarrow> scheduler_config \<Rightarrow> (admission_env \<times> enqueue_input) list \<Rightarrow> scheduler
     \<Rightarrow> admission_result list scheduled"
where
  "admissions pf cfg [] s = (Inr [], s)"
| "admissions pf cfg ((env, input) # xs) s =
     and_then (admit pf cfg env input s)
       (\<lambda>r s. and_then (admissions pf cfg xs s) (\<lambda>rs s. (Inr (r # rs), s)))"

definition fresh_scheduler :: "scheduler \<Rightarrow> bool" where
  "fresh_scheduler s \<longleftrightarrow>
     known_of s = [] \<and> sx_seedCounts s = [] \<and> cc_requestsScheduled (sx_counters s) = 0 \<and>
     cc_sitemapFilesDiscovered (sx_counters s) = 0 \<and>
     sp_directoryCounts (sx_scope s) = [] \<and> sp_patternCounts (sx_scope s) = []"

lemma fresh_accounting: "fresh_scheduler s \<Longrightarrow> accounting_ok pf cfg (sx_scope s) s"
  by (simp add: fresh_scheduler_def accounting_ok_def same_scopes_def restoreReservations_def)

lemma admissions_accounting:
  "accounting_ok pf cfg sp s \<Longrightarrow> admissions pf cfg xs s = (Inr rs, t) \<Longrightarrow> accounting_ok pf cfg sp t"
proof (induction xs arbitrary: s rs)
  case Nil
  then show ?case by simp
next
  case (Cons x xs)
  then show ?case by (cases x) (auto simp: and_then_Inr dest: accounting_ok_admit)
qed


lemma admissions_seed:
  assumes "\<forall>x \<in> set xs. sd_normalizedUrl (ei_seed (snd x)) = u \<longrightarrow> sd_maxScheduledRequests (ei_seed (snd x)) = Some m"
  shows "accounting_ok pf cfg sp s \<Longrightarrow> seed_respected u m s \<Longrightarrow> admissions pf cfg xs s = (Inr rs, t) \<Longrightarrow>
    seed_respected u m t"
  using assms
proof (induction xs arbitrary: s rs)
  case Nil
  then show ?case by simp
next
  case (Cons x xs)
  obtain env input where x: "x = (env, input)" by (cases x)
  with Cons.prems obtain r s1 rs1 where adm: "admit pf cfg env input s = (Inr r, s1)"
    and rest: "admissions pf cfg xs s1 = (Inr rs1, t)"
    by (auto simp: and_then_Inr)
  have "sd_normalizedUrl (ei_seed input) = u \<longrightarrow> sd_maxScheduledRequests (ei_seed input) = Some m"
    using Cons.prems(4) x by simp
  from seed_respected_admit [OF Cons.prems(1) adm this Cons.prems(2)] accounting_ok_admit [OF Cons.prems(1) adm]
    rest Cons.prems(4) Cons.IH show ?case by simp
qed

text \<open>
  The quota of a seed holds. If every admission for a seed carries the same limit \<open>m\<close>, the
  frontier never knows more than \<open>m\<close> requests of that seed, whatever else is admitted.
\<close>

theorem seed_quota:
  assumes "fresh_scheduler s" and "admissions pf cfg xs s = (Inr rs, t)"
    and "\<forall>x \<in> set xs. sd_normalizedUrl (ei_seed (snd x)) = u \<longrightarrow> sd_maxScheduledRequests (ei_seed (snd x)) = Some m"
  shows "length (filter (\<lambda>r. rq_seedUrl r = u) (known_of t)) \<le> m"
proof -
  have "seed_respected u m s" using assms(1) by (simp add: seed_respected_def fresh_scheduler_def)
  from admissions_seed [OF assms(3) fresh_accounting [OF assms(1)] this assms(2)] show ?thesis
    by (simp add: seed_respected_def)
qed

lemma foldl_map_set: "wf_map (acc @ m) \<Longrightarrow> foldl (\<lambda>m (k, v). map_set k v m) acc m = acc @ m"
proof (induction m arbitrary: acc)
  case (Cons p m)
  obtain k v where p: "p = (k, v)" by (cases p)
  with Cons.prems have "map_of acc k = None" by (auto simp: map_of_eq_None_iff)
  then have "map_set k v acc = acc @ [(k, v)]" by (rule map_set_new)
  with Cons p show ?case by simp
qed simp

lemma wf_count_seed: "wf_map (foldl count_seed [] rs)"
  by (induction rs rule: rev_induct) (auto simp: count_seed_def)

text \<open>
  A resume enforces the quotas of the run it continues. After any sequence of admissions,
  rebuilding the accounting from the requests of the frontier, as a resumed run does, gives
  exactly the accounting the run had: the counts per seed and the scope reservations.
\<close>

theorem restoreAccounting_identity:
  assumes "fresh_scheduler s" and "admissions pf cfg xs s = (Inr rs, t)"
  shows "restoreAccounting pf t = t"
proof -
  have ok: "accounting_ok pf cfg (sx_scope s) t"
    by (rule admissions_accounting [OF fresh_accounting [OF assms(1)] assms(2)])
  have counts: "state_seedRequestCounts (jb_state (sx_frontier t)) = foldl count_seed [] (known_of t)"
    by (simp add: state_seedRequestCounts_def known_of_def state_knownRequests_def)
  have "foldl (\<lambda>m (k, v). map_set k v m) [] (foldl count_seed [] (known_of t)) = sx_seedCounts t"
    using foldl_map_set [of "[]" "foldl count_seed [] (known_of t)"] wf_count_seed [of "known_of t"] ok
    by (simp add: accounting_ok_def)
  moreover have "restoreReservations (pf_parse pf) (sx_scope t) (known_of t) = sx_scope t"
    using ok by (simp add: accounting_ok_def)
  ultimately show ?thesis
    unfolding restoreAccounting_def counts known_of_def [symmetric] by simp
qed

section \<open>A sample sequence\<close>

definition sample_scheduler :: scheduler where
  "sample_scheduler = \<lparr>sx_frontier = new_backend sample_config [], sx_scope = sample_policy,
     sx_counters = new_counters, sx_seedCounts = [], sx_limits = [], sx_written = []\<rparr>"

definition sample_scheduling :: scheduler_config where
  "sample_scheduling = \<lparr>sg_frontier = sample_config, sg_maxScheduledRequests = 2, sg_maxSitemapFiles = 1,
     sg_writeSkippedUrls = True\<rparr>"

definition sample_env :: admission_env where
  "sample_env = \<lparr>ae_now = 0, ae_journal_ok = True, ae_store_ok = (\<lambda>_. True)\<rparr>"

definition limited_seed :: resolved_seed where
  "limited_seed = sample_seed\<lparr>sd_maxScheduledRequests := Some 1\<rparr>"

definition sample_admissions :: "(admission_env \<times> enqueue_input) list" where
  "sample_admissions =
     [(sample_env, sample_input\<lparr>ei_seed := limited_seed\<rparr>),
      (sample_env, sample_input\<lparr>ei_rawUrl := ''http://a/y'', ei_seed := limited_seed\<rparr>)]"

definition sample_scheduled :: scheduler where
  "sample_scheduled = snd (admissions sample_platform sample_scheduling sample_admissions sample_scheduler)"

lemma sample_fresh: "fresh_scheduler sample_scheduler"
  by code_simp

lemma sample_run:
  "admissions sample_platform sample_scheduling sample_admissions sample_scheduler =
     (Inr (projr (fst (admissions sample_platform sample_scheduling sample_admissions sample_scheduler))),
      sample_scheduled)"
proof -
  have "\<not> isl (fst (admissions sample_platform sample_scheduling sample_admissions sample_scheduler))" by code_simp
  then show ?thesis unfolding sample_scheduled_def by (metis prod.collapse sum.collapse(2))
qed


lemma seed_quota_witness:
  "length (filter (\<lambda>r. rq_seedUrl r = ''http://a/'') (known_of sample_scheduled)) \<le> 1"
  by (rule seed_quota [OF sample_fresh sample_run]) (simp add: sample_admissions_def limited_seed_def)

lemma restoreAccounting_identity_witness: "restoreAccounting sample_platform sample_scheduled = sample_scheduled"
  by (rule restoreAccounting_identity [OF sample_fresh sample_run])

end
