(* ===== verification/Robots.thy ===== *)
theory Robots
  imports Url_Scope
begin

text \<open>
  robots.txt: the parser (\<open>robots/parser.ts\<close>), the rule matcher (\<open>robots/matcher.ts\<close>) and the
  service that caches the policies (\<open>robots/service.ts\<close>), with their types
  (\<open>robots/policy-types.ts\<close>, \<open>robots/types.ts\<close>).

  The matcher works on UTF-16 code units, so text is a list of integers here. The
  case folding \<open>toLowerCase\<close> beyond its use as a function is a parameter \<open>lc\<close>; \<open>nrm\<close> stands
  for \<open>normalizeUrl\<close> (component \<open>Url_Scope\<close>) on such text.
\<close>

type_synonym units = "int list"

definition units_of :: "string \<Rightarrow> units" where
  "units_of s = map of_char s"

section \<open>Types\<close>

datatype directive = Allow | Disallow

datatype unavailable_mode = ModeAllow | ModeDisallow | ModeSeedOnly

datatype robots_source = FromRobotsTxt | FromFallback | RobotsDisabled | RobotsUnknown

record robots_rule =
  ru_directive :: directive
  ru_path :: units

record robots_group =
  gr_agents :: "units list"
  gr_rules :: "robots_rule list"
  gr_crawlDelaySeconds :: "number option"

record robots_policy =
  po_groups :: "robots_group list"
  po_sitemaps :: "string list"
  po_unavailableMode :: "unavailable_mode option"

record robots_decision =
  rd_allowed :: bool
  rd_reason :: "string option"
  rd_source :: robots_source
  rd_matchedRule :: "units option"

section \<open>Normalised paths\<close>

definition hex_unit :: "int \<Rightarrow> int option" where
  "hex_unit n =
     (if 48 \<le> n \<and> n \<le> 57 then Some (n - 48)
      else if 65 \<le> n \<and> n \<le> 70 then Some (n - 55)
      else if 97 \<le> n \<and> n \<le> 102 then Some (n - 87)
      else None)"

definition hex_digit :: "int \<Rightarrow> int" where
  "hex_digit n = (if n < 10 then n + 48 else n + 55)"

definition percent :: "int \<Rightarrow> units" where
  "percent byte = [37, hex_digit (byte div 16), hex_digit (byte mod 16)]"

definition isUnreserved :: "int \<Rightarrow> bool" where
  "isUnreserved n \<longleftrightarrow>
     (65 \<le> n \<and> n \<le> 90) \<or> (97 \<le> n \<and> n \<le> 122) \<or> (48 \<le> n \<and> n \<le> 57) \<or> n = 46 \<or> n = 95 \<or> n = 126 \<or> n = 45"

definition utf8 :: "int \<Rightarrow> int list" where
  "utf8 c =
     (if c < 0x80 then [c]
      else if c < 0x800 then [0xC0 + c div 64, 0x80 + c mod 64]
      else if c < 0x10000 then [0xE0 + c div 4096, 0x80 + c div 64 mod 64, 0x80 + c mod 64]
      else [0xF0 + c div 262144, 0x80 + c div 4096 mod 64, 0x80 + c div 64 mod 64, 0x80 + c mod 64])"

definition encode_scalar :: "int \<Rightarrow> units" where
  "encode_scalar c = concat (map percent (utf8 c))"

definition is_high :: "int \<Rightarrow> bool" where
  "is_high n \<longleftrightarrow> 0xD800 \<le> n \<and> n \<le> 0xDBFF"

definition is_low :: "int \<Rightarrow> bool" where
  "is_low n \<longleftrightarrow> 0xDC00 \<le> n \<and> n \<le> 0xDFFF"

definition code_point :: "int \<Rightarrow> int \<Rightarrow> int" where
  "code_point hi lo = 0x10000 + (hi - 0xD800) * 1024 + (lo - 0xDC00)"

text \<open>\<open>scalarAt\<close>: the code point at the head of the text, and how many code units it takes.\<close>

fun scalarAt :: "units \<Rightarrow> int \<times> nat" where
  "scalarAt [] = (0, 0)"
| "scalarAt (c # cs) =
     (if is_high c
      then (case cs of [] \<Rightarrow> (0xFFFD, 1) | d # _ \<Rightarrow> if is_low d then (code_point c d, 2) else (0xFFFD, 1))
      else if is_low c then (0xFFFD, 1) else (c, 1))"

definition escape_at :: "units \<Rightarrow> int option" where
  "escape_at cs =
     (case cs of
        p # h # l # _ \<Rightarrow>
          if p = 37 then (case (hex_unit h, hex_unit l) of (Some a, Some b) \<Rightarrow> Some (16 * a + b) | _ \<Rightarrow> None)
          else None
      | _ \<Rightarrow> None)"

function normalizeRobotsValue :: "units \<Rightarrow> bool \<Rightarrow> units" where
  "normalizeRobotsValue [] preserveSyntax = []"
| "normalizeRobotsValue (c # cs) preserveSyntax =
     (if preserveSyntax \<and> (c = 42 \<or> c = 36) then c # normalizeRobotsValue cs preserveSyntax
      else case escape_at (c # cs) of
             Some byte \<Rightarrow>
               (if isUnreserved byte then [byte] else percent byte)
               @ normalizeRobotsValue (drop 2 cs) preserveSyntax
           | None \<Rightarrow>
               if fst (scalarAt (c # cs)) < 128 then c # normalizeRobotsValue cs preserveSyntax
               else encode_scalar (fst (scalarAt (c # cs)))
                    @ normalizeRobotsValue (drop (snd (scalarAt (c # cs)) - 1) cs) preserveSyntax)"
  by pat_completeness auto
termination by (relation "measure (\<lambda>(cs, _). length cs)") auto

section \<open>Matching\<close>

definition robots_line_terminator :: "int \<Rightarrow> bool" where
  "robots_line_terminator c \<longleftrightarrow> c = 0x0A \<or> c = 0x0D \<or> c = 0x2028 \<or> c = 0x2029"

definition anchored :: "units \<Rightarrow> bool" where
  "anchored p \<longleftrightarrow> p \<noteq> [] \<and> last p = 36"

definition pattern_source :: "units \<Rightarrow> units" where
  "pattern_source p = (if anchored p then butlast p else p)"

definition robotsPathMatches :: "units \<Rightarrow> units \<Rightarrow> bool" where
  "robotsPathMatches p path = glob robots_line_terminator 42 (anchored p) (pattern_source p) path"

definition upper_hex :: "int \<Rightarrow> bool" where
  "upper_hex n \<longleftrightarrow> (48 \<le> n \<and> n \<le> 57) \<or> (65 \<le> n \<and> n \<le> 70)"

text \<open>
  The loop of \<open>patternSpecificity\<close>. \<open>TextEncoder\<close> encodes a lone surrogate as U+FFFD, in three
  bytes.
\<close>

function octet_count :: "units \<Rightarrow> nat" where
  "octet_count [] = 0"
| "octet_count (c # cs) =
     (if c = 37 \<and> (case cs of h # l # _ \<Rightarrow> upper_hex h \<and> upper_hex l | _ \<Rightarrow> False)
      then 1 + octet_count (drop 2 cs)
      else length (utf8 (fst (scalarAt (c # cs)))) + octet_count (drop (snd (scalarAt (c # cs)) - 1) cs))"
  by pat_completeness auto
termination by (relation "measure length") auto

definition patternSpecificity :: "units \<Rightarrow> nat" where
  "patternSpecificity p =
     (let stars_gone = filter (\<lambda>c. c \<noteq> 42) p;
          semantic = (if anchored stars_gone then butlast stars_gone else stars_gone)
      in octet_count semantic)"

text \<open>The loop of \<open>bestRule\<close>; the specificity before any match is below every other.\<close>

fun best_loop :: "units \<Rightarrow> robots_rule list \<Rightarrow> robots_rule option \<Rightarrow> int \<Rightarrow> robots_rule option" where
  "best_loop path [] best bestSpecificity = best"
| "best_loop path (r # rs) best bestSpecificity =
     (if ru_path r = [] \<and> ru_directive r = Disallow then best_loop path rs best bestSpecificity
      else let p = normalizeRobotsValue (ru_path r) True
           in if \<not> robotsPathMatches p path then best_loop path rs best bestSpecificity
              else let specificity = int (patternSpecificity p)
                   in if specificity > bestSpecificity \<or>
                         (specificity = bestSpecificity \<and> ru_directive r = Allow)
                      then best_loop path rs (Some r) specificity
                      else best_loop path rs best bestSpecificity)"

definition bestRule :: "robots_rule list \<Rightarrow> units \<Rightarrow> robots_rule option" where
  "bestRule rules path = best_loop path rules None (-1)"

fun text_includes :: "'a list \<Rightarrow> 'a list \<Rightarrow> bool" where
  "text_includes [] t \<longleftrightarrow> t = []"
| "text_includes (c # cs) t \<longleftrightarrow> take (length t) (c # cs) = t \<or> text_includes cs t"

definition agentMatch :: "(units \<Rightarrow> units) \<Rightarrow> units \<Rightarrow> units \<Rightarrow> int" where
  "agentMatch lc agent productToken =
     (if agent = [42] then 0
      else if text_includes productToken (lc agent) then int (length agent) else -1)"

text \<open>\<open>Math.max(...)\<close> over the agents; of no agents it is negative.\<close>

definition group_match :: "(units \<Rightarrow> units) \<Rightarrow> units \<Rightarrow> robots_group \<Rightarrow> int" where
  "group_match lc token g = foldr max (map (\<lambda>a. agentMatch lc a token) (gr_agents g)) (-1)"

fun groups_loop ::
  "(units \<Rightarrow> units) \<Rightarrow> units \<Rightarrow> robots_group list \<Rightarrow> int \<Rightarrow> robots_group list \<Rightarrow> robots_group list"
where
  "groups_loop lc token [] bestLength matched = matched"
| "groups_loop lc token (g # gs) bestLength matched =
     (let len = group_match lc token g
      in if len < 0 \<or> len < bestLength then groups_loop lc token gs bestLength matched
         else if len > bestLength then groups_loop lc token gs len [g]
         else groups_loop lc token gs bestLength (matched @ [g]))"

definition matchingGroups :: "(units \<Rightarrow> units) \<Rightarrow> robots_policy \<Rightarrow> units \<Rightarrow> robots_group list" where
  "matchingGroups lc policy productToken = groups_loop lc (lc productToken) (po_groups policy) (-1) []"

definition matchingRules :: "(units \<Rightarrow> units) \<Rightarrow> robots_policy \<Rightarrow> units \<Rightarrow> robots_rule list" where
  "matchingRules lc policy productToken = concat (map gr_rules (matchingGroups lc policy productToken))"

section \<open>Decisions\<close>

definition allowedDecision :: "robots_source \<Rightarrow> units option \<Rightarrow> robots_decision" where
  "allowedDecision source matched =
     \<lparr>rd_allowed = True, rd_reason = None, rd_source = source, rd_matchedRule = matched\<rparr>"

fun mode_text :: "unavailable_mode \<Rightarrow> string" where
  "mode_text ModeAllow = ''allow''"
| "mode_text ModeDisallow = ''disallow''"
| "mode_text ModeSeedOnly = ''seed-only''"

definition decisionFromFallback :: "unavailable_mode \<Rightarrow> bool \<Rightarrow> robots_decision" where
  "decisionFromFallback mode isSeed =
     (if mode = ModeAllow \<or> (mode = ModeSeedOnly \<and> isSeed) then allowedDecision FromFallback None
      else \<lparr>rd_allowed = False, rd_reason = Some (''robots fallback '' @ mode_text mode),
            rd_source = FromFallback, rd_matchedRule = None\<rparr>)"

definition decisionForPath ::
  "(units \<Rightarrow> units) \<Rightarrow> robots_policy \<Rightarrow> units \<Rightarrow> units \<Rightarrow> bool \<Rightarrow> robots_decision"
where
  "decisionForPath lc policy productToken path isSeed =
     (case po_unavailableMode policy of
        Some mode \<Rightarrow> decisionFromFallback mode isSeed
      | None \<Rightarrow>
          (case bestRule (matchingRules lc policy productToken) (normalizeRobotsValue path False) of
             None \<Rightarrow> allowedDecision FromRobotsTxt None
           | Some m \<Rightarrow>
               if ru_directive m = Allow
               then allowedDecision FromRobotsTxt (Some (units_of ''Allow: '' @ ru_path m))
               else \<lparr>rd_allowed = False, rd_reason = Some ''robots.txt disallow'',
                     rd_source = FromRobotsTxt,
                     rd_matchedRule = Some (units_of ''Disallow: '' @ ru_path m)\<rparr>))"

definition crawlDelayFor :: "(units \<Rightarrow> units) \<Rightarrow> robots_policy \<Rightarrow> units \<Rightarrow> number option" where
  "crawlDelayFor lc policy productToken =
     (if po_unavailableMode policy \<noteq> None then None
      else case List.map_filter gr_crawlDelaySeconds (matchingGroups lc policy productToken) of
             [] \<Rightarrow> None
           | d # ds \<Rightarrow> Some (foldl max d ds))"

definition unavailable :: "unavailable_mode \<Rightarrow> robots_policy" where
  "unavailable mode = \<lparr>po_groups = [], po_sitemaps = [], po_unavailableMode = Some mode\<rparr>"

section \<open>Numbers\<close>

text \<open>
  \<open>Number(value)\<close> on trimmed text, \<open>None\<close> where it is \<open>NaN\<close> or infinite. A decimal literal
  that would round beyond the largest double is infinite.
\<close>

definition is_dec :: "int \<Rightarrow> bool" where
  "is_dec c \<longleftrightarrow> 48 \<le> c \<and> c \<le> 57"

definition digits_value :: "int \<Rightarrow> int list \<Rightarrow> int" where
  "digits_value base ds = foldl (\<lambda>n d. n * base + d) 0 ds"

definition radix_literal :: "int \<Rightarrow> units \<Rightarrow> int option" where
  "radix_literal base cs =
     (if cs \<noteq> [] \<and> list_all (\<lambda>c. case hex_unit c of None \<Rightarrow> False | Some d \<Rightarrow> d < base) cs
      then Some (digits_value base (map (\<lambda>c. the (hex_unit c)) cs)) else None)"

definition signed :: "units \<Rightarrow> int \<times> units" where
  "signed cs = (case cs of c # rest \<Rightarrow> if c = 45 then (-1, rest) else if c = 43 then (1, rest) else (1, cs)
                | [] \<Rightarrow> (1, []))"

definition exponent :: "units \<Rightarrow> int option" where
  "exponent cs =
     (case cs of
        [] \<Rightarrow> Some 0
      | c # rest \<Rightarrow>
          if c \<noteq> 101 \<and> c \<noteq> 69 then None
          else case signed rest of
                 (sg, ds) \<Rightarrow> if ds \<noteq> [] \<and> list_all is_dec ds
                              then Some (sg * (digits_value 10 (map (\<lambda>d. d - 48) ds))) else None)"

definition decimal_literal :: "units \<Rightarrow> number option" where
  "decimal_literal cs =
     (let (sg, body) = signed cs;
          whole = takeWhile is_dec body;
          rest = dropWhile is_dec body;
          (fraction, rest) =
            (case rest of c # ds \<Rightarrow> if c = 46 then (takeWhile is_dec ds, dropWhile is_dec ds) else ([], rest)
             | [] \<Rightarrow> ([], []))
      in if whole = [] \<and> fraction = [] then None
         else case exponent rest of
                None \<Rightarrow> None
              | Some e \<Rightarrow>
                  let m = of_int sg * of_int (digits_value 10 (map (\<lambda>d. d - 48) (whole @ fraction)));
                      e = e - int (length fraction)
                  in Some (if 0 \<le> e then m * 10 ^ nat e else m / 10 ^ nat (- e)))"

definition finite_double :: "number \<Rightarrow> bool" where
  "finite_double x \<longleftrightarrow> \<bar>x\<bar> < 2 ^ 1024 - 2 ^ 970"

definition js_number :: "units \<Rightarrow> number option" where
  "js_number cs =
     (let literal =
        (case cs of
           [] \<Rightarrow> Some 0
         | z # x # ds \<Rightarrow>
             if z = 48 \<and> (x = 120 \<or> x = 88) then map_option of_int (radix_literal 16 ds)
             else if z = 48 \<and> (x = 111 \<or> x = 79) then map_option of_int (radix_literal 8 ds)
             else if z = 48 \<and> (x = 98 \<or> x = 66) then map_option of_int (radix_literal 2 ds)
             else decimal_literal cs
         | _ \<Rightarrow> decimal_literal cs)
      in case literal of None \<Rightarrow> None | Some x \<Rightarrow> if finite_double x then Some x else None)"

section \<open>The parser\<close>

definition unit_space :: "int \<Rightarrow> bool" where
  "unit_space c \<longleftrightarrow>
     (9 \<le> c \<and> c \<le> 13) \<or> c = 32 \<or> c = 160 \<or> c = 0x1680 \<or> (0x2000 \<le> c \<and> c \<le> 0x200A) \<or>
     c = 0x2028 \<or> c = 0x2029 \<or> c = 0x202F \<or> c = 0x205F \<or> c = 0x3000 \<or> c = 0xFEFF"

definition unit_trim :: "units \<Rightarrow> units" where
  "unit_trim s = rev (dropWhile unit_space (rev (dropWhile unit_space s)))"

text \<open>\<open>split(/\r?\n/u)\<close>.\<close>

definition drop_cr :: "units \<Rightarrow> units" where
  "drop_cr l = (if l \<noteq> [] \<and> last l = 13 then butlast l else l)"

definition split_lines :: "units \<Rightarrow> units list" where
  "split_lines t = (let ls = split_on 10 t in map drop_cr (butlast ls) @ [last ls])"

definition stripComment :: "units \<Rightarrow> units" where
  "stripComment line = (case index_of 35 line of None \<Rightarrow> line | Some i \<Rightarrow> take i line)"

record robots_parser =
  rp_groups :: "robots_group list"
  rp_sitemaps :: "string list"
  rp_agents :: "units list"
  rp_rules :: "robots_rule list"
  rp_crawlDelay :: "number option"

definition robots_flush :: "robots_parser \<Rightarrow> robots_parser" where
  "robots_flush p =
     p\<lparr>rp_groups := rp_groups p @
          (if rp_agents p \<noteq> []
           then [\<lparr>gr_agents = rp_agents p, gr_rules = rp_rules p, gr_crawlDelaySeconds = rp_crawlDelay p\<rparr>]
           else []),
       rp_agents := [], rp_rules := [], rp_crawlDelay := None\<rparr>"

definition robots_directive ::
  "(units \<Rightarrow> units) \<Rightarrow> (units \<Rightarrow> string option) \<Rightarrow> robots_parser \<Rightarrow> units \<Rightarrow> units \<Rightarrow> robots_parser"
where
  "robots_directive lc nrm p key value =
     (if key = units_of ''sitemap''
      then (case nrm value of None \<Rightarrow> p | Some u \<Rightarrow> p\<lparr>rp_sitemaps := rp_sitemaps p @ [u]\<rparr>)
      else if key = units_of ''user-agent''
      then (let p = (if rp_rules p \<noteq> [] \<or> rp_crawlDelay p \<noteq> None then robots_flush p else p)
            in if value \<noteq> [] then p\<lparr>rp_agents := rp_agents p @ [lc value]\<rparr> else p)
      else if rp_agents p = [] then p
      else if key = units_of ''allow''
      then p\<lparr>rp_rules := rp_rules p @ [\<lparr>ru_directive = Allow, ru_path = value\<rparr>]\<rparr>
      else if key = units_of ''disallow''
      then p\<lparr>rp_rules := rp_rules p @ [\<lparr>ru_directive = Disallow, ru_path = value\<rparr>]\<rparr>
      else if key = units_of ''crawl-delay''
      then (case js_number value of
              None \<Rightarrow> p
            | Some d \<Rightarrow> if d \<ge> 0 then p\<lparr>rp_crawlDelay := Some d\<rparr> else p)
      else p)"

definition robots_line ::
  "(units \<Rightarrow> units) \<Rightarrow> (units \<Rightarrow> string option) \<Rightarrow> robots_parser \<Rightarrow> units \<Rightarrow> robots_parser"
where
  "robots_line lc nrm p rawLine =
     (let line = unit_trim (stripComment rawLine)
      in if line = [] then p
         else case index_of 58 line of
                None \<Rightarrow> p
              | Some i \<Rightarrow>
                  robots_directive lc nrm p (lc (unit_trim (take i line))) (unit_trim (drop (i + 1) line)))"

definition dedupe :: "'a list \<Rightarrow> 'a list" where
  "dedupe xs = foldl (\<lambda>acc x. if List.member acc x then acc else acc @ [x]) [] xs"

definition parseRobotsTxt :: "(units \<Rightarrow> units) \<Rightarrow> (units \<Rightarrow> string option) \<Rightarrow> units \<Rightarrow> robots_policy" where
  "parseRobotsTxt lc nrm text =
     (let p = foldl (robots_line lc nrm)
                \<lparr>rp_groups = [], rp_sitemaps = [], rp_agents = [], rp_rules = [], rp_crawlDelay = None\<rparr>
                (split_lines text);
          p = robots_flush p
      in \<lparr>po_groups = rp_groups p, po_sitemaps = dedupe (rp_sitemaps p), po_unavailableMode = None\<rparr>)"

section \<open>The service\<close>

record robots_config =
  rb_enabled :: bool
  rb_productToken :: units
  rb_on4xx :: unavailable_mode
  rb_on5xx :: unavailable_mode
  rb_onNetworkError :: unavailable_mode
  rb_respectCrawlDelay :: bool
  rb_maxBytes :: nat
  rb_cacheTtlMs :: int

record robots_fetch_result =
  fr_runId :: string
  fr_statusCode :: "int option"
  fr_text :: "units option"
  fr_finalUrl :: "string option"
  fr_error :: "string option"
  fr_fetchedAt :: timestamp

datatype record_source = SrcNetwork | SrcCache | SrcStaleCache | SrcFallback

record robots_record =
  rr_runId :: string
  rr_origin :: string
  rr_requestedUrl :: string
  rr_finalUrl :: "string option"
  rr_statusCode :: "int option"
  rr_source :: record_source
  rr_fallbackMode :: "unavailable_mode option"
  rr_groups :: nat
  rr_rules :: nat
  rr_sitemaps :: "string list"
  rr_fetchedAt :: timestamp
  rr_expiresAt :: timestamp
  rr_error :: "string option"

record cached_policy =
  cp_policy :: robots_policy
  cp_expiresAtMs :: timestamp

text \<open>
  What the service is given: the configuration, the fetcher and the recorder with their
  rejections, the text functions. The cache keeps the outcome of the promise of each origin,
  \<open>Inl\<close> when it was rejected. \<open>now\<close> is the clock when the cache is looked up and \<open>loaded\<close>
  when the response is there.
\<close>

record robots_env =
  re_config :: robots_config
  re_fetch :: "string \<Rightarrow> (string, robots_fetch_result) result"
  re_record :: "robots_record \<Rightarrow> string option"
  re_lc :: "units \<Rightarrow> units"
  re_norm :: "string \<Rightarrow> units \<Rightarrow> string option"

type_synonym robots_cache = "(string, (string, cached_policy) result) jsmap"

definition policyFromResult :: "robots_env \<Rightarrow> robots_fetch_result \<Rightarrow> string \<Rightarrow> robots_policy \<times> record_source" where
  "policyFromResult env r robotsUrl =
     (let config = re_config env in
      case (fr_error r, fr_statusCode r) of
        (None, Some status) \<Rightarrow>
          if status \<ge> 400 \<and> status < 500 then (unavailable (rb_on4xx config), SrcFallback)
          else if status \<ge> 500 then (unavailable (rb_on5xx config), SrcFallback)
          else (case fr_text r of
                  None \<Rightarrow> (unavailable (rb_on5xx config), SrcFallback)
                | Some text \<Rightarrow>
                    (parseRobotsTxt (re_lc env)
                       (re_norm env (case fr_finalUrl r of None \<Rightarrow> robotsUrl | Some u \<Rightarrow> u)) text,
                     SrcNetwork))
      | _ \<Rightarrow> (unavailable (rb_onNetworkError config), SrcFallback))"

definition robotsRecord ::
  "string \<Rightarrow> string \<Rightarrow> robots_fetch_result \<Rightarrow> robots_policy \<Rightarrow> record_source \<Rightarrow> timestamp \<Rightarrow> robots_record"
where
  "robotsRecord origin requestedUrl r policy source expiresAtMs =
     \<lparr>rr_runId = fr_runId r, rr_origin = origin, rr_requestedUrl = requestedUrl,
      rr_finalUrl = fr_finalUrl r, rr_statusCode = fr_statusCode r, rr_source = source,
      rr_fallbackMode = po_unavailableMode policy, rr_groups = length (po_groups policy),
      rr_rules = foldl (\<lambda>total g. total + length (gr_rules g)) 0 (po_groups policy),
      rr_sitemaps = po_sitemaps policy, rr_fetchedAt = fr_fetchedAt r, rr_expiresAt = expiresAtMs,
      rr_error = fr_error r\<rparr>"

definition loadPolicy ::
  "robots_env \<Rightarrow> timestamp \<Rightarrow> string \<Rightarrow> cached_policy option \<Rightarrow> (string, cached_policy) result"
where
  "loadPolicy env loaded origin stale =
     (let robotsUrl = origin @ ''/robots.txt'' in
      bind_result (re_fetch env robotsUrl) (\<lambda>r.
        let (fresh, source) = policyFromResult env r robotsUrl;
            useStale = (po_unavailableMode fresh \<noteq> None \<and> stale \<noteq> None);
            policy = (if useStale then cp_policy (the stale) else fresh);
            expiresAtMs = loaded + rb_cacheTtlMs (re_config env)
        in case re_record env (robotsRecord origin robotsUrl r policy
                                 (if useStale then SrcStaleCache else source) expiresAtMs) of
             Some e \<Rightarrow> Inl e
           | None \<Rightarrow> Inr \<lparr>cp_policy = policy, cp_expiresAtMs = expiresAtMs\<rparr>))"

definition policyFor ::
  "robots_env \<Rightarrow> timestamp \<Rightarrow> timestamp \<Rightarrow> string \<Rightarrow> robots_cache \<Rightarrow> (string, robots_policy) result \<times> robots_cache"
where
  "policyFor env now loaded origin cache =
     (case map_of cache origin of
        Some (Inl e) \<Rightarrow> (Inl e, cache)
      | Some (Inr c) \<Rightarrow>
          if cp_expiresAtMs c > now then (Inr (cp_policy c), cache)
          else (let loading = loadPolicy env loaded origin (Some c)
                in (map_sum id cp_policy loading, map_set origin loading cache))
      | None \<Rightarrow>
          (let loading = loadPolicy env loaded origin None
           in (map_sum id cp_policy loading, map_set origin loading cache)))"

text \<open>\<open>decide\<close>; the URL is given by its parse, \<open>new URL(url)\<close>.\<close>

definition robots_decide ::
  "robots_env \<Rightarrow> timestamp \<Rightarrow> timestamp \<Rightarrow> url \<Rightarrow> bool \<Rightarrow> robots_cache
     \<Rightarrow> (string, robots_decision) result \<times> robots_cache"
where
  "robots_decide env now loaded u isSeed cache =
     (if \<not> rb_enabled (re_config env)
      then (Inr \<lparr>rd_allowed = True, rd_reason = None, rd_source = RobotsDisabled, rd_matchedRule = None\<rparr>, cache)
      else case policyFor env now loaded (url_origin u) cache of
             (Inl e, cache') \<Rightarrow> (Inl e, cache')
           | (Inr policy, cache') \<Rightarrow>
               (Inr (decisionForPath (re_lc env) policy (rb_productToken (re_config env))
                       (units_of (u_pathname u @ u_search u)) isSeed), cache'))"

definition sitemapUrlsFor ::
  "robots_env \<Rightarrow> timestamp \<Rightarrow> timestamp \<Rightarrow> url \<Rightarrow> robots_cache \<Rightarrow> (string, string list) result \<times> robots_cache"
where
  "sitemapUrlsFor env now loaded u cache =
     (if \<not> rb_enabled (re_config env) then (Inr [], cache)
      else case policyFor env now loaded (url_origin u) cache of
             (res, cache') \<Rightarrow> (map_sum id po_sitemaps res, cache'))"

definition crawlDelayMsFor ::
  "robots_env \<Rightarrow> timestamp \<Rightarrow> timestamp \<Rightarrow> url \<Rightarrow> robots_cache \<Rightarrow> (string, number option) result \<times> robots_cache"
where
  "crawlDelayMsFor env now loaded u cache =
     (if \<not> rb_enabled (re_config env) \<or> \<not> rb_respectCrawlDelay (re_config env) then (Inr None, cache)
      else case policyFor env now loaded (url_origin u) cache of
             (Inl e, cache') \<Rightarrow> (Inl e, cache')
           | (Inr policy, cache') \<Rightarrow>
               (Inr (map_option (\<lambda>s. s * 1000)
                       (crawlDelayFor (re_lc env) policy (rb_productToken (re_config env)))), cache'))"

end
