(* ===== verification/Robots_Properties.thy ===== *)
theory Robots_Properties
  imports Robots
begin

text \<open>
  What the robots component promises: the longest-match rule with allow on ties, the meaning
  of the path patterns, the choice of the groups, the shape of parsed policies, and the life
  of a cached policy.
\<close>

section \<open>The rule that decides\<close>

definition rule_applies :: "units \<Rightarrow> robots_rule \<Rightarrow> bool" where
  "rule_applies path r \<longleftrightarrow>
     \<not> (ru_path r = [] \<and> ru_directive r = Disallow) \<and>
     robotsPathMatches (normalizeRobotsValue (ru_path r) True) path"

definition specificity :: "robots_rule \<Rightarrow> nat" where
  "specificity r = patternSpecificity (normalizeRobotsValue (ru_path r) True)"

lemma best_loop_Cons:
  "best_loop path (r # rs) best n =
     (if rule_applies path r \<and>
         (int (specificity r) > n \<or> (int (specificity r) = n \<and> ru_directive r = Allow))
      then best_loop path rs (Some r) (int (specificity r)) else best_loop path rs best n)"
  by (auto simp: rule_applies_def specificity_def Let_def)

text \<open>What the loop has found after the rules \<open>done\<close>.\<close>

definition best_so_far :: "units \<Rightarrow> robots_rule list \<Rightarrow> robots_rule option \<Rightarrow> int \<Rightarrow> bool" where
  "best_so_far path done best n \<longleftrightarrow>
     (case best of
        None \<Rightarrow> n = -1 \<and> (\<forall>r \<in> set done. \<not> rule_applies path r)
      | Some b \<Rightarrow> b \<in> set done \<and> rule_applies path b \<and> n = int (specificity b) \<and>
          (\<forall>r \<in> set done. rule_applies path r \<longrightarrow>
             specificity r < specificity b \<or>
             (specificity r = specificity b \<and> (ru_directive r = Allow \<longrightarrow> ru_directive b = Allow))))"

lemma best_so_far_step:
  assumes "best_so_far path done best n"
  shows "best_so_far path (done @ [r])
    (if rule_applies path r \<and> (int (specificity r) > n \<or> (int (specificity r) = n \<and> ru_directive r = Allow))
     then Some r else best)
    (if rule_applies path r \<and> (int (specificity r) > n \<or> (int (specificity r) = n \<and> ru_directive r = Allow))
     then int (specificity r) else n)"
  using assms by (cases best) (fastforce simp: best_so_far_def)+

lemma best_loop_sound:
  "best_so_far path done best n \<Longrightarrow> \<exists>m. best_so_far path (done @ rs) (best_loop path rs best n) m"
proof (induction rs arbitrary: "done" best n)
  case Nil
  then show ?case by auto
next
  case (Cons r rs)
  from Cons.IH [OF best_so_far_step [OF Cons.prems, of r]] show ?case
    unfolding best_loop_Cons by (auto split: if_splits)
qed

lemma bestRule_sound: "\<exists>m. best_so_far path rules (bestRule rules path) m"
  using best_loop_sound [of path "[]" None "-1" rules]
  by (simp add: bestRule_def best_so_far_def)

text \<open>
  C6: A path is refused by a robots.txt file exactly when some matching disallow rule of the
  groups for the crawler is longer than every matching allow rule: the longest match wins,
  allow wins ties, an empty disallow rule means nothing, and without a match the path is
  allowed. Lengths are in octets of the normalised pattern without stars and end anchor.
\<close>

theorem robots_longest_match:
  assumes "po_unavailableMode policy = None"
  shows "\<not> rd_allowed (decisionForPath lc policy token path isSeed) \<longleftrightarrow>
    (\<exists>d. d \<in> set (matchingRules lc policy token) \<and> ru_directive d = Disallow \<and>
       rule_applies (normalizeRobotsValue path False) d \<and>
       (\<nexists>a. a \<in> set (matchingRules lc policy token) \<and> ru_directive a = Allow \<and>
          rule_applies (normalizeRobotsValue path False) a \<and> specificity d \<le> specificity a))"
proof -
  let ?rules = "matchingRules lc policy token" and ?path = "normalizeRobotsValue path False"
  obtain m where best: "best_so_far ?path ?rules (bestRule ?rules ?path) m"
    using bestRule_sound by blast
  have dec: "\<not> rd_allowed (decisionForPath lc policy token path isSeed) \<longleftrightarrow>
      (\<exists>b. bestRule ?rules ?path = Some b \<and> ru_directive b \<noteq> Allow)"
    using assms by (auto simp: decisionForPath_def allowedDecision_def split: option.splits)
  show ?thesis
  proof (cases "bestRule ?rules ?path")
    case None
    with best dec show ?thesis by (auto simp: best_so_far_def)
  next
    case (Some b)
    with best have b: "b \<in> set ?rules" "rule_applies ?path b"
        "\<And>r. r \<in> set ?rules \<Longrightarrow> rule_applies ?path r \<Longrightarrow> specificity r < specificity b \<or>
           (specificity r = specificity b \<and> (ru_directive r = Allow \<longrightarrow> ru_directive b = Allow))"
      by (auto simp: best_so_far_def)
    show ?thesis
    proof (cases "ru_directive b")
      case Allow
      with dec Some b show ?thesis by (metis directive.distinct(1) less_imp_le_nat option.inject order_refl)
    next
      case Disallow
      with dec Some b show ?thesis
        by (metis directive.distinct(1) less_le_not_le option.inject order_refl)
    qed
  qed
qed

definition sample_rules :: robots_policy where
  "sample_rules =
     \<lparr>po_groups = [\<lparr>gr_agents = [[42]],
        gr_rules = [\<lparr>ru_directive = Disallow, ru_path = units_of ''/a''\<rparr>,
                    \<lparr>ru_directive = Allow, ru_path = units_of ''/a/b''\<rparr>],
        gr_crawlDelaySeconds = None\<rparr>],
      po_sitemaps = [], po_unavailableMode = None\<rparr>"

lemma robots_longest_match_witness:
  "rd_allowed (decisionForPath id sample_rules (units_of ''bot'') (units_of ''/a/b/c'') False) \<and>
   \<not> rd_allowed (decisionForPath id sample_rules (units_of ''bot'') (units_of ''/a/c'') False) \<and>
   (\<exists>d. d \<in> set (matchingRules id sample_rules (units_of ''bot'')) \<and> ru_directive d = Disallow)"
proof -
  have m: "po_unavailableMode sample_rules = None" by code_simp
  have n: "\<not> rd_allowed (decisionForPath id sample_rules (units_of ''bot'') (units_of ''/a/c'') False)" by code_simp
  have a: "rd_allowed (decisionForPath id sample_rules (units_of ''bot'') (units_of ''/a/b/c'') False)" by code_simp
  from robots_longest_match [OF m, of id "units_of ''bot''" "units_of ''/a/c''" False] n a show ?thesis by blast
qed

section \<open>Patterns and normal form\<close>

text \<open>
  The meaning of a path pattern. A pattern matches a path exactly when the path starts
  with a word of the pattern, and with a final dollar sign is such a word: each star stands
  for any text without a line terminator, every other character for itself.
\<close>

theorem robots_pattern_meaning:
  "robotsPathMatches p path \<longleftrightarrow>
     (\<exists>w rest. path = w @ rest \<and> expands robots_line_terminator 42 (pattern_source p) w \<and>
        \<not> (anchored p \<and> rest \<noteq> []))"
  unfolding robotsPathMatches_def glob_iff by auto

definition is_unit :: "int \<Rightarrow> bool" where
  "is_unit c \<longleftrightarrow> 0 \<le> c \<and> c < 0x10000"

definition ascii :: "int \<Rightarrow> bool" where
  "ascii c \<longleftrightarrow> 0 \<le> c \<and> c < 128"

lemma hex_unit_range: "hex_unit h = Some a \<Longrightarrow> 0 \<le> a \<and> a < 16"
  by (auto simp: hex_unit_def split: if_splits)

lemma ascii_percent: "0 \<le> b \<Longrightarrow> b < 256 \<Longrightarrow> list_all ascii (percent b)"
  by (auto simp: percent_def ascii_def hex_digit_def)

lemma escape_range: "escape_at cs = Some b \<Longrightarrow> 0 \<le> b \<and> b < 256"
  by (auto simp: escape_at_def split: list.splits if_splits option.splits dest!: hex_unit_range)

lemma utf8_range: "0 \<le> c \<Longrightarrow> c < 0x110000 \<Longrightarrow> list_all (\<lambda>b. 0 \<le> b \<and> b < 256) (utf8 c)"
  by (auto simp: utf8_def)

lemma scalar_range: "list_all is_unit cs \<Longrightarrow> 0 \<le> fst (scalarAt cs) \<and> fst (scalarAt cs) < 0x110000"
  by (cases cs rule: scalarAt.cases)
    (auto simp: is_unit_def is_high_def is_low_def code_point_def split: list.splits)

lemma encode_scalar_ascii: "0 \<le> c \<Longrightarrow> c < 0x110000 \<Longrightarrow> list_all ascii (encode_scalar c)"
  using utf8_range [of c] ascii_percent by (fastforce simp: encode_scalar_def list_all_iff)

lemma scalar_small: "fst (scalarAt (c # cs)) < 128 \<Longrightarrow> fst (scalarAt (c # cs)) = c"
  by (auto simp: code_point_def is_high_def is_low_def split: if_splits list.splits)

text \<open>The four branches of the loop.\<close>

declare normalizeRobotsValue.simps(2) [simp del]

lemma normalize_branches:
  "keep \<and> (c = 42 \<or> c = 36) \<Longrightarrow>
     normalizeRobotsValue (c # cs) keep = c # normalizeRobotsValue cs keep"
  "\<not> (keep \<and> (c = 42 \<or> c = 36)) \<Longrightarrow> escape_at (c # cs) = Some byte \<Longrightarrow>
     normalizeRobotsValue (c # cs) keep =
       (if isUnreserved byte then [byte] else percent byte) @ normalizeRobotsValue (drop 2 cs) keep"
  "\<not> (keep \<and> (c = 42 \<or> c = 36)) \<Longrightarrow> escape_at (c # cs) = None \<Longrightarrow> fst (scalarAt (c # cs)) < 128 \<Longrightarrow>
     normalizeRobotsValue (c # cs) keep = c # normalizeRobotsValue cs keep"
  "\<not> (keep \<and> (c = 42 \<or> c = 36)) \<Longrightarrow> escape_at (c # cs) = None \<Longrightarrow> \<not> fst (scalarAt (c # cs)) < 128 \<Longrightarrow>
     normalizeRobotsValue (c # cs) keep = encode_scalar (fst (scalarAt (c # cs)))
       @ normalizeRobotsValue (drop (snd (scalarAt (c # cs)) - 1) cs) keep"
  by (subst normalizeRobotsValue.simps(2), simp only: if_P if_not_P if_False option.case refl)+

lemma ascii_escaped: "0 \<le> b \<Longrightarrow> b < 256 \<Longrightarrow> list_all ascii (if isUnreserved b then [b] else percent b)"
  using ascii_percent [of b] by (auto simp: isUnreserved_def ascii_def)

lemma list_all_drop: "list_all P cs \<Longrightarrow> list_all P (drop k cs)"
  by (auto simp: list_all_iff dest: in_set_dropD)

lemma normalize_ascii: "list_all is_unit v \<Longrightarrow> list_all ascii (normalizeRobotsValue v keep)"
proof (induction v keep rule: normalizeRobotsValue.induct)
  case (1 keep)
  then show ?case by simp
next
  case (2 c cs keep)
  have tail: "list_all is_unit cs" using "2.prems" by simp
  note scalar = scalar_range [OF "2.prems"]
  show ?case
  proof (cases "keep \<and> (c = 42 \<or> c = 36)")
    case True
    with "2.IH"(1) tail show ?thesis by (auto simp: ascii_def normalize_branches(1))
  next
    case keep: False
    show ?thesis
    proof (cases "escape_at (c # cs)")
      case (Some byte)
      have "list_all ascii (normalizeRobotsValue (drop 2 cs) keep)"
        by (rule "2.IH"(4) [OF keep Some list_all_drop [OF tail]])
      moreover have "list_all ascii (if isUnreserved byte then [byte] else percent byte)"
        using escape_range [OF Some] by (intro ascii_escaped) auto
      ultimately show ?thesis unfolding normalize_branches(2) [OF keep Some] list_all_append by blast
    next
      case None
      show ?thesis
      proof (cases "fst (scalarAt (c # cs)) < 128")
        case True
        from "2.IH"(2) [OF keep None True tail] scalar True scalar_small [OF True] show ?thesis
          unfolding normalize_branches(3) [OF keep None True] by (simp add: ascii_def)
      next
        case False
        from "2.IH"(3) [OF keep None False list_all_drop [OF tail]] scalar encode_scalar_ascii
        show ?thesis unfolding normalize_branches(4) [OF keep None False] by simp
      qed
    qed
  qed
qed

lemma normalize_keep: "normalizeRobotsValue v keep = normalizeRobotsValue v False"
proof (induction v keep rule: normalizeRobotsValue.induct)
  case (1 keep)
  then show ?case by simp
next
  case (2 c cs keep)
  have no: "\<not> (False \<and> (c = 42 \<or> c = 36))" by simp
  show ?case
  proof (cases "keep \<and> (c = 42 \<or> c = 36)")
    case True
    then have "escape_at (c # cs) = None" "fst (scalarAt (c # cs)) < 128"
      by (auto simp: escape_at_def is_high_def is_low_def split: list.splits)
    with True "2.IH"(1) show ?thesis
      by (simp add: normalize_branches(1) normalize_branches(3) [OF no] del: scalarAt.simps)
  next
    case keep: False
    show ?thesis
    proof (cases "escape_at (c # cs)")
      case (Some byte)
      from "2.IH"(4) [OF keep Some] show ?thesis
        by (simp add: normalize_branches(2) [OF keep Some] normalize_branches(2) [OF no Some])
    next
      case None
      from "2.IH"(2,3) [OF keep None] show ?thesis
        by (cases "fst (scalarAt (c # cs)) < 128")
          (simp_all add: normalize_branches(3,4) [OF keep None] normalize_branches(3,4) [OF no None]
            del: scalarAt.simps)
    qed
  qed
qed

text \<open>
  Patterns and paths are compared in one normal form: normalising preserves the special
  characters whether or not it is told to, and its result is ASCII, whatever UTF-16 text the
  robots.txt file or the URL contains.
\<close>

theorem robots_normal_form:
  assumes "list_all is_unit v"
  shows "normalizeRobotsValue v True = normalizeRobotsValue v False \<and>
     list_all ascii (normalizeRobotsValue v keep)"
  using normalize_keep [of v True] normalize_ascii [OF assms] by blast

lemma robots_normal_form_witness:
  "list_all ascii (normalizeRobotsValue [47, 0xE9, 0xD83D, 0xDE00, 42] True) \<and>
   normalizeRobotsValue [47, 0xE9] True = units_of ''/%C3%A9''"
proof -
  have "list_all is_unit [47, 0xE9, 0xD83D, 0xDE00, 42]" by (simp add: is_unit_def)
  from robots_normal_form [OF this, of True]
  have a: "list_all ascii (normalizeRobotsValue [47, 0xE9, 0xD83D, 0xDE00, 42] True)" by blast
  have b: "normalizeRobotsValue [47, 0xE9] True = units_of ''/%C3%A9''" by code_simp
  from a b show ?thesis by blast
qed

section \<open>The groups that apply\<close>

definition groups_ok :: "(robots_group \<Rightarrow> int) \<Rightarrow> robots_group list \<Rightarrow> int \<Rightarrow> robots_group list \<Rightarrow> bool" where
  "groups_ok m done n matched \<longleftrightarrow>
     matched = filter (\<lambda>g. 0 \<le> m g \<and> m g = n) done \<and> (\<forall>g \<in> set done. m g \<le> n) \<and>
     (n = -1 \<or> n \<in> m ` set done)"

lemma groups_ok_skip: "groups_ok m done n matched \<Longrightarrow> -1 \<le> n \<Longrightarrow> m g < 0 \<or> m g < n \<Longrightarrow> groups_ok m (done @ [g]) n matched"
  by (auto simp: groups_ok_def)

lemma groups_ok_better: "groups_ok m done n matched \<Longrightarrow> n < m g \<Longrightarrow> 0 \<le> m g \<Longrightarrow> groups_ok m (done @ [g]) (m g) [g]"
  by (fastforce simp: groups_ok_def filter_empty_conv)

lemma groups_ok_same: "groups_ok m done n matched \<Longrightarrow> 0 \<le> m g \<Longrightarrow> m g = n \<Longrightarrow> groups_ok m (done @ [g]) n (matched @ [g])"
  by (auto simp: groups_ok_def)

lemma groups_loop_ok:
  "groups_ok (group_match lc token) done n matched \<Longrightarrow> -1 \<le> n \<Longrightarrow>
     \<exists>n' \<ge> -1. groups_ok (group_match lc token) (done @ gs) n' (groups_loop lc token gs n matched)"
proof (induction gs arbitrary: "done" n matched)
  case Nil
  then show ?case by auto
next
  case (Cons g gs)
  let ?len = "group_match lc token g"
  consider "?len < 0 \<or> ?len < n" | "0 \<le> ?len" "n < ?len" | "0 \<le> ?len" "?len = n" by linarith
  then show ?case
  proof cases
    case 1
    with Cons.IH [OF groups_ok_skip [OF Cons.prems 1] Cons.prems(2)] show ?thesis by (auto simp: Let_def)
  next
    case 2
    with Cons.IH [OF groups_ok_better [OF Cons.prems(1) 2(2,1)]] show ?thesis by (auto simp: Let_def)
  next
    case 3
    with Cons.IH [OF groups_ok_same [OF Cons.prems(1) 3] Cons.prems(2)] show ?thesis by (auto simp: Let_def)
  qed
qed

text \<open>
  The rules that apply are those of all groups, in the order of the file, whose agent line
  matches the crawler's product token best, a named agent better than a star and a longer one
  better than a shorter one; a file without a matching group has none.
\<close>

theorem matchingGroups_best:
  "matchingGroups lc policy token =
     filter (\<lambda>g. 0 \<le> group_match lc (lc token) g \<and>
        list_all (\<lambda>h. group_match lc (lc token) h \<le> group_match lc (lc token) g) (po_groups policy))
       (po_groups policy)"
proof -
  let ?m = "group_match lc (lc token)"
  have "groups_ok ?m [] (-1) []" by (simp add: groups_ok_def)
  from groups_loop_ok [OF this, of "po_groups policy"] obtain n where
    "-1 \<le> n" and ok: "groups_ok ?m (po_groups policy) n (matchingGroups lc policy token)"
    by (auto simp: matchingGroups_def)
  then show ?thesis
    by (auto simp: groups_ok_def list_all_iff intro!: filter_cong order_antisym)
qed

section \<open>Reading back a printed policy\<close>

definition print_line :: "string \<Rightarrow> units \<Rightarrow> units" where
  "print_line key value = units_of key @ 58 # 32 # value"

definition rule_line :: "robots_rule \<Rightarrow> units" where
  "rule_line r = print_line (case ru_directive r of Allow \<Rightarrow> ''allow'' | Disallow \<Rightarrow> ''disallow'') (ru_path r)"

definition group_lines :: "robots_group \<Rightarrow> units list" where
  "group_lines g = map (print_line ''user-agent'') (gr_agents g) @ map rule_line (gr_rules g)"

definition print_robots :: "robots_group list \<Rightarrow> units" where
  "print_robots gs = concat (map (\<lambda>l. l @ [10]) (concat (map group_lines gs)))"

definition value_ok :: "units \<Rightarrow> bool" where
  "value_ok v \<longleftrightarrow> 10 \<notin> set v \<and> 35 \<notin> set v \<and> (v = [] \<or> \<not> unit_space (hd v) \<and> \<not> unit_space (last v))"

definition group_ok :: "(units \<Rightarrow> units) \<Rightarrow> robots_group \<Rightarrow> bool" where
  "group_ok lc g \<longleftrightarrow>
     gr_agents g \<noteq> [] \<and> list_all (\<lambda>a. a \<noteq> [] \<and> value_ok a \<and> lc a = a) (gr_agents g) \<and>
     gr_rules g \<noteq> [] \<and> list_all (\<lambda>r. value_ok (ru_path r)) (gr_rules g) \<and>
     gr_crawlDelaySeconds g = None"

definition robots_keys :: "string list" where
  "robots_keys = [''user-agent'', ''allow'', ''disallow'']"

lemma keyword_units:
  "list_all (\<lambda>k. units_of k \<noteq> [] \<and> list_all (\<lambda>c. c \<noteq> 10 \<and> c \<noteq> 35 \<and> c \<noteq> 58 \<and> \<not> unit_space c) (units_of k)) robots_keys"
  by code_simp

lemma keyword_distinct:
  "units_of ''user-agent'' \<noteq> units_of ''sitemap''" "units_of ''allow'' \<noteq> units_of ''sitemap''"
  "units_of ''disallow'' \<noteq> units_of ''sitemap''" "units_of ''allow'' \<noteq> units_of ''user-agent''"
  "units_of ''disallow'' \<noteq> units_of ''user-agent''" "units_of ''disallow'' \<noteq> units_of ''allow''"
  by code_simp+

lemma no_space_hd: "s \<noteq> [] \<Longrightarrow> \<not> unit_space (hd s) \<Longrightarrow> dropWhile unit_space s = s"
  by (cases s) simp_all

lemma no_space_last: "s \<noteq> [] \<Longrightarrow> \<not> unit_space (last s) \<Longrightarrow> dropWhile unit_space (rev s) = rev s"
  by (cases s rule: rev_cases) simp_all

lemma unit_space_32 [simp]: "unit_space 32" and unit_space_13 [simp]: "unit_space 13"
  and unit_space_58 [simp]: "\<not> unit_space 58"
  by (simp_all add: unit_space_def)

lemma unit_trim_id: "s = [] \<or> \<not> unit_space (hd s) \<and> \<not> unit_space (last s) \<Longrightarrow> unit_trim s = s"
  by (cases "s = []") (simp_all add: unit_trim_def no_space_hd no_space_last)

lemma unit_trim_space: "unit_trim (32 # s) = unit_trim s"
  by (simp add: unit_trim_def)

lemma unit_trim_end: "s \<noteq> [] \<Longrightarrow> \<not> unit_space (hd s) \<Longrightarrow> \<not> unit_space (last s) \<Longrightarrow> unit_trim (s @ [32]) = s"
  using no_space_hd [of "s @ [32]"] by (simp add: unit_trim_def no_space_last)

lemma index_of_split: "x \<notin> set xs \<Longrightarrow> index_of x (xs @ x # ys) = Some (length xs)"
  by (induction xs) auto

lemma robots_line_printed:
  assumes "key \<in> set robots_keys" and "value_ok v" and "lc (units_of key) = units_of key"
  shows "robots_line lc nrm p (print_line key v) = robots_directive lc nrm p (units_of key) v"
proof -
  have k: "units_of key \<noteq> []" "10 \<notin> set (units_of key)" "35 \<notin> set (units_of key)" "58 \<notin> set (units_of key)"
    "\<not> unit_space (hd (units_of key))" "\<not> unit_space (last (units_of key))"
    using assms(1) keyword_units by (auto simp: list_all_iff)
  have "35 \<notin> set (print_line key v)" using k(3) assms(2) by (simp add: print_line_def value_ok_def)
  then have nc: "stripComment (print_line key v) = print_line key v"
    by (simp add: stripComment_def index_of_None [THEN iffD2])
  show ?thesis
  proof (cases "v = []")
    case True
    have "unit_trim (print_line key v) = units_of key @ [58]"
      using unit_trim_end [of "units_of key @ [58]"] True k by (simp add: print_line_def)
    with True k assms(3) nc show ?thesis
      by (simp add: robots_line_def Let_def index_of_split unit_trim_id)
  next
    case False
    with assms(2) have v: "\<not> unit_space (hd v)" "\<not> unit_space (last v)" by (auto simp: value_ok_def)
    have "unit_trim (print_line key v) = print_line key v"
      using False v k by (intro unit_trim_id) (simp add: print_line_def)
    with False k v assms(3) nc show ?thesis
      by (simp add: robots_line_def Let_def print_line_def index_of_split unit_trim_id unit_trim_space)
  qed
qed

lemma print_line_clean:
  assumes "key \<in> set robots_keys" and "value_ok v"
  shows "10 \<notin> set (print_line key v)" and "drop_cr (print_line key v) = print_line key v"
proof -
  have k: "10 \<notin> set (units_of key)" using assms(1) keyword_units by (auto simp: list_all_iff)
  with assms(2) show "10 \<notin> set (print_line key v)" by (simp add: print_line_def value_ok_def)
  show "drop_cr (print_line key v) = print_line key v"
    using assms(2) by (cases "v = []") (auto simp: drop_cr_def print_line_def value_ok_def)
qed

lemma split_lines_concat:
  "list_all (\<lambda>l. 10 \<notin> set l \<and> drop_cr l = l) ls \<Longrightarrow> split_lines (concat (map (\<lambda>l. l @ [10]) ls)) = ls @ [[]]"
proof -
  assume ok: "list_all (\<lambda>l. 10 \<notin> set l \<and> drop_cr l = l) ls"
  then have "split_on 10 (concat (map (\<lambda>l. l @ [10]) ls)) = ls @ [[]]"
    by (induction ls) (auto simp: split_on_append)
  with ok show ?thesis by (simp add: split_lines_def map_idI list_all_iff)
qed

definition parser_ready :: "robots_parser \<Rightarrow> bool" where
  "parser_ready p \<longleftrightarrow> rp_crawlDelay p = None \<and> (rp_rules p = [] \<longrightarrow> rp_agents p = [])"

lemma fold_more_agents:
  "list_all (\<lambda>a. a \<noteq> [] \<and> value_ok a \<and> lc a = a) as \<Longrightarrow> lc (units_of ''user-agent'') = units_of ''user-agent'' \<Longrightarrow>
   rp_rules p = [] \<Longrightarrow> rp_crawlDelay p = None \<Longrightarrow>
   foldl (robots_line lc nrm) p (map (print_line ''user-agent'') as) = p\<lparr>rp_agents := rp_agents p @ as\<rparr>"
  by (induction as arbitrary: p)
    (simp_all add: robots_line_printed robots_keys_def robots_directive_def keyword_distinct)

lemma fold_agents:
  assumes "list_all (\<lambda>a. a \<noteq> [] \<and> value_ok a \<and> lc a = a) as" and "as \<noteq> []"
    and "lc (units_of ''user-agent'') = units_of ''user-agent''" and "parser_ready p"
  shows "foldl (robots_line lc nrm) p (map (print_line ''user-agent'') as)
     = (robots_flush p)\<lparr>rp_agents := as\<rparr>"
proof -
  obtain a bs where as: "as = a # bs" using assms(2) by (cases as) auto
  have "robots_line lc nrm p (print_line ''user-agent'' a) = (robots_flush p)\<lparr>rp_agents := [a]\<rparr>"
    using assms as by (auto simp: robots_line_printed robots_keys_def robots_directive_def keyword_distinct
        robots_flush_def parser_ready_def)
  then show ?thesis using assms as by (simp add: fold_more_agents robots_flush_def)
qed

lemma fold_rules:
  "list_all (\<lambda>r. value_ok (ru_path r)) rs \<Longrightarrow> lc (units_of ''allow'') = units_of ''allow'' \<Longrightarrow>
   lc (units_of ''disallow'') = units_of ''disallow'' \<Longrightarrow> rp_agents p \<noteq> [] \<Longrightarrow>
   foldl (robots_line lc nrm) p (map rule_line rs) = p\<lparr>rp_rules := rp_rules p @ rs\<rparr>"
proof (induction rs arbitrary: p)
  case (Cons r rs)
  have "robots_line lc nrm p (rule_line r) = p\<lparr>rp_rules := rp_rules p @ [r]\<rparr>"
    using Cons.prems
    by (cases "ru_directive r"; cases r)
      (simp_all add: rule_line_def robots_line_printed robots_keys_def robots_directive_def keyword_distinct)
  with Cons show ?case by simp
qed simp

lemma fold_groups:
  assumes "\<And>k. k \<in> set robots_keys \<Longrightarrow> lc (units_of k) = units_of k"
  shows "list_all (group_ok lc) gs \<Longrightarrow> parser_ready p \<Longrightarrow>
     \<exists>q. foldl (robots_line lc nrm) p (concat (map group_lines gs)) = q \<and> parser_ready q \<and>
       rp_groups (robots_flush q) = rp_groups (robots_flush p) @ gs \<and> rp_sitemaps q = rp_sitemaps p"
proof (induction gs arbitrary: p)
  case (Cons g gs)
  from Cons.prems(1) have g: "gr_agents g \<noteq> []" "list_all (\<lambda>a. a \<noteq> [] \<and> value_ok a \<and> lc a = a) (gr_agents g)"
    "gr_rules g \<noteq> []" "list_all (\<lambda>r. value_ok (ru_path r)) (gr_rules g)" "gr_crawlDelaySeconds g = None"
    by (simp_all add: group_ok_def)
  have lc: "lc (units_of ''user-agent'') = units_of ''user-agent''" "lc (units_of ''allow'') = units_of ''allow''"
    "lc (units_of ''disallow'') = units_of ''disallow''" using assms by (simp_all add: robots_keys_def)
  let ?p = "(robots_flush p)\<lparr>rp_agents := gr_agents g, rp_rules := gr_rules g\<rparr>"
  have step: "foldl (robots_line lc nrm) p (group_lines g) = ?p"
    using fold_agents [OF g(2,1) lc(1) Cons.prems(2)] fold_rules [OF g(4) lc(2,3)] g(1)
    by (simp add: group_lines_def robots_flush_def)
  have "parser_ready ?p" using g(3) by (simp add: parser_ready_def robots_flush_def)
  from Cons.IH [OF _ this] Cons.prems(1) obtain q where
    "foldl (robots_line lc nrm) ?p (concat (map group_lines gs)) = q" "parser_ready q"
    "rp_groups (robots_flush q) = rp_groups (robots_flush ?p) @ gs" "rp_sitemaps q = rp_sitemaps ?p"
    by auto
  moreover have "rp_groups (robots_flush ?p) = rp_groups (robots_flush p) @ [g]"
    using g by (simp add: robots_flush_def)
  ultimately show ?case using step by (simp add: robots_flush_def)
qed simp

text \<open>
  Parsing inverts printing. A list of groups, each with an agent and a rule, whose agents
  and paths are trimmed, contain no line break and no hash sign, and whose agents are in lower
  case, is what \<open>parseRobotsTxt\<close> reads from its text: no group is merged with another, no rule
  is dropped or reordered, also when a path contains colons.
\<close>

theorem robots_print_parse:
  assumes "list_all (group_ok lc) gs" and "list_all (\<lambda>k. lc (units_of k) = units_of k) robots_keys"
  shows "parseRobotsTxt lc nrm (print_robots gs)
    = \<lparr>po_groups = gs, po_sitemaps = [], po_unavailableMode = None\<rparr>"
proof -
  let ?p = "\<lparr>rp_groups = [], rp_sitemaps = [], rp_agents = [], rp_rules = [], rp_crawlDelay = None\<rparr>"
  have "list_all (\<lambda>l. 10 \<notin> set l \<and> drop_cr l = l) (concat (map group_lines gs))"
    using assms(1) print_line_clean
    by (auto simp: list_all_iff group_ok_def group_lines_def rule_line_def robots_keys_def split: directive.splits)
  then have lines: "split_lines (print_robots gs) = concat (map group_lines gs) @ [[]]"
    by (simp add: print_robots_def split_lines_concat)
  have "parser_ready ?p" by (simp add: parser_ready_def)
  with assms obtain q where q: "foldl (robots_line lc nrm) ?p (concat (map group_lines gs)) = q"
      "rp_groups (robots_flush q) = gs" "rp_sitemaps q = []"
    using fold_groups [of lc gs ?p] by (auto simp: list_all_iff robots_flush_def)
  have "robots_line lc nrm q [] = q" by (simp add: robots_line_def stripComment_def unit_trim_def)
  with lines q show ?thesis
    by (simp add: parseRobotsTxt_def Let_def dedupe_def) (simp add: robots_flush_def)
qed


lemma robots_print_parse_witness:
  "parseRobotsTxt id (\<lambda>_. None) (print_robots (po_groups sample_rules)) = sample_rules"
proof -
  have a: "list_all (group_ok id) (po_groups sample_rules)" by code_simp
  have b: "list_all (\<lambda>k. id (units_of k) = units_of k) robots_keys" by (simp add: list_all_iff)
  have c: "sample_rules = \<lparr>po_groups = po_groups sample_rules, po_sitemaps = [], po_unavailableMode = None\<rparr>"
    by (simp add: sample_rules_def)
  show ?thesis by (rule trans [OF robots_print_parse [OF a b] c [symmetric]])
qed

section \<open>The life of a cached policy\<close>

text \<open>A fetch of robots.txt that gives no policy: an error, a 4xx or 5xx status or no text.\<close>

definition no_policy :: "robots_fetch_result \<Rightarrow> bool" where
  "no_policy r \<longleftrightarrow>
     fr_error r \<noteq> None \<or> fr_statusCode r = None \<or> fr_text r = None \<or>
     (case fr_statusCode r of None \<Rightarrow> True | Some status \<Rightarrow> status \<ge> 400)"

lemma policyFromResult_unavailable:
  "po_unavailableMode (fst (policyFromResult env r url)) \<noteq> None \<longleftrightarrow> no_policy r"
  by (auto simp: policyFromResult_def no_policy_def unavailable_def parseRobotsTxt_def Let_def
      split: option.splits)

text \<open>Lookups of one origin one after the other, each with its environment and clock readings.\<close>

fun lookups ::
  "string \<Rightarrow> (robots_env \<times> timestamp \<times> timestamp) list \<Rightarrow> robots_cache
     \<Rightarrow> (string, robots_policy) result list \<times> robots_cache"
where
  "lookups origin [] cache = ([], cache)"
| "lookups origin ((env, now, loaded) # steps) cache =
     (case policyFor env now loaded origin cache of
        (res, cache') \<Rightarrow> (case lookups origin steps cache' of (ress, cache'') \<Rightarrow> (res # ress, cache'')))"

definition outage :: "string \<Rightarrow> robots_env \<Rightarrow> bool" where
  "outage origin env \<longleftrightarrow>
     (case re_fetch env (origin @ ''/robots.txt'') of Inl e \<Rightarrow> False | Inr r \<Rightarrow> no_policy r) \<and>
     re_record env = (\<lambda>_. None)"

lemma policyFor_outage:
  assumes "map_of cache origin = Some (Inr c)" and "outage origin env"
  shows "\<exists>c'. policyFor env now loaded origin cache = (Inr (cp_policy c), snd (policyFor env now loaded origin cache))
    \<and> map_of (snd (policyFor env now loaded origin cache)) origin = Some (Inr c') \<and> cp_policy c' = cp_policy c"
proof (cases "cp_expiresAtMs c > now")
  case True
  with assms(1) show ?thesis by (simp add: policyFor_def)
next
  case False
  from assms(2) obtain r where r: "re_fetch env (origin @ ''/robots.txt'') = Inr r" "no_policy r"
    and rec: "re_record env = (\<lambda>_. None)"
    by (auto simp: outage_def split: sum.splits)
  obtain fresh source where f: "policyFromResult env r (origin @ ''/robots.txt'') = (fresh, source)" by fastforce
  with policyFromResult_unavailable [of env r] r(2) have "po_unavailableMode fresh \<noteq> None" by (metis fst_conv)
  then have "loadPolicy env loaded origin (Some c) =
      Inr \<lparr>cp_policy = cp_policy c, cp_expiresAtMs = loaded + rb_cacheTtlMs (re_config env)\<rparr>"
    using r(1) rec f by (simp add: loadPolicy_def Let_def)
  with False assms(1) show ?thesis by (simp add: policyFor_def)
qed

text \<open>
  An outage does not change the policy of an origin. Once a policy is cached, every later
  lookup, however late, returns that policy as long as robots.txt cannot be had (network
  errors, 4xx or 5xx responses).
\<close>

theorem robots_outage_keeps_policy:
  assumes "map_of cache origin = Some (Inr c)"
    and "list_all (\<lambda>(env, now, loaded). outage origin env) steps"
  shows "list_all (\<lambda>res. res = Inr (cp_policy c)) (fst (lookups origin steps cache))"
  using assms
proof (induction steps arbitrary: cache c)
  case Nil
  then show ?case by simp
next
  case (Cons step steps)
  obtain env now loaded where step: "step = (env, now, loaded)" by (cases step)
  with Cons.prems(2) have out: "outage origin env" by simp
  let ?cache = "snd (policyFor env now loaded origin cache)"
  from policyFor_outage [OF Cons.prems(1) out, of now loaded] obtain c' where
    pol: "policyFor env now loaded origin cache = (Inr (cp_policy c), ?cache)"
    and c': "map_of ?cache origin = Some (Inr c')" "cp_policy c' = cp_policy c"
    by blast
  from Cons.IH [OF c'(1)] Cons.prems(2) c'(2)
  have "list_all (\<lambda>res. res = Inr (cp_policy c)) (fst (lookups origin steps ?cache))" by simp
  then show ?case unfolding step by (subst lookups.simps, subst pol) (auto split: prod.split)
qed

definition sample_robots_env :: robots_env where
  "sample_robots_env =
     \<lparr>re_config = \<lparr>rb_enabled = True, rb_productToken = units_of ''bot'', rb_on4xx = ModeAllow,
        rb_on5xx = ModeDisallow, rb_onNetworkError = ModeDisallow, rb_respectCrawlDelay = True,
        rb_maxBytes = 9, rb_cacheTtlMs = 10\<rparr>,
      re_fetch = (\<lambda>u. Inr \<lparr>fr_runId = ''run'', fr_statusCode = Some 503, fr_text = None,
        fr_finalUrl = None, fr_error = None, fr_fetchedAt = 0\<rparr>),
      re_record = (\<lambda>_. None), re_lc = id, re_norm = (\<lambda>_ _. None)\<rparr>"

lemma robots_outage_keeps_policy_witness:
  "list_all (\<lambda>res. res = Inr sample_rules)
     (fst (lookups ''http://a'' [(sample_robots_env, 5, 5), (sample_robots_env, 50, 51)]
        [(''http://a'', Inr \<lparr>cp_policy = sample_rules, cp_expiresAtMs = 20\<rparr>)]))"
proof -
  have "outage ''http://a'' sample_robots_env"
    by (simp add: outage_def sample_robots_env_def no_policy_def)
  with robots_outage_keeps_policy [where origin = "''http://a''" and
      cache = "[(''http://a'', Inr \<lparr>cp_policy = sample_rules, cp_expiresAtMs = 20\<rparr>)]" and
      c = "\<lparr>cp_policy = sample_rules, cp_expiresAtMs = 20\<rparr>" and
      steps = "[(sample_robots_env, 5, 5), (sample_robots_env, 50, 51)]"]
  show ?thesis by simp
qed

text \<open>
  A load that is rejected is remembered: the cache keeps the rejected promise, which has no
  expiry, so from then on every lookup of the origin is rejected with the same error, even
  when robots.txt is available again.
\<close>

theorem robots_rejected_load_is_permanent:
  assumes "map_of cache origin = None" and "loadPolicy env loaded origin None = Inl e"
  shows "\<exists>cache'. policyFor env now loaded origin cache = (Inl e, cache') \<and>
    (\<forall>env' now' loaded'. policyFor env' now' loaded' origin cache' = (Inl e, cache'))"
  using assms by (auto simp: policyFor_def Let_def)

lemma robots_rejected_load_is_permanent_witness:
  "\<exists>cache'. policyFor (sample_robots_env\<lparr>re_fetch := (\<lambda>_. Inl ''aborted'')\<rparr>) 0 0 ''http://a'' [] = (Inl ''aborted'', cache') \<and>
     policyFor sample_robots_env 1000 1000 ''http://a'' cache' = (Inl ''aborted'', cache')"
  using robots_rejected_load_is_permanent [of "[]" "''http://a''" "sample_robots_env\<lparr>re_fetch := (\<lambda>_. Inl ''aborted'')\<rparr>" 0 "''aborted''" 0]
  by (auto simp: loadPolicy_def)

end
