(* ===== verification/Journal_File.thy ===== *)
theory Journal_File
  imports Journal_Properties
begin

text \<open>
  The journal file and its writer, class \<open>FrontierJournal\<close> of \<open>frontier/journal.ts\<close>: appends
  are queued, a drain writes them one by one in order, a load reads the file back, checks it
  and positions the writer after its last record.

  The file is its text. \<open>JSON.stringify\<close> of a journal record is a parameter \<open>ser\<close>, and
  \<open>decodeJournalRecord (JSON.parse line)\<close> a parameter \<open>dec\<close> with three outcomes. A write
  may fail after a prefix of the line has reached the file (\<open>WriteFails\<close>), which is also
  what a crash in the middle of a write leaves behind. The contract check
  \<open>validatePersistedRecord\<close> is a parameter \<open>accepts\<close>.
\<close>

datatype decoded = Malformed | NotARecord | Decoded journal_record

datatype write_outcome = WriteOk | WriteFails string

datatype file_error =
    CorruptLine nat
  | InvalidLine nat
  | BadJournal journal_error
  | ClosingJournal

section \<open>Reading\<close>

text \<open>
  The loop of \<open>parseRecords\<close> over the lines: \<open>i\<close> is the index of the head of the list, \<open>n\<close>
  the number of lines, \<open>torn\<close> whether the text does not end in a newline.
\<close>

fun parse_loop ::
  "(string \<Rightarrow> decoded) \<Rightarrow> bool \<Rightarrow> nat \<Rightarrow> nat \<Rightarrow> string list \<Rightarrow> (file_error, journal_record list) result"
where
  "parse_loop dec torn n i [] = Inr []"
| "parse_loop dec torn n i (l # ls) =
     (let line = trim l in
      if line = [] then parse_loop dec torn n (i + 1) ls
      else case dec line of
             Decoded r \<Rightarrow> bind_result (parse_loop dec torn n (i + 1) ls) (\<lambda>rs. Inr (r # rs))
           | NotARecord \<Rightarrow> if i = n - 1 \<and> torn then Inr [] else Inl (InvalidLine (i + 1))
           | Malformed \<Rightarrow> if i = n - 1 \<and> torn then Inr [] else Inl (CorruptLine (i + 1)))"

definition ends_with_newline :: "string \<Rightarrow> bool" where
  "ends_with_newline t \<longleftrightarrow> t \<noteq> [] \<and> last t = newline"

definition parseRecords :: "(string \<Rightarrow> decoded) \<Rightarrow> string \<Rightarrow> (file_error, journal_record list) result" where
  "parseRecords dec t =
     (let ls = split_on newline t
      in parse_loop dec (\<not> ends_with_newline t) (length ls) 0 ls)"

section \<open>The writer\<close>

record journal_writer =
  jw_file :: "string option"         \<comment> \<open>text of the file, \<open>None\<close> when there is no file yet\<close>
  jw_enabled :: bool                 \<comment> \<open>\<open>filePath !== null\<close>\<close>
  jw_sequence :: nat
  jw_lastChecksum :: "string option"
  jw_pending :: "unsequenced_record list"
  jw_closing :: bool
  jw_closed :: bool

definition new_journal :: "string option \<Rightarrow> bool \<Rightarrow> journal_writer" where
  "new_journal file enabled =
     \<lparr>jw_file = file, jw_enabled = enabled, jw_sequence = 0, jw_lastChecksum = None,
      jw_pending = [], jw_closing = False, jw_closed = False\<rparr>"

definition journal_load ::
  "hash \<Rightarrow> (string \<Rightarrow> decoded) \<Rightarrow> journal_writer \<Rightarrow> (file_error, journal_record list \<times> journal_writer) result"
where
  "journal_load H dec w =
     (if jw_closing w \<or> jw_closed w then Inl ClosingJournal
      else if \<not> jw_enabled w then Inr ([], w)
      else case jw_file w of
             None \<Rightarrow> Inr ([], w)
           | Some t \<Rightarrow>
               bind_result (parseRecords dec t) (\<lambda>rs.
                 case validateJournal H rs of
                   Inl e \<Rightarrow> Inl (BadJournal e)
                 | Inr _ \<Rightarrow>
                     Inr (rs, w\<lparr>jw_sequence := (if rs = [] then 0 else jr_sequence (last rs)),
                               jw_lastChecksum := (if rs = [] then None else Some (jr_checksum (last rs)))\<rparr>)))"

definition journal_append :: "journal_writer \<Rightarrow> unsequenced_record \<Rightarrow> (file_error, journal_writer) result" where
  "journal_append w u =
     (if jw_closing w \<or> jw_closed w then Inl ClosingJournal
      else Inr (w\<lparr>jw_pending := jw_pending w @ [u]\<rparr>))"

definition file_text :: "journal_writer \<Rightarrow> string" where
  "file_text w = (case jw_file w of None \<Rightarrow> [] | Some t \<Rightarrow> t)"

text \<open>
  \<open>appendSerialized\<close>: \<open>None\<close> is a rejected append, after which sequence and checksum are
  unchanged but a failed write may have left a prefix of the line in the file.
\<close>

definition appendSerialized ::
  "hash \<Rightarrow> (journal_record \<Rightarrow> string) \<Rightarrow> (journal_record \<Rightarrow> bool) \<Rightarrow> write_outcome
     \<Rightarrow> journal_writer \<Rightarrow> unsequenced_record \<Rightarrow> journal_record option \<times> journal_writer"
where
  "appendSerialized H ser accepts out w u =
     (let sequence = jw_sequence w + 1;
          sequenced = buildJournalRecord H u sequence (jw_lastChecksum w)
      in if \<not> accepts sequenced then (None, w)
         else if jw_enabled w
         then (case out of
                 WriteFails written \<Rightarrow> (None, w\<lparr>jw_file := Some (file_text w @ written)\<rparr>)
               | WriteOk \<Rightarrow>
                   (Some sequenced,
                    w\<lparr>jw_file := Some (file_text w @ ser sequenced @ [newline]),
                      jw_sequence := sequence, jw_lastChecksum := Some (jr_checksum sequenced)\<rparr>))
         else (Some sequenced,
               w\<lparr>jw_sequence := sequence, jw_lastChecksum := Some (jr_checksum sequenced)\<rparr>))"

text \<open>
  \<open>drain\<close>: the queue is worked off from its head, each item resolved or rejected with the
  outcome of its own write; a rejected item does not stop the ones behind it.
\<close>

fun drain_loop ::
  "hash \<Rightarrow> (journal_record \<Rightarrow> string) \<Rightarrow> (journal_record \<Rightarrow> bool) \<Rightarrow> (nat \<Rightarrow> write_outcome)
     \<Rightarrow> nat \<Rightarrow> unsequenced_record list \<Rightarrow> journal_writer \<Rightarrow> journal_record option list \<times> journal_writer"
where
  "drain_loop H ser accepts outs i [] w = ([], w)"
| "drain_loop H ser accepts outs i (u # us) w =
     (case appendSerialized H ser accepts (outs i) w u of
        (res, w') \<Rightarrow>
          (case drain_loop H ser accepts outs (i + 1) us w' of (ress, w'') \<Rightarrow> (res # ress, w'')))"

definition journal_drain ::
  "hash \<Rightarrow> (journal_record \<Rightarrow> string) \<Rightarrow> (journal_record \<Rightarrow> bool) \<Rightarrow> (nat \<Rightarrow> write_outcome)
     \<Rightarrow> journal_writer \<Rightarrow> journal_record option list \<times> journal_writer"
where
  "journal_drain H ser accepts outs w =
     (case drain_loop H ser accepts outs 0 (jw_pending w) w of (res, w') \<Rightarrow> (res, w'\<lparr>jw_pending := []\<rparr>))"

text \<open>\<open>close\<close>: refuse new appends, drain what is queued, then close.\<close>

definition journal_close ::
  "hash \<Rightarrow> (journal_record \<Rightarrow> string) \<Rightarrow> (journal_record \<Rightarrow> bool) \<Rightarrow> (nat \<Rightarrow> write_outcome)
     \<Rightarrow> journal_writer \<Rightarrow> journal_record option list \<times> journal_writer"
where
  "journal_close H ser accepts outs w =
     (if jw_closed w then ([], w)
      else case journal_drain H ser accepts outs (w\<lparr>jw_closing := True\<rparr>) of
             (res, w') \<Rightarrow> (res, w'\<lparr>jw_closed := True, jw_closing := False\<rparr>))"

section \<open>Lemmas on reading\<close>

definition line_ok :: "(journal_record \<Rightarrow> string) \<Rightarrow> (string \<Rightarrow> decoded) \<Rightarrow> journal_record \<Rightarrow> bool" where
  "line_ok ser dec r \<longleftrightarrow>
     newline \<notin> set (ser r) \<and> ser r \<noteq> [] \<and> trim (ser r) = ser r \<and> dec (ser r) = Decoded r"

definition text_of :: "(journal_record \<Rightarrow> string) \<Rightarrow> journal_record list \<Rightarrow> string" where
  "text_of ser rs = concat (map (\<lambda>r. ser r @ [newline]) rs)"

lemma text_of_simps [simp]:
  "text_of ser [] = []"
  "text_of ser (r # rs) = ser r @ newline # text_of ser rs"
  "text_of ser (rs @ ss) = text_of ser rs @ text_of ser ss"
  by (simp_all add: text_of_def)

lemma split_text_of:
  "\<forall>r \<in> set rs. line_ok ser dec r \<Longrightarrow> split_on newline (text_of ser rs @ t) = map ser rs @ split_on newline t"
  by (induction rs) (auto simp: split_on_append line_ok_def)

lemma parse_loop_records:
  "\<forall>r \<in> set rs. line_ok ser dec r \<Longrightarrow>
     parse_loop dec torn n i (map ser rs @ ls) =
       bind_result (parse_loop dec torn n (i + length rs) ls) (\<lambda>ss. Inr (rs @ ss))"
proof (induction rs arbitrary: i)
  case Nil
  then show ?case by (cases "parse_loop dec torn n i ls") auto
next
  case (Cons r rs)
  then show ?case
    by (cases "parse_loop dec torn n (Suc (i + length rs)) ls") (auto simp: line_ok_def Let_def)
qed

lemma ends_with_newline_text_of [simp]: "ends_with_newline (text_of ser rs) \<longleftrightarrow> rs \<noteq> []"
  by (cases rs rule: rev_cases) (auto simp: ends_with_newline_def text_of_def)

lemma ends_with_newline_append:
  "t \<noteq> [] \<Longrightarrow> ends_with_newline (s @ t) = ends_with_newline t"
  by (simp add: ends_with_newline_def)

lemma trim_Nil [simp]: "trim [] = []"
  by (simp add: trim_def)

lemma parseRecords_text_of:
  assumes "\<forall>r \<in> set rs. line_ok ser dec r"
  shows "parseRecords dec (text_of ser rs) = Inr rs"
  using assms parse_loop_records [OF assms, where ls = "[[]]"] split_text_of [OF assms, of "[]"]
  by (simp add: parseRecords_def Let_def)

text \<open>A tail after the last newline: whatever it is, the records before it are read.\<close>

lemma parseRecords_tail:
  assumes ok: "\<forall>r \<in> set rs. line_ok ser dec r"
    and t: "newline \<notin> set t" "t \<noteq> []"
  shows "parseRecords dec (text_of ser rs @ t) =
     Inr (case dec (trim t) of Decoded r \<Rightarrow> if trim t = [] then rs else rs @ [r] | _ \<Rightarrow> rs)"
proof -
  have split: "split_on newline (text_of ser rs @ t) = map ser rs @ [t]"
    using split_text_of [OF ok, of t] t(1) by (simp add: split_on_none)
  have "\<not> ends_with_newline (text_of ser rs @ t)"
    using t last_in_set [OF t(2)] by (metis ends_with_newline_append ends_with_newline_def)
  with split parse_loop_records [OF ok, where ls = "[t]"] show ?thesis
    by (auto simp: parseRecords_def Let_def split: decoded.splits)
qed

text \<open>A tail that was not finished before the next line was written.\<close>

lemma parseRecords_glued:
  assumes ok: "\<forall>r \<in> set rs. line_ok ser dec r"
    and t: "newline \<notin> set t" "trim t \<noteq> []" and bad: "\<And>r. dec (trim t) \<noteq> Decoded r"
  shows "\<exists>e. parseRecords dec (text_of ser rs @ t @ [newline]) = Inl e"
proof -
  have "split_on newline (text_of ser rs @ t @ [newline]) = map ser rs @ [t, []]"
    using split_text_of [OF ok, of "t @ [newline]"] t(1) by (simp add: split_on_append)
  moreover have "ends_with_newline (text_of ser rs @ t @ [newline])"
    by (simp add: ends_with_newline_def)
  ultimately show ?thesis
    using parse_loop_records [OF ok, where ls = "[t, []]"] t bad
    by (cases "dec (trim t)") (auto simp: parseRecords_def Let_def)
qed

section \<open>Lemmas on writing\<close>

text \<open>The writer stands right after the records \<open>rs\<close> of its file.\<close>

definition in_sync :: "(journal_record \<Rightarrow> string) \<Rightarrow> journal_record list \<Rightarrow> journal_writer \<Rightarrow> bool" where
  "in_sync ser rs w \<longleftrightarrow>
     jw_enabled w \<and> file_text w = text_of ser rs \<and> jw_sequence w = length rs \<and>
     jw_lastChecksum w = (if rs = [] then None else Some (jr_checksum (last rs)))"

fun extend_journal :: "hash \<Rightarrow> journal_record list \<Rightarrow> unsequenced_record list \<Rightarrow> journal_record list" where
  "extend_journal H rs [] = rs"
| "extend_journal H rs (u # us) = extend_journal H (rs @ [next_record H rs u]) us"

lemma in_sync_append:
  assumes "in_sync ser rs w" and "accepts (next_record H rs u)"
  shows "\<exists>w'. appendSerialized H ser accepts WriteOk w u = (Some (next_record H rs u), w') \<and>
    in_sync ser (rs @ [next_record H rs u]) w' \<and> jw_pending w' = jw_pending w \<and>
    jw_closing w' = jw_closing w \<and> jw_closed w' = jw_closed w"
  using assms
  by (auto simp: in_sync_def appendSerialized_def next_record_def Let_def file_text_def
      text_of_def split: option.splits)

lemma drain_loop_sync:
  assumes "in_sync ser rs w" and "\<forall>r. accepts r" and "outs = (\<lambda>_. WriteOk)"
  shows "\<exists>w'. drain_loop H ser accepts outs i us w =
      (map Some (drop (length rs) (extend_journal H rs us)), w') \<and> in_sync ser (extend_journal H rs us) w' \<and>
      jw_closing w' = jw_closing w \<and> jw_closed w' = jw_closed w"
  using assms(1)
proof (induction us arbitrary: rs w i)
  case Nil
  then show ?case by simp
next
  case (Cons u us)
  let ?r = "next_record H rs u"
  from in_sync_append [where accepts = accepts and H = H and u = u, OF Cons.prems spec [OF assms(2)]] obtain w1 where
    w1: "appendSerialized H ser accepts WriteOk w u = (Some ?r, w1)"
      "in_sync ser (rs @ [?r]) w1" "jw_closing w1 = jw_closing w" "jw_closed w1 = jw_closed w"
    by blast
  from Cons.IH [OF w1(2), of "i + 1"] obtain w' where
    w': "drain_loop H ser accepts outs (i + 1) us w1 =
      (map Some (drop (length (rs @ [?r])) (extend_journal H (rs @ [?r]) us)), w')"
      "in_sync ser (extend_journal H (rs @ [?r]) us) w'" "jw_closing w' = jw_closing w1" "jw_closed w' = jw_closed w1"
    by blast
  have pre: "\<exists>zs. extend_journal H qs us = qs @ zs" for qs
    by (induction us arbitrary: qs) (auto, metis append.assoc)
  from pre [of "rs @ [?r]"] obtain zs where zs: "extend_journal H (rs @ [?r]) us = (rs @ [?r]) @ zs" by blast
  from w1 w' zs assms(3) show ?case by simp
qed

section \<open>Properties\<close>

text \<open>A serialisation of journal records by their sequence number, and its inverse on a journal.\<close>

definition sample_ser :: "journal_record \<Rightarrow> string" where
  "sample_ser r = ''{'' @ replicate (jr_sequence r) CHR ''1'' @ ''}''"

definition sample_dec :: "journal_record list \<Rightarrow> string \<Rightarrow> decoded" where
  "sample_dec rs line =
     (case List.find (\<lambda>r. sample_ser r = line) rs of None \<Rightarrow> Malformed | Some r \<Rightarrow> Decoded r)"

definition sample_writer :: "journal_record list \<Rightarrow> string \<Rightarrow> unsequenced_record list \<Rightarrow> journal_writer" where
  "sample_writer rs tail pending =
     \<lparr>jw_file = Some (text_of sample_ser rs @ tail), jw_enabled = True, jw_sequence = length rs,
      jw_lastChecksum = (if rs = [] then None else Some (jr_checksum (last rs))),
      jw_pending = pending, jw_closing = False, jw_closed = False\<rparr>"

definition sample_entries :: "journal_body list" where
  "sample_entries = [JEnqueued (sample_request ''/x'' 1 0), JLeased ''req_/x'' ''l'' 50]"

lemma sample_line_ok:
  "\<forall>r \<in> set (sample_journal sample_entries). line_ok sample_ser (sample_dec (sample_journal sample_entries)) r"
  by code_simp

text \<open>
  What the writer writes, a load reads. When a writer positioned after the records of its
  file drains a queue of appends with no failed write, the file holds the old records followed
  by one record per append, in the order of the queue, each with the next sequence number and
  the checksum of its predecessor, and \<open>parseRecords\<close> returns exactly these records.
\<close>

theorem journal_write_read_roundtrip:
  assumes "in_sync ser rs w" and "\<forall>j. outs j = WriteOk" and "\<forall>r. accepts r"
    and "\<forall>r \<in> set (extend_journal H rs (jw_pending w)). line_ok ser dec r"
  shows "parseRecords dec (file_text (snd (journal_drain H ser accepts outs w)))
       = Inr (extend_journal H rs (jw_pending w))
    \<and> jw_pending (snd (journal_drain H ser accepts outs w)) = []"
proof -
  have "outs = (\<lambda>_. WriteOk)" using assms(2) by auto
  from drain_loop_sync [OF assms(1) assms(3) this, where H = H and i = 0 and us = "jw_pending w"]
  obtain w' where "drain_loop H ser accepts outs 0 (jw_pending w) w =
      (map Some (drop (length rs) (extend_journal H rs (jw_pending w))), w')"
    and "in_sync ser (extend_journal H rs (jw_pending w)) w'"
    by blast
  then show ?thesis
    using parseRecords_text_of [OF assms(4)]
    by (simp add: journal_drain_def in_sync_def file_text_def split: option.splits)
qed

lemma journal_write_read_roundtrip_witness:
  "parseRecords (sample_dec (sample_journal sample_entries))
     (file_text (snd (journal_drain sample_hash sample_ser (\<lambda>_. True) (\<lambda>_. WriteOk)
        (sample_writer [] [] (map sample_entry sample_entries)))))
   = Inr (sample_journal sample_entries)"
proof -
  have eq: "extend_journal sample_hash [] (jw_pending (sample_writer [] [] (map sample_entry sample_entries)))
      = sample_journal sample_entries"
    by code_simp
  have "in_sync sample_ser [] (sample_writer [] [] (map sample_entry sample_entries))"
    by (simp add: in_sync_def sample_writer_def file_text_def)
  from journal_write_read_roundtrip [OF this _ _ sample_line_ok [folded eq],
      where outs = "\<lambda>_. WriteOk" and accepts = "\<lambda>_. True"]
  show ?thesis by (simp add: eq)
qed

text \<open>
  A crash in the middle of a write loses at most the record being written: with any
  unfinished text after the last complete line, loading the journal returns the records of
  the complete lines, and positions the writer after them.
\<close>

theorem torn_tail_is_ignored:
  assumes "\<forall>r \<in> set rs. line_ok ser dec r" and "newline \<notin> set t" and "t \<noteq> []"
    and "\<And>r. dec (trim t) \<noteq> Decoded r"
    and "validateJournal H rs = Inr states"
    and "jw_enabled w" and "\<not> jw_closing w" and "\<not> jw_closed w"
    and "jw_file w = Some (text_of ser rs @ t)"
  shows "\<exists>w'. journal_load H dec w = Inr (rs, w') \<and>
    jw_sequence w' = length rs \<and> jw_file w' = jw_file w \<and>
    jw_lastChecksum w' = (if rs = [] then None else Some (jr_checksum (last rs)))"
proof -
  have "parseRecords dec (text_of ser rs @ t) = Inr rs"
    using parseRecords_tail [OF assms(1-3)] assms(4) by (simp split: decoded.splits)
  moreover have "rs \<noteq> [] \<Longrightarrow> jr_sequence (last rs) = length rs"
    using validateJournal_life [OF assms(5)] by (simp add: chain_ok_def last_conv_nth)
  ultimately show ?thesis using assms(5-9) by (auto simp: journal_load_def)
qed

lemma torn_tail_is_ignored_witness:
  "\<exists>w'. journal_load sample_hash (sample_dec (sample_journal sample_entries))
       (sample_writer (sample_journal sample_entries) ''{1'' []) = Inr (sample_journal sample_entries, w') \<and>
     jw_sequence w' = 2"
proof -
  have l: "length (sample_journal sample_entries) = 2" by code_simp
  have v: "\<exists>states. validateJournal sample_hash (sample_journal sample_entries) = Inr states"
    by (rule exI [of _ "[(''req_/x'', \<lparr>js_request = sample_request ''/x'' 1 0, js_terminal = False,
        js_leaseId = Some ''l''\<rparr>)]"]) code_simp
  have t: "newline \<notin> set ''{1''" "''{1'' \<noteq> []" by code_simp+
  have d: "sample_dec (sample_journal sample_entries) (trim ''{1'') = Malformed" by code_simp
  from v obtain states where "validateJournal sample_hash (sample_journal sample_entries) = Inr states" ..
  from torn_tail_is_ignored [OF sample_line_ok t _ this, of "sample_writer (sample_journal sample_entries) ''{1'' []"]
  show ?thesis by (auto simp: l d sample_writer_def)
qed

text \<open>
  The unfinished text is ignored but not removed, and the next append destroys the
  journal. After a load that ignored a torn tail, one successful append leaves a file that
  no later load accepts: the new line is glued to the torn text, which is no record, and it
  is no longer the unfinished last line.
\<close>

theorem append_after_torn_tail_corrupts:
  assumes "\<forall>r \<in> set rs. line_ok ser dec r" and "newline \<notin> set t" and "trim t \<noteq> []"
    and "jw_enabled w" and "\<not> jw_closing w" and "\<not> jw_closed w"
    and "jw_file w = Some (text_of ser rs @ t)"
    and "appendSerialized H ser accepts WriteOk w u = (Some r, w')"
    and "newline \<notin> set (ser r)" and "trim (t @ ser r) \<noteq> []"
    and "\<And>q. dec (trim (t @ ser r)) \<noteq> Decoded q"
  shows "\<exists>e. journal_load H dec (new_journal (jw_file w') True) = Inl e"
proof -
  from assms(4,7,8) have "jw_file w' = Some (text_of ser rs @ (t @ ser r) @ [newline])"
    by (auto simp: appendSerialized_def Let_def file_text_def split: if_splits)
  moreover obtain e where "parseRecords dec (text_of ser rs @ (t @ ser r) @ [newline]) = Inl e"
    using parseRecords_glued [of rs ser dec "t @ ser r"] assms by auto
  ultimately show ?thesis by (auto simp: journal_load_def new_journal_def)
qed

lemma append_after_torn_tail_corrupts_witness:
  "\<exists>e. journal_load sample_hash (sample_dec (sample_journal sample_entries))
     (new_journal (jw_file (snd (appendSerialized sample_hash sample_ser (\<lambda>_. True) WriteOk
        (sample_writer (sample_journal (take 1 sample_entries)) ''{1'' [])
        (sample_entry (JLeased ''req_/x'' ''l'' 50))))) True) = Inl e"
proof (rule append_after_torn_tail_corrupts [where rs = "sample_journal (take 1 sample_entries)" and t = "''{1''"
      and u = "sample_entry (JLeased ''req_/x'' ''l'' 50)" and ser = sample_ser and accepts = "\<lambda>_. True"
      and H = sample_hash and w = "sample_writer (sample_journal (take 1 sample_entries)) ''{1'' []"
      and r = "sample_journal sample_entries ! 1"])
  have d: "sample_dec (sample_journal sample_entries) (trim (''{1'' @ sample_ser (sample_journal sample_entries ! 1))) = Malformed"
    by code_simp
  then show "sample_dec (sample_journal sample_entries) (trim (''{1'' @ sample_ser (sample_journal sample_entries ! 1))) \<noteq> Decoded q" for q
    by simp
qed (code_simp; fail | simp add: sample_writer_def; fail)+

end
