(* ===== verification/Contracts.thy ===== *)
theory Contracts
  imports Prelude
begin

text \<open>
  Runtime contracts of persisted records (\<open>contracts/schema-identity.ts\<close>,
  \<open>contracts/object-contract.ts\<close>, \<open>contracts/catalog.ts\<close> and the definitions under
  \<open>contracts/definitions/persistent/\<close>): an object contract is a table of field names by the
  type their values must have. The code interprets the table twice, once as a check at run time
  (\<open>isObjectContract\<close>) and once as a JSON Schema it publishes (\<open>makeSchema\<close>).

  Values are what \<open>JSON.parse\<close> returns, so every object is a plain record and every number is
  finite; reading an absent field gives \<open>None\<close>, the source's \<open>undefined\<close>. An option list that is
  left out and an empty one are read alike by the code (\<open>?? []\<close>) and are both \<open>[]\<close> here. No field
  of a definition has the name of a member of \<open>Object.prototype\<close>, so a field is present exactly
  when it is an own property.
\<close>

section \<open>Options of a contract\<close>

record contract_options =
  co_name :: string
  co_schemaId :: string
  co_schemaVersion :: number
  co_strings :: "string list"
  co_numbers :: "string list"
  co_booleans :: "string list"
  co_objects :: "string list"
  co_arrays :: "string list"
  co_nullableStrings :: "string list"
  co_nullableNumbers :: "string list"
  co_nullableObjects :: "string list"
  co_unknowns :: "string list"
  co_optionalStrings :: "string list"
  co_optionalNullableStrings :: "string list"
  co_optionalObjects :: "string list"
  co_allowAdditionalProperties :: "bool option"
  co_allowedFields :: "string list option"

definition SITE_CRAWLER_SCHEMA_VERSION :: number where
  "SITE_CRAWLER_SCHEMA_VERSION = 1"

record definition_fields =
  df_strings :: "string list"
  df_numbers :: "string list"
  df_booleans :: "string list"
  df_objects :: "string list"
  df_arrays :: "string list"
  df_nullableStrings :: "string list"
  df_nullableNumbers :: "string list"
  df_nullableObjects :: "string list"
  df_unknowns :: "string list"
  df_optionalStrings :: "string list"
  df_optionalNullableStrings :: "string list"
  df_optionalObjects :: "string list"
  df_exact :: "bool option"

definition no_fields :: definition_fields where
  "no_fields =
     \<lparr>df_strings = [], df_numbers = [], df_booleans = [], df_objects = [], df_arrays = [],
      df_nullableStrings = [], df_nullableNumbers = [], df_nullableObjects = [],
      df_unknowns = [], df_optionalStrings = [], df_optionalNullableStrings = [],
      df_optionalObjects = [], df_exact = None\<rparr>"

definition exactFields :: "definition_fields \<Rightarrow> string list" where
  "exactFields f =
     df_strings f @ df_numbers f @ df_booleans f @ df_objects f @ df_arrays f
     @ df_nullableStrings f @ df_nullableNumbers f @ df_nullableObjects f @ df_unknowns f
     @ df_optionalStrings f @ df_optionalNullableStrings f @ df_optionalObjects f"

definition contract_definition :: "string \<Rightarrow> string \<Rightarrow> definition_fields \<Rightarrow> contract_options" where
  "contract_definition name schemaId f =
     \<lparr>co_name = name, co_schemaId = schemaId, co_schemaVersion = SITE_CRAWLER_SCHEMA_VERSION,
      co_strings = df_strings f, co_numbers = df_numbers f, co_booleans = df_booleans f,
      co_objects = df_objects f, co_arrays = df_arrays f,
      co_nullableStrings = df_nullableStrings f, co_nullableNumbers = df_nullableNumbers f,
      co_nullableObjects = df_nullableObjects f, co_unknowns = df_unknowns f,
      co_optionalStrings = df_optionalStrings f,
      co_optionalNullableStrings = df_optionalNullableStrings f,
      co_optionalObjects = df_optionalObjects f, co_allowAdditionalProperties = None,
      co_allowedFields = (if df_exact f = Some False then None else Some (exactFields f))\<rparr>"

section \<open>The run-time check\<close>

datatype js_type = TyString | TyNumber | TyBoolean

fun typeof_is :: "json option \<Rightarrow> js_type \<Rightarrow> bool" where
  "typeof_is (Some (JStr s)) TyString \<longleftrightarrow> True"
| "typeof_is (Some (JNum n)) TyNumber \<longleftrightarrow> True"
| "typeof_is (Some (JBool b)) TyBoolean \<longleftrightarrow> True"
| "typeof_is _ _ \<longleftrightarrow> False"

fun is_record :: "json option \<Rightarrow> bool" where
  "is_record (Some (JObj fs)) \<longleftrightarrow> True"
| "is_record _ \<longleftrightarrow> False"

fun is_array :: "json option \<Rightarrow> bool" where
  "is_array (Some (JArr vs)) \<longleftrightarrow> True"
| "is_array _ \<longleftrightarrow> False"

definition hasCurrentSchema :: "(string \<times> json) list \<Rightarrow> string \<Rightarrow> bool" where
  "hasCurrentSchema fs schemaId \<longleftrightarrow>
     field fs ''schemaId'' = Some (JStr schemaId)
     \<and> field fs ''schemaVersion'' = Some (JNum SITE_CRAWLER_SCHEMA_VERSION)"

definition fieldsHaveType :: "(string \<times> json) list \<Rightarrow> string list \<Rightarrow> js_type \<Rightarrow> bool" where
  "fieldsHaveType fs names expected \<longleftrightarrow> list_all (\<lambda>k. typeof_is (field fs k) expected) names"

definition fieldsHaveNullableType ::
  "(string \<times> json) list \<Rightarrow> string list \<Rightarrow> js_type \<Rightarrow> bool"
where
  "fieldsHaveNullableType fs names expected \<longleftrightarrow>
     list_all (\<lambda>k. field fs k \<noteq> None
       \<and> (field fs k = Some JNull \<or> typeof_is (field fs k) expected)) names"

definition optionalFieldsHaveType ::
  "(string \<times> json) list \<Rightarrow> string list \<Rightarrow> js_type \<Rightarrow> bool"
where
  "optionalFieldsHaveType fs names expected \<longleftrightarrow>
     list_all (\<lambda>k. field fs k = None \<or> typeof_is (field fs k) expected) names"

definition optionalFieldsHaveNullableType ::
  "(string \<times> json) list \<Rightarrow> string list \<Rightarrow> js_type \<Rightarrow> bool"
where
  "optionalFieldsHaveNullableType fs names expected \<longleftrightarrow>
     list_all (\<lambda>k. field fs k = None \<or> field fs k = Some JNull
       \<or> typeof_is (field fs k) expected) names"

definition allowed_only :: "(string \<times> json) list \<Rightarrow> string list option \<Rightarrow> bool" where
  "allowed_only fs allowed \<longleftrightarrow>
     (case allowed of
        None \<Rightarrow> True
      | Some a \<Rightarrow> list_all (\<lambda>k. k \<in> set ([''schemaId'', ''schemaVersion''] @ a)) (map fst fs))"

definition isObjectContract :: "json \<Rightarrow> contract_options \<Rightarrow> bool" where
  "isObjectContract v o' \<longleftrightarrow>
     (case v of
        JObj fs \<Rightarrow>
          field fs ''schemaId'' = Some (JStr (co_schemaId o'))
          \<and> field fs ''schemaVersion'' = Some (JNum (co_schemaVersion o'))
          \<and> fieldsHaveType fs (co_strings o') TyString
          \<and> fieldsHaveType fs (co_numbers o') TyNumber
          \<and> fieldsHaveType fs (co_booleans o') TyBoolean
          \<and> list_all (\<lambda>k. is_record (field fs k)) (co_objects o')
          \<and> list_all (\<lambda>k. is_array (field fs k)) (co_arrays o')
          \<and> fieldsHaveNullableType fs (co_nullableStrings o') TyString
          \<and> fieldsHaveNullableType fs (co_nullableNumbers o') TyNumber
          \<and> list_all (\<lambda>k. field fs k = Some JNull \<or> is_record (field fs k)) (co_nullableObjects o')
          \<and> list_all (\<lambda>k. field fs k \<noteq> None) (co_unknowns o')
          \<and> optionalFieldsHaveType fs (co_optionalStrings o') TyString
          \<and> optionalFieldsHaveNullableType fs (co_optionalNullableStrings o') TyString
          \<and> list_all (\<lambda>k. field fs k = None \<or> is_record (field fs k)) (co_optionalObjects o')
          \<and> allowed_only fs (co_allowedFields o')
      | _ \<Rightarrow> False)"

datatype contract_error =
    DoesNotSatisfy string string number   \<comment> \<open>contract, schema, version\<close>
  | NotASchemaRecord
  | UnsupportedSchema string
  | DuplicateContract string

definition contract_parse :: "contract_options \<Rightarrow> json \<Rightarrow> (contract_error, json) result" where
  "contract_parse o' v =
     (if isObjectContract v o' then Inr v
      else Inl (DoesNotSatisfy (co_name o') (co_schemaId o') (co_schemaVersion o')))"

section \<open>The published schema\<close>

text \<open>
  The part of \<open>JsonSchema\<close> (\<open>contracts/types.ts\<close>) that \<open>makeSchema\<close> builds: one object schema whose
  properties are constants, types or unconstrained.
\<close>

datatype type_name = TArray | TBoolean | TNull | TNumber | TObject | TString

record property_schema =
  ps_const :: "json option"
  ps_type :: "type_name list option"

record object_schema =
  os_title :: string
  os_type :: type_name
  os_required :: "string list"
  os_properties :: "(string, property_schema) jsmap"
  os_additionalProperties :: bool

definition typed :: "type_name list \<Rightarrow> property_schema" where
  "typed ts = \<lparr>ps_const = None, ps_type = Some ts\<rparr>"

definition constant_of :: "json \<Rightarrow> property_schema" where
  "constant_of c = \<lparr>ps_const = Some c, ps_type = None\<rparr>"

definition unconstrained :: property_schema where
  "unconstrained = \<lparr>ps_const = None, ps_type = None\<rparr>"

definition assign_all ::
  "property_schema \<Rightarrow> string list \<Rightarrow> (string, property_schema) jsmap \<Rightarrow> (string, property_schema) jsmap"
where
  "assign_all p ks ps = foldl (\<lambda>ps k. map_set k p ps) ps ks"

definition assign_undefined ::
  "string list \<Rightarrow> (string, property_schema) jsmap \<Rightarrow> (string, property_schema) jsmap"
where
  "assign_undefined ks ps =
     foldl (\<lambda>ps k. if map_of ps k = None then map_set k unconstrained ps else ps) ps ks"

definition schema_properties :: "contract_options \<Rightarrow> (string, property_schema) jsmap" where
  "schema_properties o' =
     (let ps = [(''schemaId'', constant_of (JStr (co_schemaId o'))),
                (''schemaVersion'', constant_of (JNum (co_schemaVersion o')))];
          ps = assign_all (typed [TString]) (co_strings o') ps;
          ps = assign_all (typed [TNumber]) (co_numbers o') ps;
          ps = assign_all (typed [TBoolean]) (co_booleans o') ps;
          ps = assign_all (typed [TObject]) (co_objects o') ps;
          ps = assign_all (typed [TArray]) (co_arrays o') ps;
          ps = assign_all (typed [TString, TNull]) (co_nullableStrings o') ps;
          ps = assign_all (typed [TNumber, TNull]) (co_nullableNumbers o') ps;
          ps = assign_all (typed [TObject, TNull]) (co_nullableObjects o') ps;
          ps = assign_all unconstrained (co_unknowns o') ps;
          ps = assign_all (typed [TString]) (co_optionalStrings o') ps;
          ps = assign_all (typed [TString, TNull]) (co_optionalNullableStrings o') ps;
          ps = assign_all (typed [TObject]) (co_optionalObjects o') ps
      in (case co_allowedFields o' of None \<Rightarrow> ps | Some a \<Rightarrow> assign_undefined a ps))"

definition schema_required :: "contract_options \<Rightarrow> string list" where
  "schema_required o' =
     [''schemaId'', ''schemaVersion''] @ co_strings o' @ co_numbers o' @ co_booleans o'
     @ co_objects o' @ co_arrays o' @ co_nullableStrings o' @ co_nullableNumbers o'
     @ co_nullableObjects o' @ co_unknowns o'"

definition makeSchema :: "contract_options \<Rightarrow> object_schema" where
  "makeSchema o' =
     \<lparr>os_title = co_name o', os_type = TObject, os_required = schema_required o',
      os_properties = schema_properties o',
      os_additionalProperties =
        (case co_allowedFields o' of
           None \<Rightarrow> (case co_allowAdditionalProperties o' of None \<Rightarrow> True | Some b \<Rightarrow> b)
         | Some _ \<Rightarrow> False)\<rparr>"

text \<open>Validation as JSON Schema 2020-12 defines it for these keywords.\<close>

fun has_type :: "json \<Rightarrow> type_name \<Rightarrow> bool" where
  "has_type (JArr vs) TArray \<longleftrightarrow> True"
| "has_type (JBool b) TBoolean \<longleftrightarrow> True"
| "has_type JNull TNull \<longleftrightarrow> True"
| "has_type (JNum n) TNumber \<longleftrightarrow> True"
| "has_type (JObj fs) TObject \<longleftrightarrow> True"
| "has_type (JStr s) TString \<longleftrightarrow> True"
| "has_type _ _ \<longleftrightarrow> False"

definition property_accepts :: "property_schema \<Rightarrow> json \<Rightarrow> bool" where
  "property_accepts p v \<longleftrightarrow>
     (case ps_const p of None \<Rightarrow> True | Some c \<Rightarrow> v = c)
     \<and> (case ps_type p of None \<Rightarrow> True | Some ts \<Rightarrow> list_ex (has_type v) ts)"

definition schema_accepts :: "object_schema \<Rightarrow> json \<Rightarrow> bool" where
  "schema_accepts s v \<longleftrightarrow>
     has_type v (os_type s)
     \<and> (case v of
          JObj fs \<Rightarrow>
            list_all (\<lambda>k. field fs k \<noteq> None) (os_required s)
            \<and> list_all (\<lambda>k. case map_of (os_properties s) k of
                 None \<Rightarrow> os_additionalProperties s
               | Some p \<Rightarrow> property_accepts p (the (field fs k))) (map fst fs)
        | _ \<Rightarrow> True)"

section \<open>The persisted records\<close>

definition crawlDefinitions :: "contract_options list" where
  "crawlDefinitions =
    [contract_definition ''run-manifest'' ''site-crawler.runManifest'' (no_fields
        \<lparr>df_strings := [''runId'', ''crawlerVersion'', ''configFingerprint'',
            ''operationalConfigFingerprint'', ''startedAt'', ''status''],
          df_booleans := [''rawSnapshotsEnabled'', ''sensitive''],
          df_objects := [''stats'', ''runtime'', ''deliveryGuarantees''],
          df_arrays := [''seeds''],
          df_nullableStrings := [''htmlParserVersion'', ''xmlParserVersion'', ''finishedAt'',
            ''stopReason'', ''outputDirectory'', ''resumedFrom''],
          df_nullableObjects := [''stopDetail'', ''fatalError'']\<rparr>),
     contract_definition ''crawl-stats'' ''site-crawler.stats'' (no_fields
        \<lparr>df_strings := [''runId'', ''startedAt''],
          df_numbers := [''durationMs'', ''seeds'', ''requestsScheduled'', ''requestsAttempted'',
            ''requestsFetched'', ''requestsTransportFailed'', ''requestsPolicySkipped'',
            ''requestsCancelled'', ''requestsFailed'', ''urlsSkipped'', ''retries'',
            ''resourcesRecorded'', ''htmlPagesParsed'', ''xmlResourcesParsed'',
            ''sitemapsFetched'', ''sitemapEntriesDiscovered'', ''sitemapFilesDiscovered'',
            ''feedsFetched'', ''feedEntriesDiscovered'', ''linksExtracted'',
            ''internalLinksExtracted'', ''externalLinksExtracted'',
            ''javascriptResourcesParsed'', ''javascriptLinksExtracted'',
            ''cssStylesheetsParsed'', ''cssLinksExtracted'', ''renderedPages'',
            ''redirectsFollowed'', ''redirectsBlocked'', ''robotsFilesFetched'',
            ''robotsDisallowedUrls'', ''scopeRejectedUrls'', ''networkSafetyRejectedUrls'',
            ''parserErrors'', ''decodeErrors'', ''bytesDownloaded'', ''responseCount'',
            ''responseTimeMsTotal'', ''averageResponseTimeMs'', ''peakConcurrency'',
            ''peakQueueSize'', ''resumedRequests'', ''recoveredLeases'', ''renewedLeases'',
            ''releasedLeases'', ''storageBackpressureEvents'', ''droppedEvents'',
            ''evidenceObjectsWritten'', ''evidenceBytesWritten'', ''changesRecorded'',
            ''workerHeartbeats'', ''replaysCompleted''],
          df_nullableStrings := [''finishedAt'', ''stopReason''],
          df_nullableObjects := [''stopDetail'']\<rparr>),
     contract_definition ''crawl-result'' ''site-crawler.result'' (no_fields
        \<lparr>df_strings := [''runId'', ''status''],
          df_objects := [''stats''],
          df_nullableStrings := [''stopReason'', ''outputDirectory'', ''manifestPath''],
          df_nullableObjects := [''stopDetail'', ''fatalError'']\<rparr>),
     contract_definition ''crawl-request'' ''site-crawler.request'' (no_fields
        \<lparr>df_strings := [''id'', ''uniqueKey'', ''rawUrl'', ''resolvedUrl'', ''normalizedUrl'',
            ''source'', ''seedUrl'', ''method'', ''renderPolicy'', ''createdAt'', ''updatedAt''],
          df_numbers := [''depth'', ''sitemapIndexDepth'', ''priority'', ''retryCount'',
            ''maxRetries''],
          df_objects := [''headers'', ''userData''],
          df_arrays := [''sitemapAncestors''],
          df_nullableStrings := [''referrerUrl'', ''seedLabel'']\<rparr>),
     contract_definition ''discovery-record'' ''site-crawler.discovery'' (no_fields
        \<lparr>df_strings := [''runId'', ''uniqueKey'', ''rawUrl'', ''source'', ''seedUrl'',
            ''createdAt''],
          df_numbers := [''depth''],
          df_booleans := [''firstSeen''],
          df_objects := [''decision''],
          df_nullableStrings := [''requestId'', ''resolvedUrl'', ''normalizedUrl'',
            ''referrerUrl'', ''seedLabel'']\<rparr>),
     contract_definition ''request-state'' ''site-crawler.requestState'' (no_fields
        \<lparr>df_strings := [''runId'', ''requestId'', ''uniqueKey'', ''state'', ''updatedAt''],
          df_nullableStrings := [''reason'']\<rparr>),
     contract_definition ''crawled-resource'' ''site-crawler.resource'' (no_fields
        \<lparr>df_strings := [''runId'', ''requestId'', ''requestedUrl'', ''normalizedUrl'',
            ''resourceType'', ''cacheStatus'', ''fetchedAt''],
          df_numbers := [''responseTimeMs''],
          df_booleans := [''ok''],
          df_objects := [''scopeDecision'', ''robotsDecision'', ''networkSafetyDecision''],
          df_arrays := [''redirects'', ''warnings''],
          df_nullableStrings := [''finalUrl'', ''contentType'', ''remoteAddress'',
            ''httpProtocol''],
          df_nullableNumbers := [''statusCode'', ''contentLength'', ''wireBytesRead'',
            ''httpDecodedBytesRead'', ''fileDecodedBytesRead''],
          df_nullableObjects := [''networkTimings'', ''tls'', ''encoding'', ''bodyHash'',
            ''error'']\<rparr>),
     contract_definition ''skipped-url'' ''site-crawler.skippedUrl'' (no_fields
        \<lparr>df_strings := [''runId'', ''rawUrl'', ''reason'', ''createdAt''],
          df_nullableStrings := [''resolvedUrl'', ''normalizedUrl'', ''referrerUrl'',
            ''policyName'', ''detail'']\<rparr>),
     contract_definition ''crawl-error'' ''site-crawler.error'' (no_fields
        \<lparr>df_strings := [''code'', ''message'', ''createdAt''],
          df_booleans := [''retryable'', ''fatal''],
          df_nullableStrings := [''url'', ''requestId'', ''causeName'', ''causeMessage''],
          df_nullableNumbers := [''attempt'']\<rparr>),
     contract_definition ''frontier-journal'' ''site-crawler.frontierJournal'' (no_fields
        \<lparr>df_strings := [''type'', ''checksum'', ''createdAt''],
          df_numbers := [''sequence''],
          df_nullableStrings := [''previousChecksum''],
          df_optionalStrings := [''requestId'', ''leaseId'', ''expiresAt''],
          df_optionalNullableStrings := [''reason''],
          df_optionalObjects := [''request'']\<rparr>),
     contract_definition ''http-cache'' ''site-crawler.httpCache'' (no_fields
        \<lparr>df_strings := [''url'', ''storedAt''],
          df_numbers := [''statusCode'', ''bodyBytes''],
          df_booleans := [''bodyPresent''],
          df_nullableStrings := [''etag'', ''lastModified'', ''contentType'']\<rparr>),
     contract_definition ''run-lock'' ''site-crawler.runLock'' (no_fields
        \<lparr>df_strings := [''runId'', ''hostname'', ''createdAt'', ''heartbeatAt''],
          df_numbers := [''pid'']\<rparr>)]"

definition documentDefinitions :: "contract_options list" where
  "documentDefinitions =
    [contract_definition ''html-page'' ''site-crawler.htmlPage'' (no_fields
        \<lparr>df_strings := [''runId'', ''requestId'', ''resourceId'', ''requestedUrl'',
            ''finalUrl'', ''normalizedUrl'', ''discoveredBy'', ''htmlSource'', ''extractedAt''],
          df_numbers := [''depth'', ''discoveredOutgoingLinkCount'',
            ''recordedOutgoingLinkCount'', ''truncatedOutgoingLinkCount'',
            ''inScopeOutgoingLinkCount'', ''outOfScopeOutgoingLinkCount''],
          df_objects := [''facts''],
          df_nullableStrings := [''discoveredFrom''],
          df_nullableObjects := [''evidence'']\<rparr>),
     contract_definition ''xml-resource'' ''site-crawler.xmlResource'' (no_fields
        \<lparr>df_strings := [''runId'', ''requestId'', ''resourceId'', ''requestedUrl'',
            ''finalUrl'', ''normalizedUrl'', ''xmlKind'', ''extractedAt''],
          df_objects := [''parseStatus'', ''parserBudgets''],
          df_arrays := [''namespaces'', ''sitemapEntries'', ''feedEntries'', ''warnings'',
            ''parserDiagnostics''],
          df_nullableStrings := [''rootName''],
          df_nullableObjects := [''encoding'', ''evidence'']\<rparr>),
     contract_definition ''link-edge'' ''site-crawler.linkEdge'' (no_fields
        \<lparr>df_strings := [''id'', ''runId'', ''fromUrl'', ''toRaw'', ''source'', ''linkKind'',
            ''discoveredAt''],
          df_numbers := [''depth''],
          df_booleans := [''nofollow'', ''sponsored'', ''ugc''],
          df_objects := [''enqueueDecision'', ''evidence''],
          df_arrays := [''rel''],
          df_nullableStrings := [''toResolved'', ''toNormalized'', ''toFinalUrl'',
            ''anchorText'', ''target'']\<rparr>),
     contract_definition ''robots-record'' ''site-crawler.robots'' (no_fields
        \<lparr>df_strings := [''runId'', ''origin'', ''requestedUrl'', ''source'', ''fetchedAt'',
            ''expiresAt''],
          df_numbers := [''groups'', ''rules''],
          df_arrays := [''sitemaps''],
          df_nullableStrings := [''finalUrl'', ''fallbackMode'', ''error''],
          df_nullableNumbers := [''statusCode'']\<rparr>),
     contract_definition ''sitemap-entry'' ''site-crawler.sitemapEntry'' (no_fields
        \<lparr>df_strings := [''runId'', ''sitemapUrl'', ''entryKind'', ''discoveredAt''],
          df_arrays := [''warnings''],
          df_nullableStrings := [''rawLoc'', ''resolvedUrl'', ''normalizedUrl'', ''lastmod'',
            ''changefreq''],
          df_nullableNumbers := [''priority'']\<rparr>),
     contract_definition ''feed-entry'' ''site-crawler.feedEntry'' (no_fields
        \<lparr>df_strings := [''runId'', ''feedUrl'', ''discoveredAt''],
          df_nullableStrings := [''rawUrl'', ''resolvedUrl'', ''normalizedUrl'', ''title'',
            ''publishedAt'', ''updatedAt'']\<rparr>)]"

definition evidenceDefinitions :: "contract_options list" where
  "evidenceDefinitions =
    [contract_definition ''evidence-association'' ''site-crawler.evidenceAssociation'' (no_fields
        \<lparr>df_strings := [''requestId'', ''recordedAt''],
          df_objects := [''reference'']\<rparr>),
     contract_definition ''evidence-bundle'' ''site-crawler.evidenceBundle'' (no_fields
        \<lparr>df_strings := [''runId'', ''createdAt'', ''sourceDirectory''],
          df_numbers := [''objectCount'', ''totalBytes'', ''storedBytes''],
          df_booleans := [''compressed''],
          df_arrays := [''files'']\<rparr>),
     contract_definition ''replay-report'' ''site-crawler.replayReport'' (no_fields
        \<lparr>df_strings := [''runDirectory'', ''crawlerVersion'', ''startedAt'', ''finishedAt''],
          df_numbers := [''matched'', ''changed'', ''missingEvidence'', ''failed''],
          df_arrays := [''items''],
          df_nullableStrings := [''htmlParserVersion'', ''xmlParserVersion'']\<rparr>),
     contract_definition ''replay-item'' ''site-crawler.replayItem'' (no_fields
        \<lparr>df_strings := [''entity'', ''requestId'', ''url'', ''status''],
          df_nullableStrings := [''evidenceDigest'', ''previousHash'', ''replayedHash'',
            ''error'']\<rparr>),
     contract_definition ''crawl-change'' ''site-crawler.change'' (no_fields
        \<lparr>df_strings := [''id'', ''entity'', ''kind'', ''key'', ''detectedAt''],
          df_unknowns := [''before'', ''after'']\<rparr>),
     contract_definition ''crawl-diff-report'' ''site-crawler.diffReport'' (no_fields
        \<lparr>df_strings := [''baseRunDirectory'', ''targetRunDirectory'', ''createdAt''],
          df_objects := [''summary''],
          df_arrays := [''changes'']\<rparr>)]"

definition operationsDefinitions :: "contract_options list" where
  "operationsDefinitions =
    [contract_definition ''abort-request'' ''site-crawler.abortRequest'' (no_fields
        \<lparr>df_strings := [''reason'', ''requestedAt''],
          df_nullableStrings := [''runId'']\<rparr>),
     contract_definition ''export-report'' ''site-crawler.exportReport'' (no_fields
        \<lparr>df_strings := [''sourceDirectory'', ''targetDirectory'', ''exportedAt''],
          df_objects := [''counts'']\<rparr>),
     contract_definition ''worker-record'' ''site-crawler.workerRecord'' (no_fields
        \<lparr>df_strings := [''workerId'', ''runId'', ''host'', ''protocolVersion'', ''startedAt'',
            ''heartbeatAt'', ''status''],
          df_numbers := [''pid'']\<rparr>),
     contract_definition ''checkpoint'' ''site-crawler.checkpoint'' (no_fields
        \<lparr>df_strings := [''runId'', ''createdAt'', ''frontierBackend''],
          df_numbers := [''sequence''],
          df_objects := [''counts'']\<rparr>),
     contract_definition ''security-audit'' ''site-crawler.securityAudit'' (no_fields
        \<lparr>df_strings := [''runId'', ''createdAt'', ''status''],
          df_numbers := [''issueCount''],
          df_arrays := [''issues'']\<rparr>),
     contract_definition ''run-inspection'' ''site-crawler.runInspection'' (no_fields
        \<lparr>df_strings := [''runId'', ''directory'', ''createdAt''],
          df_objects := [''manifest'', ''counts''],
          df_arrays := [''files'']\<rparr>),
     contract_definition ''run-validation'' ''site-crawler.runValidation'' (no_fields
        \<lparr>df_strings := [''directory'', ''createdAt''],
          df_numbers := [''errorCount'', ''warningCount''],
          df_booleans := [''valid''],
          df_arrays := [''issues'']\<rparr>)]"


definition persistentObjectDefinitions :: "contract_options list" where
  "persistentObjectDefinitions =
     crawlDefinitions @ documentDefinitions @ evidenceDefinitions @ operationsDefinitions"

section \<open>The catalogue\<close>

text \<open>
  A runtime contract is a schema name with its check. The contracts of \<open>definitions/predicates.ts\<close>
  are parameters of the catalogue.
\<close>

record runtime_contract =
  rt_name :: string
  rt_schemaId :: string
  rt_parse :: "json \<Rightarrow> (contract_error, json) result"

definition objectContract :: "contract_options \<Rightarrow> runtime_contract" where
  "objectContract o' =
     \<lparr>rt_name = co_name o', rt_schemaId = co_schemaId o', rt_parse = contract_parse o'\<rparr>"

definition runtimeContracts :: "runtime_contract list \<Rightarrow> runtime_contract list" where
  "runtimeContracts predicates = predicates @ map objectContract persistentObjectDefinitions"

fun unique_index ::
  "('c \<Rightarrow> string) \<Rightarrow> 'c list \<Rightarrow> (string, 'c) jsmap \<Rightarrow> (contract_error, (string, 'c) jsmap) result"
where
  "unique_index key_for [] index = Inr index"
| "unique_index key_for (c # cs) index =
     (case map_of index (key_for c) of
        Some _ \<Rightarrow> Inl (DuplicateContract (key_for c))
      | None \<Rightarrow> unique_index key_for cs (map_set (key_for c) c index))"

definition uniqueIndex :: "('c \<Rightarrow> string) \<Rightarrow> 'c list \<Rightarrow> (contract_error, (string, 'c) jsmap) result" where
  "uniqueIndex key_for cs = unique_index key_for cs []"

definition isSchemaVersion :: "number \<Rightarrow> bool" where
  "isSchemaVersion n \<longleftrightarrow> of_int \<lfloor>n\<rfloor> = n \<and> \<bar>n\<bar> \<le> 9007199254740991 \<and> 0 < n"

fun isSchemaRecord :: "json \<Rightarrow> bool" where
  "isSchemaRecord (JObj fs) \<longleftrightarrow>
     typeof_is (field fs ''schemaId'') TyString
     \<and> (case field fs ''schemaVersion'' of Some (JNum n) \<Rightarrow> isSchemaVersion n | _ \<Rightarrow> False)"
| "isSchemaRecord _ \<longleftrightarrow> False"

fun record_schema :: "json \<Rightarrow> string" where
  "record_schema (JObj fs) = (case field fs ''schemaId'' of Some (JStr s) \<Rightarrow> s | _ \<Rightarrow> [])"
| "record_schema _ = []"

definition validatePersistedRecord ::
  "(string, runtime_contract) jsmap \<Rightarrow> json \<Rightarrow> (contract_error, json) result"
where
  "validatePersistedRecord bySchemaId v =
     (if \<not> isSchemaRecord v then Inl NotASchemaRecord
      else (case map_of bySchemaId (record_schema v) of
              None \<Rightarrow> Inl (UnsupportedSchema (record_schema v))
            | Some c \<Rightarrow> rt_parse c v))"

end
