(* ===== verification/Contract_Properties.thy ===== *)
theory Contract_Properties
  imports Contracts
begin

text \<open>
  The run-time check and the published schema of a contract accept the same values, and the
  catalogue of persisted records is consistent.
\<close>

section \<open>The properties of a published schema\<close>

definition all_fields :: "contract_options \<Rightarrow> string list" where
  "all_fields o' =
     co_strings o' @ co_numbers o' @ co_booleans o' @ co_objects o' @ co_arrays o'
     @ co_nullableStrings o' @ co_nullableNumbers o' @ co_nullableObjects o' @ co_unknowns o'
     @ co_optionalStrings o' @ co_optionalNullableStrings o' @ co_optionalObjects o'"

definition contract_wf :: "contract_options \<Rightarrow> bool" where
  "contract_wf o' \<longleftrightarrow>
     distinct ([''schemaId'', ''schemaVersion''] @ all_fields o')
     \<and> (case co_allowedFields o' of
          None \<Rightarrow> co_allowAdditionalProperties o' \<noteq> Some False
        | Some a \<Rightarrow> list_all (\<lambda>k. k \<in> set a) (all_fields o'))"

lemma map_of_assign_all [simp]:
  "map_of (assign_all p ks ps) k = (if k \<in> set ks then Some p else map_of ps k)"
  unfolding assign_all_def by (induction ks arbitrary: ps) auto

lemma map_of_assign_undefined [simp]:
  "map_of (assign_undefined ks ps) k
     = (case map_of ps k of Some p \<Rightarrow> Some p
        | None \<Rightarrow> if k \<in> set ks then Some unconstrained else None)"
  unfolding assign_undefined_def by (induction ks arbitrary: ps) (auto split: option.splits)

text \<open>The tables of the options, each with the schema of its fields.\<close>

definition classes :: "contract_options \<Rightarrow> (property_schema \<times> string list) list" where
  "classes o' =
     [(typed [TString], co_strings o'), (typed [TNumber], co_numbers o'),
      (typed [TBoolean], co_booleans o'), (typed [TObject], co_objects o'),
      (typed [TArray], co_arrays o'), (typed [TString, TNull], co_nullableStrings o'),
      (typed [TNumber, TNull], co_nullableNumbers o'),
      (typed [TObject, TNull], co_nullableObjects o'), (unconstrained, co_unknowns o'),
      (typed [TString], co_optionalStrings o'),
      (typed [TString, TNull], co_optionalNullableStrings o'),
      (typed [TObject], co_optionalObjects o')]"

definition identity_schema :: "contract_options \<Rightarrow> (string, property_schema) jsmap" where
  "identity_schema o' =
     [(''schemaId'', constant_of (JStr (co_schemaId o'))),
      (''schemaVersion'', constant_of (JNum (co_schemaVersion o')))]"

definition assign_classes ::
  "(property_schema \<times> string list) list \<Rightarrow> (string, property_schema) jsmap \<Rightarrow> (string, property_schema) jsmap"
where
  "assign_classes cs ps = foldl (\<lambda>ps (p, ks). assign_all p ks ps) ps cs"

lemma all_fields_classes: "all_fields o' = concat (map snd (classes o'))"
  by (simp add: all_fields_def classes_def)

lemma schema_properties_classes:
  "schema_properties o' =
     (let ps = assign_classes (classes o') (identity_schema o')
      in (case co_allowedFields o' of None \<Rightarrow> ps | Some a \<Rightarrow> assign_undefined a ps))"
  by (simp add: schema_properties_def classes_def identity_schema_def assign_classes_def Let_def)

lemma assign_classes_other:
  "k \<notin> set (concat (map snd cs)) \<Longrightarrow> map_of (assign_classes cs ps) k = map_of ps k"
  by (induction cs arbitrary: ps) (auto simp: assign_classes_def)

lemma assign_classes_in:
  "\<lbrakk> distinct (concat (map snd cs)); (p, ks) \<in> set cs; k \<in> set ks \<rbrakk>
     \<Longrightarrow> map_of (assign_classes cs ps) k = Some p"
proof (induction cs arbitrary: ps)
  case (Cons c cs)
  obtain q js where c: "c = (q, js)" by (cases c)
  have step: "assign_classes (c # cs) ps = assign_classes cs (assign_all q js ps)"
    by (simp add: assign_classes_def c)
  show ?case
  proof (cases "(p, ks) \<in> set cs")
    case True
    with Cons c step show ?thesis by (simp del: set_concat)
  next
    case False
    with Cons.prems c have pq: "p = q" "ks = js" by auto
    with Cons.prems c have "k \<notin> set (concat (map snd cs))" by auto
    with pq Cons.prems(3) show ?thesis by (simp add: step assign_classes_other)
  qed
qed simp

lemma typeof_is_has_type [simp]:
  "typeof_is (Some x) TyString \<longleftrightarrow> has_type x TString"
  "typeof_is (Some x) TyNumber \<longleftrightarrow> has_type x TNumber"
  "typeof_is (Some x) TyBoolean \<longleftrightarrow> has_type x TBoolean"
  "is_record (Some x) \<longleftrightarrow> has_type x TObject"
  "is_array (Some x) \<longleftrightarrow> has_type x TArray"
  "has_type x TNull \<longleftrightarrow> x = JNull"
  by (cases x; simp)+

lemma typeof_is_None [simp]: "\<not> typeof_is None t" "\<not> is_record None" "\<not> is_array None"
  by (cases t; simp)+

lemma property_accepts_simps [simp]:
  "property_accepts (typed ts) x \<longleftrightarrow> list_ex (has_type x) ts"
  "property_accepts (constant_of c) x \<longleftrightarrow> x = c"
  "property_accepts unconstrained x"
  by (simp_all add: property_accepts_def typed_def constant_of_def unconstrained_def)


section \<open>Agreement of the check and the schema\<close>

text \<open>What one table contributes to the schema.\<close>

definition table_ok :: "(string \<times> json) list \<Rightarrow> property_schema \<Rightarrow> string list \<Rightarrow> bool" where
  "table_ok fs p ks \<longleftrightarrow> (\<forall>k\<in>set ks. \<forall>x. field fs k = Some x \<longrightarrow> property_accepts p x)"

definition present :: "(string \<times> json) list \<Rightarrow> string list \<Rightarrow> bool" where
  "present fs ks \<longleftrightarrow> list_all (\<lambda>k. field fs k \<noteq> None) ks"

lemma pointwise:
  "typeof_is y TyString \<longleftrightarrow> y \<noteq> None \<and> (\<forall>x. y = Some x \<longrightarrow> property_accepts (typed [TString]) x)"
  "typeof_is y TyNumber \<longleftrightarrow> y \<noteq> None \<and> (\<forall>x. y = Some x \<longrightarrow> property_accepts (typed [TNumber]) x)"
  "typeof_is y TyBoolean \<longleftrightarrow> y \<noteq> None \<and> (\<forall>x. y = Some x \<longrightarrow> property_accepts (typed [TBoolean]) x)"
  "is_record y \<longleftrightarrow> y \<noteq> None \<and> (\<forall>x. y = Some x \<longrightarrow> property_accepts (typed [TObject]) x)"
  "is_array y \<longleftrightarrow> y \<noteq> None \<and> (\<forall>x. y = Some x \<longrightarrow> property_accepts (typed [TArray]) x)"
  by (cases y; simp)+

lemma pointwise_null:
  "property_accepts (typed [t, TNull]) x \<longleftrightarrow> property_accepts (typed [t]) x \<or> x = JNull"
  by simp

lemma table_simps:
  "fieldsHaveType fs ks TyString \<longleftrightarrow> present fs ks \<and> table_ok fs (typed [TString]) ks"
  "fieldsHaveType fs ks TyNumber \<longleftrightarrow> present fs ks \<and> table_ok fs (typed [TNumber]) ks"
  "fieldsHaveType fs ks TyBoolean \<longleftrightarrow> present fs ks \<and> table_ok fs (typed [TBoolean]) ks"
  "list_all (\<lambda>k. is_record (field fs k)) ks \<longleftrightarrow> present fs ks \<and> table_ok fs (typed [TObject]) ks"
  "list_all (\<lambda>k. is_array (field fs k)) ks \<longleftrightarrow> present fs ks \<and> table_ok fs (typed [TArray]) ks"
  "fieldsHaveNullableType fs ks TyString \<longleftrightarrow> present fs ks \<and> table_ok fs (typed [TString, TNull]) ks"
  "fieldsHaveNullableType fs ks TyNumber \<longleftrightarrow> present fs ks \<and> table_ok fs (typed [TNumber, TNull]) ks"
  "list_all (\<lambda>k. field fs k = Some JNull \<or> is_record (field fs k)) ks
     \<longleftrightarrow> present fs ks \<and> table_ok fs (typed [TObject, TNull]) ks"
  "list_all (\<lambda>k. field fs k \<noteq> None) ks \<longleftrightarrow> present fs ks \<and> table_ok fs unconstrained ks"
  "optionalFieldsHaveType fs ks TyString \<longleftrightarrow> table_ok fs (typed [TString]) ks"
  "optionalFieldsHaveNullableType fs ks TyString \<longleftrightarrow> table_ok fs (typed [TString, TNull]) ks"
  "list_all (\<lambda>k. field fs k = None \<or> is_record (field fs k)) ks \<longleftrightarrow> table_ok fs (typed [TObject]) ks"
  unfolding fieldsHaveType_def fieldsHaveNullableType_def optionalFieldsHaveType_def
    optionalFieldsHaveNullableType_def table_ok_def present_def list_all_iff pointwise pointwise_null
  using property_accepts_simps(3) by (blast | fastforce simp del: property_accepts_simps)+

lemma all_the: "(\<forall>k. f k \<noteq> None \<longrightarrow> P k (the (f k))) \<longleftrightarrow> (\<forall>k x. f k = Some x \<longrightarrow> P k x)"
  by force

lemma present_append [simp]: "present fs (ks @ ls) \<longleftrightarrow> present fs ks \<and> present fs ls"
  by (simp add: present_def)

lemma field_keys: "k \<in> set (map fst fs) \<longleftrightarrow> field fs k \<noteq> None"
  unfolding field_def by (metis image_set map_of_eq_None_iff)

text \<open>
  The loop over the properties of a value, table by table: a field of a table meets its schema, and
  a field of no table is one of the identity fields, or is admitted by the options.
\<close>

lemma schema_loop:
  assumes wf: "contract_wf o'"
  shows "list_all (\<lambda>k. case map_of (schema_properties o') k of
             None \<Rightarrow> os_additionalProperties (makeSchema o')
           | Some p \<Rightarrow> property_accepts p (the (field fs k))) (map fst fs)
     \<longleftrightarrow> table_ok fs (constant_of (JStr (co_schemaId o'))) [''schemaId'']
       \<and> table_ok fs (constant_of (JNum (co_schemaVersion o'))) [''schemaVersion'']
       \<and> (\<forall>(p, ks)\<in>set (classes o'). table_ok fs p ks)
       \<and> allowed_only fs (co_allowedFields o')" (is "?L \<longleftrightarrow> ?R")
proof -
  let ?T = "set (concat (map snd (classes o')))"
  from wf have dist: "distinct (concat (map snd (classes o')))"
    and ids: "''schemaId'' \<notin> ?T" "''schemaVersion'' \<notin> ?T"
    unfolding contract_wf_def all_fields_classes by auto
  define sch where "sch k = map_of (schema_properties o') k" for k
  have in_table: "sch k = Some p" if "(p, ks) \<in> set (classes o')" "k \<in> set ks" for p ks k
    using assign_classes_in [OF dist that]
    by (simp add: sch_def schema_properties_classes Let_def split: option.split)
  have other: "sch k = (case map_of (identity_schema o') k of Some p \<Rightarrow> Some p
      | None \<Rightarrow> (case co_allowedFields o' of None \<Rightarrow> None
          | Some a \<Rightarrow> if k \<in> set a then Some unconstrained else None))" if "k \<notin> ?T" for k
    using assign_classes_other [OF that]
    by (simp add: sch_def schema_properties_classes Let_def split: option.split)
  have extra: "(case sch k of None \<Rightarrow> os_additionalProperties (makeSchema o')
        | Some p \<Rightarrow> property_accepts p x)
     \<longleftrightarrow> (case co_allowedFields o' of None \<Rightarrow> True | Some a \<Rightarrow> k \<in> set a)"
    if "k \<notin> ?T" "k \<noteq> ''schemaId''" "k \<noteq> ''schemaVersion''" for k x
    using wf that(2,3) unfolding other [OF that(1)] contract_wf_def
    by (auto simp: identity_schema_def makeSchema_def split: option.splits)
  have table: "k \<in> set ([''schemaId'', ''schemaVersion''] @ a)"
    if "co_allowedFields o' = Some a" "k \<in> ?T" for k a
    using wf that unfolding contract_wf_def all_fields_classes list_all_iff by auto
  have sid: "sch ''schemaId'' = Some (constant_of (JStr (co_schemaId o')))"
    and ver: "sch ''schemaVersion'' = Some (constant_of (JNum (co_schemaVersion o')))"
    using other ids by (simp_all add: identity_schema_def)
  define good where "good k x \<longleftrightarrow> (case sch k of None \<Rightarrow> os_additionalProperties (makeSchema o')
      | Some p \<Rightarrow> property_accepts p x)" for k x
  have L: "?L \<longleftrightarrow> (\<forall>k x. field fs k = Some x \<longrightarrow> good k x)"
    unfolding list_all_iff Ball_def field_keys sch_def [symmetric] good_def by (rule all_the)
  have allowed: "allowed_only fs (co_allowedFields o')
      \<longleftrightarrow> (\<forall>k x. field fs k = Some x \<longrightarrow> k \<notin> ?T \<longrightarrow> k \<noteq> ''schemaId'' \<longrightarrow> k \<noteq> ''schemaVersion'' \<longrightarrow> good k x)"
  proof (cases "co_allowedFields o'")
    case None
    then show ?thesis using extra by (simp add: allowed_only_def good_def)
  next
    case (Some a)
    have "good k x \<longleftrightarrow> k \<in> set a"
      if "k \<notin> ?T" "k \<noteq> ''schemaId''" "k \<noteq> ''schemaVersion''" for k x
      using extra [OF that] Some by (simp add: good_def)
    moreover have "allowed_only fs (Some a)
        \<longleftrightarrow> (\<forall>k x. field fs k = Some x \<longrightarrow> k \<in> set ([''schemaId'', ''schemaVersion''] @ a))"
      unfolding allowed_only_def option.case list_all_iff Ball_def field_keys by auto
    ultimately show ?thesis using table [OF Some] unfolding Some by fastforce
  qed
  have ids_good: "table_ok fs (constant_of (JStr (co_schemaId o'))) [''schemaId'']
        \<longleftrightarrow> (\<forall>x. field fs ''schemaId'' = Some x \<longrightarrow> good ''schemaId'' x)"
      "table_ok fs (constant_of (JNum (co_schemaVersion o'))) [''schemaVersion'']
        \<longleftrightarrow> (\<forall>x. field fs ''schemaVersion'' = Some x \<longrightarrow> good ''schemaVersion'' x)"
    by (simp_all add: table_ok_def good_def sid ver)
  have tables: "(\<forall>(p, ks)\<in>set (classes o'). table_ok fs p ks)
      \<longleftrightarrow> (\<forall>k x. field fs k = Some x \<longrightarrow> k \<in> ?T \<longrightarrow> good k x)"
    unfolding table_ok_def good_def using in_table by fastforce
  show ?thesis unfolding L ids_good tables allowed by blast
qed

lemma contract_schema_agree:
  assumes "contract_wf o'"
  shows "isObjectContract v o' \<longleftrightarrow> schema_accepts (makeSchema o') v"
proof (cases v)
  case (JObj fs)
  have ids: "field fs ''schemaId'' = Some (JStr i)
      \<longleftrightarrow> present fs [''schemaId''] \<and> table_ok fs (constant_of (JStr i)) [''schemaId'']"
    "field fs ''schemaVersion'' = Some (JNum n)
      \<longleftrightarrow> present fs [''schemaVersion''] \<and> table_ok fs (constant_of (JNum n)) [''schemaVersion'']" for i n
    by (auto simp: present_def table_ok_def)
  have required: "list_all (\<lambda>k. field fs k \<noteq> None) ks \<longleftrightarrow> present fs ks" for ks
    by (simp add: present_def)
  have fields: "os_required (makeSchema o') = schema_required o'" "os_type (makeSchema o') = TObject"
    "os_properties (makeSchema o') = schema_properties o'"
    by (simp_all add: makeSchema_def)
  have cons: "present fs [a, b] \<longleftrightarrow> present fs [a] \<and> present fs [b]" for a b
    by (simp add: present_def)
  have check: "isObjectContract v o' \<longleftrightarrow> present fs (schema_required o')
      \<and> table_ok fs (constant_of (JStr (co_schemaId o'))) [''schemaId'']
      \<and> table_ok fs (constant_of (JNum (co_schemaVersion o'))) [''schemaVersion'']
      \<and> (\<forall>(p, ks)\<in>set (classes o'). table_ok fs p ks)
      \<and> allowed_only fs (co_allowedFields o')"
    unfolding isObjectContract_def JObj json.case table_simps ids classes_def schema_required_def
      present_append cons
    by (simp only: list.set ball_simps prod.case simp_thms) blast
  show ?thesis
    unfolding schema_accepts_def fields JObj json.case required schema_loop [OF assms] check [unfolded JObj]
    by simp
qed (simp_all add: isObjectContract_def schema_accepts_def makeSchema_def)

section \<open>The catalogue\<close>

lemma contract_definition_wf:
  assumes "distinct ([''schemaId'', ''schemaVersion''] @ exactFields f)"
  shows "contract_wf (contract_definition name sid f)"
  using assms unfolding contract_wf_def
  by (simp add: contract_definition_def all_fields_def exactFields_def list_all_iff)

lemma definitions_wf: "list_all contract_wf persistentObjectDefinitions"
  by code_simp

lemma unique_index_distinct:
  "\<lbrakk> distinct (map key_for cs); set (map key_for cs) \<inter> set (map fst index) = {} \<rbrakk>
     \<Longrightarrow> unique_index key_for cs index = Inr (index @ map (\<lambda>c. (key_for c, c)) cs)"
proof (induction cs arbitrary: index)
  case (Cons c cs)
  then have new: "map_of index (key_for c) = None" by (auto simp: map_of_eq_None_iff)
  with Cons show ?case by (auto simp: map_set_new)
qed simp

lemma definitions_distinct: "distinct (map co_schemaId persistentObjectDefinitions)"
  by code_simp

text \<open>
  C8: The catalogue is consistent and its published schemas are right: no two persisted record
  definitions claim the same schema, and for each of them the JSON Schema that
  \<open>makeSchema\<close> publishes accepts exactly the values that \<open>isObjectContract\<close> accepts at run time.
\<close>

theorem published_schemas_agree:
  "uniqueIndex rt_schemaId (map objectContract persistentObjectDefinitions)
     = Inr (map (\<lambda>o'. (co_schemaId o', objectContract o')) persistentObjectDefinitions)
   \<and> list_all (\<lambda>o'. \<forall>v. isObjectContract v o' = schema_accepts (makeSchema o') v)
        persistentObjectDefinitions"
proof
  have ids: "map rt_schemaId (map objectContract persistentObjectDefinitions)
      = map co_schemaId persistentObjectDefinitions"
    by (simp add: objectContract_def)
  show "uniqueIndex rt_schemaId (map objectContract persistentObjectDefinitions)
      = Inr (map (\<lambda>o'. (co_schemaId o', objectContract o')) persistentObjectDefinitions)"
    using unique_index_distinct [of rt_schemaId "map objectContract persistentObjectDefinitions" "[]"]
      definitions_distinct
    unfolding ids uniqueIndex_def by (simp add: comp_def objectContract_def)
  show "list_all (\<lambda>o'. \<forall>v. isObjectContract v o' = schema_accepts (makeSchema o') v)
      persistentObjectDefinitions"
    using definitions_wf contract_schema_agree by (simp add: list_all_iff)
qed

end
