(* ===== verification/Record_Codec.thy ===== *)
theory Record_Codec
  imports Contracts Journal
begin

text \<open>
  Persisted records as JSON, and reading them back: the object literals of
  \<open>frontier/request-factory.ts\<close>, \<open>frontier/state-record.ts\<close> and \<open>crawler/skip-recorder.ts\<close>, the
  journal codec \<open>frontier/journal-codec.ts\<close>, the request parser \<open>requests/parse.ts\<close> and the
  field readers of \<open>validation/primitives.ts\<close>.

  A time of the model is a number; its text in a record is \<open>iso_of t\<close>, and \<open>date s\<close> is the time a
  text stands for. The objects read have no key \<open>__proto__\<close>.
\<close>

section \<open>Names of the unions\<close>

fun state_name :: "request_state \<Rightarrow> string" where
  "state_name Pending = ''pending''"
| "state_name InProgress = ''in_progress''"
| "state_name (Terminal t) = terminal_name t"
| "state_name Retrying = ''retrying''"

fun skip_name :: "skip_reason \<Rightarrow> string" where
  "skip_name INVALID_URL = ''INVALID_URL''"
| "skip_name UNSUPPORTED_PROTOCOL = ''UNSUPPORTED_PROTOCOL''"
| "skip_name SCOPE_REJECTED = ''SCOPE_REJECTED''"
| "skip_name ROBOTS_DISALLOWED = ''ROBOTS_DISALLOWED''"
| "skip_name NETWORK_SAFETY_REJECTED = ''NETWORK_SAFETY_REJECTED''"
| "skip_name MAX_DEPTH_EXCEEDED = ''MAX_DEPTH_EXCEEDED''"
| "skip_name MAX_REQUESTS_EXCEEDED = ''MAX_REQUESTS_EXCEEDED''"
| "skip_name MAX_QUEUE_SIZE_EXCEEDED = ''MAX_QUEUE_SIZE_EXCEEDED''"
| "skip_name MAX_URL_LENGTH_EXCEEDED = ''MAX_URL_LENGTH_EXCEEDED''"
| "skip_name MAX_PATH_SEGMENTS_EXCEEDED = ''MAX_PATH_SEGMENTS_EXCEEDED''"
| "skip_name MAX_QUERY_PARAMS_EXCEEDED = ''MAX_QUERY_PARAMS_EXCEEDED''"
| "skip_name PATH_PATTERN_LIMIT_EXCEEDED = ''PATH_PATTERN_LIMIT_EXCEEDED''"
| "skip_name DIRECTORY_LIMIT_EXCEEDED = ''DIRECTORY_LIMIT_EXCEEDED''"
| "skip_name DUPLICATE = ''DUPLICATE''"
| "skip_name CONTENT_TYPE_EXCLUDED = ''CONTENT_TYPE_EXCLUDED''"
| "skip_name USER_EXCLUDE_PATTERN = ''USER_EXCLUDE_PATTERN''"
| "skip_name ASSET_SKIPPED = ''ASSET_SKIPPED''"
| "skip_name RENDER_LIMIT_EXCEEDED = ''RENDER_LIMIT_EXCEEDED''"
| "skip_name SITEMAP_LIMIT_EXCEEDED = ''SITEMAP_LIMIT_EXCEEDED''"
| "skip_name DUPLICATE_BODY_PATTERN_LIMIT_EXCEEDED = ''DUPLICATE_BODY_PATTERN_LIMIT_EXCEEDED''"

fun status_name :: "enqueue_decision_status \<Rightarrow> string" where
  "status_name Enqueued = ''enqueued''"
| "status_name AlreadySeen = ''already_seen''"
| "status_name RejectedScope = ''rejected_scope''"
| "status_name RejectedRobots = ''rejected_robots''"
| "status_name RejectedNetworkSafety = ''rejected_network_safety''"
| "status_name RejectedProtocol = ''rejected_protocol''"
| "status_name InvalidUrl = ''invalid_url''"
| "status_name MaxDepth = ''max_depth''"
| "status_name QueueLimit = ''queue_limit''"
| "status_name UserRule = ''user_rule''"
| "status_name AssetSkipped = ''asset_skipped''"
| "status_name DuplicateStatus = ''duplicate''"
| "status_name TrapGuard = ''trap_guard''"

section \<open>Writing\<close>

definition schema_identity :: "string \<Rightarrow> (string \<times> json) list" where
  "schema_identity sid = [(''schemaId'', JStr sid), (''schemaVersion'', JNum 1)]"

definition crawl_request_json :: "(timestamp \<Rightarrow> string) \<Rightarrow> crawl_request \<Rightarrow> json" where
  "crawl_request_json iso_of r = JObj (schema_identity ''site-crawler.request'' @
     [(''id'', JStr (rq_id r)),
      (''uniqueKey'', JStr (rq_uniqueKey r)),
      (''rawUrl'', JStr (rq_rawUrl r)),
      (''resolvedUrl'', JStr (rq_resolvedUrl r)),
      (''normalizedUrl'', JStr (rq_normalizedUrl r)),
      (''referrerUrl'', opt_str (rq_referrerUrl r)),
      (''source'', JStr (source_name (rq_source r))),
      (''seedUrl'', JStr (rq_seedUrl r)),
      (''seedLabel'', opt_str (rq_seedLabel r)),
      (''depth'', JNum (rq_depth r)),
      (''sitemapIndexDepth'', JNum (rq_sitemapIndexDepth r)),
      (''sitemapAncestors'', JArr (map JStr (rq_sitemapAncestors r))),
      (''priority'', JNum (rq_priority r)),
      (''method'', JStr (method_name (rq_method r))),
      (''headers'', JObj (map (\<lambda>(k, v). (k, JStr v)) (rq_headers r))),
      (''renderPolicy'', JStr (render_policy_name (rq_renderPolicy r))),
      (''retryCount'', JNum (rq_retryCount r)),
      (''maxRetries'', JNum (rq_maxRetries r)),
      (''createdAt'', JStr (iso_of (rq_createdAt r))),
      (''updatedAt'', JStr (iso_of (rq_updatedAt r))),
      (''userData'', JObj (rq_userData r))])"

definition discovery_json :: "(timestamp \<Rightarrow> string) \<Rightarrow> discovery_record \<Rightarrow> json" where
  "discovery_json iso_of d = JObj (schema_identity ''site-crawler.discovery'' @
     [(''runId'', JStr (dr_runId d)),
      (''uniqueKey'', JStr (dr_uniqueKey d)),
      (''requestId'', opt_str (dr_requestId d)),
      (''rawUrl'', JStr (dr_rawUrl d)),
      (''resolvedUrl'', opt_str (dr_resolvedUrl d)),
      (''normalizedUrl'', opt_str (dr_normalizedUrl d)),
      (''referrerUrl'', opt_str (dr_referrerUrl d)),
      (''source'', JStr (source_name (dr_source d))),
      (''seedUrl'', JStr (dr_seedUrl d)),
      (''seedLabel'', opt_str (dr_seedLabel d)),
      (''depth'', JNum (dr_depth d)),
      (''firstSeen'', JBool (dr_firstSeen d)),
      (''decision'', JObj [(''status'', JStr (status_name (ed_status (dr_decision d)))),
                           (''reason'', opt_str (ed_reason (dr_decision d))),
                           (''requestId'', opt_str (ed_requestId (dr_decision d)))]),
      (''createdAt'', JStr (iso_of (dr_createdAt d)))])"

definition request_state_json :: "(timestamp \<Rightarrow> string) \<Rightarrow> request_state_record \<Rightarrow> json" where
  "request_state_json iso_of s = JObj (schema_identity ''site-crawler.requestState'' @
     [(''runId'', JStr (rs_runId s)),
      (''requestId'', JStr (rs_requestId s)),
      (''uniqueKey'', JStr (rs_uniqueKey s)),
      (''state'', JStr (state_name (rs_state s))),
      (''reason'', opt_str (rs_reason s)),
      (''updatedAt'', JStr (iso_of (rs_updatedAt s)))])"

definition skipped_json :: "(timestamp \<Rightarrow> string) \<Rightarrow> skipped_url \<Rightarrow> json" where
  "skipped_json iso_of s = JObj (schema_identity ''site-crawler.skippedUrl'' @
     [(''runId'', JStr (sk_runId s)),
      (''rawUrl'', JStr (sk_rawUrl s)),
      (''resolvedUrl'', opt_str (sk_resolvedUrl s)),
      (''normalizedUrl'', opt_str (sk_normalizedUrl s)),
      (''referrerUrl'', opt_str (sk_referrerUrl s)),
      (''reason'', JStr (skip_name (sk_reason s))),
      (''policyName'', opt_str (sk_policyName s)),
      (''detail'', opt_str (sk_detail s)),
      (''createdAt'', JStr (iso_of (sk_createdAt s)))])"

text \<open>The \<open>type\<close> of a journal record and the fields of its payload.\<close>

fun journal_type :: "journal_body \<Rightarrow> string" where
  "journal_type (JEnqueued r) = ''enqueued''"
| "journal_type (JLeased i l e) = ''leased''"
| "journal_type (JRenewed i l e) = ''renewed''"
| "journal_type (JFinished t i l m) = terminal_name t"
| "journal_type (JReleased i l m) = ''released''"

fun journal_payload :: "(timestamp \<Rightarrow> string) \<Rightarrow> journal_body \<Rightarrow> (string \<times> json) list" where
  "journal_payload iso_of (JEnqueued r) = [(''request'', crawl_request_json iso_of r)]"
| "journal_payload iso_of (JLeased i l e) =
     [(''requestId'', JStr i), (''leaseId'', JStr l), (''expiresAt'', JStr (iso_of e))]"
| "journal_payload iso_of (JRenewed i l e) =
     [(''requestId'', JStr i), (''leaseId'', JStr l), (''expiresAt'', JStr (iso_of e))]"
| "journal_payload iso_of (JFinished t i l m) =
     [(''requestId'', JStr i), (''leaseId'', JStr l), (''reason'', opt_str m)]"
| "journal_payload iso_of (JReleased i l m) =
     [(''requestId'', JStr i), (''leaseId'', JStr l), (''reason'', opt_str m)]"

text \<open>The object whose text \<open>journalChecksum\<close> hashes, and the object that is appended.\<close>

definition hashed_json :: "(timestamp \<Rightarrow> string) \<Rightarrow> nat \<times> string option \<times> unsequenced_record \<Rightarrow> json" where
  "hashed_json iso_of x =
     (case x of (sequence, previousChecksum, r) \<Rightarrow>
        JObj (schema_identity ''site-crawler.frontierJournal'' @
          [(''sequence'', JNum (of_nat sequence)),
           (''previousChecksum'', opt_str previousChecksum),
           (''type'', JStr (journal_type (ur_body r))),
           (''createdAt'', JStr (iso_of (ur_createdAt r)))]
          @ journal_payload iso_of (ur_body r)))"

definition journal_json :: "(timestamp \<Rightarrow> string) \<Rightarrow> journal_record \<Rightarrow> json" where
  "journal_json iso_of j =
     (let r = jr_entry j
      in JObj (schema_identity ''site-crawler.frontierJournal'' @
           [(''type'', JStr (journal_type (ur_body r)))]
           @ journal_payload iso_of (ur_body r)
           @ [(''createdAt'', JStr (iso_of (ur_createdAt r))),
              (''sequence'', JNum (of_nat (jr_sequence j))),
              (''previousChecksum'', opt_str (jr_previousChecksum j)),
              (''checksum'', JStr (jr_checksum j))]))"

section \<open>Reading fields\<close>

datatype parse_error =
    MustBeObject string
  | UnknownFields string "string list"
  | WrongSchema string
  | BadField string
  | MalformedValue string

type_synonym 'a parsed = "(parse_error, 'a) result"

text \<open>\<open>record\<close> on a plain object: its own enumerable fields.\<close>

definition record_of :: "json option \<Rightarrow> string \<Rightarrow> (string \<times> json) list parsed" where
  "record_of v name =
     (case v of
        Some (JObj fs) \<Rightarrow> Inr (foldl (\<lambda>out (k, x). map_set k x out) [] fs)
      | _ \<Rightarrow> Inl (MustBeObject name))"

definition exactRecord :: "json option \<Rightarrow> string \<Rightarrow> string list \<Rightarrow> (string \<times> json) list parsed" where
  "exactRecord v name allowed =
     bind_result (record_of v name) (\<lambda>input.
       let unknown = filter (\<lambda>k. k \<notin> set allowed) (map fst input)
       in if unknown \<noteq> [] then Inl (UnknownFields name unknown) else Inr input)"

definition stringField :: "(string \<times> json) list \<Rightarrow> string \<Rightarrow> string parsed" where
  "stringField fs k = (case field fs k of Some (JStr s) \<Rightarrow> Inr s | _ \<Rightarrow> Inl (BadField k))"

definition nullableStringField :: "(string \<times> json) list \<Rightarrow> string \<Rightarrow> string option parsed" where
  "nullableStringField fs k =
     (case field fs k of Some JNull \<Rightarrow> Inr None | Some (JStr s) \<Rightarrow> Inr (Some s) | _ \<Rightarrow> Inl (BadField k))"

definition numberField :: "(string \<times> json) list \<Rightarrow> string \<Rightarrow> number parsed" where
  "numberField fs k = (case field fs k of Some (JNum n) \<Rightarrow> Inr n | _ \<Rightarrow> Inl (BadField k))"

definition assertCurrentSchema :: "(string \<times> json) list \<Rightarrow> string \<Rightarrow> string \<Rightarrow> unit parsed" where
  "assertCurrentSchema fs schemaId description =
     (if hasCurrentSchema fs schemaId then Inr () else Inl (WrongSchema description))"

section \<open>Parsing a request\<close>

definition all_sources :: "crawl_source list" where
  "all_sources = [Seed, HtmlLink, Sitemap, SitemapIndex, RobotsSitemap, Feed, Redirect, Manual, Hook,
     JavascriptStatic, CssStatic]"

text \<open>A value is accepted when it is the name of one of the constants.\<close>

definition parse_name :: "('a \<Rightarrow> string) \<Rightarrow> 'a list \<Rightarrow> string \<Rightarrow> json option \<Rightarrow> 'a parsed" where
  "parse_name name_of alternatives what v =
     (case v of
        Some (JStr s) \<Rightarrow>
          (case List.find (\<lambda>a. name_of a = s) alternatives of
             Some a \<Rightarrow> Inr a
           | None \<Rightarrow> Inl (MalformedValue what))
      | _ \<Rightarrow> Inl (MalformedValue what))"

definition parseSource :: "json option \<Rightarrow> crawl_source parsed" where
  "parseSource v = parse_name source_name all_sources ''source'' v"

definition parseMethod :: "json option \<Rightarrow> request_method parsed" where
  "parseMethod v = parse_name method_name [GET, HEAD] ''method'' v"

definition parseRenderPolicy :: "json option \<Rightarrow> render_policy parsed" where
  "parseRenderPolicy v =
     parse_name render_policy_name [RenderNever, RenderAuto, RenderAlways] ''render policy'' v"

fun string_entries :: "string \<Rightarrow> (string \<times> json) list \<Rightarrow> (string \<times> string) list \<Rightarrow> (string \<times> string) list parsed" where
  "string_entries name [] out = Inr out"
| "string_entries name ((k, JStr s) # fs) out = string_entries name fs (map_set k s out)"
| "string_entries name ((k, _) # fs) out = Inl (MalformedValue name)"

definition parseStringRecord :: "json option \<Rightarrow> string \<Rightarrow> (string \<times> string) list parsed" where
  "parseStringRecord v name = bind_result (record_of v name) (\<lambda>fs. string_entries name fs [])"

fun string_items :: "string \<Rightarrow> json list \<Rightarrow> string list parsed" where
  "string_items name [] = Inr []"
| "string_items name (JStr s # vs) = bind_result (string_items name vs) (\<lambda>ss. Inr (s # ss))"
| "string_items name (_ # vs) = Inl (MalformedValue name)"

definition parseStringArray :: "json option \<Rightarrow> string \<Rightarrow> string list parsed" where
  "parseStringArray v name =
     (case v of Some (JArr vs) \<Rightarrow> string_items name vs | _ \<Rightarrow> Inl (MalformedValue name))"

definition request_fields :: "string list" where
  "request_fields = [''schemaId'', ''schemaVersion'', ''id'', ''uniqueKey'', ''rawUrl'', ''resolvedUrl'',
     ''normalizedUrl'', ''referrerUrl'', ''source'', ''seedUrl'', ''seedLabel'', ''depth'',
     ''sitemapIndexDepth'', ''sitemapAncestors'', ''priority'', ''method'', ''headers'',
     ''renderPolicy'', ''retryCount'', ''maxRetries'', ''createdAt'', ''updatedAt'', ''userData'']"

definition parseCrawlRequest :: "(string \<Rightarrow> timestamp) \<Rightarrow> json option \<Rightarrow> crawl_request parsed" where
  "parseCrawlRequest date v =
     bind_result (exactRecord v ''crawl request'' request_fields) (\<lambda>q.
     bind_result (assertCurrentSchema q ''site-crawler.request'' ''Crawl request'') (\<lambda>_.
     bind_result (stringField q ''id'') (\<lambda>id'.
     bind_result (stringField q ''uniqueKey'') (\<lambda>uniqueKey.
     bind_result (stringField q ''rawUrl'') (\<lambda>rawUrl.
     bind_result (stringField q ''resolvedUrl'') (\<lambda>resolvedUrl.
     bind_result (stringField q ''normalizedUrl'') (\<lambda>normalizedUrl.
     bind_result (nullableStringField q ''referrerUrl'') (\<lambda>referrerUrl.
     bind_result (parseSource (field q ''source'')) (\<lambda>source.
     bind_result (stringField q ''seedUrl'') (\<lambda>seedUrl.
     bind_result (nullableStringField q ''seedLabel'') (\<lambda>seedLabel.
     bind_result (numberField q ''depth'') (\<lambda>depth'.
     bind_result (numberField q ''sitemapIndexDepth'') (\<lambda>sitemapIndexDepth.
     bind_result (parseStringArray (field q ''sitemapAncestors'') ''sitemap ancestors'') (\<lambda>sitemapAncestors.
     bind_result (numberField q ''priority'') (\<lambda>priority.
     bind_result (parseMethod (field q ''method'')) (\<lambda>method'.
     bind_result (parseStringRecord (field q ''headers'') ''request headers'') (\<lambda>headers.
     bind_result (parseRenderPolicy (field q ''renderPolicy'')) (\<lambda>renderPolicy.
     bind_result (numberField q ''retryCount'') (\<lambda>retryCount.
     bind_result (numberField q ''maxRetries'') (\<lambda>maxRetries.
     bind_result (stringField q ''createdAt'') (\<lambda>createdAt.
     bind_result (stringField q ''updatedAt'') (\<lambda>updatedAt.
     bind_result (record_of (field q ''userData'') ''request userData'') (\<lambda>userData.
       Inr \<lparr>rq_id = id', rq_uniqueKey = uniqueKey, rq_rawUrl = rawUrl, rq_resolvedUrl = resolvedUrl,
            rq_normalizedUrl = normalizedUrl, rq_referrerUrl = referrerUrl, rq_source = source,
            rq_seedUrl = seedUrl, rq_seedLabel = seedLabel, rq_depth = depth',
            rq_sitemapIndexDepth = sitemapIndexDepth, rq_sitemapAncestors = sitemapAncestors,
            rq_priority = priority, rq_method = method', rq_headers = headers,
            rq_renderPolicy = renderPolicy, rq_retryCount = retryCount, rq_maxRetries = maxRetries,
            rq_createdAt = date createdAt, rq_updatedAt = date updatedAt,
            rq_userData = userData\<rparr>)))))))))))))))))))))))"

section \<open>Decoding a journal record\<close>

definition tryParseRequest :: "(string \<Rightarrow> timestamp) \<Rightarrow> json option \<Rightarrow> crawl_request option" where
  "tryParseRequest date v = (case parseCrawlRequest date v of Inr r \<Rightarrow> Some r | Inl e \<Rightarrow> None)"

fun objectRecord :: "json \<Rightarrow> (string \<times> json) list option" where
  "objectRecord (JObj fs) = Some fs"
| "objectRecord _ = None"

fun stringValue :: "json option \<Rightarrow> string option" where
  "stringValue (Some (JStr s)) = Some s"
| "stringValue _ = None"

text \<open>\<open>None\<close> is the source's \<open>undefined\<close>, the result for a value that is neither.\<close>

fun nullableString :: "json option \<Rightarrow> string option option" where
  "nullableString (Some JNull) = Some None"
| "nullableString (Some (JStr s)) = Some (Some s)"
| "nullableString _ = None"

fun positive_integer :: "json option \<Rightarrow> nat option" where
  "positive_integer (Some (JNum n)) = (if of_int \<lfloor>n\<rfloor> = n \<and> 0 < n then Some (nat \<lfloor>n\<rfloor>) else None)"
| "positive_integer _ = None"

definition terminal_type :: "string \<Rightarrow> terminal_request_state option" where
  "terminal_type s = List.find (\<lambda>t. terminal_name t = s) [Handled, Failed, Skipped, Cancelled]"

definition decode_lease ::
  "(string \<Rightarrow> timestamp) \<Rightarrow> (string \<Rightarrow> string \<Rightarrow> timestamp \<Rightarrow> journal_body) \<Rightarrow> (string \<times> json) list \<Rightarrow> journal_body option"
where
  "decode_lease date con fs =
     Option.bind (stringValue (field fs ''requestId'')) (\<lambda>i.
     Option.bind (stringValue (field fs ''leaseId'')) (\<lambda>l.
     Option.bind (stringValue (field fs ''expiresAt'')) (\<lambda>e. Some (con i l (date e)))))"

definition decode_closing ::
  "(string \<Rightarrow> string \<Rightarrow> string option \<Rightarrow> journal_body) \<Rightarrow> (string \<times> json) list \<Rightarrow> journal_body option"
where
  "decode_closing con fs =
     Option.bind (stringValue (field fs ''requestId'')) (\<lambda>i.
     Option.bind (stringValue (field fs ''leaseId'')) (\<lambda>l.
     Option.bind (nullableString (field fs ''reason'')) (\<lambda>m. Some (con i l m))))"

definition decode_body :: "(string \<Rightarrow> timestamp) \<Rightarrow> (string \<times> json) list \<Rightarrow> journal_body option" where
  "decode_body date fs =
     (case field fs ''type'' of
        Some (JStr t) \<Rightarrow>
          if t = ''enqueued''
          then map_option JEnqueued (tryParseRequest date (field fs ''request''))
          else if t = ''leased'' then decode_lease date JLeased fs
          else if t = ''renewed'' then decode_lease date JRenewed fs
          else (case terminal_type t of
                  Some s \<Rightarrow> decode_closing (JFinished s) fs
                | None \<Rightarrow> if t = ''released'' then decode_closing JReleased fs else None)
      | _ \<Rightarrow> None)"

definition decodeJournalRecord :: "(string \<Rightarrow> timestamp) \<Rightarrow> json \<Rightarrow> journal_record option" where
  "decodeJournalRecord date v =
     Option.bind (objectRecord v) (\<lambda>fs.
       if \<not> hasCurrentSchema fs ''site-crawler.frontierJournal'' then None
       else Option.bind (positive_integer (field fs ''sequence'')) (\<lambda>sequence.
            Option.bind (nullableString (field fs ''previousChecksum'')) (\<lambda>previousChecksum.
            Option.bind (stringValue (field fs ''checksum'')) (\<lambda>checksum.
            Option.bind (stringValue (field fs ''createdAt'')) (\<lambda>createdAt.
            Option.bind (decode_body date fs) (\<lambda>body.
              Some \<lparr>jr_sequence = sequence, jr_previousChecksum = previousChecksum,
                    jr_checksum = checksum,
                    jr_entry = \<lparr>ur_body = body, ur_createdAt = date createdAt\<rparr>\<rparr>))))))"

end
