(* ===== verification/Stored_Records.thy ===== *)
theory Stored_Records
  imports Record_Codec Contract_Properties Journal_File Scheduler
begin

text \<open>
  What the program persists passes its own contracts and is read back unchanged: the records the
  scheduler hands to the store, and the records of the frontier journal.
\<close>

section \<open>Reading what was written\<close>

lemma foldl_map_set_distinct:
  "\<lbrakk> distinct (map fst fs); set (map fst fs) \<inter> set (map fst out) = {} \<rbrakk>
     \<Longrightarrow> foldl (\<lambda>out (k, x). map_set k x out) out fs = out @ fs"
proof (induction fs arbitrary: out)
  case (Cons a fs)
  obtain k x where a: "a = (k, x)" by (cases a)
  with Cons.prems have "map_of out k = None" by (auto simp: map_of_eq_None_iff)
  then have "map_set k x out = out @ [(k, x)]" by (rule map_set_new)
  with Cons a show ?case by simp
qed simp

lemma record_of_object: "distinct (map fst fs) \<Longrightarrow> record_of (Some (JObj fs)) name = Inr fs"
  by (simp add: record_of_def foldl_map_set_distinct)

lemma string_entries_distinct:
  "\<lbrakk> distinct (map fst fs); set (map fst fs) \<inter> set (map fst out) = {} \<rbrakk>
     \<Longrightarrow> string_entries name (map (\<lambda>(k, v). (k, JStr v)) fs) out = Inr (out @ fs)"
proof (induction fs arbitrary: out)
  case (Cons a fs)
  obtain k v where a: "a = (k, v)" by (cases a)
  with Cons.prems have "map_of out k = None" by (auto simp: map_of_eq_None_iff)
  then have "map_set k v out = out @ [(k, v)]" by (rule map_set_new)
  with Cons a show ?case by simp
qed simp

lemma parseStringRecord_written:
  assumes "distinct (map fst fs)"
  shows "parseStringRecord (Some (JObj (map (\<lambda>(k, v). (k, JStr v)) fs))) name = Inr fs"
proof -
  let ?fs = "map (\<lambda>(k, v). (k, JStr v)) fs"
  have "map fst ?fs = map fst fs" by (induction fs) auto
  with assms have "record_of (Some (JObj ?fs)) name = Inr ?fs" by (simp only: record_of_object)
  moreover have "string_entries name ?fs [] = Inr fs"
    using string_entries_distinct [of fs "[]" name] assms by simp
  ultimately show ?thesis unfolding parseStringRecord_def by (simp only: bind_result_simps)
qed

lemma string_items_written [simp]: "string_items name (map JStr ss) = Inr ss"
  by (induction ss) simp_all

lemma parseSource_written [simp]: "parseSource (Some (JStr (source_name s))) = Inr s"
  by (cases s; simp add: parseSource_def parse_name_def all_sources_def)

lemma parseMethod_written [simp]: "parseMethod (Some (JStr (method_name m))) = Inr m"
  by (cases m; simp add: parseMethod_def parse_name_def)

lemma parseRenderPolicy_written [simp]: "parseRenderPolicy (Some (JStr (render_policy_name p))) = Inr p"
  by (cases p; simp add: parseRenderPolicy_def parse_name_def)

lemma terminal_type_written [simp]: "terminal_type (terminal_name t) = Some t"
  by (cases t; simp add: terminal_type_def)

lemma terminal_type_released [simp]: "terminal_type ''released'' = None"
  by (simp add: terminal_type_def)

lemma terminal_name_other [simp]:
  "terminal_name t \<noteq> ''enqueued''" "terminal_name t \<noteq> ''leased''" "terminal_name t \<noteq> ''renewed''"
  "terminal_name t \<noteq> ''released''"
  by (cases t; simp)+

lemma opt_str_written [simp]: "nullableString (Some (opt_str m)) = Some m"
  by (cases m) simp_all

lemma field_simps_written [simp]:
  "field ((k, x) # fs) k' = (if k' = k then Some x else field fs k')"
  "field [] k' = None"
  by (auto simp: field_def)

definition request_wf :: "crawl_request \<Rightarrow> bool" where
  "request_wf r \<longleftrightarrow> distinct (map fst (rq_headers r)) \<and> distinct (map fst (rq_userData r))"

lemma nullableStringField_written:
  "field fs k = Some (opt_str m) \<Longrightarrow> nullableStringField fs k = Inr m"
  by (cases m) (simp_all add: nullableStringField_def)

lemma parseCrawlRequest_written:
  assumes "\<forall>t. date (iso_of t) = t" and "request_wf r"
  shows "parseCrawlRequest date (Some (crawl_request_json iso_of r)) = Inr r"
proof -
  obtain fs where fs: "crawl_request_json iso_of r = JObj fs"
    by (simp add: crawl_request_json_def)
  note fs_def = fs [unfolded crawl_request_json_def schema_identity_def json.inject, symmetric]
  have keys: "map fst fs = request_fields"
    unfolding fs_def by (simp add: request_fields_def)
  have "distinct (map fst fs)" unfolding keys by code_simp
  then have exact: "exactRecord (Some (JObj fs)) ''crawl request'' request_fields = Inr fs"
    by (simp add: exactRecord_def record_of_object keys Let_def)
  have schema: "assertCurrentSchema fs ''site-crawler.request'' ''Crawl request'' = Inr ()"
    unfolding fs_def
    by (simp add: assertCurrentSchema_def hasCurrentSchema_def SITE_CRAWLER_SCHEMA_VERSION_def)
  have strings:
    "stringField fs ''id'' = Inr (rq_id r)"
    "stringField fs ''uniqueKey'' = Inr (rq_uniqueKey r)"
    "stringField fs ''rawUrl'' = Inr (rq_rawUrl r)"
    "stringField fs ''resolvedUrl'' = Inr (rq_resolvedUrl r)"
    "stringField fs ''normalizedUrl'' = Inr (rq_normalizedUrl r)"
    "stringField fs ''seedUrl'' = Inr (rq_seedUrl r)"
    "stringField fs ''createdAt'' = Inr (iso_of (rq_createdAt r))"
    "stringField fs ''updatedAt'' = Inr (iso_of (rq_updatedAt r))"
    "numberField fs ''depth'' = Inr (rq_depth r)"
    "numberField fs ''sitemapIndexDepth'' = Inr (rq_sitemapIndexDepth r)"
    "numberField fs ''priority'' = Inr (rq_priority r)"
    "numberField fs ''retryCount'' = Inr (rq_retryCount r)"
    "numberField fs ''maxRetries'' = Inr (rq_maxRetries r)"
    unfolding fs_def by (simp_all add: stringField_def numberField_def)
  have fields:
    "field fs ''referrerUrl'' = Some (opt_str (rq_referrerUrl r))"
    "field fs ''seedLabel'' = Some (opt_str (rq_seedLabel r))"
    "field fs ''source'' = Some (JStr (source_name (rq_source r)))"
    "field fs ''method'' = Some (JStr (method_name (rq_method r)))"
    "field fs ''renderPolicy'' = Some (JStr (render_policy_name (rq_renderPolicy r)))"
    "field fs ''sitemapAncestors'' = Some (JArr (map JStr (rq_sitemapAncestors r)))"
    "field fs ''headers'' = Some (JObj (map (\<lambda>(k, v). (k, JStr v)) (rq_headers r)))"
    "field fs ''userData'' = Some (JObj (rq_userData r))"
    unfolding fs_def by simp_all
  have objects: "parseStringRecord (field fs ''headers'') ''request headers'' = Inr (rq_headers r)"
    "record_of (field fs ''userData'') ''request userData'' = Inr (rq_userData r)"
    using assms(2) unfolding fields by (simp_all add: request_wf_def parseStringRecord_written record_of_object)
  show ?thesis
    unfolding fs parseCrawlRequest_def exact schema objects
    using assms(1)
    by (simp add: schema strings fields objects [unfolded fields] nullableStringField_written parseStringArray_def)
qed

fun body_wf :: "journal_body \<Rightarrow> bool" where
  "body_wf (JEnqueued r) \<longleftrightarrow> request_wf r"
| "body_wf _ \<longleftrightarrow> True"

lemma journal_record_decodes:
  assumes "\<forall>t. date (iso_of t) = t" and "0 < jr_sequence j" and "body_wf (ur_body (jr_entry j))"
  shows "decodeJournalRecord date (journal_json iso_of j) = Some j"
proof -
  obtain fs where fs: "journal_json iso_of j = JObj fs"
    by (simp add: journal_json_def Let_def)
  note fs_def = fs [unfolded journal_json_def schema_identity_def Let_def json.inject, symmetric]
  have base: "hasCurrentSchema fs ''site-crawler.frontierJournal''"
    "field fs ''sequence'' = Some (JNum (of_nat (jr_sequence j)))"
    "field fs ''previousChecksum'' = Some (opt_str (jr_previousChecksum j))"
    "field fs ''checksum'' = Some (JStr (jr_checksum j))"
    "field fs ''createdAt'' = Some (JStr (iso_of (ur_createdAt (jr_entry j))))"
    unfolding fs_def
    by (cases "ur_body (jr_entry j)";
        simp add: hasCurrentSchema_def SITE_CRAWLER_SCHEMA_VERSION_def)+
  have body: "decode_body date fs = Some (ur_body (jr_entry j))"
    unfolding fs_def using assms
    by (cases "ur_body (jr_entry j)")
       (simp_all add: decode_body_def decode_lease_def decode_closing_def tryParseRequest_def
          parseCrawlRequest_written)
  show ?thesis
    unfolding fs decodeJournalRecord_def using base body assms
    by simp
qed

text \<open>
  C5: The journal codec loses nothing: a journal record whose sequence number is positive, written as the
  object that \<open>appendSerialized\<close> serialises, is decoded by \<open>decodeJournalRecord\<close> to itself. Times
  survive because \<open>Date.parse\<close> inverts \<open>toISOString\<close>; the headers and the user data of a request
  are objects, so their keys are distinct.
\<close>

theorem journal_codec_roundtrip:
  assumes "\<forall>t. date (iso_of t) = t" and "0 < jr_sequence j" and "body_wf (ur_body (jr_entry j))"
  shows "decodeJournalRecord date (journal_json iso_of j) = Some j"
  by (rule journal_record_decodes [OF assms])

definition sample_iso :: "timestamp \<Rightarrow> string" where
  "sample_iso t = (if t < 0 then ''-'' else []) @ replicate (nat \<bar>t\<bar>) CHR ''1''"

definition sample_date :: "string \<Rightarrow> timestamp" where
  "sample_date s = (case s of c # cs \<Rightarrow> (if c = CHR ''-'' then - int (length cs) else int (length s)) | [] \<Rightarrow> 0)"

lemma sample_date_iso: "\<forall>t. sample_date (sample_iso t) = t"
proof
  fix t
  show "sample_date (sample_iso t) = t"
    by (cases "nat \<bar>t\<bar>") (auto simp: sample_date_def sample_iso_def)
qed

lemma journal_codec_roundtrip_witness:
  "decodeJournalRecord sample_date (journal_json sample_iso (sample_journal sample_entries ! 0))
     = Some (sample_journal sample_entries ! 0)"
  by (rule journal_codec_roundtrip [OF sample_date_iso]) code_simp+

section \<open>The catalogue accepts what is written\<close>

lemma unique_index_result:
  "unique_index key_for cs index = Inr idx \<Longrightarrow>
     idx = index @ map (\<lambda>c. (key_for c, c)) cs \<and> distinct (map key_for cs)
     \<and> set (map key_for cs) \<inter> set (map fst index) = {}"
proof (induction cs arbitrary: index)
  case (Cons c cs)
  from Cons.prems have new: "map_of index (key_for c) = None"
    and rest: "unique_index key_for cs (index @ [(key_for c, c)]) = Inr idx"
    by (auto split: option.splits simp: map_set_new)
  from new have "key_for c \<notin> set (map fst index)" by (auto simp: map_of_eq_None_iff)
  with Cons.IH [OF rest] show ?case by auto
qed simp

lemma uniqueIndex_lookup:
  assumes "uniqueIndex key_for cs = Inr idx" and "c \<in> set cs"
  shows "map_of idx (key_for c) = Some c"
proof -
  from unique_index_result [OF assms(1) [unfolded uniqueIndex_def]]
  have idx: "idx = map (\<lambda>c. (key_for c, c)) cs" and "distinct (map key_for cs)" by auto
  then have "distinct (map fst idx)" by (simp add: comp_def)
  with assms(2) idx show ?thesis by (auto simp: map_of_eq_Some_iff)
qed

lemma validatePersistedRecord_accepts:
  assumes "uniqueIndex rt_schemaId (runtimeContracts predicates) = Inr idx"
    and "i < length persistentObjectDefinitions"
    and "isObjectContract v (persistentObjectDefinitions ! i)"
  shows "validatePersistedRecord idx v = Inr v"
proof -
  let ?o = "persistentObjectDefinitions ! i"
  have "list_all (\<lambda>o'. co_schemaVersion o' = 1) persistentObjectDefinitions"
    by (simp add: persistentObjectDefinitions_def crawlDefinitions_def documentDefinitions_def
        evidenceDefinitions_def operationsDefinitions_def contract_definition_def SITE_CRAWLER_SCHEMA_VERSION_def)
  with assms(2) have ver: "co_schemaVersion ?o = 1" by (simp add: list_all_length)
  have "objectContract ?o \<in> set (runtimeContracts predicates)"
    using assms(2) by (simp add: runtimeContracts_def)
  from uniqueIndex_lookup [OF assms(1) this] have look: "map_of idx (co_schemaId ?o) = Some (objectContract ?o)"
    by (simp add: objectContract_def)
  from assms(3) obtain fs where "v = JObj fs" "field fs ''schemaId'' = Some (JStr (co_schemaId ?o))"
    "field fs ''schemaVersion'' = Some (JNum 1)"
    using ver by (cases v) (auto simp: isObjectContract_def)
  with look assms(3) show ?thesis
    by (simp add: validatePersistedRecord_def isSchemaVersion_def objectContract_def contract_parse_def)
qed

text \<open>The definitions the records of the scheduler and of the journal fall under.\<close>

lemmas contract_unfolds =
  isObjectContract_def fieldsHaveType_def fieldsHaveNullableType_def optionalFieldsHaveType_def
  optionalFieldsHaveNullableType_def allowed_only_def contract_definition_def no_fields_def exactFields_def
  SITE_CRAWLER_SCHEMA_VERSION_def schema_identity_def

lemma persisted_nth:
  "persistentObjectDefinitions ! 3 = crawlDefinitions ! 3"
  "persistentObjectDefinitions ! 4 = crawlDefinitions ! 4"
  "persistentObjectDefinitions ! 5 = crawlDefinitions ! 5"
  "persistentObjectDefinitions ! 7 = crawlDefinitions ! 7"
  "persistentObjectDefinitions ! 9 = crawlDefinitions ! 9"
  "length persistentObjectDefinitions = 31"
  by (simp_all add: persistentObjectDefinitions_def crawlDefinitions_def documentDefinitions_def
        evidenceDefinitions_def operationsDefinitions_def nth_append)

lemma opt_str_cases: "opt_str m = JNull \<or> typeof_is (Some (opt_str m)) TyString"
  by (cases m) simp_all

lemma request_state_accepted:
  "isObjectContract (request_state_json iso_of r) (crawlDefinitions ! 5)"
  using opt_str_cases [of "rs_reason r"]
  by (simp add: request_state_json_def crawlDefinitions_def contract_unfolds)

lemma discovery_accepted:
  "isObjectContract (discovery_json iso_of r) (crawlDefinitions ! 4)"
  using opt_str_cases
  by (simp add: discovery_json_def crawlDefinitions_def contract_unfolds)

lemma request_accepted:
  "isObjectContract (crawl_request_json iso_of r) (crawlDefinitions ! 3)"
  using opt_str_cases
  by (simp add: crawl_request_json_def crawlDefinitions_def contract_unfolds)

lemma skipped_accepted:
  "isObjectContract (skipped_json iso_of r) (crawlDefinitions ! 7)"
  using opt_str_cases
  by (simp add: skipped_json_def crawlDefinitions_def contract_unfolds)

lemma crawl_request_json_object: "is_record (Some (crawl_request_json iso_of r))"
  by (simp add: crawl_request_json_def)

lemma journal_accepted:
  "isObjectContract (journal_json iso_of j) (crawlDefinitions ! 9)"
  using opt_str_cases crawl_request_json_object
  by (cases "ur_body (jr_entry j)")
     (simp_all add: journal_json_def crawlDefinitions_def contract_unfolds)

fun store_json :: "(timestamp \<Rightarrow> string) \<Rightarrow> store_record \<Rightarrow> json" where
  "store_json iso_of (WDiscovery d) = discovery_json iso_of d"
| "store_json iso_of (WRequest r) = crawl_request_json iso_of r"
| "store_json iso_of (WRequestState s) = request_state_json iso_of s"
| "store_json iso_of (WSkipped s) = skipped_json iso_of s"


definition sample_index :: "(string, runtime_contract) jsmap" where
  "sample_index = map (\<lambda>c. (rt_schemaId c, c)) (runtimeContracts [])"

lemma sample_index: "uniqueIndex rt_schemaId (runtimeContracts []) = Inr sample_index"
proof -
  have "distinct (map rt_schemaId (runtimeContracts []))"
    using definitions_distinct by (simp add: runtimeContracts_def comp_def objectContract_def)
  then show ?thesis
    using unique_index_distinct [of rt_schemaId "runtimeContracts []" "[]"]
    by (simp add: uniqueIndex_def sample_index_def)
qed


section \<open>The lines of the journal file\<close>

text \<open>
  With a \<open>JSON.stringify\<close> whose text is one non-blank line that \<open>JSON.parse\<close> inverts, the codec
  meets what \<open>Journal_File\<close> asks of a serialisation.
\<close>

definition codec_line :: "(json \<Rightarrow> string) \<Rightarrow> (timestamp \<Rightarrow> string) \<Rightarrow> journal_record \<Rightarrow> string" where
  "codec_line stringify iso_of j = stringify (journal_json iso_of j)"

definition codec_decode :: "(string \<Rightarrow> json option) \<Rightarrow> (string \<Rightarrow> timestamp) \<Rightarrow> string \<Rightarrow> decoded" where
  "codec_decode parse date line =
     (case parse line of
        None \<Rightarrow> Malformed
      | Some v \<Rightarrow> (case decodeJournalRecord date v of None \<Rightarrow> NotARecord | Some j \<Rightarrow> Decoded j))"

definition one_line :: "string \<Rightarrow> bool" where
  "one_line s \<longleftrightarrow> newline \<notin> set s \<and> s \<noteq> [] \<and> trim s = s"

lemma codec_line_ok:
  assumes "\<forall>v. parse (stringify v) = Some v" and "\<forall>v. one_line (stringify v)"
    and "\<forall>t. date (iso_of t) = t" and "0 < jr_sequence j" and "body_wf (ur_body (jr_entry j))"
  shows "line_ok (codec_line stringify iso_of) (codec_decode parse date) j"
  using assms(1,2) journal_record_decodes [OF assms(3-5)]
  by (simp add: line_ok_def codec_line_def codec_decode_def one_line_def)

end
