(* ===== verification/Run_Lock.thy ===== *)
theory Run_Lock
  imports Record_Codec
begin

text \<open>
  The lock of a run directory, class \<open>RunLock\<close> of \<open>frontier/run-lock.ts\<close>: a file
  \<open>run.lock.json\<close> that names its owner and carries a heartbeat.

  The file is what a read of it gives: no JSON (an empty or partly written file) or a JSON value.
  Times in the lock are texts; \<open>toISOString\<close>, \<open>Date.parse\<close> (\<open>None\<close> for NaN) and
  \<open>process.kill(pid, 0)\<close> come from the environment. Two views of \<open>acquire\<close> are given: the whole
  method as one function of the file, and the sequence of its file system calls, which other
  processes may interleave with theirs.
\<close>

section \<open>The lock file\<close>

record lock_record =
  lk_runId :: string
  lk_pid :: number
  lk_hostname :: string
  lk_createdAt :: string
  lk_heartbeatAt :: string

datatype lock_text = NotJson | JsonText json

definition lock_json :: "lock_record \<Rightarrow> json" where
  "lock_json r = JObj (schema_identity ''site-crawler.runLock'' @
     [(''runId'', JStr (lk_runId r)),
      (''pid'', JNum (lk_pid r)),
      (''hostname'', JStr (lk_hostname r)),
      (''createdAt'', JStr (lk_createdAt r)),
      (''heartbeatAt'', JStr (lk_heartbeatAt r))])"

definition decode_lock_fields :: "(string \<times> json) list \<Rightarrow> lock_record option" where
  "decode_lock_fields fs =
     (if \<not> hasCurrentSchema fs ''site-crawler.runLock'' then None
      else (case (field fs ''runId'', field fs ''pid'', field fs ''hostname'', field fs ''createdAt'',
                  field fs ''heartbeatAt'') of
              (Some (JStr run), Some (JNum pid), Some (JStr host), Some (JStr created), Some (JStr beat)) \<Rightarrow>
                Some \<lparr>lk_runId = run, lk_pid = pid, lk_hostname = host, lk_createdAt = created,
                      lk_heartbeatAt = beat\<rparr>
            | _ \<Rightarrow> None))"

definition decodeLock :: "json \<Rightarrow> lock_record option" where
  "decodeLock v = (case v of JObj fs \<Rightarrow> decode_lock_fields fs | _ \<Rightarrow> None)"

section \<open>Processes and their environment\<close>

record lock_process =
  lp_runId :: string
  lp_pid :: number
  lp_hostname :: string
  lp_staleMs :: int
  lp_locks :: bool                 \<comment> \<open>\<open>filePath !== null\<close>\<close>

record lock_env =
  le_now :: timestamp
  le_iso :: "timestamp \<Rightarrow> string"
  le_date :: "string \<Rightarrow> timestamp option"
  le_signal :: "string \<Rightarrow> number \<Rightarrow> bool"   \<comment> \<open>on that host, signal 0 reaches the process\<close>
  le_contracts :: "(string, runtime_contract) jsmap"

datatype lock_error =
    AlreadyOwned number string
  | LockExists
  | LockRejected contract_error

section \<open>Operations\<close>

definition own_record :: "lock_env \<Rightarrow> lock_process \<Rightarrow> lock_record" where
  "own_record env p =
     \<lparr>lk_runId = lp_runId p, lk_pid = lp_pid p, lk_hostname = lp_hostname p,
      lk_createdAt = le_iso env (le_now env), lk_heartbeatAt = le_iso env (le_now env)\<rparr>"

definition create_lock :: "lock_env \<Rightarrow> lock_process \<Rightarrow> lock_text option \<Rightarrow> (lock_error, lock_text) result" where
  "create_lock env p file =
     (let r = lock_json (own_record env p)
      in case validatePersistedRecord (le_contracts env) r of
           Inl e \<Rightarrow> Inl (LockRejected e)
         | Inr _ \<Rightarrow> (case file of Some t \<Rightarrow> Inl LockExists | None \<Rightarrow> Inr (JsonText r)))"

definition readExisting :: "lock_text option \<Rightarrow> lock_record option" where
  "readExisting file = (case file of Some (JsonText v) \<Rightarrow> decodeLock v | _ \<Rightarrow> None)"

definition isActive :: "lock_env \<Rightarrow> lock_process \<Rightarrow> lock_record \<Rightarrow> bool" where
  "isActive env p r =
     (let heartbeatFresh = (case le_date env (lk_heartbeatAt r) of
                              None \<Rightarrow> False
                            | Some t \<Rightarrow> le_now env - t < lp_staleMs p)
      in if \<not> heartbeatFresh then False
         else if lk_hostname r \<noteq> lp_hostname p then True
         else le_signal env (lp_hostname p) (lk_pid r))"

text \<open>The result of \<open>acquire\<close> is the value of \<open>owned\<close> after it returns.\<close>

definition acquire ::
  "lock_env \<Rightarrow> lock_process \<Rightarrow> lock_text option \<Rightarrow> (lock_error, bool) result \<times> lock_text option"
where
  "acquire env p file =
     (if \<not> lp_locks p then (Inr False, file)
      else case create_lock env p file of
             Inr t \<Rightarrow> (Inr True, Some t)
           | Inl LockExists \<Rightarrow>
               (case readExisting file of
                  Some r \<Rightarrow>
                    if isActive env p r then (Inl (AlreadyOwned (lk_pid r) (lk_hostname r)), file)
                    else (case create_lock env p None of
                            Inr t \<Rightarrow> (Inr True, Some t)
                          | Inl e \<Rightarrow> (Inl e, None))
                | None \<Rightarrow>
                    (case create_lock env p None of
                       Inr t \<Rightarrow> (Inr True, Some t)
                     | Inl e \<Rightarrow> (Inl e, None)))
           | Inl e \<Rightarrow> (Inl e, file))"

definition lock_release :: "lock_process \<Rightarrow> bool \<Rightarrow> lock_text option \<Rightarrow> lock_text option" where
  "lock_release p owned file =
     (if \<not> owned \<or> \<not> lp_locks p then file
      else (case readExisting file of
              Some r \<Rightarrow> if lk_pid r = lp_pid p \<and> lk_runId r = lp_runId p then None else file
            | None \<Rightarrow> file))"

definition writeHeartbeat :: "lock_env \<Rightarrow> lock_process \<Rightarrow> lock_text option \<Rightarrow> lock_text option" where
  "writeHeartbeat env p file =
     (if \<not> lp_locks p then file
      else (case readExisting file of
              None \<Rightarrow> file
            | Some r \<Rightarrow>
                if lk_pid r \<noteq> lp_pid p then file
                else (let updated = lock_json (r\<lparr>lk_heartbeatAt := le_iso env (le_now env)\<rparr>)
                      in case validatePersistedRecord (le_contracts env) updated of
                           Inl e \<Rightarrow> file
                         | Inr _ \<Rightarrow> Some (JsonText updated))))"

section \<open>The file system calls of \<open>acquire\<close>\<close>

text \<open>
  The directory entry of the lock names an inode, and an open handle writes to its inode whether
  or not the entry still names it. Where a process is in \<open>acquire\<close>: before the exclusive open of
  \<open>create\<close>, with an open handle and nothing written, after the open failed because the file
  exists, after it decided to remove that file, before the second open, done.
\<close>

datatype lock_pc =
    PcStart
  | PcWriting nat
  | PcExists
  | PcRemove
  | PcRecreate
  | PcOwned
  | PcFailed lock_error

record lock_system =
  ly_entry :: "nat option"
  ly_inodes :: "lock_text list"
  ly_pcs :: "lock_pc list"

definition lock_file :: "lock_system \<Rightarrow> lock_text option" where
  "lock_file s = map_option (\<lambda>n. ly_inodes s ! n) (ly_entry s)"

definition set_pc :: "nat \<Rightarrow> lock_pc \<Rightarrow> lock_system \<Rightarrow> lock_system" where
  "set_pc i pc s = s\<lparr>ly_pcs := (ly_pcs s)[i := pc]\<rparr>"

text \<open>An exclusive open (\<open>"wx"\<close>): a new empty file, or \<open>exists_pc\<close> when there is an entry.\<close>

definition open_exclusive ::
  "lock_env \<Rightarrow> lock_process \<Rightarrow> nat \<Rightarrow> lock_pc \<Rightarrow> lock_system \<Rightarrow> lock_system"
where
  "open_exclusive env p i exists_pc s =
     (case validatePersistedRecord (le_contracts env) (lock_json (own_record env p)) of
        Inl e \<Rightarrow> set_pc i (PcFailed (LockRejected e)) s
      | Inr _ \<Rightarrow>
          (case ly_entry s of
             Some n \<Rightarrow> set_pc i exists_pc s
           | None \<Rightarrow>
               set_pc i (PcWriting (length (ly_inodes s)))
                 (s\<lparr>ly_entry := Some (length (ly_inodes s)), ly_inodes := ly_inodes s @ [NotJson]\<rparr>)))"

definition micro_step :: "lock_env \<Rightarrow> lock_process list \<Rightarrow> nat \<Rightarrow> lock_system \<Rightarrow> lock_system" where
  "micro_step env ps i s =
     (let p = ps ! i in
      case ly_pcs s ! i of
        PcStart \<Rightarrow> open_exclusive env p i PcExists s
      | PcWriting n \<Rightarrow>
          set_pc i PcOwned (s\<lparr>ly_inodes := (ly_inodes s)[n := JsonText (lock_json (own_record env p))]\<rparr>)
      | PcExists \<Rightarrow>
          (case readExisting (lock_file s) of
             Some r \<Rightarrow>
               if isActive env p r then set_pc i (PcFailed (AlreadyOwned (lk_pid r) (lk_hostname r))) s
               else set_pc i PcRemove s
           | None \<Rightarrow> set_pc i PcRemove s)
      | PcRemove \<Rightarrow> set_pc i PcRecreate (s\<lparr>ly_entry := None\<rparr>)
      | PcRecreate \<Rightarrow> open_exclusive env p i (PcFailed LockExists) s
      | PcOwned \<Rightarrow> s
      | PcFailed e \<Rightarrow> s)"

fun run_schedule :: "lock_env \<Rightarrow> lock_process list \<Rightarrow> nat list \<Rightarrow> lock_system \<Rightarrow> lock_system" where
  "run_schedule env ps [] s = s"
| "run_schedule env ps (i # is) s = run_schedule env ps is (micro_step env ps i s)"

definition lock_owners :: "lock_system \<Rightarrow> nat list" where
  "lock_owners s = filter (\<lambda>i. ly_pcs s ! i = PcOwned) [0..<length (ly_pcs s)]"

end
