(* ===== verification/Lock_Properties.thy ===== *)
theory Lock_Properties
  imports Run_Lock Stored_Records
begin

text \<open>
  Mutual exclusion of the run lock when its operations are atomic and owners beat in time, the
  relation of the atomic operation to its file system calls, and the race between these calls.
\<close>

section \<open>Atomic operations\<close>

definition catalogued :: "lock_env \<Rightarrow> bool" where
  "catalogued env \<longleftrightarrow> (\<exists>predicates. uniqueIndex rt_schemaId (runtimeContracts predicates) = Inr (le_contracts env))"

lemma decodeLock_json [simp]: "decodeLock (lock_json r) = Some r"
  by (simp add: decodeLock_def lock_json_def schema_identity_def decode_lock_fields_def hasCurrentSchema_def
      SITE_CRAWLER_SCHEMA_VERSION_def)

lemma readExisting_json [simp]: "readExisting (Some (JsonText (lock_json r))) = Some r"
  "readExisting None = None" "readExisting (Some NotJson) = None"
  by (simp_all add: readExisting_def)

lemma persisted_lock: "persistentObjectDefinitions ! 11 = crawlDefinitions ! 11"
  by (simp add: persistentObjectDefinitions_def crawlDefinitions_def nth_append)

lemma lock_accepted:
  assumes "catalogued env"
  shows "validatePersistedRecord (le_contracts env) (lock_json r) = Inr (lock_json r)"
proof -
  have "isObjectContract (lock_json r) (crawlDefinitions ! 11)"
    by (simp add: lock_json_def crawlDefinitions_def contract_unfolds)
  with assms show ?thesis
    using validatePersistedRecord_accepts [of _ _ 11] unfolding persisted_lock
    by (auto simp: catalogued_def persisted_nth(6))
qed

text \<open>The file an owner leaves, and who is refused.\<close>

definition own_file :: "lock_env \<Rightarrow> lock_process \<Rightarrow> lock_text" where
  "own_file env p = JsonText (lock_json (own_record env p))"

definition held_against :: "lock_env \<Rightarrow> lock_process \<Rightarrow> lock_text option \<Rightarrow> bool" where
  "held_against env p f \<longleftrightarrow> (case readExisting f of None \<Rightarrow> False | Some r \<Rightarrow> isActive env p r)"

lemma acquire_cases:
  assumes "catalogued env" and "lp_locks p"
  shows "acquire env p f =
    (if held_against env p f
     then (Inl (AlreadyOwned (lk_pid (the (readExisting f))) (lk_hostname (the (readExisting f)))), f)
     else (Inr True, Some (own_file env p)))"
  using assms lock_accepted [OF assms(1)]
  by (cases f)
     (auto simp: acquire_def create_lock_def held_against_def own_file_def Let_def split: option.splits)

section \<open>Several processes\<close>

text \<open>
  \<open>lw_beat i\<close> is when the owner \<open>i\<close> last wrote its heartbeat. Time passes only as long as every
  owner's heartbeat stays fresh for every process; a crashed owner leaves its file behind.
\<close>

record lock_world =
  lw_file :: "lock_text option"
  lw_owned :: "nat set"
  lw_alive :: "nat set"
  lw_beat :: "nat \<Rightarrow> timestamp"
  lw_now :: timestamp

definition env_at :: "lock_env \<Rightarrow> lock_process list \<Rightarrow> lock_world \<Rightarrow> lock_env" where
  "env_at E ps w = E\<lparr>le_now := lw_now w,
     le_signal := (\<lambda>host pid. \<exists>i \<in> lw_alive w. lp_hostname (ps ! i) = host \<and> lp_pid (ps ! i) = pid)\<rparr>"

inductive lock_step :: "lock_env \<Rightarrow> lock_process list \<Rightarrow> lock_world \<Rightarrow> lock_world \<Rightarrow> bool"
  for E :: lock_env and ps :: "lock_process list"
where
  lock_acquire: "\<lbrakk> i < length ps; i \<in> lw_alive w; i \<notin> lw_owned w;
      acquire (env_at E ps w) (ps ! i) (lw_file w) = (Inr owned, f) \<rbrakk> \<Longrightarrow>
    lock_step E ps w (w\<lparr>lw_file := f, lw_owned := (if owned then insert i (lw_owned w) else lw_owned w),
                       lw_beat := (lw_beat w)(i := lw_now w)\<rparr>)"
| lock_refused: "\<lbrakk> i < length ps; i \<in> lw_alive w; i \<notin> lw_owned w;
      acquire (env_at E ps w) (ps ! i) (lw_file w) = (Inl e, f) \<rbrakk> \<Longrightarrow>
    lock_step E ps w (w\<lparr>lw_file := f\<rparr>)"
| lock_beat: "i \<in> lw_owned w \<Longrightarrow>
    lock_step E ps w (w\<lparr>lw_file := writeHeartbeat (env_at E ps w) (ps ! i) (lw_file w),
                       lw_beat := (lw_beat w)(i := lw_now w)\<rparr>)"
| lock_released: "i \<in> lw_alive w \<Longrightarrow>
    lock_step E ps w (w\<lparr>lw_file := lock_release (ps ! i) (i \<in> lw_owned w) (lw_file w),
                       lw_owned := lw_owned w - {i}\<rparr>)"
| lock_crash: "lock_step E ps w (w\<lparr>lw_owned := lw_owned w - {i}, lw_alive := lw_alive w - {i}\<rparr>)"
| lock_spawn: "lock_step E ps w (w\<lparr>lw_alive := insert i (lw_alive w)\<rparr>)"
| lock_tick: "\<lbrakk> 0 \<le> d; \<forall>i \<in> lw_owned w. \<forall>p \<in> set ps. lw_now w + d - lw_beat w i < lp_staleMs p \<rbrakk> \<Longrightarrow>
    lock_step E ps w (w\<lparr>lw_now := lw_now w + d\<rparr>)"

inductive lock_reachable :: "lock_env \<Rightarrow> lock_process list \<Rightarrow> lock_world \<Rightarrow> bool"
  for E :: lock_env and ps :: "lock_process list"
where
  lock_initial: "lw_owned w = {} \<Longrightarrow> lock_reachable E ps w"
| lock_next: "\<lbrakk> lock_reachable E ps w; lock_step E ps w w' \<rbrakk> \<Longrightarrow> lock_reachable E ps w'"

text \<open>No two processes have the same host and process id, and no lock is stale at once.\<close>

definition lock_group :: "lock_env \<Rightarrow> lock_process list \<Rightarrow> bool" where
  "lock_group E ps \<longleftrightarrow>
     distinct (map (\<lambda>p. (lp_hostname p, lp_pid p)) ps) \<and> (\<forall>p \<in> set ps. 0 < lp_staleMs p)
     \<and> catalogued E \<and> (\<forall>t. le_date E (le_iso E t) = Some t)"

definition names_owner :: "lock_env \<Rightarrow> lock_process list \<Rightarrow> lock_world \<Rightarrow> nat \<Rightarrow> bool" where
  "names_owner E ps w i \<longleftrightarrow>
     i < length ps \<and> i \<in> lw_alive w \<and>
     (\<exists>r. readExisting (lw_file w) = Some r \<and> lk_pid r = lp_pid (ps ! i) \<and> lk_hostname r = lp_hostname (ps ! i)
        \<and> le_date E (lk_heartbeatAt r) = Some (lw_beat w i))
     \<and> (\<forall>p \<in> set ps. lw_now w - lw_beat w i < lp_staleMs p)"

lemma env_at_simps [simp]:
  "le_now (env_at E ps w) = lw_now w" "le_iso (env_at E ps w) = le_iso E" "le_date (env_at E ps w) = le_date E"
  "catalogued (env_at E ps w) = catalogued E"
  by (simp_all add: env_at_def catalogued_def)

lemma names_owner_unique:
  "\<lbrakk> lock_group E ps; names_owner E ps w i; names_owner E ps w j \<rbrakk> \<Longrightarrow> i = j"
  by (auto simp: lock_group_def names_owner_def distinct_conv_nth) metis

lemma names_owner_held:
  assumes "names_owner E ps w i" and "j < length ps"
  shows "held_against (env_at E ps w) (ps ! j) (lw_file w)"
  using assms unfolding held_against_def names_owner_def isActive_def env_at_def
  by (auto simp: nth_mem)

lemma acquire_owned:
  assumes "catalogued env" and "acquire env p f = (Inr True, g)"
  shows "lp_locks p \<and> \<not> held_against env p f \<and> g = Some (own_file env p)"
  using assms acquire_cases [OF assms(1), of p f]
  by (cases "lp_locks p") (auto simp: acquire_def split: if_splits)

lemma acquire_not_owned:
  assumes "catalogued env" and "acquire env p f = (res, g)" and "res \<noteq> Inr True"
  shows "g = f"
  using assms acquire_cases [OF assms(1), of p f]
  by (cases "lp_locks p") (auto simp: acquire_def split: if_splits)

lemma writeHeartbeat_owner:
  assumes "catalogued env" and "lp_locks p" and "readExisting f = Some r" and "lk_pid r = lp_pid p"
  shows "writeHeartbeat env p f = Some (JsonText (lock_json (r\<lparr>lk_heartbeatAt := le_iso env (le_now env)\<rparr>)))"
  using assms lock_accepted [OF assms(1)] by (simp add: writeHeartbeat_def Let_def)

definition lock_inv :: "lock_env \<Rightarrow> lock_process list \<Rightarrow> lock_world \<Rightarrow> bool" where
  "lock_inv E ps w \<longleftrightarrow> (\<forall>i \<in> lw_owned w. names_owner E ps w i \<and> lp_locks (ps ! i))"

lemma lock_inv_owned:
  "\<lbrakk> lock_group E ps; lock_inv E ps w; i \<in> lw_owned w \<rbrakk> \<Longrightarrow> lw_owned w = {i}"
  unfolding lock_inv_def using names_owner_unique by blast

lemma lock_step_acquire:
  assumes group: "lock_group E ps" and inv: "lock_inv E ps w"
    and i: "i < length ps" "i \<in> lw_alive w"
    and acq: "acquire (env_at E ps w) (ps ! i) (lw_file w) = (Inr True, f)"
  shows "lock_inv E ps (w\<lparr>lw_file := f, lw_owned := insert i (lw_owned w), lw_beat := (lw_beat w)(i := lw_now w)\<rparr>)"
proof -
  from group have cat: "catalogued (env_at E ps w)" by (simp add: lock_group_def)
  from acquire_owned [OF cat acq] have locks: "lp_locks (ps ! i)"
    and free: "\<not> held_against (env_at E ps w) (ps ! i) (lw_file w)"
    and f: "f = Some (own_file (env_at E ps w) (ps ! i))" by auto
  from inv free i have "lw_owned w = {}" unfolding lock_inv_def using names_owner_held by blast
  with group i locks show ?thesis
    by (simp add: lock_inv_def names_owner_def f own_file_def own_record_def lock_group_def)
qed

lemma lock_step_inv:
  assumes group: "lock_group E ps" and step: "lock_step E ps w w'" and inv: "lock_inv E ps w"
  shows "lock_inv E ps w'"
  using step
proof cases
  case (lock_acquire i owned f)
  show ?thesis
  proof (cases owned)
    case True
    with lock_acquire lock_step_acquire [OF group inv] show ?thesis by simp
  next
    case False
    with lock_acquire acquire_not_owned [of "env_at E ps w" "ps ! i" "lw_file w"] group
    have "f = lw_file w" by (auto simp: lock_group_def)
    with lock_acquire False inv show ?thesis by (auto simp: lock_inv_def names_owner_def)
  qed
next
  case (lock_refused i e f)
  with acquire_not_owned [of "env_at E ps w" "ps ! i" "lw_file w"] group have "f = lw_file w"
    by (auto simp: lock_group_def)
  with lock_refused inv show ?thesis by (auto simp: lock_inv_def names_owner_def)
next
  case (lock_beat i)
  from inv lock_beat(2) have own: "names_owner E ps w i" "lp_locks (ps ! i)" by (auto simp: lock_inv_def)
  then obtain r where r: "readExisting (lw_file w) = Some r" "lk_pid r = lp_pid (ps ! i)"
    "lk_hostname r = lp_hostname (ps ! i)"
    by (auto simp: names_owner_def)
  from group have cat: "catalogued (env_at E ps w)" by (simp add: lock_group_def)
  note beat = writeHeartbeat_owner [OF cat own(2) r(1,2)]
  from lock_inv_owned [OF group inv lock_beat(2)] own r group show ?thesis
    unfolding lock_beat(1) beat
    by (simp add: lock_inv_def names_owner_def lock_group_def)
next
  case (lock_released i)
  show ?thesis
  proof (cases "i \<in> lw_owned w")
    case True
    with lock_inv_owned [OF group inv] lock_released show ?thesis by (simp add: lock_inv_def)
  next
    case False
    with inv show ?thesis unfolding lock_released(1) by (auto simp: lock_inv_def names_owner_def lock_release_def)
  qed
next
  case (lock_crash i)
  show ?thesis
  proof (cases "i \<in> lw_owned w")
    case True
    with lock_inv_owned [OF group inv] lock_crash show ?thesis by (simp add: lock_inv_def)
  next
    case False
    with inv show ?thesis unfolding lock_crash by (auto simp: lock_inv_def names_owner_def)
  qed
next
  case (lock_spawn i)
  with inv show ?thesis by (auto simp: lock_inv_def names_owner_def)
next
  case (lock_tick d)
  with inv show ?thesis by (auto simp: lock_inv_def names_owner_def)
qed

lemma lock_reachable_inv:
  assumes "lock_reachable E ps w" and group: "lock_group E ps"
  shows "lock_inv E ps w"
  using assms(1)
proof induction
  case (lock_initial w)
  then show ?case by (simp add: lock_inv_def)
next
  case (lock_next w w')
  then show ?case using lock_step_inv [OF group] by blast
qed

text \<open>
  C7: Mutual exclusion of the run lock. Whatever file is there at the start, while the operations of
  \<open>RunLock\<close> take effect one at a time, processes have distinct identities and owners beat before
  their heartbeat is stale, at most one process owns the lock at any time, and every attempt to
  acquire it meanwhile finds it held. Crashed owners, releases and new processes are included.
\<close>

theorem lock_mutual_exclusion:
  assumes "lock_group E ps" and "lock_reachable E ps w" and "i \<in> lw_owned w"
  shows "lw_owned w = {i} \<and> list_all (\<lambda>p. held_against (env_at E ps w) p (lw_file w)) ps"
proof
  note inv = lock_reachable_inv [OF assms(2,1)]
  from lock_inv_owned [OF assms(1) inv assms(3)] show "lw_owned w = {i}" .
  from inv assms(3) have "names_owner E ps w i" by (simp add: lock_inv_def)
  with names_owner_held show "list_all (\<lambda>p. held_against (env_at E ps w) p (lw_file w)) ps"
    by (auto simp: list_all_length)
qed

definition sample_process :: "number \<Rightarrow> lock_process" where
  "sample_process pid = \<lparr>lp_runId = ''run'', lp_pid = pid, lp_hostname = ''h'', lp_staleMs = 10, lp_locks = True\<rparr>"

definition sample_lock_env :: lock_env where
  "sample_lock_env = \<lparr>le_now = 0, le_iso = sample_iso, le_date = (\<lambda>s. Some (sample_date s)),
     le_signal = (\<lambda>host pid. True), le_contracts = sample_index\<rparr>"

abbreviation sample_processes :: "lock_process list" where
  "sample_processes \<equiv> [sample_process 1, sample_process 2]"

lemma sample_catalogued: "catalogued sample_lock_env"
  using sample_index by (auto simp: catalogued_def sample_lock_env_def)

lemma sample_lock_group: "lock_group sample_lock_env sample_processes"
  using sample_catalogued sample_date_iso
  by (simp add: lock_group_def sample_process_def sample_lock_env_def)

definition sample_world :: lock_world where
  "sample_world = \<lparr>lw_file = None, lw_owned = {}, lw_alive = {0, 1}, lw_beat = (\<lambda>_. 0), lw_now = 7\<rparr>"

lemma lock_mutual_exclusion_witness:
  "\<exists>w. lock_reachable sample_lock_env sample_processes w \<and> lw_owned w = {0}
     \<and> held_against (env_at sample_lock_env sample_processes w) (sample_process 2) (lw_file w)"
proof -
  let ?env = "env_at sample_lock_env sample_processes sample_world"
  let ?w = "sample_world\<lparr>lw_file := Some (own_file ?env (sample_process 1)), lw_owned := {0},
     lw_beat := (\<lambda>_. 0)(0 := 7)\<rparr>"
  have "acquire ?env (sample_process 1) None = (Inr True, Some (own_file ?env (sample_process 1)))"
    using acquire_cases [of ?env "sample_process 1" None] sample_catalogued
    by (simp add: held_against_def) (simp add: sample_process_def)
  then have "lock_step sample_lock_env sample_processes sample_world ?w"
    using lock_acquire [of 0 sample_processes sample_world sample_lock_env True]
    by (simp add: sample_world_def)
  moreover have "lock_reachable sample_lock_env sample_processes sample_world"
    by (rule lock_initial) (simp add: sample_world_def)
  ultimately have reach: "lock_reachable sample_lock_env sample_processes ?w" by (rule lock_next [rotated])
  from lock_mutual_exclusion [OF sample_lock_group reach, of 0] reach show ?thesis
    by (intro exI [of _ ?w]) simp
qed

section \<open>The file system calls\<close>

lemma open_exclusive_simps:
  assumes "catalogued env"
  shows "ly_entry s = None \<Longrightarrow> open_exclusive env p i pc s =
      set_pc i (PcWriting (length (ly_inodes s)))
        (s\<lparr>ly_entry := Some (length (ly_inodes s)), ly_inodes := ly_inodes s @ [NotJson]\<rparr>)"
    and "ly_entry s = Some n \<Longrightarrow> open_exclusive env p i pc s = set_pc i pc s"
  using lock_accepted [OF assms] by (simp_all add: open_exclusive_def)

text \<open>
  Run without interruption, the calls of \<open>acquire\<close> are the atomic operation: five calls of one
  process end with the file, and with the outcome, that \<open>acquire\<close> computes, for every file that may
  be there at the start.
\<close>

theorem acquire_refined_by_calls:
  assumes "catalogued env" and "lp_locks (ps ! i)" and "i < length (ly_pcs s)" and "ly_pcs s ! i = PcStart"
    and "case ly_entry s of None \<Rightarrow> True | Some n \<Rightarrow> n < length (ly_inodes s)"
  shows "lock_file (run_schedule env ps (replicate 5 i) s) = snd (acquire env (ps ! i) (lock_file s))
    \<and> ly_pcs (run_schedule env ps (replicate 5 i) s) ! i =
        (case fst (acquire env (ps ! i) (lock_file s)) of Inr b \<Rightarrow> PcOwned | Inl e \<Rightarrow> PcFailed e)"
proof -
  have five: "replicate 5 i = [i, i, i, i, i]" by (simp add: numeral_eq_Suc)
  note opens = open_exclusive_simps [OF assms(1)]
  note acq = acquire_cases [OF assms(1,2), of "lock_file s"]
  show ?thesis
  proof (cases "ly_entry s")
    case None
    then show ?thesis
      using assms(3,4) acq
      by (simp add: five micro_step_def opens set_pc_def lock_file_def held_against_def own_file_def)
  next
    case (Some n)
    show ?thesis
    proof (cases "held_against env (ps ! i) (lock_file s)")
      case True
      then obtain r where "readExisting (lock_file s) = Some r" "isActive env (ps ! i) r"
        by (auto simp: held_against_def split: option.splits)
      with Some True assms(3,4) acq show ?thesis
        by (simp add: five micro_step_def opens set_pc_def lock_file_def)
    next
      case False
      have remove: "micro_step env ps i (set_pc i PcExists s) = set_pc i PcRemove s"
        using False assms(3) Some
        by (auto simp: micro_step_def set_pc_def held_against_def lock_file_def split: option.splits)
      have first: "micro_step env ps i s = set_pc i PcExists s"
        using Some assms(4) by (simp add: micro_step_def opens)
      show ?thesis
        using Some False assms(3) acq unfolding five run_schedule.simps first remove
        by (simp add: micro_step_def opens set_pc_def lock_file_def own_file_def)
    qed
  qed
qed

definition fresh_system :: "nat \<Rightarrow> lock_system" where
  "fresh_system n = \<lparr>ly_entry = None, ly_inodes = [], ly_pcs = replicate n PcStart\<rparr>"

lemma acquire_refined_by_calls_witness:
  "lock_file (run_schedule sample_lock_env sample_processes (replicate 5 1) (fresh_system 2))
     = snd (acquire sample_lock_env (sample_process 2) None)"
  using acquire_refined_by_calls [OF sample_catalogued, of sample_processes 1 "fresh_system 2"]
  by (simp add: fresh_system_def lock_file_def) (simp add: sample_process_def)

text \<open>
  Interleaved, the calls do not exclude each other. With no lock file at the start, two
  processes that acquire the lock can both end as its owner: the second finds the file that the
  first has created but not yet written, cannot read it, takes it for abandoned and removes it.
\<close>

theorem lock_creation_race:
  assumes "catalogued env"
  shows "lock_owners (run_schedule env [p, q] [0, 1, 1, 1, 1, 1, 0] (fresh_system 2)) = [0, 1]"
  using open_exclusive_simps [OF assms]
  by (simp add: fresh_system_def micro_step_def set_pc_def lock_file_def lock_owners_def
      numeral_eq_Suc upt_rec)

lemma lock_creation_race_witness:
  "lock_owners (run_schedule sample_lock_env sample_processes [0, 1, 1, 1, 1, 1, 0] (fresh_system 2)) = [0, 1]"
  by (rule lock_creation_race [OF sample_catalogued])

end
