(* ===== verification/Http_Types.thy ===== *)
theory Http_Types
  imports Run_Controller Robots Url_Scope
begin

text \<open>
  The HTTP client's data (\<open>http/types.ts\<close>, \<open>http/result-factory.ts\<close>, \<open>http/redirect.ts\<close>,
  \<open>http/redirect-record.ts\<close>, the hop of \<open>resources/types.ts\<close>) and the translation of a transport
  result and of its error codes (\<open>http/fetcher.ts\<close>).

  The transport and its values are third-party: a response body is of a type \<open>'b\<close>, TLS facts, the
  protocol and the timings are what the code copies of them. \<open>Headers\<close> is a list of values by
  lower-case name, as the class of the platform keeps them.
\<close>

section \<open>Headers\<close>

type_synonym headers = "(string, string) jsmap"

definition headers_get :: "headers \<Rightarrow> string \<Rightarrow> string option" where
  "headers_get h name = map_of h (to_lower name)"

definition headers_has :: "headers \<Rightarrow> string \<Rightarrow> bool" where
  "headers_has h name \<longleftrightarrow> headers_get h name \<noteq> None"

definition headers_set :: "string \<Rightarrow> string \<Rightarrow> headers \<Rightarrow> headers" where
  "headers_set name v h = map_set (to_lower name) v h"

text \<open>A plain record of request headers keeps the case of its names.\<close>

definition hasHeader :: "(string, string) jsmap \<Rightarrow> string \<Rightarrow> bool" where
  "hasHeader h name \<longleftrightarrow> list_ex (\<lambda>k. to_lower k = name) (map fst h)"

section \<open>Results\<close>

datatype cache_status =
    CacheMiss | CacheStored | CacheRevalidated | CacheNotModifiedWithoutBody | CacheStaleOnError | CacheDisabled

record redirect_hop =
  rh_fromUrl :: string
  rh_toUrl :: string
  rh_statusCode :: int
  rh_hopIndex :: nat
  rh_validTarget :: bool
  rh_scopeAllowed :: "bool option"
  rh_robotsAllowed :: "bool option"
  rh_networkSafetyAllowed :: "bool option"
  rh_timestamp :: timestamp

record response_timings =
  tm_responseFieldsMs :: number
  tm_totalMs :: number

record 'b fetch_result =
  ft_statusCode :: "int option"
  ft_finalUrl :: "string option"
  ft_headers :: headers
  ft_body :: "'b option"
  ft_redirects :: "redirect_hop list"
  ft_responseTimeMs :: number
  ft_wireBytesRead :: "nat option"
  ft_decodedBytesRead :: "nat option"
  ft_remoteAddress :: "string option"
  ft_protocol :: "string option"
  ft_timings :: "response_timings option"
  ft_tls :: "string option"
  ft_cacheStatus :: cache_status
  ft_error :: "crawl_error option"

datatype rejection_kind = RejectDns | RejectPolicy

record redirect_target_decision =
  td_rejectionKind :: "rejection_kind option"
  td_allowed :: bool
  td_reason :: "string option"
  td_scopeAllowed :: "bool option"
  td_robotsAllowed :: "bool option"
  td_networkSafetyAllowed :: "bool option"

definition failure ::
  "timestamp \<Rightarrow> crawl_error_code \<Rightarrow> string \<Rightarrow> string \<Rightarrow> string \<Rightarrow> int option \<Rightarrow> headers \<Rightarrow> (string \<times> string) option \<Rightarrow> bool
     \<Rightarrow> 'b fetch_result"
where
  "failure now code message url requestId statusCode hs cause retryable =
     \<lparr>ft_statusCode = statusCode, ft_finalUrl = None, ft_headers = hs, ft_body = None,
      ft_redirects = [], ft_responseTimeMs = 0, ft_wireBytesRead = None, ft_decodedBytesRead = None,
      ft_remoteAddress = None, ft_protocol = None, ft_timings = None, ft_tls = None,
      ft_cacheStatus = CacheMiss,
      ft_error = Some (crawlError now code message (Some url) (Some requestId) (Some retryable) None None cause)\<rparr>"

definition withDuration :: "number \<Rightarrow> 'b fetch_result \<Rightarrow> 'b fetch_result" where
  "withDuration duration r =
     r\<lparr>ft_responseTimeMs := duration,
       ft_timings := map_option (\<lambda>t. t\<lparr>tm_totalMs := duration\<rparr>) (ft_timings r)\<rparr>"

section \<open>Redirects\<close>

definition isRedirectStatus :: "int \<Rightarrow> bool" where
  "isRedirectStatus status \<longleftrightarrow>
     status = 301 \<or> status = 302 \<or> status = 303 \<or> status = 307 \<or> status = 308"

definition without_hash :: "url \<Rightarrow> string" where
  "without_hash u = url_href (u\<lparr>u_hash := []\<rparr>)"

definition resolveRedirectTarget :: "url_parser \<Rightarrow> string \<Rightarrow> string \<Rightarrow> string option" where
  "resolveRedirectTarget parse location currentUrl =
     map_option without_hash (parse location (Some currentUrl))"

definition createRedirectHop ::
  "timestamp \<Rightarrow> string \<Rightarrow> string \<Rightarrow> int \<Rightarrow> nat \<Rightarrow> bool \<Rightarrow> redirect_target_decision option \<Rightarrow> redirect_hop"
where
  "createRedirectHop now fromUrl toUrl statusCode hopIndex validTarget decision =
     \<lparr>rh_fromUrl = fromUrl, rh_toUrl = toUrl, rh_statusCode = statusCode, rh_hopIndex = hopIndex,
      rh_validTarget = validTarget,
      rh_scopeAllowed = Option.bind decision td_scopeAllowed,
      rh_robotsAllowed = Option.bind decision td_robotsAllowed,
      rh_networkSafetyAllowed = Option.bind decision td_networkSafetyAllowed,
      rh_timestamp = now\<rparr>"

section \<open>The result of the transport\<close>

datatype (plugins only: code) http_error_code =
    H_INVALID_URL | H_UNSUPPORTED_PROTOCOL | H_NETWORK_SAFETY_REJECTED | H_DNS_ERROR | H_TLS_ERROR
  | H_TOTAL_TIMEOUT | H_CONNECT_TIMEOUT | H_RESPONSE_FIELDS_TIMEOUT | H_RESPONSE_BODY_TIMEOUT
  | H_REQUEST_ABORTED | H_NETWORK_FAILURE | H_RESPONSE_DECOMPRESSION_FAILURE
  | H_UNSUPPORTED_CONTENT_ENCODING | H_REQUEST_BODY_TOO_LARGE | H_REQUEST_BODY_LENGTH_MISMATCH
  | H_REQUEST_BODY_SOURCE_FAILURE | H_REQUEST_FIELDS_TOO_LARGE | H_RESPONSE_FIELDS_TOO_LARGE
  | H_TOO_MANY_REDIRECTS | H_REDIRECT_LOOP | H_REDIRECT_TARGET_REJECTED | H_WIRE_RESPONSE_TOO_LARGE
  | H_DECODED_RESPONSE_TOO_LARGE | H_PROTOCOL_MISMATCH | H_ORIGIN_CAPACITY_EXCEEDED
  | H_FILESYSTEM_FAILURE

fun crawlerErrorCode :: "http_error_code \<Rightarrow> crawl_error_code" where
  "crawlerErrorCode H_INVALID_URL = E_URL_PARSE_ERROR"
| "crawlerErrorCode H_UNSUPPORTED_PROTOCOL = E_UNSUPPORTED_PROTOCOL"
| "crawlerErrorCode H_NETWORK_SAFETY_REJECTED = E_NETWORK_SAFETY_REJECTED"
| "crawlerErrorCode H_DNS_ERROR = E_DNS_ERROR"
| "crawlerErrorCode H_TLS_ERROR = E_TLS_ERROR"
| "crawlerErrorCode H_TOTAL_TIMEOUT = E_FETCH_TIMEOUT"
| "crawlerErrorCode H_CONNECT_TIMEOUT = E_FETCH_CONNECT_TIMEOUT"
| "crawlerErrorCode H_RESPONSE_FIELDS_TIMEOUT = E_FETCH_FIRST_BYTE_TIMEOUT"
| "crawlerErrorCode H_RESPONSE_BODY_TIMEOUT = E_FETCH_TIMEOUT"
| "crawlerErrorCode H_REQUEST_ABORTED = E_FETCH_ABORTED"
| "crawlerErrorCode H_NETWORK_FAILURE = E_FETCH_NETWORK_ERROR"
| "crawlerErrorCode H_RESPONSE_DECOMPRESSION_FAILURE = E_FETCH_DECOMPRESSION_ERROR"
| "crawlerErrorCode H_UNSUPPORTED_CONTENT_ENCODING = E_UNSUPPORTED_CONTENT_ENCODING"
| "crawlerErrorCode H_REQUEST_BODY_TOO_LARGE = E_CONFIG_ERROR"
| "crawlerErrorCode H_REQUEST_BODY_LENGTH_MISMATCH = E_CONFIG_ERROR"
| "crawlerErrorCode H_REQUEST_BODY_SOURCE_FAILURE = E_CONFIG_ERROR"
| "crawlerErrorCode H_REQUEST_FIELDS_TOO_LARGE = E_CONFIG_ERROR"
| "crawlerErrorCode H_RESPONSE_FIELDS_TOO_LARGE = E_RESPONSE_TOO_LARGE"
| "crawlerErrorCode H_TOO_MANY_REDIRECTS = E_TOO_MANY_REDIRECTS"
| "crawlerErrorCode H_REDIRECT_LOOP = E_REDIRECT_LOOP"
| "crawlerErrorCode H_REDIRECT_TARGET_REJECTED = E_REDIRECT_TARGET_REJECTED"
| "crawlerErrorCode H_WIRE_RESPONSE_TOO_LARGE = E_RESPONSE_TOO_LARGE"
| "crawlerErrorCode H_DECODED_RESPONSE_TOO_LARGE = E_DECOMPRESSED_RESPONSE_TOO_LARGE"
| "crawlerErrorCode H_PROTOCOL_MISMATCH = E_FETCH_NETWORK_ERROR"
| "crawlerErrorCode H_ORIGIN_CAPACITY_EXCEEDED = E_FETCH_NETWORK_ERROR"
| "crawlerErrorCode H_FILESYSTEM_FAILURE = E_STORAGE_WRITE_ERROR"

definition isRetryableError :: "http_error_code \<Rightarrow> bool" where
  "isRetryableError code \<longleftrightarrow>
     List.member [H_DNS_ERROR, H_TOTAL_TIMEOUT, H_CONNECT_TIMEOUT, H_RESPONSE_FIELDS_TIMEOUT,
       H_RESPONSE_BODY_TIMEOUT, H_NETWORK_FAILURE, H_ORIGIN_CAPACITY_EXCEEDED] code"

text \<open>
  \<open>BufferedHttpResult\<close>: its transfer is that of the last attempt (\<open>observedTransfer\<close>), given as
  timings, wire bytes and decoded bytes; its connection as remote address, protocol and TLS facts.
\<close>

record transport_error =
  te_code :: http_error_code
  te_message :: string
  te_url :: "string option"
  te_cause :: "(string \<times> string) option"

record 'b buffered_result =
  br_outcome :: "(transport_error, string \<times> 'b) result"   \<comment> \<open>a response has its final URL and body\<close>
  br_statusCode :: "int option"
  br_fields :: headers
  br_transfer :: "(response_timings \<times> nat option \<times> nat option) option"
  br_connection :: "(string option \<times> string option \<times> string option) option"

definition fromSharedResult ::
  "timestamp \<Rightarrow> string \<Rightarrow> bool \<Rightarrow> 'b buffered_result \<Rightarrow> 'b fetch_result"
where
  "fromSharedResult now requestId operationTimedOut r =
     \<lparr>ft_statusCode = br_statusCode r,
      ft_finalUrl = (case br_outcome r of Inl e \<Rightarrow> None | Inr (u, b) \<Rightarrow> Some u),
      ft_headers = br_fields r,
      ft_body = (case br_outcome r of Inl e \<Rightarrow> None | Inr (u, b) \<Rightarrow> Some b),
      ft_redirects = [],
      ft_responseTimeMs = (case br_transfer r of None \<Rightarrow> 0 | Some (t, w, d) \<Rightarrow> tm_totalMs t),
      ft_wireBytesRead = Option.bind (br_transfer r) (\<lambda>(t, w, d). w),
      ft_decodedBytesRead = Option.bind (br_transfer r) (\<lambda>(t, w, d). d),
      ft_remoteAddress = Option.bind (br_connection r) (\<lambda>(a, v, s). a),
      ft_protocol = Option.bind (br_connection r) (\<lambda>(a, v, s). v),
      ft_timings = map_option fst (br_transfer r),
      ft_tls = Option.bind (br_connection r) (\<lambda>(a, v, s). s),
      ft_cacheStatus = CacheMiss,
      ft_error =
        (case br_outcome r of
           Inr _ \<Rightarrow> None
         | Inl e \<Rightarrow>
             (let code = (if te_code e = H_REQUEST_ABORTED \<and> operationTimedOut then H_TOTAL_TIMEOUT
                          else te_code e)
              in Some (crawlError now (crawlerErrorCode code) (te_message e) (te_url e) (Some requestId)
                         (Some (isRetryableError code)) None None (te_cause e))))\<rparr>"

end
