(* ===== verification/Request_Policy.thy ===== *)
theory Request_Policy
  imports Http_Types
begin

text \<open>
  The decisions taken before a URL is requested: the seed a URL belongs to
  (\<open>crawler/seed-resolver.ts\<close>), the order of the policies for a request
  (\<open>crawler/request-policy.ts\<close>) and for a redirect target
  (\<open>crawler/redirect-target-policy.ts\<close>, \<open>crawler/robots-redirect-policy.ts\<close>).

  The network safety policy is third-party: a function from a URL to its decision. The robots
  service is that of \<open>Robots\<close>, whose cache is the state that the decisions thread.
\<close>

section \<open>The seed of a URL\<close>

definition sameOrigin :: "url_parser \<Rightarrow> string \<Rightarrow> string \<Rightarrow> bool" where
  "sameOrigin parse left right =
     (case (parse left None, parse right None) of
        (Some l, Some r) \<Rightarrow> url_origin l = url_origin r
      | _ \<Rightarrow> False)"

definition forUrl :: "url_parser \<Rightarrow> resolved_seed list \<Rightarrow> string \<Rightarrow> resolved_seed option" where
  "forUrl parse seeds u =
     (case List.find (\<lambda>seed. sd_normalizedUrl seed = u \<or> sd_url seed = u) seeds of
        Some seed \<Rightarrow> Some seed
      | None \<Rightarrow> List.find (\<lambda>seed. sameOrigin parse (sd_normalizedUrl seed) u) seeds)"

definition forRequest :: "url_parser \<Rightarrow> resolved_seed list \<Rightarrow> crawl_request \<Rightarrow> resolved_seed option" where
  "forRequest parse seeds request = forUrl parse seeds (rq_normalizedUrl request)"

definition first_seed :: "resolved_seed list \<Rightarrow> resolved_seed option" where
  "first_seed seeds = (case seeds of [] \<Rightarrow> None | seed # _ \<Rightarrow> Some seed)"

section \<open>A request\<close>

record safety_decision =
  sf_allowed :: bool
  sf_reason :: "string option"
  sf_rejectionKind :: "rejection_kind option"

record policy_env =
  pe_parse :: url_parser
  pe_scope :: scope_policy
  pe_safety :: "string \<Rightarrow> safety_decision"
  pe_robots :: robots_env
  pe_seeds :: "resolved_seed list"
  pe_now :: timestamp
  pe_loaded :: timestamp

datatype policy_decision =
    PolicyFail crawl_error
  | PolicyAllow scope_decision safety_decision robots_decision
  | PolicySkip skip_reason string "string option"

text \<open>\<open>RobotsService.decide\<close> on a URL given as text; \<open>new URL\<close> throws on an invalid one.\<close>

definition robots_for ::
  "policy_env \<Rightarrow> string \<Rightarrow> bool \<Rightarrow> robots_cache \<Rightarrow> (string, robots_decision) result \<times> robots_cache"
where
  "robots_for env u isSeed cache =
     (case pe_parse env u None of
        Some p \<Rightarrow> robots_decide (pe_robots env) (pe_now env) (pe_loaded env) p isSeed cache
      | None \<Rightarrow>
          if rb_enabled (re_config (pe_robots env)) then (Inl ''Invalid URL'', cache)
          else (Inr \<lparr>rd_allowed = True, rd_reason = None, rd_source = RobotsDisabled, rd_matchedRule = None\<rparr>,
                cache))"

definition policy_decide ::
  "policy_env \<Rightarrow> crawl_request \<Rightarrow> robots_cache \<Rightarrow> (string, policy_decision) result \<times> robots_cache"
where
  "policy_decide env request cache =
     (let u = rq_normalizedUrl request;
          seed = forRequest (pe_parse env) (pe_seeds env) request;
          scope = scope_decide (pe_parse env) (pe_scope env) u (rq_depth request)
                    (map_option sd_normalizedUrl seed)
      in if \<not> sn_allowed scope
         then (Inr (PolicySkip SCOPE_REJECTED
                      (case sn_policyName scope of None \<Rightarrow> ''scope'' | Some p \<Rightarrow> p) (sn_reason scope)), cache)
         else let safety = pe_safety env u
              in if \<not> sf_allowed safety
                 then (Inr (if sf_rejectionKind safety = Some RejectDns
                            then PolicyFail (crawlError (pe_now env) E_DNS_ERROR
                                   (case sf_reason safety of None \<Rightarrow> [] | Some m \<Rightarrow> m) (Some u)
                                   (Some (rq_id request)) (Some True) None None None)
                            else PolicySkip NETWORK_SAFETY_REJECTED ''networkSafety'' (sf_reason safety)), cache)
                 else case robots_for env u (rq_source request = Seed) cache of
                        (Inl e, cache') \<Rightarrow> (Inl e, cache')
                      | (Inr robots, cache') \<Rightarrow>
                          (Inr (if \<not> rd_allowed robots
                                then PolicySkip ROBOTS_DISALLOWED ''robots'' (rd_reason robots)
                                else PolicyAllow scope safety robots), cache'))"

section \<open>A redirect target\<close>

definition option_or :: "'a option \<Rightarrow> 'a option \<Rightarrow> 'a option" where
  "option_or a b = (case a of None \<Rightarrow> b | Some x \<Rightarrow> Some x)"

text \<open>
  The decision and whether it counts as a blocked redirect (\<open>counters.redirectsBlocked\<close>). A
  safety decision that rejects always has a kind.
\<close>

definition redirect_decide ::
  "policy_env \<Rightarrow> string \<Rightarrow> number \<Rightarrow> string \<Rightarrow> robots_cache
     \<Rightarrow> (string, redirect_target_decision \<times> bool) result \<times> robots_cache"
where
  "redirect_decide env target depth seedUrl cache =
     (let scope = scope_decide (pe_parse env) (pe_scope env) target depth (Some seedUrl);
          safety = pe_safety env target;
          asked = (if sn_allowed scope \<and> sf_allowed safety
                   then (case robots_for env target False cache of
                           (Inl e, c) \<Rightarrow> (Inl e, c) | (Inr r, c) \<Rightarrow> (Inr (Some r), c))
                   else (Inr None, cache))
      in case asked of
           (Inl e, cache') \<Rightarrow> (Inl e, cache')
         | (Inr robots, cache') \<Rightarrow>
             (let robotsAllowed = (case robots of None \<Rightarrow> False | Some r \<Rightarrow> rd_allowed r);
                  kind = (if \<not> sn_allowed scope then Some RejectPolicy
                          else if \<not> sf_allowed safety then sf_rejectionKind safety
                          else if \<not> robotsAllowed then Some RejectPolicy else None)
              in (Inr (\<lparr>td_rejectionKind = kind,
                        td_allowed = (sn_allowed scope \<and> sf_allowed safety \<and> robotsAllowed),
                        td_reason = option_or (sn_reason scope)
                                      (option_or (sf_reason safety) (Option.bind robots rd_reason)),
                        td_scopeAllowed = Some (sn_allowed scope),
                        td_robotsAllowed = map_option rd_allowed robots,
                        td_networkSafetyAllowed =
                          (if kind = Some RejectDns then None else Some (sf_allowed safety))\<rparr>,
                       kind = Some RejectPolicy), cache')))"

definition robots_redirect_decide ::
  "policy_env \<Rightarrow> string \<Rightarrow> string \<Rightarrow> redirect_target_decision"
where
  "robots_redirect_decide env target seedUrl =
     (let scope = scope_decide (pe_parse env) (pe_scope env) target 0 (Some seedUrl);
          safety = pe_safety env target;
          kind = (if \<not> sn_allowed scope then Some RejectPolicy
                  else if \<not> sf_allowed safety then sf_rejectionKind safety else None)
      in \<lparr>td_rejectionKind = kind,
          td_allowed = (sn_allowed scope \<and> sf_allowed safety),
          td_reason = option_or (sn_reason scope) (sf_reason safety),
          td_scopeAllowed = Some (sn_allowed scope),
          td_robotsAllowed = None,
          td_networkSafetyAllowed = (if kind = Some RejectDns then None else Some (sf_allowed safety))\<rparr>)"

end
