(* ===== verification/Retry.thy ===== *)
theory Retry
  imports Request_Policy Politeness Frontier_Backend
begin

text \<open>
  The retry loop of a request, class \<open>RetryingFetcher\<close> of \<open>crawler/retrying-fetcher.ts\<close>.

  What the world does in attempt \<open>k\<close> is the record \<open>attempt\<close>: whether the signal is aborted when the
  attempt starts and when it ends, what the policy decided and the client returned (or threw),
  whether the two store writes succeed and whether the delay ends before an abort. The loop
  leaves behind the counter, the records written and the retries announced.
\<close>

section \<open>One attempt\<close>

datatype 'b fetch_outcome =
    OutcomeSkip skip_reason string "string option"
  | OutcomeFailed "'b fetch_result"
  | OutcomeFetched "'b fetch_result" scope_decision safety_decision robots_decision

text \<open>\<open>fetchAttempt\<close>: the policy first, and the client only for what it allows.\<close>

definition fetchAttempt ::
  "timestamp \<Rightarrow> crawl_request \<Rightarrow> (string, policy_decision) result \<Rightarrow> (string, 'b fetch_result) result
     \<Rightarrow> (string, 'b fetch_outcome) result"
where
  "fetchAttempt now request policy fetched =
     bind_result policy (\<lambda>p.
       case p of
         PolicySkip reason name detail \<Rightarrow> Inr (OutcomeSkip reason name detail)
       | PolicyFail e \<Rightarrow>
           Inr (OutcomeFailed
             (failure now (ce_code e) (ce_message e) (rq_normalizedUrl request) (rq_id request) None [] None
                (ce_retryable e)))
       | PolicyAllow scope safety robots \<Rightarrow>
           bind_result fetched (\<lambda>r.
             Inr (if ft_error r = None then OutcomeFetched r scope safety robots else OutcomeFailed r)))"

fun outcome_result :: "'b fetch_outcome \<Rightarrow> 'b fetch_result option" where
  "outcome_result (OutcomeSkip a b c) = None"
| "outcome_result (OutcomeFailed r) = Some r"
| "outcome_result (OutcomeFetched r s sa ro) = Some r"

section \<open>Retries\<close>

definition isRetryableStatus :: "int \<Rightarrow> bool" where
  "isRetryableStatus status \<longleftrightarrow>
     status = 429 \<or> status = 500 \<or> status = 502 \<or> status = 503 \<or> status = 504"

definition result_status :: "'b fetch_result \<Rightarrow> int" where
  "result_status r = (case ft_statusCode r of None \<Rightarrow> 0 | Some s \<Rightarrow> s)"

definition retryable_result :: "'b fetch_result \<Rightarrow> bool" where
  "retryable_result r \<longleftrightarrow>
     (case ft_error r of None \<Rightarrow> False | Some e \<Rightarrow> ce_retryable e) \<or> isRetryableStatus (result_status r)"

text \<open>\<open>Number\<close> of a string is that of \<open>Robots\<close>; \<open>date\<close> is \<open>Date.parse\<close>, \<open>None\<close> for NaN.\<close>

definition retryDelayMs ::
  "network_config \<Rightarrow> (string \<Rightarrow> timestamp option) \<Rightarrow> timestamp \<Rightarrow> string option \<Rightarrow> nat \<Rightarrow> number"
where
  "retryDelayMs cfg date now retryAfter attempt =
     (let backoff = nc_retryBackoffMs cfg * 2 ^ attempt
      in case retryAfter of
           None \<Rightarrow> backoff
         | Some text \<Rightarrow>
             if \<not> nc_respectRetryAfter cfg then backoff
             else (case js_number (units_of text) of
                     Some seconds \<Rightarrow>
                       if 0 \<le> seconds then seconds * 1000
                       else (case date text of
                               Some d \<Rightarrow> max 0 (of_int (d - now)) | None \<Rightarrow> backoff)
                   | None \<Rightarrow>
                       (case date text of Some d \<Rightarrow> max 0 (of_int (d - now)) | None \<Rightarrow> backoff)))"

text \<open>The decimal digits of a non-negative number.\<close>

fun show_nat :: "nat \<Rightarrow> string" where
  "show_nat n = (if n < 10 then [char_of (48 + n)] else show_nat (n div 10) @ [char_of (48 + n mod 10)])"

definition show_int :: "int \<Rightarrow> string" where
  "show_int n = (if n < 0 then CHR ''-'' # show_nat (nat (- n)) else show_nat (nat n))"

section \<open>The loop\<close>

record 'b attempt =
  ra_abortedBefore :: bool
  ra_outcome :: "(string, 'b fetch_outcome) result"
  ra_abortedAfter :: bool
  ra_now :: timestamp
  ra_error_ok :: bool
  ra_state_ok :: bool
  ra_delay_ok :: bool

datatype retry_error = RetryAborted | RetryThrown string | RetryStoreFailed | RetryDelayAborted

record retry_state =
  ry_retries :: nat                            \<comment> \<open>\<open>counters.retries\<close>\<close>
  ry_errors :: "crawl_error list"
  ry_states :: "request_state_record list"
  ry_events :: "(nat \<times> number) list"          \<comment> \<open>attempt and delay of \<open>retry-scheduled\<close>\<close>

record retry_config =
  rn_runId :: string
  rn_network :: network_config
  rn_date :: "string \<Rightarrow> timestamp option"

definition retry_error_of :: "timestamp \<Rightarrow> crawl_request \<Rightarrow> 'b fetch_result \<Rightarrow> nat \<Rightarrow> crawl_error" where
  "retry_error_of now request r attempt =
     (case ft_error r of
        Some e \<Rightarrow> e
      | None \<Rightarrow>
          crawlError now E_HTTP_ERROR (''HTTP '' @ show_int (result_status r) @ '' is retryable'')
            (Some (rq_normalizedUrl request)) (Some (rq_id request)) (Some True) None (Some attempt) None)"

text \<open>From the count of a retry to the end of its delay; \<open>Inl\<close> is the exception that leaves the loop.\<close>

definition schedule_retry ::
  "retry_config \<Rightarrow> crawl_request \<Rightarrow> 'b attempt \<Rightarrow> 'b fetch_result \<Rightarrow> nat \<Rightarrow> retry_state
     \<Rightarrow> (retry_error, unit) result \<times> retry_state"
where
  "schedule_retry cfg request a r attempt st =
     (let delay = retryDelayMs (rn_network cfg) (rn_date cfg) (ra_now a) (headers_get (ft_headers r) ''retry-after'') attempt;
          e = retry_error_of (ra_now a) request r attempt;
          st = st\<lparr>ry_retries := ry_retries st + 1\<rparr>
      in if \<not> ra_error_ok a then (Inl RetryStoreFailed, st)
         else let st = st\<lparr>ry_errors := ry_errors st @ [e]\<rparr>
              in if \<not> ra_state_ok a then (Inl RetryStoreFailed, st)
                 else let st = st\<lparr>ry_states := ry_states st @
                                    [createStateRecord (rn_runId cfg) (ra_now a) request Retrying (Some (ce_message e))],
                                  ry_events := ry_events st @ [(attempt + 1, delay)]\<rparr>
                      in (if ra_delay_ok a then Inr () else Inl RetryDelayAborted, st))"

definition final_outcome :: "crawl_request \<Rightarrow> 'b attempt \<Rightarrow> 'b fetch_result \<Rightarrow> nat \<Rightarrow> bool" where
  "final_outcome request a r attempt \<longleftrightarrow>
     ra_abortedAfter a \<or> map_option ce_code (ft_error r) = Some E_FETCH_ABORTED
     \<or> \<not> retryable_result r \<or> rq_maxRetries request \<le> of_nat attempt"

text \<open>An attempt after which the loop goes on is below the limit of the request.\<close>

lemma attempt_below_limit:
  assumes "\<not> final_outcome request a r attempt"
  shows "attempt < nat \<lceil>rq_maxRetries request\<rceil>"
proof -
  have "of_int (int attempt) < rq_maxRetries request" using assms by (simp add: final_outcome_def)
  then have "int attempt < \<lceil>rq_maxRetries request\<rceil>" by (simp only: less_ceiling_iff)
  then show ?thesis by linarith
qed

function retry_loop ::
  "retry_config \<Rightarrow> crawl_request \<Rightarrow> (nat \<Rightarrow> 'b attempt) \<Rightarrow> nat \<Rightarrow> retry_state
     \<Rightarrow> (retry_error, 'b fetch_outcome) result \<times> retry_state"
where
  "retry_loop cfg request world attempt st =
     (let a = world attempt in
      if ra_abortedBefore a then (Inl RetryAborted, st)
      else case ra_outcome a of
             Inl e \<Rightarrow> (Inl (RetryThrown e), st)
           | Inr out \<Rightarrow>
               (case outcome_result out of
                  None \<Rightarrow> (Inr out, st)
                | Some r \<Rightarrow>
                    if final_outcome request a r attempt then (Inr out, st)
                    else (case schedule_retry cfg request a r attempt st of
                            (Inl e, st') \<Rightarrow> (Inl e, st')
                          | (Inr _, st') \<Rightarrow> retry_loop cfg request world (attempt + 1) st')))"
  by pat_completeness auto

termination
  by (relation "measure (\<lambda>(cfg, request, world, attempt, st). nat \<lceil>rq_maxRetries request\<rceil> - attempt)")
    (auto dest: attempt_below_limit)

declare retry_loop.simps [simp del]

definition retrying_fetch ::
  "retry_config \<Rightarrow> crawl_request \<Rightarrow> (nat \<Rightarrow> 'b attempt) \<Rightarrow> retry_state
     \<Rightarrow> (retry_error, 'b fetch_outcome) result \<times> retry_state"
where
  "retrying_fetch cfg request world st = retry_loop cfg request world 0 st"

end
