(* ===== verification/Execution_Properties.thy ===== *)
theory Execution_Properties
  imports Retry Samples
begin

text \<open>
  What the decisions before a fetch and the retries of a request promise: what a policy admits,
  the agreement of the policy for requests with that for redirect targets, the scope that a fetch
  consults, and the number and the effects of the retries.
\<close>

section \<open>The policies\<close>

lemma policy_decide_allow:
  "policy_decide env request cache = (Inr (PolicyAllow scope safety robots), cache') \<longleftrightarrow>
     scope = scope_decide (pe_parse env) (pe_scope env) (rq_normalizedUrl request) (rq_depth request)
               (map_option sd_normalizedUrl (forRequest (pe_parse env) (pe_seeds env) request)) \<and>
     safety = pe_safety env (rq_normalizedUrl request) \<and>
     sn_allowed scope \<and> sf_allowed safety \<and> rd_allowed robots \<and>
     robots_for env (rq_normalizedUrl request) (rq_source request = Seed) cache = (Inr robots, cache')"
  by (auto simp: policy_decide_def Let_def split: if_splits prod.splits sum.splits)

lemma policy_decide_cache:
  "snd (policy_decide env request cache) =
     (if sn_allowed (scope_decide (pe_parse env) (pe_scope env) (rq_normalizedUrl request) (rq_depth request)
               (map_option sd_normalizedUrl (forRequest (pe_parse env) (pe_seeds env) request))) \<and>
         sf_allowed (pe_safety env (rq_normalizedUrl request))
      then snd (robots_for env (rq_normalizedUrl request) (rq_source request = Seed) cache)
      else cache)"
  by (auto simp: policy_decide_def Let_def split: if_splits prod.splits sum.splits)

lemma redirect_decide_cases:
  "redirect_decide env target depth seedUrl cache = (Inr (d, b), cache') \<Longrightarrow>
     td_allowed d \<longleftrightarrow>
       sn_allowed (scope_decide (pe_parse env) (pe_scope env) target depth (Some seedUrl)) \<and>
       sf_allowed (pe_safety env target) \<and>
       (\<exists>robots. robots_for env target False cache = (Inr robots, cache') \<and> rd_allowed robots)"
  by (auto simp: redirect_decide_def Let_def split: if_splits prod.splits sum.splits option.splits)

definition policy_verdict :: "(string, policy_decision) result \<times> robots_cache \<Rightarrow> (string, bool) result \<times> robots_cache" where
  "policy_verdict out =
     (case fst out of Inl e \<Rightarrow> Inl e | Inr (PolicyAllow a b c) \<Rightarrow> Inr True | Inr _ \<Rightarrow> Inr False, snd out)"

definition redirect_verdict ::
  "(string, redirect_target_decision \<times> bool) result \<times> robots_cache \<Rightarrow> (string, bool) result \<times> robots_cache"
where
  "redirect_verdict out = (case fst out of Inl e \<Rightarrow> Inl e | Inr (d, b) \<Rightarrow> Inr (td_allowed d), snd out)"

text \<open>
  The two policies agree. For a request that is not a seed, the policy for requests and the
  policy for redirect targets, asked about the URL of the request under the seed that the resolver
  finds for it, give the same verdict (allowed, not allowed or the same exception) and leave the
  same robots cache.
\<close>

theorem redirect_policy_agrees:
  assumes "forRequest (pe_parse env) (pe_seeds env) request = Some seed" "rq_source request \<noteq> Seed"
  shows "policy_verdict (policy_decide env request cache) =
     redirect_verdict (redirect_decide env (rq_normalizedUrl request) (rq_depth request)
       (sd_normalizedUrl seed) cache)"
  using assms
  by (auto simp: policy_decide_def redirect_decide_def policy_verdict_def redirect_verdict_def Let_def
      split: prod.splits sum.splits)

definition open_scope :: scope_config where
  "open_scope = sample_scope\<lparr>sc_mode := ScopeCustom\<rparr>"

definition open_seed :: resolved_seed where
  "open_seed = sample_seed\<lparr>sd_scope := open_scope\<rparr>"

definition sample_policy_env :: policy_env where
  "sample_policy_env =
     \<lparr>pe_parse = sample_parse, pe_scope = the (new_ScopePolicy sample_parse sample_scope [open_seed]),
      pe_safety = (\<lambda>_. \<lparr>sf_allowed = True, sf_reason = None, sf_rejectionKind = None\<rparr>),
      pe_robots = \<lparr>re_config = \<lparr>rb_enabled = False, rb_productToken = [], rb_on4xx = ModeAllow,
                     rb_on5xx = ModeDisallow, rb_onNetworkError = ModeDisallow, rb_respectCrawlDelay = True,
                     rb_maxBytes = 9, rb_cacheTtlMs = 10\<rparr>,
                   re_fetch = (\<lambda>_. Inl []), re_record = (\<lambda>_. None), re_lc = id, re_norm = (\<lambda>_ _. None)\<rparr>,
      pe_seeds = [open_seed], pe_now = 0, pe_loaded = 0\<rparr>"

definition linked_request :: "string \<Rightarrow> crawl_request" where
  "linked_request u = (sample_request ''/'' 1 1)\<lparr>rq_normalizedUrl := u, rq_source := HtmlLink\<rparr>"

theorem redirect_policy_agrees_witness:
  "policy_verdict (policy_decide sample_policy_env (linked_request ''http://a/x'') []) = (Inr True, []) \<and>
   redirect_verdict (redirect_decide sample_policy_env ''http://a/x'' 1 ''http://a/'' []) = (Inr True, [])"
proof -
  have f: "forRequest (pe_parse sample_policy_env) (pe_seeds sample_policy_env) (linked_request ''http://a/x'') = Some open_seed"
    by code_simp
  have s: "rq_source (linked_request ''http://a/x'') \<noteq> Seed" by code_simp
  have v: "policy_verdict (policy_decide sample_policy_env (linked_request ''http://a/x'') []) = (Inr True, [])" by code_simp
  have a: "rq_normalizedUrl (linked_request ''http://a/x'') = ''http://a/x''" "rq_depth (linked_request ''http://a/x'') = 1"
    "sd_normalizedUrl open_seed = ''http://a/''" by code_simp+
  show ?thesis using redirect_policy_agrees [OF f s, of "[]"] v unfolding a by simp
qed

text \<open>
  The seed of a request is not consulted at fetch time. When no seed has the URL or the origin
  of a request, the policy decides by the global scope alone: a URL that this scope rejects is
  skipped, whatever the seed under which the request was scheduled, and even when the scope of that
  seed admits the URL, as the witness shows with a seed that admits every host.
\<close>

theorem seed_scope_ignored_at_fetch:
  assumes "forUrl (pe_parse env) (pe_seeds env) (rq_normalizedUrl request) = None"
    and "\<not> sn_allowed (scope_decide (pe_parse env) (pe_scope env) (rq_normalizedUrl request) (rq_depth request) None)"
  shows "\<exists>name detail. policy_decide env (request\<lparr>rq_seedUrl := s\<rparr>) cache =
           (Inr (PolicySkip SCOPE_REJECTED name detail), cache)"
  using assms by (simp add: policy_decide_def forRequest_def Let_def)

theorem seed_scope_ignored_at_fetch_witness:
  "sn_allowed (scope_decide (pe_parse sample_policy_env) (pe_scope sample_policy_env) ''http://b/x'' 1
      (Some (sd_normalizedUrl open_seed))) \<and>
   (\<exists>name detail. policy_decide sample_policy_env
      ((linked_request ''http://b/x'')\<lparr>rq_seedUrl := sd_normalizedUrl open_seed\<rparr>) []
      = (Inr (PolicySkip SCOPE_REJECTED name detail), []))"
proof (intro conjI)
  show "sn_allowed (scope_decide (pe_parse sample_policy_env) (pe_scope sample_policy_env) ''http://b/x'' 1
      (Some (sd_normalizedUrl open_seed)))" by code_simp
  have a: "forUrl (pe_parse sample_policy_env) (pe_seeds sample_policy_env)
      (rq_normalizedUrl (linked_request ''http://b/x'')) = None" by code_simp
  have b: "\<not> sn_allowed (scope_decide (pe_parse sample_policy_env) (pe_scope sample_policy_env)
      (rq_normalizedUrl (linked_request ''http://b/x'')) (rq_depth (linked_request ''http://b/x'')) None)" by code_simp
  show "\<exists>name detail. policy_decide sample_policy_env
      ((linked_request ''http://b/x'')\<lparr>rq_seedUrl := sd_normalizedUrl open_seed\<rparr>) []
      = (Inr (PolicySkip SCOPE_REJECTED name detail), [])"
    by (rule seed_scope_ignored_at_fetch [OF a b])
qed

section \<open>The retries\<close>

text \<open>The attempt \<open>k\<close> ends in a retry, with its delay over.\<close>

definition goes_on :: "crawl_request \<Rightarrow> 'b attempt \<Rightarrow> nat \<Rightarrow> bool" where
  "goes_on request a k \<longleftrightarrow>
     \<not> ra_abortedBefore a \<and> ra_error_ok a \<and> ra_state_ok a \<and> ra_delay_ok a \<and>
     (case ra_outcome a of
        Inl _ \<Rightarrow> False
      | Inr out \<Rightarrow> (case outcome_result out of None \<Rightarrow> False | Some r \<Rightarrow> \<not> final_outcome request a r k))"

definition attempt_result :: "'b attempt \<Rightarrow> 'b fetch_result" where
  "attempt_result a = (case ra_outcome a of Inr out \<Rightarrow> the (outcome_result out))"

definition attempt_delay :: "retry_config \<Rightarrow> 'b attempt \<Rightarrow> nat \<Rightarrow> number" where
  "attempt_delay cfg a k =
     retryDelayMs (rn_network cfg) (rn_date cfg) (ra_now a)
       (headers_get (ft_headers (attempt_result a)) ''retry-after'') k"

text \<open>What one complete retry adds to the state.\<close>

definition after_retry :: "retry_config \<Rightarrow> crawl_request \<Rightarrow> 'b attempt \<Rightarrow> nat \<Rightarrow> retry_state \<Rightarrow> retry_state" where
  "after_retry cfg request a k st =
     (let e = retry_error_of (ra_now a) request (attempt_result a) k in
      st\<lparr>ry_retries := ry_retries st + 1, ry_errors := ry_errors st @ [e],
         ry_states := ry_states st @ [createStateRecord (rn_runId cfg) (ra_now a) request Retrying (Some (ce_message e))],
         ry_events := ry_events st @ [(k + 1, attempt_delay cfg a k)]\<rparr>)"

lemma goes_on_step:
  assumes "goes_on request (world k) k"
  shows "retry_loop cfg request world k st = retry_loop cfg request world (k + 1) (after_retry cfg request (world k) k st)"
  using assms
  by (subst retry_loop.simps)
    (auto simp: goes_on_def after_retry_def attempt_delay_def attempt_result_def schedule_retry_def Let_def
      split: sum.splits option.splits)

lemma goes_on_below: "goes_on request a k \<Longrightarrow> k < nat \<lceil>rq_maxRetries request\<rceil>"
  by (auto simp: goes_on_def split: sum.splits option.splits intro: attempt_below_limit)


text \<open>The attempt at which the loop stops: its outcome is returned, or an exception leaves it.\<close>

definition stops_with ::
  "retry_config \<Rightarrow> crawl_request \<Rightarrow> 'b attempt \<Rightarrow> nat \<Rightarrow> retry_state
     \<Rightarrow> (retry_error, 'b fetch_outcome) result \<times> retry_state \<Rightarrow> bool"
where
  "stops_with cfg request a n st out \<longleftrightarrow>
     (case out of
        (Inr outcome, st') \<Rightarrow>
          \<not> ra_abortedBefore a \<and> ra_outcome a = Inr outcome \<and> st' = st \<and>
          (case outcome_result outcome of None \<Rightarrow> True | Some r \<Rightarrow> final_outcome request a r n)
      | (Inl e, st') \<Rightarrow>
          (if ra_abortedBefore a then e = RetryAborted \<and> st' = st
           else case ra_outcome a of
                  Inl m \<Rightarrow> e = RetryThrown m \<and> st' = st
                | Inr _ \<Rightarrow>
                    n < nat \<lceil>rq_maxRetries request\<rceil> \<and> ry_retries st' = ry_retries st + 1 \<and>
                    (if ra_error_ok a \<and> ra_state_ok a
                     then e = RetryDelayAborted \<and> st' = after_retry cfg request a n st
                     else e = RetryStoreFailed \<and> ry_events st' = ry_events st)))"

lemma stop_step:
  assumes "\<not> goes_on request (world n) n"
  shows "stops_with cfg request (world n) n st (retry_loop cfg request world n st)"
  using assms
  by (subst retry_loop.simps)
    (auto simp: goes_on_def stops_with_def after_retry_def attempt_delay_def attempt_result_def
      schedule_retry_def Let_def dest: attempt_below_limit split: sum.splits option.splits)

lemma retry_loop_run:
  "\<exists>n. k \<le> n \<and> n \<le> max k (nat \<lceil>rq_maxRetries request\<rceil>) \<and> (\<forall>j. k \<le> j \<and> j < n \<longrightarrow> goes_on request (world j) j) \<and>
     stops_with cfg request (world n) n (fold (\<lambda>j. after_retry cfg request (world j) j) [k..<n] st)
       (retry_loop cfg request world k st)"
proof (induction "nat \<lceil>rq_maxRetries request\<rceil> - k" arbitrary: k st rule: less_induct)
  case less
  show ?case
  proof (cases "goes_on request (world k) k")
    case True
    then have below: "k < nat \<lceil>rq_maxRetries request\<rceil>" by (rule goes_on_below)
    then have smaller: "nat \<lceil>rq_maxRetries request\<rceil> - (k + 1) < nat \<lceil>rq_maxRetries request\<rceil> - k" by linarith
    from less [OF smaller, of "after_retry cfg request (world k) k st"] obtain n where
      n: "k + 1 \<le> n" "n \<le> max (k + 1) (nat \<lceil>rq_maxRetries request\<rceil>)"
        "\<forall>j. k + 1 \<le> j \<and> j < n \<longrightarrow> goes_on request (world j) j"
        "stops_with cfg request (world n) n
           (fold (\<lambda>j. after_retry cfg request (world j) j) [k + 1..<n] (after_retry cfg request (world k) k st))
           (retry_loop cfg request world (k + 1) (after_retry cfg request (world k) k st))"
      by blast
    have up: "[k..<n] = k # [k + 1..<n]" using n(1) by (simp add: upt_conv_Cons)
    have "\<forall>j. k \<le> j \<and> j < n \<longrightarrow> goes_on request (world j) j"
      using n(3) True by (metis Suc_eq_plus1 le_antisym not_less_eq_eq)
    moreover have "n \<le> max k (nat \<lceil>rq_maxRetries request\<rceil>)" using n(2) below by linarith
    ultimately show ?thesis
      using n(1,4) unfolding goes_on_step [of request world k, OF True] by (intro exI [of _ n]) (auto simp: up)
  next
    case False
    then show ?thesis by (intro exI [of _ k]) (auto intro: stop_step)
  qed
qed

lemma fold_retries: "ry_retries (fold (\<lambda>j. after_retry cfg request (world j) j) js st) = ry_retries st + length js"
  by (induction js arbitrary: st) (simp_all add: after_retry_def Let_def)

text \<open>
  A request is fetched again while its result is worth it. The fetch stops at an attempt
  \<open>n\<close>, at most the rounded up limit of the request. Each earlier attempt was announced
  with its delay, recorded and followed by the next. What is returned is the outcome of attempt
  \<open>n\<close>, which a policy skipped or which is final; an exception is the abort before the attempt,
  what the attempt threw, or a store or a delay that failed in the retry that was about to start.
\<close>

theorem retries_end_with_final_attempt:
  "\<exists>n. n \<le> nat \<lceil>rq_maxRetries request\<rceil> \<and> list_all (\<lambda>j. goes_on request (world j) j) [0..<n] \<and>
     stops_with cfg request (world n) n (fold (\<lambda>j. after_retry cfg request (world j) j) [0..<n] st)
       (retrying_fetch cfg request world st)"
  using retry_loop_run [of 0 request world cfg st]
  by (auto simp: retrying_fetch_def list_all_iff)

text \<open>
  The counter of retries grows by at most the rounded up limit of the request, whatever the
  attempts do and however the fetch ends.
\<close>

theorem retries_bounded:
  "ry_retries (snd (retrying_fetch cfg request world st)) \<le> ry_retries st + nat \<lceil>rq_maxRetries request\<rceil>"
proof -
  from retry_loop_run [of 0 request world cfg st] obtain n where
    n: "n \<le> nat \<lceil>rq_maxRetries request\<rceil>"
      "stops_with cfg request (world n) n (fold (\<lambda>j. after_retry cfg request (world j) j) [0..<n] st)
         (retrying_fetch cfg request world st)"
    by (auto simp: retrying_fetch_def)
  then show ?thesis
    by (auto simp: stops_with_def fold_retries split: prod.splits sum.splits option.splits if_splits)
qed

end
