(* ===== verification/Http_Cache.thy ===== *)
theory Http_Cache
  imports Http_Types Record_Codec
begin

text \<open>
  The HTTP cache, class \<open>HttpCache\<close> of \<open>http/cache/manager.ts\<close>, and the parser of its metadata,
  \<open>http/cache/metadata.ts\<close>.

  The directory of the cache is two maps from the digest of a URL: the \<open>.json\<close> file, whose text
  is a JSON value or not JSON at all (\<open>None\<close>), and the \<open>.body\<close> file, whose content is a string of
  bytes. A response body is a value of the third-party client: \<open>body_api\<close> holds its size, its
  bytes and the body that opens a file. A file that is missing is an answer, every other failure
  of the file system leaves the operation and is not modelled.
\<close>

section \<open>Configuration, metadata and files\<close>

record cache_config =
  ca_enabled :: bool
  ca_storeBodies :: bool
  ca_maxBodyBytes :: int
  ca_useStaleOnError :: bool

record cached_metadata =
  cm_url :: string
  cm_etag :: "string option"
  cm_lastModified :: "string option"
  cm_contentType :: "string option"
  cm_statusCode :: int
  cm_bodyPresent :: bool
  cm_bodyBytes :: int
  cm_storedAt :: string

record 'b body_api =
  bo_size :: "'b option \<Rightarrow> nat"
  bo_read :: "'b \<Rightarrow> string"
  bo_open :: "string \<Rightarrow> 'b"

record 'b cache_env =
  cv_config :: cache_config
  cv_sha256 :: "string \<Rightarrow> string"
  cv_contracts :: "(string, runtime_contract) jsmap"
  cv_body :: "'b body_api"
  cv_iso :: "timestamp \<Rightarrow> string"

record cache_files =
  cf_metadata :: "(string, json option) jsmap"
  cf_bodies :: "(string, string) jsmap"

datatype cache_error =
    CacheNotJson
  | CacheContract contract_error
  | CacheInvalid parse_error
  | CacheUrlMismatch
  | CacheBodySizeMismatch

section \<open>The metadata of a response\<close>

definition cache_metadata_json :: "cached_metadata \<Rightarrow> json" where
  "cache_metadata_json m = JObj (schema_identity ''site-crawler.httpCache'' @
     [(''url'', JStr (cm_url m)), (''etag'', opt_str (cm_etag m)),
      (''lastModified'', opt_str (cm_lastModified m)), (''contentType'', opt_str (cm_contentType m)),
      (''statusCode'', JNum (of_int (cm_statusCode m))), (''bodyPresent'', JBool (cm_bodyPresent m)),
      (''bodyBytes'', JNum (of_int (cm_bodyBytes m))), (''storedAt'', JStr (cm_storedAt m))])"

definition cache_fields :: "string list" where
  "cache_fields =
     [''schemaId'', ''schemaVersion'', ''url'', ''etag'', ''lastModified'', ''contentType'', ''statusCode'',
      ''bodyPresent'', ''bodyBytes'', ''storedAt'']"

definition requiredBoolean :: "(string \<times> json) list \<Rightarrow> string \<Rightarrow> bool parsed" where
  "requiredBoolean fs k = (case field fs k of Some (JBool b) \<Rightarrow> Inr b | _ \<Rightarrow> Inl (BadField k))"

definition requiredInteger :: "(string \<times> json) list \<Rightarrow> string \<Rightarrow> int \<Rightarrow> int parsed" where
  "requiredInteger fs k minimum =
     (case field fs k of
        Some (JNum n) \<Rightarrow>
          if of_int \<lfloor>n\<rfloor> = n \<and> \<bar>n\<bar> \<le> 9007199254740991 \<and> of_int minimum \<le> n then Inr \<lfloor>n\<rfloor> else Inl (BadField k)
      | _ \<Rightarrow> Inl (BadField k))"

definition parse_cache_fields :: "(string \<times> json) list \<Rightarrow> string \<Rightarrow> cached_metadata parsed" where
  "parse_cache_fields fs url =
     bind_result (requiredInteger fs ''statusCode'' 100) (\<lambda>statusCode.
     if 599 < statusCode then Inl (BadField ''statusCode'') else
     bind_result (requiredBoolean fs ''bodyPresent'') (\<lambda>bodyPresent.
     bind_result (requiredInteger fs ''bodyBytes'' 0) (\<lambda>bodyBytes.
     if \<not> bodyPresent \<and> bodyBytes \<noteq> 0 then Inl (BadField ''bodyBytes'') else
     bind_result (nullableStringField fs ''etag'') (\<lambda>etag.
     bind_result (nullableStringField fs ''lastModified'') (\<lambda>lastModified.
     bind_result (nullableStringField fs ''contentType'') (\<lambda>contentType.
     bind_result (stringField fs ''storedAt'') (\<lambda>storedAt.
     Inr \<lparr>cm_url = url, cm_etag = etag, cm_lastModified = lastModified, cm_contentType = contentType,
          cm_statusCode = statusCode, cm_bodyPresent = bodyPresent, cm_bodyBytes = bodyBytes,
          cm_storedAt = storedAt\<rparr>)))))))"

definition parseCacheMetadata :: "json \<Rightarrow> string \<Rightarrow> (cache_error, cached_metadata) result" where
  "parseCacheMetadata v expectedUrl =
     (case v of
        JObj fs \<Rightarrow>
          if \<not> hasCurrentSchema fs ''site-crawler.httpCache'' \<or> list_ex (\<lambda>k. k \<notin> set cache_fields) (map fst fs)
          then Inl (CacheInvalid (WrongSchema ''HTTP cache metadata''))
          else (case stringField fs ''url'' of
                  Inl e \<Rightarrow> Inl (CacheInvalid e)
                | Inr url \<Rightarrow>
                    if url \<noteq> expectedUrl then Inl CacheUrlMismatch
                    else (case parse_cache_fields fs url of Inl e \<Rightarrow> Inl (CacheInvalid e) | Inr m \<Rightarrow> Inr m))
      | _ \<Rightarrow> Inl (CacheInvalid (WrongSchema ''HTTP cache metadata'')))"

section \<open>The operations\<close>

definition cache_load :: "'b cache_env \<Rightarrow> cache_files \<Rightarrow> string \<Rightarrow> (cache_error, cached_metadata option) result" where
  "cache_load env files url =
     (case map_of (cf_metadata files) (cv_sha256 env url) of
        None \<Rightarrow> Inr None
      | Some None \<Rightarrow> Inl CacheNotJson
      | Some (Some v) \<Rightarrow>
          (case validatePersistedRecord (cv_contracts env) v of
             Inl e \<Rightarrow> Inl (CacheContract e)
           | Inr _ \<Rightarrow> (case parseCacheMetadata v url of Inl e \<Rightarrow> Inl e | Inr m \<Rightarrow> Inr (Some m))))"

definition cachedBody :: "'b cache_env \<Rightarrow> cache_files \<Rightarrow> cached_metadata \<Rightarrow> (cache_error, 'b option) result" where
  "cachedBody env files cached =
     (if \<not> cm_bodyPresent cached then Inr None
      else (case map_of (cf_bodies files) (cv_sha256 env (cm_url cached)) of
              None \<Rightarrow> Inr None
            | Some bytes \<Rightarrow>
                let body = bo_open (cv_body env) bytes
                in if int (bo_size (cv_body env) (Some body)) \<noteq> cm_bodyBytes cached
                   then Inl CacheBodySizeMismatch else Inr (Some body)))"

text \<open>The headers of a request are a plain record; a missing validator is added at its end.\<close>

definition add_header :: "string \<Rightarrow> string option \<Rightarrow> (string, string) jsmap \<Rightarrow> (string, string) jsmap" where
  "add_header name v h =
     (case v of None \<Rightarrow> h | Some x \<Rightarrow> if hasHeader h name then h else map_set name x h)"

definition cache_prepare ::
  "'b cache_env \<Rightarrow> cache_files \<Rightarrow> string \<Rightarrow> (string, string) jsmap
     \<Rightarrow> (cache_error, (string, string) jsmap \<times> cached_metadata option) result"
where
  "cache_prepare env files url input =
     (if \<not> ca_enabled (cv_config env) then Inr (input, None)
      else bind_result (cache_load env files url) (\<lambda>cached.
             case cached of
               None \<Rightarrow> Inr (input, None)
             | Some m \<Rightarrow>
                 Inr (add_header ''if-modified-since'' (cm_lastModified m)
                        (add_header ''if-none-match'' (cm_etag m) input), Some m)))"

definition merge_header :: "string \<Rightarrow> string option \<Rightarrow> headers \<Rightarrow> headers" where
  "merge_header name v h =
     (case v of None \<Rightarrow> h | Some x \<Rightarrow> if headers_has h name then h else headers_set name x h)"

definition mergedHeaders :: "headers \<Rightarrow> cached_metadata \<Rightarrow> headers" where
  "mergedHeaders response cached =
     merge_header ''last-modified'' (cm_lastModified cached)
       (merge_header ''etag'' (cm_etag cached)
         (merge_header ''content-type'' (cm_contentType cached) response))"

definition eligibleForStorage :: "'b fetch_result \<Rightarrow> bool" where
  "eligibleForStorage r \<longleftrightarrow>
     ft_error r = None \<and> ft_body r \<noteq> None
     \<and> (case ft_statusCode r of None \<Rightarrow> False | Some s \<Rightarrow> 200 \<le> s \<and> s < 300)
     \<and> (headers_has (ft_headers r) ''etag'' \<or> headers_has (ft_headers r) ''last-modified'')"

definition canStoreBody :: "'b cache_env \<Rightarrow> 'b fetch_result \<Rightarrow> bool" where
  "canStoreBody env r \<longleftrightarrow>
     ca_storeBodies (cv_config env) \<and> ft_body r \<noteq> None
     \<and> int (bo_size (cv_body env) (ft_body r)) \<le> ca_maxBodyBytes (cv_config env)"

text \<open>\<open>store\<close> writes or removes the body first, then writes the metadata.\<close>

definition store_body :: "'b cache_env \<Rightarrow> string \<Rightarrow> 'b fetch_result \<Rightarrow> cache_files \<Rightarrow> cache_files" where
  "store_body env url r files =
     (case ft_body r of
        Some body \<Rightarrow>
          if canStoreBody env r
          then files\<lparr>cf_bodies := map_set (cv_sha256 env url) (bo_read (cv_body env) body) (cf_bodies files)\<rparr>
          else files\<lparr>cf_bodies := map_delete (cv_sha256 env url) (cf_bodies files)\<rparr>
      | None \<Rightarrow> files\<lparr>cf_bodies := map_delete (cv_sha256 env url) (cf_bodies files)\<rparr>)"

definition metadata_of :: "'b cache_env \<Rightarrow> timestamp \<Rightarrow> string \<Rightarrow> 'b fetch_result \<Rightarrow> cached_metadata" where
  "metadata_of env now url r =
     \<lparr>cm_url = url, cm_etag = headers_get (ft_headers r) ''etag'',
      cm_lastModified = headers_get (ft_headers r) ''last-modified'',
      cm_contentType = headers_get (ft_headers r) ''content-type'',
      cm_statusCode = (case ft_statusCode r of None \<Rightarrow> 200 | Some s \<Rightarrow> s),
      cm_bodyPresent = canStoreBody env r,
      cm_bodyBytes = (if canStoreBody env r then int (bo_size (cv_body env) (ft_body r)) else 0),
      cm_storedAt = cv_iso env now\<rparr>"

definition store_metadata ::
  "'b cache_env \<Rightarrow> string \<Rightarrow> cached_metadata \<Rightarrow> cache_files \<Rightarrow> (cache_error, unit) result \<times> cache_files"
where
  "store_metadata env url m files =
     (case validatePersistedRecord (cv_contracts env) (cache_metadata_json m) of
        Inl e \<Rightarrow> (Inl (CacheContract e), files)
      | Inr _ \<Rightarrow>
          (Inr (), files\<lparr>cf_metadata :=
             map_set (cv_sha256 env url) (Some (cache_metadata_json m)) (cf_metadata files)\<rparr>))"

definition cache_store ::
  "'b cache_env \<Rightarrow> timestamp \<Rightarrow> string \<Rightarrow> 'b fetch_result \<Rightarrow> cache_files \<Rightarrow> (cache_error, unit) result \<times> cache_files"
where
  "cache_store env now url r files =
     store_metadata env url (metadata_of env now url r) (store_body env url r files)"

definition revalidated ::
  "'b cache_env \<Rightarrow> cache_files \<Rightarrow> 'b fetch_result \<Rightarrow> cached_metadata \<Rightarrow> (cache_error, 'b fetch_result) result"
where
  "revalidated env files r cached =
     bind_result (cachedBody env files cached) (\<lambda>body.
       Inr (r\<lparr>ft_headers := mergedHeaders (ft_headers r) cached, ft_body := body,
              ft_cacheStatus := (if body = None then CacheNotModifiedWithoutBody else CacheRevalidated)\<rparr>))"

definition apply_fresh ::
  "'b cache_env \<Rightarrow> timestamp \<Rightarrow> string \<Rightarrow> 'b fetch_result \<Rightarrow> cache_files
     \<Rightarrow> (cache_error, 'b fetch_result) result \<times> cache_files"
where
  "apply_fresh env now url r files =
     (if eligibleForStorage r
      then (case cache_store env now url r files of
              (Inl e, files') \<Rightarrow> (Inl e, files')
            | (Inr _, files') \<Rightarrow> (Inr (r\<lparr>ft_cacheStatus := CacheStored\<rparr>), files'))
      else (Inr (r\<lparr>ft_cacheStatus := CacheMiss\<rparr>), files))"

definition cache_apply ::
  "'b cache_env \<Rightarrow> timestamp \<Rightarrow> string \<Rightarrow> 'b fetch_result \<Rightarrow> cached_metadata option \<Rightarrow> cache_files
     \<Rightarrow> (cache_error, 'b fetch_result) result \<times> cache_files"
where
  "cache_apply env now url r cached files =
     (if \<not> ca_enabled (cv_config env) then (Inr (r\<lparr>ft_cacheStatus := CacheDisabled\<rparr>), files)
      else case cached of
             None \<Rightarrow> apply_fresh env now url r files
           | Some m \<Rightarrow>
               if ft_statusCode r = Some 304 then (revalidated env files r m, files)
               else if ft_error r \<noteq> None \<and> ca_useStaleOnError (cv_config env)
               then (case cachedBody env files m of
                       Inl e \<Rightarrow> (Inl e, files)
                     | Inr (Some stale) \<Rightarrow>
                         (Inr (r\<lparr>ft_statusCode := Some (cm_statusCode m), ft_finalUrl := Some url,
                                 ft_headers := mergedHeaders (ft_headers r) m, ft_body := Some stale,
                                 ft_cacheStatus := CacheStaleOnError, ft_error := None\<rparr>), files)
                     | Inr None \<Rightarrow> apply_fresh env now url r files)
               else apply_fresh env now url r files)"

end
