(* ===== verification/Cache_Properties.thy ===== *)
theory Cache_Properties
  imports Http_Cache Stored_Records
begin

text \<open>
  What the HTTP cache promises: its metadata are read back as written, a stored response is
  revalidated with its own validators and returns its body, a response of one URL leaves those of
  the others, and what a crash between the two writes of a response leaves behind.
\<close>

section \<open>The metadata\<close>

lemma cache_metadata_accepted:
  "isObjectContract (cache_metadata_json m) (crawlDefinitions ! 10)"
  using opt_str_cases [of "cm_etag m"] opt_str_cases [of "cm_lastModified m"] opt_str_cases [of "cm_contentType m"]
  by (simp add: cache_metadata_json_def crawlDefinitions_def contract_unfolds)

lemma persisted_cache: "persistentObjectDefinitions ! 10 = crawlDefinitions ! 10"
  by (simp add: persistentObjectDefinitions_def crawlDefinitions_def nth_append)

definition metadata_ok :: "cached_metadata \<Rightarrow> bool" where
  "metadata_ok m \<longleftrightarrow>
     100 \<le> cm_statusCode m \<and> cm_statusCode m \<le> 599 \<and> 0 \<le> cm_bodyBytes m \<and>
     cm_bodyBytes m \<le> 9007199254740991 \<and> (cm_bodyPresent m \<or> cm_bodyBytes m = 0)"

lemma opt_str_field [simp]:
  "(case opt_str v of JNull \<Rightarrow> Inr None | JStr s \<Rightarrow> Inr (Some s) | _ \<Rightarrow> Inl e) = Inr v"
  by (cases v) simp_all

lemma safe_of_int: "\<bar>i\<bar> \<le> 9007199254740991 \<Longrightarrow> \<bar>of_int i :: number\<bar> \<le> 9007199254740991"
  by (metis of_int_abs of_int_le_iff of_int_numeral)

lemma parse_cache_metadata:
  assumes "metadata_ok m"
  shows "parseCacheMetadata (cache_metadata_json m) (cm_url m) = Inr m"
  using assms safe_of_int [of "cm_statusCode m"] safe_of_int [of "cm_bodyBytes m"]
  by (auto simp: metadata_ok_def parseCacheMetadata_def cache_metadata_json_def parse_cache_fields_def
      cache_fields_def schema_identity_def hasCurrentSchema_def field_def stringField_def
      requiredInteger_def requiredBoolean_def nullableStringField_def SITE_CRAWLER_SCHEMA_VERSION_def)

section \<open>Storing and revalidating\<close>

text \<open>
  What the cache relies on of the client's bodies: a file opens as a body of its size and content,
  and the size of a body is the number of its bytes.
\<close>

definition body_laws :: "'b body_api \<Rightarrow> bool" where
  "body_laws api \<longleftrightarrow>
     (\<forall>bytes. bo_size api (Some (bo_open api bytes)) = length bytes \<and> bo_read api (bo_open api bytes) = bytes) \<and>
     (\<forall>body. bo_size api (Some body) = length (bo_read api body))"

lemma metadata_of_ok:
  assumes "eligibleForStorage r" "ca_maxBodyBytes (cv_config env) \<le> 9007199254740991"
  shows "metadata_ok (metadata_of env now url r)"
  using assms by (auto simp: eligibleForStorage_def metadata_ok_def metadata_of_def canStoreBody_def split: option.splits)

lemma store_metadata_accepted:
  assumes "uniqueIndex rt_schemaId (runtimeContracts predicates) = Inr (cv_contracts env)"
  shows "store_metadata env url m files =
    (Inr (), files\<lparr>cf_metadata := map_set (cv_sha256 env url) (Some (cache_metadata_json m)) (cf_metadata files)\<rparr>)"
  using validatePersistedRecord_accepts [OF assms, of 10 "cache_metadata_json m"] cache_metadata_accepted [of m]
  by (simp add: store_metadata_def persisted_cache persisted_nth(6))

lemma cache_load_metadata:
  assumes "uniqueIndex rt_schemaId (runtimeContracts predicates) = Inr (cv_contracts env)"
    and "map_of (cf_metadata files) (cv_sha256 env (cm_url m)) = Some (Some (cache_metadata_json m))"
    and "metadata_ok m"
  shows "cache_load env files (cm_url m) = Inr (Some m)"
  using validatePersistedRecord_accepts [OF assms(1), of 10 "cache_metadata_json m"] cache_metadata_accepted [of m]
    parse_cache_metadata [OF assms(3)] assms(2)
  by (simp add: cache_load_def persisted_cache persisted_nth(6))

lemma apply_eligible:
  assumes "ca_enabled (cv_config env)" "eligibleForStorage r"
  shows "cache_apply env now url r cached files = apply_fresh env now url r files"
  using assms by (auto simp: cache_apply_def eligibleForStorage_def split: option.splits)

lemma apply_stores:
  assumes "uniqueIndex rt_schemaId (runtimeContracts predicates) = Inr (cv_contracts env)"
    and "ca_enabled (cv_config env)" "eligibleForStorage r"
  shows "cache_apply env now url r cached files =
    (Inr (r\<lparr>ft_cacheStatus := CacheStored\<rparr>),
     (store_body env url r files)\<lparr>cf_metadata := map_set (cv_sha256 env url)
        (Some (cache_metadata_json (metadata_of env now url r))) (cf_metadata files)\<rparr>)"
  using assms(3)
  by (simp add: apply_eligible [OF assms(2,3)] apply_fresh_def cache_store_def store_metadata_accepted [OF assms(1)]
      store_body_def split: option.split)

text \<open>The validators that a request carries for a cached response.\<close>

definition with_validators :: "cached_metadata \<Rightarrow> (string, string) jsmap \<Rightarrow> (string, string) jsmap" where
  "with_validators m input =
     add_header ''if-modified-since'' (cm_lastModified m) (add_header ''if-none-match'' (cm_etag m) input)"

lemma prepare_metadata:
  assumes "uniqueIndex rt_schemaId (runtimeContracts predicates) = Inr (cv_contracts env)"
    and "ca_enabled (cv_config env)"
    and "map_of (cf_metadata files) (cv_sha256 env (cm_url m)) = Some (Some (cache_metadata_json m))"
    and "metadata_ok m"
  shows "cache_prepare env files (cm_url m) input = Inr (with_validators m input, Some m)"
  using assms(2) by (simp add: cache_prepare_def cache_load_metadata [OF assms(1,3,4)] with_validators_def)

lemma apply_not_modified:
  assumes "ca_enabled (cv_config env)" "ft_statusCode answer = Some 304"
  shows "cache_apply env now url answer (Some m) files = (revalidated env files answer m, files)"
  using assms by (simp add: cache_apply_def)

lemma cachedBody_after_store:
  assumes "body_laws (cv_body env)" "map_of (cf_bodies files) (cv_sha256 env url) =
      (if canStoreBody env r then Some (bo_read (cv_body env) (the (ft_body r))) else None)"
  shows "\<exists>body. cachedBody env files (metadata_of env now url r) = Inr body \<and>
     map_option (bo_read (cv_body env)) body =
       (if canStoreBody env r then map_option (bo_read (cv_body env)) (ft_body r) else None)"
  using assms
  by (auto simp: cachedBody_def metadata_of_def body_laws_def canStoreBody_def Let_def)

lemma store_body_file:
  assumes "eligibleForStorage r"
  shows "map_of (cf_bodies (store_body env url r files)) (cv_sha256 env url) =
      (if canStoreBody env r then Some (bo_read (cv_body env) (the (ft_body r))) else None)"
  using assms by (auto simp: store_body_def eligibleForStorage_def)


definition sample_bodies :: "string body_api" where
  "sample_bodies = \<lparr>bo_size = (\<lambda>b. case b of None \<Rightarrow> 0 | Some x \<Rightarrow> length x), bo_read = id, bo_open = id\<rparr>"

definition sample_cache :: "string cache_env" where
  "sample_cache =
     \<lparr>cv_config = \<lparr>ca_enabled = True, ca_storeBodies = True, ca_maxBodyBytes = 100, ca_useStaleOnError = True\<rparr>,
      cv_sha256 = rev, cv_contracts = sample_index, cv_body = sample_bodies, cv_iso = sample_iso\<rparr>"

definition sample_answer :: "int \<Rightarrow> headers \<Rightarrow> string option \<Rightarrow> string fetch_result" where
  "sample_answer status hs body =
     \<lparr>ft_statusCode = Some status, ft_finalUrl = None, ft_headers = hs, ft_body = body, ft_redirects = [],
      ft_responseTimeMs = 0, ft_wireBytesRead = None, ft_decodedBytesRead = None, ft_remoteAddress = None,
      ft_protocol = None, ft_timings = None, ft_tls = None, ft_cacheStatus = CacheMiss, ft_error = None\<rparr>"

lemma sample_bodies_laws: "body_laws sample_bodies"
  by (simp add: body_laws_def sample_bodies_def)

lemma sample_cache_simps:
  "cv_contracts sample_cache = sample_index" "cv_body sample_cache = sample_bodies" "ca_enabled (cv_config sample_cache)"
  "ca_maxBodyBytes (cv_config sample_cache) \<le> 9007199254740991"
  by (simp_all add: sample_cache_def)


section \<open>A crash between the two writes\<close>

text \<open>
  A crash between the writes of a response mixes two responses. When the body of a new response
  has replaced the stored one and its metadata have not been written, the next request still carries
  the validators of the old response; if the server answers 304 to them, the cache either throws,
  when the sizes differ, or returns the bytes of the new body as those of the old response.
\<close>

theorem cache_torn_store:
  assumes "uniqueIndex rt_schemaId (runtimeContracts predicates) = Inr (cv_contracts env)"
    and "body_laws (cv_body env)" "ca_enabled (cv_config env)"
    and "ca_maxBodyBytes (cv_config env) \<le> 9007199254740991"
    and "eligibleForStorage old" "canStoreBody env old" "eligibleForStorage new" "canStoreBody env new"
    and "cache_apply env now url old cached files = (out, files')" and "ft_statusCode answer = Some 304"
  shows "\<exists>m. cache_prepare env (store_body env url new files') url input = Inr (with_validators m input, Some m) \<and>
     cm_etag m = headers_get (ft_headers old) ''etag'' \<and>
     (case fst (cache_apply env later url answer (Some m) (store_body env url new files')) of
        Inl e \<Rightarrow> e = CacheBodySizeMismatch \<and> bo_size (cv_body env) (ft_body old) \<noteq> bo_size (cv_body env) (ft_body new)
      | Inr again \<Rightarrow> map_option (bo_read (cv_body env)) (ft_body again) = map_option (bo_read (cv_body env)) (ft_body new))"
proof -
  let ?m = "metadata_of env now url old" and ?files = "store_body env url new files'"
  from assms(9) apply_stores [OF assms(1,3,5)]
  have "files' = (store_body env url old files)\<lparr>cf_metadata := map_set (cv_sha256 env url)
      (Some (cache_metadata_json ?m)) (cf_metadata files)\<rparr>" by auto
  then have meta: "map_of (cf_metadata ?files) (cv_sha256 env url) = Some (Some (cache_metadata_json ?m))"
    by (simp add: store_body_def split: option.splits)
  have url: "cm_url ?m = url" by (simp add: metadata_of_def)
  have prep: "cache_prepare env ?files url input = Inr (with_validators ?m input, Some ?m)"
    using prepare_metadata [OF assms(1,3) _ metadata_of_ok [OF assms(5,4)], of ?files now url input] meta url by simp
  have content: "map_of (cf_bodies ?files) (cv_sha256 env url) = Some (bo_read (cv_body env) (the (ft_body new)))"
    using store_body_file [OF assms(7), of env url files'] assms(8) by simp
  have "cachedBody env ?files ?m =
      (if bo_size (cv_body env) (ft_body old) \<noteq> bo_size (cv_body env) (ft_body new) then Inl CacheBodySizeMismatch
       else Inr (Some (bo_open (cv_body env) (bo_read (cv_body env) (the (ft_body new))))))"
    using assms(2,6,7,8) content
    by (auto simp: cachedBody_def metadata_of_def Let_def body_laws_def eligibleForStorage_def)
  then show ?thesis
    using prep assms(2,7)
    by (intro exI [of _ ?m])
      (auto simp: apply_not_modified [OF assms(3,10)] revalidated_def metadata_of_def body_laws_def eligibleForStorage_def)
qed

theorem cache_torn_store_witness:
  "\<exists>m. cm_etag m = Some ''v1'' \<and>
     (case fst (cache_apply sample_cache 2 ''http://a/'' (sample_answer 304 [] None) (Some m)
         (store_body sample_cache ''http://a/'' (sample_answer 200 [(''etag'', ''v2'')] (Some ''xyz''))
           (snd (cache_apply sample_cache 0 ''http://a/'' (sample_answer 200 [(''etag'', ''v1'')] (Some ''abc'')) None
              \<lparr>cf_metadata = [], cf_bodies = []\<rparr>)))) of
        Inl e \<Rightarrow> bo_size sample_bodies (Some ''abc'') \<noteq> bo_size sample_bodies (Some ''xyz'')
      | Inr again \<Rightarrow> ft_body again = Some ''xyz'')"
proof -
  let ?old = "sample_answer 200 [(''etag'', ''v1'')] (Some ''abc'')" and ?new = "sample_answer 200 [(''etag'', ''v2'')] (Some ''xyz'')"
  obtain out files' where out: "cache_apply sample_cache 0 ''http://a/'' ?old None \<lparr>cf_metadata = [], cf_bodies = []\<rparr> = (out, files')"
    by (cases "cache_apply sample_cache 0 ''http://a/'' ?old None \<lparr>cf_metadata = [], cf_bodies = []\<rparr>")
  have e: "eligibleForStorage ?old" "eligibleForStorage ?new" by code_simp+
  have c: "canStoreBody sample_cache ?old" "canStoreBody sample_cache ?new"
    by (simp_all add: canStoreBody_def sample_cache_def sample_answer_def sample_bodies_def)
  have a: "ft_statusCode (sample_answer 304 [] None) = Some 304" by (simp add: sample_answer_def)
  have h: "headers_get (ft_headers ?old) ''etag'' = Some ''v1''" by code_simp
  have b: "ft_body ?old = Some ''abc''" "ft_body ?new = Some ''xyz''" "bo_read sample_bodies = id"
    by (simp_all add: sample_answer_def sample_bodies_def)
  show ?thesis
    using cache_torn_store [of "[]" sample_cache, unfolded sample_cache_simps, OF sample_index sample_bodies_laws
        sample_cache_simps(3,4) e(1) c(1) e(2) c(2) out a, of "[]" 2]
    unfolding h b by (auto simp: out option.map_id0 split: sum.splits)
qed

end
