(* ===== verification/Http_Session.thy ===== *)
theory Http_Session
  imports Http_Types
begin

text \<open>
  The sessions of the HTTP client, class \<open>SessionManager\<close> of \<open>http/session/manager.ts\<close> and the
  conversion of cookies for the renderer, \<open>http/session/render-cookies.ts\<close>.

  The cookie jar is third-party: the record \<open>jar_api\<close> on a type \<open>'j\<close> of jars, where a cookie
  that the jar rejects is \<open>None\<close>. The cookie file is absent, not a JSON value or a JSON value.
\<close>

section \<open>Base64\<close>

definition base64_char :: "nat \<Rightarrow> char" where
  "base64_char n =
     (if n < 26 then char_of (65 + n) else if n < 52 then char_of (97 + (n - 26))
      else if n < 62 then char_of (48 + (n - 52)) else if n = 62 then CHR ''+'' else CHR ''/'')"

fun base64 :: "nat list \<Rightarrow> string" where
  "base64 [] = []"
| "base64 [a] = [base64_char (a div 4), base64_char (a mod 4 * 16), CHR ''='', CHR ''='']"
| "base64 [a, b] =
     [base64_char (a div 4), base64_char (a mod 4 * 16 + b div 16), base64_char (b mod 16 * 4), CHR ''='']"
| "base64 (a # b # c # bs) =
     base64_char (a div 4) # base64_char (a mod 4 * 16 + b div 16)
       # base64_char (b mod 16 * 4 + c div 64) # base64_char (c mod 64) # base64 bs"

definition utf8_bytes :: "string \<Rightarrow> nat list" where
  "utf8_bytes s = map nat (concat (map utf8 (units_of s)))"

section \<open>Configuration and state\<close>

record basic_credential =
  bc_origin :: string
  bc_username :: string
  bc_password :: string

record bearer_credential =
  be_origin :: string
  be_token :: string

record session_config =
  sg_enabled :: bool
  sg_persistCookies :: bool
  sg_cookieFile :: "string option"
  sg_initialCookies :: "(string \<times> string) list"   \<comment> \<open>URL and cookie\<close>
  sg_basicAuth :: "basic_credential list"
  sg_bearerAuth :: "bearer_credential list"

record 'j jar_api =
  ja_empty :: 'j
  ja_cookieString :: "'j \<Rightarrow> string \<Rightarrow> string"
  ja_set :: "'j \<Rightarrow> string \<Rightarrow> string \<Rightarrow> 'j option"     \<comment> \<open>cookie, URL\<close>
  ja_serialize :: "'j \<Rightarrow> json"
  ja_deserialize :: "json \<Rightarrow> 'j option"

datatype cookie_file = NoCookieFile | CookieNotJson | CookieJson json

record 'j session_env =
  sv_config :: session_config
  sv_jar :: "'j jar_api"
  sv_parse :: url_parser

text \<open>The promise of the initialisation is kept, with its rejection.\<close>

record 'j session_state =
  ss_jar :: 'j
  ss_initialized :: "(string, unit) result option"
  ss_file :: cookie_file

definition new_SessionManager :: "'j session_env \<Rightarrow> cookie_file \<Rightarrow> 'j session_state" where
  "new_SessionManager env cookies = \<lparr>ss_jar = ja_empty (sv_jar env), ss_initialized = None, ss_file = cookies\<rparr>"

section \<open>Initialisation\<close>

definition readJar :: "'j session_env \<Rightarrow> cookie_file \<Rightarrow> (string, 'j option) result" where
  "readJar env cookies =
     (case cookies of
        NoCookieFile \<Rightarrow> Inr None
      | CookieNotJson \<Rightarrow> Inl ''SyntaxError''
      | CookieJson (JObj fs) \<Rightarrow>
          (case ja_deserialize (sv_jar env) (JObj fs) of
             None \<Rightarrow> Inl ''CookieJar.deserialize'' | Some j \<Rightarrow> Inr (Some j))
      | CookieJson _ \<Rightarrow> Inl ''Cookie file must contain an object.'')"

fun set_initial :: "'j jar_api \<Rightarrow> (string \<times> string) list \<Rightarrow> 'j \<Rightarrow> (string, unit) result \<times> 'j" where
  "set_initial api [] j = (Inr (), j)"
| "set_initial api ((url, cookie) # cs) j =
     (case ja_set api j cookie url of
        None \<Rightarrow> (Inl ''setCookie'', j)
      | Some j' \<Rightarrow> set_initial api cs j')"

definition session_initialize :: "'j session_env \<Rightarrow> 'j session_state \<Rightarrow> (string, unit) result \<times> 'j session_state" where
  "session_initialize env s =
     (let config = sv_config env;
          restored = (if sg_persistCookies config \<and> sg_cookieFile config \<noteq> None
                      then readJar env (ss_file s) else Inr None)
      in case restored of
           Inl e \<Rightarrow> (Inl e, s)
         | Inr found \<Rightarrow>
             (let start = (case found of None \<Rightarrow> ss_jar s | Some j \<Rightarrow> j);
                  (out, jar) = set_initial (sv_jar env) (sg_initialCookies config) start
              in (out, s\<lparr>ss_jar := jar\<rparr>)))"

definition ensureInitialized :: "'j session_env \<Rightarrow> 'j session_state \<Rightarrow> (string, unit) result \<times> 'j session_state" where
  "ensureInitialized env s =
     (case ss_initialized s of
        Some out \<Rightarrow> (out, s)
      | None \<Rightarrow> (let (out, s') = session_initialize env s in (out, s'\<lparr>ss_initialized := Some out\<rparr>)))"

section \<open>Requests and responses\<close>

text \<open>\<open>None\<close> where \<open>new URL\<close> throws.\<close>

definition authorizationFor :: "'j session_env \<Rightarrow> string \<Rightarrow> string option option" where
  "authorizationFor env url =
     map_option (\<lambda>u.
       case List.find (\<lambda>c. be_origin c = url_origin u) (sg_bearerAuth (sv_config env)) of
         Some bearer \<Rightarrow> Some (''Bearer '' @ be_token bearer)
       | None \<Rightarrow>
           (case List.find (\<lambda>c. bc_origin c = url_origin u) (sg_basicAuth (sv_config env)) of
              None \<Rightarrow> None
            | Some basic \<Rightarrow>
                Some (''Basic '' @ base64 (utf8_bytes (bc_username basic @ '':'' @ bc_password basic)))))
       (sv_parse env url None)"

definition requestHeaders ::
  "'j session_env \<Rightarrow> string \<Rightarrow> (string, string) jsmap \<Rightarrow> 'j session_state
     \<Rightarrow> (string, (string, string) jsmap) result \<times> 'j session_state"
where
  "requestHeaders env url input s =
     (if \<not> sg_enabled (sv_config env) then (Inr input, s)
      else case ensureInitialized env s of
             (Inl e, s') \<Rightarrow> (Inl e, s')
           | (Inr _, s') \<Rightarrow>
               (let cookie = ja_cookieString (sv_jar env) (ss_jar s') url;
                    headers = (if cookie \<noteq> [] \<and> \<not> hasHeader input ''cookie''
                               then map_set ''cookie'' cookie input else input)
                in if hasHeader headers ''authorization'' then (Inr headers, s')
                   else case authorizationFor env url of
                          None \<Rightarrow> (Inl ''Invalid URL'', s')
                        | Some None \<Rightarrow> (Inr headers, s')
                        | Some (Some a) \<Rightarrow> (Inr (map_set ''authorization'' a headers), s')))"

text \<open>The values of \<open>Set-Cookie\<close> are separate entries of the headers; a rejected cookie is ignored.\<close>

definition getSetCookie :: "headers \<Rightarrow> string list" where
  "getSetCookie h = map snd (filter (\<lambda>(name, v). name = ''set-cookie'') h)"

definition set_ignoring :: "'j jar_api \<Rightarrow> string \<Rightarrow> 'j \<Rightarrow> string \<Rightarrow> 'j" where
  "set_ignoring api url j cookie = (case ja_set api j cookie url of None \<Rightarrow> j | Some j' \<Rightarrow> j')"

definition capture ::
  "'j session_env \<Rightarrow> string \<Rightarrow> headers \<Rightarrow> 'j session_state \<Rightarrow> (string, unit) result \<times> 'j session_state"
where
  "capture env url h s =
     (if \<not> sg_enabled (sv_config env) then (Inr (), s)
      else case ensureInitialized env s of
             (Inl e, s') \<Rightarrow> (Inl e, s')
           | (Inr _, s') \<Rightarrow>
               (Inr (), s'\<lparr>ss_jar := foldl (set_ignoring (sv_jar env) url) (ss_jar s') (getSetCookie h)\<rparr>))"

definition session_close :: "'j session_env \<Rightarrow> 'j session_state \<Rightarrow> (string, unit) result \<times> 'j session_state" where
  "session_close env s =
     (if \<not> sg_enabled (sv_config env) \<or> \<not> sg_persistCookies (sv_config env) then (Inr (), s)
      else case ensureInitialized env s of
             (Inl e, s') \<Rightarrow> (Inl e, s')
           | (Inr _, s') \<Rightarrow>
               (if sg_cookieFile (sv_config env) = None then (Inr (), s')
                else (Inr (), s'\<lparr>ss_file := CookieJson (ja_serialize (sv_jar env) (ss_jar s'))\<rparr>)))"

section \<open>Cookies of the renderer\<close>

datatype same_site = SameStrict | SameLax | SameNone

record render_cookie =
  rk_name :: string
  rk_value :: string
  rk_domain :: string
  rk_path :: string
  rk_expires :: number
  rk_httpOnly :: bool
  rk_secure :: bool
  rk_sameSite :: same_site

text \<open>A cookie of the jar; its expiry is in milliseconds, \<open>None\<close> for Infinity.\<close>

record jar_cookie =
  jk_key :: string
  jk_value :: string
  jk_domain :: "string option"
  jk_path :: "string option"
  jk_expires :: "number option"
  jk_httpOnly :: bool
  jk_secure :: bool
  jk_sameSite :: "string option"

fun jar_same_site :: "same_site \<Rightarrow> string" where
  "jar_same_site SameStrict = ''strict''"
| "jar_same_site SameNone = ''none''"
| "jar_same_site SameLax = ''lax''"

definition normalizeSameSite :: "string option \<Rightarrow> same_site" where
  "normalizeSameSite v =
     (if v = Some ''strict'' then SameStrict else if v = Some ''none'' then SameNone else SameLax)"

definition drop_dot :: "string \<Rightarrow> string" where
  "drop_dot s = (case s of [] \<Rightarrow> [] | c # cs \<Rightarrow> if c = CHR ''.'' then cs else s)"

definition renderCookieForJar :: "url_parser \<Rightarrow> render_cookie \<Rightarrow> string \<Rightarrow> jar_cookie option" where
  "renderCookieForJar parse cookie url =
     map_option (\<lambda>u.
       let host = to_lower (u_hostname u); cookieDomain = to_lower (drop_dot (rk_domain cookie))
       in \<lparr>jk_key = rk_name cookie, jk_value = rk_value cookie,
           jk_domain = (if cookieDomain = host then None else Some (rk_domain cookie)),
           jk_path = Some (rk_path cookie),
           jk_expires = (if rk_expires cookie < 0 then None else Some (rk_expires cookie * 1000)),
           jk_httpOnly = rk_httpOnly cookie, jk_secure = rk_secure cookie,
           jk_sameSite = Some (jar_same_site (rk_sameSite cookie))\<rparr>)
       (parse url None)"

definition expirationSeconds :: "jar_cookie \<Rightarrow> number" where
  "expirationSeconds cookie = (case jk_expires cookie of None \<Rightarrow> -1 | Some ms \<Rightarrow> of_int \<lfloor>ms / 1000\<rfloor>)"

definition toRenderCookie :: "jar_cookie \<Rightarrow> render_cookie" where
  "toRenderCookie cookie =
     \<lparr>rk_name = jk_key cookie, rk_value = jk_value cookie,
      rk_domain = (case jk_domain cookie of None \<Rightarrow> [] | Some d \<Rightarrow> d),
      rk_path = (case jk_path cookie of None \<Rightarrow> ''/'' | Some p \<Rightarrow> p),
      rk_expires = expirationSeconds cookie, rk_httpOnly = jk_httpOnly cookie,
      rk_secure = jk_secure cookie, rk_sameSite = normalizeSameSite (jk_sameSite cookie)\<rparr>"

end
