(* ===== verification/Http_Fetcher.thy ===== *)
theory Http_Fetcher
  imports Http_Cache Http_Session Politeness
begin

text \<open>
  The HTTP client of the crawler, class \<open>HttpFetcher\<close> of \<open>http/fetcher.ts\<close>: a request is sent
  through the cache and the session, and its redirects are followed one by one, each target after
  the decision of the caller.

  The transport is third-party: \<open>fe_transport k\<close> answers the request of hop \<open>k\<close>, and \<open>fe_merge\<close> and
  \<open>fe_afterRedirect\<close> are its functions on header fields. The caller's \<open>onRedirectTarget\<close> works
  on a state of type \<open>'p\<close>. The state logs the requests handed to the transport. The disposal of the
  bodies that are not returned is not modelled.
\<close>

section \<open>Environment and state\<close>

type_synonym fields = "(string, string) jsmap"

record fetch_options =
  fo_requestId :: string
  fo_method :: request_method
  fo_headers :: fields
  fo_maxRedirects :: "int option"

record ('b, 'j, 'p) fetch_env =
  fe_network :: network_config
  fe_parse :: url_parser
  fe_cache :: "'b cache_env"
  fe_session :: "'j session_env"
  fe_transport :: "nat \<Rightarrow> string \<Rightarrow> request_method \<Rightarrow> fields \<Rightarrow> 'b buffered_result"
  fe_timedOut :: "nat \<Rightarrow> bool"      \<comment> \<open>the timeout has fired and the caller's signal has not\<close>
  fe_merge :: "fields \<Rightarrow> fields \<Rightarrow> fields"
  fe_afterRedirect :: "string \<Rightarrow> string \<Rightarrow> int \<Rightarrow> request_method \<Rightarrow> fields \<Rightarrow> fields"
  fe_decide :: "string \<Rightarrow> 'p \<Rightarrow> (string, redirect_target_decision) result \<times> 'p"
  fe_now :: "nat \<Rightarrow> timestamp"
  fe_duration :: "nat \<Rightarrow> number"

record ('j, 'p) fetch_state =
  fx_files :: cache_files
  fx_session :: "'j session_state"
  fx_policy :: 'p
  fx_requests :: "(string \<times> fields) list"

datatype fetch_error = FetchInvalidUrl | FetchCache cache_error | FetchSession string | FetchPolicy string

section \<open>One exchange\<close>

text \<open>From \<open>cache.prepare\<close> to \<open>cache.apply\<close>.\<close>

definition fetch_exchange ::
  "('b, 'j, 'p) fetch_env \<Rightarrow> fetch_options \<Rightarrow> nat \<Rightarrow> string \<Rightarrow> fields \<Rightarrow> ('j, 'p) fetch_state
     \<Rightarrow> (fetch_error, 'b fetch_result) result \<times> ('j, 'p) fetch_state"
where
  "fetch_exchange env opts hop url requestHeaders' st =
     (case cache_prepare (fe_cache env) (fx_files st) url requestHeaders' of
        Inl e \<Rightarrow> (Inl (FetchCache e), st)
      | Inr (prepared, cached) \<Rightarrow>
          (case requestHeaders (fe_session env) url prepared (fx_session st) of
             (Inl e, s) \<Rightarrow> (Inl (FetchSession e), st\<lparr>fx_session := s\<rparr>)
           | (Inr headers, s) \<Rightarrow>
               (let st = st\<lparr>fx_session := s, fx_requests := fx_requests st @ [(url, headers)]\<rparr>;
                    shared = fe_transport env hop url (fo_method opts) headers;
                    fetched = fromSharedResult (fe_now env hop) (fo_requestId opts) (fe_timedOut env hop) shared
                in case capture (fe_session env) url (ft_headers fetched) (fx_session st) of
                     (Inl e, s) \<Rightarrow> (Inl (FetchSession e), st\<lparr>fx_session := s\<rparr>)
                   | (Inr _, s) \<Rightarrow>
                       (let st = st\<lparr>fx_session := s\<rparr>
                        in case cache_apply (fe_cache env) (fe_now env hop) url fetched cached (fx_files st) of
                             (Inl e, files) \<Rightarrow> (Inl (FetchCache e), st\<lparr>fx_files := files\<rparr>)
                           | (Inr r, files) \<Rightarrow> (Inr r, st\<lparr>fx_files := files\<rparr>)))))"

section \<open>One redirect\<close>

definition redirectIdentity :: "url_parser \<Rightarrow> string \<Rightarrow> string option" where
  "redirectIdentity parse url = map_option without_hash (parse url None)"

definition redirectFailure ::
  "timestamp \<Rightarrow> crawl_error_code \<Rightarrow> string \<Rightarrow> string \<Rightarrow> fetch_options \<Rightarrow> int option \<Rightarrow> headers \<Rightarrow> redirect_hop list
     \<Rightarrow> 'b fetch_result"
where
  "redirectFailure now code message url opts status hs redirects =
     (failure now code message url (fo_requestId opts) status hs None False)\<lparr>ft_redirects := redirects\<rparr>"

definition invalid_target :: "timestamp \<Rightarrow> string \<Rightarrow> fetch_options \<Rightarrow> int \<Rightarrow> 'b fetch_result" where
  "invalid_target now currentUrl opts status =
     failure now E_REDIRECT_TARGET_REJECTED ''Invalid redirect target'' currentUrl (fo_requestId opts)
       (Some status) [] (Some (''TypeError'', ''Invalid URL'')) False"

text \<open>Where a redirect leads: the loop ends or goes on with a URL, its headers and the hops so far.\<close>

datatype 'b hop_outcome =
    HopThrown fetch_error
  | HopDone "'b fetch_result"
  | HopNext string fields "string list" "redirect_hop list"

definition follow_redirect ::
  "('b, 'j, 'p) fetch_env \<Rightarrow> fetch_options \<Rightarrow> nat \<Rightarrow> string \<Rightarrow> fields \<Rightarrow> string list \<Rightarrow> redirect_hop list
     \<Rightarrow> 'b fetch_result \<Rightarrow> int \<Rightarrow> string \<Rightarrow> string \<Rightarrow> ('j, 'p) fetch_state
     \<Rightarrow> 'b hop_outcome \<times> ('j, 'p) fetch_state"
where
  "follow_redirect env opts hop url requestHeaders' visited redirects r status target identity st =
     (let now = fe_now env hop; isLoop = identity \<in> set visited
      in if isLoop
         then (HopDone (redirectFailure now E_REDIRECT_LOOP ''Redirect loop detected'' target opts (Some status)
                 (ft_headers r) (redirects @ [createRedirectHop now url target status hop False None])), st)
         else case fe_decide env target (fx_policy st) of
                (Inl e, p) \<Rightarrow> (HopThrown (FetchPolicy e), st\<lparr>fx_policy := p\<rparr>)
              | (Inr decision, p) \<Rightarrow>
                  (let st = st\<lparr>fx_policy := p\<rparr>;
                       hops = redirects @ [createRedirectHop now url target status hop True (Some decision)]
                   in if td_rejectionKind decision = Some RejectDns
                      then (HopDone ((failure now E_DNS_ERROR
                              (case td_reason decision of None \<Rightarrow> ''Redirect target DNS lookup failed'' | Some m \<Rightarrow> m)
                              target (fo_requestId opts) None (ft_headers r) None True)\<lparr>ft_redirects := hops\<rparr>), st)
                      else if \<not> td_allowed decision
                      then (HopDone (redirectFailure now E_REDIRECT_TARGET_REJECTED
                              (case td_reason decision of None \<Rightarrow> ''Redirect target rejected'' | Some m \<Rightarrow> m)
                              target opts (Some status) (ft_headers r) hops), st)
                      else (HopNext target
                              (fe_afterRedirect env url target status (fo_method opts) requestHeaders')
                              (visited @ [identity]) hops, st)))"

definition fetch_hop ::
  "('b, 'j, 'p) fetch_env \<Rightarrow> fetch_options \<Rightarrow> nat \<Rightarrow> string \<Rightarrow> fields \<Rightarrow> string list \<Rightarrow> redirect_hop list
     \<Rightarrow> ('j, 'p) fetch_state \<Rightarrow> 'b hop_outcome \<times> ('j, 'p) fetch_state"
where
  "fetch_hop env opts hop url requestHeaders' visited redirects st =
     (case fetch_exchange env opts hop url requestHeaders' st of
        (Inl e, st) \<Rightarrow> (HopThrown e, st)
      | (Inr r, st) \<Rightarrow>
          (let finished = (HopDone (r\<lparr>ft_redirects := redirects\<rparr>), st)
           in if ft_error r \<noteq> None then finished
              else case (ft_statusCode r, headers_get (ft_headers r) ''location'') of
                     (Some status, Some location) \<Rightarrow>
                       if \<not> isRedirectStatus status then finished
                       else (case resolveRedirectTarget (fe_parse env) location url of
                               None \<Rightarrow> (HopDone (invalid_target (fe_now env hop) url opts status), st)
                             | Some target \<Rightarrow>
                                 (case redirectIdentity (fe_parse env) target of
                                    None \<Rightarrow> (HopThrown FetchInvalidUrl, st)
                                  | Some identity \<Rightarrow>
                                      follow_redirect env opts hop url requestHeaders' visited redirects r status
                                        target identity st))
                   | _ \<Rightarrow> finished))"

section \<open>The loop\<close>

definition max_redirects :: "('b, 'j, 'p) fetch_env \<Rightarrow> fetch_options \<Rightarrow> int" where
  "max_redirects env opts =
     (case fo_maxRedirects opts of None \<Rightarrow> nc_maxRedirects (fe_network env) | Some n \<Rightarrow> n)"

function fetch_loop ::
  "('b, 'j, 'p) fetch_env \<Rightarrow> fetch_options \<Rightarrow> nat \<Rightarrow> string \<Rightarrow> fields \<Rightarrow> string list \<Rightarrow> redirect_hop list
     \<Rightarrow> ('j, 'p) fetch_state \<Rightarrow> (fetch_error, 'b fetch_result) result \<times> ('j, 'p) fetch_state"
where
  "fetch_loop env opts hop url requestHeaders' visited redirects st =
     (if max_redirects env opts < int hop
      then (Inr (withDuration (fe_duration env hop)
              (redirectFailure (fe_now env hop) E_TOO_MANY_REDIRECTS ''Redirect limit exceeded'' url opts None []
                 redirects)), st)
      else case fetch_hop env opts hop url requestHeaders' visited redirects st of
             (HopThrown e, st') \<Rightarrow> (Inl e, st')
           | (HopDone r, st') \<Rightarrow> (Inr (withDuration (fe_duration env hop) r), st')
           | (HopNext target headers visited' redirects', st') \<Rightarrow>
               fetch_loop env opts (hop + 1) target headers visited' redirects' st')"
  by pat_completeness auto

termination
  by (relation "measure (\<lambda>(env, opts, hop, _). nat (max_redirects env opts + 1 - int hop))") auto

declare fetch_loop.simps [simp del]

definition http_fetch ::
  "('b, 'j, 'p) fetch_env \<Rightarrow> fetch_options \<Rightarrow> string \<Rightarrow> ('j, 'p) fetch_state
     \<Rightarrow> (fetch_error, 'b fetch_result) result \<times> ('j, 'p) fetch_state"
where
  "http_fetch env opts url st =
     (case redirectIdentity (fe_parse env) url of
        None \<Rightarrow> (Inl FetchInvalidUrl, st)
      | Some identity \<Rightarrow>
          fetch_loop env opts 0 url (fe_merge env (nc_headers (fe_network env)) (fo_headers opts)) [identity] [] st)"

end
