(* ===== verification/Fetch_Properties.thy ===== *)
theory Fetch_Properties
  imports Http_Fetcher Execution_Properties
begin

text \<open>
  What the HTTP client promises: the number of its requests, the URLs it requests, the approval of
  each redirect target, the credentials it sends, and the hops that it records.
\<close>

section \<open>One hop\<close>

text \<open>A request for \<open>url\<close> whose headers the cache and the session made from \<open>hs\<close>.\<close>

definition sent ::
  "('b, 'j, 'p) fetch_env \<Rightarrow> string \<Rightarrow> fields \<Rightarrow> string \<times> fields \<Rightarrow> bool"
where
  "sent env url hs request \<longleftrightarrow>
     fst request = url \<and>
     (\<exists>files prepared cached s s'. cache_prepare (fe_cache env) files url hs = Inr (prepared, cached) \<and>
        requestHeaders (fe_session env) url prepared s = (Inr (snd request), s'))"

lemma fetch_exchange_log:
  assumes "fetch_exchange env opts hop url hs st = (out, st')"
  shows "\<exists>new. fx_requests st' = fx_requests st @ new \<and> fx_policy st' = fx_policy st \<and>
     (case out of Inl _ \<Rightarrow> new = [] \<or> (\<exists>h. new = [(url, h)] \<and> sent env url hs (url, h))
      | Inr _ \<Rightarrow> (\<exists>h. new = [(url, h)] \<and> sent env url hs (url, h)))"
  using assms unfolding fetch_exchange_def sent_def
  by (auto simp: Let_def split: sum.splits prod.splits) metis+

lemma follow_redirect_log:
  "follow_redirect env opts hop url hs visited redirects r status target identity st = (out, st')
     \<Longrightarrow> fx_requests st' = fx_requests st"
  by (auto simp: follow_redirect_def Let_def split: if_splits sum.splits prod.splits)

text \<open>The caller approved a redirect target.\<close>

definition approved :: "('b, 'j, 'p) fetch_env \<Rightarrow> string \<Rightarrow> bool" where
  "approved env target \<longleftrightarrow>
     (\<exists>p p' d. fe_decide env target p = (Inr d, p') \<and> td_allowed d \<and> td_rejectionKind d \<noteq> Some RejectDns)"

lemma follow_redirect_next:
  assumes "follow_redirect env opts hop url hs visited redirects r status target identity st = (HopNext t hs' v' rs', st')"
  shows "t = target \<and> identity \<notin> set visited \<and> v' = visited @ [identity] \<and> approved env target \<and>
     hs' = fe_afterRedirect env url target status (fo_method opts) hs \<and>
     (\<exists>d. rs' = redirects @ [createRedirectHop (fe_now env hop) url target status hop True (Some d)])"
  using assms by (auto simp: follow_redirect_def approved_def Let_def split: if_splits sum.splits prod.splits)

lemma fetch_hop_log:
  assumes "fetch_hop env opts hop url hs visited redirects st = (out, st')"
  shows "\<exists>new. fx_requests st' = fx_requests st @ new \<and> (new = [] \<or> (\<exists>h. new = [(url, h)] \<and> sent env url hs (url, h)))"
proof -
  obtain out1 st1 where ex: "fetch_exchange env opts hop url hs st = (out1, st1)"
    by (cases "fetch_exchange env opts hop url hs st")
  have "fx_requests st' = fx_requests st1"
    using assms ex
    by (auto simp: fetch_hop_def Let_def split: sum.splits option.splits if_splits dest: follow_redirect_log)
  with fetch_exchange_log [OF ex] show ?thesis by (cases out1) auto
qed

lemma fetch_hop_next:
  assumes "fetch_hop env opts hop url hs visited redirects st = (HopNext t hs' v' rs', st')"
  shows "\<exists>h identity status d. fx_requests st' = fx_requests st @ [(url, h)] \<and> sent env url hs (url, h) \<and>
     redirectIdentity (fe_parse env) t = Some identity \<and> identity \<notin> set visited \<and> v' = visited @ [identity] \<and>
     approved env t \<and> hs' = fe_afterRedirect env url t status (fo_method opts) hs \<and>
     rs' = redirects @ [createRedirectHop (fe_now env hop) url t status hop True (Some d)]"
proof -
  obtain out1 st1 where ex: "fetch_exchange env opts hop url hs st = (out1, st1)"
    by (cases "fetch_exchange env opts hop url hs st")
  from assms ex obtain r status target identity where
    "out1 = Inr r" and identity: "redirectIdentity (fe_parse env) target = Some identity"
    and follow: "follow_redirect env opts hop url hs visited redirects r status target identity st1
      = (HopNext t hs' v' rs', st')"
    by (auto simp: fetch_hop_def Let_def split: sum.splits option.splits if_splits)
  with fetch_exchange_log [OF ex] obtain h where
    "fx_requests st1 = fx_requests st @ [(url, h)]" "sent env url hs (url, h)" by auto
  with follow_redirect_log [OF follow] follow_redirect_next [OF follow] identity show ?thesis by auto
qed

section \<open>The rule of the loop\<close>

lemma fetch_loop_rule:
  assumes inv: "I hop url hs visited redirects st"
    and step: "\<And>hop url hs v rs st t hs' v' rs' st'. I hop url hs v rs st \<Longrightarrow> int hop \<le> max_redirects env opts \<Longrightarrow>
      fetch_hop env opts hop url hs v rs st = (HopNext t hs' v' rs', st') \<Longrightarrow> I (hop + 1) t hs' v' rs' st'"
    and thrown: "\<And>hop url hs v rs st e st'. I hop url hs v rs st \<Longrightarrow> int hop \<le> max_redirects env opts \<Longrightarrow>
      fetch_hop env opts hop url hs v rs st = (HopThrown e, st') \<Longrightarrow> Q (Inl e, st')"
    and finished: "\<And>hop url hs v rs st r st'. I hop url hs v rs st \<Longrightarrow> int hop \<le> max_redirects env opts \<Longrightarrow>
      fetch_hop env opts hop url hs v rs st = (HopDone r, st') \<Longrightarrow> Q (Inr (withDuration (fe_duration env hop) r), st')"
    and over: "\<And>hop url hs v rs st. I hop url hs v rs st \<Longrightarrow> max_redirects env opts < int hop \<Longrightarrow>
      Q (Inr (withDuration (fe_duration env hop) (redirectFailure (fe_now env hop) E_TOO_MANY_REDIRECTS
          ''Redirect limit exceeded'' url opts None [] rs)), st)"
  shows "Q (fetch_loop env opts hop url hs visited redirects st)"
  using inv
proof (induction "nat (max_redirects env opts + 1 - int hop)" arbitrary: hop url hs visited redirects st
    rule: less_induct)
  case less
  show ?case
  proof (cases "max_redirects env opts < int hop")
    case True
    then show ?thesis using over [OF less.prems] by (subst fetch_loop.simps) simp
  next
    case False
    obtain out st' where hop: "fetch_hop env opts hop url hs visited redirects st = (out, st')"
      by (cases "fetch_hop env opts hop url hs visited redirects st")
    show ?thesis
    proof (cases out)
      case (HopNext t hs' v' rs')
      have "nat (max_redirects env opts + 1 - int (hop + 1)) < nat (max_redirects env opts + 1 - int hop)"
        using False by simp
      from less.hyps [OF this step [OF less.prems _ hop [unfolded HopNext]]] False
      show ?thesis by (subst fetch_loop.simps) (simp add: hop HopNext)
    qed (use False hop less.prems thrown finished in \<open>subst fetch_loop.simps, auto\<close>)+
  qed
qed


section \<open>The requests of a fetch\<close>

text \<open>
  The requests of a fetch of \<open>url0\<close> before hop \<open>hop\<close>, whose URL is \<open>url\<close>: one per hop, of distinct
  identities, each after the first approved and recorded in the hops.
\<close>

definition trail ::
  "('b, 'j, 'p) fetch_env \<Rightarrow> string \<Rightarrow> (string \<times> fields) list \<Rightarrow> nat \<Rightarrow> string \<Rightarrow> string list \<Rightarrow> redirect_hop list \<Rightarrow> bool"
where
  "trail env url0 new hop url visited redirects \<longleftrightarrow>
     length new = hop \<and> distinct visited \<and>
     map (redirectIdentity (fe_parse env)) (map fst new @ [url]) = map Some visited \<and>
     hd (map fst new @ [url]) = url0 \<and> list_all (approved env) (tl (map fst new @ [url])) \<and>
     map rh_fromUrl redirects = map fst new \<and> map rh_toUrl redirects = tl (map fst new @ [url]) \<and>
     map rh_hopIndex redirects = [0..<hop]"

lemma trail_next:
  assumes "trail env url0 new hop url visited redirects"
    and "redirectIdentity (fe_parse env) t = Some identity" "identity \<notin> set visited" "approved env t"
  shows "trail env url0 (new @ [(url, h)]) (hop + 1) t (visited @ [identity])
     (redirects @ [createRedirectHop now url t status hop True d])"
  using assms by (cases new) (auto simp: trail_def createRedirectHop_def)

lemma trail_requests:
  assumes "trail env url0 new hop url visited redirects" "new' = [] \<or> (\<exists>h. new' = [(url, h)])"
  shows "length (new @ new') \<le> hop + 1 \<and> distinct (map (redirectIdentity (fe_parse env) \<circ> fst) (new @ new')) \<and>
     list_all (approved env) (tl (map fst (new @ new'))) \<and> (new @ new' \<noteq> [] \<longrightarrow> fst (hd (new @ new')) = url0)"
proof -
  have ids: "map (redirectIdentity (fe_parse env)) (map fst new @ [url]) = map Some visited" "distinct visited"
    using assms(1) by (simp_all add: trail_def)
  then have d: "distinct (map (redirectIdentity (fe_parse env)) (map fst new @ [url]))"
    by (simp add: distinct_map)
  show ?thesis
  proof (cases "new' = []")
    case True
    then show ?thesis using assms(1) d by (cases new) (auto simp: trail_def)
  next
    case False
    then obtain h where "new' = [(url, h)]" using assms(2) by auto
    then show ?thesis using assms(1) d by (cases new) (auto simp: trail_def)
  qed
qed

lemma trail_start:
  "redirectIdentity (fe_parse env) url = Some identity \<Longrightarrow> trail env url [] 0 url [identity] []"
  by (simp add: trail_def)

definition within_bounds ::
  "('b, 'j, 'p) fetch_env \<Rightarrow> fetch_options \<Rightarrow> string \<Rightarrow> ('j, 'p) fetch_state
     \<Rightarrow> (fetch_error, 'b fetch_result) result \<times> ('j, 'p) fetch_state \<Rightarrow> bool"
where
  "within_bounds env opts url st out \<longleftrightarrow>
     (\<exists>new. fx_requests (snd out) = fx_requests st @ new \<and>
        length new \<le> nat (max_redirects env opts + 1) \<and>
        distinct (map (redirectIdentity (fe_parse env) \<circ> fst) new) \<and>
        list_all (approved env) (tl (map fst new)) \<and> (new \<noteq> [] \<longrightarrow> fst (hd new) = url))"

definition on_trail ::
  "('b, 'j, 'p) fetch_env \<Rightarrow> fetch_options \<Rightarrow> string \<Rightarrow> ('j, 'p) fetch_state \<Rightarrow> nat \<Rightarrow> string \<Rightarrow> fields
     \<Rightarrow> string list \<Rightarrow> redirect_hop list \<Rightarrow> ('j, 'p) fetch_state \<Rightarrow> bool"
where
  "on_trail env opts url0 st0 hop url hs visited redirects st \<longleftrightarrow>
     (\<exists>new. fx_requests st = fx_requests st0 @ new \<and> int hop \<le> max 0 (max_redirects env opts + 1) \<and>
        trail env url0 new hop url visited redirects)"

lemma on_trail_next:
  assumes "on_trail env opts url0 st0 hop url hs v rs st" "int hop \<le> max_redirects env opts"
    and "fetch_hop env opts hop url hs v rs st = (HopNext t hs' v' rs', st')"
  shows "on_trail env opts url0 st0 (hop + 1) t hs' v' rs' st'"
proof -
  from assms(1) obtain new where new: "fx_requests st = fx_requests st0 @ new" "trail env url0 new hop url v rs"
    by (auto simp: on_trail_def)
  from fetch_hop_next [OF assms(3)] obtain h identity status d where
    next_hop: "fx_requests st' = fx_requests st @ [(url, h)]" "redirectIdentity (fe_parse env) t = Some identity"
      "identity \<notin> set v" "v' = v @ [identity]" "approved env t"
      "rs' = rs @ [createRedirectHop (fe_now env hop) url t status hop True (Some d)]"
    by blast
  then have "trail env url0 (new @ [(url, h)]) (hop + 1) t v' rs'"
    using trail_next [OF new(2)] by simp
  then show ?thesis
    unfolding on_trail_def using new(1) next_hop(1) assms(2) by (intro exI [of _ "new @ [(url, h)]"]) simp
qed

lemma http_fetch_trail:
  "within_bounds env opts url st (http_fetch env opts url st)"
proof (cases "redirectIdentity (fe_parse env) url")
  case None
  then show ?thesis by (simp add: http_fetch_def within_bounds_def)
next
  case (Some identity)
  let ?I = "on_trail env opts url st"
  let ?Q = "within_bounds env opts url st"
  have ends: "?Q (out, st2)" if "?I hop url' hs v rs st1" "fx_requests st2 = fx_requests st1 @ new'"
    "new' = [] \<or> int hop \<le> max_redirects env opts \<and> (\<exists>h. new' = [(url', h)])" for hop url' hs v rs st1 st2 out new'
  proof -
    from that(1) obtain new where new: "fx_requests st1 = fx_requests st @ new" "trail env url new hop url' v rs"
      "int hop \<le> max 0 (max_redirects env opts + 1)"
      by (auto simp: on_trail_def)
    have "length (new @ new') \<le> nat (max_redirects env opts + 1)"
      using that(3) new(2,3) by (auto simp: trail_def)
    with trail_requests [OF new(2), of new'] new(1) that(2,3)
    show ?thesis unfolding within_bounds_def by (intro exI [of _ "new @ new'"]) auto
  qed
  have "?Q (fetch_loop env opts 0 url (fe_merge env (nc_headers (fe_network env)) (fo_headers opts)) [identity] [] st)"
  proof (rule fetch_loop_rule [where I = "on_trail env opts url st"])
    show "?I 0 url (fe_merge env (nc_headers (fe_network env)) (fo_headers opts)) [identity] [] st"
      using trail_start [OF Some] by (simp add: on_trail_def)
  next
    fix hop url' hs v rs st1 t hs' v' rs' st2
    show "?I hop url' hs v rs st1 \<Longrightarrow> int hop \<le> max_redirects env opts \<Longrightarrow>
      fetch_hop env opts hop url' hs v rs st1 = (HopNext t hs' v' rs', st2) \<Longrightarrow> ?I (hop + 1) t hs' v' rs' st2"
      by (rule on_trail_next)
  next
    fix hop url' hs v rs st1 e st2
    assume "?I hop url' hs v rs st1" "int hop \<le> max_redirects env opts"
      "fetch_hop env opts hop url' hs v rs st1 = (HopThrown e, st2)"
    from this fetch_hop_log [OF this(3)] show "?Q (Inl e, st2)" by (auto intro: ends)
  next
    fix hop url' hs v rs st1 r st2
    assume "?I hop url' hs v rs st1" "int hop \<le> max_redirects env opts"
      "fetch_hop env opts hop url' hs v rs st1 = (HopDone r, st2)"
    from this fetch_hop_log [OF this(3)] show "?Q (Inr (withDuration (fe_duration env hop) r), st2)" by (auto intro: ends)
  next
    fix hop url' hs v rs st1
    assume "?I hop url' hs v rs st1"
    then show "?Q (Inr (withDuration (fe_duration env hop) (redirectFailure (fe_now env hop) E_TOO_MANY_REDIRECTS
          ''Redirect limit exceeded'' url' opts None [] rs)), st1)" by (auto intro: ends [where new' = "[]"])
  qed
  then show ?thesis by (simp add: http_fetch_def Some)
qed

text \<open>
  C32: A fetch is bounded and does not repeat itself. It sends at most one request more than the
  redirects it may follow, whatever the servers answer, and no two of its requests are for URLs
  that differ in the fragment only.
\<close>

theorem fetch_requests_bounded:
  "\<exists>new. fx_requests (snd (http_fetch env opts url st)) = fx_requests st @ new \<and>
     length new \<le> nat (max_redirects env opts + 1) \<and>
     distinct (map (redirectIdentity (fe_parse env) \<circ> fst) new)"
  using http_fetch_trail [of env opts url st] by (auto simp: within_bounds_def)

text \<open>The caller's decision of \<open>RetryingFetcher\<close>: \<open>RedirectTargetPolicy.decide\<close> on the robots cache.\<close>

definition redirect_target ::
  "policy_env \<Rightarrow> number \<Rightarrow> string \<Rightarrow> string \<Rightarrow> robots_cache
     \<Rightarrow> (string, redirect_target_decision) result \<times> robots_cache"
where
  "redirect_target penv depth seedUrl target cache =
     (case redirect_decide penv target depth seedUrl cache of
        (Inl e, c) \<Rightarrow> (Inl e, c) | (Inr (d, blocked), c) \<Rightarrow> (Inr d, c))"

definition admitted :: "policy_env \<Rightarrow> number \<Rightarrow> string \<Rightarrow> string \<Rightarrow> bool" where
  "admitted penv depth seedUrl target \<longleftrightarrow>
     sn_allowed (scope_decide (pe_parse penv) (pe_scope penv) target depth (Some seedUrl)) \<and>
     sf_allowed (pe_safety penv target) \<and>
     (\<exists>cache robots cache'. robots_for penv target False cache = (Inr robots, cache') \<and> rd_allowed robots)"

lemma approved_admitted:
  assumes "approved env target" "fe_decide env = redirect_target penv depth seedUrl"
  shows "admitted penv depth seedUrl target"
proof -
  from assms obtain cache cache' d where
    "redirect_target penv depth seedUrl target cache = (Inr d, cache')" and d: "td_allowed d"
    by (auto simp: approved_def)
  then obtain b where "redirect_decide penv target depth seedUrl cache = (Inr (d, b), cache')"
    by (auto simp: redirect_target_def split: prod.splits sum.splits)
  from redirect_decide_cases [OF this] d show ?thesis by (auto simp: admitted_def)
qed


section \<open>The hops of a result\<close>

text \<open>Numbered from 0, each hop starting where the one before led, the first at \<open>url\<close>.\<close>

definition hops_chain :: "string \<Rightarrow> redirect_hop list \<Rightarrow> bool" where
  "hops_chain url hops \<longleftrightarrow>
     map rh_hopIndex hops = [0..<length hops] \<and> map rh_fromUrl hops = butlast (url # map rh_toUrl hops)"

lemma trail_chain:
  assumes "trail env url0 new hop url visited redirects"
  shows "hops_chain url0 redirects" "hops_chain url0 (redirects @ [createRedirectHop now url t status hop ok d])"
proof -
  have to: "url0 # map rh_toUrl redirects = map fst new @ [url]"
    using assms by (cases new) (auto simp: trail_def)
  have len: "length redirects = hop" using assms by (metis trail_def length_map diff_zero length_upt)
  show "hops_chain url0 redirects"
    using assms len unfolding hops_chain_def to by (simp add: trail_def)
  have "butlast (url0 # map rh_toUrl (redirects @ [createRedirectHop now url t status hop ok d])) = map fst new @ [url]"
    unfolding map_append append_Cons [symmetric] to by (simp add: butlast_append)
  then show "hops_chain url0 (redirects @ [createRedirectHop now url t status hop ok d])"
    using assms len unfolding hops_chain_def by (simp add: trail_def createRedirectHop_def)
qed

lemma fetch_hop_done:
  assumes "fetch_hop env opts hop url hs visited redirects st = (HopDone r, st')"
  shows "ft_redirects r = [] \<or> ft_redirects r = redirects \<or>
     (\<exists>now t status ok d. ft_redirects r = redirects @ [createRedirectHop now url t status hop ok d])"
proof -
  have follow: "ft_redirects r = [] \<or> ft_redirects r = redirects \<or>
     (\<exists>now t status ok d. ft_redirects r = redirects @ [createRedirectHop now url t status hop ok d])"
    if "follow_redirect env opts hop url hs visited redirects x status target identity st1 = (HopDone r, st')"
    for x status target identity st1
    using that
    by (auto simp: follow_redirect_def redirectFailure_def Let_def split: if_splits sum.splits prod.splits; blast)
  show ?thesis
    using assms
    by (auto simp: fetch_hop_def invalid_target_def failure_def Let_def dest: follow
        split: sum.splits prod.splits option.splits if_splits)
qed

text \<open>
  The hops of a result are the chain of its redirects: numbered from 0, the first from the URL
  that was asked for, each other from the URL to which the one before led.
\<close>

theorem redirect_hops_chain:
  "(case fst (http_fetch env opts url st) of Inl _ \<Rightarrow> True | Inr r \<Rightarrow> hops_chain url (ft_redirects r))"
proof (cases "redirectIdentity (fe_parse env) url")
  case None
  then show ?thesis by (simp add: http_fetch_def)
next
  case (Some identity)
  let ?Q = "\<lambda>out. case fst out of Inl _ \<Rightarrow> True | Inr r \<Rightarrow> hops_chain url (ft_redirects r)"
  have "?Q (fetch_loop env opts 0 url (fe_merge env (nc_headers (fe_network env)) (fo_headers opts)) [identity] [] st)"
  proof (rule fetch_loop_rule [where I = "on_trail env opts url st"])
    show "on_trail env opts url st 0 url (fe_merge env (nc_headers (fe_network env)) (fo_headers opts)) [identity] [] st"
      using trail_start [OF Some] by (simp add: on_trail_def)
  next
    fix hop url' hs v rs st1 t hs' v' rs' st2
    show "on_trail env opts url st hop url' hs v rs st1 \<Longrightarrow> int hop \<le> max_redirects env opts \<Longrightarrow>
      fetch_hop env opts hop url' hs v rs st1 = (HopNext t hs' v' rs', st2) \<Longrightarrow>
      on_trail env opts url st (hop + 1) t hs' v' rs' st2"
      by (rule on_trail_next)
  next
    fix hop url' hs v rs st1 r st2
    assume "on_trail env opts url st hop url' hs v rs st1"
      "fetch_hop env opts hop url' hs v rs st1 = (HopDone r, st2)"
    with fetch_hop_done [OF this(2)] show "?Q (Inr (withDuration (fe_duration env hop) r), st2)"
      by (auto simp: on_trail_def withDuration_def hops_chain_def [of url "[]"] dest: trail_chain)
  next
    fix hop url' hs v rs st1
    assume "on_trail env opts url st hop url' hs v rs st1"
    then show "?Q (Inr (withDuration (fe_duration env hop) (redirectFailure (fe_now env hop) E_TOO_MANY_REDIRECTS
          ''Redirect limit exceeded'' url' opts None [] rs)), st1)"
      by (auto simp: on_trail_def withDuration_def redirectFailure_def dest: trail_chain)
  qed simp
  then show ?thesis by (simp add: http_fetch_def Some)
qed

text \<open>
  An invalid redirect target hides the redirects before it. When a response redirects to a
  location that is not a URL, the result that the loop returns records no hops, whatever redirects
  have been followed so far.
\<close>

theorem invalid_target_forgets_hops:
  assumes "fetch_exchange env opts hop url hs st = (Inr r, st')" "ft_error r = None"
    and "ft_statusCode r = Some status" "isRedirectStatus status"
    and "headers_get (ft_headers r) ''location'' = Some location" "fe_parse env location (Some url) = None"
    and "int hop \<le> max_redirects env opts"
  shows "\<exists>out. fetch_loop env opts hop url hs visited redirects st = (Inr out, st') \<and> ft_redirects out = [] \<and>
     map_option ce_code (ft_error out) = Some E_REDIRECT_TARGET_REJECTED"
  using assms
  by (subst fetch_loop.simps)
    (simp add: fetch_hop_def Let_def resolveRedirectTarget_def invalid_target_def failure_def withDuration_def crawlError_def)

section \<open>Credentials\<close>

text \<open>The credentials that the session may send to the origin of a URL.\<close>

definition credentials_for :: "'j session_env \<Rightarrow> string \<Rightarrow> string list" where
  "credentials_for env url =
     (case sv_parse env url None of
        None \<Rightarrow> []
      | Some u \<Rightarrow>
          map (\<lambda>c. ''Bearer '' @ be_token c) (filter (\<lambda>c. be_origin c = url_origin u) (sg_bearerAuth (sv_config env)))
          @ map (\<lambda>c. ''Basic '' @ base64 (utf8_bytes (bc_username c @ '':'' @ bc_password c)))
              (filter (\<lambda>c. bc_origin c = url_origin u) (sg_basicAuth (sv_config env))))"

definition only_own_credentials :: "'j session_env \<Rightarrow> string \<times> fields \<Rightarrow> bool" where
  "only_own_credentials env request \<longleftrightarrow>
     list_all (\<lambda>(name, v). to_lower name = ''authorization'' \<longrightarrow> v \<in> set (credentials_for env (fst request)))
       (snd request)"

lemma map_set_entries: "set (map_set k v h) \<subseteq> insert (k, v) (set h)"
  by (induction h) auto

lemma map_set_keys: "fst ` set (map_set k v h) = insert k (fst ` set h)"
  by (induction h) auto

lemma hasHeader_keys: "hasHeader h name \<longleftrightarrow> name \<in> to_lower ` fst ` set h"
  by (auto simp: hasHeader_def list_ex_iff)

lemma hasHeader_map_set: "hasHeader (map_set k v h) name \<longleftrightarrow> to_lower k = name \<or> hasHeader h name"
  by (auto simp: hasHeader_keys map_set_keys)

lemma find_Some_in: "List.find P xs = Some x \<Longrightarrow> x \<in> set xs \<and> P x"
  by (induction xs) (auto split: if_splits)

lemma no_header_set: "\<not> hasHeader h name \<Longrightarrow> (k, v) \<in> set h \<Longrightarrow> to_lower k \<noteq> name"
  by (force simp: hasHeader_def list_ex_iff)

lemma authorizationFor_own:
  assumes "authorizationFor env url = Some (Some a)"
  shows "a \<in> set (credentials_for env url)"
proof -
  from assms obtain u where u: "sv_parse env url None = Some u" by (auto simp: authorizationFor_def)
  show ?thesis
  proof (cases "List.find (\<lambda>c. be_origin c = url_origin u) (sg_bearerAuth (sv_config env))")
    case (Some bearer)
    then show ?thesis
      using assms u find_Some_in [OF Some] by (auto simp: authorizationFor_def credentials_for_def)
  next
    case None
    then obtain basic where
      "List.find (\<lambda>c. bc_origin c = url_origin u) (sg_basicAuth (sv_config env)) = Some basic"
      "a = ''Basic '' @ base64 (utf8_bytes (bc_username basic @ '':'' @ bc_password basic))"
      using assms u by (auto simp: authorizationFor_def split: option.splits)
    then show ?thesis using u find_Some_in by (fastforce simp: credentials_for_def)
  qed
qed

lemma add_header_credentials:
  "\<not> hasHeader h ''authorization'' \<Longrightarrow> to_lower name \<noteq> ''authorization'' \<Longrightarrow>
     \<not> hasHeader (add_header name v h) ''authorization''"
  by (simp add: add_header_def hasHeader_map_set split: option.split)

lemma cache_prepare_credentials:
  assumes "cache_prepare env files url hs = Inr (prepared, cached)" "\<not> hasHeader hs ''authorization''"
  shows "\<not> hasHeader prepared ''authorization''"
proof -
  have "to_lower ''if-modified-since'' \<noteq> ''authorization''" "to_lower ''if-none-match'' \<noteq> ''authorization''"
    by code_simp+
  with assms show ?thesis
    by (auto simp: cache_prepare_def bind_result_Inr add_header_credentials split: if_splits option.splits)
qed

lemma requestHeaders_credentials:
  assumes "requestHeaders env url input s = (Inr h, s')" "\<not> hasHeader input ''authorization''"
  shows "only_own_credentials env (url, h)"
proof -
  have own: "only_own_credentials env (url, h')" if "\<not> hasHeader h' ''authorization''" for h'
    using no_header_set [OF that] by (auto simp: only_own_credentials_def list_all_iff)
  have cookie: "to_lower ''cookie'' \<noteq> ''authorization''" by code_simp
  define h1 where "h1 = (let c = ja_cookieString (sv_jar env) (ss_jar s') url in
     if c \<noteq> [] \<and> \<not> hasHeader input ''cookie'' then map_set ''cookie'' c input else input)"
  have h1: "\<not> hasHeader h1 ''authorization''"
    using assms(2) cookie by (simp add: h1_def Let_def hasHeader_map_set)
  show ?thesis
  proof (cases "h = input \<or> h = h1")
    case True
    then show ?thesis using own assms(2) h1 by auto
  next
    case False
    with assms(1) h1 obtain a where "authorizationFor env url = Some (Some a)" and h: "h = map_set ''authorization'' a h1"
      by (auto simp: requestHeaders_def h1_def Let_def split: if_splits prod.splits sum.splits option.splits)
    with authorizationFor_own have "a \<in> set (credentials_for env url)" by blast
    moreover have "(k, v) = (''authorization'', a) \<or> (k, v) \<in> set h1" if "(k, v) \<in> set h" for k v
      using map_set_entries that unfolding h by fast
    ultimately show ?thesis
      using no_header_set [OF h1] by (fastforce simp: only_own_credentials_def list_all_iff)
  qed
qed

lemma sent_credentials:
  "sent env url hs request \<Longrightarrow> \<not> hasHeader hs ''authorization'' \<Longrightarrow> only_own_credentials (fe_session env) request"
  unfolding sent_def by (metis cache_prepare_credentials prod.collapse requestHeaders_credentials)

text \<open>Following a redirect adds no credentials to the fields of a request.\<close>

definition redirect_adds_no_credentials :: "('b, 'j, 'p) fetch_env \<Rightarrow> bool" where
  "redirect_adds_no_credentials env \<longleftrightarrow>
     (\<forall>from_url to_url status method hs. \<not> hasHeader hs ''authorization'' \<longrightarrow>
        \<not> hasHeader (fe_afterRedirect env from_url to_url status method hs) ''authorization'')"

definition credentials_kept ::
  "('b, 'j, 'p) fetch_env \<Rightarrow> ('j, 'p) fetch_state \<Rightarrow> ('j, 'p) fetch_state \<Rightarrow> bool"
where
  "credentials_kept env st st' \<longleftrightarrow>
     (\<exists>new. fx_requests st' = fx_requests st @ new \<and> list_all (only_own_credentials (fe_session env)) new)"

lemma hop_credentials:
  assumes "credentials_kept env st0 st" "\<not> hasHeader hs ''authorization''"
    and "fetch_hop env opts hop url hs v rs st = (out, st')"
  shows "credentials_kept env st0 st'"
  using assms(1) fetch_hop_log [OF assms(3)] sent_credentials [OF _ assms(2)]
  unfolding credentials_kept_def by fastforce

text \<open>
  C33: Credentials go to their own origin only. When neither the configuration nor the caller sets an
  authorization header, each request of a fetch, through all its redirects, carries none or the
  bearer token or the basic credentials configured for the origin of the URL it is sent to.
\<close>

theorem credentials_stay_with_origin:
  assumes "redirect_adds_no_credentials env"
    and "\<not> hasHeader (fe_merge env (nc_headers (fe_network env)) (fo_headers opts)) ''authorization''"
  shows "\<exists>new. fx_requests (snd (http_fetch env opts url st)) = fx_requests st @ new \<and>
     list_all (only_own_credentials (fe_session env)) new"
proof (cases "redirectIdentity (fe_parse env) url")
  case None
  then show ?thesis by (simp add: http_fetch_def)
next
  case (Some identity)
  let ?I = "\<lambda>hop url' hs v rs st'. credentials_kept env st st' \<and> \<not> hasHeader hs ''authorization''"
  have "credentials_kept env st
    (snd (fetch_loop env opts 0 url (fe_merge env (nc_headers (fe_network env)) (fo_headers opts)) [identity] [] st))"
  proof (rule fetch_loop_rule [where I = ?I])
    show "credentials_kept env st st \<and>
      \<not> hasHeader (fe_merge env (nc_headers (fe_network env)) (fo_headers opts)) ''authorization''"
      using assms(2) by (simp add: credentials_kept_def)
  next
    fix hop url' hs v rs st1 t hs' v' rs' st2
    assume "credentials_kept env st st1 \<and> \<not> hasHeader hs ''authorization''"
      "fetch_hop env opts hop url' hs v rs st1 = (HopNext t hs' v' rs', st2)"
    with fetch_hop_next [OF this(2)] assms(1)
    show "credentials_kept env st st2 \<and> \<not> hasHeader hs' ''authorization''"
      by (auto simp: redirect_adds_no_credentials_def intro: hop_credentials)
  qed (auto intro: hop_credentials)
  then show ?thesis by (simp add: http_fetch_def Some credentials_kept_def)
qed

section \<open>A sample\<close>

text \<open>\<open>http://a/\<close> redirects to \<open>http://b/\<close>, which redirects to a location that is no URL.\<close>

definition sample_transport :: "nat \<Rightarrow> string \<Rightarrow> request_method \<Rightarrow> fields \<Rightarrow> string buffered_result" where
  "sample_transport k url method hs =
     \<lparr>br_outcome = Inr (url, []), br_statusCode = Some 302,
      br_fields = [(''location'', if url = ''http://a/'' then ''http://b/'' else ''?'')],
      br_transfer = None, br_connection = None\<rparr>"

definition sample_fetch_env :: "(string, unit, unit) fetch_env" where
  "sample_fetch_env =
     \<lparr>fe_network = sample_network, fe_parse = sample_parse,
      fe_cache = \<lparr>cv_config = \<lparr>ca_enabled = False, ca_storeBodies = True, ca_maxBodyBytes = 9, ca_useStaleOnError = False\<rparr>,
        cv_sha256 = rev, cv_contracts = [],
        cv_body = \<lparr>bo_size = (\<lambda>b. case b of None \<Rightarrow> 0 | Some x \<Rightarrow> length x), bo_read = id, bo_open = id\<rparr>,
        cv_iso = (\<lambda>_. ''t'')\<rparr>,
      fe_session = \<lparr>sv_config = \<lparr>sg_enabled = True, sg_persistCookies = False, sg_cookieFile = None,
          sg_initialCookies = [], sg_basicAuth = [],
          sg_bearerAuth = [\<lparr>be_origin = ''http://a'', be_token = ''t''\<rparr>]\<rparr>,
        sv_jar = \<lparr>ja_empty = (), ja_cookieString = (\<lambda>_ _. []), ja_set = (\<lambda>_ _ _. Some ()),
          ja_serialize = (\<lambda>_. JObj []), ja_deserialize = (\<lambda>_. Some ())\<rparr>,
        sv_parse = sample_parse\<rparr>,
      fe_transport = sample_transport, fe_timedOut = (\<lambda>_. False), fe_merge = (\<lambda>a b. a @ b),
      fe_afterRedirect = (\<lambda>_ _ _ _ hs. hs),
      fe_decide = (\<lambda>_ p. (Inr \<lparr>td_rejectionKind = None, td_allowed = True, td_reason = None,
        td_scopeAllowed = Some True, td_robotsAllowed = Some True, td_networkSafetyAllowed = Some True\<rparr>, p)),
      fe_now = (\<lambda>_. 0), fe_duration = (\<lambda>_. 0)\<rparr>"

definition sample_options :: fetch_options where
  "sample_options = \<lparr>fo_requestId = ''r'', fo_method = GET, fo_headers = [], fo_maxRedirects = None\<rparr>"

definition sample_fetch_state :: "(unit, unit) fetch_state" where
  "sample_fetch_state =
     \<lparr>fx_files = \<lparr>cf_metadata = [], cf_bodies = []\<rparr>,
      fx_session = \<lparr>ss_jar = (), ss_initialized = None, ss_file = NoCookieFile\<rparr>, fx_policy = (), fx_requests = []\<rparr>"

lemma sample_fetch:
  "fx_requests (snd (http_fetch sample_fetch_env sample_options ''http://a/'' sample_fetch_state))
   = [(''http://a/'', [(''authorization'', ''Bearer t'')]), (''http://b/'', [])]"
  by code_simp

theorem credentials_stay_with_origin_witness:
  "list_all (only_own_credentials (fe_session sample_fetch_env))
     [(''http://a/'', [(''authorization'', ''Bearer t'')]), (''http://b/'', [])]"
proof -
  have a: "redirect_adds_no_credentials sample_fetch_env"
    by (simp add: redirect_adds_no_credentials_def sample_fetch_env_def)
  have b: "\<not> hasHeader (fe_merge sample_fetch_env (nc_headers (fe_network sample_fetch_env)) (fo_headers sample_options))
      ''authorization''" by code_simp
  have c: "fx_requests sample_fetch_state = []" by (simp add: sample_fetch_state_def)
  show ?thesis
    using credentials_stay_with_origin [OF a b, of "''http://a/''" sample_fetch_state] unfolding sample_fetch c by simp
qed

definition sample_hop :: redirect_hop where
  "sample_hop = createRedirectHop 0 ''http://a/'' ''http://b/'' 302 0 True None"

theorem invalid_target_forgets_hops_witness:
  "\<exists>out st'. fetch_loop sample_fetch_env sample_options 1 ''http://b/'' [] [''http://a/'', ''http://b/''] [sample_hop]
      sample_fetch_state = (Inr out, st') \<and> ft_redirects out = []"
proof -
  let ?ex = "fetch_exchange sample_fetch_env sample_options 1 ''http://b/'' [] sample_fetch_state"
  obtain r st' where ex: "?ex = (Inr r, st')"
  proof -
    have "\<not> isl (fst ?ex)" by code_simp
    then show ?thesis using that by (cases ?ex) (metis fst_conv sum.collapse(2))
  qed
  have r: "r = projr (fst ?ex)" using ex by simp
  have "ft_error r = None" "ft_statusCode r = Some 302" "headers_get (ft_headers r) ''location'' = Some ''?''"
    unfolding r by code_simp+
  moreover have "isRedirectStatus 302" "fe_parse sample_fetch_env ''?'' (Some ''http://b/'') = None"
    "int 1 \<le> max_redirects sample_fetch_env sample_options" by code_simp+
  ultimately show ?thesis
    using invalid_target_forgets_hops [OF ex, of 302 "''?''" "[''http://a/'', ''http://b/'']" "[sample_hop]"] by blast
qed

end
