(* ===== verification/Request_Handler.thy ===== *)
theory Request_Handler
  imports Retry Scheduler
begin

text \<open>
  The handling of a leased request: the terminalizer (\<open>crawler/request-terminalizer.ts\<close>), the
  calls of user code (\<open>extensions/runner.ts\<close>, \<open>crawler/middleware-runner.ts\<close>) and the handler
  (\<open>crawler/request-handler.ts\<close>).

  The state is that of the scheduler with the run controller. The counters are one object that both
  share; they are those of the scheduler, and \<open>on_controller\<close> lends them to the controller. User
  code, the policies and the client of the attempts, and the processing of a fetched resource are
  given by their results; user code may also abort the run. What user code enqueues and the events
  are not modelled, except the end of a request.
\<close>

section \<open>State and surroundings\<close>

datatype failure_mode = FailRecord | FailRequest | FailRun

datatype thrown =
    ThrownExtension failure_mode crawl_error        \<comment> \<open>\<open>ExtensionFailure\<close>\<close>
  | ThrownPersistence terminal_request_state        \<comment> \<open>\<open>TerminalPersistenceError\<close>\<close>
  | ThrownFatal crawl_error                         \<comment> \<open>\<open>FatalRequestError\<close>\<close>
  | ThrownFrontier frontier_error
  | ThrownStore
  | ThrownOther string string                       \<comment> \<open>name and message\<close>

record execution =
  ex_scheduler :: scheduler
  ex_controller :: run_controller
  ex_errors :: "crawl_error list"
  ex_finished :: "(string \<times> terminal_request_state) list"   \<comment> \<open>events \<open>request-finished\<close>\<close>

type_synonym 'a executed = "(thrown, 'a) result \<times> execution"

type_synonym 'a user_call = "(string \<times> string, 'a) result \<times> string option"

record execution_env =
  xe_platform :: platform
  xe_config :: scheduler_config
  xe_limits :: crawl_limits
  xe_mode :: failure_mode
  xe_now :: timestamp
  xe_journal_ok :: "terminal_request_state \<Rightarrow> bool"
  xe_store_ok :: "store_record \<Rightarrow> bool"
  xe_error_ok :: "crawl_error \<Rightarrow> bool"
  xe_onFailed :: "(crawl_error \<Rightarrow> unit user_call) option"

definition then_run :: "'a executed \<Rightarrow> ('a \<Rightarrow> execution \<Rightarrow> 'b executed) \<Rightarrow> 'b executed" where
  "then_run m f = (case m of (Inl e, st) \<Rightarrow> (Inl e, st) | (Inr a, st) \<Rightarrow> f a st)"

lemma then_run_simps [simp]:
  "then_run (Inl e, st) f = (Inl e, st)"
  "then_run (Inr a, st) f = f a st"
  by (simp_all add: then_run_def)

definition on_controller :: "(run_controller \<Rightarrow> run_controller) \<Rightarrow> execution \<Rightarrow> execution" where
  "on_controller f st =
     (let rc = f (ex_controller st\<lparr>rc_counters := sx_counters (ex_scheduler st)\<rparr>)
      in st\<lparr>ex_controller := rc, ex_scheduler := ex_scheduler st\<lparr>sx_counters := rc_counters rc\<rparr>\<rparr>)"

definition on_counters :: "(crawl_counters \<Rightarrow> crawl_counters) \<Rightarrow> execution \<Rightarrow> execution" where
  "on_counters f st =
     st\<lparr>ex_scheduler := ex_scheduler st\<lparr>sx_counters := f (sx_counters (ex_scheduler st))\<rparr>\<rparr>"

definition signal_aborted :: "execution \<Rightarrow> bool" where
  "signal_aborted st \<longleftrightarrow> rc_aborted (ex_controller st) \<noteq> None"

definition cancellationReason :: "execution \<Rightarrow> string" where
  "cancellationReason st =
     (case rc_aborted (ex_controller st) of
        Some (StopCancelled reason) \<Rightarrow> reason
      | _ \<Rightarrow> ''Run cancellation requested'')"

text \<open>Another worker or the caller stops the run while an operation waits.\<close>

definition abort_meanwhile :: "stop_detail option \<Rightarrow> execution \<Rightarrow> execution" where
  "abort_meanwhile d st = (case d of None \<Rightarrow> st | Some d \<Rightarrow> on_controller (setStop d True) st)"

definition admission :: "execution_env \<Rightarrow> admission_env" where
  "admission env = \<lparr>ae_now = xe_now env, ae_journal_ok = True, ae_store_ok = xe_store_ok env\<rparr>"

definition write_record :: "execution_env \<Rightarrow> store_record \<Rightarrow> execution \<Rightarrow> unit executed" where
  "write_record env r st =
     (case store_write (admission env) r (ex_scheduler st) of
        (Inl _, s) \<Rightarrow> (Inl ThrownStore, st\<lparr>ex_scheduler := s\<rparr>)
      | (Inr _, s) \<Rightarrow> (Inr (), st\<lparr>ex_scheduler := s\<rparr>))"

definition write_error :: "execution_env \<Rightarrow> crawl_error \<Rightarrow> execution \<Rightarrow> unit executed" where
  "write_error env e st =
     (if xe_error_ok env e then (Inr (), st\<lparr>ex_errors := ex_errors st @ [e]\<rparr>) else (Inl ThrownStore, st))"

section \<open>User code\<close>

definition user_abort :: "string option \<Rightarrow> execution \<Rightarrow> execution" where
  "user_abort reason st = (case reason of None \<Rightarrow> st | Some r \<Rightarrow> on_controller (cancel r) st)"

datatype extension_scope = InRequest | InRun

definition effectiveMode :: "execution_env \<Rightarrow> extension_scope \<Rightarrow> failure_mode" where
  "effectiveMode env scope = (if scope = InRun \<and> xe_mode env = FailRequest then FailRun else xe_mode env)"

definition extensionError ::
  "execution_env \<Rightarrow> string \<Rightarrow> failure_mode \<Rightarrow> string option \<Rightarrow> string option \<Rightarrow> string \<times> string \<Rightarrow> crawl_error"
where
  "extensionError env name mode url requestId cause =
     crawlError (xe_now env) E_EXTENSION_ERROR (''Extension '' @ [CHR 0x27] @ name @ [CHR 0x27] @ '' failed.'')
       url requestId None (Some (mode = FailRun)) None (Some cause)"

definition invokeValue ::
  "execution_env \<Rightarrow> string \<Rightarrow> extension_scope \<Rightarrow> string option \<Rightarrow> string option \<Rightarrow> 'a user_call \<Rightarrow> 'a \<Rightarrow> execution
     \<Rightarrow> 'a executed"
where
  "invokeValue env name scope url requestId action fallback st =
     (let st = user_abort (snd action) st in
      case fst action of
        Inr a \<Rightarrow> (Inr a, st)
      | Inl cause \<Rightarrow>
          (let mode = effectiveMode env scope; e = extensionError env name mode url requestId cause
           in then_run (write_error env e st) (\<lambda>_ st.
                if mode \<noteq> FailRecord then (Inl (ThrownExtension mode e), st) else (Inr fallback, st))))"

definition invoke_hook ::
  "execution_env \<Rightarrow> string \<Rightarrow> extension_scope \<Rightarrow> string option \<Rightarrow> string option \<Rightarrow> unit user_call option \<Rightarrow> execution
     \<Rightarrow> unit executed"
where
  "invoke_hook env name scope url requestId hook st =
     (case hook of None \<Rightarrow> (Inr (), st) | Some action \<Rightarrow> invokeValue env name scope url requestId action () st)"

section \<open>The terminalizer\<close>

definition request_url :: "request_lease \<Rightarrow> string option" where
  "request_url lease = Some (rq_normalizedUrl (ls_request lease))"

definition request_id :: "request_lease \<Rightarrow> string option" where
  "request_id lease = Some (rq_id (ls_request lease))"

definition frontierTransition ::
  "execution_env \<Rightarrow> request_lease \<Rightarrow> terminal_request_state \<Rightarrow> string option \<Rightarrow> execution
     \<Rightarrow> request_state_record executed"
where
  "frontierTransition env lease state reason st =
     (let s = ex_scheduler st; ok = xe_journal_ok env state;
          pf = xe_platform env; cfg = sg_frontier (xe_config env); now = xe_now env; jb = sx_frontier s
      in case (case state of
                 Handled \<Rightarrow> backend_markHandled pf cfg now ok jb lease
               | Failed \<Rightarrow> backend_markFailed pf cfg now ok jb lease reason
               | Skipped \<Rightarrow> backend_markSkipped pf cfg now ok jb lease reason
               | Cancelled \<Rightarrow> backend_markCancelled pf cfg now ok jb lease reason) of
           Inl e \<Rightarrow> (Inl (ThrownFrontier e), st)
         | Inr (rec, jb') \<Rightarrow> (Inr rec, st\<lparr>ex_scheduler := s\<lparr>sx_frontier := jb'\<rparr>\<rparr>))"

definition terminal_transition ::
  "execution_env \<Rightarrow> request_lease \<Rightarrow> terminal_request_state \<Rightarrow> string option \<Rightarrow> execution \<Rightarrow> unit executed"
where
  "terminal_transition env lease state reason st =
     then_run (frontierTransition env lease state reason st) (\<lambda>rec st.
       case write_record env (WRequestState rec) st of
         (Inl _, st) \<Rightarrow> (Inl (ThrownPersistence state), st)
       | (Inr _, st) \<Rightarrow> (Inr (), st\<lparr>ex_finished := ex_finished st @ [(rq_id (ls_request lease), state)]\<rparr>))"

definition no_outcome :: "outcome_kind \<Rightarrow> request_outcome" where
  "no_outcome kind = \<lparr>oc_kind = kind, oc_statusCode = None, oc_responseTimeMs = 0, oc_latencyMs = 0\<rparr>"

definition finish_handled ::
  "execution_env \<Rightarrow> request_lease \<Rightarrow> int option \<Rightarrow> number \<Rightarrow> number \<Rightarrow> execution \<Rightarrow> request_outcome executed"
where
  "finish_handled env lease statusCode responseTimeMs latencyMs st =
     then_run (terminal_transition env lease Handled None st) (\<lambda>_ st.
       (Inr \<lparr>oc_kind = OutFetched, oc_statusCode = statusCode, oc_responseTimeMs = responseTimeMs,
             oc_latencyMs = latencyMs\<rparr>, st))"

definition finish_skipped :: "execution_env \<Rightarrow> request_lease \<Rightarrow> string option \<Rightarrow> execution \<Rightarrow> request_outcome executed" where
  "finish_skipped env lease reason st =
     then_run (terminal_transition env lease Skipped reason st) (\<lambda>_ st.
       (Inr (no_outcome OutSkipped),
        on_counters (\<lambda>c. c\<lparr>cc_requestsPolicySkipped := cc_requestsPolicySkipped c + 1\<rparr>) st))"

definition finish_cancelled :: "execution_env \<Rightarrow> request_lease \<Rightarrow> string option \<Rightarrow> execution \<Rightarrow> request_outcome executed" where
  "finish_cancelled env lease reason st =
     then_run (terminal_transition env lease Cancelled reason st) (\<lambda>_ st.
       (Inr (no_outcome OutCancelled),
        on_counters (\<lambda>c. c\<lparr>cc_requestsCancelled := cc_requestsCancelled c + 1\<rparr>) st))"

definition finish_failed ::
  "execution_env \<Rightarrow> request_lease \<Rightarrow> crawl_error \<Rightarrow> bool \<Rightarrow> execution \<Rightarrow> request_outcome executed"
where
  "finish_failed env lease e persistError st =
     then_run (terminal_transition env lease Failed (Some (ce_message e)) st) (\<lambda>_ st.
       let st = on_counters (\<lambda>c. c\<lparr>cc_requestsFailed := cc_requestsFailed c + 1\<rparr>) st
       in then_run (if persistError then write_error env e st else (Inr (), st)) (\<lambda>_ st.
          then_run (invoke_hook env ''onRequestFailed hook'' InRequest (request_url lease) (request_id lease)
                      (map_option (\<lambda>hook. hook e) (xe_onFailed env)) st) (\<lambda>_ st.
            (Inr (no_outcome OutRequestFailed), st))))"

section \<open>Middleware before a request\<close>

datatype middleware_decision =
    MwContinue
  | MwDelay "number option"                \<comment> \<open>\<open>None\<close> for NaN and the infinities\<close>
  | MwSkip skip_reason string
  | MwFail crawl_error
  | MwAbort string

text \<open>Each middleware comes with what it returns and an abort of the run during the delay it may ask for.\<close>

fun beforeRequest ::
  "execution_env \<Rightarrow> request_lease \<Rightarrow> (middleware_decision user_call \<times> stop_detail option) list \<Rightarrow> nat \<Rightarrow> execution
     \<Rightarrow> middleware_decision executed"
where
  "beforeRequest env lease [] i st = (Inr MwContinue, st)"
| "beforeRequest env lease ((call, abort) # rest) i st =
     then_run (invokeValue env (''beforeRequest middleware #'' @ show_nat (i + 1)) InRequest (request_url lease)
                 (request_id lease) call MwContinue st) (\<lambda>decision st.
       case decision of
         MwContinue \<Rightarrow> beforeRequest env lease rest (i + 1) st
       | MwDelay ms \<Rightarrow>
           (if ms = None \<or> the ms < 0
            then (Inl (ThrownOther ''TypeError'' ''Request middleware delay must be non-negative.''), st)
            else let st = abort_meanwhile abort st
                 in if 0 < the ms \<and> signal_aborted st
                    then (Inl (ThrownOther ''AbortDelayError'' ''Operation was cancelled.''), st)
                    else beforeRequest env lease rest (i + 1) st)
       | _ \<Rightarrow> (Inr decision, st))"

section \<open>The handler\<close>

text \<open>How the processing of a resource may fail.\<close>

datatype resource_failure = ResourceExtension failure_mode crawl_error | ResourceFailed string string

fun thrown_by_resource :: "resource_failure \<Rightarrow> thrown" where
  "thrown_by_resource (ResourceExtension mode e) = ThrownExtension mode e"
| "thrown_by_resource (ResourceFailed name message) = ThrownOther name message"

record 'b handler_world =
  hw_beforeHook :: "unit user_call option"
  hw_middlewares :: "(middleware_decision user_call \<times> stop_detail option) list"
  hw_retry :: retry_config
  hw_attempts :: "nat \<Rightarrow> 'b attempt"
  hw_abortedMeanwhile :: "stop_detail option"     \<comment> \<open>during the fetch\<close>
  hw_bodySize :: "'b option \<Rightarrow> nat"
  hw_process :: "(resource_failure, unit) result \<times> string option"
  hw_onSkipped :: "unit user_call option"

definition start_request :: "execution_env \<Rightarrow> 'b handler_world \<Rightarrow> request_lease \<Rightarrow> execution \<Rightarrow> unit executed" where
  "start_request env w lease st =
     then_run (write_record env (WRequestState
       (createStateRecord (fc_runId (sg_frontier (xe_config env))) (xe_now env) (ls_request lease) InProgress None)) st)
       (\<lambda>_ st. invoke_hook env ''beforeRequest hook'' InRequest (request_url lease) (request_id lease)
                 (hw_beforeHook w) st)"

text \<open>\<open>SkipRecorder.create\<close>: the record and the counters, then the hook.\<close>

definition recordSkipped ::
  "execution_env \<Rightarrow> 'b handler_world \<Rightarrow> crawl_request \<Rightarrow> skip_reason \<Rightarrow> string option \<Rightarrow> string option \<Rightarrow> execution
     \<Rightarrow> unit executed"
where
  "recordSkipped env w request reason policyName detail st =
     (let skipped = createRecord (xe_config env) (admission env) (rq_rawUrl request) (rq_referrerUrl request)
                      (Some (rq_resolvedUrl request)) (Some (rq_normalizedUrl request)) reason policyName detail
      in case skip_persist (xe_config env) (admission env) skipped (ex_scheduler st) of
           (Inl _, s) \<Rightarrow> (Inl ThrownStore, st\<lparr>ex_scheduler := s\<rparr>)
         | (Inr _, s) \<Rightarrow>
             invoke_hook env ''onRequestSkipped hook'' InRequest (Some (rq_normalizedUrl request)) None
               (hw_onSkipped w) (st\<lparr>ex_scheduler := s\<rparr>))"

text \<open>\<open>beforeRequest\<close> never ends with \<open>MwContinue\<close> here nor with a delay; the last branch is unreachable.\<close>

definition applyMiddleware ::
  "execution_env \<Rightarrow> 'b handler_world \<Rightarrow> middleware_decision \<Rightarrow> request_lease \<Rightarrow> execution \<Rightarrow> request_outcome executed"
where
  "applyMiddleware env w decision lease st =
     (case decision of
        MwSkip reason detail \<Rightarrow>
          then_run (recordSkipped env w (ls_request lease) reason (Some ''middleware'') (Some detail) st)
            (\<lambda>_ st. finish_skipped env lease (Some detail) st)
      | MwFail e \<Rightarrow> finish_failed env lease e True st
      | MwAbort reason \<Rightarrow> finish_cancelled env lease (Some reason) (on_controller (cancel reason) st)
      | _ \<Rightarrow> (Inr (no_outcome OutCancelled), st))"

text \<open>\<open>RetryingFetcher.fetch\<close> on the shared counters, errors and store.\<close>

definition thrown_of :: "retry_error \<Rightarrow> thrown" where
  "thrown_of e =
     (case e of
        RetryAborted \<Rightarrow> ThrownOther ''AbortError'' ''This operation was aborted''
      | RetryThrown m \<Rightarrow> ThrownOther ''Error'' m
      | RetryStoreFailed \<Rightarrow> ThrownStore
      | RetryDelayAborted \<Rightarrow> ThrownOther ''AbortDelayError'' ''Operation was cancelled.'')"

definition fetch_request ::
  "'b handler_world \<Rightarrow> crawl_request \<Rightarrow> execution \<Rightarrow> 'b fetch_outcome executed"
where
  "fetch_request w request st =
     (let s = ex_scheduler st;
          (out, ry) = retrying_fetch (hw_retry w) request (hw_attempts w)
            \<lparr>ry_retries = cc_retries (sx_counters s), ry_errors = ex_errors st, ry_states = [], ry_events = []\<rparr>;
          st = st\<lparr>ex_errors := ry_errors ry,
                  ex_scheduler := s\<lparr>sx_counters := (sx_counters s)\<lparr>cc_retries := ry_retries ry\<rparr>,
                                    sx_written := sx_written s @ map WRequestState (ry_states ry)\<rparr>\<rparr>;
          st = abort_meanwhile (hw_abortedMeanwhile w) st
      in (case out of Inl e \<Rightarrow> Inl (thrown_of e) | Inr f \<Rightarrow> Inr f, st))"

definition process_resource ::
  "execution_env \<Rightarrow> 'b handler_world \<Rightarrow> 'b fetch_result \<Rightarrow> execution \<Rightarrow> unit executed"
where
  "process_resource env w r st =
     (let bytes = (case ft_decodedBytesRead r of Some n \<Rightarrow> n | None \<Rightarrow> hw_bodySize w (ft_body r));
          st = on_controller (recordFetched (xe_limits env) (of_int (xe_now env)) bytes (ft_responseTimeMs r)) st;
          st = on_counters (\<lambda>c. c\<lparr>cc_redirectsFollowed := cc_redirectsFollowed c + length (ft_redirects r)\<rparr>) st
      in (map_sum thrown_by_resource id (fst (hw_process w)), user_abort (snd (hw_process w)) st))"

definition aborted_result :: "'b fetch_result \<Rightarrow> execution \<Rightarrow> bool" where
  "aborted_result r st \<longleftrightarrow> signal_aborted st \<or> map_option ce_code (ft_error r) = Some E_FETCH_ABORTED"

text \<open>
  The body of the \<open>try\<close>, in two parts; the flag is the variable \<open>terminal\<close> when it is left.
\<close>

definition handle_outcome ::
  "execution_env \<Rightarrow> 'b handler_world \<Rightarrow> request_lease \<Rightarrow> 'b fetch_outcome \<Rightarrow> execution
     \<Rightarrow> request_outcome executed \<times> bool"
where
  "handle_outcome env w lease outcome st =
     (case outcome of
        OutcomeSkip reason policyName detail \<Rightarrow>
          (case recordSkipped env w (ls_request lease) reason (Some policyName) detail st of
             (Inl e, st) \<Rightarrow> ((Inl e, st), False)
           | (Inr _, st) \<Rightarrow> (finish_skipped env lease detail st, True))
      | OutcomeFailed r \<Rightarrow>
          if aborted_result r st then (finish_cancelled env lease (Some (cancellationReason st)) st, True)
          else (finish_failed env lease (the (ft_error r)) True
                  (on_counters (\<lambda>c. c\<lparr>cc_requestsTransportFailed := cc_requestsTransportFailed c + 1\<rparr>) st),
                True)
      | OutcomeFetched r scope safety robots \<Rightarrow>
          if aborted_result r st then (finish_cancelled env lease (Some (cancellationReason st)) st, True)
          else (case process_resource env w r st of
                  (Inl e, st) \<Rightarrow> ((Inl e, st), False)
                | (Inr _, st) \<Rightarrow>
                    (finish_handled env lease (ft_statusCode r) (ft_responseTimeMs r)
                       (case ft_timings r of None \<Rightarrow> ft_responseTimeMs r | Some t \<Rightarrow> tm_responseFieldsMs t) st,
                     True)))"

definition handle_body ::
  "execution_env \<Rightarrow> 'b handler_world \<Rightarrow> request_lease \<Rightarrow> execution \<Rightarrow> request_outcome executed \<times> bool"
where
  "handle_body env w lease st =
     (case then_run (start_request env w lease st) (\<lambda>_. beforeRequest env lease (hw_middlewares w) 0) of
        (Inl e, st) \<Rightarrow> ((Inl e, st), False)
      | (Inr MwContinue, st) \<Rightarrow>
          (case fetch_request w (ls_request lease) st of
             (Inl e, st) \<Rightarrow> ((Inl e, st), False)
           | (Inr outcome, st) \<Rightarrow> handle_outcome env w lease outcome st)
      | (Inr decision, st) \<Rightarrow> (applyMiddleware env w decision lease st, False))"

fun cause_of :: "thrown \<Rightarrow> string \<times> string" where
  "cause_of (ThrownExtension mode e) = (''ExtensionFailure'', ce_message e)"
| "cause_of (ThrownPersistence state) = (''TerminalPersistenceError'', terminal_name state)"
| "cause_of (ThrownFatal e) = (''FatalRequestError'', ce_message e)"
| "cause_of (ThrownFrontier e) = (''Error'', ''Frontier'')"
| "cause_of ThrownStore = (''Error'', ''Store'')"
| "cause_of (ThrownOther name message) = (name, message)"

definition fatalCrawlerError :: "timestamp \<Rightarrow> thrown \<Rightarrow> crawl_error" where
  "fatalCrawlerError now caught =
     (case caught of
        ThrownFatal e \<Rightarrow> e
      | ThrownExtension mode e \<Rightarrow> e
      | _ \<Rightarrow> crawlError now E_INTERNAL_ERROR ''Fatal crawler error'' None None None (Some True) None
               (Some (cause_of caught)))"

definition handle_caught ::
  "execution_env \<Rightarrow> request_lease \<Rightarrow> bool \<Rightarrow> thrown \<Rightarrow> execution \<Rightarrow> request_outcome executed"
where
  "handle_caught env lease terminal caught st =
     (if terminal \<or> (case caught of ThrownPersistence state \<Rightarrow> True | _ \<Rightarrow> False) then (Inl caught, st)
      else if signal_aborted st then finish_cancelled env lease (Some (cancellationReason st)) st
      else case caught of
             ThrownExtension mode e \<Rightarrow>
               then_run (finish_failed env lease e False st) (\<lambda>_ st.
                 if mode = FailRun then (Inl caught, st) else (Inr (no_outcome OutRequestFailed), st))
           | _ \<Rightarrow>
               (let fatal = fatalCrawlerError (xe_now env) caught
                in then_run (finish_failed env lease fatal True st) (\<lambda>_ st. (Inl (ThrownFatal fatal), st))))"

definition handle_request ::
  "execution_env \<Rightarrow> 'b handler_world \<Rightarrow> request_lease \<Rightarrow> execution \<Rightarrow> request_outcome executed"
where
  "handle_request env w lease st =
     (case handle_body env w lease st of
        ((Inr outcome, st'), terminal) \<Rightarrow> (Inr outcome, st')
      | ((Inl caught, st'), terminal) \<Rightarrow> handle_caught env lease terminal caught st')"

end
