(* ===== verification/Handler_Properties.thy ===== *)
theory Handler_Properties
  imports Request_Handler Execution_Properties Scheduler_Properties
begin

text \<open>
  What the handling of a request promises: its lease is finished exactly once, whatever user code,
  the policies, the client and the stores do; and two ways in which a failing hook reaches further
  than its mode says.
\<close>

section \<open>What the operations leave alone\<close>

text \<open>
  A part of the state that counting, writing, user code and the controller do not touch. Every
  operation that does not end a request keeps such a part; when the frontier and the events are not
  in it either, the whole handler keeps it.
\<close>

locale execution_view =
  fixes view :: "execution \<Rightarrow> 'v"
  assumes view_scheduler: "view (st\<lparr>ex_scheduler := ex_scheduler st\<lparr>sx_counters := c, sx_written := w\<rparr>\<rparr>) = view st"
    and view_errors: "view (st\<lparr>ex_errors := es\<rparr>) = view st"
    and view_stop: "view (on_controller (setStop d b) st) = view st"
    and view_fetched: "view (on_controller (recordFetched limits now bytes ms) st) = view st"
begin

lemma kept_counters [simp]: "view (on_counters f st) = view st"
  using view_scheduler [where st = st and c = "f (sx_counters (ex_scheduler st))" and w = "sx_written (ex_scheduler st)"]
  by (simp add: on_counters_def)

lemma kept_stop [simp]: "view (on_controller (setStop d b) st) = view st"
  by (rule view_stop)

lemma kept_cancel [simp]: "view (on_controller (cancel r) st) = view st"
  using view_stop [of "StopCancelled r" True st] by (simp add: cancel_def [abs_def])

lemma kept_abort_meanwhile [simp]: "view (abort_meanwhile d st) = view st"
  by (simp add: abort_meanwhile_def split: option.split)

lemma kept_user_abort [simp]: "view (user_abort r st) = view st"
  by (simp add: user_abort_def split: option.split)

lemma kept_write_record [simp]: "view (snd (write_record env r st)) = view st"
  using view_scheduler [where st = st and c = "sx_counters (ex_scheduler st)" and w = "sx_written (ex_scheduler st) @ [r]"]
  by (simp add: write_record_def store_write_def)

lemma kept_write_error [simp]: "view (snd (write_error env e st)) = view st"
  by (simp add: write_error_def view_errors)

lemma kept_then_run [simp]:
  assumes "\<And>a s. view (snd (f a s)) = view s"
  shows "view (snd (then_run m f)) = view (snd m)"
  using assms by (cases m; cases "fst m") (auto simp: then_run_def)

lemma kept_invokeValue [simp]: "view (snd (invokeValue env name scope url i action fallback st)) = view st"
  by (cases "fst action") (simp_all add: invokeValue_def Let_def)

lemma kept_invoke_hook [simp]: "view (snd (invoke_hook env name scope url i hook st)) = view st"
  by (cases hook) (simp_all add: invoke_hook_def)

lemma kept_start_request [simp]: "view (snd (start_request env w lease st)) = view st"
  by (simp add: start_request_def)

lemma kept_beforeRequest [simp]: "view (snd (beforeRequest env lease calls i st)) = view st"
proof (induction calls arbitrary: i st)
  case (Cons call rest)
  obtain action abort where call: "call = (action, abort)" by fastforce
  show ?case
    unfolding call beforeRequest.simps Let_def
    by (rule trans [OF kept_then_run kept_invokeValue])
      (auto simp: Cons.IH split: middleware_decision.split)
qed simp

lemma kept_recordSkipped [simp]: "view (snd (recordSkipped env w request reason p d st)) = view st"
proof -
  let ?skipped = "createRecord (xe_config env) (admission env) (rq_rawUrl request) (rq_referrerUrl request)
      (Some (rq_resolvedUrl request)) (Some (rq_normalizedUrl request)) reason p d"
  obtain out s where s: "skip_persist (xe_config env) (admission env) ?skipped (ex_scheduler st) = (out, s)" by fastforce
  then obtain c w' where "s = ex_scheduler st\<lparr>sx_counters := c, sx_written := w'\<rparr>"
    by (cases "ex_scheduler st") (auto simp: skip_persist_def store_write_def Let_def split: if_splits)
  then have "view (st\<lparr>ex_scheduler := s\<rparr>) = view st" by (simp add: view_scheduler)
  then show ?thesis by (cases out) (simp_all add: recordSkipped_def Let_def s)
qed

lemma kept_fetch_request [simp]: "view (snd (fetch_request w request st)) = view st"
  using view_scheduler [where st = "st\<lparr>ex_errors := es\<rparr>" for es]
  by (simp add: fetch_request_def Let_def view_errors split: prod.split option.split)

lemma kept_process_resource [simp]: "view (snd (process_resource env w r st)) = view st"
  by (simp add: process_resource_def Let_def view_fetched)

end

locale execution_full_view = execution_view +
  assumes view_frontier: "view (st\<lparr>ex_scheduler := ex_scheduler st\<lparr>sx_frontier := jb\<rparr>\<rparr>) = view st"
    and view_finished: "view (st\<lparr>ex_finished := fs\<rparr>) = view st"
begin

lemma kept_terminal_transition [simp]: "view (snd (terminal_transition env lease state reason st)) = view st"
proof -
  have "view (snd (frontierTransition env lease state reason st)) = view st"
    by (simp add: frontierTransition_def Let_def view_frontier split: sum.split prod.split)
  moreover have "view (snd (case write_record env (WRequestState rec) st of
         (Inl _, st) \<Rightarrow> (Inl (ThrownPersistence state), st)
       | (Inr _, st) \<Rightarrow> (Inr (), st\<lparr>ex_finished := ex_finished st @ [(rq_id (ls_request lease), state)]\<rparr>))) = view st" for rec st
    using kept_write_record [of env "WRequestState rec" st]
    by (cases "write_record env (WRequestState rec) st") (simp add: view_finished split: sum.split)
  ultimately show ?thesis by (simp add: terminal_transition_def)
qed

lemma kept_finish [simp]:
  "view (snd (finish_handled env lease code ms latency st)) = view st"
  "view (snd (finish_skipped env lease reason st)) = view st"
  "view (snd (finish_cancelled env lease reason st)) = view st"
  "view (snd (finish_failed env lease e persist st)) = view st"
  by (simp_all add: finish_handled_def finish_skipped_def finish_cancelled_def finish_failed_def Let_def)

lemma kept_handle_caught [simp]: "view (snd (handle_caught env lease terminal caught st)) = view st"
  by (cases caught) (simp_all add: handle_caught_def Let_def)

lemma kept_applyMiddleware [simp]: "view (snd (applyMiddleware env w decision lease st)) = view st"
  by (cases decision) (simp_all add: applyMiddleware_def)

lemma kept_handle_outcome [simp]: "view (snd (fst (handle_outcome env w lease outcome st))) = view st"
proof (cases outcome)
  case (OutcomeSkip reason policyName detail)
  obtain out st1 where skip: "recordSkipped env w (ls_request lease) reason (Some policyName) detail st = (out, st1)"
    by fastforce
  then have "view st1 = view st" by (metis kept_recordSkipped snd_conv)
  then show ?thesis by (simp add: handle_outcome_def OutcomeSkip skip split: sum.split)
next
  case (OutcomeFetched r scope safety robots)
  obtain out st1 where process: "process_resource env w r st = (out, st1)" by fastforce
  then have "view st1 = view st" by (metis kept_process_resource snd_conv)
  then show ?thesis by (simp add: handle_outcome_def OutcomeFetched process split: sum.split)
qed (simp add: handle_outcome_def)

lemma kept_handle_body: "view (snd (fst (handle_body env w lease st))) = view st"
proof -
  let ?before = "then_run (start_request env w lease st) (\<lambda>_. beforeRequest env lease (hw_middlewares w) 0)"
  obtain out st1 where before: "?before = (out, st1)" by fastforce
  have "view (snd ?before) = view st" by simp
  then have same: "view st1 = view st" by (simp add: before)
  obtain out2 st2 where fetch: "fetch_request w (ls_request lease) st1 = (out2, st2)" by fastforce
  have "view (snd (fetch_request w (ls_request lease) st1)) = view st1" by simp
  then have "view st2 = view st" by (simp add: fetch same)
  then show ?thesis
    using same before fetch
    by (simp add: handle_body_def split: sum.split middleware_decision.split)
qed

lemma kept_handle_request [simp]: "view (snd (handle_request env w lease st)) = view st"
  using kept_handle_body [of env w lease st]
  by (auto simp: handle_request_def split: prod.split sum.split)

end

abbreviation frontier_of :: "execution \<Rightarrow> journal_backend" where
  "frontier_of st \<equiv> sx_frontier (ex_scheduler st)"

interpretation frontier_view: execution_view "\<lambda>st. sx_frontier (ex_scheduler st)"
  by unfold_locales (simp_all add: on_controller_def Let_def)

lemma setStop_active [simp]: "rc_active (setStop d b rc) = rc_active rc"
  by (simp add: setStop_def Let_def)

lemma noteLimit_active [simp]: "rc_active (noteLimit l rc) = rc_active rc"
  by (simp add: noteLimit_def Let_def)

lemma refreshLimits_active [simp]: "rc_active (refreshLimits limits now rc) = rc_active rc"
  by (simp add: refreshLimits_def Let_def)

interpretation active_view: execution_full_view "\<lambda>st. rc_active (ex_controller st)"
  by unfold_locales (simp_all add: on_controller_def recordFetched_def Let_def)

section \<open>The end of a request\<close>

fun kind_of :: "terminal_request_state \<Rightarrow> outcome_kind" where
  "kind_of Handled = OutFetched"
| "kind_of Failed = OutRequestFailed"
| "kind_of Skipped = OutSkipped"
| "kind_of Cancelled = OutCancelled"

text \<open>The frontier after a lease of the frontier \<open>jb\<close> has been finished once, in state \<open>state\<close>.\<close>

definition finished_once :: "execution_env \<Rightarrow> request_lease \<Rightarrow> journal_backend \<Rightarrow> terminal_request_state \<Rightarrow> journal_backend \<Rightarrow> bool" where
  "finished_once env lease jb state jb' \<longleftrightarrow>
     (\<exists>reason. lease_finish (xe_platform env) (sg_frontier (xe_config env)) (xe_now env) True jb lease state reason
        = Inr (createStateRecord (fc_runId (sg_frontier (xe_config env))) (xe_now env) (ls_request lease)
                 (Terminal state) reason, jb'))"

definition may_finish :: "execution_env \<Rightarrow> request_lease \<Rightarrow> journal_backend \<Rightarrow> bool" where
  "may_finish env lease jb \<longleftrightarrow> assertActive jb lease \<and> jb_open jb \<and> (\<forall>state. xe_journal_ok env state)"

lemma finish_possible:
  assumes "may_finish env lease jb"
  shows "\<exists>jb'. lease_finish pf cfg now True jb lease state reason
     = Inr (createStateRecord (fc_runId cfg) now (ls_request lease) (Terminal state) reason, jb')"
  using assms by (simp add: may_finish_def lease_finish_def log_append_def)

lemma finished_not_active:
  "finished_once env lease jb state jb' \<Longrightarrow> \<not> assertActive jb' lease"
  by (auto simp: finished_once_def lease_finish_def assertActive_def bind_result_Inr split: if_splits)

lemma frontierTransition_finishes:
  assumes "may_finish env lease (frontier_of st)"
  shows "\<exists>rec st'. frontierTransition env lease state reason st = (Inr rec, st') \<and>
     finished_once env lease (frontier_of st) state (frontier_of st')"
proof -
  let ?pf = "xe_platform env" and ?cfg = "sg_frontier (xe_config env)" and ?now = "xe_now env"
  define r where "r = (if state = Handled then None else reason)"
  from finish_possible [OF assms, of ?pf ?cfg ?now state r] obtain jb' where
    jb': "lease_finish ?pf ?cfg ?now True (frontier_of st) lease state r =
      Inr (createStateRecord (fc_runId ?cfg) ?now (ls_request lease) (Terminal state) r, jb')" by blast
  have "frontierTransition env lease state reason st =
      (Inr (createStateRecord (fc_runId ?cfg) ?now (ls_request lease) (Terminal state) r),
       st\<lparr>ex_scheduler := (ex_scheduler st)\<lparr>sx_frontier := jb'\<rparr>\<rparr>)"
    using assms jb'
    by (cases state) (simp_all add: frontierTransition_def may_finish_def r_def backend_markHandled_def
        backend_markFailed_def backend_markSkipped_def backend_markCancelled_def)
  then show ?thesis using jb' by (auto simp: finished_once_def)
qed

lemma frontierTransition_stale:
  assumes "\<not> assertActive (frontier_of st) lease"
  shows "frontierTransition env lease state reason st = (Inl (ThrownFrontier (StaleLease (rq_id (ls_request lease)))), st)"
  using assms
  by (cases state) (simp_all add: frontierTransition_def lease_finish_def backend_markHandled_def
      backend_markFailed_def backend_markSkipped_def backend_markCancelled_def)

text \<open>The outcome of a call that finishes the lease in some state, or fails after it has.\<close>

definition ends_in ::
  "execution_env \<Rightarrow> request_lease \<Rightarrow> execution \<Rightarrow> terminal_request_state \<Rightarrow> request_outcome executed \<Rightarrow> bool"
where
  "ends_in env lease st state m \<longleftrightarrow>
     finished_once env lease (frontier_of st) state (frontier_of (snd m)) \<and>
     (case fst m of Inl _ \<Rightarrow> True | Inr out \<Rightarrow> oc_kind out = kind_of state)"

lemma terminal_transition_finishes:
  assumes "may_finish env lease (frontier_of st)"
  shows "\<exists>out st'. terminal_transition env lease state reason st = (out, st') \<and>
     finished_once env lease (frontier_of st) state (frontier_of st')"
proof -
  from frontierTransition_finishes [OF assms] obtain rec st1 where
    st1: "frontierTransition env lease state reason st = (Inr rec, st1)"
      "finished_once env lease (frontier_of st) state (frontier_of st1)" by blast
  have "frontier_of (snd (terminal_transition env lease state reason st)) = frontier_of st1"
    using frontier_view.kept_write_record [of env "WRequestState rec" st1]
    by (cases "write_record env (WRequestState rec) st1")
      (auto simp: terminal_transition_def st1(1) split: sum.split)
  then show ?thesis using st1(2) by (metis prod.collapse)
qed

lemma terminal_transition_stale:
  assumes "\<not> assertActive (frontier_of st) lease"
  shows "terminal_transition env lease state reason st = (Inl (ThrownFrontier (StaleLease (rq_id (ls_request lease)))), st)"
  by (simp add: terminal_transition_def frontierTransition_stale [OF assms])

lemma finish_handled_ends:
  assumes "may_finish env lease (frontier_of st)"
  shows "ends_in env lease st Handled (finish_handled env lease code ms latency st)"
proof -
  from terminal_transition_finishes [OF assms, of Handled None] obtain out st' where
    "terminal_transition env lease Handled None st = (out, st')"
    "finished_once env lease (frontier_of st) Handled (frontier_of st')" by blast
  then show ?thesis by (cases out) (auto simp: ends_in_def finish_handled_def)
qed

lemma finish_skipped_ends:
  assumes "may_finish env lease (frontier_of st)"
  shows "ends_in env lease st Skipped (finish_skipped env lease reason st)"
proof -
  from terminal_transition_finishes [OF assms, of Skipped reason] obtain out st' where
    "terminal_transition env lease Skipped reason st = (out, st')"
    "finished_once env lease (frontier_of st) Skipped (frontier_of st')" by blast
  then show ?thesis by (cases out) (auto simp: ends_in_def finish_skipped_def no_outcome_def)
qed

lemma finish_cancelled_ends:
  assumes "may_finish env lease (frontier_of st)"
  shows "ends_in env lease st Cancelled (finish_cancelled env lease reason st)"
proof -
  from terminal_transition_finishes [OF assms, of Cancelled reason] obtain out st' where
    "terminal_transition env lease Cancelled reason st = (out, st')"
    "finished_once env lease (frontier_of st) Cancelled (frontier_of st')" by blast
  then show ?thesis by (cases out) (auto simp: ends_in_def finish_cancelled_def no_outcome_def)
qed

lemma then_run_outcome:
  assumes "\<And>a s. oc_kind ` {x. fst (f a s) = Inr x} \<subseteq> {k}"
  shows "oc_kind ` {x. fst (then_run m f) = Inr x} \<subseteq> {k}"
  using assms by (cases m; cases "fst m") (auto simp: then_run_def)

lemma finish_failed_ends:
  assumes "may_finish env lease (frontier_of st)"
  shows "ends_in env lease st Failed (finish_failed env lease e persist st)"
proof -
  from terminal_transition_finishes [OF assms, of Failed "Some (ce_message e)"] obtain out st' where
    tr: "terminal_transition env lease Failed (Some (ce_message e)) st = (out, st')"
    "finished_once env lease (frontier_of st) Failed (frontier_of st')" by blast
  have "frontier_of (snd (finish_failed env lease e persist st)) = frontier_of st'"
    by (cases out; cases persist) (simp_all add: finish_failed_def tr(1) Let_def)
  moreover have "oc_kind ` {x. fst (finish_failed env lease e persist st) = Inr x} \<subseteq> {OutRequestFailed}"
    unfolding finish_failed_def Let_def
    by (intro then_run_outcome) (auto simp: no_outcome_def)
  ultimately show ?thesis using tr(2) by (auto simp: ends_in_def split: sum.split)
qed

lemma finish_stale:
  assumes "\<not> assertActive (frontier_of st) lease"
  shows "finish_cancelled env lease reason st = (Inl (ThrownFrontier (StaleLease (rq_id (ls_request lease)))), st)"
    "finish_failed env lease e persist st = (Inl (ThrownFrontier (StaleLease (rq_id (ls_request lease)))), st)"
  by (simp_all add: finish_cancelled_def finish_failed_def terminal_transition_stale [OF assms])

section \<open>The handler\<close>

text \<open>
  The body of the handler ends in one of three ways: it throws before the lease is finished, or it
  finishes the lease, knowing it (the flag) or not.
\<close>

lemma ends_in_same: "frontier_of st' = frontier_of st \<Longrightarrow> ends_in env lease st' state m \<longleftrightarrow> ends_in env lease st state m"
  by (simp add: ends_in_def)

lemma may_finish_same: "frontier_of st' = frontier_of st \<Longrightarrow> may_finish env lease (frontier_of st') \<longleftrightarrow> may_finish env lease (frontier_of st)"
  by simp

lemma beforeRequest_decides:
  "fst (beforeRequest env lease calls i st) = Inr d \<Longrightarrow> d \<noteq> MwDelay ms"
proof (induction calls arbitrary: i st)
  case (Cons call rest)
  obtain action abort where call: "call = (action, abort)" by (cases call)
  obtain out st1 where inv: "invokeValue env (''beforeRequest middleware #'' @ show_nat (i + 1)) InRequest
      (request_url lease) (request_id lease) action MwContinue st = (out, st1)" by fastforce
  have step: "beforeRequest env lease (call # rest) i st =
     (case out of Inl e \<Rightarrow> (Inl e, st1) | Inr decision \<Rightarrow>
       (case decision of
         MwContinue \<Rightarrow> beforeRequest env lease rest (i + 1) st1
       | MwDelay ms \<Rightarrow>
           (if ms = None \<or> the ms < 0
            then (Inl (ThrownOther ''TypeError'' ''Request middleware delay must be non-negative.''), st1)
            else if 0 < the ms \<and> signal_aborted (abort_meanwhile abort st1)
            then (Inl (ThrownOther ''AbortDelayError'' ''Operation was cancelled.''), abort_meanwhile abort st1)
            else beforeRequest env lease rest (i + 1) (abort_meanwhile abort st1))
       | _ \<Rightarrow> (Inr decision, st1)))"
    unfolding call beforeRequest.simps inv Let_def by (simp add: then_run_def)
  show ?case
    using Cons.prems Cons.IH [of "i + 1" st1] Cons.IH [of "i + 1" "abort_meanwhile abort st1"] unfolding step
    by (auto split: sum.splits middleware_decision.splits if_splits)
qed simp

text \<open>What is thrown before the terminalizer has been called is not its persistence error.\<close>

fun early :: "thrown \<Rightarrow> bool" where
  "early (ThrownPersistence state) \<longleftrightarrow> False"
| "early _ \<longleftrightarrow> True"

definition throws_early :: "'a executed \<Rightarrow> bool" where
  "throws_early m \<longleftrightarrow> (case fst m of Inl e \<Rightarrow> early e | Inr _ \<Rightarrow> True)"

lemma throws_early_simps [simp]:
  "throws_early (Inr a, st)" "throws_early (Inl e, st) \<longleftrightarrow> early e"
  by (simp_all add: throws_early_def)

lemma then_run_early:
  "throws_early m \<Longrightarrow> (\<And>a s. throws_early (f a s)) \<Longrightarrow> throws_early (then_run m f)"
  by (cases m; cases "fst m") (auto simp: then_run_def)

lemma write_early: "throws_early (write_record env r st)" "throws_early (write_error env e st)"
  by (simp_all add: write_record_def store_write_def write_error_def)

lemma invokeValue_early: "throws_early (invokeValue env name scope url i action fallback st)"
  by (cases "fst action") (auto simp: invokeValue_def Let_def intro!: then_run_early write_early)

lemma invoke_hook_early: "throws_early (invoke_hook env name scope url i hook st)"
  by (cases hook) (simp_all add: invoke_hook_def invokeValue_early)

lemma start_request_early: "throws_early (start_request env w lease st)"
  unfolding start_request_def by (intro then_run_early write_early invoke_hook_early)

lemma beforeRequest_early: "throws_early (beforeRequest env lease calls i st)"
proof (induction calls arbitrary: i st)
  case (Cons call rest)
  obtain action abort where call: "call = (action, abort)" by (cases call)
  show ?case
    unfolding call beforeRequest.simps Let_def
  proof (rule then_run_early [OF invokeValue_early])
    fix decision st
    show "throws_early (case decision of
         MwContinue \<Rightarrow> beforeRequest env lease rest (i + 1) st
       | MwDelay ms \<Rightarrow>
           (if ms = None \<or> the ms < 0
            then (Inl (ThrownOther ''TypeError'' ''Request middleware delay must be non-negative.''), st)
            else if 0 < the ms \<and> signal_aborted (abort_meanwhile abort st)
            then (Inl (ThrownOther ''AbortDelayError'' ''Operation was cancelled.''), abort_meanwhile abort st)
            else beforeRequest env lease rest (i + 1) (abort_meanwhile abort st))
       | _ \<Rightarrow> (Inr decision, st))"
      using Cons.IH by (cases decision) simp_all
  qed
qed simp

lemma recordSkipped_early: "throws_early (recordSkipped env w request reason p d st)"
  by (cases "skip_persist (xe_config env) (admission env) (createRecord (xe_config env) (admission env)
      (rq_rawUrl request) (rq_referrerUrl request) (Some (rq_resolvedUrl request)) (Some (rq_normalizedUrl request))
      reason p d) (ex_scheduler st)")
    (simp add: recordSkipped_def Let_def invoke_hook_early split: sum.split)

lemma fetch_request_early: "throws_early (fetch_request w request st)"
proof -
  have "early (thrown_of e)" for e by (cases e) (simp_all add: thrown_of_def)
  then show ?thesis by (simp add: fetch_request_def Let_def throws_early_def split: prod.split sum.split)
qed

lemma process_resource_early: "throws_early (process_resource env w r st)"
proof -
  have "early (thrown_by_resource x)" for x by (cases x) simp_all
  then show ?thesis by (cases "fst (hw_process w)") (simp_all add: process_resource_def Let_def)
qed

text \<open>A call that has not touched the frontier and threw early, or finished the lease.\<close>

definition body_ends :: "execution_env \<Rightarrow> request_lease \<Rightarrow> execution \<Rightarrow> request_outcome executed \<times> bool \<Rightarrow> bool" where
  "body_ends env lease st out \<longleftrightarrow>
     (\<exists>e st'. out = ((Inl e, st'), False) \<and> early e \<and> frontier_of st' = frontier_of st) \<or>
     (\<exists>state. ends_in env lease st state (fst out))"

lemma body_finished: "ends_in env lease st' state m \<Longrightarrow> frontier_of st' = frontier_of st \<Longrightarrow> body_ends env lease st (m, t)"
  unfolding body_ends_def ends_in_def by auto

lemma applyMiddleware_ends:
  assumes "may_finish env lease (frontier_of st)" "decision \<noteq> MwContinue" "\<And>ms. decision \<noteq> MwDelay ms"
  shows "body_ends env lease st (applyMiddleware env w decision lease st, False)"
proof (cases decision)
  case (MwSkip reason detail)
  let ?skip = "recordSkipped env w (ls_request lease) reason (Some ''middleware'') (Some detail) st"
  obtain out st1 where skip: "?skip = (out, st1)" by fastforce
  then have same: "frontier_of st1 = frontier_of st" using frontier_view.kept_recordSkipped by (metis snd_conv)
  show ?thesis
  proof (cases out)
    case (Inl e)
    with skip recordSkipped_early [of env w "ls_request lease" reason "Some ''middleware''" "Some detail" st]
    have "early e" by simp
    then show ?thesis using Inl skip same by (simp add: applyMiddleware_def MwSkip body_ends_def)
  next
    case (Inr _)
    have "ends_in env lease st1 Skipped (finish_skipped env lease (Some detail) st1)"
      by (rule finish_skipped_ends) (simp add: same assms(1))
    from body_finished [OF this same] show ?thesis using Inr skip by (simp add: applyMiddleware_def MwSkip)
  qed
next
  case (MwFail e)
  have "ends_in env lease st Failed (finish_failed env lease e True st)"
    by (rule finish_failed_ends [OF assms(1)])
  from body_finished [OF this refl] show ?thesis by (simp add: applyMiddleware_def MwFail)
next
  case (MwAbort reason)
  have "ends_in env lease (on_controller (cancel reason) st) Cancelled
      (finish_cancelled env lease (Some reason) (on_controller (cancel reason) st))"
    by (rule finish_cancelled_ends) (simp add: assms(1))
  from body_finished [OF this frontier_view.kept_cancel] show ?thesis by (simp add: applyMiddleware_def MwAbort)
qed (use assms in auto)

lemma body_thrown:
  "throws_early (Inl e, st') \<Longrightarrow> frontier_of st' = frontier_of st \<Longrightarrow> body_ends env lease st ((Inl e, st'), False)"
  by (simp add: body_ends_def)

lemma handle_outcome_ends:
  assumes fin: "may_finish env lease (frontier_of st)"
  shows "body_ends env lease st (handle_outcome env w lease outcome st)"
proof (cases outcome)
  case (OutcomeSkip reason policyName detail)
  let ?skip = "recordSkipped env w (ls_request lease) reason (Some policyName) detail st"
  obtain out st1 where skip: "?skip = (out, st1)" by fastforce
  then have same: "frontier_of st1 = frontier_of st" using frontier_view.kept_recordSkipped by (metis snd_conv)
  have early: "throws_early (out, st1)" using recordSkipped_early skip by metis
  have "ends_in env lease st1 Skipped (finish_skipped env lease detail st1)"
    by (rule finish_skipped_ends) (simp add: same fin)
  from body_finished [OF this same] body_thrown [OF _ same] early show ?thesis
    by (cases out) (simp_all add: handle_outcome_def OutcomeSkip skip)
next
  case (OutcomeFailed r)
  let ?st = "on_counters (\<lambda>c. c\<lparr>cc_requestsTransportFailed := cc_requestsTransportFailed c + 1\<rparr>) st"
  have "ends_in env lease ?st Failed (finish_failed env lease (the (ft_error r)) True ?st)"
    by (rule finish_failed_ends) (simp add: fin)
  from body_finished [OF this frontier_view.kept_counters] body_finished [OF finish_cancelled_ends [OF fin] refl]
  show ?thesis by (simp add: handle_outcome_def OutcomeFailed)
next
  case (OutcomeFetched r scope safety robots)
  obtain out st1 where process: "process_resource env w r st = (out, st1)" by fastforce
  then have same: "frontier_of st1 = frontier_of st" using frontier_view.kept_process_resource by (metis snd_conv)
  have early: "throws_early (out, st1)" using process_resource_early process by metis
  have "ends_in env lease st1 Handled (finish_handled env lease code ms latency st1)" for code ms latency
    by (rule finish_handled_ends) (simp add: same fin)
  note handled = body_finished [OF this same] and thrown = body_thrown [OF _ same, of _ env lease]
  show ?thesis
  proof (cases "aborted_result r st")
    case True
    then show ?thesis
      using body_finished [OF finish_cancelled_ends [OF fin] refl] by (simp add: handle_outcome_def OutcomeFetched)
  next
    case False
    then show ?thesis using handled thrown early by (cases out) (simp_all add: handle_outcome_def OutcomeFetched process)
  qed
qed

lemma handle_body_ends:
  assumes fin: "may_finish env lease (frontier_of st)"
  shows "body_ends env lease st (handle_body env w lease st)"
proof -
  let ?before = "then_run (start_request env w lease st) (\<lambda>_. beforeRequest env lease (hw_middlewares w) 0)"
  obtain out1 st1 where before: "?before = (out1, st1)" by fastforce
  have same1: "frontier_of st1 = frontier_of st"
    using before by (metis frontier_view.kept_beforeRequest snd_conv frontier_view.kept_start_request frontier_view.kept_then_run)
  then have fin1: "may_finish env lease (frontier_of st1)" using fin by simp
  have shift: "body_ends env lease st1 x \<Longrightarrow> body_ends env lease st x" for x
    by (simp add: body_ends_def same1 ends_in_def)
  have early1: "throws_early ?before" by (intro then_run_early start_request_early beforeRequest_early)
  have decided: "decision \<noteq> MwDelay ms" if "out1 = Inr decision" for decision ms
    using before that beforeRequest_decides [of env lease "hw_middlewares w" 0]
    by (cases "start_request env w lease st"; cases "fst (start_request env w lease st)") (auto simp: then_run_def, metis fst_conv)
  obtain out2 st2 where fetch: "fetch_request w (ls_request lease) st1 = (out2, st2)" by fastforce
  have same2: "frontier_of st2 = frontier_of st1" using fetch frontier_view.kept_fetch_request by (metis snd_conv)
  have early2: "throws_early (out2, st2)" using fetch_request_early fetch by metis
  have cont: "body_ends env lease st1 (handle_outcome env w lease outcome st2)" for outcome
    using handle_outcome_ends [of env lease st2 w outcome] fin1 same2 by (simp add: body_ends_def ends_in_def)
  show ?thesis
  proof (cases out1)
    case (Inl e)
    then show ?thesis using before early1 same1 by (simp add: handle_body_def body_ends_def)
  next
    case (Inr decision)
    show ?thesis
    proof (cases "decision = MwContinue")
      case False
      from shift [OF applyMiddleware_ends [OF fin1 False decided [OF Inr]], of w] show ?thesis
        using before Inr False by (cases decision) (simp_all add: handle_body_def)
    next
      case True
      then show ?thesis
        using before Inr fetch shift [OF cont] shift [OF body_thrown [OF _ same2]] early2
        by (cases out2) (simp_all add: handle_body_def)
    qed
  qed
qed

section \<open>Every handled lease is finished once\<close>

lemma caught_finished:
  assumes "\<not> assertActive (frontier_of st) lease"
  shows "\<exists>e. handle_caught env lease terminal caught st = (Inl e, st)"
  by (cases caught)
    (auto simp: handle_caught_def finish_stale [OF assms] Let_def split: thrown.split)

lemma caught_early:
  assumes fin: "may_finish env lease (frontier_of st)" and "early caught"
  shows "\<exists>state. ends_in env lease st state (handle_caught env lease False caught st)"
proof (cases "signal_aborted st")
  case True
  then have "handle_caught env lease False caught st = finish_cancelled env lease (Some (cancellationReason st)) st"
    using assms(2) by (cases caught) (simp_all add: handle_caught_def)
  then show ?thesis using finish_cancelled_ends [OF fin] by metis
next
  case False
  have failed: "ends_in env lease st Failed (then_run (finish_failed env lease e persist st) (\<lambda>_ st. (out, st)))"
    if "case out of Inl _ \<Rightarrow> True | Inr out \<Rightarrow> oc_kind out = OutRequestFailed" for e persist out
    using finish_failed_ends [OF fin, of e persist] that
    by (cases "finish_failed env lease e persist st"; cases "fst (finish_failed env lease e persist st)"; cases out)
      (auto simp: ends_in_def then_run_def)
  note fatal = failed [of "Inl _", simplified] and one = failed [of "Inr (no_outcome OutRequestFailed)"]
  show ?thesis
  proof (cases caught)
    case (ThrownExtension mode e)
    show ?thesis
      using False fatal one
      by (intro exI [of _ Failed]; cases "mode = FailRun")
        (simp_all add: handle_caught_def ThrownExtension no_outcome_def)
  qed (use assms(2) False fatal in \<open>auto simp: handle_caught_def Let_def intro!: exI [of _ Failed]\<close>)
qed

lemma handle_request_ends:
  assumes fin: "may_finish env lease (frontier_of st)"
  shows "\<exists>state. ends_in env lease st state (handle_request env w lease st)"
proof -
  obtain out st' terminal where body: "handle_body env w lease st = ((out, st'), terminal)" by (metis prod.exhaust)
  have "(\<exists>e. out = Inl e \<and> \<not> terminal \<and> early e \<and> frontier_of st' = frontier_of st) \<or>
      (\<exists>state. ends_in env lease st state (out, st'))"
    using handle_body_ends [OF fin, of w] unfolding body_ends_def body by simp
  then consider
      (thrown) e where "out = Inl e" "\<not> terminal" "early e" "frontier_of st' = frontier_of st"
    | (ended) state where "ends_in env lease st state (out, st')"
    by blast
  then show ?thesis
  proof cases
    case thrown
    then have "may_finish env lease (frontier_of st')" using fin by simp
    from caught_early [OF this thrown(3)] obtain state where
      "ends_in env lease st' state (handle_caught env lease False e st')" ..
    then have "ends_in env lease st state (handle_caught env lease False e st')"
      by (simp only: ends_in_same [OF thrown(4)])
    moreover have "handle_request env w lease st = handle_caught env lease False e st'"
      using thrown(1,2) by (simp add: handle_request_def body)
    ultimately show ?thesis by auto
  next
    case ended
    then have "\<not> assertActive (frontier_of st') lease" using finished_not_active by (auto simp: ends_in_def)
    from caught_finished [OF this] have caught: "\<exists>e'. handle_caught env lease terminal e st' = (Inl e', st')" for e .
    show ?thesis
    proof (cases out)
      case (Inl e)
      from caught [of e] obtain e' where "handle_caught env lease terminal e st' = (Inl e', st')" ..
      then have "handle_request env w lease st = (Inl e', st')" by (simp add: handle_request_def body Inl)
      then show ?thesis using ended by (auto simp: ends_in_def)
    next
      case (Inr outcome)
      then have "handle_request env w lease st = (out, st')" by (simp add: handle_request_def body)
      then show ?thesis using ended by auto
    qed
  qed
qed

text \<open>
  C14: Every lease that is handled is finished exactly once. When the lease is active and the journal
  accepts records, then whatever hooks, middleware, policies, client and stores do, the handler
  appends exactly one terminal record, the one that ends this lease, before it returns or throws,
  and what it returns has the kind of that record.
\<close>

theorem handled_lease_is_finished:
  assumes "assertActive (sx_frontier (ex_scheduler st)) lease" "jb_open (sx_frontier (ex_scheduler st))"
    and "\<forall>state. xe_journal_ok env state"
  shows "\<exists>state. ends_in env lease st state (handle_request env w lease st)"
  using assms by (simp add: handle_request_ends may_finish_def)

section \<open>Failing hooks\<close>

lemma terminal_transition_succeeds:
  assumes "may_finish env lease (frontier_of st)" "\<forall>r. xe_store_ok env r"
  shows "\<exists>st'. terminal_transition env lease state reason st = (Inr (), st') \<and>
     finished_once env lease (frontier_of st) state (frontier_of st')"
proof -
  from frontierTransition_finishes [OF assms(1)] obtain rec st1 where
    "frontierTransition env lease state reason st = (Inr rec, st1)"
    "finished_once env lease (frontier_of st) state (frontier_of st1)" by blast
  then show ?thesis
    using assms(2)
    by (simp add: terminal_transition_def write_record_def store_write_def admission_def)
qed

lemma finish_failed_hook:
  assumes "may_finish env lease (frontier_of st)" "\<forall>r. xe_store_ok env r" "\<forall>e. xe_error_ok env e"
    and "xe_mode env = FailRequest" "xe_onFailed env = Some hook" "fst (hook e) = Inl cause"
  shows "\<exists>x st'. finish_failed env lease e True st = (Inl (ThrownExtension FailRequest x), st') \<and>
     finished_once env lease (frontier_of st) Failed (frontier_of st')"
proof -
  from terminal_transition_succeeds [OF assms(1,2)] obtain st1 where
    "terminal_transition env lease Failed (Some (ce_message e)) st = (Inr (), st1)"
    "finished_once env lease (frontier_of st) Failed (frontier_of st1)" by blast
  then show ?thesis
    using assms(3-)
    by (simp add: finish_failed_def Let_def write_error_def invoke_hook_def invokeValue_def effectiveMode_def)
qed

text \<open>
  A failing hook reaches further than its mode says. In the mode that fails only the request,
  when the client's result fails the request and the \<open>onRequestFailed\<close> hook throws, the handler
  does not return an outcome but throws, and its worker then fails the run.
\<close>

theorem failing_hook_escapes_handler:
  assumes "assertActive (sx_frontier (ex_scheduler st)) lease" "jb_open (sx_frontier (ex_scheduler st))"
    and "\<forall>state. xe_journal_ok env state" "\<forall>r. xe_store_ok env r" "\<forall>e. xe_error_ok env e"
    and "hw_middlewares w = []" "start_request env w lease st = (Inr (), st1)"
    and "fetch_request w (ls_request lease) st1 = (Inr (OutcomeFailed r), st2)"
    and "ft_error r = Some e" "\<not> aborted_result r st2"
    and "xe_mode env = FailRequest" "xe_onFailed env = Some hook" "fst (hook e) = Inl cause"
  shows "\<exists>x st'. handle_request env w lease st = (Inl (ThrownExtension FailRequest x), st')"
proof -
  let ?st = "on_counters (\<lambda>c. c\<lparr>cc_requestsTransportFailed := cc_requestsTransportFailed c + 1\<rparr>) st2"
  have "frontier_of st1 = frontier_of st" using assms(7) frontier_view.kept_start_request by (metis snd_conv)
  moreover have "frontier_of st2 = frontier_of st1" using assms(8) frontier_view.kept_fetch_request by (metis snd_conv)
  ultimately have "may_finish env lease (frontier_of ?st)" using assms(1-3) by (simp add: may_finish_def)
  from finish_failed_hook [OF this assms(4,5,11-13)] obtain x st' where
    "finish_failed env lease e True ?st = (Inl (ThrownExtension FailRequest x), st')" by blast
  then show ?thesis
    using assms(6-10)
    by (simp add: handle_request_def handle_body_def handle_outcome_def handle_caught_def)
qed

text \<open>
  A middleware that fails a request ends its lease while the flag \<open>terminal\<close> is not set: when the
  hook then throws, the handler finishes the lease a second time, and what it throws is the stale
  lease instead of the failure.
\<close>

lemma failed_by_middleware_twice:
  assumes "assertActive (sx_frontier (ex_scheduler st)) lease" "jb_open (sx_frontier (ex_scheduler st))"
    and "\<forall>state. xe_journal_ok env state" "\<forall>r. xe_store_ok env r" "\<forall>e. xe_error_ok env e"
    and "start_request env w lease st = (Inr (), st1)"
    and "beforeRequest env lease (hw_middlewares w) 0 st1 = (Inr (MwFail e), st2)"
    and "xe_mode env = FailRequest" "xe_onFailed env = Some hook" "fst (hook e) = Inl cause"
  shows "\<exists>st'. handle_request env w lease st = (Inl (ThrownFrontier (StaleLease (rq_id (ls_request lease)))), st')"
proof -
  have "frontier_of st1 = frontier_of st" using assms(6) frontier_view.kept_start_request by (metis snd_conv)
  moreover have "frontier_of st2 = frontier_of st1" using assms(7) frontier_view.kept_beforeRequest by (metis snd_conv)
  ultimately have "may_finish env lease (frontier_of st2)" using assms(1-3) by (simp add: may_finish_def)
  from finish_failed_hook [OF this assms(4,5,8-10)] obtain x st' where
    fail: "finish_failed env lease e True st2 = (Inl (ThrownExtension FailRequest x), st')"
      "\<not> assertActive (frontier_of st') lease" using finished_not_active by blast
  then show ?thesis
    using assms(6,7)
    by (simp add: handle_request_def handle_body_def applyMiddleware_def handle_caught_def finish_stale [OF fail(2)])
qed

section \<open>A sample\<close>

definition sample_lease :: request_lease where
  "sample_lease = snd (hd (jb_active sample_granted))"

definition sample_execution :: execution where
  "sample_execution =
     \<lparr>ex_scheduler = sample_scheduler\<lparr>sx_frontier := sample_granted\<rparr>, ex_controller = new_controller 0,
      ex_errors = [], ex_finished = []\<rparr>"

definition sample_execution_env :: execution_env where
  "sample_execution_env =
     \<lparr>xe_platform = sample_platform, xe_config = sample_scheduling,
      xe_limits = \<lparr>cl_maxScheduledRequests = 9, cl_maxFetchedResources = 9, cl_maxRunTimeMs = 900, cl_maxDownloadedBytes = 99\<rparr>,
      xe_mode = FailRequest, xe_now = 0, xe_journal_ok = (\<lambda>_. True), xe_store_ok = (\<lambda>_. True),
      xe_error_ok = (\<lambda>_. True), xe_onFailed = Some (\<lambda>e. (Inl (''Error'', ''hook''), None))\<rparr>"

definition sample_failure_result :: "string fetch_result" where
  "sample_failure_result = failure 0 E_TLS_ERROR ''tls'' ''http://a/x'' ''r'' None [] None False"

definition sample_world :: "string handler_world" where
  "sample_world =
     \<lparr>hw_beforeHook = None, hw_middlewares = [],
      hw_retry = \<lparr>rn_runId = ''run'', rn_network = sample_network, rn_date = (\<lambda>_. None)\<rparr>,
      hw_attempts = (\<lambda>_. \<lparr>ra_abortedBefore = False, ra_outcome = Inr (OutcomeFailed sample_failure_result),
        ra_abortedAfter = False, ra_now = 0, ra_error_ok = True, ra_state_ok = True, ra_delay_ok = True\<rparr>),
      hw_abortedMeanwhile = None, hw_bodySize = (\<lambda>_. 0), hw_process = (Inr (), None), hw_onSkipped = None\<rparr>"

definition sample_started :: execution where
  "sample_started = snd (start_request sample_execution_env sample_world sample_lease sample_execution)"

definition sample_fetched :: execution where
  "sample_fetched = snd (fetch_request sample_world (ls_request sample_lease) sample_started)"

lemma sample_execution_ready:
  "assertActive (frontier_of sample_execution) sample_lease" "jb_open (frontier_of sample_execution)"
  by code_simp+

lemma sample_env_ready:
  "\<forall>state. xe_journal_ok sample_execution_env state" "\<forall>r. xe_store_ok sample_execution_env r"
  "\<forall>e. xe_error_ok sample_execution_env e"
  by (simp_all add: sample_execution_env_def)

theorem handled_lease_is_finished_witness:
  "\<exists>state. ends_in sample_execution_env sample_lease sample_execution state
     (handle_request sample_execution_env sample_world sample_lease sample_execution)"
  by (rule handled_lease_is_finished [OF sample_execution_ready sample_env_ready(1)])

theorem failing_hook_escapes_handler_witness:
  "\<exists>x st'. handle_request sample_execution_env sample_world sample_lease sample_execution
     = (Inl (ThrownExtension FailRequest x), st')"
proof -
  have start: "start_request sample_execution_env sample_world sample_lease sample_execution = (Inr (), sample_started)"
    by (simp add: start_request_def write_record_def store_write_def admission_def sample_execution_env_def
        sample_world_def invoke_hook_def sample_started_def)
  have out: "fst (fetch_request sample_world (ls_request sample_lease) sample_started) = Inr (OutcomeFailed sample_failure_result)"
    by code_simp
  have fetch: "fetch_request sample_world (ls_request sample_lease) sample_started = (Inr (OutcomeFailed sample_failure_result), sample_fetched)"
    using out by (metis prod.collapse sample_fetched_def)
  have "\<not> aborted_result sample_failure_result sample_fetched" by code_simp
  moreover have "ft_error sample_failure_result = Some (the (ft_error sample_failure_result))" "hw_middlewares sample_world = []"
    "xe_mode sample_execution_env = FailRequest"
    "xe_onFailed sample_execution_env = Some (\<lambda>e. (Inl (''Error'', ''hook''), None))"
    by (simp_all add: sample_failure_result_def failure_def sample_world_def sample_execution_env_def)
  ultimately show ?thesis
    by (intro failing_hook_escapes_handler [where cause = "(''Error'', ''hook'')"
        and hook = "\<lambda>e. (Inl (''Error'', ''hook''), None)" and e = "the (ft_error sample_failure_result)",
        OF sample_execution_ready sample_env_ready _ start fetch]) simp_all
qed

end
