(* ===== verification/Worker_Pool.thy ===== *)
theory Worker_Pool
  imports Request_Handler
begin

text \<open>
  The worker of a run (\<open>crawler/worker-pool.ts\<close>) and the heartbeat that renews the lease it works
  on (\<open>crawler/lease-heartbeat.ts\<close>).

  The timer of the heartbeat is outside: \<open>wd_ticks\<close> are the renewals that run before the end of the
  request, \<open>wd_lateTicks\<close> those between the end of the request and the moment at which the heartbeat
  is stopped and its chain awaited; each is a time and the outcome of its journal append.
\<close>

section \<open>The heartbeat\<close>

record heartbeat =
  hb_current :: request_lease
  hb_failure :: "thrown option"

definition new_heartbeat :: "request_lease \<Rightarrow> heartbeat" where
  "new_heartbeat lease = \<lparr>hb_current = lease, hb_failure = None\<rparr>"

definition fail_from :: "execution_env \<Rightarrow> thrown \<Rightarrow> execution \<Rightarrow> execution" where
  "fail_from env e st = on_controller (failFromUnknown (xe_now env) (cause_of e)) st"

definition heartbeat_renewal ::
  "execution_env \<Rightarrow> timestamp \<times> bool \<Rightarrow> heartbeat \<times> execution \<Rightarrow> heartbeat \<times> execution"
where
  "heartbeat_renewal env tick s =
     (case s of (hb, st) \<Rightarrow>
        if hb_failure hb \<noteq> None then (hb, st)
        else case lease_renew (xe_platform env) (sg_frontier (xe_config env)) (fst tick) (snd tick)
                    (sx_frontier (ex_scheduler st)) (hb_current hb) of
               Inr (renewed, jb) \<Rightarrow>
                 (hb\<lparr>hb_current := renewed\<rparr>,
                  on_counters (\<lambda>c. c\<lparr>cc_renewedLeases := cc_renewedLeases c + 1\<rparr>)
                    (st\<lparr>ex_scheduler := ex_scheduler st\<lparr>sx_frontier := jb\<rparr>\<rparr>))
             | Inl e \<Rightarrow>
                 (hb\<lparr>hb_failure := Some (ThrownFrontier e)\<rparr>, fail_from env (ThrownFrontier e) st))"

definition heartbeat_renewals ::
  "execution_env \<Rightarrow> (timestamp \<times> bool) list \<Rightarrow> heartbeat \<times> execution \<Rightarrow> heartbeat \<times> execution"
where
  "heartbeat_renewals env ticks s = foldl (\<lambda>s tick. heartbeat_renewal env tick s) s ticks"

definition heartbeat_stop :: "heartbeat \<Rightarrow> (thrown, request_lease) result" where
  "heartbeat_stop hb = (case hb_failure hb of None \<Rightarrow> Inr (hb_current hb) | Some e \<Rightarrow> Inl e)"

section \<open>One lease\<close>

record worker =
  wk_execution :: execution
  wk_slots :: slots
  wk_robots :: robots_cache

record 'b worker_world =
  wd_handler :: "'b handler_world"
  wd_network :: network_config
  wd_parse :: url_parser
  wd_robots :: robots_env
  wd_loaded :: timestamp
  wd_abortedMeanwhile :: "stop_detail option"   \<comment> \<open>before the request begins or during its robots delay\<close>
  wd_release_ok :: bool                    \<comment> \<open>the journal append of a release\<close>
  wd_ticks :: "(timestamp \<times> bool) list"
  wd_lateTicks :: "(timestamp \<times> bool) list"

definition lease_origin :: "'b worker_world \<Rightarrow> request_lease \<Rightarrow> string" where
  "lease_origin w lease =
     (case wd_parse w (rq_normalizedUrl (ls_request lease)) None of None \<Rightarrow> [] | Some u \<Rightarrow> url_origin u)"

text \<open>The robots delay of the origin, up to the end of the wait, which an abort ends with an error.\<close>

definition await_robots_delay ::
  "execution_env \<Rightarrow> 'b worker_world \<Rightarrow> request_lease \<Rightarrow> worker \<Rightarrow> (thrown, unit) result \<times> worker"
where
  "await_robots_delay env w lease wk =
     (let now = xe_now env;
          (delay, cache) =
            (case wd_parse w (rq_normalizedUrl (ls_request lease)) None of
               None \<Rightarrow> (Inl ''Invalid URL'', wk_robots wk)
             | Some u \<Rightarrow> crawlDelayMsFor (wd_robots w) now (wd_loaded w) u (wk_robots wk));
          wk = wk\<lparr>wk_robots := cache\<rparr>;
          wk = wk\<lparr>wk_execution := abort_meanwhile (wd_abortedMeanwhile w) (wk_execution wk)\<rparr>
      in case delay of
           Inl m \<Rightarrow> (Inl (ThrownOther ''Error'' m), wk)
         | Inr ms \<Rightarrow>
             (let (slots, change, wait) = applyRobotsDelay (wd_network w) (of_int now) (wk_slots wk)
                    (lease_origin w lease) (case ms of None \<Rightarrow> 0 | Some m \<Rightarrow> m)
              in (if wait \<le> 0 \<or> \<not> signal_aborted (wk_execution wk) then Inr ()
                  else Inl (ThrownOther ''AbortDelayError'' ''Operation was cancelled.''),
                  wk\<lparr>wk_slots := slots\<rparr>)))"

definition finishUnstartedLease ::
  "execution_env \<Rightarrow> 'b worker_world \<Rightarrow> request_lease \<Rightarrow> thrown \<Rightarrow> execution \<Rightarrow> unit executed"
where
  "finishUnstartedLease env w lease caught st =
     (if signal_aborted st
      then then_run (finish_cancelled env lease (Some ''Run cancelled before request execution'') st) (\<lambda>_ st. (Inr (), st))
      else case backend_release (xe_platform env) (sg_frontier (xe_config env)) (xe_now env) (wd_release_ok w)
                  (sx_frontier (ex_scheduler st)) lease (Some (snd (cause_of caught))) of
             Inl e \<Rightarrow> (Inl (ThrownFrontier e), st)
           | Inr (rec, jb) \<Rightarrow>
               (Inr (), on_counters (\<lambda>c. c\<lparr>cc_releasedLeases := cc_releasedLeases c + 1\<rparr>)
                  (st\<lparr>ex_scheduler := ex_scheduler st\<lparr>sx_frontier := jb\<rparr>\<rparr>)))"

text \<open>The \<open>finally\<close>: \<open>res\<close> is how the \<open>try\<close> and the \<open>catch\<close> ended.\<close>

definition lease_finally ::
  "execution_env \<Rightarrow> 'b worker_world \<Rightarrow> request_lease \<Rightarrow> heartbeat \<Rightarrow> bool \<Rightarrow> request_outcome
     \<Rightarrow> (thrown, unit) result \<Rightarrow> worker \<Rightarrow> (thrown, unit) result \<times> worker"
where
  "lease_finally env w lease hb started outcome res wk =
     (let (hb, st) = heartbeat_renewals env (wd_lateTicks w) (hb, wk_execution wk);
          st = (if started then on_controller finishRequest st else st);
          slots = fst (politeness_release (wd_network w) (of_int (xe_now env)) (wk_slots wk) (lease_origin w lease) outcome)
      in case heartbeat_stop hb of
           Inr _ \<Rightarrow> (res, wk\<lparr>wk_execution := st, wk_slots := slots\<rparr>)
         | Inl e \<Rightarrow>
             (if started then res else Inl e,
              wk\<lparr>wk_execution := fail_from env e st, wk_slots := slots\<rparr>))"

definition processLease ::
  "execution_env \<Rightarrow> 'b worker_world \<Rightarrow> request_lease \<Rightarrow> worker \<Rightarrow> (thrown, unit) result \<times> worker"
where
  "processLease env w lease wk =
     (let (hb, st) = heartbeat_renewals env (wd_ticks w) (new_heartbeat lease, wk_execution wk)
      in case await_robots_delay env w lease (wk\<lparr>wk_execution := st\<rparr>) of
           (Inl caught, wk) \<Rightarrow>
             (case finishUnstartedLease env w lease caught (wk_execution wk) of
                (Inl e, st) \<Rightarrow>
                  lease_finally env w lease hb False (no_outcome OutCancelled) (Inl e) (wk\<lparr>wk_execution := st\<rparr>)
              | (Inr _, st) \<Rightarrow>
                  lease_finally env w lease hb False (no_outcome OutCancelled) (Inl caught)
                    (wk\<lparr>wk_execution := fail_from env caught st\<rparr>))
         | (Inr _, wk) \<Rightarrow>
             (case handle_request env (wd_handler w) lease (on_controller beginRequest (wk_execution wk)) of
                (Inl caught, st) \<Rightarrow>
                  lease_finally env w lease hb True (no_outcome OutCancelled) (Inl caught)
                    (wk\<lparr>wk_execution := fail_from env caught st\<rparr>)
              | (Inr outcome, st) \<Rightarrow>
                  lease_finally env w lease hb True outcome (Inr ()) (wk\<lparr>wk_execution := st\<rparr>)))"

section \<open>The loop of a worker\<close>

datatype worker_turn = TurnStopped | TurnFinished | TurnWait number | TurnLeased request_lease

text \<open>
  One turn of \<open>workerLoop\<close> up to the lease: the worker stops, ends because nothing is outstanding,
  waits, or has a lease to process.
\<close>

definition worker_turn ::
  "execution_env \<Rightarrow> 'p lease_selection \<Rightarrow> bool \<Rightarrow> 'p \<Rightarrow> execution
     \<Rightarrow> (thrown, worker_turn) result \<times> 'p \<times> execution"
where
  "worker_turn env sel append_ok p st =
     (let (more, rc) = shouldLeaseMore (xe_limits env) (of_int (xe_now env))
            (ex_controller st\<lparr>rc_counters := sx_counters (ex_scheduler st)\<rparr>);
          st = st\<lparr>ex_controller := rc\<rparr>
      in if \<not> more then (Inr TurnStopped, p, st)
         else case backend_leaseNext (xe_platform env) (sg_frontier (xe_config env)) (xe_now env) append_ok sel p
                     (sx_frontier (ex_scheduler st)) of
                (Inl e, jb, p) \<Rightarrow>
                  (Inl (ThrownFrontier e), p, st\<lparr>ex_scheduler := ex_scheduler st\<lparr>sx_frontier := jb\<rparr>\<rparr>)
              | (Inr (Some lease), jb, p) \<Rightarrow>
                  (Inr (TurnLeased lease), p, st\<lparr>ex_scheduler := ex_scheduler st\<lparr>sx_frontier := jb\<rparr>\<rparr>)
              | (Inr None, jb, p) \<Rightarrow>
                  (let st = st\<lparr>ex_scheduler := ex_scheduler st\<lparr>sx_frontier := jb\<rparr>\<rparr>
                   in (Inr (if backend_outstandingCount jb = 0 then TurnFinished
                            else TurnWait (case state_nextDeferredAt (jb_state jb) of
                                             None \<Rightarrow> 250
                                           | Some d \<Rightarrow> min (max 1 (of_int (d - xe_now env))) 250)), p, st)))"

end
