(* ===== verification/Worker_Properties.thy ===== *)
theory Worker_Properties
  imports Worker_Pool Handler_Properties Politeness_Properties Robots_Properties
begin

text \<open>
  What a worker promises for a lease: the controller's count of active requests and the slot of the
  origin are given back on every path, the lease ends, and how a renewal that comes after the end of
  the request fails the run.
\<close>

section \<open>The count of active requests\<close>

abbreviation active_of :: "execution \<Rightarrow> nat" where
  "active_of st \<equiv> rc_active (ex_controller st)"

lemma on_controller_active: "active_of (on_controller f st) = rc_active (f (ex_controller st\<lparr>rc_counters := sx_counters (ex_scheduler st)\<rparr>))"
  by (simp add: on_controller_def Let_def)

lemma fail_from_active [simp]: "active_of (fail_from env e st) = active_of st"
  by (simp add: fail_from_def on_controller_active failFromUnknown_def fail_run_def)

lemma heartbeat_renewal_active [simp]: "active_of (snd (heartbeat_renewal env tick s)) = active_of (snd s)"
  by (cases s) (auto simp: heartbeat_renewal_def on_counters_def split: sum.split)

lemma heartbeat_renewals_active [simp]: "active_of (snd (heartbeat_renewals env ticks s)) = active_of (snd s)"
  unfolding heartbeat_renewals_def by (induction ticks arbitrary: s) simp_all

lemma await_robots_delay_active [simp]:
  "active_of (wk_execution (snd (await_robots_delay env w lease wk))) = active_of (wk_execution wk)"
  by (auto simp: await_robots_delay_def Let_def split: prod.split sum.split option.split)

lemma finishUnstartedLease_active [simp]:
  "active_of (snd (finishUnstartedLease env w lease e st)) = active_of st"
  by (auto simp: finishUnstartedLease_def on_counters_def split: sum.split prod.split)

lemma lease_finally_active:
  "active_of (wk_execution (snd (lease_finally env w lease hb started outcome res wk))) =
     (if started then active_of (wk_execution wk) - 1 else active_of (wk_execution wk))"
proof -
  obtain hb' st' where ticks: "heartbeat_renewals env (wd_lateTicks w) (hb, wk_execution wk) = (hb', st')" by fastforce
  have "active_of st' = active_of (wk_execution wk)"
    using heartbeat_renewals_active [of env "wd_lateTicks w" "(hb, wk_execution wk)"] by (simp add: ticks)
  then show ?thesis
    by (simp add: lease_finally_def ticks Let_def on_controller_active finishRequest_def split: sum.split)
qed

section \<open>The slot of the origin\<close>

lemma await_robots_delay_held:
  "held_reservations (wk_slots (snd (await_robots_delay env w lease wk))) = held_reservations (wk_slots wk)"
proof -
  have "held_reservations (fst (applyRobotsDelay cfg now slots origin ms)) = held_reservations slots" for cfg now slots origin ms
    using held_slot [of origin "slot_of cfg now slots origin\<lparr>os_delayMs := a, os_nextAllowedAt := b\<rparr>" slots cfg now for a b]
    by (simp add: applyRobotsDelay_def Let_def)
  then show ?thesis
    by (auto simp: await_robots_delay_def Let_def split: prod.split sum.split) (metis fst_conv)+
qed

lemma politeness_release_held:
  assumes "wf_map slots" "origin \<in># held_reservations slots"
  shows "held_reservations (fst (politeness_release cfg now slots origin result)) = held_reservations slots - {#origin#}"
  using held_minus [OF assms, of _ cfg now] by (simp add: politeness_release_def release_slot_def Let_def)

lemma lease_finally_held:
  assumes "wf_map (wk_slots wk)" "lease_origin w lease \<in># held_reservations (wk_slots wk)"
  shows "held_reservations (wk_slots (snd (lease_finally env w lease hb started outcome res wk))) =
     held_reservations (wk_slots wk) - {#lease_origin w lease#}"
  using politeness_release_held [OF assms, of "wd_network w" "of_int (xe_now env)" outcome]
  by (simp add: lease_finally_def Let_def split: prod.split sum.split)

lemma await_robots_delay_wf:
  "wf_map (wk_slots wk) \<Longrightarrow> wf_map (wk_slots (snd (await_robots_delay env w lease wk)))"
  by (auto simp: await_robots_delay_def applyRobotsDelay_def Let_def split: prod.splits sum.splits if_splits)

section \<open>One lease\<close>

text \<open>
  Every path of \<open>processLease\<close> runs the \<open>finally\<close> once; when it does, the request is counted iff it was
  started, and the slots are those of the lease with, at most, a longer delay.
\<close>

lemma processLease_finally:
  "\<exists>hb started outcome res wk'. processLease env w lease wk = lease_finally env w lease hb started outcome res wk' \<and>
     active_of (wk_execution wk') = active_of (wk_execution wk) + (if started then 1 else 0) \<and>
     held_reservations (wk_slots wk') = held_reservations (wk_slots wk) \<and>
     (wf_map (wk_slots wk) \<longrightarrow> wf_map (wk_slots wk'))"
proof -
  obtain hb st where ticks: "heartbeat_renewals env (wd_ticks w) (new_heartbeat lease, wk_execution wk) = (hb, st)" by fastforce
  obtain out wk1 where await: "await_robots_delay env w lease (wk\<lparr>wk_execution := st\<rparr>) = (out, wk1)" by fastforce
  have a1: "active_of (wk_execution wk1) = active_of (wk_execution wk)"
    using await_robots_delay_active [of env w lease "wk\<lparr>wk_execution := st\<rparr>"]
      heartbeat_renewals_active [of env "wd_ticks w" "(new_heartbeat lease, wk_execution wk)"] by (simp add: await ticks)
  have h1: "held_reservations (wk_slots wk1) = held_reservations (wk_slots wk)"
    using await_robots_delay_held [of env w lease "wk\<lparr>wk_execution := st\<rparr>"] by (simp add: await)
  have w1: "wf_map (wk_slots wk) \<longrightarrow> wf_map (wk_slots wk1)"
    using await_robots_delay_wf [of "wk\<lparr>wk_execution := st\<rparr>" env w lease] by (simp add: await)
  show ?thesis
  proof (cases out)
    case (Inl caught)
    obtain out2 st2 where fin: "finishUnstartedLease env w lease caught (wk_execution wk1) = (out2, st2)" by fastforce
    have a2: "active_of st2 = active_of (wk_execution wk)"
      using finishUnstartedLease_active [of env w lease caught "wk_execution wk1"] by (simp add: fin a1)
    show ?thesis
      by (intro exI [of _ hb] exI [of _ False] exI [of _ "no_outcome OutCancelled"] exI [of _ "case out2 of Inl e \<Rightarrow> Inl e | Inr _ \<Rightarrow> Inl caught"]
          exI [of _ "case out2 of Inl e \<Rightarrow> wk1\<lparr>wk_execution := st2\<rparr> | Inr _ \<Rightarrow> wk1\<lparr>wk_execution := fail_from env caught st2\<rparr>"])
        (simp add: processLease_def ticks await Inl fin a2 h1 w1 split: sum.split)
  next
    case (Inr u)
    obtain out2 st2 where hr: "handle_request env (wd_handler w) lease (on_controller beginRequest (wk_execution wk1)) = (out2, st2)" by fastforce
    have a2: "active_of st2 = Suc (active_of (wk_execution wk))"
      using active_view.kept_handle_request [of env "wd_handler w" lease "on_controller beginRequest (wk_execution wk1)"]
      by (simp add: hr a1 on_controller_active beginRequest_def Let_def)
    show ?thesis
      by (intro exI [of _ hb] exI [of _ True] exI [of _ "case out2 of Inl e \<Rightarrow> no_outcome OutCancelled | Inr outcome \<Rightarrow> outcome"]
          exI [of _ "case out2 of Inl e \<Rightarrow> Inl e | Inr _ \<Rightarrow> Inr ()"]
          exI [of _ "case out2 of Inl e \<Rightarrow> wk1\<lparr>wk_execution := fail_from env e st2\<rparr> | Inr _ \<Rightarrow> wk1\<lparr>wk_execution := st2\<rparr>"])
        (simp add: processLease_def ticks await Inr hr a2 h1 w1 split: sum.split)
  qed
qed

text \<open>
  C16: A worker gives back what it took for a lease. However the robots delay, the handling of the
  request, the release of an unstarted lease and the heartbeat end, with a result or an error, the
  controller counts as many active requests afterwards as before, and the slot that the lease held
  at its origin is freed: the origins of the reservations held are those before less exactly this one.
\<close>

theorem processLease_balances:
  assumes "wf_map (wk_slots wk)" "lease_origin w lease \<in># held_reservations (wk_slots wk)"
  shows "active_of (wk_execution (snd (processLease env w lease wk))) = active_of (wk_execution wk) \<and>
     held_reservations (wk_slots (snd (processLease env w lease wk))) =
       held_reservations (wk_slots wk) - {#lease_origin w lease#}"
proof -
  from processLease_finally [of env w lease wk] obtain hb started outcome res wk' where
    run: "processLease env w lease wk = lease_finally env w lease hb started outcome res wk'"
      "active_of (wk_execution wk') = active_of (wk_execution wk) + (if started then 1 else 0)"
      "held_reservations (wk_slots wk') = held_reservations (wk_slots wk)"
      "wf_map (wk_slots wk) \<longrightarrow> wf_map (wk_slots wk')" by blast
  have "lease_origin w lease \<in># held_reservations (wk_slots wk')" "wf_map (wk_slots wk')"
    using assms run(3,4) by auto
  then show ?thesis using run(2,3) by (simp add: run(1) lease_finally_active lease_finally_held)
qed

section \<open>The end of the lease\<close>

text \<open>A heartbeat keeps the identity of its lease; only the expiry of \<open>hb_current\<close> changes.\<close>

definition beats_for :: "request_lease \<Rightarrow> heartbeat \<Rightarrow> bool" where
  "beats_for lease hb \<longleftrightarrow>
     ls_request (hb_current hb) = ls_request lease \<and> ls_leaseId (hb_current hb) = ls_leaseId lease"

lemma beats_for_new [simp]: "beats_for lease (new_heartbeat lease)"
  by (simp add: beats_for_def new_heartbeat_def)

lemma beats_for_active: "beats_for lease hb \<Longrightarrow> assertActive jb (hb_current hb) \<longleftrightarrow> assertActive jb lease"
  by (simp add: beats_for_def assertActive_def)

lemma fail_from_frontier [simp]: "frontier_of (fail_from env e st) = frontier_of st"
  by (simp add: fail_from_def on_controller_def Let_def)

lemma heartbeat_renewal_keeps:
  assumes "beats_for lease (fst s)" "may_finish env lease (frontier_of (snd s))"
  shows "beats_for lease (fst (heartbeat_renewal env tick s)) \<and>
     may_finish env lease (frontier_of (snd (heartbeat_renewal env tick s)))"
  using assms
  by (cases s) (auto simp: heartbeat_renewal_def may_finish_def lease_renew_def log_append_def bind_result_Inr
      beats_for_def assertActive_def on_counters_def Let_def split: sum.splits if_splits)

lemma heartbeat_renewals_keep:
  assumes "beats_for lease (fst s)" "may_finish env lease (frontier_of (snd s))"
  shows "beats_for lease (fst (heartbeat_renewals env ticks s)) \<and>
     may_finish env lease (frontier_of (snd (heartbeat_renewals env ticks s)))"
  using assms unfolding heartbeat_renewals_def
  by (induction ticks arbitrary: s) (simp_all add: heartbeat_renewal_keeps)

lemma heartbeat_renewal_stale:
  assumes "beats_for lease (fst s)" "\<not> assertActive (frontier_of (snd s)) lease"
  shows "beats_for lease (fst (heartbeat_renewal env tick s)) \<and>
     frontier_of (snd (heartbeat_renewal env tick s)) = frontier_of (snd s)"
  using assms
  by (cases s) (auto simp: heartbeat_renewal_def lease_renew_def beats_for_active beats_for_def)

lemma heartbeat_renewals_stale:
  assumes "beats_for lease (fst s)" "\<not> assertActive (frontier_of (snd s)) lease"
  shows "frontier_of (snd (heartbeat_renewals env ticks s)) = frontier_of (snd s)"
  using assms unfolding heartbeat_renewals_def
  by (induction ticks arbitrary: s) (simp_all add: heartbeat_renewal_stale)

lemma await_robots_delay_frontier [simp]:
  "frontier_of (wk_execution (snd (await_robots_delay env w lease wk))) = frontier_of (wk_execution wk)"
  by (auto simp: await_robots_delay_def Let_def on_controller_def split: prod.split sum.split option.split)

lemma lease_finally_frontier:
  assumes "beats_for lease hb" "\<not> assertActive (frontier_of (wk_execution wk)) lease"
  shows "frontier_of (wk_execution (snd (lease_finally env w lease hb started outcome res wk))) = frontier_of (wk_execution wk)"
proof -
  obtain hb' st' where ticks: "heartbeat_renewals env (wd_lateTicks w) (hb, wk_execution wk) = (hb', st')" by fastforce
  have "frontier_of st' = frontier_of (wk_execution wk)"
    using heartbeat_renewals_stale [of lease "(hb, wk_execution wk)" env "wd_lateTicks w"] assms by (simp add: ticks)
  then show ?thesis
    by (simp add: lease_finally_def ticks Let_def on_controller_def split: sum.split)
qed

text \<open>The frontier after a lease of the frontier \<open>jb\<close> has been finished, or released, once.\<close>

definition ended_once :: "execution_env \<Rightarrow> request_lease \<Rightarrow> journal_backend \<Rightarrow> journal_backend \<Rightarrow> bool" where
  "ended_once env lease jb jb' \<longleftrightarrow>
     (\<exists>state. finished_once env lease jb state jb') \<or>
     (\<exists>reason rec. backend_release (xe_platform env) (sg_frontier (xe_config env)) (xe_now env) True jb lease reason
        = Inr (rec, jb'))"

lemma ended_not_active:
  assumes "ended_once env lease jb jb'"
  shows "\<not> assertActive jb' lease"
  using assms unfolding ended_once_def
proof
  assume "\<exists>state. finished_once env lease jb state jb'"
  then show ?thesis using finished_not_active by blast
next
  assume "\<exists>reason rec. backend_release (xe_platform env) (sg_frontier (xe_config env)) (xe_now env) True jb lease reason
        = Inr (rec, jb')"
  then show ?thesis
    by (auto simp: backend_release_def lease_release_def bind_result_Inr assertActive_def split: if_splits)
qed

lemma finishUnstartedLease_ends:
  assumes "may_finish env lease (frontier_of st)" "wd_release_ok w"
  shows "ended_once env lease (frontier_of st) (frontier_of (snd (finishUnstartedLease env w lease caught st)))"
proof (cases "signal_aborted st")
  case True
  obtain out st' where fin: "finish_cancelled env lease (Some ''Run cancelled before request execution'') st = (out, st')" by fastforce
  have "finished_once env lease (frontier_of st) Cancelled (frontier_of st')"
    using finish_cancelled_ends [OF assms(1), of "Some ''Run cancelled before request execution''"] by (simp add: ends_in_def fin)
  then show ?thesis by (cases out) (auto simp: finishUnstartedLease_def True fin then_run_def ended_once_def)
next
  case False
  let ?reason = "Some (snd (cause_of caught))"
  obtain rec jb' where "backend_release (xe_platform env) (sg_frontier (xe_config env)) (xe_now env) True (frontier_of st) lease ?reason
      = Inr (rec, jb')"
    using assms by (auto simp: may_finish_def backend_release_def lease_release_def log_append_def)
  then show ?thesis using assms(2) by (auto simp: finishUnstartedLease_def False on_counters_def ended_once_def)
qed

text \<open>
  C15: A lease that a worker processes ends exactly once. When the lease is active and the journal
  accepts the record of its end, then whatever the robots service, the delay, user code, the client
  and the stores do, whenever the run is aborted and however the renewals of the heartbeat go, the
  worker leaves the frontier as the renewals before the end made it, with the lease ended by one
  terminal or released record and nothing else; a renewal after the end changes nothing in it.
\<close>

theorem processLease_ends_lease:
  assumes "assertActive (sx_frontier (ex_scheduler (wk_execution wk))) lease"
    and "jb_open (sx_frontier (ex_scheduler (wk_execution wk)))"
    and "\<forall>state. xe_journal_ok env state" "wd_release_ok w"
    and "heartbeat_renewals env (wd_ticks w) (new_heartbeat lease, wk_execution wk) = (hb, renewed)"
  shows "ended_once env lease (sx_frontier (ex_scheduler renewed))
     (sx_frontier (ex_scheduler (wk_execution (snd (processLease env w lease wk)))))"
proof -
  have "may_finish env lease (frontier_of (wk_execution wk))" using assms(1-3) by (simp add: may_finish_def)
  with heartbeat_renewals_keep [of lease "(new_heartbeat lease, wk_execution wk)" env "wd_ticks w"] assms(5)
  have hb: "beats_for lease hb" and fin: "may_finish env lease (frontier_of renewed)" by simp_all
  obtain out wk1 where await: "await_robots_delay env w lease (wk\<lparr>wk_execution := renewed\<rparr>) = (out, wk1)" by fastforce
  have f1: "frontier_of (wk_execution wk1) = frontier_of renewed"
    using await_robots_delay_frontier [of env w lease "wk\<lparr>wk_execution := renewed\<rparr>"] by (simp add: await)
  have ends: ?thesis
    if "processLease env w lease wk = lease_finally env w lease hb started outcome res wk'"
      and "ended_once env lease (frontier_of renewed) (frontier_of (wk_execution wk'))" for started outcome res wk'
    using that lease_finally_frontier [OF hb ended_not_active [OF that(2)], of env w started outcome res] by simp
  show ?thesis
  proof (cases out)
    case (Inl caught)
    obtain out2 st2 where unstarted: "finishUnstartedLease env w lease caught (wk_execution wk1) = (out2, st2)" by fastforce
    have ended: "ended_once env lease (frontier_of renewed) (frontier_of st2)"
      using finishUnstartedLease_ends [of env lease "wk_execution wk1" w caught] fin assms(4) by (simp add: f1 unstarted)
    show ?thesis by (cases out2; (rule ends, simp add: processLease_def assms(5) await Inl unstarted, simp add: ended))
  next
    case (Inr u)
    let ?begun = "on_controller beginRequest (wk_execution wk1)"
    obtain out2 st2 where handle: "handle_request env (wd_handler w) lease ?begun = (out2, st2)" by fastforce
    have "frontier_of ?begun = frontier_of renewed" by (simp add: on_controller_def Let_def f1)
    with handle_request_ends [of env lease ?begun "wd_handler w"] fin handle
    have ended: "ended_once env lease (frontier_of renewed) (frontier_of st2)" by (auto simp: ends_in_def ended_once_def)
    show ?thesis by (cases out2; (rule ends, simp add: processLease_def assms(5) await Inr handle, simp add: ended))
  qed
qed

section \<open>A renewal after the end of the request\<close>

lemma heartbeat_renewal_failed: "hb_failure (fst s) \<noteq> None \<Longrightarrow> hb_failure (fst (heartbeat_renewal env tick s)) \<noteq> None"
  by (cases s) (simp add: heartbeat_renewal_def)

lemma heartbeat_renewals_failed: "hb_failure (fst s) \<noteq> None \<Longrightarrow> hb_failure (fst (heartbeat_renewals env ticks s)) \<noteq> None"
  unfolding heartbeat_renewals_def
  by (induction ticks arbitrary: s) (simp_all add: heartbeat_renewal_failed del: not_None_eq)

lemma late_renewal_fails_heartbeat:
  assumes "beats_for lease (fst s)" "\<not> assertActive (frontier_of (snd s)) lease"
  shows "hb_failure (fst (heartbeat_renewals env (tick # ticks) s)) \<noteq> None"
proof -
  have "hb_failure (fst (heartbeat_renewal env tick s)) \<noteq> None"
    using assms by (cases s) (auto simp: heartbeat_renewal_def lease_renew_def beats_for_active)
  then show ?thesis
    using heartbeat_renewals_failed [of "heartbeat_renewal env tick s" env ticks] by (simp add: heartbeat_renewals_def)
qed

text \<open>
  A renewal that comes after the end of the request fails the run. When the lease is active, the
  robots delay passes and the handler returns an outcome, one tick of the heartbeat between this
  return and the stop of the heartbeat finds the lease stale: the worker returns normally, but the
  run is stopped with a fatal error although the request succeeded.
\<close>

theorem late_renewal_fails_run:
  assumes "assertActive (sx_frontier (ex_scheduler (wk_execution wk))) lease"
    and "jb_open (sx_frontier (ex_scheduler (wk_execution wk)))" "\<forall>state. xe_journal_ok env state"
    and "wd_ticks w = []" "wd_lateTicks w = tick # ticks"
    and "await_robots_delay env w lease wk = (Inr (), wk1)"
    and "handle_request env (wd_handler w) lease (on_controller beginRequest (wk_execution wk1)) = (Inr outcome, st)"
  shows "\<exists>e wk'. processLease env w lease wk = (Inr (), wk') \<and>
     rc_stop (ex_controller (wk_execution wk')) = Some (StopFatal e)"
proof -
  let ?begun = "on_controller beginRequest (wk_execution wk1)"
  have "frontier_of ?begun = frontier_of (wk_execution wk)"
    using await_robots_delay_frontier [of env w lease wk] by (simp add: assms(6) on_controller_def Let_def)
  then have "\<exists>state. ends_in env lease ?begun state (Inr outcome, st)"
    using handle_request_ends [of env lease ?begun "wd_handler w"] assms(1-3) by (simp add: may_finish_def assms(7))
  then have "\<not> assertActive (frontier_of st) lease" using finished_not_active by (auto simp: ends_in_def)
  with late_renewal_fails_heartbeat [of lease "(new_heartbeat lease, st)" env tick ticks]
  obtain hb e st' where late: "heartbeat_renewals env (tick # ticks) (new_heartbeat lease, st) = (hb, st')" "hb_failure hb = Some e"
    by (cases "heartbeat_renewals env (tick # ticks) (new_heartbeat lease, st)") auto
  have none: "heartbeat_renewals env [] s = s" for s by (simp add: heartbeat_renewals_def)
  show ?thesis
    using assms(4-7) late
    by (simp add: processLease_def none lease_finally_def Let_def heartbeat_stop_def fail_from_def on_controller_def
        failFromUnknown_def fail_run_def setStop_def)
qed

section \<open>A sample\<close>

definition sample_worker_world :: "string worker_world" where
  "sample_worker_world =
     \<lparr>wd_handler = sample_world, wd_network = sample_network, wd_parse = sample_parse,
      wd_robots = sample_robots_env\<lparr>re_config := (re_config sample_robots_env)\<lparr>rb_enabled := False\<rparr>\<rparr>,
      wd_loaded = 0, wd_abortedMeanwhile = None, wd_release_ok = True, wd_ticks = [], wd_lateTicks = [(3, True)]\<rparr>"

definition sample_worker :: worker where
  "sample_worker =
     \<lparr>wk_execution = sample_execution,
      wk_slots = [(''http://a'', (new_slot sample_network 0)\<lparr>os_active := 1\<rparr>)], wk_robots = []\<rparr>"

definition quiet_env :: execution_env where
  "quiet_env = sample_execution_env\<lparr>xe_onFailed := None\<rparr>"

lemma sample_worker_ready:
  "assertActive (sx_frontier (ex_scheduler (wk_execution sample_worker))) sample_lease"
  "jb_open (sx_frontier (ex_scheduler (wk_execution sample_worker)))"
  "\<forall>state. xe_journal_ok quiet_env state" "wd_release_ok sample_worker_world"
  "wd_ticks sample_worker_world = []" "wd_lateTicks sample_worker_world = [(3, True)]"
  using sample_execution_ready by (simp_all add: sample_worker_def quiet_env_def sample_execution_env_def sample_worker_world_def)

theorem processLease_balances_witness:
  "active_of (wk_execution (snd (processLease quiet_env sample_worker_world sample_lease sample_worker))) =
     active_of (wk_execution sample_worker) \<and>
   held_reservations (wk_slots (snd (processLease quiet_env sample_worker_world sample_lease sample_worker))) = {#}"
proof -
  have "lease_origin sample_worker_world sample_lease = ''http://a''" by code_simp
  then show ?thesis
    using processLease_balances [of sample_worker sample_worker_world sample_lease quiet_env]
    by (simp add: sample_worker_def held_reservations_def)
qed

theorem processLease_ends_lease_witness:
  "ended_once quiet_env sample_lease sample_granted
     (frontier_of (wk_execution (snd (processLease quiet_env sample_worker_world sample_lease sample_worker))))"
proof -
  have ticks: "heartbeat_renewals quiet_env (wd_ticks sample_worker_world) (new_heartbeat sample_lease, wk_execution sample_worker) =
      (new_heartbeat sample_lease, sample_execution)"
    by (simp add: heartbeat_renewals_def sample_worker_world_def sample_worker_def)
  show ?thesis
    using processLease_ends_lease [OF sample_worker_ready(1-4) ticks] by (simp add: sample_execution_def)
qed

theorem late_renewal_fails_run_witness:
  "\<exists>e wk. processLease quiet_env sample_worker_world sample_lease sample_worker = (Inr (), wk) \<and>
     rc_stop (ex_controller (wk_execution wk)) = Some (StopFatal e)"
proof -
  let ?wait = "await_robots_delay quiet_env sample_worker_world sample_lease sample_worker"
  let ?run = "handle_request quiet_env (wd_handler sample_worker_world) sample_lease
      (on_controller beginRequest (wk_execution (snd ?wait)))"
  have wait: "?wait = (Inr (), snd ?wait)" by code_simp
  have "case fst ?run of Inl _ \<Rightarrow> False | Inr _ \<Rightarrow> True" by code_simp
  then have run: "?run = (Inr (projr (fst ?run)), snd ?run)" by (cases "fst ?run") (simp_all add: prod_eq_iff)
  show ?thesis
    by (rule late_renewal_fails_run [OF sample_worker_ready(1-3,5,6) wait run])
qed

end
