(* ===== verification/Sql_Table.thy ===== *)
theory Sql_Table
  imports Prelude
begin

text \<open>
  The SQL that the program runs, on tables as lists of rows in the order of their \<open>rowid\<close>. The
  statements of the program delete rows of the frontier never and give an inserted row the largest
  \<open>rowid\<close>, so an insertion appends. A statement is atomic and does not fail for reasons outside the
  program (a full disk, a locked database). \<open>changes\<close> is the number of rows a statement matched.
\<close>

definition update_where :: "('r \<Rightarrow> bool) \<Rightarrow> ('r \<Rightarrow> 'r) \<Rightarrow> 'r list \<Rightarrow> nat \<times> 'r list" where
  "update_where P f t = (length (filter P t), map (\<lambda>r. if P r then f r else r) t)"

definition delete_where :: "('r \<Rightarrow> bool) \<Rightarrow> 'r list \<Rightarrow> 'r list" where
  "delete_where P t = filter (\<lambda>r. \<not> P r) t"

definition select_count :: "('r \<Rightarrow> bool) \<Rightarrow> 'r list \<Rightarrow> nat" where
  "select_count P t = length (filter P t)"

text \<open>\<open>INSERT OR IGNORE\<close>: a row that clashes with a unique column is not inserted.\<close>

definition insert_or_ignore :: "('r \<Rightarrow> 'r \<Rightarrow> bool) \<Rightarrow> 'r \<Rightarrow> 'r list \<Rightarrow> nat \<times> 'r list" where
  "insert_or_ignore clash r t = (if \<exists>q \<in> set t. clash r q then (0, t) else (1, t @ [r]))"

text \<open>\<open>INSERT ... ON CONFLICT(key) DO UPDATE\<close>.\<close>

definition upsert :: "('r \<Rightarrow> 'k) \<Rightarrow> ('r \<Rightarrow> 'r) \<Rightarrow> 'r \<Rightarrow> 'r list \<Rightarrow> 'r list" where
  "upsert key f r t =
     (if key r \<in> key ` set t then map (\<lambda>q. if key q = key r then f q else q) t else t @ [r])"

section \<open>Rows with a key\<close>

lemma filter_key_unique:
  assumes "distinct (map key t)" "r \<in> set t"
  shows "filter (\<lambda>q. key q = key r) t = [r]"
  using assms
proof (induction t)
  case (Cons q t)
  show ?case
  proof (cases "q = r")
    case True
    then have "filter (\<lambda>q. key q = key r) t = []"
      using Cons.prems(1) by (auto simp: filter_empty_conv image_iff)
    then show ?thesis using True by simp
  next
    case False
    then have "r \<in> set t" "key q \<noteq> key r" using Cons.prems by auto
    then show ?thesis using Cons by simp
  qed
qed simp

lemma length_filter_key:
  assumes "distinct (map key t)"
  shows "length (filter (\<lambda>q. key q = k \<and> P q) t) \<le> 1"
  using assms
proof (induction t)
  case (Cons q t)
  show ?case
  proof (cases "key q = k")
    case True
    then have "filter (\<lambda>q. key q = k \<and> P q) t = []"
      using Cons.prems by (auto simp: filter_empty_conv image_iff)
    then show ?thesis by simp
  next
    case False
    then show ?thesis using Cons by simp
  qed
qed simp

lemma update_one:
  assumes "distinct (map key t)" "r \<in> set t" "P r"
  shows "fst (update_where (\<lambda>q. key q = key r \<and> P q) f t) = 1"
proof -
  have "filter (\<lambda>q. key q = key r \<and> P q) t = filter P (filter (\<lambda>q. key q = key r) t)"
    by (simp add: conj_commute)
  then show ?thesis using assms(3) by (simp add: update_where_def filter_key_unique [OF assms(1,2)])
qed

lemma update_none:
  "fst (update_where P f t) = 0 \<longleftrightarrow> (\<forall>r \<in> set t. \<not> P r)"
  by (auto simp: update_where_def filter_empty_conv)

lemma update_none_same:
  "fst (update_where P f t) = 0 \<Longrightarrow> snd (update_where P f t) = t"
  unfolding update_none by (simp add: update_where_def map_idI)

lemma update_changes_le:
  "distinct (map key t) \<Longrightarrow> fst (update_where (\<lambda>q. key q = k \<and> P q) f t) \<le> 1"
  unfolding update_where_def fst_conv by (rule length_filter_key)

lemma update_keeps:
  "(\<And>r. P r \<Longrightarrow> g (f r) = g r) \<Longrightarrow> map g (snd (update_where P f t)) = map g t"
  by (simp add: update_where_def)

lemma set_update_where:
  "set (snd (update_where P f t)) = (\<lambda>r. if P r then f r else r) ` set t"
  by (simp add: update_where_def)

lemma count_map_update:
  assumes "distinct (map key t)" "r \<in> set t" "P r" "\<not> C (f r)" "C r"
  shows "select_count C (snd (update_where (\<lambda>q. key q = key r \<and> P q) f t)) = select_count C t - 1"
  using assms
proof (induction t)
  case (Cons q t)
  show ?case
  proof (cases "q = r")
    case True
    have "snd (update_where (\<lambda>q. key q = key r \<and> P q) f t) = t"
      by (rule update_none_same) (use Cons.prems(1) True in \<open>auto simp: update_none image_iff\<close>)
    then show ?thesis using True Cons.prems by (simp add: update_where_def select_count_def)
  next
    case False
    then have r: "r \<in> set t" "key q \<noteq> key r" using Cons.prems by (auto simp: image_iff)
    then have "select_count C (snd (update_where (\<lambda>q. key q = key r \<and> P q) f t)) = select_count C t - 1"
      using Cons by simp
    moreover have "select_count C t > 0"
      using r(1) Cons.prems(5) by (auto simp: select_count_def filter_empty_conv)
    ultimately show ?thesis using r(2) by (simp add: update_where_def select_count_def Suc_diff_le)
  qed
qed simp

end
