(* ===== verification/Sqlite_Frontier.thy ===== *)
theory Sqlite_Frontier
  imports Sql_Table Frontier_Backend
begin

text \<open>
  The frontier in an SQLite database: the table and its statements
  (\<open>frontier/backends/sqlite-request-repository.ts\<close>, \<open>sqlite-lease-repository.ts\<close>,
  \<open>sqlite-schema.ts\<close>), the enqueuer (\<open>sqlite-enqueuer.ts\<close>) and the backend
  (\<open>sqlite-backend.ts\<close>) once it is initialised.

  The column \<open>request_json\<close> is the request itself: the text written is the one the parser reads
  back (the round trip of \<open>Record_Codec\<close>). The methods are synchronous, so an operation is one step;
  \<open>now\<close> is the clock during it.
\<close>

section \<open>The table\<close>

record frontier_row =
  fq_id :: string
  fq_uniqueKey :: string
  fq_request :: crawl_request
  fq_state :: request_state
  fq_priority :: number
  fq_depth :: number
  fq_origin :: string
  fq_seedUrl :: string
  fq_createdAt :: timestamp
  fq_updatedAt :: timestamp
  fq_availableAt :: timestamp
  fq_leaseId :: "string option"
  fq_leaseExpiresAt :: "timestamp option"
  fq_reason :: "string option"

type_synonym frontier_table = "frontier_row list"

datatype sqlite_error = EnqueueConflict | InvalidRequestUrl string | StaleSqliteLease string

section \<open>The request repository\<close>

definition is_outstanding :: "frontier_row \<Rightarrow> bool" where
  "is_outstanding r \<longleftrightarrow> fq_state r = Pending \<or> fq_state r = InProgress"

definition sq_outstandingCount :: "frontier_table \<Rightarrow> nat" where
  "sq_outstandingCount t = select_count is_outstanding t"

definition sq_pendingCount :: "frontier_table \<Rightarrow> nat" where
  "sq_pendingCount t = select_count (\<lambda>r. fq_state r = Pending) t"

definition sq_requestForKey :: "frontier_table \<Rightarrow> string \<Rightarrow> crawl_request option" where
  "sq_requestForKey t k = map_option fq_request (List.find (\<lambda>r. fq_uniqueKey r = k) t)"

text \<open>\<open>GROUP BY seed_url ORDER BY seed_url\<close>.\<close>

definition sq_seedCounts :: "frontier_table \<Rightarrow> (string \<times> nat) list" where
  "sq_seedCounts t =
     map (\<lambda>s. (s, select_count (\<lambda>r. fq_seedUrl r = s) t)) (sort (remdups (map fq_seedUrl t)))"

definition sq_requests :: "frontier_table \<Rightarrow> crawl_request list" where
  "sq_requests t = map fq_request t"

definition lease_expired :: "timestamp \<Rightarrow> frontier_row \<Rightarrow> bool" where
  "lease_expired now r \<longleftrightarrow>
     fq_state r = InProgress \<and> (case fq_leaseExpiresAt r of None \<Rightarrow> False | Some e \<Rightarrow> e \<le> now)"

definition back_to_pending :: "timestamp \<Rightarrow> frontier_row \<Rightarrow> frontier_row" where
  "back_to_pending now r =
     r\<lparr>fq_state := Pending, fq_leaseId := None, fq_leaseExpiresAt := None, fq_availableAt := now,
       fq_updatedAt := now\<rparr>"

definition sq_recoverExpired :: "timestamp \<Rightarrow> frontier_table \<Rightarrow> nat \<times> frontier_table" where
  "sq_recoverExpired now t = update_where (lease_expired now) (back_to_pending now) t"

definition sq_recover :: "timestamp \<Rightarrow> frontier_table \<Rightarrow> frontier_snapshot \<times> frontier_table" where
  "sq_recover now t =
     (let deferred = select_count (\<lambda>r. fq_state r = InProgress \<and>
                       (case fq_leaseExpiresAt r of None \<Rightarrow> False | Some e \<Rightarrow> e > now)) t;
          (recovered, t) = sq_recoverExpired now t
      in (\<lparr>fs_resumedRequests = select_count is_outstanding t, fs_recoveredLeases = recovered,
           fs_deferredLeases = deferred\<rparr>, t))"

definition row_of :: "crawl_request \<Rightarrow> string \<Rightarrow> frontier_row" where
  "row_of request origin =
     \<lparr>fq_id = rq_id request, fq_uniqueKey = rq_uniqueKey request, fq_request = request,
      fq_state = Pending, fq_priority = rq_priority request, fq_depth = rq_depth request,
      fq_origin = origin, fq_seedUrl = rq_seedUrl request, fq_createdAt = rq_createdAt request,
      fq_updatedAt = rq_updatedAt request, fq_availableAt = 0, fq_leaseId = None,
      fq_leaseExpiresAt = None, fq_reason = None\<rparr>"

definition same_request :: "frontier_row \<Rightarrow> frontier_row \<Rightarrow> bool" where
  "same_request r q \<longleftrightarrow> fq_id q = fq_id r \<or> fq_uniqueKey q = fq_uniqueKey r"

definition sq_insert ::
  "platform \<Rightarrow> crawl_request \<Rightarrow> frontier_table \<Rightarrow> (sqlite_error, bool \<times> frontier_table) result"
where
  "sq_insert pf request t =
     (case pf_parse pf (rq_normalizedUrl request) None of
        None \<Rightarrow> Inl (InvalidRequestUrl (rq_normalizedUrl request))
      | Some u \<Rightarrow>
          (let (n, t) = insert_or_ignore same_request (row_of request (url_origin u)) t
           in Inr (n = 1, t)))"

text \<open>\<open>requestOrderSql\<close>: \<open>ORDER BY priority DESC, depth ASC, rowid ASC\<close>, or by \<open>rowid\<close>.\<close>

definition requestOrder :: "frontier_order \<Rightarrow> frontier_row list \<Rightarrow> frontier_row list" where
  "requestOrder ord t =
     (case ord of
        OrderPriority \<Rightarrow> sort_key (\<lambda>r. (- fq_priority r, fq_depth r)) t
      | OrderBfs \<Rightarrow> t
      | OrderDfs \<Rightarrow> rev t)"

definition ready_rows :: "timestamp \<Rightarrow> frontier_table \<Rightarrow> frontier_row list" where
  "ready_rows now t = filter (\<lambda>r. fq_state r = Pending \<and> fq_availableAt r \<le> now) t"

definition firstReadyCandidate :: "timestamp \<Rightarrow> frontier_order \<Rightarrow> frontier_table \<Rightarrow> crawl_request option" where
  "firstReadyCandidate now ord t =
     (case requestOrder ord (ready_rows now t) of [] \<Rightarrow> None | r # _ \<Rightarrow> Some (fq_request r))"

text \<open>
  The rows whose \<open>ROW_NUMBER() OVER (PARTITION BY origin ORDER BY ...)\<close> is 1, in the order of the
  list: those with no earlier row of their origin.
\<close>

fun first_of_origins :: "frontier_row list \<Rightarrow> frontier_row list" where
  "first_of_origins [] = []"
| "first_of_origins (r # rs) = r # filter (\<lambda>q. fq_origin q \<noteq> fq_origin r) (first_of_origins rs)"

definition readyCandidates :: "timestamp \<Rightarrow> nat \<Rightarrow> frontier_order \<Rightarrow> frontier_table \<Rightarrow> crawl_request list" where
  "readyCandidates now limit ord t =
     map fq_request (take limit (first_of_origins (requestOrder ord (ready_rows now t))))"

section \<open>The lease repository\<close>

definition sq_claim :: "timestamp \<Rightarrow> request_lease \<Rightarrow> frontier_table \<Rightarrow> bool \<times> frontier_table" where
  "sq_claim now lease t =
     (let (n, t) = update_where (\<lambda>r. fq_id r = rq_id (ls_request lease) \<and> fq_state r = Pending)
                     (\<lambda>r. r\<lparr>fq_state := InProgress, fq_leaseId := Some (ls_leaseId lease),
                            fq_leaseExpiresAt := Some (ls_expiresAt lease), fq_updatedAt := now\<rparr>) t
      in (n = 1, t))"

definition holds_lease :: "request_lease \<Rightarrow> frontier_row \<Rightarrow> bool" where
  "holds_lease lease r \<longleftrightarrow> fq_state r = InProgress \<and> fq_leaseId r = Some (ls_leaseId lease)"

definition sq_renew ::
  "timestamp \<Rightarrow> request_lease \<Rightarrow> timestamp \<Rightarrow> frontier_table \<Rightarrow> (sqlite_error, frontier_table) result"
where
  "sq_renew now lease expiresAt t =
     (let (n, t) = update_where (\<lambda>r. fq_id r = rq_id (ls_request lease) \<and> holds_lease lease r)
                     (\<lambda>r. r\<lparr>fq_leaseExpiresAt := Some expiresAt, fq_updatedAt := now\<rparr>) t
      in if n \<noteq> 1 then Inl (StaleSqliteLease (rq_id (ls_request lease))) else Inr t)"

definition sq_transition ::
  "timestamp \<Rightarrow> request_lease \<Rightarrow> request_state \<Rightarrow> string option \<Rightarrow> frontier_table
     \<Rightarrow> (sqlite_error, frontier_table) result"
where
  "sq_transition now lease state reason t =
     (let availableAt = (if state = Pending then now else 0);
          (n, t) = update_where (\<lambda>r. fq_id r = rq_id (ls_request lease) \<and> holds_lease lease r)
                     (\<lambda>r. r\<lparr>fq_state := state, fq_reason := reason, fq_leaseId := None,
                            fq_leaseExpiresAt := None, fq_availableAt := availableAt, fq_updatedAt := now\<rparr>) t
      in if n \<noteq> 1 then Inl (StaleSqliteLease (rq_id (ls_request lease))) else Inr t)"

text \<open>\<open>MIN(lease_expires_at)\<close> ignores nulls and is null for no value.\<close>

definition sq_nextDeferredAt :: "frontier_table \<Rightarrow> timestamp option" where
  "sq_nextDeferredAt t =
     (case List.map_filter fq_leaseExpiresAt (filter (\<lambda>r. fq_state r = InProgress) t) of
        [] \<Rightarrow> None
      | e # es \<Rightarrow> Some (foldl min e es))"

section \<open>The enqueuer\<close>

definition sq_rejectByLimits ::
  "platform \<Rightarrow> frontier_config \<Rightarrow> timestamp \<Rightarrow> enqueue_input \<Rightarrow> nat \<Rightarrow> enqueue_result option"
where
  "sq_rejectByLimits pf cfg now input pendingCount =
     (if ei_depth input > fc_maxDepth cfg
      then Some (factory_skipped pf cfg now input MAX_DEPTH_EXCEEDED ''maxDepth'' ''Maximum depth exceeded'')
      else if pendingCount \<ge> fc_maxQueueSize cfg
      then Some (factory_skipped pf cfg now input MAX_QUEUE_SIZE_EXCEEDED ''maxQueueSize''
                   ''Maximum queue size exceeded'')
      else None)"

text \<open>The counter of \<open>QueueCapacity\<close> is passed in and returned.\<close>

definition enqueueWithCapacity ::
  "platform \<Rightarrow> frontier_config \<Rightarrow> timestamp \<Rightarrow> enqueue_input \<Rightarrow> nat \<Rightarrow> frontier_table
     \<Rightarrow> (sqlite_error, enqueue_result \<times> nat \<times> frontier_table) result"
where
  "enqueueWithCapacity pf cfg now input pending t =
     (case normalizeUrl (pf_parse pf) (ei_rawUrl input) (ei_referrerUrl input) of
        Inl err \<Rightarrow> Inr (factory_skipped pf cfg now input INVALID_URL ''url'' err, pending, t)
      | Inr n \<Rightarrow>
          let uniqueKey = unique_key n;
              existing = sq_requestForKey t uniqueKey;
              discovery = factory_discovery cfg now input uniqueKey (map_option rq_id existing)
                            (Some (nu_resolvedUrl n)) (Some (nu_normalizedUrl n)) (existing = None)
          in case existing of
               Some e \<Rightarrow> Inr (duplicateEnqueueResult e discovery, pending, t)
             | None \<Rightarrow>
                 (case sq_rejectByLimits pf cfg now input pending of
                    Some rejected \<Rightarrow> Inr (rejected, pending, t)
                  | None \<Rightarrow>
                      let request = factory_create pf cfg now input uniqueKey (nu_resolvedUrl n)
                                      (nu_normalizedUrl n)
                      in bind_result (sq_insert pf request t) (\<lambda>(inserted, t).
                           if \<not> inserted
                           then (case sq_requestForKey t uniqueKey of
                                   None \<Rightarrow> Inl EnqueueConflict
                                 | Some concurrent \<Rightarrow>
                                     Inr (duplicateEnqueueResult concurrent
                                            (discovery\<lparr>dr_requestId := Some (rq_id concurrent), dr_firstSeen := False\<rparr>),
                                          pending, t))
                           else Inr (\<lparr>er_decision = \<lparr>ed_status = Enqueued, ed_reason = None,
                                                     ed_requestId = Some (rq_id request)\<rparr>,
                                      er_request = Some request, er_skipped = None,
                                      er_discovery = Some (discovery\<lparr>dr_requestId := Some (rq_id request)\<rparr>),
                                      er_state = Some (createStateRecord (fc_runId cfg) now request Pending None)\<rparr>,
                                     pending + 1, t))))"

definition sq_enqueue ::
  "platform \<Rightarrow> frontier_config \<Rightarrow> timestamp \<Rightarrow> enqueue_input \<Rightarrow> frontier_table
     \<Rightarrow> (sqlite_error, enqueue_result) result \<times> frontier_table"
where
  "sq_enqueue pf cfg now input t =
     (case enqueueWithCapacity pf cfg now input (sq_pendingCount t) t of
        Inl e \<Rightarrow> (Inl e, t)
      | Inr (r, _, t') \<Rightarrow> (Inr r, t'))"

fun enqueue_all ::
  "platform \<Rightarrow> frontier_config \<Rightarrow> timestamp \<Rightarrow> enqueue_input list \<Rightarrow> nat \<Rightarrow> frontier_table
     \<Rightarrow> (sqlite_error, enqueue_result list \<times> frontier_table) result"
where
  "enqueue_all pf cfg now [] pending t = Inr ([], t)"
| "enqueue_all pf cfg now (x # xs) pending t =
     bind_result (enqueueWithCapacity pf cfg now x pending t) (\<lambda>(r, pending, t).
       bind_result (enqueue_all pf cfg now xs pending t) (\<lambda>(rs, t). Inr (r # rs, t)))"

text \<open>The transaction: an error rolls everything back.\<close>

definition sq_enqueueMany ::
  "platform \<Rightarrow> frontier_config \<Rightarrow> timestamp \<Rightarrow> enqueue_input list \<Rightarrow> frontier_table
     \<Rightarrow> (sqlite_error, enqueue_result list) result \<times> frontier_table"
where
  "sq_enqueueMany pf cfg now xs t =
     (case enqueue_all pf cfg now xs (sq_pendingCount t) t of
        Inl e \<Rightarrow> (Inl e, t)
      | Inr (rs, t') \<Rightarrow> (Inr rs, t'))"

section \<open>The backend\<close>

definition sq_createLease :: "platform \<Rightarrow> frontier_config \<Rightarrow> timestamp \<Rightarrow> crawl_request \<Rightarrow> request_lease" where
  "sq_createLease pf cfg now request =
     \<lparr>ls_leaseId = makeId pf ''lease'' (rq_id request @ '':'' @ pf_iso pf now),
      ls_request = request, ls_leasedAt = now, ls_expiresAt = now + fc_leaseDurationMs cfg\<rparr>"

definition sq_claim_request ::
  "platform \<Rightarrow> frontier_config \<Rightarrow> timestamp \<Rightarrow> 'p lease_selection \<Rightarrow> crawl_request \<Rightarrow> 'p \<Rightarrow> frontier_table
     \<Rightarrow> request_lease option \<times> 'p \<times> frontier_table"
where
  "sq_claim_request pf cfg now sel request p t =
     (case sel_tryReserve sel p request of
        (False, p) \<Rightarrow> (None, p, t)
      | (True, p) \<Rightarrow>
          (let lease = sq_createLease pf cfg now request
           in case sq_claim now lease t of
                (True, t) \<Rightarrow> (Some lease, p, t)
              | (False, t) \<Rightarrow> (None, sel_releaseReservation sel p request, t)))"

fun claim_candidates ::
  "platform \<Rightarrow> frontier_config \<Rightarrow> timestamp \<Rightarrow> 'p lease_selection \<Rightarrow> string option \<Rightarrow> crawl_request list
     \<Rightarrow> 'p \<Rightarrow> frontier_table \<Rightarrow> request_lease option \<times> 'p \<times> frontier_table"
where
  "claim_candidates pf cfg now sel first [] p t = (None, p, t)"
| "claim_candidates pf cfg now sel first (request # rest) p t =
     (if Some (rq_id request) = first then claim_candidates pf cfg now sel first rest p t
      else case sq_claim_request pf cfg now sel request p t of
             (Some lease, p, t) \<Rightarrow> (Some lease, p, t)
           | (None, p, t) \<Rightarrow> claim_candidates pf cfg now sel first rest p t)"

definition sq_leaseNext ::
  "platform \<Rightarrow> frontier_config \<Rightarrow> timestamp \<Rightarrow> 'p lease_selection \<Rightarrow> 'p \<Rightarrow> frontier_table
     \<Rightarrow> request_lease option \<times> 'p \<times> frontier_table"
where
  "sq_leaseNext pf cfg now sel p t =
     (let t = snd (sq_recoverExpired now t);
          first = firstReadyCandidate now (fc_order cfg) t
      in case (case first of None \<Rightarrow> (None, p, t) | Some r \<Rightarrow> sq_claim_request pf cfg now sel r p t) of
           (Some lease, p, t) \<Rightarrow> (Some lease, p, t)
         | (None, p, t) \<Rightarrow>
             claim_candidates pf cfg now sel (map_option rq_id first)
               (readyCandidates now 128 (fc_order cfg) t) p t)"

definition sq_renewLease ::
  "frontier_config \<Rightarrow> timestamp \<Rightarrow> request_lease \<Rightarrow> frontier_table
     \<Rightarrow> (sqlite_error, request_lease \<times> frontier_table) result"
where
  "sq_renewLease cfg now lease t =
     (let renewed = lease\<lparr>ls_expiresAt := now + fc_leaseDurationMs cfg\<rparr>
      in bind_result (sq_renew now lease (ls_expiresAt renewed) t) (\<lambda>t. Inr (renewed, t)))"

definition sq_finish ::
  "frontier_config \<Rightarrow> timestamp \<Rightarrow> request_lease \<Rightarrow> request_state \<Rightarrow> string option \<Rightarrow> frontier_table
     \<Rightarrow> (sqlite_error, request_state_record \<times> frontier_table) result"
where
  "sq_finish cfg now lease state reason t =
     bind_result (sq_transition now lease state reason t)
       (\<lambda>t. Inr (createStateRecord (fc_runId cfg) now (ls_request lease) state reason, t))"

end
