(* ===== verification/Sqlite_Properties.thy ===== *)
theory Sqlite_Properties
  imports Sqlite_Frontier Politeness_Properties
begin

text \<open>
  What the SQLite frontier promises: it answers enqueues as the journal frontier does, it leases the
  first admitted request of its order, no request is lost or comes back from its end, and a frontier
  whose requests are ready is drained.
\<close>

section \<open>The invariant of the table\<close>

definition origin_in :: "platform \<Rightarrow> crawl_request \<Rightarrow> string" where
  "origin_in pf request =
     (case pf_parse pf (rq_normalizedUrl request) None of None \<Rightarrow> [] | Some u \<Rightarrow> url_origin u)"

definition row_ok :: "platform \<Rightarrow> frontier_row \<Rightarrow> bool" where
  "row_ok pf r \<longleftrightarrow>
     fq_id r = rq_id (fq_request r) \<and> fq_uniqueKey r = rq_uniqueKey (fq_request r) \<and>
     fq_priority r = rq_priority (fq_request r) \<and> fq_depth r = rq_depth (fq_request r) \<and>
     fq_seedUrl r = rq_seedUrl (fq_request r) \<and> fq_origin r = origin_in pf (fq_request r) \<and>
     fq_state r \<noteq> Retrying \<and>
     (fq_state r = InProgress \<longleftrightarrow> fq_leaseId r \<noteq> None) \<and>
     (fq_state r = InProgress \<longleftrightarrow> fq_leaseExpiresAt r \<noteq> None)"

definition table_ok :: "platform \<Rightarrow> frontier_table \<Rightarrow> bool" where
  "table_ok pf t \<longleftrightarrow> distinct (map fq_id t) \<and> distinct (map fq_uniqueKey t) \<and> (\<forall>r \<in> set t. row_ok pf r)"

lemma table_ok_Nil [simp]: "table_ok pf []"
  by (simp add: table_ok_def)

lemma table_ok_update:
  assumes "table_ok pf t" "\<And>r. fq_id (f r) = fq_id r" "\<And>r. fq_uniqueKey (f r) = fq_uniqueKey r"
    and "\<And>r. row_ok pf r \<Longrightarrow> P r \<Longrightarrow> row_ok pf (f r)"
  shows "table_ok pf (snd (update_where P f t))"
  using assms
  by (auto simp: table_ok_def update_keeps set_update_where)

lemma requests_update [simp]:
  "(\<And>r. fq_request (f r) = fq_request r) \<Longrightarrow> map fq_request (snd (update_where P f t)) = map fq_request t"
  by (rule update_keeps)

section \<open>Preservation, one lemma per statement\<close>

text \<open>
  A statement keeps the table well-formed, keeps or appends requests, and leaves the rows of ended
  requests as they are.
\<close>

definition is_ended :: "frontier_row \<Rightarrow> bool" where
  "is_ended r \<longleftrightarrow> \<not> is_outstanding r"

definition evolves :: "platform \<Rightarrow> frontier_table \<Rightarrow> frontier_table \<Rightarrow> bool" where
  "evolves pf t t' \<longleftrightarrow>
     (table_ok pf t \<longrightarrow> table_ok pf t') \<and> (\<exists>new. map fq_request t' = map fq_request t @ new) \<and>
     (\<forall>r \<in> set t. is_ended r \<longrightarrow> r \<in> set t')"

lemma evolves_refl [simp]: "evolves pf t t"
  by (simp add: evolves_def)

lemma evolves_trans:
  assumes "evolves pf t u" "evolves pf u v"
  shows "evolves pf t v"
  using assms unfolding evolves_def by (metis append.assoc)

lemma evolves_update:
  assumes "\<And>r. fq_id (f r) = fq_id r" "\<And>r. fq_uniqueKey (f r) = fq_uniqueKey r"
    and "\<And>r. fq_request (f r) = fq_request r" "\<And>r. row_ok pf r \<Longrightarrow> P r \<Longrightarrow> row_ok pf (f r)"
    and "\<And>r. P r \<Longrightarrow> is_outstanding r"
  shows "evolves pf t (snd (update_where P f t))"
  using assms table_ok_update [of pf t f P]
  by (auto simp: evolves_def set_update_where is_ended_def)

lemma evolves_recoverExpired: "evolves pf t (snd (sq_recoverExpired now t))"
  unfolding sq_recoverExpired_def
  by (rule evolves_update) (auto simp: back_to_pending_def row_ok_def lease_expired_def is_outstanding_def)

lemma evolves_claim: "evolves pf t (snd (sq_claim now lease t))"
  unfolding sq_claim_def Let_def prod.case_eq_if snd_conv
  by (rule evolves_update) (auto simp: row_ok_def is_outstanding_def)

lemma evolves_renew: "sq_renew now lease e t = Inr t' \<Longrightarrow> evolves pf t t'"
  unfolding sq_renew_def Let_def prod.case_eq_if
  by (auto split: if_splits intro!: evolves_update simp: row_ok_def is_outstanding_def holds_lease_def)

lemma evolves_transition:
  assumes "sq_transition now lease state reason t = Inr t'" "state \<noteq> InProgress" "state \<noteq> Retrying"
  shows "evolves pf t t'"
  using assms unfolding sq_transition_def Let_def prod.case_eq_if
  by (auto split: if_splits intro!: evolves_update simp: row_ok_def is_outstanding_def holds_lease_def)

lemma evolves_insert:
  assumes "sq_insert pf request t = Inr (b, t')"
  shows "evolves pf t t'"
proof (cases "\<exists>q \<in> set t. same_request (row_of request (origin_in pf request)) q")
  case True
  with assms have "t' = t"
    by (auto simp: sq_insert_def insert_or_ignore_def origin_in_def split: option.splits)
  then show ?thesis by simp
next
  case False
  with assms have t': "t' = t @ [row_of request (origin_in pf request)]"
    by (auto simp: sq_insert_def insert_or_ignore_def origin_in_def split: option.splits)
  have "table_ok pf t \<Longrightarrow> table_ok pf t'"
    using False by (auto simp: t' table_ok_def row_ok_def row_of_def same_request_def image_iff)
  then show ?thesis by (auto simp: evolves_def t')
qed

lemma evolves_enqueueWithCapacity:
  "enqueueWithCapacity pf cfg now x pending t = Inr (r, pending', t') \<Longrightarrow> evolves pf t t'"
  by (auto simp: enqueueWithCapacity_def Let_def bind_result_Inr split: sum.splits option.splits if_splits
      intro: evolves_insert)

lemma evolves_enqueue_all:
  "enqueue_all pf cfg now xs pending t = Inr (rs, t') \<Longrightarrow> evolves pf t t'"
proof (induction xs arbitrary: pending t rs t')
  case (Cons x xs)
  then show ?case
    by (auto simp: bind_result_Inr intro: evolves_trans [OF evolves_enqueueWithCapacity])
qed simp

lemma evolves_enqueueMany: "evolves pf t (snd (sq_enqueueMany pf cfg now xs t))"
  by (auto simp: sq_enqueueMany_def split: sum.split intro: evolves_enqueue_all)

lemma evolves_claim_request: "evolves pf t (snd (snd (sq_claim_request pf cfg now sel r p t)))"
  using evolves_claim [of pf t now "sq_createLease pf cfg now r"]
  by (auto simp: sq_claim_request_def Let_def split: prod.splits bool.splits)

lemma evolves_claim_candidates: "evolves pf t (snd (snd (claim_candidates pf cfg now sel first rs p t)))"
proof (induction rs arbitrary: p t)
  case (Cons r rs)
  obtain found p' t' where step: "sq_claim_request pf cfg now sel r p t = (found, p', t')" by (metis prod_cases3)
  have "evolves pf t t'" using evolves_claim_request [of pf t cfg now sel r p] by (simp add: step)
  then show ?case using Cons evolves_trans by (cases found) (auto simp: step)
qed simp

lemma evolves_leaseNext: "evolves pf t (snd (snd (sq_leaseNext pf cfg now sel p t)))"
proof -
  let ?t = "snd (sq_recoverExpired now t)" and ?first = "firstReadyCandidate now (fc_order cfg) (snd (sq_recoverExpired now t))"
  obtain found p' t' where step:
    "(case ?first of None \<Rightarrow> (None, p, ?t) | Some r \<Rightarrow> sq_claim_request pf cfg now sel r p ?t) = (found, p', t')"
    by (metis prod_cases3)
  have "evolves pf ?t t'"
    using step evolves_claim_request [of pf ?t cfg now sel "the ?first" p] by (auto split: option.splits)
  then have "evolves pf t t'" using evolves_recoverExpired evolves_trans by blast
  moreover have "evolves pf t' (snd (snd (claim_candidates pf cfg now sel (map_option rq_id ?first)
      (readyCandidates now 128 (fc_order cfg) t') p' t')))" by (rule evolves_claim_candidates)
  ultimately show ?thesis
    using evolves_trans by (cases found) (auto simp: sq_leaseNext_def Let_def step)
qed

section \<open>Every history\<close>

text \<open>
  The operations of the backend, at any time and with any lease, current or not; a restart after a
  crash is an initialisation, which recovers the expired leases.
\<close>

inductive sqlite_step :: "platform \<Rightarrow> frontier_config \<Rightarrow> frontier_table \<Rightarrow> frontier_table \<Rightarrow> bool"
  for pf cfg
where
  restart: "sqlite_step pf cfg t (snd (sq_recover now t))"
| enqueue: "sqlite_step pf cfg t (snd (sq_enqueueMany pf cfg now xs t))"
| enqueue_one: "sqlite_step pf cfg t (snd (sq_enqueue pf cfg now x t))"
| lease: "sqlite_step pf cfg t (snd (snd (sq_leaseNext pf cfg now (sel :: slots lease_selection) p t)))"
| renew: "sq_renewLease cfg now l t = Inr (l', t') \<Longrightarrow> sqlite_step pf cfg t t'"
| finish: "sq_finish cfg now l (Terminal state) reason t = Inr (rec, t') \<Longrightarrow> sqlite_step pf cfg t t'"
| release: "sq_finish cfg now l Pending reason t = Inr (rec, t') \<Longrightarrow> sqlite_step pf cfg t t'"

lemma evolves_step: "sqlite_step pf cfg t t' \<Longrightarrow> evolves pf t t'"
proof (induction rule: sqlite_step.induct)
  case (restart t now)
  then show ?case using evolves_recoverExpired [of pf t now] by (simp add: sq_recover_def Let_def prod.case_eq_if)
next
  case (enqueue_one t now x)
  then show ?case by (auto simp: sq_enqueue_def split: sum.split intro: evolves_enqueueWithCapacity)
qed (auto simp: sq_renewLease_def sq_finish_def Let_def bind_result_Inr
    intro: evolves_enqueueMany evolves_leaseNext evolves_renew evolves_transition)

text \<open>
  C19: The SQLite frontier loses no request and ends each once. Whatever enqueues, leases, renewals,
  releases, ends and restarts run, in any order and with any leases, every request once enqueued stays
  in the table, in its place and with a unique id and key; its row agrees with it and carries a lease
  exactly when it is in progress; and the row of an ended request never changes again.
\<close>

theorem sqlite_history:
  assumes "(sqlite_step pf cfg)\<^sup>*\<^sup>* [] t" "(sqlite_step pf cfg)\<^sup>*\<^sup>* t t'"
  shows "table_ok pf t' \<and> (\<exists>new. sq_requests t' = sq_requests t @ new) \<and>
     {r \<in> set t. \<not> is_outstanding r} \<subseteq> set t'"
proof -
  have steps: "evolves pf u v" if "(sqlite_step pf cfg)\<^sup>*\<^sup>* u v" for u v
    using that by induction (auto intro: evolves_trans evolves_step)
  have "table_ok pf t" using steps [OF assms(1)] by (simp add: evolves_def)
  then show ?thesis using steps [OF assms(2)] by (auto simp: evolves_def sq_requests_def is_ended_def)
qed

section \<open>Claims\<close>

lemma claim_pending:
  assumes "table_ok pf t" "r \<in> set t" "fq_state r = Pending" "fq_request r = request"
  shows "fst (sq_claim now (sq_createLease pf cfg now request) t)"
proof -
  have "fq_id r = rq_id request" using assms(1,2,4) by (auto simp: table_ok_def row_ok_def)
  with update_one [of fq_id t r "\<lambda>q. fq_state q = Pending"] assms(1-3)
  show ?thesis by (simp add: sq_claim_def sq_createLease_def Let_def prod.case_eq_if table_ok_def)
qed

lemma claim_request_pending:
  assumes "table_ok pf t" "r \<in> set t" "fq_state r = Pending" "fq_request r = request"
  shows "fst (sq_claim_request pf cfg now sel request p t) =
     (if fst (sel_tryReserve sel p request) then Some (sq_createLease pf cfg now request) else None)"
  using claim_pending [OF assms, of now cfg]
  by (auto simp: sq_claim_request_def Let_def split: prod.split bool.split)

lemma claim_request_refused:
  "\<not> fst (sel_tryReserve sel p request) \<Longrightarrow>
     sq_claim_request pf cfg now sel request p t = (None, snd (sel_tryReserve sel p request), t)"
  by (cases "sel_tryReserve sel p request") (auto simp: sq_claim_request_def)

section \<open>Selection by origin\<close>

text \<open>
  A selection that decides by the origin of the request: a refusal does not change what it decides.
\<close>

locale origin_selection =
  fixes sel :: "'p lease_selection"
    and stable :: "'p \<Rightarrow> bool"
    and admits :: "string \<Rightarrow> bool"
    and origin :: "crawl_request \<Rightarrow> string"
  assumes decides: "stable p \<Longrightarrow> fst (sel_tryReserve sel p r) = admits (origin r)"
    and refusal_keeps: "stable p \<Longrightarrow> \<not> admits (origin r) \<Longrightarrow> stable (snd (sel_tryReserve sel p r))"
begin

lemma claim_candidates_find:
  assumes "table_ok pf t" "stable p" "\<forall>r \<in> set rs. fq_state r = Pending \<and> r \<in> set t"
  shows "fst (claim_candidates pf cfg now sel first (map fq_request rs) p t) =
     map_option (\<lambda>r. sq_createLease pf cfg now (fq_request r))
       (List.find (\<lambda>r. Some (fq_id r) \<noteq> first \<and> admits (origin (fq_request r))) rs)"
  using assms(2,3)
proof (induction rs arbitrary: p)
  case (Cons r rs)
  have id: "rq_id (fq_request r) = fq_id r" using assms(1) Cons.prems(2) by (auto simp: table_ok_def row_ok_def)
  show ?case
  proof (cases "Some (fq_id r) = first")
    case True
    then show ?thesis using Cons by (simp add: id)
  next
    case other: False
    show ?thesis
    proof (cases "admits (origin (fq_request r))")
      case True
      have "fst (sq_claim_request pf cfg now sel (fq_request r) p t) = Some (sq_createLease pf cfg now (fq_request r))"
        using claim_request_pending [OF assms(1), of r "fq_request r" cfg now sel p] Cons.prems True decides by simp
      then show ?thesis using True other by (auto simp: id split: prod.splits option.splits)
    next
      case False
      then have "\<not> fst (sel_tryReserve sel p (fq_request r))" using decides Cons.prems(1) by simp
      from claim_request_refused [OF this, of pf cfg now t] show ?thesis
        using False other Cons.IH [OF refusal_keeps [OF Cons.prems(1) False]] Cons.prems(2) by (simp add: id)
    qed
  qed
qed simp

end

lemma find_append: "List.find P (xs @ ys) = (case List.find P xs of None \<Rightarrow> List.find P ys | Some x \<Rightarrow> Some x)"
  by (induction xs) simp_all

lemma find_None_iff_none: "(\<And>x. x \<in> set xs \<Longrightarrow> \<not> P x) \<Longrightarrow> List.find P xs = None"
  by (induction xs) simp_all

lemma find_first_of_origins:
  assumes "\<And>q r. fq_origin q = fq_origin r \<Longrightarrow> P q = P r"
  shows "List.find P (first_of_origins rs) = List.find P rs"
proof (induction rs)
  case (Cons r rs)
  have "List.find P (filter (\<lambda>q. fq_origin q \<noteq> fq_origin r) qs) = List.find P qs" if "\<not> P r" for qs
  proof (induction qs)
    case (Cons q qs)
    then show ?case using that assms [of q r] by (cases "fq_origin q = fq_origin r") simp_all
  qed simp
  then show ?case using Cons by (cases "P r") simp_all
qed simp

lemma first_of_origins_distinct:
  "distinct (map fq_origin (first_of_origins rs)) \<and> set (first_of_origins rs) \<subseteq> set rs"
proof (induction rs)
  case (Cons r rs)
  then show ?case by (auto simp: distinct_map_filter)
qed simp

text \<open>
  Among the first \<open>n\<close> elements with distinct keys there is an accepted one, if there is any, when
  fewer than \<open>n\<close> keys are refused.
\<close>

lemma find_take:
  assumes "distinct (map key xs)" "finite K" "key ` {x \<in> set xs. \<not> P x} \<subseteq> K" "card K < n"
  shows "List.find P (take n xs) = List.find P xs"
proof (cases "\<exists>x \<in> set (take n xs). P x")
  case True
  have "List.find P (take n xs @ drop n xs) = List.find P (take n xs)"
    unfolding find_append using True by (auto simp: find_None_iff split: option.split)
  then show ?thesis by simp
next
  case False
  have "distinct (map key (take n xs))" using assms(1) by (simp add: take_map [symmetric])
  from distinct_card [OF this] have "length (take n xs) = card (key ` set (take n xs))" by simp
  also have "\<dots> \<le> card K"
    by (rule card_mono [OF assms(2)]) (use False assms(3) in \<open>auto dest: in_set_takeD\<close>)
  finally have "length xs < n" using assms(4) by (simp add: min_def split: if_splits)
  then show ?thesis by simp
qed

section \<open>The politeness controller decides by origin\<close>

definition politeness_decides :: "network_config \<Rightarrow> number \<Rightarrow> (string \<Rightarrow> bool) \<Rightarrow> slots \<Rightarrow> bool" where
  "politeness_decides cfg now admits slots \<longleftrightarrow>
     (\<forall>origin. fst (reserve_slot cfg now (slot_of cfg now slots origin)) = admits origin)"

lemma refillTokens_again: "refillTokens cfg now (refillTokens cfg now s) = refillTokens cfg now s"
  by (simp add: refillTokens_def Let_def)

lemma reserve_refused:
  "\<not> fst (reserve_slot cfg now s) \<Longrightarrow> snd (reserve_slot cfg now s) = refillTokens cfg now s"
  by (auto simp: reserve_slot_def Let_def split: if_splits)

lemma reserve_after_refill: "fst (reserve_slot cfg now (refillTokens cfg now s)) = fst (reserve_slot cfg now s)"
  by (simp add: reserve_slot_def refillTokens_again Let_def)

interpretation politeness_by_origin: origin_selection "politeness_selection cfg origin_of now"
    "politeness_decides cfg now admits" admits origin_of for cfg origin_of now admits
proof unfold_locales
  fix p r
  assume p: "politeness_decides cfg now admits p"
  show "fst (sel_tryReserve (politeness_selection cfg origin_of now) p r) = admits (origin_of r)"
    using p by (simp add: politeness_selection_def tryReserve_def politeness_decides_def split: prod.split)
      (metis fst_conv)
next
  fix p r
  let ?slot = "slot_of cfg now p (origin_of r)"
  assume p: "politeness_decides cfg now admits p" and no: "\<not> admits (origin_of r)"
  then have no': "\<not> fst (reserve_slot cfg now ?slot)" by (simp add: politeness_decides_def)
  have "snd (sel_tryReserve (politeness_selection cfg origin_of now) p r) =
      map_set (origin_of r) (refillTokens cfg now ?slot) p"
    using reserve_refused [OF no']
    by (simp add: politeness_selection_def tryReserve_def split: prod.split) (metis snd_conv)
  then show "politeness_decides cfg now admits (snd (sel_tryReserve (politeness_selection cfg origin_of now) p r))"
    using p no' by (simp add: politeness_decides_def slot_of_def reserve_after_refill)
qed

section \<open>The lease of the first admitted request\<close>

lemma set_requestOrder [simp]: "set (requestOrder ord t) = set t"
  by (simp add: requestOrder_def split: frontier_order.split)

context origin_selection
begin

lemma leaseNext_finds:
  fixes pf cfg now t
  defines "ready \<equiv> requestOrder (fc_order cfg) (ready_rows now (snd (sq_recoverExpired now t)))"
  assumes "table_ok pf t" "stable p" "origin = origin_in pf"
    and "finite K" "{o' \<in> fq_origin ` set t. \<not> admits o'} \<subseteq> K" "card K < 128"
  shows "fst (sq_leaseNext pf cfg now sel p t) =
     map_option (\<lambda>r. sq_createLease pf cfg now (fq_request r)) (List.find (\<lambda>r. admits (fq_origin r)) ready)"
proof -
  let ?t = "snd (sq_recoverExpired now t)"
  have ok: "table_ok pf ?t" using evolves_recoverExpired assms(2) by (simp add: evolves_def)
  have ready: "fq_state r = Pending \<and> r \<in> set ?t" if "r \<in> set ready" for r
    using that by (auto simp: ready_def ready_rows_def)
  have origins: "origin (fq_request r) = fq_origin r" if "r \<in> set ?t" for r
    using that ok by (simp add: table_ok_def row_ok_def assms(4))
  show ?thesis
  proof (cases ready)
    case Nil
    then show ?thesis
      by (simp add: sq_leaseNext_def Let_def firstReadyCandidate_def readyCandidates_def ready_def)
  next
    case (Cons f rest)
    have f: "fq_state f = Pending" "f \<in> set ?t" "rq_id (fq_request f) = fq_id f"
      using ready [of f] Cons ok by (auto simp: table_ok_def row_ok_def)
    have first: "firstReadyCandidate now (fc_order cfg) ?t = Some (fq_request f)"
      using Cons by (simp add: firstReadyCandidate_def ready_def)
    show ?thesis
    proof (cases "admits (fq_origin f)")
      case True
      then have "fst (sq_claim_request pf cfg now sel (fq_request f) p ?t) = Some (sq_createLease pf cfg now (fq_request f))"
        using claim_request_pending [OF ok f(2,1) refl, of cfg now sel p] decides [OF assms(3)] origins [OF f(2)] by simp
      then show ?thesis
        using True Cons by (auto simp: sq_leaseNext_def Let_def first split: prod.splits)
    next
      case False
      let ?p = "snd (sel_tryReserve sel p (fq_request f))"
      let ?cands = "take 128 (first_of_origins ready)"
      have refused: "\<not> admits (origin (fq_request f))" using False origins [OF f(2)] by simp
      then have "\<not> fst (sel_tryReserve sel p (fq_request f))" using decides [OF assms(3)] by simp
      note step = claim_request_refused [OF this, of pf cfg now ?t]
      have cands: "\<forall>r \<in> set ?cands. fq_state r = Pending \<and> r \<in> set ?t"
        using ready first_of_origins_distinct [of ready] by (auto dest: in_set_takeD)
      have eq: "r = f" if "r \<in> set ?cands" "fq_id r = fq_id f" for r
        using that cands f(2) ok by (auto simp: table_ok_def distinct_map inj_on_def)
      have "List.find (\<lambda>r. Some (fq_id r) \<noteq> Some (fq_id f) \<and> admits (origin (fq_request r))) ?cands
          = List.find (\<lambda>r. admits (fq_origin r)) ?cands"
        using cands eq origins False by (intro find_cong) auto
      also have "\<dots> = List.find (\<lambda>r. admits (fq_origin r)) (first_of_origins ready)"
      proof (rule find_take [OF _ assms(5) _ assms(7)])
        have "map fq_origin ?t = map fq_origin t"
          unfolding sq_recoverExpired_def by (rule update_keeps) (simp add: back_to_pending_def)
        then have "fq_origin ` set ?t = fq_origin ` set t" by (metis list.set_map)
        moreover have "set (first_of_origins ready) \<subseteq> set ?t"
          using first_of_origins_distinct [of ready] ready by blast
        ultimately show "fq_origin ` {r \<in> set (first_of_origins ready). \<not> admits (fq_origin r)} \<subseteq> K"
          using assms(6) by blast
      qed (use first_of_origins_distinct [of ready] in simp)
      also have "\<dots> = List.find (\<lambda>r. admits (fq_origin r)) ready"
        by (rule find_first_of_origins) simp
      finally have found: "List.find (\<lambda>r. Some (fq_id r) \<noteq> Some (fq_id f) \<and> admits (origin (fq_request r))) ?cands
          = List.find (\<lambda>r. admits (fq_origin r)) ready" .
      have "fst (sq_leaseNext pf cfg now sel p t) =
          fst (claim_candidates pf cfg now sel (Some (fq_id f)) (map fq_request ?cands) ?p ?t)"
        by (simp add: sq_leaseNext_def Let_def first step f(3) readyCandidates_def ready_def)
      then show ?thesis
        using claim_candidates_find [OF ok refusal_keeps [OF assms(3) refused] cands] by (simp add: found [simplified])
    qed
  qed
qed

end

definition origin_admitted :: "network_config \<Rightarrow> number \<Rightarrow> slots \<Rightarrow> string \<Rightarrow> bool" where
  "origin_admitted net time slots origin = fst (reserve_slot net time (slot_of net time slots origin))"

text \<open>
  C18: The SQLite frontier leases the right request. Although it asks for at most 128 candidates, one
  per origin, a lease goes to the first request, in the configured order of the ready ones, whose
  origin the politeness controller admits, and to none only when it admits no origin of them, as long
  as the controller refuses fewer than 128 origins.
\<close>

theorem sqlite_leaseNext_selects:
  assumes "(sqlite_step pf cfg)\<^sup>*\<^sup>* [] t"
    and "card {origin \<in> fq_origin ` set t. \<not> origin_admitted net time slots origin} < 128"
  shows "fst (sq_leaseNext pf cfg now (politeness_selection net (origin_in pf) time) slots t) =
     map_option (\<lambda>r. sq_createLease pf cfg now (fq_request r))
       (List.find (\<lambda>r. origin_admitted net time slots (fq_origin r))
         (requestOrder (fc_order cfg) (ready_rows now (snd (sq_recoverExpired now t)))))"
proof -
  have "evolves pf [] t" using assms(1) by induction (auto intro: evolves_trans evolves_step)
  then have "table_ok pf t" by (simp add: evolves_def)
  then show ?thesis
    using assms(2)
    by (intro politeness_by_origin.leaseNext_finds [OF _ _ refl _ subset_refl])
      (simp_all add: politeness_decides_def origin_admitted_def)
qed

section \<open>Enqueues as in the journal frontier\<close>

text \<open>Both frontiers know the same requests by their keys and count as many waiting ones.\<close>

definition same_frontier :: "frontier_table \<Rightarrow> journal_backend \<Rightarrow> bool" where
  "same_frontier t jb \<longleftrightarrow>
     (\<forall>k. sq_requestForKey t k = state_requestForKey (jb_state jb) k) \<and>
     sq_pendingCount t = state_size (jb_state jb)"

definition ids_made :: "platform \<Rightarrow> frontier_config \<Rightarrow> frontier_table \<Rightarrow> bool" where
  "ids_made pf cfg t \<longleftrightarrow> (\<forall>r \<in> set t. fq_id r = makeId pf ''req'' (fc_runId cfg @ '':'' @ fq_uniqueKey r))"

text \<open>
  What the platform must give for the keys \<open>K\<close> in play: the digests of their ids do not collide, and
  the URL parser accepts what the normaliser returned.
\<close>

definition keys_apart :: "platform \<Rightarrow> frontier_config \<Rightarrow> string set \<Rightarrow> bool" where
  "keys_apart pf cfg K \<longleftrightarrow> inj_on (\<lambda>k. makeId pf ''req'' (fc_runId cfg @ '':'' @ k)) K"

definition input_in :: "platform \<Rightarrow> string set \<Rightarrow> enqueue_input \<Rightarrow> bool" where
  "input_in pf K x \<longleftrightarrow>
     (case normalizeUrl (pf_parse pf) (ei_rawUrl x) (ei_referrerUrl x) of
        Inl _ \<Rightarrow> True
      | Inr n \<Rightarrow> unique_key n \<in> K \<and> pf_parse pf (nu_normalizedUrl n) None \<noteq> None)"

lemma requestForKey_append:
  "sq_requestForKey (t @ [r]) k =
     (case sq_requestForKey t k of Some q \<Rightarrow> Some q | None \<Rightarrow> if fq_uniqueKey r = k then Some (fq_request r) else None)"
  by (simp add: sq_requestForKey_def find_append split: option.split)

lemma requestForKey_None: "sq_requestForKey t k = None \<longleftrightarrow> k \<notin> fq_uniqueKey ` set t"
  by (auto simp: sq_requestForKey_def find_None_iff)

lemma enqueue_agrees:
  assumes "same_frontier t jb" "ids_made pf cfg t" "fq_uniqueKey ` set t \<subseteq> K" "keys_apart pf cfg K"
    and "input_in pf K x" "jb_open jb"
  shows "\<exists>r t' jb'. enqueueWithCapacity pf cfg now x (sq_pendingCount t) t = Inr (r, sq_pendingCount t', t') \<and>
     backend_enqueue pf cfg now True jb x = Inr (r, jb') \<and> same_frontier t' jb' \<and> ids_made pf cfg t' \<and>
     fq_uniqueKey ` set t' \<subseteq> K \<and> jb_open jb'"
proof (cases "normalizeUrl (pf_parse pf) (ei_rawUrl x) (ei_referrerUrl x)")
  case (Inl err)
  then show ?thesis using assms by (simp add: enqueueWithCapacity_def backend_enqueue_def)
next
  case (Inr n)
  let ?k = "unique_key n"
  have same: "sq_requestForKey t ?k = state_requestForKey (jb_state jb) ?k" "sq_pendingCount t = state_size (jb_state jb)"
    using assms(1) by (simp_all add: same_frontier_def)
  show ?thesis
  proof (cases "sq_requestForKey t ?k")
    case (Some e)
    then show ?thesis
      using assms same by (simp add: enqueueWithCapacity_def backend_enqueue_def Inr Let_def)
  next
    case None
    show ?thesis
    proof (cases "sq_rejectByLimits pf cfg now x (sq_pendingCount t)")
      case (Some rejected)
      then show ?thesis
        using assms same None
        by (simp add: enqueueWithCapacity_def backend_enqueue_def Inr Let_def sq_rejectByLimits_def split: if_splits)
    next
      case free: None
      define q where "q = factory_create pf cfg now x ?k (nu_resolvedUrl n) (nu_normalizedUrl n)"
      obtain u where u: "pf_parse pf (rq_normalizedUrl q) None = Some u"
        using assms(5) Inr by (auto simp: input_in_def q_def factory_create_def)
      define row where "row = row_of q (url_origin u)"
      have row: "fq_id row = makeId pf ''req'' (fc_runId cfg @ '':'' @ ?k)" "fq_uniqueKey row = ?k" "fq_request row = q"
        "fq_state row = Pending"
        by (simp_all add: row_def row_of_def q_def factory_create_def)
      have k: "?k \<in> K" using assms(5) Inr by (simp add: input_in_def)
      have "\<not> same_request row r" if "r \<in> set t" for r
      proof -
        have "fq_uniqueKey r \<noteq> ?k" using None that by (metis requestForKey_None image_eqI)
        moreover have "fq_uniqueKey r \<in> K" using assms(3) that by auto
        ultimately have "fq_id r \<noteq> fq_id row"
          using assms(2) that k inj_on_contraD [OF assms(4) [unfolded keys_apart_def]]
          by (simp add: ids_made_def row)
        then show ?thesis using \<open>fq_uniqueKey r \<noteq> ?k\<close> by (simp add: same_request_def row)
      qed
      then have insert: "sq_insert pf q t = Inr (True, t @ [row])"
        by (auto simp: sq_insert_def u insert_or_ignore_def row_def)
      have count: "sq_pendingCount (t @ [row]) = sq_pendingCount t + 1"
        by (simp add: sq_pendingCount_def select_count_def row)
      have queue: "\<not> fc_maxDepth cfg < ei_depth x" "\<not> fc_maxQueueSize cfg \<le> state_size (jb_state jb)"
        using free by (simp_all add: sq_rejectByLimits_def same(2) split: if_splits)
      let ?entry = "\<lparr>ur_body = JEnqueued q, ur_createdAt = now\<rparr>"
      let ?jb = "lease_restorePending (jb\<lparr>jb_log := jb_log jb @ [next_record (pf_hash pf) (jb_log jb) ?entry],
          jb_state := addPending (jb_state jb) q\<rparr>) q"
      have "rq_uniqueKey q = ?k" by (simp add: q_def factory_create_def)
      then have "same_frontier (t @ [row]) ?jb"
        using assms(1) None
        by (auto simp: same_frontier_def count requestForKey_append row lease_restorePending_def addPending_def
            remember_def state_requestForKey_def state_size_def Let_def split: option.split)
      moreover have "ids_made pf cfg (t @ [row])" using assms(2) by (simp add: ids_made_def row)
      ultimately show ?thesis
        using assms(3,6) None same k count insert free queue
        by (simp add: enqueueWithCapacity_def backend_enqueue_def Inr Let_def q_def [symmetric] row(2)
            log_append_def lease_restorePending_def)
    qed
  qed
qed


section \<open>Ends of leases\<close>

lemma transition_ends:
  assumes "table_ok pf t" "r \<in> set t" "fq_id r = rq_id (ls_request lease)" "holds_lease lease r"
    and "state \<noteq> Pending" "state \<noteq> InProgress"
  shows "\<exists>t'. sq_transition now lease state reason t = Inr t' \<and>
     sq_outstandingCount t' = sq_outstandingCount t - 1 \<and> sq_outstandingCount t > 0"
proof -
  let ?f = "\<lambda>r. r\<lparr>fq_state := state, fq_reason := reason, fq_leaseId := None, fq_leaseExpiresAt := None,
      fq_availableAt := 0, fq_updatedAt := now\<rparr>"
  let ?P = "\<lambda>q. fq_id q = rq_id (ls_request lease) \<and> holds_lease lease q"
  have d: "distinct (map fq_id t)" using assms(1) by (simp add: table_ok_def)
  have out: "is_outstanding r" "\<not> is_outstanding (?f r)"
    using assms(4-6) by (simp_all add: is_outstanding_def holds_lease_def)
  have one: "fst (update_where ?P ?f t) = 1"
    using update_one [OF d assms(2), of "holds_lease lease" ?f] assms(3,4) by simp
  have "sq_outstandingCount (snd (update_where ?P ?f t)) = sq_outstandingCount t - 1"
    using count_map_update [OF d assms(2), of "holds_lease lease" is_outstanding ?f] assms(3,4) out
    by (simp add: sq_outstandingCount_def)
  moreover have "sq_outstandingCount t > 0"
    using assms(2) out(1) by (auto simp: sq_outstandingCount_def select_count_def filter_empty_conv)
  ultimately show ?thesis using one assms(5) by (simp add: sq_transition_def Let_def prod.case_eq_if)
qed

lemma claimed_row:
  assumes "table_ok pf t" "sq_claim now lease t = (True, t')"
  shows "\<exists>r \<in> set t'. fq_id r = rq_id (ls_request lease) \<and> holds_lease lease r"
    and "r \<in> set t' \<Longrightarrow> fq_id r = rq_id (ls_request lease) \<Longrightarrow> holds_lease lease r"
proof -
  let ?P = "\<lambda>r. fq_id r = rq_id (ls_request lease) \<and> fq_state r = Pending"
  let ?f = "\<lambda>r. r\<lparr>fq_state := InProgress, fq_leaseId := Some (ls_leaseId lease),
      fq_leaseExpiresAt := Some (ls_expiresAt lease), fq_updatedAt := now\<rparr>"
  have t': "t' = snd (update_where ?P ?f t)" and one: "fst (update_where ?P ?f t) = 1"
    using assms(2) by (simp_all add: sq_claim_def Let_def prod.case_eq_if)
  from one have "fst (update_where ?P ?f t) \<noteq> 0" by simp
  then obtain q where q: "q \<in> set t" "?P q" unfolding update_none by blast
  then have "?f q \<in> set t'" by (auto simp: t' set_update_where)
  then show "\<exists>r \<in> set t'. fq_id r = rq_id (ls_request lease) \<and> holds_lease lease r"
    using q(2) by (intro bexI [of _ "?f q"]) (simp_all add: holds_lease_def)
  assume r: "r \<in> set t'" "fq_id r = rq_id (ls_request lease)"
  then obtain r0 where r0: "r0 \<in> set t" "r = (if ?P r0 then ?f r0 else r0)" by (auto simp: t' set_update_where)
  with r(2) have "fq_id r0 = fq_id q" using q(2) by (simp split: if_splits)
  then have "r0 = q" using assms(1) r0(1) q(1) by (auto simp: table_ok_def distinct_map dest: inj_onD)
  then show "holds_lease lease r" using r0(2) q(2) by (simp add: holds_lease_def)
qed


section \<open>Progress\<close>

text \<open>Every outstanding request can be leased at \<open>now\<close>: it is available, or its lease has expired.\<close>

definition all_ready :: "timestamp \<Rightarrow> frontier_table \<Rightarrow> bool" where
  "all_ready now t \<longleftrightarrow>
     (\<forall>r \<in> set t. (fq_state r = Pending \<longrightarrow> fq_availableAt r \<le> now) \<and> (fq_state r = InProgress \<longrightarrow> lease_expired now r))"

lemma recovered_ready:
  assumes "all_ready now t"
  shows "all_ready now (snd (sq_recoverExpired now t))"
    and "ready_rows now (snd (sq_recoverExpired now t)) = filter is_outstanding (snd (sq_recoverExpired now t))"
    and "sq_outstandingCount (snd (sq_recoverExpired now t)) = sq_outstandingCount t"
proof -
  let ?t = "snd (sq_recoverExpired now t)"
  have rows: "is_outstanding r \<longleftrightarrow> fq_state r = Pending \<and> fq_availableAt r \<le> now" if "r \<in> set ?t" for r
    using that assms
    by (auto simp: sq_recoverExpired_def set_update_where back_to_pending_def is_outstanding_def all_ready_def)
  show "all_ready now ?t" using rows by (force simp: all_ready_def is_outstanding_def)
  show "ready_rows now ?t = filter is_outstanding ?t"
    unfolding ready_rows_def by (rule filter_cong) (simp_all add: rows)
  have "map is_outstanding ?t = map is_outstanding t"
    unfolding sq_recoverExpired_def
    by (rule update_keeps) (auto simp: lease_expired_def back_to_pending_def is_outstanding_def)
  then have "length (filter id (map is_outstanding ?t)) = length (filter id (map is_outstanding t))" by simp
  then show "sq_outstandingCount ?t = sq_outstandingCount t"
    by (simp add: sq_outstandingCount_def select_count_def filter_map)
qed

lemma claim_outstanding: "sq_outstandingCount (snd (sq_claim now lease t)) = sq_outstandingCount t"
proof -
  have "map is_outstanding (snd (sq_claim now lease t)) = map is_outstanding t"
    unfolding sq_claim_def Let_def prod.case_eq_if snd_conv
    by (rule update_keeps) (auto simp: is_outstanding_def)
  then have "length (filter id (map is_outstanding (snd (sq_claim now lease t)))) = length (filter id (map is_outstanding t))"
    by simp
  then show ?thesis by (simp add: sq_outstandingCount_def select_count_def filter_map)
qed

lemma requestOrder_Nil [simp]: "requestOrder ord t = [] \<longleftrightarrow> t = []"
  by (metis list.set_cases set_empty set_requestOrder)

lemma turn_progress:
  assumes "table_ok pf t" "all_ready now t" "sq_outstandingCount t > 0"
    and "\<And>p r. fst (sel_tryReserve sel p r)"
  shows "\<exists>lease p' t1 t2 rec. sq_leaseNext pf cfg now sel p t = (Some lease, p', t1) \<and>
     sq_finish cfg now lease (Terminal final) reason t1 = Inr (rec, t2) \<and>
     table_ok pf t2 \<and> all_ready now t2 \<and> sq_outstandingCount t2 = sq_outstandingCount t - 1"
proof -
  let ?t = "snd (sq_recoverExpired now t)"
  note ready = recovered_ready [OF assms(2)]
  have ok: "table_ok pf ?t" using evolves_recoverExpired assms(1) by (simp add: evolves_def)
  have "ready_rows now ?t \<noteq> []"
    using assms(3) ready(2,3) by (auto simp: sq_outstandingCount_def select_count_def)
  then obtain f rest where f: "requestOrder (fc_order cfg) (ready_rows now ?t) = f # rest"
    by (metis neq_Nil_conv requestOrder_Nil)
  then have "f \<in> set (ready_rows now ?t)" by (metis list.set_intros(1) set_requestOrder)
  then have fr: "f \<in> set ?t" "fq_state f = Pending" by (auto simp: ready_rows_def)
  let ?lease = "sq_createLease pf cfg now (fq_request f)"
  obtain t1 where claim: "sq_claim now ?lease ?t = (True, t1)"
    using claim_pending [OF ok fr refl, of now cfg] by (metis prod.collapse)
  then have turn: "sq_leaseNext pf cfg now sel p t = (Some ?lease, snd (sel_tryReserve sel p (fq_request f)), t1)"
    using assms(4) [of p "fq_request f"]
    by (cases "sel_tryReserve sel p (fq_request f)")
      (simp add: sq_leaseNext_def Let_def firstReadyCandidate_def f sq_claim_request_def)
  have ok1: "table_ok pf t1" using evolves_claim [of pf ?t now ?lease] ok claim by (simp add: evolves_def)
  have count1: "sq_outstandingCount t1 = sq_outstandingCount t"
    using claim_outstanding [of now ?lease ?t] claim ready(3) by simp
  obtain r where r: "r \<in> set t1" "fq_id r = rq_id (ls_request ?lease)" "holds_lease ?lease r"
    using claimed_row(1) [OF ok claim] by blast
  from transition_ends [OF ok1 r, of "Terminal final" now reason] obtain t2 where
    finish: "sq_transition now ?lease (Terminal final) reason t1 = Inr t2" "sq_outstandingCount t2 = sq_outstandingCount t1 - 1"
    by auto
  have ok2: "table_ok pf t2" using evolves_transition [OF finish(1), of pf] ok1 by (simp add: evolves_def)
  have "all_ready now t2"
  proof -
    have "fq_id r = rq_id (ls_request ?lease) \<or> r \<in> set ?t" if "r \<in> set t1" for r
      using that claim by (auto simp: sq_claim_def Let_def prod.case_eq_if set_update_where)
    moreover have "holds_lease ?lease r" if "r \<in> set t1" "fq_id r = rq_id (ls_request ?lease)" for r
      using claimed_row(2) [OF ok claim that] .
    ultimately have "r \<in> set ?t \<or> fq_state r = Terminal final" if "r \<in> set t2" for r
      using that finish(1)
      by (fastforce simp: sq_transition_def Let_def prod.case_eq_if set_update_where split: if_splits)
    then show ?thesis using ready(1) by (fastforce simp: all_ready_def)
  qed
  then show ?thesis
    using turn finish ok2 count1 by (simp add: sq_finish_def)
qed

text \<open>A worker that leases and ends requests until it gets no lease, at most \<open>n\<close> times.\<close>

fun sq_work ::
  "platform \<Rightarrow> frontier_config \<Rightarrow> timestamp \<Rightarrow> 'p lease_selection \<Rightarrow> nat \<Rightarrow> 'p \<Rightarrow> frontier_table \<Rightarrow> frontier_table"
where
  "sq_work pf cfg now sel 0 p t = t"
| "sq_work pf cfg now sel (Suc n) p t =
     (case sq_leaseNext pf cfg now sel p t of
        (None, p, t) \<Rightarrow> t
      | (Some lease, p, t) \<Rightarrow>
          (case sq_finish cfg now lease (Terminal Handled) None t of
             Inl _ \<Rightarrow> t
           | Inr (_, t) \<Rightarrow> sq_work pf cfg now sel n p t))"

text \<open>
  C20: A frontier whose requests are ready is drained. When every pending request is available, every
  lease has expired, as after a crash and a pause, and the selection admits all requests, a worker
  that leases and ends requests has ended all of them after as many turns as there are.
\<close>

theorem sqlite_frontier_drains:
  assumes "table_ok pf t" "all_ready now t" "\<forall>p r. fst (sel_tryReserve sel p r)"
  shows "sq_outstandingCount (sq_work pf cfg now sel (sq_outstandingCount t) p t) = 0"
proof -
  have "sq_outstandingCount (sq_work pf cfg now sel n p t) = 0"
    if "table_ok pf t" "all_ready now t" "sq_outstandingCount t = n" for n p t
    using that
  proof (induction n arbitrary: p t)
    case (Suc n)
    from turn_progress [OF Suc.prems(1,2), of sel cfg p Handled None] Suc.prems(3) assms(3)
    obtain lease p' t1 t2 rec where "sq_leaseNext pf cfg now sel p t = (Some lease, p', t1)"
      "sq_finish cfg now lease (Terminal Handled) None t1 = Inr (rec, t2)"
      "table_ok pf t2" "all_ready now t2" "sq_outstandingCount t2 = n" by auto
    then show ?case using Suc.IH by simp
  qed simp
  then show ?thesis using assms(1,2) by simp
qed

section \<open>A sample\<close>

definition sample_inputs :: "enqueue_input list" where
  "sample_inputs = [sample_input, sample_input\<lparr>ei_rawUrl := ''http://a/y''\<rparr>, sample_input\<lparr>ei_rawUrl := ''http://b/z''\<rparr>]"

definition sample_table :: frontier_table where
  "sample_table = snd (sq_enqueueMany sample_platform sample_config 0 sample_inputs [])"

definition sample_claim :: request_lease where
  "sample_claim = sq_createLease sample_platform sample_config 5 (fq_request (hd sample_table))"

definition sample_claimed :: frontier_table where
  "sample_claimed = snd (sq_claim 5 sample_claim sample_table)"

lemma sample_table_reached: "(sqlite_step sample_platform sample_config)\<^sup>*\<^sup>* [] sample_table"
  unfolding sample_table_def by (rule r_into_rtranclp, rule sqlite_step.enqueue)

lemma sample_table_ok: "table_ok sample_platform sample_table"
  using evolves_enqueueMany [of sample_platform "[]" sample_config 0 sample_inputs]
  by (simp add: sample_table_def evolves_def)

lemma sqlite_history_witness:
  "table_ok sample_platform (snd (sq_recover 9 sample_table)) \<and>
   (\<exists>new. sq_requests (snd (sq_recover 9 sample_table)) = sq_requests sample_table @ new)"
proof -
  have "(sqlite_step sample_platform sample_config)\<^sup>*\<^sup>* sample_table (snd (sq_recover 9 sample_table))"
    by (rule r_into_rtranclp, rule sqlite_step.restart)
  from sqlite_history [OF sample_table_reached this] show ?thesis by blast
qed

lemma sqlite_leaseNext_selects_witness:
  "map_option (rq_normalizedUrl \<circ> ls_request)
     (fst (sq_leaseNext sample_platform sample_config 5 (politeness_selection sample_network (origin_in sample_platform) 5) [] sample_table))
   = Some ''http://a/x''"
proof -
  let ?refused = "{origin \<in> fq_origin ` set sample_table. \<not> origin_admitted sample_network 5 [] origin}"
  have "list_all (\<lambda>r. origin_admitted sample_network 5 [] (fq_origin r)) sample_table" by code_simp
  then have "?refused = {}" by (auto simp: list_all_iff)
  from arg_cong [OF this, of card] have "card ?refused < 128" by (simp only: card.empty)
  note lease = sqlite_leaseNext_selects [OF sample_table_reached this, of 5]
  show ?thesis unfolding lease by code_simp
qed



lemma sqlite_frontier_drains_witness:
  "sq_outstandingCount (sq_work sample_platform sample_config 5 sample_sel 3 () sample_table) = 0"
proof -
  have "list_all (\<lambda>r. fq_state r = Pending \<and> fq_availableAt r \<le> 5) sample_table" by code_simp
  then have ready: "all_ready 5 sample_table" by (auto simp: all_ready_def list_all_iff)
  have "sq_outstandingCount sample_table = 3" by code_simp
  then show ?thesis
    using sqlite_frontier_drains [OF sample_table_ok ready, of sample_sel sample_config "()"] by (simp add: sample_sel_def)
qed

end
