(* ===== verification/Worker_Coordination.thy ===== *)
theory Worker_Coordination
  imports Sql_Table Frontier_Backend
begin

text \<open>
  The coordination of worker processes through an SQLite database: the tables and statements of
  \<open>workers/coordinator.ts\<close> and \<open>workers/schema.ts\<close>, and the life of a worker in \<open>workers/session.ts\<close>.
  An operation is one step, its transaction excluding the others; \<open>now\<close> is its clock.
\<close>

section \<open>The tables\<close>

datatype worker_status = WsActive | WsStopping | WsStopped | WsFailed | WsStale

record worker_row =
  wr_workerId :: string
  wr_runId :: string
  wr_host :: string
  wr_pid :: int
  wr_protocolVersion :: string
  wr_startedAt :: timestamp
  wr_heartbeatAt :: timestamp
  wr_status :: worker_status

record origin_row =
  og_origin :: string
  og_nextAllowedAt :: timestamp
  og_updatedAt :: timestamp

record origin_permit =
  pm_permitId :: string
  pm_origin :: string
  pm_workerId :: string
  pm_acquiredAt :: timestamp
  pm_expiresAt :: timestamp

record coordination =
  co_workers :: "worker_row list"
  co_origins :: "origin_row list"
  co_permits :: "origin_permit list"

definition new_coordination :: coordination where
  "new_coordination = \<lparr>co_workers = [], co_origins = [], co_permits = []\<rparr>"

record process =
  pr_host :: string
  pr_pid :: int

datatype coordination_error =
    WorkerNotRegistered string
  | StalePermit
  | ConstraintFailed          \<comment> \<open>a permit id that exists, or a worker that is not registered\<close>
  | SessionStarted

record acquire_options =
  ao_maxConcurrency :: nat
  ao_minDelayMs :: int
  ao_leaseDurationMs :: int

section \<open>Workers\<close>

definition co_register :: "process \<Rightarrow> timestamp \<Rightarrow> string \<Rightarrow> string \<Rightarrow> coordination \<Rightarrow> worker_row \<times> coordination" where
  "co_register pr now workerId runId co =
     (let row = \<lparr>wr_workerId = workerId, wr_runId = runId, wr_host = pr_host pr, wr_pid = pr_pid pr,
                 wr_protocolVersion = ''site-crawler.worker.v1'', wr_startedAt = now, wr_heartbeatAt = now,
                 wr_status = WsActive\<rparr>
      in (row, co\<lparr>co_workers :=
            upsert wr_workerId (\<lambda>r. r\<lparr>wr_heartbeatAt := now, wr_status := WsActive\<rparr>) row (co_workers co)\<rparr>))"

definition co_heartbeat :: "timestamp \<Rightarrow> string \<Rightarrow> coordination \<Rightarrow> (coordination_error, unit) result \<times> coordination" where
  "co_heartbeat now workerId co =
     (let (n, ws) = update_where (\<lambda>r. wr_workerId r = workerId)
                      (\<lambda>r. r\<lparr>wr_heartbeatAt := now, wr_status := WsActive\<rparr>) (co_workers co)
      in (if n \<noteq> 1 then Inl (WorkerNotRegistered workerId) else Inr (), co\<lparr>co_workers := ws\<rparr>))"

definition co_stop :: "timestamp \<Rightarrow> string \<Rightarrow> worker_status \<Rightarrow> coordination \<Rightarrow> coordination" where
  "co_stop now workerId status co =
     co\<lparr>co_workers := snd (update_where (\<lambda>r. wr_workerId r = workerId)
                            (\<lambda>r. r\<lparr>wr_heartbeatAt := now, wr_status := status\<rparr>) (co_workers co)),
        co_permits := delete_where (\<lambda>p. pm_workerId p = workerId) (co_permits co)\<rparr>"

definition is_stale :: "timestamp \<Rightarrow> worker_row \<Rightarrow> bool" where
  "is_stale cutoff r \<longleftrightarrow> wr_status r = WsActive \<and> wr_heartbeatAt r < cutoff"

definition co_recoverStale :: "timestamp \<Rightarrow> int \<Rightarrow> coordination \<Rightarrow> nat \<times> coordination" where
  "co_recoverStale now staleAfterMs co =
     (let cutoff = now - staleAfterMs;
          stale = filter (is_stale cutoff) (co_workers co);
          permits = foldl (\<lambda>ps w. delete_where (\<lambda>p. pm_workerId p = wr_workerId w) ps) (co_permits co) stale;
          (n, ws) = update_where (is_stale cutoff) (\<lambda>r. r\<lparr>wr_status := WsStale\<rparr>) (co_workers co)
      in (n, co\<lparr>co_workers := ws, co_permits := permits\<rparr>))"

definition co_listed :: "string \<Rightarrow> coordination \<Rightarrow> worker_row list" where
  "co_listed runId co =
     sort_key (\<lambda>r. (wr_startedAt r, wr_workerId r)) (filter (\<lambda>r. wr_runId r = runId) (co_workers co))"

section \<open>Permits of origins\<close>

definition co_acquireOrigin ::
  "platform \<Rightarrow> (timestamp \<Rightarrow> string) \<Rightarrow> timestamp \<Rightarrow> string \<Rightarrow> string \<Rightarrow> acquire_options \<Rightarrow> coordination
     \<Rightarrow> (coordination_error, origin_permit option) result \<times> coordination"
where
  "co_acquireOrigin pf show_ms now origin workerId opts co =
     (let permits = delete_where (\<lambda>p. pm_expiresAt p \<le> now) (co_permits co);
          nextAllowed = (case List.find (\<lambda>q. og_origin q = origin) (co_origins co) of
                           None \<Rightarrow> 0 | Some q \<Rightarrow> og_nextAllowedAt q);
          active = select_count (\<lambda>p. pm_origin p = origin \<and> pm_expiresAt p > now) permits
      in if nextAllowed > now \<or> active \<ge> ao_maxConcurrency opts
         then (Inr None, co\<lparr>co_permits := permits\<rparr>)
         else let permit = \<lparr>pm_permitId = makeId pf ''origin-permit''
                              (origin @ '':'' @ workerId @ '':'' @ show_ms now),
                            pm_origin = origin, pm_workerId = workerId, pm_acquiredAt = now,
                            pm_expiresAt = now + ao_leaseDurationMs opts\<rparr>
              in if pm_permitId permit \<in> pm_permitId ` set permits \<or>
                    workerId \<notin> wr_workerId ` set (co_workers co)
                 then (Inl ConstraintFailed, co)
                 else (Inr (Some permit),
                       co\<lparr>co_permits := permits @ [permit],
                          co_origins := upsert og_origin
                            (\<lambda>q. q\<lparr>og_nextAllowedAt := now + ao_minDelayMs opts, og_updatedAt := now\<rparr>)
                            \<lparr>og_origin = origin, og_nextAllowedAt = now + ao_minDelayMs opts, og_updatedAt = now\<rparr>
                            (co_origins co)\<rparr>))"

definition holds_permit :: "origin_permit \<Rightarrow> origin_permit \<Rightarrow> bool" where
  "holds_permit permit p \<longleftrightarrow> pm_permitId p = pm_permitId permit \<and> pm_workerId p = pm_workerId permit"

definition co_renewOrigin ::
  "timestamp \<Rightarrow> origin_permit \<Rightarrow> int \<Rightarrow> coordination
     \<Rightarrow> (coordination_error, origin_permit) result \<times> coordination"
where
  "co_renewOrigin now permit leaseDurationMs co =
     (let expiresAt = now + leaseDurationMs;
          (n, ps) = update_where (holds_permit permit) (\<lambda>p. p\<lparr>pm_expiresAt := expiresAt\<rparr>) (co_permits co)
      in (if n \<noteq> 1 then Inl StalePermit else Inr (permit\<lparr>pm_expiresAt := expiresAt\<rparr>), co\<lparr>co_permits := ps\<rparr>))"

definition co_releaseOrigin :: "origin_permit \<Rightarrow> coordination \<Rightarrow> coordination" where
  "co_releaseOrigin permit co = co\<lparr>co_permits := delete_where (holds_permit permit) (co_permits co)\<rparr>"

section \<open>Sessions\<close>

record worker_session =
  ws_workerId :: string
  ws_runId :: string
  ws_started :: bool     \<comment> \<open>the record is set and the timer runs\<close>

definition session_start ::
  "process \<Rightarrow> timestamp \<Rightarrow> worker_session \<Rightarrow> coordination
     \<Rightarrow> (coordination_error, worker_row) result \<times> worker_session \<times> coordination"
where
  "session_start pr now s co =
     (if ws_started s then (Inl SessionStarted, s, co)
      else let (row, co) = co_register pr now (ws_workerId s) (ws_runId s) co
           in (Inr row, s\<lparr>ws_started := True\<rparr>, co))"

definition session_tick ::
  "timestamp \<Rightarrow> worker_session \<Rightarrow> coordination \<Rightarrow> (coordination_error, unit) result \<times> coordination"
where
  "session_tick now s co = (if ws_started s then co_heartbeat now (ws_workerId s) co else (Inr (), co))"

definition session_stop :: "timestamp \<Rightarrow> worker_status \<Rightarrow> worker_session \<Rightarrow> coordination \<Rightarrow> worker_session \<times> coordination" where
  "session_stop now status s co =
     (if \<not> ws_started s then (s, co)
      else (s\<lparr>ws_started := False\<rparr>, co_stop now (ws_workerId s) status co))"

end
