(* ===== verification/Worker_Protocol.thy ===== *)
theory Worker_Protocol
  imports Record_Codec
begin

text \<open>
  The messages between workers and their parser, \<open>workers/protocol.ts\<close>. A time in a message is its
  text; \<open>is_date\<close> says whether \<open>Date.parse\<close> gives a finite number for it. The object that is parsed has
  each key once.
\<close>

definition worker_protocol :: string where
  "worker_protocol = ''site-crawler.worker.v1''"

record message_base =
  mb_workerId :: string
  mb_runId :: string
  mb_sentAt :: string

datatype worker_payload =
    WHello int string "string list"                   \<comment> \<open>pid, host, capabilities\<close>
  | WReady int                                        \<comment> \<open>capacity\<close>
  | WHeartbeat int int                                \<comment> \<open>active and completed requests\<close>
  | WLeaseRequest int "string list"                   \<comment> \<open>capacity, accepted origins\<close>
  | WLeaseGranted string string crawl_request         \<comment> \<open>lease id, expiry\<close>
  | WLeaseEmpty int                                   \<comment> \<open>retry after, milliseconds\<close>
  | WLeaseRenew string string string                  \<comment> \<open>lease id, request id, expiry\<close>
  | WRequestTerminal string string terminal_request_state "string option"
  | WStopping string
  | WStopped int
  | WError string string bool                         \<comment> \<open>code, message, fatal\<close>

type_synonym worker_message = "message_base \<times> worker_payload"

section \<open>Writing\<close>

fun message_type :: "worker_payload \<Rightarrow> string" where
  "message_type (WHello p h c) = ''hello''"
| "message_type (WReady c) = ''ready''"
| "message_type (WHeartbeat a c) = ''heartbeat''"
| "message_type (WLeaseRequest c os) = ''lease-request''"
| "message_type (WLeaseGranted l e r) = ''lease-granted''"
| "message_type (WLeaseEmpty ms) = ''lease-empty''"
| "message_type (WLeaseRenew l r e) = ''lease-renew''"
| "message_type (WRequestTerminal l r s m) = ''request-terminal''"
| "message_type (WStopping m) = ''stopping''"
| "message_type (WStopped c) = ''stopped''"
| "message_type (WError c m f) = ''error''"

abbreviation JInt :: "int \<Rightarrow> json" where
  "JInt i \<equiv> JNum (of_int i)"

fun message_fields :: "(timestamp \<Rightarrow> string) \<Rightarrow> worker_payload \<Rightarrow> (string \<times> json) list" where
  "message_fields iso_of (WHello p h c) =
     [(''pid'', JInt p), (''host'', JStr h), (''capabilities'', JArr (map JStr c))]"
| "message_fields iso_of (WReady c) = [(''capacity'', JInt c)]"
| "message_fields iso_of (WHeartbeat a c) = [(''activeRequests'', JInt a), (''completedRequests'', JInt c)]"
| "message_fields iso_of (WLeaseRequest c os) =
     [(''capacity'', JInt c), (''acceptedOrigins'', JArr (map JStr os))]"
| "message_fields iso_of (WLeaseGranted l e r) =
     [(''leaseId'', JStr l), (''expiresAt'', JStr e), (''request'', crawl_request_json iso_of r)]"
| "message_fields iso_of (WLeaseEmpty ms) = [(''retryAfterMs'', JInt ms)]"
| "message_fields iso_of (WLeaseRenew l r e) =
     [(''leaseId'', JStr l), (''requestId'', JStr r), (''expiresAt'', JStr e)]"
| "message_fields iso_of (WRequestTerminal l r s m) =
     [(''leaseId'', JStr l), (''requestId'', JStr r), (''state'', JStr (terminal_name s)), (''reason'', opt_str m)]"
| "message_fields iso_of (WStopping m) = [(''reason'', JStr m)]"
| "message_fields iso_of (WStopped c) = [(''completedRequests'', JInt c)]"
| "message_fields iso_of (WError c m f) = [(''code'', JStr c), (''message'', JStr m), (''fatal'', JBool f)]"

text \<open>The object of a message; \<open>encodeWorkerMessage\<close> writes its text and a line end.\<close>

definition message_json :: "(timestamp \<Rightarrow> string) \<Rightarrow> worker_message \<Rightarrow> json" where
  "message_json iso_of m =
     JObj ([(''protocolVersion'', JStr worker_protocol), (''workerId'', JStr (mb_workerId (fst m))),
            (''runId'', JStr (mb_runId (fst m))), (''sentAt'', JStr (mb_sentAt (fst m))),
            (''type'', JStr (message_type (snd m)))] @ message_fields iso_of (snd m))"

definition encodeWorkerMessage :: "(json \<Rightarrow> string) \<Rightarrow> (timestamp \<Rightarrow> string) \<Rightarrow> worker_message \<Rightarrow> string" where
  "encodeWorkerMessage stringify iso_of m = stringify (message_json iso_of m) @ [CHR 10]"

section \<open>Fields\<close>

definition message_string :: "(string \<times> json) list \<Rightarrow> string \<Rightarrow> string parsed" where
  "message_string fs k =
     (case field fs k of Some (JStr s) \<Rightarrow> if s = [] then Inl (BadField k) else Inr s | _ \<Rightarrow> Inl (BadField k))"

definition message_nullable :: "(string \<times> json) list \<Rightarrow> string \<Rightarrow> string option parsed" where
  "message_nullable fs k =
     (case field fs k of Some JNull \<Rightarrow> Inr None | Some (JStr s) \<Rightarrow> Inr (Some s) | _ \<Rightarrow> Inl (BadField k))"

definition message_timestamp :: "(string \<Rightarrow> bool) \<Rightarrow> (string \<times> json) list \<Rightarrow> string \<Rightarrow> string parsed" where
  "message_timestamp is_date fs k =
     bind_result (message_string fs k) (\<lambda>s. if is_date s then Inr s else Inl (MalformedValue k))"

definition message_integer :: "(string \<times> json) list \<Rightarrow> string \<Rightarrow> int \<Rightarrow> int parsed" where
  "message_integer fs k minimum =
     (case field fs k of
        Some (JNum n) \<Rightarrow> if n \<noteq> of_int \<lfloor>n\<rfloor> \<or> n < of_int minimum then Inl (BadField k) else Inr \<lfloor>n\<rfloor>
      | _ \<Rightarrow> Inl (BadField k))"

definition message_boolean :: "(string \<times> json) list \<Rightarrow> string \<Rightarrow> bool parsed" where
  "message_boolean fs k = (case field fs k of Some (JBool b) \<Rightarrow> Inr b | _ \<Rightarrow> Inl (BadField k))"

fun nonempty_strings :: "string \<Rightarrow> json list \<Rightarrow> string list parsed" where
  "nonempty_strings k [] = Inr []"
| "nonempty_strings k (v # vs) =
     (case v of
        JStr s \<Rightarrow> if s = [] then Inl (BadField k) else bind_result (nonempty_strings k vs) (\<lambda>ss. Inr (s # ss))
      | _ \<Rightarrow> Inl (BadField k))"

definition message_strings :: "(string \<times> json) list \<Rightarrow> string \<Rightarrow> string list parsed" where
  "message_strings fs k =
     (case field fs k of Some (JArr vs) \<Rightarrow> nonempty_strings k vs | _ \<Rightarrow> Inl (BadField k))"

definition terminalState :: "json option \<Rightarrow> terminal_request_state parsed" where
  "terminalState v = parse_name terminal_name [Handled, Failed, Skipped, Cancelled] ''terminal state'' v"

section \<open>Messages\<close>

definition parseBase :: "(string \<Rightarrow> bool) \<Rightarrow> (string \<times> json) list \<Rightarrow> message_base parsed" where
  "parseBase is_date fs =
     bind_result (message_string fs ''protocolVersion'') (\<lambda>protocolVersion.
       if protocolVersion \<noteq> worker_protocol then Inl (WrongSchema protocolVersion)
       else bind_result (message_string fs ''workerId'') (\<lambda>workerId.
            bind_result (message_string fs ''runId'') (\<lambda>runId.
            bind_result (message_timestamp is_date fs ''sentAt'') (\<lambda>sentAt.
              Inr \<lparr>mb_workerId = workerId, mb_runId = runId, mb_sentAt = sentAt\<rparr>))))"

definition parseHello :: "(string \<times> json) list \<Rightarrow> worker_payload parsed" where
  "parseHello fs =
     bind_result (message_integer fs ''pid'' 1) (\<lambda>pid.
     bind_result (message_string fs ''host'') (\<lambda>host.
     bind_result (message_strings fs ''capabilities'') (\<lambda>capabilities.
       Inr (WHello pid host capabilities))))"

definition parseHeartbeat :: "(string \<times> json) list \<Rightarrow> worker_payload parsed" where
  "parseHeartbeat fs =
     bind_result (message_integer fs ''activeRequests'' 0) (\<lambda>active.
     bind_result (message_integer fs ''completedRequests'' 0) (\<lambda>completed.
       Inr (WHeartbeat active completed)))"

definition parseError :: "(string \<times> json) list \<Rightarrow> worker_payload parsed" where
  "parseError fs =
     bind_result (message_string fs ''code'') (\<lambda>code.
     bind_result (message_string fs ''message'') (\<lambda>message.
     bind_result (message_boolean fs ''fatal'') (\<lambda>fatal.
       Inr (WError code message fatal))))"

definition parse_payload ::
  "(string \<Rightarrow> timestamp) \<Rightarrow> (string \<Rightarrow> bool) \<Rightarrow> (string \<times> json) list \<Rightarrow> worker_payload parsed"
where
  "parse_payload date is_date fs =
     (let type = field fs ''type''
      in if type = Some (JStr ''hello'') then parseHello fs
         else if type = Some (JStr ''ready'') then
           bind_result (message_integer fs ''capacity'' 1) (\<lambda>c. Inr (WReady c))
         else if type = Some (JStr ''heartbeat'') then parseHeartbeat fs
         else if type = Some (JStr ''lease-request'') then
           bind_result (message_integer fs ''capacity'' 1) (\<lambda>c.
           bind_result (message_strings fs ''acceptedOrigins'') (\<lambda>os. Inr (WLeaseRequest c os)))
         else if type = Some (JStr ''lease-granted'') then
           bind_result (message_string fs ''leaseId'') (\<lambda>l.
           bind_result (message_timestamp is_date fs ''expiresAt'') (\<lambda>e.
           bind_result (parseCrawlRequest date (field fs ''request'')) (\<lambda>r. Inr (WLeaseGranted l e r))))
         else if type = Some (JStr ''lease-empty'') then
           bind_result (message_integer fs ''retryAfterMs'' 0) (\<lambda>ms. Inr (WLeaseEmpty ms))
         else if type = Some (JStr ''lease-renew'') then
           bind_result (message_string fs ''leaseId'') (\<lambda>l.
           bind_result (message_string fs ''requestId'') (\<lambda>r.
           bind_result (message_timestamp is_date fs ''expiresAt'') (\<lambda>e. Inr (WLeaseRenew l r e))))
         else if type = Some (JStr ''request-terminal'') then
           bind_result (message_string fs ''leaseId'') (\<lambda>l.
           bind_result (message_string fs ''requestId'') (\<lambda>r.
           bind_result (terminalState (field fs ''state'')) (\<lambda>s.
           bind_result (message_nullable fs ''reason'') (\<lambda>m. Inr (WRequestTerminal l r s m)))))
         else if type = Some (JStr ''stopping'') then
           bind_result (message_string fs ''reason'') (\<lambda>m. Inr (WStopping m))
         else if type = Some (JStr ''stopped'') then
           bind_result (message_integer fs ''completedRequests'' 0) (\<lambda>c. Inr (WStopped c))
         else if type = Some (JStr ''error'') then parseError fs
         else Inl (MalformedValue ''type''))"

definition parseWorkerMessage ::
  "(string \<Rightarrow> timestamp) \<Rightarrow> (string \<Rightarrow> bool) \<Rightarrow> json option \<Rightarrow> worker_message parsed"
where
  "parseWorkerMessage date is_date v =
     (case v of
        Some (JObj fs) \<Rightarrow>
          bind_result (parseBase is_date fs) (\<lambda>base.
          bind_result (parse_payload date is_date fs) (\<lambda>payload. Inr (base, payload)))
      | _ \<Rightarrow> Inl (MustBeObject ''Worker message''))"

end
