(* ===== verification/Coordination_Properties.thy ===== *)
theory Coordination_Properties
  imports Worker_Coordination Worker_Protocol Stored_Records Frontier_Properties
begin

text \<open>
  What the coordination of worker processes promises: origins are not overloaded, however many
  processes acquire, renew, stop, crash and are recovered; and what the protocol of the workers
  promises: messages are read back as they were sent and nothing malformed passes.
\<close>

section \<open>Permits and spacing\<close>

text \<open>The operations of the processes, with the permits granted so far.\<close>

record co_system =
  cs_state :: coordination
  cs_granted :: "origin_permit list"

inductive co_step :: "platform \<Rightarrow> (timestamp \<Rightarrow> string) \<Rightarrow> acquire_options \<Rightarrow> co_system \<Rightarrow> co_system \<Rightarrow> bool"
  for pf show_ms opts
where
  register: "co_step pf show_ms opts s (s\<lparr>cs_state := snd (co_register pr now w run (cs_state s))\<rparr>)"
| heartbeat: "co_step pf show_ms opts s (s\<lparr>cs_state := snd (co_heartbeat now w (cs_state s))\<rparr>)"
| stop: "co_step pf show_ms opts s (s\<lparr>cs_state := co_stop now w status (cs_state s)\<rparr>)"
| recover: "co_step pf show_ms opts s (s\<lparr>cs_state := snd (co_recoverStale now ms (cs_state s))\<rparr>)"
| refused: "co_acquireOrigin pf show_ms now origin w opts (cs_state s) = (out, co) \<Longrightarrow>
     (\<And>permit. out \<noteq> Inr (Some permit)) \<Longrightarrow> co_step pf show_ms opts s (s\<lparr>cs_state := co\<rparr>)"
| granted: "co_acquireOrigin pf show_ms now origin w opts (cs_state s) = (Inr (Some permit), co) \<Longrightarrow>
     co_step pf show_ms opts s (s\<lparr>cs_state := co, cs_granted := cs_granted s @ [permit]\<rparr>)"
| renew: "co_step pf show_ms opts s (s\<lparr>cs_state := snd (co_renewOrigin now permit ms (cs_state s))\<rparr>)"
| release: "co_step pf show_ms opts s (s\<lparr>cs_state := co_releaseOrigin permit (cs_state s)\<rparr>)"

definition co_start :: co_system where
  "co_start = \<lparr>cs_state = new_coordination, cs_granted = []\<rparr>"

definition held_permits :: "coordination \<Rightarrow> string \<Rightarrow> nat" where
  "held_permits co origin = select_count (\<lambda>p. pm_origin p = origin) (co_permits co)"

definition next_allowed :: "coordination \<Rightarrow> string \<Rightarrow> timestamp option" where
  "next_allowed co origin =
     map_option og_nextAllowedAt (List.find (\<lambda>r. og_origin r = origin) (co_origins co))"

text \<open>Grants of one origin are at least \<open>d\<close> apart.\<close>

fun spaced :: "int \<Rightarrow> origin_permit list \<Rightarrow> bool" where
  "spaced d [] = True"
| "spaced d (p # ps) \<longleftrightarrow>
     list_all (\<lambda>q. pm_origin q = pm_origin p \<longrightarrow> pm_acquiredAt p + d \<le> pm_acquiredAt q) ps \<and> spaced d ps"

lemma spaced_append:
  "spaced d (ps @ [q]) \<longleftrightarrow>
     spaced d ps \<and> list_all (\<lambda>p. pm_origin q = pm_origin p \<longrightarrow> pm_acquiredAt p + d \<le> pm_acquiredAt q) ps"
  by (induction ps) (auto simp: list_all_iff)

definition co_inv :: "acquire_options \<Rightarrow> co_system \<Rightarrow> bool" where
  "co_inv opts s \<longleftrightarrow>
     (\<forall>origin. held_permits (cs_state s) origin \<le> ao_maxConcurrency opts) \<and>
     spaced (ao_minDelayMs opts) (cs_granted s) \<and>
     (\<forall>p \<in> set (cs_granted s). \<exists>t. next_allowed (cs_state s) (pm_origin p) = Some t \<and>
        pm_acquiredAt p + ao_minDelayMs opts \<le> t)"

text \<open>What is kept when permits only go and the origins stay.\<close>

lemma co_inv_fewer:
  assumes "co_inv opts s" "\<And>origin. held_permits co origin \<le> held_permits (cs_state s) origin"
    and "co_origins co = co_origins (cs_state s)"
  shows "co_inv opts (s\<lparr>cs_state := co\<rparr>)"
  using assms by (auto simp: co_inv_def next_allowed_def intro: le_trans)

lemma count_delete [simp]: "select_count C (delete_where P t) \<le> select_count C t"
  by (induction t) (auto simp: select_count_def delete_where_def)

lemma count_delete_many: "select_count C (foldl (\<lambda>ps w. delete_where (P w) ps) t ws) \<le> select_count C t"
proof (induction ws arbitrary: t)
  case (Cons w ws)
  then show ?case using le_trans [OF Cons.IH count_delete] by simp
qed simp

lemma count_update:
  "(\<And>r. C (f r) = C r) \<Longrightarrow> select_count C (snd (update_where P f t)) = select_count C t"
  by (induction t) (simp_all add: select_count_def update_where_def)

lemma next_allowed_upsert:
  "next_allowed (co\<lparr>co_permits := ps, co_origins := upsert og_origin
       (\<lambda>r. r\<lparr>og_nextAllowedAt := t, og_updatedAt := now\<rparr>)
       \<lparr>og_origin = origin, og_nextAllowedAt = t, og_updatedAt = now\<rparr> (co_origins co)\<rparr>) origin' =
     (if origin' = origin then Some t else next_allowed co origin')"
proof -
  let ?f = "\<lambda>q. if og_origin q = origin then q\<lparr>og_nextAllowedAt := t, og_updatedAt := now\<rparr> else q"
  have found: "map_option og_nextAllowedAt (List.find (\<lambda>r. og_origin r = origin) (map ?f rs)) = Some t"
    if "origin \<in> og_origin ` set rs" for rs
    using that by (induction rs) auto
  have other: "map_option og_nextAllowedAt (List.find (\<lambda>r. og_origin r = origin') (map ?f rs)) =
      map_option og_nextAllowedAt (List.find (\<lambda>r. og_origin r = origin') rs)" if "origin' \<noteq> origin" for rs
    using that by (induction rs) auto
  have new: "List.find (\<lambda>r. og_origin r = k) (rs @ [r]) =
      (case List.find (\<lambda>r. og_origin r = k) rs of None \<Rightarrow> if og_origin r = k then Some r else None | Some q \<Rightarrow> Some q)"
    for k rs and r :: origin_row
    by (induction rs) simp_all
  have absent: "List.find (\<lambda>r. og_origin r = origin) rs = None" if "origin \<notin> og_origin ` set rs" for rs
    using that by (induction rs) auto
  show ?thesis
    using found [of "co_origins co"] other [of "co_origins co"] absent [of "co_origins co"]
    by (auto simp: next_allowed_def upsert_def new split: option.split)
qed

lemma co_inv_granted:
  assumes inv: "co_inv opts s" and delay: "0 \<le> ao_minDelayMs opts"
    and acquire: "co_acquireOrigin pf show_ms now origin w opts (cs_state s) = (Inr (Some permit), co)"
  shows "co_inv opts (s\<lparr>cs_state := co, cs_granted := cs_granted s @ [permit]\<rparr>)"
proof -
  let ?co = "cs_state s"
  let ?ps = "delete_where (\<lambda>p. pm_expiresAt p \<le> now) (co_permits ?co)"
  have permit: "pm_origin permit = origin" "pm_acquiredAt permit = now"
    and co: "co = ?co\<lparr>co_permits := ?ps @ [permit], co_origins := upsert og_origin
        (\<lambda>r. r\<lparr>og_nextAllowedAt := now + ao_minDelayMs opts, og_updatedAt := now\<rparr>)
        \<lparr>og_origin = origin, og_nextAllowedAt = now + ao_minDelayMs opts, og_updatedAt = now\<rparr> (co_origins ?co)\<rparr>"
    and free: "select_count (\<lambda>p. pm_origin p = origin \<and> pm_expiresAt p > now) ?ps < ao_maxConcurrency opts"
    and wait: "(case List.find (\<lambda>r. og_origin r = origin) (co_origins ?co) of None \<Rightarrow> 0 | Some r \<Rightarrow> og_nextAllowedAt r) \<le> now"
    using acquire by (auto simp: co_acquireOrigin_def Let_def split: if_splits)
  have "filter (\<lambda>p. pm_origin p = origin \<and> pm_expiresAt p > now) ?ps = filter (\<lambda>p. pm_origin p = origin) ?ps"
    by (rule filter_cong) (auto simp: delete_where_def)
  then have few: "select_count (\<lambda>p. pm_origin p = origin) ?ps < ao_maxConcurrency opts"
    using free by (simp add: select_count_def)
  have bound: "held_permits co origin' \<le> ao_maxConcurrency opts" for origin'
  proof (cases "origin' = origin")
    case True
    then show ?thesis using few permit(1) by (simp add: held_permits_def co select_count_def)
  next
    case False
    have "select_count (\<lambda>p. pm_origin p = origin') ?ps \<le> held_permits ?co origin'"
      by (simp add: held_permits_def)
    also have "\<dots> \<le> ao_maxConcurrency opts" using inv by (simp add: co_inv_def)
    finally show ?thesis using False permit(1) by (simp add: held_permits_def co select_count_def)
  qed
  have known: "pm_acquiredAt p + ao_minDelayMs opts \<le> now" if "p \<in> set (cs_granted s)" "pm_origin p = origin" for p
    using that inv wait by (fastforce simp: co_inv_def next_allowed_def split: option.splits)
  have later: "next_allowed co origin' =
      (if origin' = origin then Some (now + ao_minDelayMs opts) else next_allowed ?co origin')" for origin'
    unfolding co by (rule next_allowed_upsert)
  show ?thesis
    unfolding co_inv_def
  proof (intro conjI allI ballI)
    show "held_permits (cs_state (s\<lparr>cs_state := co, cs_granted := cs_granted s @ [permit]\<rparr>)) origin'
        \<le> ao_maxConcurrency opts" for origin'
      using bound by simp
    show "spaced (ao_minDelayMs opts) (cs_granted (s\<lparr>cs_state := co, cs_granted := cs_granted s @ [permit]\<rparr>))"
      using inv known permit by (auto simp: spaced_append co_inv_def list_all_iff)
  next
    fix p
    assume p: "p \<in> set (cs_granted (s\<lparr>cs_state := co, cs_granted := cs_granted s @ [permit]\<rparr>))"
    show "\<exists>t. next_allowed (cs_state (s\<lparr>cs_state := co, cs_granted := cs_granted s @ [permit]\<rparr>)) (pm_origin p) = Some t \<and>
        pm_acquiredAt p + ao_minDelayMs opts \<le> t"
    proof (cases "p = permit")
      case True
      then show ?thesis using permit by (simp add: later)
    next
      case False
      then have p': "p \<in> set (cs_granted s)" using p by simp
      show ?thesis
      proof (cases "pm_origin p = origin")
        case True
        then show ?thesis using known [OF p' True] delay by (simp add: later)
      next
        case False
        then show ?thesis using inv p' by (auto simp: co_inv_def later)
      qed
    qed
  qed
qed

lemma co_inv_step:
  assumes "co_step pf show_ms opts s t" "co_inv opts s" "0 \<le> ao_minDelayMs opts"
  shows "co_inv opts t"
  using assms(1)
proof cases
  case (register pr now w run)
  then show ?thesis
    by (auto intro!: co_inv_fewer [OF assms(2)] simp: co_register_def held_permits_def Let_def)
next
  case (heartbeat now w)
  then show ?thesis
    by (auto intro!: co_inv_fewer [OF assms(2)] simp: co_heartbeat_def held_permits_def Let_def prod.case_eq_if)
next
  case (stop now w status)
  then show ?thesis
    by (auto intro!: co_inv_fewer [OF assms(2)] simp: co_stop_def held_permits_def)
next
  case (recover now ms)
  then show ?thesis
    by (auto intro!: co_inv_fewer [OF assms(2)] count_delete_many
        simp: co_recoverStale_def held_permits_def Let_def prod.case_eq_if)
next
  case (refused now origin w out co)
  then show ?thesis
    by (auto intro!: co_inv_fewer [OF assms(2)] simp: co_acquireOrigin_def held_permits_def Let_def split: if_splits)
next
  case (granted now origin w permit co)
  then show ?thesis using co_inv_granted [OF assms(2,3)] by simp
next
  case (renew now permit ms)
  have "select_count (\<lambda>p. pm_origin p = origin) (snd (update_where (holds_permit permit)
      (\<lambda>p. p\<lparr>pm_expiresAt := now + ms\<rparr>) (co_permits (cs_state s)))) =
    select_count (\<lambda>p. pm_origin p = origin) (co_permits (cs_state s))" for origin
    by (rule count_update) simp
  with renew show ?thesis
    by (auto intro!: co_inv_fewer [OF assms(2)] simp: co_renewOrigin_def held_permits_def Let_def prod.case_eq_if)
next
  case (release permit)
  then show ?thesis
    by (auto intro!: co_inv_fewer [OF assms(2)] simp: co_releaseOrigin_def held_permits_def)
qed

text \<open>
  C22: Worker processes together respect the limits of an origin. Whatever processes register, send
  heartbeats, acquire, renew and release permits, stop, crash and are recovered, in any order and with
  any clocks, no origin ever has more permits than the configured concurrency, and any two permits
  granted for an origin were granted at least the configured delay apart.
\<close>

theorem origins_not_overloaded:
  assumes "(co_step pf show_ms opts)\<^sup>*\<^sup>* co_start s" "0 \<le> ao_minDelayMs opts"
  shows "held_permits (cs_state s) origin \<le> ao_maxConcurrency opts \<and> spaced (ao_minDelayMs opts) (cs_granted s)"
proof -
  from assms(1) have "co_inv opts s"
  proof induction
    case base
    show ?case by (simp add: co_inv_def co_start_def new_coordination_def held_permits_def select_count_def)
  next
    case (step s t)
    from co_inv_step [OF step(2,3) assms(2)] show ?case .
  qed
  then show ?thesis by (simp add: co_inv_def)
qed

text \<open>
  A worker that registers again under another run or from another process is given a record that
  the table does not hold: the row keeps the run, host and process of the first registration, and the
  worker is not listed for its new run.
\<close>

lemma reregistered_worker_keeps_identity:
  assumes "co_workers co = [row]" "wr_workerId row = w" "wr_runId row \<noteq> run"
  shows "wr_runId (fst (co_register pr now w run co)) = run \<and>
     co_workers (snd (co_register pr now w run co)) = [row\<lparr>wr_heartbeatAt := now, wr_status := WsActive\<rparr>] \<and>
     co_listed run (snd (co_register pr now w run co)) = []"
  using assms by (simp add: co_register_def upsert_def co_listed_def Let_def)

section \<open>The protocol\<close>

fun payload_ok :: "(string \<Rightarrow> bool) \<Rightarrow> worker_payload \<Rightarrow> bool" where
  "payload_ok is_date (WHello p h c) \<longleftrightarrow> 1 \<le> p \<and> h \<noteq> [] \<and> [] \<notin> set c"
| "payload_ok is_date (WReady c) \<longleftrightarrow> 1 \<le> c"
| "payload_ok is_date (WHeartbeat a c) \<longleftrightarrow> 0 \<le> a \<and> 0 \<le> c"
| "payload_ok is_date (WLeaseRequest c os) \<longleftrightarrow> 1 \<le> c \<and> [] \<notin> set os"
| "payload_ok is_date (WLeaseGranted l e r) \<longleftrightarrow> l \<noteq> [] \<and> e \<noteq> [] \<and> is_date e \<and> request_wf r"
| "payload_ok is_date (WLeaseEmpty ms) \<longleftrightarrow> 0 \<le> ms"
| "payload_ok is_date (WLeaseRenew l r e) \<longleftrightarrow> l \<noteq> [] \<and> r \<noteq> [] \<and> e \<noteq> [] \<and> is_date e"
| "payload_ok is_date (WRequestTerminal l r s m) \<longleftrightarrow> l \<noteq> [] \<and> r \<noteq> []"
| "payload_ok is_date (WStopping m) \<longleftrightarrow> m \<noteq> []"
| "payload_ok is_date (WStopped c) \<longleftrightarrow> 0 \<le> c"
| "payload_ok is_date (WError c m f) \<longleftrightarrow> c \<noteq> [] \<and> m \<noteq> []"

definition message_ok :: "(string \<Rightarrow> bool) \<Rightarrow> worker_message \<Rightarrow> bool" where
  "message_ok is_date m \<longleftrightarrow>
     mb_workerId (fst m) \<noteq> [] \<and> mb_runId (fst m) \<noteq> [] \<and> mb_sentAt (fst m) \<noteq> [] \<and> is_date (mb_sentAt (fst m)) \<and>
     payload_ok is_date (snd m)"

lemma nonempty_strings_written: "[] \<notin> set ss \<Longrightarrow> nonempty_strings k (map JStr ss) = Inr ss"
  by (induction ss) auto

lemma nonempty_strings_read: "nonempty_strings k vs = Inr ss \<Longrightarrow> [] \<notin> set ss"
  by (induction vs arbitrary: ss) (auto simp: bind_result_Inr split: json.splits if_splits)

lemmas message_field_defs = message_string_def message_nullable_def message_timestamp_def message_integer_def
  message_boolean_def message_strings_def terminalState_def

lemma terminalState_written [simp]: "terminalState (Some (JStr (terminal_name t))) = Inr t"
  by (cases t) (simp_all add: terminalState_def parse_name_def)

lemma message_nullable_written: "field fs k = Some (opt_str m) \<Longrightarrow> message_nullable fs k = Inr m"
  by (cases m) (simp_all add: message_nullable_def)

lemma parse_payload_written:
  assumes "\<forall>t. date (iso_of t) = t" "payload_ok is_date p"
  shows "parse_payload date is_date ((''protocolVersion'', v1) # (''workerId'', v2) # (''runId'', v3) # (''sentAt'', v4) #
     (''type'', JStr (message_type p)) # message_fields iso_of p) = Inr p"
  using assms parseCrawlRequest_written [OF assms(1)]
  by (cases p)
    (simp_all add: parse_payload_def parseHello_def parseHeartbeat_def parseError_def Let_def nonempty_strings_written
      message_nullable_written message_string_def message_timestamp_def message_integer_def message_boolean_def
      message_strings_def)

lemma foldl_map_set_wf: "wf_map out \<Longrightarrow> wf_map (foldl (\<lambda>out (k, x). map_set k x out) out fs)"
  by (induction fs arbitrary: out) auto

lemma record_of_wf: "record_of v name = Inr fs \<Longrightarrow> wf_map fs"
  by (auto simp: record_of_def foldl_map_set_wf split: option.splits json.splits)

lemma string_entries_wf: "string_entries name fs out = Inr hs \<Longrightarrow> wf_map out \<Longrightarrow> wf_map hs"
  by (induction name fs out rule: string_entries.induct) auto

lemma parsed_request_wf: "parseCrawlRequest date v = Inr r \<Longrightarrow> request_wf r"
  by (auto simp: parseCrawlRequest_def bind_result_Inr request_wf_def parseStringRecord_def
      dest: record_of_wf string_entries_wf)

lemma message_string_read: "message_string fs k = Inr s \<Longrightarrow> s \<noteq> []"
  by (auto simp: message_string_def split: option.splits json.splits if_splits)

lemma message_timestamp_read: "message_timestamp is_date fs k = Inr s \<Longrightarrow> s \<noteq> [] \<and> is_date s"
  by (auto simp: message_timestamp_def bind_result_Inr dest: message_string_read split: if_splits)

lemma message_integer_read: "message_integer fs k b = Inr i \<Longrightarrow> b \<le> i"
  by (auto simp: message_integer_def le_floor_iff split: option.splits json.splits if_splits)

lemma message_strings_read: "message_strings fs k = Inr ss \<Longrightarrow> [] \<notin> set ss"
  by (auto simp: message_strings_def dest: nonempty_strings_read split: option.splits json.splits)

lemma parse_payload_ok: "parse_payload date is_date fs = Inr p \<Longrightarrow> payload_ok is_date p"
  by (auto simp: parse_payload_def parseHello_def parseHeartbeat_def parseError_def Let_def bind_result_Inr
      split: if_splits dest: message_string_read message_timestamp_read message_integer_read message_strings_read
      parsed_request_wf)

text \<open>
  C23: The protocol of the workers is exact. A message parses to a value that satisfies every
  constraint of its type, non-empty ids, valid times, counts within bounds; and a value that does is
  read back from its encoding as the same message.
\<close>

theorem worker_protocol_exact:
  assumes "\<forall>t. date (iso_of t) = t"
  shows "((\<exists>v. parseWorkerMessage date is_date v = Inr m) \<longleftrightarrow> message_ok is_date m) \<and>
     (message_ok is_date m \<longleftrightarrow> parseWorkerMessage date is_date (Some (message_json iso_of m)) = Inr m)"
proof -
  obtain base p where m: "m = (base, p)" by (cases m)
  have ok: "message_ok is_date m" if "parseWorkerMessage date is_date v = Inr m" for v
    using that parse_payload_ok
    by (auto simp: parseWorkerMessage_def parseBase_def bind_result_Inr message_ok_def m
        dest: message_string_read message_timestamp_read split: option.splits json.splits if_splits)
  have reread: "parseWorkerMessage date is_date (Some (message_json iso_of m)) = Inr m" if "message_ok is_date m"
    using that parse_payload_written [OF assms, of is_date p]
    by (simp add: m message_ok_def parseWorkerMessage_def message_json_def parseBase_def message_string_def
        message_timestamp_def worker_protocol_def)
  show ?thesis using ok reread by blast
qed

section \<open>A sample\<close>

definition sample_options :: acquire_options where
  "sample_options = \<lparr>ao_maxConcurrency = 1, ao_minDelayMs = 10, ao_leaseDurationMs = 50\<rparr>"

definition sample_registered :: coordination where
  "sample_registered =
     snd (co_register \<lparr>pr_host = ''h'', pr_pid = 7\<rparr> 0 ''w'' ''run'' new_coordination)"

definition sample_granted_to :: "(coordination_error, origin_permit option) result \<times> coordination" where
  "sample_granted_to = co_acquireOrigin sample_platform (\<lambda>_. ''t'') 5 ''http://a'' ''w'' sample_options sample_registered"

lemma origins_not_overloaded_witness:
  "held_permits (snd sample_granted_to) ''http://a'' \<le> 1 \<and>
   spaced 10 [the (projr (fst sample_granted_to))]"
proof -
  let ?s = "co_start\<lparr>cs_state := sample_registered\<rparr>" and ?permit = "the (projr (fst sample_granted_to))"
  have "fst sample_granted_to = Inr (Some ?permit)" by code_simp
  then have "co_acquireOrigin sample_platform (\<lambda>_. ''t'') 5 ''http://a'' ''w'' sample_options (cs_state ?s) =
      (Inr (Some ?permit), snd sample_granted_to)"
    unfolding sample_granted_to_def by (simp add: prod_eq_iff)
  note granted = co_step.granted [OF this]
  have "co_step sample_platform (\<lambda>_. ''t'') sample_options co_start ?s"
    using co_step.register [of sample_platform "\<lambda>_. ''t''" sample_options co_start "\<lparr>pr_host = ''h'', pr_pid = 7\<rparr>" 0 "''w''" "''run''"]
    by (simp add: sample_registered_def co_start_def)
  with granted have "(co_step sample_platform (\<lambda>_. ''t'') sample_options)\<^sup>*\<^sup>* co_start
      (?s\<lparr>cs_state := snd sample_granted_to, cs_granted := cs_granted ?s @ [?permit]\<rparr>)"
    by (blast intro: rtranclp.rtrancl_into_rtrancl)
  from origins_not_overloaded [OF this, of "''http://a''"] show ?thesis
    by (simp add: sample_options_def co_start_def)
qed

lemma worker_protocol_exact_witness:
  "parseWorkerMessage sample_date (\<lambda>s. s = ''t'') (Some (message_json sample_iso
     (\<lparr>mb_workerId = ''w'', mb_runId = ''run'', mb_sentAt = ''t''\<rparr>, WLeaseGranted ''l'' ''t'' sample_first))) =
   Inr (\<lparr>mb_workerId = ''w'', mb_runId = ''run'', mb_sentAt = ''t''\<rparr>, WLeaseGranted ''l'' ''t'' sample_first)"
proof -
  have "request_wf sample_first" by code_simp
  then have "message_ok (\<lambda>s. s = ''t'')
      (\<lparr>mb_workerId = ''w'', mb_runId = ''run'', mb_sentAt = ''t''\<rparr>, WLeaseGranted ''l'' ''t'' sample_first)"
    by (simp add: message_ok_def)
  with worker_protocol_exact [OF sample_date_iso] show ?thesis by blast
qed

end
