(* ===== verification/Stable_Json.thy ===== *)
theory Stable_Json
  imports Prelude
begin

text \<open>
  The text by which values are compared across runs: \<open>stableJson\<close> and \<open>stableHash\<close> of
  \<open>diff/compare.ts\<close> and \<open>replay/projection.ts\<close>. \<open>text_of\<close> is \<open>JSON.stringify\<close> on strings, numbers,
  booleans and null.
\<close>

definition join :: "string \<Rightarrow> string list \<Rightarrow> string" where
  "join sep xs = (case xs of [] \<Rightarrow> [] | y # ys \<Rightarrow> y @ concat (map (\<lambda>z. sep @ z) ys))"

lemma join_simps [simp]:
  "join sep [] = []" "join sep (y # ys) = y @ concat (map (\<lambda>z. sep @ z) ys)"
  by (simp_all add: join_def)

primrec stableJson :: "(json \<Rightarrow> string) \<Rightarrow> json \<Rightarrow> string" where
  "stableJson text_of (JArr vs) = ''['' @ join '','' (map (stableJson text_of) vs) @ '']''"
| "stableJson text_of (JObj fs) = ''{'' @
     join '','' (map (\<lambda>(k, v). text_of (JStr k) @ '':'' @ v)
       (sort_key fst (map (map_prod id (stableJson text_of)) fs))) @ ''}''"
| "stableJson text_of JNull = text_of JNull"
| "stableJson text_of (JBool b) = text_of (JBool b)"
| "stableJson text_of (JNum n) = text_of (JNum n)"
| "stableJson text_of (JStr s) = text_of (JStr s)"

text \<open>A field that is missing is \<open>undefined\<close>, whose text is \<open>null\<close>.\<close>

definition stableHash :: "(string \<Rightarrow> string) \<Rightarrow> (json \<Rightarrow> string) \<Rightarrow> json option \<Rightarrow> string" where
  "stableHash sha text_of v = sha (case v of None \<Rightarrow> ''null'' | Some v \<Rightarrow> stableJson text_of v)"

section \<open>Values up to the order of keys\<close>

primrec canon :: "json \<Rightarrow> json" where
  "canon (JArr vs) = JArr (map canon vs)"
| "canon (JObj fs) = JObj (sort_key fst (map (map_prod id canon) fs))"
| "canon JNull = JNull"
| "canon (JBool b) = JBool b"
| "canon (JNum n) = JNum n"
| "canon (JStr s) = JStr s"

fun compound :: "json \<Rightarrow> bool" where
  "compound (JArr vs) = True"
| "compound (JObj fs) = True"
| "compound v = False"

lemma sort_key_map_prod: "sort_key fst (map (map_prod id f) fs) = map (map_prod id f) (sort_key fst fs)"
proof (induction fs)
  case (Cons x fs)
  have "insort_key fst (map_prod id f x) (map (map_prod id f) ys) = map (map_prod id f) (insort_key fst x ys)" for ys
    by (induction ys) auto
  then show ?case using Cons by (simp add: id_def)
qed simp

text \<open>
  What the text of primitive values must give: it can be told from what follows it, and does not begin
  like the text of a compound value or end one.
\<close>

definition ends_value :: "string \<Rightarrow> bool" where
  "ends_value s \<longleftrightarrow> (s = [] \<or> hd s \<in> set '',:]}'')"

definition text_laws :: "(json \<Rightarrow> string) \<Rightarrow> bool" where
  "text_laws text_of \<longleftrightarrow>
     (\<forall>p q s t. \<not> compound p \<longrightarrow> \<not> compound q \<longrightarrow> ends_value s \<longrightarrow> ends_value t \<longrightarrow>
        text_of p @ s = text_of q @ t \<longrightarrow> p = q \<and> s = t) \<and>
     (\<forall>p. \<not> compound p \<longrightarrow> text_of p \<noteq> [] \<and> hd (text_of p) \<notin> set ''[{]},:'')"

lemma ends_value_simps [simp]:
  "ends_value []" "ends_value (CHR '','' # s)" "ends_value (CHR '']'' # s)" "ends_value (CHR ''}'' # s)"
  "ends_value (CHR '':'' # s)"
  by (simp_all add: ends_value_def)

text \<open>The text begins with a character that tells arrays, objects and primitives apart.\<close>

lemma stableJson_begin:
  assumes "text_laws text_of"
  shows "\<exists>c s. stableJson text_of v = c # s \<and> (c = CHR ''['' \<longleftrightarrow> (\<exists>vs. v = JArr vs)) \<and>
     (c = CHR ''{'' \<longleftrightarrow> (\<exists>fs. v = JObj fs)) \<and> c \<notin> set '']},:''"
proof (cases "compound v")
  case True
  then show ?thesis by (cases v) auto
next
  case False
  then have "text_of v \<noteq> []" "hd (text_of v) \<notin> set ''[{]},:''" using assms by (auto simp: text_laws_def)
  moreover have "stableJson text_of v = text_of v" using False by (cases v) auto
  ultimately show ?thesis using False by (cases "text_of v"; cases v) auto
qed

lemma compound_begin:
  assumes "text_laws text_of" "stableJson text_of v = c # s"
  shows "compound v \<longleftrightarrow> c = CHR ''['' \<or> c = CHR ''{''"
  using stableJson_begin [OF assms(1), of v] assms(2) by (cases v) auto

text \<open>Items that can be told from what follows them can be told apart in a comma-separated list.\<close>

definition told_apart :: "('a \<Rightarrow> string) \<Rightarrow> ('a \<Rightarrow> 'b) \<Rightarrow> 'a \<Rightarrow> bool" where
  "told_apart f g x \<longleftrightarrow>
     (\<forall>y s t. ends_value s \<longrightarrow> ends_value t \<longrightarrow> f x @ s = f y @ t \<longrightarrow> g x = g y \<and> s = t)"

lemma told_apartD: "told_apart f g x \<Longrightarrow> ends_value s \<Longrightarrow> ends_value t \<Longrightarrow> f x @ s = f y @ t \<Longrightarrow> g x = g y \<and> s = t"
  unfolding told_apart_def by blast

lemma tail_unique:
  assumes "\<forall>x \<in> set xs. told_apart f g x" and c: "c = CHR '']'' \<or> c = CHR ''}''"
    and "concat (map (\<lambda>x. CHR '','' # f x) xs) @ c # s = concat (map (\<lambda>x. CHR '','' # f x) ys) @ c # t"
  shows "map g xs = map g ys \<and> s = t"
  using assms(1,3)
proof (induction xs arbitrary: ys)
  case Nil
  then show ?case using c by (cases ys) auto
next
  case (Cons x xs)
  then obtain y ys' where ys: "ys = y # ys'" using c by (cases ys) auto
  let ?tail = "\<lambda>zs s. concat (map (\<lambda>x. CHR '','' # f x) zs) @ c # s"
  have ends: "ends_value (?tail zs s)" for zs s using c by (cases zs) auto
  have "f x @ ?tail xs s = f y @ ?tail ys' t" using Cons.prems(2) ys by simp
  from told_apartD [where f = f and g = g and x = x and y = y, OF _ ends [of xs s] ends [of ys' t] this] Cons.prems(1)
  have "g x = g y" "?tail xs s = ?tail ys' t" by auto
  then show ?case using Cons.IH [of ys'] Cons.prems(1) ys by simp
qed

lemma join_unique:
  assumes item: "\<forall>x \<in> set xs. told_apart f g x" and c: "c = CHR '']'' \<or> c = CHR ''}''"
    and start: "\<forall>x. f x \<noteq> [] \<and> hd (f x) \<noteq> c"
    and eq: "join '','' (map f xs) @ c # s = join '','' (map f ys) @ c # t"
  shows "map g xs = map g ys \<and> s = t"
proof (cases xs)
  case Nil
  show ?thesis
  proof (cases ys)
    case (Cons y ys')
    from start have "f y \<noteq> [] \<and> hd (f y) \<noteq> c" ..
    then show ?thesis using eq Nil Cons by (cases "f y") auto
  qed (use eq Nil in simp)
next
  case (Cons x xs')
  let ?tail = "\<lambda>zs s. concat (map (\<lambda>x. CHR '','' # f x) zs) @ c # s"
  have ends: "ends_value (?tail zs s)" for zs s using c by (cases zs) auto
  obtain y ys' where ys: "ys = y # ys'"
  proof (cases ys)
    case Nil
    from start have "f x \<noteq> [] \<and> hd (f x) \<noteq> c" ..
    then show ?thesis using eq Nil Cons by (cases "f x") auto
  qed
  have "f x @ ?tail xs' s = f y @ ?tail ys' t" using eq Cons ys by (simp add: comp_def)
  from told_apartD [where f = f and g = g and x = x and y = y, OF _ ends [of xs' s] ends [of ys' t] this] item Cons
  have "g x = g y" "?tail xs' s = ?tail ys' t" by auto
  moreover from tail_unique [where f = f and g = g and xs = xs' and ys = ys', OF _ c this(2)] item Cons have "map g xs' = map g ys' \<and> s = t" by simp
  ultimately show ?thesis using Cons ys by simp
qed

lemma text_told_apart:
  assumes "text_laws text_of" "\<not> compound v"
  shows "told_apart (stableJson text_of) canon v"
  unfolding told_apart_def
proof (intro allI impI)
  fix w s t
  assume ends: "ends_value s" "ends_value t" and eq: "stableJson text_of v @ s = stableJson text_of w @ t"
  have "\<not> compound w"
  proof -
    obtain c s' d t' where start: "stableJson text_of v = c # s'" "stableJson text_of w = d # t'"
      using stableJson_begin [OF assms(1)] by metis
    then have "c = d" using eq by simp
    then show ?thesis using compound_begin [OF assms(1) start(1)] compound_begin [OF assms(1) start(2)] assms(2) by simp
  qed
  moreover have prim: "stableJson text_of u = text_of u \<and> canon u = u" if "\<not> compound u" for u using that by (cases u) auto
  ultimately show "canon v = canon w \<and> s = t"
    using assms ends eq prim [of v] prim [of w] unfolding text_laws_def by metis
qed

lemma stableJson_told_apart:
  assumes laws: "text_laws text_of"
  shows "told_apart (stableJson text_of) canon v"
proof (induction v)
  case (JArr vs)
  have start: "\<forall>x. stableJson text_of x \<noteq> [] \<and> hd (stableJson text_of x) \<noteq> CHR '']''"
  proof
    fix x
    from stableJson_begin [OF laws, of x]
    show "stableJson text_of x \<noteq> [] \<and> hd (stableJson text_of x) \<noteq> CHR '']''" by auto
  qed
  show ?case
    unfolding told_apart_def
  proof (intro allI impI)
    fix w s t
    assume eq: "stableJson text_of (JArr vs) @ s = stableJson text_of w @ t"
    then obtain ws where w: "w = JArr ws" using stableJson_begin [OF laws, of w] by auto
    from join_unique [of vs "stableJson text_of" canon "CHR '']''" s ws t] JArr start eq
    show "canon (JArr vs) = canon w \<and> s = t" by (simp add: w)
  qed
next
  case (JObj fs)
  let ?f = "\<lambda>(k, v). text_of (JStr k) @ '':'' @ stableJson text_of v" and ?g = "map_prod id canon"
  have written: "stableJson text_of (JObj hs) = ''{'' @ join '','' (map ?f (sort_key fst hs)) @ ''}''" for hs
    by (simp add: sort_key_map_prod comp_def case_prod_beta) (intro arg_cong [where f = "join '',''"] map_cong; simp add: case_prod_beta)
  have item: "told_apart ?f ?g x" if "x \<in> set fs" for x
    unfolding told_apart_def
  proof (intro allI impI)
    fix y s t
    assume ends: "ends_value s" "ends_value t" and eq: "?f x @ s = ?f y @ t"
    obtain k v k' v' where xy: "x = (k, v)" "y = (k', v')" by fastforce
    from text_told_apart [OF laws, of "JStr k"] have "told_apart (stableJson text_of) canon (JStr k)" by simp
    from told_apartD [OF this, of "CHR '':'' # stableJson text_of v @ s" "CHR '':'' # stableJson text_of v' @ t" "JStr k'"]
    have "k = k'" "stableJson text_of v @ s = stableJson text_of v' @ t" using eq xy by simp_all
    moreover have apart: "told_apart (stableJson text_of) canon v" using JObj [of x v] that xy by simp
    ultimately show "?g x = ?g y \<and> s = t" using told_apartD [OF apart ends, of v'] xy by simp
  qed
  have start: "\<forall>x. ?f x \<noteq> [] \<and> hd (?f x) \<noteq> CHR ''}''"
  proof
    fix x :: "string \<times> json"
    have "text_of (JStr (fst x)) \<noteq> []" "hd (text_of (JStr (fst x))) \<notin> set ''[{]},:''"
      using laws by (auto simp: text_laws_def)
    then show "?f x \<noteq> [] \<and> hd (?f x) \<noteq> CHR ''}''" by (cases "text_of (JStr (fst x))") (auto simp: case_prod_beta)
  qed
  show ?case
    unfolding told_apart_def
  proof (intro allI impI)
    fix w s t
    assume eq: "stableJson text_of (JObj fs) @ s = stableJson text_of w @ t"
    then obtain gs where w: "w = JObj gs" using stableJson_begin [OF laws, of w] by auto
    have "join '','' (map ?f (sort_key fst fs)) @ CHR ''}'' # s = join '','' (map ?f (sort_key fst gs)) @ CHR ''}'' # t"
      using eq unfolding w written by simp
    from join_unique [OF _ _ start this, of ?g] item
    show "canon (JObj fs) = canon w \<and> s = t" by (simp add: w sort_key_map_prod)
  qed
qed (simp_all add: text_told_apart [OF laws])

lemma stableJson_canon: "stableJson text_of (canon v) = stableJson text_of v"
proof (induction v)
  case (JArr vs)
  then show ?case by (simp add: comp_def cong: map_cong)
next
  case (JObj fs)
  have "map (map_prod id (stableJson text_of)) (map (map_prod id canon) fs) = map (map_prod id (stableJson text_of)) fs"
    using JObj by (auto simp: map_prod_def)
  then have "map (map_prod id (stableJson text_of)) (sort_key fst (map (map_prod id canon) fs)) =
      sort_key fst (map (map_prod id (stableJson text_of)) fs)"
    by (metis sort_key_map_prod)
  then show ?case
    by (simp add: sort_key_map_prod [symmetric] sort_key_id_if_sorted del: map_map)
qed simp_all

lemma stableJson_same:
  assumes "text_laws text_of"
  shows "stableJson text_of v = stableJson text_of w \<longleftrightarrow> canon v = canon w"
proof
  assume "stableJson text_of v = stableJson text_of w"
  with told_apartD [OF stableJson_told_apart [OF assms, of v], of "[]" "[]" w] show "canon v = canon w" by simp
next
  assume "canon v = canon w"
  from arg_cong [OF this, of "stableJson text_of"] show "stableJson text_of v = stableJson text_of w"
    by (simp add: stableJson_canon)
qed

text \<open>
  C30: The text that is hashed stands for the value up to the order of keys: two values have the same
  text exactly when they are equal after their objects are sorted by key, at every depth.
\<close>

theorem stableJson_exact:
  assumes "text_laws text_of"
  shows "stableJson text_of v = stableJson text_of w \<longleftrightarrow> canon v = canon w"
  by (rule stableJson_same [OF assms])

text \<open>
  The laws hold of a way of writing primitive values: strings with every character escaped, numbers as
  a fraction in unary.
\<close>

fun unary_text :: "json \<Rightarrow> string" where
  "unary_text JNull = ''null''"
| "unary_text (JBool b) = (if b then ''t'' else ''f'')"
| "unary_text (JStr s) = ''s'' @ concat (map (\<lambda>c. [CHR ''.'', c]) s) @ ''s''"
| "unary_text (JNum n) = (case quotient_of n of (p, q) \<Rightarrow>
     (if p < 0 then ''-'' else ''+'') @ replicate (nat \<bar>p\<bar>) (CHR ''1'') @ ''/'' @ replicate (nat q) (CHR ''1''))"
| "unary_text (JArr vs) = []"
| "unary_text (JObj fs) = []"

lemma escaped_unique:
  "concat (map (\<lambda>c. [CHR ''.'', c]) s) @ CHR ''s'' # t = concat (map (\<lambda>c. [CHR ''.'', c]) s') @ CHR ''s'' # t' \<Longrightarrow>
     s = s' \<and> t = t'"
proof (induction s arbitrary: s')
  case Nil
  then show ?case by (cases s') auto
next
  case (Cons c s)
  then show ?case by (cases s') auto
qed

lemma replicate_unique:
  assumes "replicate m c @ s = replicate n c @ t" "s = [] \<or> hd s \<noteq> c" "t = [] \<or> hd t \<noteq> c"
  shows "m = n \<and> s = t"
  using assms
proof (induction m arbitrary: n)
  case 0
  then show ?case by (cases n) auto
next
  case (Suc m)
  then show ?case by (cases n) auto
qed

lemma fraction_unique:
  assumes "(if p < 0 then ''-'' else ''+'') @ replicate (nat \<bar>p\<bar>) (CHR ''1'') @ ''/'' @ replicate (nat q) (CHR ''1'') @ s =
      (if p' < 0 then ''-'' else ''+'') @ replicate (nat \<bar>p'\<bar>) (CHR ''1'') @ ''/'' @ replicate (nat q') (CHR ''1'') @ t"
    and "ends_value s" "ends_value t" "0 < q" "0 < q'"
  shows "p = (p' :: int) \<and> q = (q' :: int) \<and> s = t"
proof -
  have tail: "u = [] \<or> hd u \<noteq> CHR ''1''" if "ends_value u" for u using that by (auto simp: ends_value_def)
  have same: "(p < 0) = (p' < 0)" using assms(1) by (simp split: if_splits)
  then have "replicate (nat \<bar>p\<bar>) (CHR ''1'') @ CHR ''/'' # replicate (nat q) (CHR ''1'') @ s =
      replicate (nat \<bar>p'\<bar>) (CHR ''1'') @ CHR ''/'' # replicate (nat q') (CHR ''1'') @ t"
    using assms(1) by (simp split: if_splits)
  from replicate_unique [OF this] have "nat \<bar>p\<bar> = nat \<bar>p'\<bar>"
    and rest: "replicate (nat q) (CHR ''1'') @ s = replicate (nat q') (CHR ''1'') @ t" by auto
  with same have "p = p'" by linarith
  moreover from replicate_unique [OF rest tail [OF assms(2)] tail [OF assms(3)]] assms(4,5) have "q = q'" "s = t" by auto
  ultimately show ?thesis by simp
qed

lemma unary_text_laws: "text_laws unary_text"
  unfolding text_laws_def
proof (rule conjI; intro allI impI)
  fix p q s t
  assume shape: "\<not> compound p" "\<not> compound q" and ends: "ends_value s" "ends_value t"
    and eq: "unary_text p @ s = unary_text q @ t"
  have number: "n = m \<and> s = t" if "unary_text (JNum n) @ s = unary_text (JNum m) @ t" for n m
  proof -
    obtain a b c d where q: "quotient_of n = (a, b)" "quotient_of m = (c, d)" by fastforce
    then have "0 < b" "0 < d" by (auto dest: quotient_of_denom_pos)
    with fraction_unique [of a b s c d t] that ends have "a = c" "b = d" "s = t" by (simp_all add: q)
    then show ?thesis using q by (simp add: quotient_of_inject_eq [symmetric])
  qed
  show "p = q \<and> s = t"
  proof (cases p)
    case (JNum n)
    then show ?thesis using number eq shape by (cases q) (auto split: if_splits prod.splits)
  next
    case (JStr u)
    then show ?thesis using escaped_unique [of u s] eq shape by (cases q) (auto split: if_splits prod.splits)
  qed (use eq shape in \<open>cases q; auto split: if_splits prod.splits\<close>)+
next
  fix p
  assume "\<not> compound p"
  then show "unary_text p \<noteq> [] \<and> hd (unary_text p) \<notin> set ''[{]},:''" by (cases p) (auto split: prod.splits)
qed

lemma stableJson_exact_witness:
  "stableJson unary_text (JObj [(''b'', JNum (1 / 2)), (''a'', JNull)]) =
     stableJson unary_text (JObj [(''a'', JNull), (''b'', JNum (1 / 2))]) \<and>
   stableJson unary_text (JArr [JNull, JStr ''x'']) \<noteq> stableJson unary_text (JArr [JStr ''x'', JNull])"
  unfolding stableJson_exact [OF unary_text_laws] by simp

end
