(* ===== verification/Diff_Properties.thy ===== *)
theory Diff_Properties
  imports Run_Diff Robots
begin

text \<open>
  The report of a comparison against its specification: what is expected of a key by the records of
  the two runs under it. Every change that is expected is reported, once, and nothing else.
\<close>

section \<open>Snapshots are maps\<close>

lemma wf_add_record: "wf_map m \<Longrightarrow> wf_map (add_record keyOf m v)"
  by (simp add: add_record_def split: option.split)

lemma wf_keyedRecords [simp]: "wf_map (keyedRecords keyOf vs)"
proof -
  have "wf_map m \<Longrightarrow> wf_map (foldl (add_record keyOf) m vs)" for m
    by (induction vs arbitrary: m) (simp_all add: wf_add_record)
  then show ?thesis by (simp add: keyedRecords_def)
qed

text \<open>The records of an entity.\<close>

fun entity_records :: "change_entity \<Rightarrow> stored_run \<Rightarrow> keyed" where
  "entity_records EnResource run = sn_resources (readDiffSnapshot run)"
| "entity_records EnHtmlPage run = sn_pages (readDiffSnapshot run)"
| "entity_records EnLink run = sn_links (readDiffSnapshot run)"
| "entity_records EnSitemap run = sn_sitemaps (readDiffSnapshot run)"
| "entity_records EnRobots run = sn_robots (readDiffSnapshot run)"

abbreviation record_under :: "change_entity \<Rightarrow> stored_run \<Rightarrow> string \<Rightarrow> fields option" where
  "record_under entity run \<equiv> map_of (entity_records entity run)"

lemma wf_entity_records [simp]: "wf_map (entity_records entity run)"
  by (cases entity) (simp_all add: readDiffSnapshot_def)

section \<open>The specification\<close>

fun removed_kind :: "change_entity \<Rightarrow> change_kind" where
  "removed_kind EnLink = LinkRemoved"
| "removed_kind EnSitemap = SitemapRemoved"
| "removed_kind entity = Disappeared"

fun added_kind :: "change_entity \<Rightarrow> change_kind" where
  "added_kind EnLink = LinkAdded"
| "added_kind EnSitemap = SitemapAdded"
| "added_kind entity = Appeared"

fun modified_kinds :: "diff_env \<Rightarrow> change_entity \<Rightarrow> fields \<Rightarrow> fields \<Rightarrow> change_kind list" where
  "modified_kinds env EnResource left right = resource_changes env left right"
| "modified_kinds env EnHtmlPage left right = page_changes env left right"
| "modified_kinds env EnRobots left right =
     only_if (hash_ne env (Some (replayableRobots left)) (Some (replayableRobots right))) RobotsChanged"
| "modified_kinds env entity left right = []"

fun expected_kinds :: "diff_env \<Rightarrow> change_entity \<Rightarrow> fields option \<Rightarrow> fields option \<Rightarrow> change_kind list" where
  "expected_kinds env entity None None = []"
| "expected_kinds env entity (Some left) None = [removed_kind entity]"
| "expected_kinds env entity None (Some right) = [added_kind entity]"
| "expected_kinds env entity (Some left) (Some right) = modified_kinds env entity left right"

lemma set_only_if [simp]: "set (only_if b x) = (if b then {x} else {})"
  by (cases b) (simp_all add: only_if_def)

lemma map_only_if [simp]: "map f (only_if b x) = only_if b (f x)"
  by (simp add: only_if_def)

lemma distinct_only_if [simp]: "distinct (only_if b x)"
  by (simp add: only_if_def)

lemma change_simps [simp]:
  "ch_entity (change env e k key b a) = e" "ch_kind (change env e k key b a) = k"
  "ch_key (change env e k key b a) = key" "ch_before (change env e k key b a) = b"
  "ch_after (change env e k key b a) = a"
  by (simp_all add: change_def)

lemma distinct_modified: "distinct (modified_kinds env entity left right)"
  by (cases entity) (simp_all add: resource_changes_def page_changes_def Let_def)

text \<open>All five comparisons are one: the changes of the keys of the base, then those of the new keys.\<close>

definition diff_keys :: "keyed \<Rightarrow> keyed \<Rightarrow> string list" where
  "diff_keys before after = map fst before @ filter (\<lambda>key. map_of before key = None) (map fst after)"

definition key_changes :: "diff_env \<Rightarrow> change_entity \<Rightarrow> keyed \<Rightarrow> keyed \<Rightarrow> string \<Rightarrow> crawl_change list" where
  "key_changes env entity before after key =
     map (\<lambda>kind. change env entity kind key (map_of before key) (map_of after key))
       (expected_kinds env entity (map_of before key) (map_of after key))"

definition compare_keys :: "diff_env \<Rightarrow> change_entity \<Rightarrow> keyed \<Rightarrow> keyed \<Rightarrow> crawl_change list" where
  "compare_keys env entity before after = concat (map (key_changes env entity before after) (diff_keys before after))"

lemma distinct_diff_keys: "wf_map before \<Longrightarrow> wf_map after \<Longrightarrow> distinct (diff_keys before after)"
  by (auto simp: diff_keys_def map_of_eq_None_iff)

lemma in_diff_keys: "key \<in> set (diff_keys before after) \<longleftrightarrow> map_of before key \<noteq> None \<or> map_of after key \<noteq> None"
  by (auto simp: diff_keys_def map_of_eq_None_iff)

lemma concat_only_if:
  assumes "\<And>p. p \<in> set xs \<Longrightarrow> P (fst p) \<Longrightarrow> f (fst p) = [h p]"
  shows "concat (map (\<lambda>p. only_if (P (fst p)) (h p)) xs) = concat (map f (filter P (map fst xs)))"
  using assms by (induction xs) (simp_all add: only_if_def)

lemma added_part:
  assumes "wf_map after"
  shows "concat (map (\<lambda>(key, right). only_if (map_of before key = None) (change env entity (added_kind entity) key None (Some right))) after) =
    concat (map (key_changes env entity before after) (filter (\<lambda>key. map_of before key = None) (map fst after)))"
    (is "?l = concat (map ?f (filter ?P (map fst after)))")
proof -
  have "?f (fst p) = [change env entity (added_kind entity) (fst p) None (Some (snd p))]" if "p \<in> set after" "?P (fst p)" for p
  proof -
    from that(1) assms have "map_of after (fst p) = Some (snd p)" by simp
    with that(2) show ?thesis by (simp add: key_changes_def)
  qed
  from concat_only_if [of after ?P ?f, OF this] show ?thesis by (simp only: case_prod_beta')
qed

lemma base_part:
  assumes "wf_map before"
    and "\<And>key left. (key, left) \<in> set before \<Longrightarrow> g (key, left) =
      map (\<lambda>kind. change env entity kind key (Some left) (map_of after key)) (expected_kinds env entity (Some left) (map_of after key))"
  shows "concat (map g before) = concat (map (key_changes env entity before after) (map fst before))"
proof -
  have "g p = key_changes env entity before after (fst p)" if "p \<in> set before" for p
  proof -
    from that assms(1) have "map_of before (fst p) = Some (snd p)" by simp
    with assms(2) [of "fst p" "snd p"] that show ?thesis by (simp add: key_changes_def)
  qed
  then show ?thesis by (simp add: comp_def cong: map_cong)
qed

lemma compare_is_keywise:
  assumes "wf_map before" "wf_map after"
  shows "compareResources env before after = compare_keys env EnResource before after"
    and "comparePages env before after = compare_keys env EnHtmlPage before after"
    and "compareMembership env EnLink LinkAdded LinkRemoved before after = compare_keys env EnLink before after"
    and "compareMembership env EnSitemap SitemapAdded SitemapRemoved before after = compare_keys env EnSitemap before after"
    and "compareRobots env before after = compare_keys env EnRobots before after"
  unfolding compareResources_def comparePages_def compareEntities_def compareMembership_def compareRobots_def
    compare_keys_def diff_keys_def map_append concat_append
  using added_part [OF assms(2), of before env EnResource] added_part [OF assms(2), of before env EnHtmlPage]
    added_part [OF assms(2), of before env EnLink] added_part [OF assms(2), of before env EnSitemap]
    added_part [OF assms(2), of before env EnRobots]
  by (simp_all only: added_kind.simps) (rule arg_cong2 [where f = append, OF base_part [OF assms(1)] refl];
    auto simp: only_if_def split: option.split)+

lemma compare_keys_member:
  "c \<in> set (compare_keys env entity before after) \<longleftrightarrow>
     ch_entity c = entity \<and>
     ch_kind c \<in> set (expected_kinds env entity (map_of before (ch_key c)) (map_of after (ch_key c))) \<and>
     c = change env entity (ch_kind c) (ch_key c) (map_of before (ch_key c)) (map_of after (ch_key c))"
    (is "_ \<longleftrightarrow> ?expected")
proof
  assume "c \<in> set (compare_keys env entity before after)"
  then show ?expected unfolding compare_keys_def key_changes_def by auto
next
  assume expected: ?expected
  then have "map_of before (ch_key c) \<noteq> None \<or> map_of after (ch_key c) \<noteq> None"
    by (cases "map_of before (ch_key c)"; cases "map_of after (ch_key c)") auto
  then have "ch_key c \<in> set (diff_keys before after)" by (simp add: in_diff_keys)
  moreover have "c \<in> set (key_changes env entity before after (ch_key c))"
  proof -
    have "change env entity (ch_kind c) (ch_key c) (map_of before (ch_key c)) (map_of after (ch_key c)) \<in>
        set (key_changes env entity before after (ch_key c))"
      using conjunct1 [OF conjunct2 [OF expected]] by (simp add: key_changes_def)
    with conjunct2 [OF conjunct2 [OF expected]] show ?thesis by metis
  qed
  ultimately show "c \<in> set (compare_keys env entity before after)"
    unfolding compare_keys_def by auto
qed

definition identified :: "crawl_change \<Rightarrow> change_entity \<times> string \<times> change_kind" where
  "identified c = (ch_entity c, ch_key c, ch_kind c)"

lemma distinct_expected: "distinct (expected_kinds env entity left right)"
  by (cases left; cases right) (simp_all add: distinct_modified)

lemma identified_key_changes:
  "map identified (key_changes env entity before after key) =
     map (\<lambda>kind. (entity, key, kind)) (expected_kinds env entity (map_of before key) (map_of after key))"
  by (simp add: key_changes_def identified_def)

lemma distinct_concat_map:
  assumes "distinct xs" "\<And>x. x \<in> set xs \<Longrightarrow> distinct (f x)"
    and "\<And>x y. x \<in> set xs \<Longrightarrow> y \<in> set xs \<Longrightarrow> x \<noteq> y \<Longrightarrow> set (f x) \<inter> set (f y) = {}"
  shows "distinct (concat (map f xs))"
  using assms
proof (induction xs)
  case (Cons x xs)
  from Cons.prems have "set (f x) \<inter> (\<Union>y \<in> set xs. set (f y)) = {}" by fastforce
  with Cons show ?case by simp
qed simp

lemma compare_keys_distinct:
  assumes "wf_map before" "wf_map after"
  shows "distinct (map identified (compare_keys env entity before after))"
  unfolding compare_keys_def map_concat map_map comp_def identified_key_changes
  by (rule distinct_concat_map [OF distinct_diff_keys [OF assms]])
    (auto simp: distinct_map distinct_expected inj_on_def)

definition all_entities :: "change_entity list" where
  "all_entities = [EnResource, EnHtmlPage, EnLink, EnSitemap, EnRobots]"

lemma all_entities: "set all_entities = UNIV" "distinct all_entities"
  by (auto simp: all_entities_def intro: change_entity.exhaust)

lemma all_change_entity: "(\<forall>entity. P entity) \<longleftrightarrow> P EnResource \<and> P EnHtmlPage \<and> P EnLink \<and> P EnSitemap \<and> P EnRobots"
  by (metis change_entity.exhaust)

lemma report_changes:
  "dr_changes (compareRuns env a b) = sort_key (change_order env)
     (concat (map (\<lambda>entity. compare_keys env entity (entity_records entity a) (entity_records entity b)) all_entities))"
  by (simp add: compareRuns_def Let_def all_entities_def readDiffSnapshot_def compare_is_keywise)

lemma report_member:
  "c \<in> set (dr_changes (compareRuns env a b)) \<longleftrightarrow>
     ch_kind c \<in> set (expected_kinds env (ch_entity c) (record_under (ch_entity c) a (ch_key c)) (record_under (ch_entity c) b (ch_key c))) \<and>
     c = change env (ch_entity c) (ch_kind c) (ch_key c)
           (record_under (ch_entity c) a (ch_key c)) (record_under (ch_entity c) b (ch_key c))"
proof -
  have "c \<in> set (dr_changes (compareRuns env a b)) \<longleftrightarrow>
      (\<exists>entity. c \<in> set (compare_keys env entity (entity_records entity a) (entity_records entity b)))"
    by (simp add: report_changes all_entities)
  then show ?thesis unfolding compare_keys_member by blast
qed

lemma distinct_map_sort_key: "distinct (map g (sort_key f xs)) \<longleftrightarrow> distinct (map g xs)"
  by (rule mset_eq_imp_distinct_iff) simp

lemma report_distinct: "distinct (map identified (dr_changes (compareRuns env a b)))"
  unfolding report_changes distinct_map_sort_key map_concat map_map comp_def
proof (rule distinct_concat_map [OF all_entities(2)])
  fix x
  show "distinct (map identified (compare_keys env x (entity_records x a) (entity_records x b)))"
    by (simp add: compare_keys_distinct)
next
  fix x y :: change_entity
  assume "x \<noteq> y"
  then show "set (map identified (compare_keys env x (entity_records x a) (entity_records x b))) \<inter>
      set (map identified (compare_keys env y (entity_records y a) (entity_records y b))) = {}"
    by (auto simp: identified_def compare_keys_member)
qed


section \<open>Comparing the other way round\<close>

fun mirror_kind :: "change_kind \<Rightarrow> change_kind" where
  "mirror_kind Appeared = Disappeared"
| "mirror_kind Disappeared = Appeared"
| "mirror_kind LinkAdded = LinkRemoved"
| "mirror_kind LinkRemoved = LinkAdded"
| "mirror_kind SitemapAdded = SitemapRemoved"
| "mirror_kind SitemapRemoved = SitemapAdded"
| "mirror_kind kind = kind"

definition mirror :: "diff_env \<Rightarrow> crawl_change \<Rightarrow> crawl_change" where
  "mirror env c = change env (ch_entity c) (mirror_kind (ch_kind c)) (ch_key c) (ch_after c) (ch_before c)"

lemma mirror_kind_twice [simp]: "mirror_kind (mirror_kind k) = k"
  by (cases k) simp_all

lemma mirror_simps [simp]:
  "ch_entity (mirror env c) = ch_entity c" "ch_kind (mirror env c) = mirror_kind (ch_kind c)"
  "ch_key (mirror env c) = ch_key c" "ch_before (mirror env c) = ch_after c" "ch_after (mirror env c) = ch_before c"
  by (simp_all add: mirror_def)

lemma strict_ne_sym: "strict_ne v w = strict_ne w v"
  by (cases v; cases w) auto

lemma hash_ne_sym: "hash_ne env v w = hash_ne env w v"
  by (auto simp: hash_ne_def)

lemma modified_kinds_sym: "modified_kinds env entity left right = modified_kinds env entity right left"
  by (cases entity) (simp_all add: resource_changes_def page_changes_def Let_def strict_ne_sym [of "field left _"] hash_ne_sym [of env "field left _"]
    hash_ne_sym [of env "field (facts left) _"] hash_ne_sym [of env "Some (replayableRobots left)"])

lemma modified_kinds_mirror: "k \<in> set (modified_kinds env entity left right) \<Longrightarrow> mirror_kind k = k"
  by (cases entity) (auto simp: resource_changes_def page_changes_def Let_def split: if_splits)

lemma expected_kinds_mirror:
  assumes "k \<in> set (expected_kinds env entity left right)"
  shows "mirror_kind k \<in> set (expected_kinds env entity right left)"
proof (cases left)
  case None
  then show ?thesis using assms by (cases right; cases entity) auto
next
  case (Some l)
  show ?thesis
  proof (cases right)
    case None
    then show ?thesis using assms Some by (cases entity) auto
  next
    case (Some r)
    then show ?thesis using assms \<open>left = Some l\<close> modified_kinds_mirror [of k env entity l r] modified_kinds_sym [of env entity l r]
      by simp
  qed
qed

lemma mirror_reported:
  assumes "c \<in> set (dr_changes (compareRuns env a b))"
  shows "mirror env c \<in> set (dr_changes (compareRuns env b a))" "mirror env (mirror env c) = c"
proof -
  from assms have expected: "ch_kind c \<in> set (expected_kinds env (ch_entity c) (record_under (ch_entity c) a (ch_key c)) (record_under (ch_entity c) b (ch_key c)))"
    and shape: "change env (ch_entity c) (ch_kind c) (ch_key c) (record_under (ch_entity c) a (ch_key c)) (record_under (ch_entity c) b (ch_key c)) = c"
    unfolding report_member by simp_all
  from arg_cong [OF shape, of ch_before] arg_cong [OF shape, of ch_after]
  have sides: "ch_before c = record_under (ch_entity c) a (ch_key c)" "ch_after c = record_under (ch_entity c) b (ch_key c)"
    by simp_all
  show "mirror env (mirror env c) = c"
    using shape unfolding sides [symmetric] by (simp add: mirror_def)
  show "mirror env c \<in> set (dr_changes (compareRuns env b a))"
    unfolding report_member using expected_kinds_mirror [OF expected] by (simp add: sides [symmetric]) (simp add: mirror_def)
qed

lemma report_distinct_changes: "distinct (dr_changes (compareRuns env a b))"
  using report_distinct [of env a b] by (simp add: distinct_map)

lemma report_mirrored:
  "mset (map (mirror env) (dr_changes (compareRuns env a b))) = mset (dr_changes (compareRuns env b a))"
proof (rule iffD1 [OF set_eq_iff_mset_eq_distinct])
  show "distinct (map (mirror env) (dr_changes (compareRuns env a b)))"
    by (simp add: distinct_map report_distinct_changes) (metis inj_onI mirror_reported(2))
  show "distinct (dr_changes (compareRuns env b a))" by (rule report_distinct_changes)
  show "set (map (mirror env) (dr_changes (compareRuns env a b))) = set (dr_changes (compareRuns env b a))"
  proof (intro subset_antisym subsetI)
    fix c
    assume "c \<in> set (dr_changes (compareRuns env b a))"
    from mirror_reported [OF this] show "c \<in> set (map (mirror env) (dr_changes (compareRuns env a b)))" by (metis image_eqI set_map)
  qed (auto simp: mirror_reported)
qed

text \<open>
  Comparing two runs the other way round gives the mirrored report: the same changes with before and
  after exchanged and appearing exchanged with disappearing, none more and none less.
\<close>

theorem diff_mirrored:
  "mset (map (mirror env) (dr_changes (compareRuns env a b))) = mset (dr_changes (compareRuns env b a))"
  by (rule report_mirrored)
section \<open>No change\<close>

definition same_value :: "json option \<Rightarrow> json option \<Rightarrow> bool" where
  "same_value v w \<longleftrightarrow> canon (or_null v) = canon (or_null w)"

definition faithful_hash :: "diff_env \<Rightarrow> bool" where
  "faithful_hash env \<longleftrightarrow> text_laws (de_text env) \<and> de_text env JNull = ''null'' \<and> inj (pf_sha256 (de_platform env))"

lemma stableHash_or_null:
  "text_of JNull = ''null'' \<Longrightarrow> stableHash sha text_of v = sha (stableJson text_of (or_null v))"
  by (simp add: stableHash_def or_null_def split: option.split)

lemma hash_ne_iff:
  assumes "faithful_hash env"
  shows "hash_ne env v w \<longleftrightarrow> \<not> same_value v w"
proof -
  from assms have laws: "text_laws (de_text env)" and null: "de_text env JNull = ''null''"
    and inj: "inj (pf_sha256 (de_platform env))" by (simp_all add: faithful_hash_def)
  show ?thesis
    unfolding hash_ne_def same_value_def stableHash_or_null [of "de_text env", OF null] inj_eq [OF inj] stableJson_same [OF laws] ..
qed

lemma sort_key_pairs: "sort_key fst (map (\<lambda>k. (k, f k)) ks) = map (\<lambda>k. (k, f k)) (sort ks)"
proof (induction ks)
  case (Cons k ks)
  have "insort_key fst (k, f k) (map (\<lambda>k. (k, f k)) xs) = map (\<lambda>k. (k, f k)) (insort k xs)" for xs
    by (induction xs) auto
  then show ?case using Cons by simp
qed simp

definition robots_fields_compared :: "string list" where
  "robots_fields_compared = [''origin'', ''status'', ''groups'', ''sitemaps'', ''crawlDelayMs'', ''diagnostics'']"

lemma same_replayableRobots:
  "same_value (Some (replayableRobots left)) (Some (replayableRobots right)) \<longleftrightarrow>
     (\<forall>k \<in> set robots_fields_compared. same_value (field left k) (field right k))"
proof -
  have "canon (replayableRobots r) = JObj (map (\<lambda>k. (k, canon (or_null (field r k)))) (sort robots_fields_compared))" for r
    unfolding replayableRobots_def robots_fields_compared_def [symmetric]
    by (simp add: comp_def sort_key_pairs)
  then show ?thesis by (simp add: same_value_def or_null_def)
qed

text \<open>When the records of a key count as the same.\<close>

fun alike :: "change_entity \<Rightarrow> fields \<Rightarrow> fields \<Rightarrow> bool" where
  "alike EnResource left right \<longleftrightarrow>
     (\<forall>k \<in> {''statusCode'', ''finalUrl'', ''contentType''}. \<not> strict_ne (field left k) (field right k)) \<and>
     same_value (field left ''bodyHash'') (field right ''bodyHash'')"
| "alike EnHtmlPage left right \<longleftrightarrow>
     (\<forall>k \<in> {''title'', ''canonical'', ''metaDescription'', ''headings'', ''visibleText''}.
        same_value (field (facts left) k) (field (facts right) k))"
| "alike EnRobots left right \<longleftrightarrow>
     (\<forall>k \<in> set robots_fields_compared. same_value (field left k) (field right k))"
| "alike entity left right \<longleftrightarrow> True"

lemma no_kinds_iff:
  assumes "faithful_hash env"
  shows "modified_kinds env entity left right = [] \<longleftrightarrow> alike entity left right"
  by (cases entity)
    (simp_all add: resource_changes_def page_changes_def Let_def only_if_def hash_ne_iff [OF assms] same_replayableRobots)

lemma no_changes_iff:
  "dr_changes (compareRuns env a b) = [] \<longleftrightarrow>
     (\<forall>entity key. expected_kinds env entity (record_under entity a key) (record_under entity b key) = [])"
proof -
  have "\<exists>c. c \<in> set (dr_changes (compareRuns env a b))"
    if "k \<in> set (expected_kinds env entity (record_under entity a key) (record_under entity b key))" for entity key k
    using that report_member [of "change env entity k key (record_under entity a key) (record_under entity b key)" env a b] by auto
  moreover have "dr_changes (compareRuns env a b) \<noteq> [] \<Longrightarrow> \<exists>entity key.
      expected_kinds env entity (record_under entity a key) (record_under entity b key) \<noteq> []"
    using report_member [of "hd (dr_changes (compareRuns env a b))" env a b] by (metis equals0D hd_in_set set_empty)
  ultimately show ?thesis by (metis all_not_in_conv set_empty)
qed

text \<open>
  A comparison is silent exactly when the two runs have records under the same keys and the
  records of a key agree in what is compared, up to the order of keys in objects.
\<close>

theorem diff_silent_iff:
  assumes "faithful_hash env"
  shows "dr_changes (compareRuns env a b) = [] \<longleftrightarrow>
    (\<forall>entity key. case (record_under entity a key, record_under entity b key) of
       (None, None) \<Rightarrow> True | (Some left, Some right) \<Rightarrow> alike entity left right | _ \<Rightarrow> False)"
proof -
  have "expected_kinds env entity l r = [] \<longleftrightarrow> (case (l, r) of
       (None, None) \<Rightarrow> True | (Some left, Some right) \<Rightarrow> alike entity left right | _ \<Rightarrow> False)" for entity l r
    by (cases l; cases r) (simp_all add: no_kinds_iff [OF assms])
  then show ?thesis unfolding no_changes_iff by simp
qed

text \<open>An environment with a digest that does not collide.\<close>

definition sample_env :: diff_env where
  "sample_env = \<lparr>de_platform = \<lparr>pf_sha256 = id, pf_hash = (\<lambda>_. []), pf_iso = (\<lambda>_. []), pf_parse = (\<lambda>_ _. None)\<rparr>,
     de_text = unary_text, de_collation = map of_char, de_detectedAt = ''now''\<rparr>"

definition page_run :: "json list \<Rightarrow> stored_run" where
  "page_run vs = \<lparr>sr_resources = [], sr_pages = vs, sr_links = [], sr_sitemaps = [], sr_robots = []\<rparr>"

lemma sample_env_faithful: "faithful_hash sample_env"
  by (simp add: faithful_hash_def sample_env_def unary_text_laws)

lemma diff_silent_iff_witness:
  "dr_changes (compareRuns sample_env
      (page_run [JObj [(''finalUrl'', JStr ''u''), (''facts'', JObj [(''title'', JStr ''t''), (''lang'', JStr ''en'')])]])
      (page_run [JObj [(''facts'', JObj [(''title'', JStr ''t'')]), (''finalUrl'', JStr ''u'')]])) = [] \<and>
   dr_changes (compareRuns sample_env (page_run [JObj [(''finalUrl'', JStr ''u'')]]) (page_run [])) \<noteq> []"
  unfolding diff_silent_iff [OF sample_env_faithful]
proof (intro conjI)
  show "\<not> (\<forall>entity key. case (record_under entity (page_run [JObj [(''finalUrl'', JStr ''u'')]]) key, record_under entity (page_run []) key) of
       (None, None) \<Rightarrow> True | (Some left, Some right) \<Rightarrow> alike entity left right | _ \<Rightarrow> False)"
    by (intro notI, drule spec [of _ EnHtmlPage], drule spec [of _ "''u''"],
      simp add: page_run_def readDiffSnapshot_def keyedRecords_def add_record_def pageKey_def string_of_def field_def)
qed (simp add: all_change_entity page_run_def readDiffSnapshot_def keyedRecords_def add_record_def
      pageKey_def string_of_def field_def facts_def same_value_def)

section \<open>The summary\<close>

lemma count_kind_mset: "count_kind k cs = size (filter_mset (\<lambda>c. ch_kind c = k) (mset cs))"
  by (simp add: count_kind_def flip: mset_filter)

lemma summary_partitions:
  "dm_appeared (summarize cs) + dm_disappeared (summarize cs) + dm_modified (summarize cs) +
   dm_linksAdded (summarize cs) + dm_linksRemoved (summarize cs) +
   dm_sitemapAdded (summarize cs) + dm_sitemapRemoved (summarize cs) = length cs"
  by (induction cs) (auto simp: summarize_def count_kind_def)

lemma count_kind_mirrored:
  "count_kind k (dr_changes (compareRuns env b a)) = count_kind (mirror_kind k) (dr_changes (compareRuns env a b))"
proof -
  have "mset (dr_changes (compareRuns env b a)) = mset (map (mirror env) (dr_changes (compareRuns env a b)))"
    by (simp only: report_mirrored)
  then have "count_kind k (dr_changes (compareRuns env b a)) = count_kind k (map (mirror env) (dr_changes (compareRuns env a b)))"
    by (simp only: count_kind_mset)
  also have "\<dots> = count_kind (mirror_kind k) (dr_changes (compareRuns env a b))"
  proof -
    have "mirror_kind j = k \<longleftrightarrow> j = mirror_kind k" for j by (metis mirror_kind_twice)
    then show ?thesis by (simp add: count_kind_def filter_map comp_def)
  qed
  finally show ?thesis .
qed

section \<open>What is compared of robots records\<close>

fun source_text :: "record_source \<Rightarrow> string" where
  "source_text SrcNetwork = ''network''"
| "source_text SrcCache = ''cache''"
| "source_text SrcStaleCache = ''stale-cache''"
| "source_text SrcFallback = ''fallback''"

fun mode_text :: "unavailable_mode \<Rightarrow> string" where
  "mode_text ModeAllow = ''allow''"
| "mode_text ModeDisallow = ''disallow''"
| "mode_text ModeSeedOnly = ''seed-only''"

definition robots_json :: "(timestamp \<Rightarrow> string) \<Rightarrow> robots_record \<Rightarrow> json" where
  "robots_json iso_of r = JObj
     [(''schemaId'', JStr ''site-crawler.robots''), (''schemaVersion'', JNum 1),
      (''runId'', JStr (rr_runId r)), (''origin'', JStr (rr_origin r)),
      (''requestedUrl'', JStr (rr_requestedUrl r)), (''finalUrl'', opt_str (rr_finalUrl r)),
      (''statusCode'', case rr_statusCode r of None \<Rightarrow> JNull | Some n \<Rightarrow> JNum (of_int n)),
      (''source'', JStr (source_text (rr_source r))),
      (''fallbackMode'', opt_str (map_option mode_text (rr_fallbackMode r))),
      (''groups'', JNum (of_nat (rr_groups r))), (''rules'', JNum (of_nat (rr_rules r))),
      (''sitemaps'', JArr (map JStr (rr_sitemaps r))),
      (''fetchedAt'', JStr (iso_of (rr_fetchedAt r))), (''expiresAt'', JStr (iso_of (rr_expiresAt r))),
      (''error'', opt_str (rr_error r))]"

definition robots_run :: "(timestamp \<Rightarrow> string) \<Rightarrow> robots_record list \<Rightarrow> stored_run" where
  "robots_run iso_of rs =
     \<lparr>sr_resources = [], sr_pages = [], sr_links = [], sr_sitemaps = [], sr_robots = map (robots_json iso_of) rs\<rparr>"

text \<open>
  A change of what an origin's robots.txt decided is not reported: the comparison looks at fields that
  the record does not have, so a record that differs in its status code, its source, the mode in
  force while it is unavailable, the number of its rules or its error compares as unchanged.
\<close>

theorem robots_outcome_change_unreported:
  "dr_changes (compareRuns env (robots_run iso_of [r])
     (robots_run iso_of [r\<lparr>rr_statusCode := status, rr_source := source, rr_fallbackMode := mode,
        rr_rules := rules, rr_error := error\<rparr>])) = []"
  unfolding no_changes_iff
  by (simp add: all_change_entity robots_run_def readDiffSnapshot_def keyedRecords_def add_record_def robotsKey_def
    string_of_def robots_json_def field_def only_if_def hash_ne_def replayableRobots_def)

end
