(* ===== verification/Event_Hub.thy ===== *)
theory Event_Hub
  imports Prelude "HOL-Library.Sublist"
begin

text \<open>
  The distribution of events to subscribers, \<open>events/index.ts\<close>: a channel with a bounded buffer per
  subscriber, and the hub that sends every event to the open channels. A call of \<open>next\<close> is known by
  a ticket; its promise is answered at once or by a later \<open>emit\<close> or \<open>close\<close>.
\<close>

section \<open>A channel\<close>

datatype 'e answer = Event 'e | Done

type_synonym 'e answers = "(nat \<times> 'e answer) list"

record 'e channel =
  ec_capacity :: nat
  ec_queue :: "'e list"
  ec_waiters :: "nat list"
  ec_closed :: bool
  ec_dropped :: nat

definition new_channel :: "nat \<Rightarrow> 'e channel" where
  "new_channel capacity = \<lparr>ec_capacity = capacity, ec_queue = [], ec_waiters = [], ec_closed = False, ec_dropped = 0\<rparr>"

definition channel_emit :: "'e \<Rightarrow> 'e channel \<Rightarrow> 'e channel \<times> 'e answers" where
  "channel_emit event ch =
     (if ec_closed ch then (ch, [])
      else case ec_waiters ch of
        waiter # rest \<Rightarrow> (ch\<lparr>ec_waiters := rest\<rparr>, [(waiter, Event event)])
      | [] \<Rightarrow>
          (let ch = (if length (ec_queue ch) \<ge> ec_capacity ch
                     then ch\<lparr>ec_queue := tl (ec_queue ch), ec_dropped := ec_dropped ch + 1\<rparr> else ch)
           in (ch\<lparr>ec_queue := ec_queue ch @ [event]\<rparr>, [])))"

definition resolveCompletedWaiters :: "'e channel \<Rightarrow> 'e channel \<times> 'e answers" where
  "resolveCompletedWaiters ch = (ch\<lparr>ec_waiters := []\<rparr>, map (\<lambda>w. (w, Done)) (ec_waiters ch))"

text \<open>The callback \<open>onClose\<close> is called exactly when the channel was open; the hub looks at that.\<close>

definition channel_close :: "'e channel \<Rightarrow> 'e channel \<times> 'e answers" where
  "channel_close ch =
     (if ec_closed ch then (ch, [])
      else let ch = ch\<lparr>ec_closed := True\<rparr>
           in if ec_queue ch \<noteq> [] then (ch, []) else resolveCompletedWaiters ch)"

definition channel_next :: "nat \<Rightarrow> 'e channel \<Rightarrow> 'e channel \<times> 'e answers" where
  "channel_next ticket ch =
     (case ec_queue ch of
        event # rest \<Rightarrow> (ch\<lparr>ec_queue := rest\<rparr>, [(ticket, Event event)])
      | [] \<Rightarrow> if ec_closed ch then (ch, [(ticket, Done)])
              else (ch\<lparr>ec_waiters := ec_waiters ch @ [ticket]\<rparr>, []))"

section \<open>The hub\<close>

text \<open>
  \<open>hb_subscribed\<close> are the channels that were handed out, \<open>hb_open\<close> the members of the set \<open>channels\<close>
  in insertion order.
\<close>

record 'e hub =
  hb_subscribed :: "(nat, 'e channel) jsmap"
  hb_open :: "nat list"
  hb_closed :: bool
  hb_droppedFromClosed :: nat

datatype hub_error = BadCapacity

definition new_hub :: "'e hub" where
  "new_hub = \<lparr>hb_subscribed = [], hb_open = [], hb_closed = False, hb_droppedFromClosed = 0\<rparr>"

definition channel_of :: "nat \<Rightarrow> 'e hub \<Rightarrow> 'e channel" where
  "channel_of i hub = the (map_of (hb_subscribed hub) i)"

definition droppedEvents :: "'e hub \<Rightarrow> nat" where
  "droppedEvents hub = foldl (\<lambda>total i. total + ec_dropped (channel_of i hub)) (hb_droppedFromClosed hub) (hb_open hub)"

definition set_channel :: "nat \<Rightarrow> 'e channel \<Rightarrow> 'e hub \<Rightarrow> 'e hub" where
  "set_channel i ch hub = hub\<lparr>hb_subscribed := map_set i ch (hb_subscribed hub)\<rparr>"

text \<open>\<open>close\<close> of a subscription, with the callback it was created with.\<close>

definition close_subscription :: "nat \<Rightarrow> 'e hub \<Rightarrow> 'e hub \<times> 'e answers" where
  "close_subscription i hub =
     (let ch = channel_of i hub;
          (ch', answers) = channel_close ch;
          hub' = set_channel i ch' hub
      in if ec_closed ch then (hub', answers)
         else (hub'\<lparr>hb_droppedFromClosed := hb_droppedFromClosed hub' + ec_dropped ch,
                    hb_open := filter (\<lambda>j. j \<noteq> i) (hb_open hub')\<rparr>, answers))"

definition subscribe :: "number \<Rightarrow> 'e hub \<Rightarrow> (hub_error, nat \<times> 'e hub) result" where
  "subscribe capacity hub =
     (if of_int \<lfloor>capacity\<rfloor> \<noteq> capacity \<or> capacity \<le> 0 then Inl BadCapacity
      else let i = length (hb_subscribed hub);
               hub' = set_channel i (new_channel (nat \<lfloor>capacity\<rfloor>)) hub
           in Inr (i, if hb_closed hub then fst (close_subscription i hub')
                      else hub'\<lparr>hb_open := hb_open hub' @ [i]\<rparr>))"

definition on_channel :: "('e channel \<Rightarrow> 'e channel \<times> 'e answers) \<Rightarrow> nat \<Rightarrow> 'e hub \<times> (nat \<times> 'e answers) list \<Rightarrow> 'e hub \<times> (nat \<times> 'e answers) list" where
  "on_channel f i acc =
     (let (hub, outs) = acc; (ch, answers) = f (channel_of i hub)
      in (set_channel i ch hub, outs @ [(i, answers)]))"

definition hub_emit :: "'e \<Rightarrow> 'e hub \<Rightarrow> 'e hub \<times> (nat \<times> 'e answers) list" where
  "hub_emit event hub =
     (if hb_closed hub then (hub, [])
      else foldl (\<lambda>acc i. on_channel (channel_emit event) i acc) (hub, []) (hb_open hub))"

definition hub_close :: "'e hub \<Rightarrow> 'e hub \<times> (nat \<times> 'e answers) list" where
  "hub_close hub =
     (if hb_closed hub then (hub, [])
      else foldl (\<lambda>(hub, outs) i. let (hub, answers) = close_subscription i hub in (hub, outs @ [(i, answers)]))
             (hub\<lparr>hb_closed := True\<rparr>, []) (hb_open hub))"

definition hub_next :: "nat \<Rightarrow> nat \<Rightarrow> 'e hub \<Rightarrow> 'e hub \<times> 'e answers" where
  "hub_next i ticket hub =
     (let (ch, answers) = channel_next ticket (channel_of i hub) in (set_channel i ch hub, answers))"

section \<open>The history of a channel\<close>

text \<open>
  What happened to a channel: the events emitted while it was open, the tickets of the calls of
  \<open>next\<close> in order, and the answers in the order in which they were given.
\<close>

record 'e channel_history =
  ht_channel :: "'e channel"
  ht_emitted :: "'e list"
  ht_asked :: "nat list"
  ht_answers :: "'e answers"

inductive history_step :: "'e channel_history \<Rightarrow> 'e channel_history \<Rightarrow> bool" where
  emitted: "channel_emit event (ht_channel h) = (ch, answers) \<Longrightarrow>
     history_step h \<lparr>ht_channel = ch,
       ht_emitted = (if ec_closed (ht_channel h) then ht_emitted h else ht_emitted h @ [event]),
       ht_asked = ht_asked h, ht_answers = ht_answers h @ answers\<rparr>"
| asked: "channel_next ticket (ht_channel h) = (ch, answers) \<Longrightarrow>
     history_step h \<lparr>ht_channel = ch, ht_emitted = ht_emitted h,
       ht_asked = ht_asked h @ [ticket], ht_answers = ht_answers h @ answers\<rparr>"
| closed: "channel_close (ht_channel h) = (ch, answers) \<Longrightarrow>
     history_step h \<lparr>ht_channel = ch, ht_emitted = ht_emitted h,
       ht_asked = ht_asked h, ht_answers = ht_answers h @ answers\<rparr>"

inductive history_of :: "nat \<Rightarrow> 'e channel_history \<Rightarrow> bool" for capacity where
  start: "history_of capacity \<lparr>ht_channel = new_channel capacity, ht_emitted = [], ht_asked = [], ht_answers = []\<rparr>"
| step: "history_of capacity h \<Longrightarrow> history_step h h' \<Longrightarrow> history_of capacity h'"

fun event_of :: "nat \<times> 'e answer \<Rightarrow> 'e list" where
  "event_of (t, Event e) = [e]"
| "event_of (t, Done) = []"

definition received :: "'e answers \<Rightarrow> 'e list" where
  "received answers = concat (map event_of answers)"

lemma received_simps [simp]:
  "received [] = []" "received (xs @ ys) = received xs @ received ys"
  "received ((t, Event e) # xs) = e # received xs" "received ((t, Done) # xs) = received xs"
  "received (map (\<lambda>w. (w, Done)) ws) = []"
  by (simp_all add: received_def comp_def)

text \<open>
  The invariant. A caller waits only at an open channel with nothing to read; what was read and what is
  buffered is in the order of the events, and the dropped events make up the difference.
\<close>

definition channel_inv :: "nat \<Rightarrow> 'e channel_history \<Rightarrow> bool" where
  "channel_inv capacity h \<longleftrightarrow>
     (let ch = ht_channel h; seen = received (ht_answers h) @ ec_queue ch
      in ec_capacity ch = capacity \<and> length (ec_queue ch) \<le> capacity \<and>
         (ec_waiters ch \<noteq> [] \<longrightarrow> ec_queue ch = [] \<and> \<not> ec_closed ch) \<and>
         map fst (ht_answers h) @ ec_waiters ch = ht_asked h \<and>
         subseq seen (ht_emitted h) \<and>
         length (ht_emitted h) = length seen + ec_dropped ch \<and>
         ((\<exists>t. (t, Done) \<in> set (ht_answers h)) \<longrightarrow> ec_closed ch \<and> ec_queue ch = []))"

lemma subseq_drop_tl: "subseq (xs @ q) es \<Longrightarrow> subseq (xs @ tl q) es"
proof (cases q)
  case (Cons a list)
  assume "subseq (xs @ q) es"
  moreover have "subseq (xs @ list) (xs @ q)" unfolding Cons by (intro list_emb_append_mono) auto
  ultimately show ?thesis unfolding Cons by (metis list.sel(3) subseq_order.order_trans)
qed simp

lemma subseq_snoc: "subseq (xs @ q) es \<Longrightarrow> subseq (xs @ q @ [e]) (es @ [e])"
  by (metis append_assoc subseq_append)

lemma emit_inv:
  assumes inv: "channel_inv capacity h" and emit: "channel_emit event (ht_channel h) = (ch, answers)" and cap: "0 < capacity"
  shows "channel_inv capacity \<lparr>ht_channel = ch,
       ht_emitted = (if ec_closed (ht_channel h) then ht_emitted h else ht_emitted h @ [event]),
       ht_asked = ht_asked h, ht_answers = ht_answers h @ answers\<rparr>"
proof (cases "ec_closed (ht_channel h)")
  case True
  then show ?thesis using inv emit by (auto simp: channel_inv_def channel_emit_def)
next
  case open_channel: False
  show ?thesis
  proof (cases "ec_waiters (ht_channel h)")
    case (Cons w ws)
    then show ?thesis using inv emit open_channel
      by (auto simp: channel_inv_def channel_emit_def Let_def)
  next
    case Nil
    show ?thesis
    proof (cases "length (ec_queue (ht_channel h)) \<ge> ec_capacity (ht_channel h)")
      case True
      then have "ec_queue (ht_channel h) \<noteq> []" using inv cap by (auto simp: channel_inv_def Let_def)
      moreover have "subseq (received (ht_answers h) @ tl (ec_queue (ht_channel h))) (ht_emitted h)"
        using inv by (intro subseq_drop_tl) (simp add: channel_inv_def Let_def)
      ultimately show ?thesis using inv emit open_channel Nil True
        by (auto simp: channel_inv_def channel_emit_def Let_def neq_Nil_conv subseq_snoc)
    next
      case False
      then show ?thesis using inv emit open_channel Nil
        by (auto simp: channel_inv_def channel_emit_def Let_def subseq_snoc)
    qed
  qed
qed

lemma history_inv:
  assumes "history_of capacity h" "0 < capacity"
  shows "channel_inv capacity h"
  using assms(1)
proof induction
  case start
  then show ?case by (simp add: channel_inv_def new_channel_def)
next
  case (step h h')
  from step.hyps(2) show ?case
  proof cases
    case (emitted event ch answers)
    then show ?thesis using emit_inv [OF step.IH _ assms(2)] by blast
  next
    case (asked ticket ch answers)
    then show ?thesis using step.IH
      by (auto simp: channel_inv_def channel_next_def Let_def split: list.splits if_splits)
  next
    case (closed ch answers)
    then show ?thesis using step.IH
      by (auto simp: channel_inv_def channel_close_def resolveCompletedWaiters_def Let_def comp_def split: if_splits)
  qed
qed

inductive_cases history_stepE: "history_step h h'"

text \<open>
  C24: A subscriber receives events in the order in which they were emitted and misses none but the dropped
  ones: what it has read and what is buffered for it is a subsequence of the events emitted while
  its channel was open, shorter by exactly the number of dropped events. Its calls are answered in their
  order, the buffer never exceeds its capacity, and once the channel is closed no call waits.
\<close>

theorem subscriber_history:
  assumes "history_of capacity h" "0 < capacity"
  shows "subseq (received (ht_answers h) @ ec_queue (ht_channel h)) (ht_emitted h) \<and>
    length (ht_emitted h) = length (received (ht_answers h) @ ec_queue (ht_channel h)) + ec_dropped (ht_channel h) \<and>
    map fst (ht_answers h) @ ec_waiters (ht_channel h) = ht_asked h \<and>
    length (ec_queue (ht_channel h)) \<le> capacity \<and>
    (ec_closed (ht_channel h) \<longrightarrow> map fst (ht_answers h) = ht_asked h)"
  using history_inv [OF assms] by (auto simp: channel_inv_def Let_def)

lemma subscriber_history_witness:
  "received [(7, Event (2 :: nat))] @ [3] = [2, 3] \<and> subseq (received [(7, Event (2 :: nat))] @ [3]) [1, 2, 3]"
proof -
  let ?h = "\<lambda>q d es as ans. \<lparr>ht_channel = \<lparr>ec_capacity = 1, ec_queue = q, ec_waiters = [], ec_closed = False, ec_dropped = d\<rparr>,
    ht_emitted = es, ht_asked = as, ht_answers = ans\<rparr> :: nat channel_history"
  have "history_of 1 (?h [] 0 [] [] [])"
    using history_of.start [of 1] by (simp add: new_channel_def)
  from history_of.step [OF this emitted [where event = 1]] have "history_of 1 (?h [1] 0 [1] [] [])"
    by (simp add: channel_emit_def)
  from history_of.step [OF this emitted [where event = 2]] have "history_of 1 (?h [2] 1 [1, 2] [] [])"
    by (simp add: channel_emit_def)
  from history_of.step [OF this asked [where ticket = 7]] have "history_of 1 (?h [] 1 [1, 2] [7] [(7, Event 2)])"
    by (simp add: channel_next_def)
  from history_of.step [OF this emitted [where event = 3]] have "history_of 1 (?h [3] 1 [1, 2, 3] [7] [(7, Event 2)])"
    by (simp add: channel_emit_def)
  from subscriber_history [OF this] show ?thesis by simp
qed

section \<open>The hub\<close>

inductive hub_reachable :: "'e hub \<Rightarrow> bool" where
  created: "hub_reachable new_hub"
| subscribed: "hub_reachable hub \<Longrightarrow> subscribe capacity hub = Inr (i, hub') \<Longrightarrow> hub_reachable hub'"
| emission: "hub_reachable hub \<Longrightarrow> hub_reachable (fst (hub_emit event hub))"
| reading: "hub_reachable hub \<Longrightarrow> i < length (hb_subscribed hub) \<Longrightarrow> hub_reachable (fst (hub_next i ticket hub))"
| unsubscribed: "hub_reachable hub \<Longrightarrow> i < length (hb_subscribed hub) \<Longrightarrow> hub_reachable (fst (close_subscription i hub))"
| shut: "hub_reachable hub \<Longrightarrow> hub_reachable (fst (hub_close hub))"

definition total_dropped :: "'e hub \<Rightarrow> nat" where
  "total_dropped hub = sum_list (map (\<lambda>i. ec_dropped (channel_of i hub)) [0..<length (hb_subscribed hub)])"

definition kept :: "'e channel \<Rightarrow> nat" where
  "kept ch = (if ec_closed ch then ec_dropped ch else 0)"

definition dropped_closed :: "'e hub \<Rightarrow> nat" where
  "dropped_closed hub = (\<Sum>i \<in> {0..<length (hb_subscribed hub)}. kept (channel_of i hub))"

text \<open>Channels are numbered as they are handed out; the members of the set are the open ones.\<close>

definition hub_inv :: "'e hub \<Rightarrow> bool" where
  "hub_inv hub \<longleftrightarrow>
     map fst (hb_subscribed hub) = [0..<length (hb_subscribed hub)] \<and>
     distinct (hb_open hub) \<and>
     set (hb_open hub) = {i. i < length (hb_subscribed hub) \<and> \<not> ec_closed (channel_of i hub)} \<and>
     hb_droppedFromClosed hub = dropped_closed hub \<and>
     (\<forall>i < length (hb_subscribed hub). \<exists>h. \<exists>capacity > 0. history_of capacity h \<and> ht_channel h = channel_of i hub)"

lemma keys_present:
  "map fst m = [0..<length m] \<Longrightarrow> i < length m \<Longrightarrow> map_of m i \<noteq> None"
  by (metis atLeastLessThan_iff atLeast_upt lessThan_iff map_of_eq_None_iff set_map set_upt zero_le)

lemma set_channel_simps [simp]:
  "channel_of j (set_channel i ch hub) = (if j = i then ch else channel_of j hub)"
  "hb_open (set_channel i ch hub) = hb_open hub" "hb_closed (set_channel i ch hub) = hb_closed hub"
  "hb_droppedFromClosed (set_channel i ch hub) = hb_droppedFromClosed hub"
  by (simp_all add: channel_of_def set_channel_def)

lemma set_channel_present:
  assumes "map fst (hb_subscribed hub) = [0..<length (hb_subscribed hub)]" "i < length (hb_subscribed hub)"
  shows "length (hb_subscribed (set_channel i ch hub)) = length (hb_subscribed hub)"
    and "map fst (hb_subscribed (set_channel i ch hub)) = map fst (hb_subscribed hub)"
  using keys_present [OF assms] by (simp_all add: set_channel_def length_map_set map_set_keys_present)

lemma hub_inv_total: "hub_inv hub \<Longrightarrow> droppedEvents hub = total_dropped hub"
proof -
  assume inv: "hub_inv hub"
  let ?n = "length (hb_subscribed hub)" and ?d = "\<lambda>i. ec_dropped (channel_of i hub)" and ?c = "\<lambda>i. ec_closed (channel_of i hub)"
  have "foldl (\<lambda>total i. total + ?d i) t is = t + sum_list (map ?d is)" for t "is"
    by (induction "is" arbitrary: t) simp_all
  then have "droppedEvents hub = hb_droppedFromClosed hub + sum_list (map ?d (hb_open hub))"
    by (simp add: droppedEvents_def)
  also have "sum_list (map ?d (hb_open hub)) = sum ?d {i \<in> {0..<?n}. \<not> ?c i}"
  proof -
    have "set (hb_open hub) = {i \<in> {0..<?n}. \<not> ?c i}" "distinct (hb_open hub)" using inv unfolding hub_inv_def by auto
    then show ?thesis by (simp add: sum_list_distinct_conv_sum_set)
  qed
  also have "\<dots> = (\<Sum>i \<in> {0..<?n}. if ?c i then 0 else ?d i)"
    by (subst sum.inter_filter) (auto intro: sum.cong)
  also have "hb_droppedFromClosed hub = (\<Sum>i \<in> {0..<?n}. if ?c i then ?d i else 0)"
    using inv unfolding hub_inv_def dropped_closed_def kept_def by blast
  finally have "droppedEvents hub = (\<Sum>i \<in> {0..<?n}. (if ?c i then ?d i else 0) + (if ?c i then 0 else ?d i))"
    by (simp add: sum.distrib)
  also have "\<dots> = sum ?d {0..<?n}" by (rule sum.cong) auto
  finally show ?thesis by (simp add: total_dropped_def sum_list_distinct_conv_sum_set)
qed

lemma channel_of_updates [simp]:
  "channel_of i (hub\<lparr>hb_open := js\<rparr>) = channel_of i hub" "channel_of i (hub\<lparr>hb_droppedFromClosed := d\<rparr>) = channel_of i hub"
  "channel_of i (hub\<lparr>hb_closed := b\<rparr>) = channel_of i hub"
  by (simp_all add: channel_of_def)

text \<open>A step of one channel that was known to be open or closed keeps the invariant.\<close>

lemma history_continues:
  assumes "history_of capacity h" "ht_channel h = ch"
  shows "\<exists>h'. history_of capacity h' \<and> ht_channel h' = fst (channel_emit event ch)"
    and "\<exists>h'. history_of capacity h' \<and> ht_channel h' = fst (channel_next ticket ch)"
    and "\<exists>h'. history_of capacity h' \<and> ht_channel h' = fst (channel_close ch)"
  using history_of.step [OF assms(1) emitted [OF prod.collapse [symmetric]]]
    history_of.step [OF assms(1) asked [OF prod.collapse [symmetric]]]
    history_of.step [OF assms(1) closed [OF prod.collapse [symmetric]]] assms(2)
  by (metis channel_history.select_convs(1))+

lemma emit_keeps_closed: "ec_closed (fst (channel_emit e ch)) = ec_closed ch" "ec_closed ch \<Longrightarrow> fst (channel_emit e ch) = ch"
  by (auto simp: channel_emit_def Let_def split: list.split)

lemma next_keeps: "ec_closed (fst (channel_next t ch)) = ec_closed ch" "ec_dropped (fst (channel_next t ch)) = ec_dropped ch"
  by (auto simp: channel_next_def split: list.split)

lemma close_closes: "ec_closed (fst (channel_close ch))" "ec_dropped (fst (channel_close ch)) = ec_dropped ch"
  by (auto simp: channel_close_def resolveCompletedWaiters_def Let_def)

lemma dropped_closed_set_channel:
  assumes "map fst (hb_subscribed hub) = [0..<length (hb_subscribed hub)]" "i < length (hb_subscribed hub)"
  shows "dropped_closed (set_channel i ch hub) + kept (channel_of i hub) = dropped_closed hub + kept ch"
proof -
  let ?A = "{0..<length (hb_subscribed hub)}"
  have i: "finite ?A" "i \<in> ?A" using assms(2) by simp_all
  have "dropped_closed (set_channel i ch hub) = kept ch + (\<Sum>j \<in> ?A - {i}. kept (channel_of j hub))"
    unfolding dropped_closed_def set_channel_present(1) [OF assms] sum.remove [OF i]
    by (simp cong: sum.cong_simp)
  moreover have "dropped_closed hub = kept (channel_of i hub) + (\<Sum>j \<in> ?A - {i}. kept (channel_of j hub))"
    unfolding dropped_closed_def sum.remove [OF i] ..
  ultimately show ?thesis by simp
qed

lemma set_channel_inv:
  assumes inv: "hub_inv hub" and i: "i < length (hb_subscribed hub)"
    and same: "ec_closed ch = ec_closed (channel_of i hub)" "ec_closed ch \<Longrightarrow> ec_dropped ch = ec_dropped (channel_of i hub)"
    and hist: "\<exists>h. \<exists>capacity > 0. history_of capacity h \<and> ht_channel h = ch"
  shows "hub_inv (set_channel i ch hub)"
proof -
  have keys: "map fst (hb_subscribed hub) = [0..<length (hb_subscribed hub)]" using inv unfolding hub_inv_def by blast
  have "kept ch = kept (channel_of i hub)" using same by (simp add: kept_def)
  then have "dropped_closed (set_channel i ch hub) = dropped_closed hub"
    using dropped_closed_set_channel [OF keys i, of ch] by simp
  then show ?thesis
    using inv same(1) hist unfolding hub_inv_def set_channel_present [OF keys i] by auto
qed

lemma close_subscription_inv:
  assumes inv: "hub_inv hub" and i: "i < length (hb_subscribed hub)"
  shows "hub_inv (fst (close_subscription i hub))"
proof (cases "ec_closed (channel_of i hub)")
  case True
  then have "fst (close_subscription i hub) = set_channel i (channel_of i hub) hub"
    by (simp add: close_subscription_def channel_close_def)
  moreover from inv i have "\<exists>h. \<exists>capacity > 0. history_of capacity h \<and> ht_channel h = channel_of i hub"
    unfolding hub_inv_def by blast
  ultimately show ?thesis using set_channel_inv [OF inv i] by simp
next
  case False
  let ?ch = "fst (channel_close (channel_of i hub))" and ?n = "length (hb_subscribed hub)"
  let ?hub = "set_channel i ?ch hub"
  let ?hub' = "?hub\<lparr>hb_droppedFromClosed := hb_droppedFromClosed hub + ec_dropped (channel_of i hub),
      hb_open := filter (\<lambda>j. j \<noteq> i) (hb_open hub)\<rparr>"
  have keys: "map fst (hb_subscribed hub) = [0..<?n]" using inv unfolding hub_inv_def by blast
  obtain h capacity where "0 < capacity" "history_of capacity h" "ht_channel h = channel_of i hub"
    using inv i unfolding hub_inv_def by blast
  then have hist: "\<exists>h. \<exists>capacity > 0. history_of capacity h \<and> ht_channel h = ?ch"
    using history_continues(3) by blast
  have closed: "ec_closed (channel_of j ?hub) \<longleftrightarrow> j = i \<or> ec_closed (channel_of j hub)" for j by (simp add: close_closes)
  have "dropped_closed ?hub' = dropped_closed ?hub" by (simp add: dropped_closed_def del: set_channel_simps(1))
  also have "\<dots> = hb_droppedFromClosed hub + ec_dropped (channel_of i hub)"
    using dropped_closed_set_channel [OF keys i, of ?ch] False inv by (simp add: close_closes hub_inv_def kept_def)
  finally have drops: "hb_droppedFromClosed ?hub' = dropped_closed ?hub'" by simp
  have "set (hb_open ?hub') = {j. j < length (hb_subscribed ?hub') \<and> \<not> ec_closed (channel_of j ?hub')}"
    using inv set_channel_present(1) [OF keys i] unfolding hub_inv_def by (auto simp: close_closes)
  moreover have "map fst (hb_subscribed ?hub') = [0..<length (hb_subscribed ?hub')]" "distinct (hb_open ?hub')"
    using keys inv set_channel_present [OF keys i, of ?ch] by (simp_all add: hub_inv_def)
  moreover have "\<forall>j < length (hb_subscribed ?hub'). \<exists>h. \<exists>capacity > 0. history_of capacity h \<and> ht_channel h = channel_of j ?hub'"
    using inv hist set_channel_present(1) [OF keys i] unfolding hub_inv_def by auto
  ultimately have "hub_inv ?hub'" using drops unfolding hub_inv_def by blast
  moreover have "fst (close_subscription i hub) = ?hub'"
    using False by (simp add: close_subscription_def Let_def case_prod_beta)
  ultimately show ?thesis by simp
qed

lemma new_channel_simps [simp]:
  "ec_closed (new_channel c) = False" "ec_dropped (new_channel c) = 0" "kept (new_channel c) = 0"
  by (simp_all add: new_channel_def kept_def)

lemma subscribe_inv:
  assumes inv: "hub_inv hub" and ok: "subscribe capacity hub = Inr (i, hub')"
  shows "hub_inv hub'"
proof -
  let ?n = "length (hb_subscribed hub)" and ?ch = "new_channel (nat \<lfloor>capacity\<rfloor>)"
  let ?hub = "set_channel ?n ?ch hub"
  let ?open = "?hub\<lparr>hb_open := hb_open hub @ [?n]\<rparr>"
  have keys: "map fst (hb_subscribed hub) = [0..<?n]" using inv unfolding hub_inv_def by blast
  from ok have i: "i = ?n" and cap: "0 < nat \<lfloor>capacity\<rfloor>"
    by (auto simp: subscribe_def Let_def split: if_splits)
  have "map_of (hb_subscribed hub) ?n = None" using keys by (metis atLeastLessThan_iff less_irrefl map_of_eq_None_iff set_map set_upt)
  then have new: "hb_subscribed ?hub = hb_subscribed hub @ [(?n, ?ch)]" by (simp add: set_channel_def map_set_new)
  have hist: "\<exists>h. \<exists>c > 0. history_of c h \<and> ht_channel h = ?ch"
    using cap history_of.start [of "nat \<lfloor>capacity\<rfloor>"]
    by (intro exI [of _ "\<lparr>ht_channel = ?ch, ht_emitted = [], ht_asked = [], ht_answers = []\<rparr>"] exI [of _ "nat \<lfloor>capacity\<rfloor>"]) simp
  have "dropped_closed ?hub = dropped_closed hub"
    unfolding dropped_closed_def new by (auto intro!: sum.cong)
  then have drops: "dropped_closed ?open = dropped_closed hub"
    by (simp add: dropped_closed_def del: set_channel_simps(1))
  have others: "channel_of j ?open = (if j = ?n then ?ch else channel_of j hub)" for j by simp
  have members: "set (hb_open ?open) = {j. j < length (hb_subscribed ?open) \<and> \<not> ec_closed (channel_of j ?open)}"
    using inv unfolding hub_inv_def others by (auto simp: new less_Suc_eq)
  have histories: "\<forall>j < length (hb_subscribed ?open). \<exists>h. \<exists>capacity > 0. history_of capacity h \<and> ht_channel h = channel_of j ?open"
  proof (intro allI impI)
    fix j
    assume "j < length (hb_subscribed ?open)"
    then show "\<exists>h. \<exists>capacity > 0. history_of capacity h \<and> ht_channel h = channel_of j ?open"
      using inv hist unfolding others hub_inv_def by (cases "j = ?n") (auto simp: new less_Suc_eq)
  qed
  have "distinct (hb_open ?open)" using inv unfolding hub_inv_def by auto
  then have "hub_inv ?open"
    using inv members histories drops keys unfolding hub_inv_def by (simp add: new)
  moreover have "hub_inv (fst (close_subscription ?n ?hub))"
  proof -
    have "fst (close_subscription ?n ?hub) = fst (close_subscription ?n ?open)"
    proof -
      have "?n \<notin> set (hb_open hub)" using inv unfolding hub_inv_def by auto
      then show ?thesis by (simp add: close_subscription_def set_channel_def channel_of_def new_channel_def
        channel_close_def resolveCompletedWaiters_def filter_id_conv)
    qed
    moreover have "?n < length (hb_subscribed ?open)" by (simp add: new)
    ultimately show ?thesis using close_subscription_inv [OF \<open>hub_inv ?open\<close>] by simp
  qed
  ultimately show ?thesis using ok unfolding i by (auto simp: subscribe_def Let_def split: if_splits)
qed

lemma length_set_channel: "hub_inv hub \<Longrightarrow> i < length (hb_subscribed hub) \<Longrightarrow>
    length (hb_subscribed (set_channel i ch hub)) = length (hb_subscribed hub)"
  by (rule set_channel_present) (simp_all add: hub_inv_def)

lemma emit_inv_hub:
  assumes "hub_inv hub" "\<forall>i \<in> set is. i < length (hb_subscribed hub)"
  shows "hub_inv (fst (foldl (\<lambda>acc i. on_channel (channel_emit event) i acc) (hub, outs) is))"
  using assms
proof (induction "is" arbitrary: hub outs)
  case (Cons i "is")
  let ?hub = "set_channel i (fst (channel_emit event (channel_of i hub))) hub"
  from Cons.prems have i: "i < length (hb_subscribed hub)" by simp
  obtain h capacity where h: "0 < capacity" "history_of capacity h" "ht_channel h = channel_of i hub"
    using Cons.prems(1) i unfolding hub_inv_def by blast
  have "hub_inv ?hub"
    by (rule set_channel_inv [OF Cons.prems(1) i])
      (use history_continues(1) [OF h(2,3), of event] h(1) in \<open>auto simp: emit_keeps_closed\<close>)
  moreover have "\<forall>j \<in> set is. j < length (hb_subscribed ?hub)"
    using Cons.prems length_set_channel [OF Cons.prems(1) i] by simp
  ultimately show ?case using Cons.IH [of ?hub] by (simp add: on_channel_def case_prod_beta Let_def)
qed simp

lemma next_inv_hub:
  assumes inv: "hub_inv hub" and i: "i < length (hb_subscribed hub)"
  shows "hub_inv (fst (hub_next i ticket hub))"
proof -
  obtain h capacity where h: "0 < capacity" "history_of capacity h" "ht_channel h = channel_of i hub"
    using inv i unfolding hub_inv_def by blast
  have "hub_inv (set_channel i (fst (channel_next ticket (channel_of i hub))) hub)"
    by (rule set_channel_inv [OF inv i])
      (use history_continues(2) [OF h(2,3), of ticket] h(1) in \<open>auto simp: next_keeps\<close>)
  then show ?thesis by (simp add: hub_next_def case_prod_beta Let_def)
qed

lemma length_close_subscription:
  assumes "hub_inv hub" "i < length (hb_subscribed hub)"
  shows "length (hb_subscribed (fst (close_subscription i hub))) = length (hb_subscribed hub)"
  using length_set_channel [OF assms] by (simp add: close_subscription_def Let_def case_prod_beta)

lemma close_inv_hub:
  assumes "hub_inv hub" "\<forall>i \<in> set is. i < length (hb_subscribed hub)"
  shows "hub_inv (fst (foldl (\<lambda>(hub, outs) i. let (hub, answers) = close_subscription i hub in (hub, outs @ [(i, answers)])) (hub, outs) is))"
  using assms
proof (induction "is" arbitrary: hub outs)
  case (Cons i "is")
  then show ?case
    using close_subscription_inv [of hub i] length_close_subscription [of hub i]
    by (simp add: case_prod_beta Let_def)
qed simp

lemma reachable_hub_inv: "hub_reachable hub \<Longrightarrow> hub_inv hub"
proof (induction rule: hub_reachable.induct)
  case created
  then show ?case by (simp add: hub_inv_def new_hub_def dropped_closed_def)
next
  case (subscribed hub capacity i hub')
  then show ?case using subscribe_inv by blast
next
  case (emission hub event)
  then have "\<forall>i \<in> set (hb_open hub). i < length (hb_subscribed hub)" unfolding hub_inv_def by auto
  then show ?case using emission emit_inv_hub [of hub "hb_open hub" event "[]"] by (simp add: hub_emit_def)
next
  case (reading hub i ticket)
  then show ?case by (simp add: next_inv_hub)
next
  case (unsubscribed hub i)
  then show ?case by (simp add: close_subscription_inv)
next
  case (shut hub)
  have "hub_inv (hub\<lparr>hb_closed := True\<rparr>)" using shut unfolding hub_inv_def by (simp add: dropped_closed_def)
  moreover have "\<forall>i \<in> set (hb_open hub). i < length (hb_subscribed hub)" using shut unfolding hub_inv_def by auto
  ultimately show ?case
    using shut close_inv_hub [of "hub\<lparr>hb_closed := True\<rparr>" "hb_open hub" "[]"] by (simp add: hub_close_def)
qed

text \<open>
  The hub loses no count of lost events: whatever is subscribed, emitted, read and closed, its number
  of dropped events is the sum over all channels it ever handed out, open or closed, and no buffer
  of a channel exceeds the capacity asked for.
\<close>

theorem hub_accounts_for_drops:
  assumes "hub_reachable hub"
  shows "droppedEvents hub = total_dropped hub \<and>
    (\<forall>i < length (hb_subscribed hub). length (ec_queue (channel_of i hub)) \<le> ec_capacity (channel_of i hub))"
proof -
  have inv: "hub_inv hub" using assms by (rule reachable_hub_inv)
  moreover have "length (ec_queue (channel_of i hub)) \<le> ec_capacity (channel_of i hub)" if "i < length (hb_subscribed hub)" for i
  proof -
    obtain h capacity where "0 < capacity" "history_of capacity h" "ht_channel h = channel_of i hub"
      using inv \<open>i < _\<close> unfolding hub_inv_def by blast
    then show ?thesis using history_inv [of capacity h] by (simp add: channel_inv_def Let_def)
  qed
  ultimately show ?thesis using hub_inv_total by blast
qed

lemma hub_accounts_for_drops_witness:
  "droppedEvents (fst (close_subscription 0 (fst (hub_emit True (fst (hub_emit False
      (\<lparr>hb_subscribed = [(0, new_channel 1)], hb_open = [0], hb_closed = False, hb_droppedFromClosed = 0\<rparr>))))))) = 1"
proof -
  let ?hub = "\<lparr>hb_subscribed = [(0, new_channel 1)], hb_open = [0], hb_closed = False, hb_droppedFromClosed = 0\<rparr> :: bool hub"
  have "subscribe 1 new_hub = Inr (0, ?hub)"
    by (simp add: subscribe_def new_hub_def Let_def set_channel_def)
  from hub_reachable.subscribed [OF hub_reachable.created this] have "hub_reachable ?hub" .
  then have "hub_reachable (fst (hub_emit True (fst (hub_emit False ?hub))))" by (intro hub_reachable.emission)
  from hub_reachable.unsubscribed [OF this, of 0]
  have "hub_reachable (fst (close_subscription 0 (fst (hub_emit True (fst (hub_emit False ?hub))))))"
    by (simp add: hub_emit_def on_channel_def channel_emit_def channel_of_def set_channel_def new_channel_def)
  from hub_accounts_for_drops [OF this] show ?thesis
    by (simp add: total_dropped_def hub_emit_def on_channel_def channel_emit_def channel_of_def set_channel_def
      new_channel_def close_subscription_def channel_close_def Let_def resolveCompletedWaiters_def)
qed

end
