(* ===== verification/Evidence.thy ===== *)
theory Evidence
  imports Record_Codec "HOL-Library.Word"
begin

text \<open>
  The evidence of a run: portable paths (\<open>core/portable-path.ts\<close>), references to evidence and their
  parser (\<open>evidence/types.ts\<close>, \<open>evidence/parse.ts\<close>), and the content-addressed store
  (\<open>evidence/content-addressed-store.ts\<close>). The directory of a run is the map from the relative path of
  a file to its bytes; directories are implicit.
\<close>

type_synonym bytes = "8 word list"

section \<open>Portable paths\<close>

definition is_letter :: "char \<Rightarrow> bool" where
  "is_letter c \<longleftrightarrow> of_char c \<in> {65..90 :: nat} \<union> {97..122}"

definition has_drive :: "string \<Rightarrow> bool" where
  "has_drive p = (case p of c # d # _ \<Rightarrow> is_letter c \<and> d = CHR '':'' | _ \<Rightarrow> False)"

definition portable :: "string \<Rightarrow> bool" where
  "portable p \<longleftrightarrow>
     p \<noteq> [] \<and> CHR 0x5C \<notin> set p \<and> hd p \<noteq> CHR ''/'' \<and> \<not> has_drive p \<and>
     list_all (\<lambda>s. s \<noteq> [] \<and> s \<noteq> ''.'' \<and> s \<noteq> ''..'') (split_on (CHR ''/'') p)"

definition validatePortableRelativePath :: "string \<Rightarrow> string parsed" where
  "validatePortableRelativePath p = (if portable p then Inr p else Inl (MalformedValue p))"

text \<open>\<open>path.join\<close> of an absolute directory, given by its segments, with more segments.\<close>

definition join_segment :: "string list \<Rightarrow> string \<Rightarrow> string list" where
  "join_segment dir s =
     (if s = [] \<or> s = ''.'' then dir else if s = ''..'' then butlast dir else dir @ [s])"

definition resolvePortableRelativePath :: "string list \<Rightarrow> string \<Rightarrow> string list parsed" where
  "resolvePortableRelativePath base p =
     bind_result (validatePortableRelativePath p)
       (\<lambda>portable_path. Inr (foldl join_segment base (split_on (CHR ''/'') portable_path)))"

section \<open>References\<close>

datatype evidence_kind = EvHtml | EvXml | EvRenderedHtml

datatype evidence_capture =
    Complete int                    \<comment> \<open>\<open>sourceByteLength\<close>\<close>
  | Truncated "int option" int      \<comment> \<open>\<open>sourceByteLength\<close>, \<open>limitBytes\<close>\<close>

record evidence_reference =
  er_digest :: string
  er_kind :: evidence_kind
  er_mediaType :: string
  er_byteLength :: int
  er_capture :: evidence_capture
  er_relativePath :: string
  er_createdAt :: string

fun evidence_kind_name :: "evidence_kind \<Rightarrow> string" where
  "evidence_kind_name EvHtml = ''html''"
| "evidence_kind_name EvXml = ''xml''"
| "evidence_kind_name EvRenderedHtml = ''rendered-html''"

abbreviation JNumber :: "int \<Rightarrow> json" where
  "JNumber i \<equiv> JNum (of_int i)"

fun capture_json :: "evidence_capture \<Rightarrow> json" where
  "capture_json (Complete n) = JObj [(''kind'', JStr ''complete''), (''sourceByteLength'', JNumber n)]"
| "capture_json (Truncated source limit) =
     JObj [(''kind'', JStr ''truncated''),
       (''sourceByteLength'', case source of None \<Rightarrow> JNull | Some n \<Rightarrow> JNumber n), (''limitBytes'', JNumber limit)]"

definition evidence_json :: "evidence_reference \<Rightarrow> json" where
  "evidence_json r = JObj (schema_identity ''site-crawler.evidenceReference'' @
     [(''algorithm'', JStr ''sha256''), (''digest'', JStr (er_digest r)),
      (''kind'', JStr (evidence_kind_name (er_kind r))), (''mediaType'', JStr (er_mediaType r)),
      (''byteLength'', JNumber (er_byteLength r)), (''capture'', capture_json (er_capture r)),
      (''relativePath'', JStr (er_relativePath r)), (''createdAt'', JStr (er_createdAt r))])"

definition whole :: "number \<Rightarrow> bool" where
  "whole n \<longleftrightarrow> of_int \<lfloor>n\<rfloor> = n"

definition integerField :: "(string \<times> json) list \<Rightarrow> string \<Rightarrow> int parsed" where
  "integerField fs k =
     bind_result (numberField fs k) (\<lambda>n. if whole n then Inr \<lfloor>n\<rfloor> else Inl (BadField k))"

definition nonNegativeInteger :: "(string \<times> json) list \<Rightarrow> string \<Rightarrow> int parsed" where
  "nonNegativeInteger fs k =
     bind_result (integerField fs k) (\<lambda>i. if i < 0 then Inl (BadField k) else Inr i)"

definition nullableIntegerField :: "(string \<times> json) list \<Rightarrow> string \<Rightarrow> int option parsed" where
  "nullableIntegerField fs k =
     (case field fs k of
        Some JNull \<Rightarrow> Inr None
      | Some (JNum n) \<Rightarrow> if whole n then Inr (Some \<lfloor>n\<rfloor>) else Inl (BadField k)
      | _ \<Rightarrow> Inl (BadField k))"

definition nullableNonNegativeInteger :: "(string \<times> json) list \<Rightarrow> string \<Rightarrow> int option parsed" where
  "nullableNonNegativeInteger fs k =
     bind_result (nullableIntegerField fs k)
       (\<lambda>v. case v of Some i \<Rightarrow> if i < 0 then Inl (BadField k) else Inr v | None \<Rightarrow> Inr v)"

definition parseKind :: "string \<Rightarrow> evidence_kind parsed" where
  "parseKind s =
     (if s = ''html'' then Inr EvHtml else if s = ''xml'' then Inr EvXml
      else if s = ''rendered-html'' then Inr EvRenderedHtml else Inl (MalformedValue ''kind''))"

definition parseCapture :: "json option \<Rightarrow> int \<Rightarrow> evidence_capture parsed" where
  "parseCapture v storedByteLength =
     bind_result (record_of v ''evidence capture'') (\<lambda>candidate.
     bind_result (stringField candidate ''kind'') (\<lambda>kind.
       if kind = ''complete'' then
         bind_result (exactRecord v ''complete evidence capture'' [''kind'', ''sourceByteLength'']) (\<lambda>input.
         bind_result (nonNegativeInteger input ''sourceByteLength'') (\<lambda>n. Inr (Complete n)))
       else if kind = ''truncated'' then
         bind_result (exactRecord v ''truncated evidence capture'' [''kind'', ''sourceByteLength'', ''limitBytes'']) (\<lambda>input.
         bind_result (nullableNonNegativeInteger input ''sourceByteLength'') (\<lambda>source.
         bind_result (nonNegativeInteger input ''limitBytes'') (\<lambda>limitBytes.
           if storedByteLength > limitBytes then Inl (MalformedValue ''limitBytes'')
           else if (case source of None \<Rightarrow> False | Some n \<Rightarrow> n \<le> storedByteLength) then Inl (MalformedValue ''sourceByteLength'')
           else Inr (Truncated source limitBytes))))
       else Inl (MalformedValue ''capture'')))"

definition is_digest :: "string \<Rightarrow> bool" where
  "is_digest s \<longleftrightarrow> length s = 64 \<and> list_all (\<lambda>c. of_char c \<in> {48..57 :: nat} \<union> {97..102}) s"

definition evidence_fields :: "string list" where
  "evidence_fields = [''schemaId'', ''schemaVersion'', ''algorithm'', ''digest'', ''kind'', ''mediaType'',
     ''byteLength'', ''capture'', ''relativePath'', ''createdAt'']"

definition parseEvidenceReference :: "json option \<Rightarrow> evidence_reference parsed" where
  "parseEvidenceReference v =
     bind_result (exactRecord v ''evidence reference'' evidence_fields) (\<lambda>input.
     bind_result (assertCurrentSchema input ''site-crawler.evidenceReference'' ''Evidence reference'') (\<lambda>_.
     bind_result (stringField input ''algorithm'') (\<lambda>algorithm.
       if algorithm \<noteq> ''sha256'' then Inl (MalformedValue ''algorithm'')
       else
     bind_result (bind_result (stringField input ''kind'') parseKind) (\<lambda>kind.
     bind_result (stringField input ''digest'') (\<lambda>digest.
       if \<not> is_digest digest then Inl (MalformedValue ''digest'')
       else
     bind_result (nonNegativeInteger input ''byteLength'') (\<lambda>byteLength.
     bind_result (parseCapture (field input ''capture'') byteLength) (\<lambda>capture.
     bind_result (bind_result (stringField input ''relativePath'') validatePortableRelativePath) (\<lambda>relativePath.
       if (case capture of Complete n \<Rightarrow> n \<noteq> byteLength | _ \<Rightarrow> False) then Inl (MalformedValue ''byteLength'')
       else
     bind_result (stringField input ''mediaType'') (\<lambda>mediaType.
     bind_result (stringField input ''createdAt'') (\<lambda>createdAt.
       Inr \<lparr>er_digest = digest, er_kind = kind, er_mediaType = mediaType, er_byteLength = byteLength,
            er_capture = capture, er_relativePath = relativePath, er_createdAt = createdAt\<rparr>))))))))))"

section \<open>The store\<close>

type_synonym run_files = "(string, bytes) jsmap"

datatype evidence_error =
    ObjectCorrupt string        \<comment> \<open>an object of that name with other bytes\<close>
  | ReferenceInvalid parse_error
  | PathMismatch
  | ObjectMissing string
  | LengthMismatch string
  | DigestMismatch string

text \<open>\<open>sha256(bytes)\<close> as lower-case hexadecimal text.\<close>

type_synonym byte_hash = "bytes \<Rightarrow> string"

definition relativeObjectPath :: "string \<Rightarrow> string" where
  "relativeObjectPath digest = ''evidence/sha256/'' @ take 2 digest @ ''/'' @ digest"

text \<open>
  \<open>writeOnce\<close> creates the file exclusively and then writes it; \<open>torn\<close> is how many bytes reach the disk
  when the process dies in between.
\<close>

definition writeOnce :: "string \<Rightarrow> bytes \<Rightarrow> run_files \<Rightarrow> (evidence_error, bool \<times> run_files) result" where
  "writeOnce target content files =
     (case map_of files target of
        None \<Rightarrow> Inr (True, map_set target content files)
      | Some existing \<Rightarrow>
          if length existing \<noteq> length content \<or> existing \<noteq> content then Inl (ObjectCorrupt target)
          else Inr (False, files))"

definition torn_writeOnce :: "nat \<Rightarrow> string \<Rightarrow> bytes \<Rightarrow> run_files \<Rightarrow> run_files" where
  "torn_writeOnce torn target content files =
     (case map_of files target of
        None \<Rightarrow> map_set target (take torn content) files
      | Some existing \<Rightarrow> files)"

definition writeBytes ::
  "byte_hash \<Rightarrow> string \<Rightarrow> evidence_kind \<Rightarrow> string \<Rightarrow> bytes \<Rightarrow> run_files
     \<Rightarrow> (evidence_error, (evidence_reference \<times> bool) \<times> run_files) result"
where
  "writeBytes sha now kind mediaType content files =
     (let digest = sha content; relativePath = relativeObjectPath digest
      in bind_result (writeOnce relativePath content files) (\<lambda>(created, files).
           Inr ((\<lparr>er_digest = digest, er_kind = kind, er_mediaType = mediaType,
                  er_byteLength = int (length content), er_capture = Complete (int (length content)),
                  er_relativePath = relativePath, er_createdAt = now\<rparr>, created), files)))"

definition objectPath :: "evidence_reference \<Rightarrow> (evidence_error, string) result" where
  "objectPath r =
     (if er_relativePath r \<noteq> relativeObjectPath (er_digest r) then Inl PathMismatch
      else case validatePortableRelativePath (er_relativePath r) of
             Inl e \<Rightarrow> Inl (ReferenceInvalid e) | Inr p \<Rightarrow> Inr p)"

definition evidence_read :: "byte_hash \<Rightarrow> json \<Rightarrow> run_files \<Rightarrow> (evidence_error, bytes) result" where
  "evidence_read sha reference files =
     (case parseEvidenceReference (Some reference) of
        Inl e \<Rightarrow> Inl (ReferenceInvalid e)
      | Inr r \<Rightarrow>
          bind_result (objectPath r) (\<lambda>p.
            case map_of files p of
              None \<Rightarrow> Inl (ObjectMissing p)
            | Some bytes \<Rightarrow>
                if int (length bytes) \<noteq> er_byteLength r then Inl (LengthMismatch p)
                else if sha bytes \<noteq> er_digest r then Inl (DigestMismatch p)
                else Inr bytes))"

end
