(* ===== verification/Evidence_Properties.thy ===== *)
theory Evidence_Properties
  imports Evidence Stored_Records
begin

text \<open>
  What the evidence store promises: references are read back as written and only sound ones are
  accepted, what was stored is read back after any later writes, and what a process that dies
  during a write leaves behind.
\<close>

section \<open>Portable paths\<close>

lemma foldl_join_segment:
  "list_all (\<lambda>s. s \<noteq> [] \<and> s \<noteq> ''.'' \<and> s \<noteq> ''..'') segments \<Longrightarrow> foldl join_segment base segments = base @ segments"
  by (induction segments arbitrary: base) (simp_all add: join_segment_def)

text \<open>
  A portable path never leaves the directory it is resolved in: the result is the directory followed
  by the segments of the path, none of which is empty or names the directory itself or its parent.
\<close>

theorem portable_path_stays_inside:
  assumes "resolvePortableRelativePath base p = Inr target"
  shows "target = base @ split_on (CHR ''/'') p \<and> '''' \<notin> set (split_on (CHR ''/'') p) \<and> ''..'' \<notin> set (split_on (CHR ''/'') p)"
proof -
  from assms have ok: "portable p" and target: "target = foldl join_segment base (split_on (CHR ''/'') p)"
    by (auto simp: resolvePortableRelativePath_def validatePortableRelativePath_def split: if_splits)
  from ok have "list_all (\<lambda>s. s \<noteq> [] \<and> s \<noteq> ''.'' \<and> s \<noteq> ''..'') (split_on (CHR ''/'') p)" by (simp add: portable_def)
  then show ?thesis using target by (auto simp: foldl_join_segment list_all_iff)
qed

lemma portable_path_stays_inside_witness:
  "resolvePortableRelativePath [''run''] ''evidence/x'' = Inr [''run'', ''evidence'', ''x''] \<and>
   ''..'' \<notin> set (split_on (CHR ''/'') ''evidence/x'')"
proof -
  have "resolvePortableRelativePath [''run''] ''evidence/x'' = Inr [''run'', ''evidence'', ''x'']" by code_simp
  with portable_path_stays_inside [OF this] show ?thesis by simp
qed

section \<open>References\<close>

fun capture_ok :: "int \<Rightarrow> evidence_capture \<Rightarrow> bool" where
  "capture_ok stored (Complete n) \<longleftrightarrow> n = stored"
| "capture_ok stored (Truncated source limit) \<longleftrightarrow>
     stored \<le> limit \<and> (case source of None \<Rightarrow> True | Some n \<Rightarrow> stored < n)"

definition evidence_ok :: "evidence_reference \<Rightarrow> bool" where
  "evidence_ok r \<longleftrightarrow>
     is_digest (er_digest r) \<and> portable (er_relativePath r) \<and> 0 \<le> er_byteLength r \<and>
     capture_ok (er_byteLength r) (er_capture r)"

lemma exactRecord_written:
  "distinct (map fst fs) \<Longrightarrow> set (map fst fs) \<subseteq> set allowed \<Longrightarrow> exactRecord (Some (JObj fs)) name allowed = Inr fs"
  by (auto simp: exactRecord_def record_of_object Let_def filter_empty_conv)

lemma integer_written [simp]:
  "field fs k = Some (JNumber i) \<Longrightarrow> integerField fs k = Inr i"
  by (simp add: integerField_def numberField_def whole_def)

lemma nonNegative_written:
  "field fs k = Some (JNumber i) \<Longrightarrow> 0 \<le> i \<Longrightarrow> nonNegativeInteger fs k = Inr i"
  by (simp add: nonNegativeInteger_def)

lemma parseCapture_written:
  assumes "capture_ok stored c" "0 \<le> stored"
  shows "parseCapture (Some (capture_json c)) stored = Inr c"
  using assms
  by (cases c) (auto simp: parseCapture_def record_of_object exactRecord_written stringField_def nonNegative_written
    nullableNonNegativeInteger_def nullableIntegerField_def whole_def split: option.splits)

lemma parseKind_written [simp]: "parseKind (evidence_kind_name k) = Inr k"
  by (cases k) (simp_all add: parseKind_def)

lemma parse_evidence_written:
  assumes "evidence_ok r"
  shows "parseEvidenceReference (Some (evidence_json r)) = Inr r"
proof -
  obtain fs where fs: "evidence_json r = JObj fs" by (simp add: evidence_json_def)
  note fs_def = fs [unfolded evidence_json_def schema_identity_def json.inject, symmetric]
  have keys: "map fst fs = evidence_fields" unfolding fs_def by (simp add: evidence_fields_def)
  have "distinct evidence_fields" by code_simp
  then have exact: "exactRecord (Some (JObj fs)) ''evidence reference'' evidence_fields = Inr fs"
    by (intro exactRecord_written) (simp_all only: keys subset_refl)
  have schema: "assertCurrentSchema fs ''site-crawler.evidenceReference'' ''Evidence reference'' = Inr ()"
    unfolding fs_def by (simp add: assertCurrentSchema_def hasCurrentSchema_def SITE_CRAWLER_SCHEMA_VERSION_def)
  have strings: "stringField fs ''algorithm'' = Inr ''sha256''" "stringField fs ''digest'' = Inr (er_digest r)"
    "stringField fs ''kind'' = Inr (evidence_kind_name (er_kind r))" "stringField fs ''mediaType'' = Inr (er_mediaType r)"
    "stringField fs ''relativePath'' = Inr (er_relativePath r)" "stringField fs ''createdAt'' = Inr (er_createdAt r)"
    unfolding fs_def by (simp_all add: stringField_def)
  have "0 \<le> er_byteLength r" using assms by (simp add: evidence_ok_def)
  then have len: "nonNegativeInteger fs ''byteLength'' = Inr (er_byteLength r)"
    by (rule nonNegative_written [rotated]) (simp add: fs_def)
  have "field fs ''capture'' = Some (capture_json (er_capture r))" unfolding fs_def by simp
  then have capture: "parseCapture (field fs ''capture'') (er_byteLength r) = Inr (er_capture r)"
    using assms by (simp add: evidence_ok_def parseCapture_written)
  have whole: "\<not> (case er_capture r of Complete n \<Rightarrow> n \<noteq> er_byteLength r | _ \<Rightarrow> False)"
    using assms by (cases "er_capture r") (simp_all add: evidence_ok_def)
  show ?thesis
    unfolding fs parseEvidenceReference_def
    using assms whole by (simp add: exact schema strings len capture evidence_ok_def validatePortableRelativePath_def)
qed

lemma nonNegative_ok: "nonNegativeInteger fs k = Inr i \<Longrightarrow> 0 \<le> i"
  by (auto simp: nonNegativeInteger_def bind_result_Inr split: if_splits)

lemma parseCapture_ok: "parseCapture v stored = Inr c \<Longrightarrow> capture_ok stored c \<or> (\<exists>n. c = Complete n)"
  by (auto simp: parseCapture_def bind_result_Inr split: if_splits option.splits)

lemma parsed_evidence_ok: "parseEvidenceReference v = Inr r \<Longrightarrow> evidence_ok r"
  unfolding parseEvidenceReference_def
  by (auto simp: bind_result_Inr evidence_ok_def validatePortableRelativePath_def split: if_splits evidence_capture.splits
    dest!: nonNegative_ok parseCapture_ok)

text \<open>
  The parser of evidence references accepts a written reference exactly when it is sound, then returns
  it unchanged, and never returns an unsound one: the digest is one, the path is portable, and the
  recorded lengths agree with the kind of the capture.
\<close>

theorem evidence_reference_exact:
  "(parseEvidenceReference (Some (evidence_json r)) = Inr r) = evidence_ok r \<and>
   (parseEvidenceReference v = Inr r \<longrightarrow> evidence_ok r)"
  using parse_evidence_written parsed_evidence_ok by blast

section \<open>The store\<close>

definition hash_ok :: "byte_hash \<Rightarrow> bool" where
  "hash_ok sha \<longleftrightarrow> (\<forall>b. is_digest (sha b))"

text \<open>Anything the processes of runs on one directory do to it: complete writes, and torn ones.\<close>

inductive store_steps :: "byte_hash \<Rightarrow> run_files \<Rightarrow> run_files \<Rightarrow> bool" for sha where
  refl: "store_steps sha files files"
| wrote: "store_steps sha files files' \<Longrightarrow> writeBytes sha now kind mediaType content files' = Inr (r, files'') \<Longrightarrow>
     store_steps sha files files''"
| died: "store_steps sha files files' \<Longrightarrow>
     store_steps sha files (torn_writeOnce torn (relativeObjectPath (sha content)) content files')"

lemma writeBytes_keeps:
  assumes "writeBytes sha now kind mediaType content files = Inr (r, files')" "map_of files p = Some b"
  shows "map_of files' p = Some b"
  using assms by (auto simp: writeBytes_def writeOnce_def Let_def split: option.splits if_splits)

lemma store_steps_keep: "store_steps sha files files' \<Longrightarrow> map_of files p = Some b \<Longrightarrow> map_of files' p = Some b"
proof (induction rule: store_steps.induct)
  case (wrote files files' now kind mediaType content r files'')
  then show ?case using writeBytes_keeps by blast
next
  case (died files files' torn content)
  then show ?case by (auto simp: torn_writeOnce_def split: option.split)
qed

lemma split_no_sep: "d \<notin> set s \<Longrightarrow> split_on d (s @ d # t) = s # split_on d t"
  by (rule split_on_append)

lemma digest_char: "is_digest s \<Longrightarrow> c \<in> set s \<Longrightarrow> of_char c \<in> {48..57 :: nat} \<union> {97..102}"
  by (auto simp: is_digest_def list_all_iff)

lemma digest_no: "is_digest s \<Longrightarrow> CHR ''/'' \<notin> set s \<and> CHR 0x5C \<notin> set s \<and> CHR ''.'' \<notin> set s"
  using digest_char [of s "CHR ''/''"] digest_char [of s "CHR 0x5C"] digest_char [of s "CHR ''.''"] by auto

lemma object_path_segments:
  assumes "is_digest d"
  shows "split_on (CHR ''/'') (relativeObjectPath d) = [''evidence'', ''sha256'', take 2 d, d]"
proof -
  have "relativeObjectPath d = ''evidence'' @ CHR ''/'' # (''sha256'' @ CHR ''/'' # (take 2 d @ CHR ''/'' # d))"
    by (simp add: relativeObjectPath_def)
  moreover have "CHR ''/'' \<notin> set (take 2 d)" "CHR ''/'' \<notin> set d"
    using digest_no [OF assms] in_set_takeD by fastforce+
  ultimately show ?thesis by (simp only: split_no_sep split_on_none) (simp add: split_no_sep split_on_none)
qed

lemma object_path_portable:
  assumes "is_digest d"
  shows "portable (relativeObjectPath d)"
proof -
  have "length d = 64" using assms by (simp add: is_digest_def)
  then have "take 2 d \<noteq> []" "d \<noteq> []" by auto
  moreover have "take 2 d \<noteq> ''.''" "take 2 d \<noteq> ''..''" "d \<noteq> ''.''" "d \<noteq> ''..''"
    using digest_no [OF assms] in_set_takeD [of _ 2 d] by (metis list.set_intros(1))+
  moreover have "CHR 0x5C \<notin> set (relativeObjectPath d)"
    using digest_no [OF assms] in_set_takeD [of "CHR 0x5C" 2 d] by (auto simp: relativeObjectPath_def)
  ultimately show ?thesis
    unfolding portable_def object_path_segments [OF assms] by (simp add: relativeObjectPath_def has_drive_def)
qed

lemma written_object:
  assumes "writeBytes sha now kind mediaType content files = Inr ((r, created), files')"
  shows "map_of files' (relativeObjectPath (sha content)) = Some content"
    and "r = \<lparr>er_digest = sha content, er_kind = kind, er_mediaType = mediaType,
      er_byteLength = int (length content), er_capture = Complete (int (length content)),
      er_relativePath = relativeObjectPath (sha content), er_createdAt = now\<rparr>"
  using assms by (auto simp: writeBytes_def writeOnce_def Let_def split: option.splits if_splits)

lemma stored_is_read:
  assumes "hash_ok sha" "writeBytes sha now kind mediaType content files = Inr ((r, created), files')"
    and "store_steps sha files' later"
  shows "evidence_read sha (evidence_json r) later = Inr content"
proof -
  have digest: "is_digest (sha content)" using assms(1) by (simp add: hash_ok_def)
  have "map_of later (relativeObjectPath (sha content)) = Some content"
    using store_steps_keep [OF assms(3) written_object(1) [OF assms(2)]] .
  moreover have "evidence_ok r"
    using digest object_path_portable [OF digest] unfolding written_object(2) [OF assms(2)] evidence_ok_def by simp
  ultimately show ?thesis
    unfolding evidence_read_def parse_evidence_written [OF \<open>evidence_ok r\<close>]
    using object_path_portable [OF digest]
    by (simp add: objectPath_def validatePortableRelativePath_def written_object(2) [OF assms(2)])
qed

text \<open>
  C36: What was stored as evidence is read back: after a successful write, and after whatever is written to
  the store later, completely or torn, reading with the reference that the write returned gives the
  bytes that were written.
\<close>

theorem evidence_roundtrip:
  assumes "hash_ok sha" "writeBytes sha now kind mediaType content files = Inr ((r, created), files')"
    and "store_steps sha files' later"
  shows "evidence_read sha (evidence_json r) later = Inr content"
  by (rule stored_is_read [OF assms])

text \<open>A digest function for examples.\<close>

definition sample_sha :: byte_hash where
  "sample_sha b = replicate 62 (CHR ''0'') @ [if b = [] then CHR ''a'' else CHR ''b'', if length b = 1 then CHR ''c'' else CHR ''d'']"

lemma sample_sha_ok: "hash_ok sample_sha"
  by (simp add: hash_ok_def is_digest_def sample_sha_def list_all_iff)

definition sample_path :: string where
  "sample_path = relativeObjectPath (sample_sha [7])"

definition sample_reference :: evidence_reference where
  "sample_reference = \<lparr>er_digest = sample_sha [7], er_kind = EvHtml, er_mediaType = ''text/html'',
      er_byteLength = 1, er_capture = Complete 1, er_relativePath = sample_path, er_createdAt = ''t''\<rparr>"

lemma sample_stored:
  "writeBytes sample_sha ''t'' EvHtml ''text/html'' [7] [] = Inr ((sample_reference, True), [(sample_path, [7])])"
  by (simp add: writeBytes_def writeOnce_def Let_def sample_reference_def sample_path_def)

lemma sample_reference_ok: "evidence_ok sample_reference"
  using sample_sha_ok object_path_portable [of "sample_sha [7]"]
  by (simp add: evidence_ok_def sample_reference_def sample_path_def hash_ok_def)

lemma evidence_reference_exact_witness:
  "evidence_ok sample_reference \<and> parseEvidenceReference (Some (evidence_json sample_reference)) = Inr sample_reference"
  using evidence_reference_exact [of sample_reference "Some (evidence_json sample_reference)"] sample_reference_ok by blast

lemma evidence_roundtrip_witness:
  "evidence_read sample_sha (evidence_json sample_reference)
     (torn_writeOnce 1 (relativeObjectPath (sample_sha [1, 2])) [1, 2] [(sample_path, [7])]) = Inr [7]"
  by (rule evidence_roundtrip [OF sample_sha_ok sample_stored store_steps.died [OF store_steps.refl]])

text \<open>
  Reading evidence gives bytes of the recorded digest and length, whatever is in the directory: a
  changed, truncated or exchanged object is reported, never returned.
\<close>

theorem evidence_read_authentic:
  assumes "evidence_read sha v files = Inr bytes"
  shows "\<exists>r. parseEvidenceReference (Some v) = Inr r \<and> sha bytes = er_digest r \<and> int (length bytes) = er_byteLength r \<and>
    map_of files (relativeObjectPath (er_digest r)) = Some bytes"
proof -
  obtain r where parsed: "parseEvidenceReference (Some v) = Inr r"
    using assms by (auto simp: evidence_read_def split: sum.splits)
  with assms have "\<exists>p. objectPath r = Inr p \<and> map_of files p = Some bytes \<and> sha bytes = er_digest r \<and> int (length bytes) = er_byteLength r"
    by (auto simp: evidence_read_def bind_result_Inr split: option.splits if_splits)
  moreover have "p = relativeObjectPath (er_digest r)" if "objectPath r = Inr p" for p
    using that by (auto simp: objectPath_def validatePortableRelativePath_def split: if_splits)
  ultimately show ?thesis using parsed by blast
qed

lemma evidence_read_authentic_witness:
  "\<exists>r. parseEvidenceReference (Some (evidence_json sample_reference)) = Inr r \<and> sample_sha [7] = er_digest r"
  using evidence_read_authentic [OF stored_is_read [OF sample_sha_ok sample_stored store_steps.refl]] by blast

text \<open>
  C29: A write that was torn is never repaired: when the process dies while the object is written for the
  first time, every later attempt to store the same bytes fails because the object is corrupt,
  whatever else is written in between.
\<close>

theorem torn_object_is_permanent:
  assumes "map_of files (relativeObjectPath (sha content)) = None" "torn < length content"
    and "store_steps sha (torn_writeOnce torn (relativeObjectPath (sha content)) content files) later"
  shows "writeBytes sha now kind mediaType content later = Inl (ObjectCorrupt (relativeObjectPath (sha content)))"
proof -
  have "map_of (torn_writeOnce torn (relativeObjectPath (sha content)) content files) (relativeObjectPath (sha content)) = Some (take torn content)"
    using assms(1) by (simp add: torn_writeOnce_def)
  from store_steps_keep [OF assms(3) this] show ?thesis
    using assms(2) by (simp add: writeBytes_def writeOnce_def Let_def)
qed

lemma torn_object_is_permanent_witness:
  "writeBytes sample_sha ''t'' EvXml ''text/xml'' [7] (torn_writeOnce 0 (relativeObjectPath (sample_sha [7])) [7] []) =
     Inl (ObjectCorrupt (relativeObjectPath (sample_sha [7])))"
  by (rule torn_object_is_permanent [where torn = 0, OF _ _ store_steps.refl]) simp_all

end
