(* ===== verification/Css_Scanner.thy ===== *)
theory Css_Scanner
  imports Robots
begin

text \<open>
  URLs in style sheets, \<open>css/scanner.ts\<close>. Text is a list of UTF-16 code units and a position an index
  into it; \<open>unit_at\<close> is \<open>undefined\<close> behind the end. \<open>collation\<close> is the sort key of \<open>localeCompare\<close>.
\<close>

section \<open>Text\<close>

definition unit_at :: "units \<Rightarrow> nat \<Rightarrow> int option" where
  "unit_at s i = (if i < length s then Some (s ! i) else None)"

definition starts_at :: "units \<Rightarrow> units \<Rightarrow> nat \<Rightarrow> bool" where
  "starts_at s p i \<longleftrightarrow> take (length p) (drop i s) = p"

text \<open>\<open>indexOf(p, i)\<close> for a pattern that is not empty.\<close>

definition find_from :: "units \<Rightarrow> units \<Rightarrow> nat \<Rightarrow> nat option" where
  "find_from s p i = List.find (\<lambda>j. starts_at s p j) [i..<length s]"

text \<open>\<open>\s\<close> of regular expressions, which is also what \<open>trim\<close> removes.\<close>

definition js_white :: "int \<Rightarrow> bool" where
  "js_white c \<longleftrightarrow> c \<in> {9..13} \<union> {32, 160, 5760} \<union> {8192..8202} \<union> {8232, 8233, 8239, 8287, 12288, 65279}"

definition trim_units :: "units \<Rightarrow> units" where
  "trim_units s = rev (dropWhile js_white (rev (dropWhile js_white s)))"

definition line_break :: "int \<Rightarrow> bool" where
  "line_break c \<longleftrightarrow> c = 10 \<or> c = 13 \<or> c = 12"

definition is_quote :: "int \<Rightarrow> bool" where
  "is_quote c \<longleftrightarrow> c = 34 \<or> c = 39"

text \<open>
  Comparison without case, as far as it matters against the ASCII words of the scanner. A regular
  expression with the flags \<open>iu\<close> also takes the long s for an s.
\<close>

definition lower_unit :: "int \<Rightarrow> int" where
  "lower_unit c = (if 65 \<le> c \<and> c \<le> 90 then c + 32 else c)"

definition fold_unit :: "int \<Rightarrow> int" where
  "fold_unit c = (if c = 383 then 115 else lower_unit c)"

definition is_word :: "string \<Rightarrow> units \<Rightarrow> bool" where
  "is_word w s \<longleftrightarrow> map lower_unit s = units_of w"

definition folds_to :: "string \<Rightarrow> units \<Rightarrow> bool" where
  "folds_to w s \<longleftrightarrow> map fold_unit s = map fold_unit (units_of w)"

section \<open>Candidates\<close>

datatype css_method = CssUrl | CssImport | CssSourceMap

datatype confidence = High | Medium | Low

record css_candidate =
  cc_rawUrl :: units
  cc_method :: css_method
  cc_confidence :: confidence
  cc_offset :: nat

fun method_priority :: "css_method \<Rightarrow> int" where
  "method_priority CssSourceMap = 3"
| "method_priority CssImport = 2"
| "method_priority CssUrl = 1"

text \<open>
  \<open>compare(l, r) > 0\<close> holds when the badness of \<open>l\<close> is smaller: a better method, then an earlier
  offset, then the smaller URL.
\<close>

definition badness :: "(units \<Rightarrow> nat list) \<Rightarrow> css_candidate \<Rightarrow> int \<times> nat \<times> nat list" where
  "badness collation c = (- method_priority (cc_method c), cc_offset c, collation (cc_rawUrl c))"

definition is_scheme :: "string \<Rightarrow> units \<Rightarrow> bool" where
  "is_scheme w s \<longleftrightarrow> folds_to w (take (length w) s) \<and> unit_at s (length w) = Some 58"

definition cleanUrl :: "units \<Rightarrow> units option" where
  "cleanUrl value =
     (let trimmed = trim_units value
      in if trimmed = [] \<or> length trimmed > 8192 \<or>
            is_scheme ''data'' trimmed \<or> is_scheme ''javascript'' trimmed \<or> is_scheme ''blob'' trimmed
         then None else Some trimmed)"

type_synonym candidate_set = "(units, css_candidate) jsmap"

text \<open>\<open>sort(compare)\<close> puts the worst first and is stable.\<close>

definition worst_first :: "(units \<Rightarrow> nat list) \<Rightarrow> css_candidate list \<Rightarrow> css_candidate list" where
  "worst_first collation cs = rev (sort_key (badness collation) (rev cs))"

definition place_candidate ::
  "(units \<Rightarrow> nat list) \<Rightarrow> int \<Rightarrow> css_candidate \<Rightarrow> candidate_set \<Rightarrow> candidate_set"
where
  "place_candidate collation maximum candidate found =
     (case map_of found (cc_rawUrl candidate) of
        Some current \<Rightarrow>
          if badness collation candidate < badness collation current
          then map_set (cc_rawUrl candidate) candidate found else found
      | None \<Rightarrow>
          if int (length found) < maximum then map_set (cc_rawUrl candidate) candidate found
          else case worst_first collation (map_values found) of
                 [] \<Rightarrow> found
               | worst # _ \<Rightarrow>
                   if badness collation candidate < badness collation worst
                   then map_set (cc_rawUrl candidate) candidate (map_delete (cc_rawUrl worst) found) else found)"

definition candidate_add ::
  "(units \<Rightarrow> nat list) \<Rightarrow> int \<Rightarrow> units \<Rightarrow> css_method \<Rightarrow> nat \<Rightarrow> candidate_set \<Rightarrow> candidate_set"
where
  "candidate_add collation maximum rawUrl method off found =
     (case cleanUrl rawUrl of
        None \<Rightarrow> found
      | Some normalized \<Rightarrow>
          if maximum \<le> 0 then found
          else place_candidate collation maximum
                 \<lparr>cc_rawUrl = normalized, cc_method = method, cc_confidence = High, cc_offset = off\<rparr> found)"

definition candidate_values :: "(units \<Rightarrow> nat list) \<Rightarrow> candidate_set \<Rightarrow> css_candidate list" where
  "candidate_values collation found = sort_key (badness collation) (map_values found)"

section \<open>Tokens\<close>

function skipWhitespace :: "units \<Rightarrow> nat \<Rightarrow> nat" where
  "skipWhitespace s i =
     (case unit_at s i of Some c \<Rightarrow> if js_white c then skipWhitespace s (i + 1) else i | None \<Rightarrow> i)"
  by pat_completeness auto
termination by (relation "measure (\<lambda>(s, i). length s - i)") (auto simp: unit_at_def split: if_splits)

declare skipWhitespace.simps [simp del]

lemma skipWhitespace_ge: "i \<le> skipWhitespace s i"
  by (induction s i rule: skipWhitespace.induct) (subst skipWhitespace.simps, auto split: option.split)

lemma find_from_Some: "find_from s p i = Some j \<Longrightarrow> i \<le> j \<and> j < length s \<and> starts_at s p j"
  by (auto simp: find_from_def find_Some_iff)

lemma starts_at_fits: "starts_at s p i \<Longrightarrow> i \<le> length s \<Longrightarrow> i + length p \<le> length s"
proof -
  assume "starts_at s p i" "i \<le> length s"
  then have "length (take (length p) (drop i s)) = length p" by (simp add: starts_at_def)
  then show ?thesis using \<open>i \<le> length s\<close> by simp
qed

function skipIgnorable :: "units \<Rightarrow> nat \<Rightarrow> nat" where
  "skipIgnorable s start =
     (let index = skipWhitespace s start
      in if \<not> starts_at s [47, 42] index then index
         else case find_from s [42, 47] (index + 2) of
                None \<Rightarrow> length s
              | Some closing \<Rightarrow> skipIgnorable s (closing + 2))"
  by pat_completeness auto
termination
proof (relation "measure (\<lambda>(s, i). length s - i)", goal_cases)
  case (2 s start index closing)
  from find_from_Some [OF 2(3)] skipWhitespace_ge [of start s] 2(1) show ?case by auto
qed simp

declare skipIgnorable.simps [simp del]

lemma skipWhitespace_le: "i \<le> length s \<Longrightarrow> skipWhitespace s i \<le> length s"
  by (induction s i rule: skipWhitespace.induct)
    (subst skipWhitespace.simps, auto simp: unit_at_def split: option.split)

lemma skipIgnorable_bounds: "start \<le> length s \<Longrightarrow> start \<le> skipIgnorable s start \<and> skipIgnorable s start \<le> length s"
proof (induction s start rule: skipIgnorable.induct)
  case (1 s start)
  let ?index = "skipWhitespace s start"
  have index: "start \<le> ?index" "?index \<le> length s" using skipWhitespace_ge skipWhitespace_le [OF 1(2)] .
  show ?case
  proof (cases "starts_at s [47, 42] ?index \<and> find_from s [42, 47] (?index + 2) \<noteq> None")
    case False
    then show ?thesis using index 1(2) by (subst (1 2) skipIgnorable.simps) (auto simp: Let_def)
  next
    case True
    then obtain closing where closing: "starts_at s [47, 42] ?index" "find_from s [42, 47] (?index + 2) = Some closing" by auto
    from find_from_Some [OF closing(2)] starts_at_fits [of s "[42, 47]" closing]
    have bounds: "?index + 2 \<le> closing" "closing + 2 \<le> length s" by simp_all
    have "skipIgnorable s start = skipIgnorable s (closing + 2)" using closing by (subst skipIgnorable.simps) simp
    then show ?thesis using 1(1) [OF refl _ closing(2)] closing(1) bounds index by simp
  qed
qed

definition is_hex :: "int \<Rightarrow> bool" where
  "is_hex c \<longleftrightarrow> hex_unit c \<noteq> None"

text \<open>The end of the hexadecimal digits, at most six.\<close>

definition hex_digits :: "units \<Rightarrow> nat \<Rightarrow> units" where
  "hex_digits s i = takeWhile is_hex (take 6 (drop i s))"

definition hex_value :: "units \<Rightarrow> int" where
  "hex_value ds = foldl (\<lambda>n c. 16 * n + the (hex_unit c)) 0 ds"

definition from_code_point :: "int \<Rightarrow> units" where
  "from_code_point n =
     (if n < 65536 then [n] else [55296 + (n - 65536) div 1024, 56320 + (n - 65536) mod 1024])"

definition isSurrogate :: "int \<Rightarrow> bool" where
  "isSurrogate n \<longleftrightarrow> 55296 \<le> n \<and> n \<le> 57343"

definition consumeEscape :: "units \<Rightarrow> nat \<Rightarrow> (units \<times> nat) option" where
  "consumeEscape s start =
     (case unit_at s (start + 1) of
        None \<Rightarrow> None
      | Some c \<Rightarrow>
          if line_break c then None
          else if \<not> is_hex c then Some ([c], start + 2)
          else
            let digits = hex_digits s (start + 1);
                closing = start + 1 + length digits;
                codePoint = hex_value digits;
                next_index = (case unit_at s closing of Some w \<Rightarrow> if js_white w then closing + 1 else closing | None \<Rightarrow> closing)
            in Some (if codePoint = 0 \<or> codePoint > 1114111 \<or> isSurrogate codePoint then [65533]
                     else from_code_point codePoint, next_index))"

lemma consumeEscape_bounds: "consumeEscape s i = Some (v, n) \<Longrightarrow> i + 1 < n \<and> n \<le> length s"
proof -
  assume esc: "consumeEscape s i = Some (v, n)"
  then have first: "i + 1 < length s" by (auto simp: consumeEscape_def unit_at_def split: if_splits)
  have "length (hex_digits s (i + 1)) \<le> length s - (i + 1)"
    unfolding hex_digits_def by (rule order_trans [OF length_takeWhile_le]) simp
  moreover have "0 < length (hex_digits s (i + 1))" if "is_hex (s ! (i + 1))"
    using that first by (simp add: hex_digits_def Cons_nth_drop_Suc [symmetric])
  ultimately show ?thesis
    using esc first by (auto simp: consumeEscape_def unit_at_def Let_def split: if_splits option.splits)
qed

definition isIdentifierCharacter :: "int \<Rightarrow> bool" where
  "isIdentifierCharacter c \<longleftrightarrow>
     c = 45 \<or> c = 95 \<or> (65 \<le> c \<and> c \<le> 90) \<or> (97 \<le> c \<and> c \<le> 122) \<or> (48 \<le> c \<and> c \<le> 57) \<or> 128 \<le> c"

function identifier_loop :: "units \<Rightarrow> nat \<Rightarrow> units \<Rightarrow> units \<times> nat" where
  "identifier_loop s index value =
     (case unit_at s index of
        None \<Rightarrow> (value, index)
      | Some c \<Rightarrow>
          if isIdentifierCharacter c then identifier_loop s (index + 1) (value @ [c])
          else if c = 92 then
            (case consumeEscape s index of
               None \<Rightarrow> (value, index)
             | Some (v, n) \<Rightarrow> identifier_loop s n (value @ v))
          else (value, index))"
  by pat_completeness auto
termination
  by (relation "measure (\<lambda>(s, i, v). length s - i)")
    (auto simp: unit_at_def split: if_splits dest!: consumeEscape_bounds)

definition scanIdentifier :: "units \<Rightarrow> nat \<Rightarrow> (units \<times> nat) option" where
  "scanIdentifier s start =
     (let (value, index) = identifier_loop s start [] in if index = start then None else Some (value, index))"

text \<open>The value, the next index, and whether the quote was closed.\<close>

function quoted_loop :: "units \<Rightarrow> int \<Rightarrow> nat \<Rightarrow> units \<Rightarrow> units \<times> nat \<times> bool" where
  "quoted_loop s quote index value =
     (case unit_at s index of
        None \<Rightarrow> (value, index, False)
      | Some c \<Rightarrow>
          if c = quote then (value, index + 1, True)
          else if line_break c then (value, index + 1, False)
          else if c = 92 then
            (case consumeEscape s index of
               None \<Rightarrow> (value, index + 1, False)
             | Some (v, n) \<Rightarrow> quoted_loop s quote n (value @ v))
          else quoted_loop s quote (index + 1) (value @ [c]))"
  by pat_completeness auto
termination
  by (relation "measure (\<lambda>(s, q, i, v). length s - i)")
    (auto simp: unit_at_def split: if_splits dest!: consumeEscape_bounds)

definition scanQuoted :: "units \<Rightarrow> nat \<Rightarrow> units \<times> nat \<times> bool" where
  "scanQuoted s start = quoted_loop s (the (unit_at s start)) (start + 1) []"

function unquoted_loop :: "units \<Rightarrow> nat \<Rightarrow> units \<Rightarrow> (units \<times> nat) option" where
  "unquoted_loop s index value =
     (case unit_at s index of
        None \<Rightarrow> None
      | Some c \<Rightarrow>
          if c = 41 then Some (trim_units value, index + 1)
          else if js_white c then
            (let closing = skipWhitespace s index
             in if unit_at s closing = Some 41 then Some (trim_units value, closing + 1) else None)
          else if is_quote c \<or> c = 40 then None
          else if c = 92 then
            (case consumeEscape s index of
               None \<Rightarrow> None
             | Some (v, n) \<Rightarrow> unquoted_loop s n (value @ v))
          else if line_break c then None
          else unquoted_loop s (index + 1) (value @ [c]))"
  by pat_completeness auto
termination
  by (relation "measure (\<lambda>(s, i, v). length s - i)")
    (auto simp: unit_at_def split: if_splits dest!: consumeEscape_bounds)

declare identifier_loop.simps [simp del] quoted_loop.simps [simp del] unquoted_loop.simps [simp del]

definition scanUrlFunction :: "units \<Rightarrow> nat \<Rightarrow> (units \<times> nat) option" where
  "scanUrlFunction s start =
     (let open_index = skipWhitespace s start
      in if unit_at s open_index \<noteq> Some 40 then None
         else
           let index = skipWhitespace s (open_index + 1)
           in case unit_at s index of
                Some q \<Rightarrow>
                  if is_quote q then
                    (let (value, n, closed) = scanQuoted s index
                     in if \<not> closed then None
                        else let closing = skipWhitespace s n
                             in if unit_at s closing \<noteq> Some 41 then None else Some (value, closing + 1))
                  else unquoted_loop s index []
              | None \<Rightarrow> unquoted_loop s index [])"

lemma identifier_loop_bounds:
  "index \<le> length s \<Longrightarrow> index \<le> snd (identifier_loop s index value) \<and> snd (identifier_loop s index value) \<le> length s"
proof (induction s index "value" rule: identifier_loop.induct)
  case (1 s index "value")
  then show ?case
    by (subst (1 2) identifier_loop.simps)
      (auto simp: unit_at_def split: option.split dest: consumeEscape_bounds; force dest: consumeEscape_bounds)
qed

lemma scanIdentifier_bounds:
  assumes "scanIdentifier s i = Some (v, n)"
  shows "i < n \<and> n \<le> length s"
proof -
  from assms have n: "n = snd (identifier_loop s i [])" "n \<noteq> i" by (auto simp: scanIdentifier_def split: prod.splits if_splits)
  have "i \<le> length s"
  proof (rule ccontr)
    assume "\<not> i \<le> length s"
    then have "identifier_loop s i [] = ([], i)" by (subst identifier_loop.simps) (simp add: unit_at_def)
    with n show False by simp
  qed
  from identifier_loop_bounds [OF this, of "[]"] n show ?thesis by simp
qed

lemma quoted_loop_advances: "index \<le> fst (snd (quoted_loop s q index value))"
proof (induction s q index "value" rule: quoted_loop.induct)
  case (1 s q index "value")
  then show ?case
    by (subst quoted_loop.simps) (auto split: option.split dest: consumeEscape_bounds; force dest: consumeEscape_bounds)
qed

lemma scanQuoted_advances: "i < fst (snd (scanQuoted s i))"
  using quoted_loop_advances [of "i + 1" s "the (unit_at s i)" "[]"] by (simp add: scanQuoted_def)

lemma unquoted_loop_advances: "unquoted_loop s index value = Some (v, n) \<Longrightarrow> index < n"
proof (induction s index "value" rule: unquoted_loop.induct)
  case (1 s index "value")
  from 1(3) show ?case
    using 1(1,2) skipWhitespace_ge [of index s]
    by (subst (asm) unquoted_loop.simps)
      (auto simp: Let_def split: option.splits if_splits dest: consumeEscape_bounds; force dest: consumeEscape_bounds)
qed

lemma scanUrlFunction_advances:
  assumes "scanUrlFunction s i = Some (v, n)"
  shows "i < n"
proof -
  let ?open = "skipWhitespace s i"
  let ?index = "skipWhitespace s (?open + 1)"
  have "i < ?index" using skipWhitespace_ge [of i s] skipWhitespace_ge [of "?open + 1" s] by simp
  moreover have "?index < n"
    using assms scanQuoted_advances [of ?index s] skipWhitespace_ge [of "fst (snd (scanQuoted s ?index))" s]
      unquoted_loop_advances [of s ?index "[]" v n]
    by (auto simp: scanUrlFunction_def Let_def split: if_splits option.splits prod.splits)
  ultimately show ?thesis by simp
qed

section \<open>The scanner\<close>

text \<open>
  The set that collects the candidates is passed through; \<open>add\<close> is its method. The comment is matched
  against \<open>/[#@]\s*sourceMappingURL\s*=\s*([^\s*]+)/iu\<close>, at the first place where it matches.
\<close>

type_synonym 'a collector = "units \<Rightarrow> css_method \<Rightarrow> nat \<Rightarrow> 'a \<Rightarrow> 'a"

definition source_map_at :: "units \<Rightarrow> nat \<Rightarrow> units option" where
  "source_map_at comment m =
     (if unit_at comment m \<noteq> Some 35 \<and> unit_at comment m \<noteq> Some 64 then None
      else
        let word = skipWhitespace comment (m + 1)
        in if \<not> folds_to ''sourceMappingURL'' (take 16 (drop word comment)) then None
           else
             let equals = skipWhitespace comment (word + 16)
             in if unit_at comment equals \<noteq> Some 61 then None
                else
                  let raw = takeWhile (\<lambda>c. \<not> js_white c \<and> c \<noteq> 42) (drop (skipWhitespace comment (equals + 1)) comment)
                  in if raw = [] then None else Some raw)"

definition source_map_match :: "units \<Rightarrow> (units \<times> nat) option" where
  "source_map_match comment =
     (case List.find (\<lambda>m. source_map_at comment m \<noteq> None) [0..<length comment] of
        None \<Rightarrow> None
      | Some m \<Rightarrow> Some (the (source_map_at comment m), m))"

definition scanComment :: "'a collector \<Rightarrow> units \<Rightarrow> nat \<Rightarrow> 'a \<Rightarrow> nat \<times> 'a" where
  "scanComment add s start found =
     (let closing = find_from s [42, 47] (start + 2);
          next_index = (case closing of None \<Rightarrow> length s | Some e \<Rightarrow> e + 2);
          comment = (case closing of None \<Rightarrow> drop (start + 2) s | Some e \<Rightarrow> take (e - (start + 2)) (drop (start + 2) s))
      in (next_index, case source_map_match comment of
            None \<Rightarrow> found | Some (raw, m) \<Rightarrow> add raw CssSourceMap (start + m) found))"

definition scanImport :: "'a collector \<Rightarrow> units \<Rightarrow> nat \<Rightarrow> 'a \<Rightarrow> nat \<times> 'a" where
  "scanImport add s start found =
     (let position = skipIgnorable s start
      in if (case unit_at s position of Some q \<Rightarrow> is_quote q | None \<Rightarrow> False) then
           (let (value, n, closed) = scanQuoted s position
            in (n, if closed then add value CssImport position found else found))
         else case scanIdentifier s position of
             None \<Rightarrow> (position + 1, found)
           | Some (name, n) \<Rightarrow>
               if \<not> is_word ''url'' name then (position + 1, found)
               else case scanUrlFunction s n of
                   None \<Rightarrow> (n, found)
                 | Some (value, n') \<Rightarrow> (n', add value CssImport position found))"

definition scan_turn :: "'a collector \<Rightarrow> units \<Rightarrow> nat \<Rightarrow> 'a \<Rightarrow> nat \<times> 'a" where
  "scan_turn add s i found =
     (if starts_at s [47, 42] i then scanComment add s i found
      else if (case unit_at s i of Some q \<Rightarrow> is_quote q | None \<Rightarrow> False) then (fst (snd (scanQuoted s i)), found)
      else if unit_at s i = Some 64 then
        (case scanIdentifier s (i + 1) of
           None \<Rightarrow> (i + 1, found)
         | Some (name, n) \<Rightarrow> if is_word ''import'' name then scanImport add s n found else (n, found))
      else case scanIdentifier s i of
          None \<Rightarrow> (i + 1, found)
        | Some (name, n) \<Rightarrow>
            if is_word ''url'' name then
              (case scanUrlFunction s n of
                 None \<Rightarrow> (n, found)
               | Some (value, n') \<Rightarrow> (n', add value CssUrl i found))
            else (n, found))"

text \<open>The loop, as a partial function: not returning is \<open>None\<close>.\<close>

partial_function (option) scan_loop :: "'a collector \<Rightarrow> units \<Rightarrow> nat \<Rightarrow> 'a \<Rightarrow> 'a option" where
  "scan_loop add s index found =
     (if index < length s
      then scan_loop add s (fst (scan_turn add s index found)) (snd (scan_turn add s index found))
      else Some found)"

definition scanCssUrls :: "(units \<Rightarrow> nat list) \<Rightarrow> units \<Rightarrow> int \<Rightarrow> css_candidate list option" where
  "scanCssUrls collation s maximum =
     map_option (candidate_values collation) (scan_loop (candidate_add collation maximum) s 0 [])"

end
