(* ===== verification/Css_Properties.thy ===== *)
theory Css_Properties
  imports Css_Scanner
begin

text \<open>
  The scanner of style sheets: it always ends, what it returns are the best of the URLs that the style
  sheet mentions, and a URL that is written as a quoted string is read back.
\<close>

section \<open>Progress\<close>

lemma find_None_or: "(case x of None \<Rightarrow> length s | Some e \<Rightarrow> e + 2) > i"
  if "i < length s" "\<And>e. x = Some e \<Longrightarrow> i \<le> e"
  using that by (auto split: option.split)

lemma scanComment_advances: "i < length s \<Longrightarrow> i < fst (scanComment add s i found)"
  unfolding scanComment_def Let_def fst_conv
  by (rule find_None_or) (use find_from_Some in fastforce)+

lemma scanImport_advances: "i \<le> length s \<Longrightarrow> i < fst (scanImport add s i found)"
  using skipIgnorable_bounds [of i s] scanQuoted_advances [of "skipIgnorable s i" s]
  by (auto simp: scanImport_def Let_def split: prod.split option.split dest!: scanIdentifier_bounds scanUrlFunction_advances)

lemma scan_turn_advances:
  assumes "i < length s"
  shows "i < fst (scan_turn add s i found)"
proof -
  have "i < fst (scanImport add s n found)" if "scanIdentifier s (i + 1) = Some (v, n)" for v n
    using scanIdentifier_bounds [OF that] scanImport_advances [of n s add found] by simp
  then show ?thesis
    using assms scanComment_advances [of i s add found] scanQuoted_advances [of i s]
    by (auto simp: scan_turn_def split: option.split dest: scanIdentifier_bounds)
      (use scanIdentifier_bounds scanUrlFunction_advances in \<open>force+\<close>)
qed

section \<open>The mentioned URLs\<close>

text \<open>What a turn of the loop adds, whatever the set does with it.\<close>

type_synonym mention = "units \<times> css_method \<times> nat"

definition note_mention :: "mention list collector" where
  "note_mention raw method off ms = ms @ [(raw, method, off)]"

definition add_mention :: "'a collector \<Rightarrow> mention \<Rightarrow> 'a \<Rightarrow> 'a" where
  "add_mention add m found = (case m of (raw, method, off) \<Rightarrow> add raw method off found)"

abbreviation offset_of :: "mention \<Rightarrow> nat" where
  "offset_of m \<equiv> snd (snd m)"

function mentions :: "units \<Rightarrow> nat \<Rightarrow> mention list" where
  "mentions s i =
     (if i < length s
      then snd (scan_turn note_mention s i []) @ mentions s (fst (scan_turn note_mention s i [])) else [])"
  by pat_completeness auto
termination
proof (relation "measure (\<lambda>(s, i). length s - i)", goal_cases)
  case (2 s i)
  then show ?case using scan_turn_advances [of i s note_mention "[]"] by simp
qed simp

declare mentions.simps [simp del]

lemma scanComment_mentions:
  "scanComment add s i found =
     (fst (scanComment note_mention s i []), fold (add_mention add) (snd (scanComment note_mention s i [])) found)"
  unfolding scanComment_def Let_def by (auto simp: note_mention_def add_mention_def split: option.split)

lemma scanImport_mentions:
  "scanImport add s i found =
     (fst (scanImport note_mention s i []), fold (add_mention add) (snd (scanImport note_mention s i [])) found)"
  unfolding scanImport_def Let_def by (auto simp: note_mention_def add_mention_def split: option.split prod.split)

lemma scan_turn_mentions:
  "scan_turn add s i found =
     (fst (scan_turn note_mention s i []), fold (add_mention add) (snd (scan_turn note_mention s i [])) found)"
proof (cases "starts_at s [47, 42] i")
  case True
  then have "scan_turn add s i found = scanComment add s i found"
    "scan_turn note_mention s i [] = scanComment note_mention s i []" by (simp_all add: scan_turn_def)
  then show ?thesis using scanComment_mentions [of add s i found] by simp
next
  case comment: False
  show ?thesis
  proof (cases "unit_at s i = Some 64")
    case True
    then have "\<not> (case unit_at s i of Some q \<Rightarrow> is_quote q | None \<Rightarrow> False)" by (simp add: is_quote_def)
    note turn = scan_turn_def comment this True is_quote_def
    show ?thesis
    proof (cases "scanIdentifier s (i + 1)")
      case None
      then show ?thesis by (simp add: turn)
    next
      case (Some r)
      then obtain name n where r: "scanIdentifier s (i + 1) = Some (name, n)" by (cases r) auto
      show ?thesis
      proof (cases "is_word ''import'' name")
        case True
        then have "scan_turn add s i found = scanImport add s n found"
          "scan_turn note_mention s i [] = scanImport note_mention s n []" using r by (simp_all add: turn)
        then show ?thesis using scanImport_mentions [of add s n found] by simp
      qed (use r in \<open>simp add: turn\<close>)
    qed
  next
    case False
    then show ?thesis unfolding scan_turn_def
      by (simp add: comment note_mention_def add_mention_def split: option.split)
  qed
qed

lemma scan_loop_mentions:
  "scan_loop add s i found = Some (fold (add_mention add) (mentions s i) found)"
proof (induction s i arbitrary: found rule: mentions.induct)
  case (1 s i)
  show ?case
  proof (cases "i < length s")
    case True
    have "scan_loop add s i found = scan_loop add s (fst (scan_turn note_mention s i []))
        (fold (add_mention add) (snd (scan_turn note_mention s i [])) found)"
      using True by (subst scan_loop.simps) (subst (1 2) scan_turn_mentions [of add], simp)
    also have "\<dots> = Some (fold (add_mention add) (mentions s (fst (scan_turn note_mention s i [])))
        (fold (add_mention add) (snd (scan_turn note_mention s i [])) found))"
      by (rule 1 [OF True])
    finally show ?thesis using True by (subst mentions.simps) simp
  next
    case False
    then show ?thesis by (subst scan_loop.simps, subst mentions.simps) simp
  qed
qed

text \<open>
  C37: The scanner of style sheets always ends: on every text, malformed or not, each turn of its loop
  moves the position forward, so that it returns after at most as many turns as the text is long.
\<close>

theorem css_scanner_ends:
  "(\<exists>result. scanCssUrls collation s maximum = Some result) \<and>
   (\<forall>i < length s. i < fst (scan_turn (candidate_add collation maximum) s i found))"
  by (simp add: scanCssUrls_def scan_loop_mentions scan_turn_advances)

lemma css_scanner_ends_witness:
  "0 < fst (scan_turn (candidate_add (map nat) 1) (units_of ''url('') 0 [])"
  using css_scanner_ends [of "map nat" "units_of ''url(''" 1 "[]"] by (simp add: units_of_def)

text \<open>The mentions have different offsets: each lies in the part of the text its turn consumed.\<close>

lemma source_map_match_bound: "source_map_match comment = Some (raw, m) \<Longrightarrow> m < length comment"
  by (auto simp: source_map_match_def find_Some_iff split: option.splits)

lemmas source_map_match_bounds = source_map_match_bound source_map_match_bound [OF sym]

lemma scanImport_offset:
  assumes "n \<le> length s" "m \<in> set (snd (scanImport note_mention s n []))"
  shows "n \<le> offset_of m \<and> offset_of m < fst (scanImport note_mention s n [])"
  using assms skipIgnorable_bounds [of n s] scanQuoted_advances [of "skipIgnorable s n" s]
  by (auto simp: scanImport_def Let_def note_mention_def split: if_splits option.splits prod.splits
    dest!: scanIdentifier_bounds scanUrlFunction_advances)

lemma scanComment_offset:
  assumes "i < length s" "starts_at s [47, 42] i" "m \<in> set (snd (scanComment note_mention s i []))"
  shows "i \<le> offset_of m \<and> offset_of m < fst (scanComment note_mention s i [])"
proof -
  have start: "i + 2 \<le> length s" using starts_at_fits [OF assms(2)] assms(1) by simp
  show ?thesis
  proof (cases "find_from s [42, 47] (i + 2)")
    case None
    then show ?thesis using assms(3) start
      by (auto simp: scanComment_def Let_def note_mention_def dest!: source_map_match_bounds split: option.splits)
  next
    case (Some e)
    from find_from_Some [OF Some] have "i + 2 \<le> e" "e < length s" by simp_all
    then show ?thesis using assms(3) start Some
      by (auto simp: scanComment_def Let_def note_mention_def dest!: source_map_match_bounds split: option.splits)
  qed
qed

lemma turn_offset:
  assumes i: "i < length s" and m: "m \<in> set (snd (scan_turn note_mention s i []))"
  shows "i \<le> offset_of m \<and> offset_of m < fst (scan_turn note_mention s i [])"
proof (cases "starts_at s [47, 42] i")
  case True
  then show ?thesis using scanComment_offset [OF i True] m by (simp add: scan_turn_def)
next
  case comment: False
  show ?thesis
  proof (cases "unit_at s i = Some 64")
    case True
    then show ?thesis
      using m comment scanIdentifier_bounds [of s "i + 1"] scanImport_offset [of _ s m]
      by (fastforce simp: scan_turn_def is_quote_def split: option.splits if_splits)
  next
    case False
    then show ?thesis
      using m comment scanIdentifier_bounds [of s i] scanUrlFunction_advances [of s]
      by (fastforce simp: scan_turn_def note_mention_def split: option.splits if_splits)
  qed
qed

lemma turn_single: "length (snd (scan_turn note_mention s i [])) \<le> 1"
  by (auto simp: scan_turn_def scanComment_def scanImport_def Let_def note_mention_def split: option.split prod.split)

lemma mentions_offsets:
  "sorted_wrt (<) (map offset_of (mentions s i)) \<and> (\<forall>m \<in> set (mentions s i). i \<le> offset_of m)"
proof (induction s i rule: mentions.induct)
  case (1 s i)
  show ?case
  proof (cases "i < length s")
    case True
    let ?n = "fst (scan_turn note_mention s i [])" and ?ms = "snd (scan_turn note_mention s i [])"
    have "sorted_wrt (<) (map offset_of ?ms)" using turn_single [of s i] by (cases ?ms) auto
    moreover have "i < ?n" using scan_turn_advances [OF True] .
    ultimately show ?thesis using 1 [OF True] turn_offset [OF True] True
      by (subst (1 2) mentions.simps) (fastforce simp: sorted_wrt_append)
  qed (simp add: mentions.simps)
qed

section \<open>The best candidates\<close>

text \<open>A candidate is unbeaten when no mention of the same URL is better.\<close>

definition unbeaten :: "('c \<Rightarrow> 'b :: linorder) \<Rightarrow> ('c \<Rightarrow> 'u) \<Rightarrow> 'c set \<Rightarrow> 'c set" where
  "unbeaten b u C = {c \<in> C. \<forall>d \<in> C. u d = u c \<longrightarrow> b c \<le> b d}"

definition top :: "('c \<Rightarrow> 'b :: linorder) \<Rightarrow> nat \<Rightarrow> 'c set \<Rightarrow> 'c set \<Rightarrow> bool" where
  "top b k X T \<longleftrightarrow> T \<subseteq> X \<and> card T = min k (card X) \<and> (\<forall>t \<in> T. \<forall>x \<in> X - T. b t < b x)"

lemma unbeaten_insert:
  assumes "finite C" "c \<notin> C" "inj_on b (insert c C)"
  shows "unbeaten b u (insert c C) =
    (if \<exists>d \<in> unbeaten b u C. u d = u c \<and> b d < b c then unbeaten b u C
     else insert c {d \<in> unbeaten b u C. u d \<noteq> u c})"
proof -
  have least: "\<exists>d \<in> unbeaten b u C. u d = u x \<and> b d \<le> b x" if "x \<in> C" for x
  proof -
    let ?D = "{d \<in> C. u d = u x}"
    have D: "finite ?D" "?D \<noteq> {}" using assms(1) that by auto
    then obtain d where "d \<in> ?D" "\<forall>e \<in> ?D. b d \<le> b e"
      by (metis (no_types, lifting) arg_min_if_finite(1) arg_min_least)
    then show ?thesis using that by (auto simp: unbeaten_def)
  qed
  have ne: "b c \<noteq> b x" if "x \<in> C" for x using assms(2,3) that by (metis inj_on_contraD insertCI)
  show ?thesis
  proof (cases "\<exists>d \<in> unbeaten b u C. u d = u c \<and> b d < b c")
    case True
    then obtain d where d: "d \<in> unbeaten b u C" "u d = u c" "b d < b c" by blast
    then have "b x \<le> b c" if "x \<in> unbeaten b u C" "u x = u c" for x
      using that by (auto simp: unbeaten_def)
    then have "unbeaten b u (insert c C) = unbeaten b u C"
      using d assms(2) by (auto simp: unbeaten_def)
    then show ?thesis using True by simp
  next
    case False
    have worse: "b c < b x" if "x \<in> C" "u x = u c" for x
    proof -
      from least [OF that(1)] obtain d where "d \<in> unbeaten b u C" "u d = u x" "b d \<le> b x" by blast
      with False that ne [of d] show ?thesis by (auto simp: unbeaten_def) (metis linorder_neqE order.strict_trans1 order_le_less)
    qed
    then have "unbeaten b u (insert c C) = insert c {d \<in> unbeaten b u C. u d \<noteq> u c}"
      by (auto simp: unbeaten_def less_imp_le dest: leD)
    then show ?thesis unfolding if_not_P [OF False] .
  qed
qed

lemma unbeaten_url:
  assumes "inj_on b C" "c \<in> unbeaten b u C" "d \<in> unbeaten b u C" "u c = u d"
  shows "c = d"
proof -
  have "b c = b d" using assms(2-4) by (auto simp: unbeaten_def intro: antisym)
  then show ?thesis using assms(1-3) by (auto simp: unbeaten_def inj_on_def)
qed

lemma top_beats: "top b k X T \<Longrightarrow> t \<in> T \<Longrightarrow> x \<in> X \<Longrightarrow> x \<notin> T \<Longrightarrow> b t < b x"
  by (simp add: top_def)

text \<open>A new candidate \<open>c\<close> that ousts \<open>D\<close> from the unbeaten ones.\<close>

lemma top_replace:
  assumes "top b k X T" "finite X" "d \<in> T" "c \<notin> X" "b c < b d"
  shows "top b k (insert c (X - {d})) (insert c (T - {d}))"
proof -
  have T: "T \<subseteq> X" "card T = min k (card X)" "finite T" using assms(1,2) finite_subset by (auto simp: top_def)
  have "d \<in> X" using T assms(3) by blast
  have "card (insert c (T - {d})) = card T" "card (insert c (X - {d})) = card X"
    using T assms \<open>d \<in> X\<close> by (metis Diff_iff card.insert card_Suc_Diff1 finite_Diff subsetD)+
  moreover have "b c < b x" if "x \<in> X - T" for x using top_beats [OF assms(1,3)] assms(5) that by (metis DiffE order.strict_trans)
  ultimately show ?thesis using T assms(1,3) by (auto simp: top_def)
qed

lemma top_fill:
  assumes "top b k X T" "finite X" "card T < k" "c \<notin> X"
  shows "top b k (insert c X) (insert c T)"
proof -
  have "T \<subseteq> X" "card T = card X" using assms by (auto simp: top_def)
  then have "T = X" using card_subset_eq [OF assms(2)] by blast
  then show ?thesis using assms by (simp add: top_def)
qed

lemma top_oust:
  assumes "top b k X T" "finite X" "card T = k" "w \<in> T" "\<forall>t \<in> T. b t \<le> b w" "c \<notin> X" "b c < b w" "D \<subseteq> X" "D \<inter> T = {}" "inj_on b X"
  shows "top b k (insert c (X - D)) (insert c (T - {w}))"
proof -
  have T: "T \<subseteq> X" "finite T" using assms(1,2) finite_subset by (auto simp: top_def)
  have "card (insert c (T - {w})) = k"
    using T assms(3,4,6) by (metis Diff_iff card.insert card_Suc_Diff1 finite_Diff subsetD)
  moreover have "k \<le> card (insert c (X - D))"
  proof -
    have "T \<subseteq> insert c (X - D)" using T assms(9) by blast
    then show ?thesis using assms(2,3) by (metis card_mono finite_Diff finite_insert)
  qed
  moreover have "b t < b x" if "t \<in> insert c (T - {w})" "x \<in> insert c (X - D) - insert c (T - {w})" for t x
  proof (cases "x = w")
    case True
    show ?thesis
    proof (cases "t = c")
      case False
      then have "t \<in> T" "t \<noteq> w" using that by auto
      then have "b t \<noteq> b w" using assms(4,10) T by (metis inj_on_contraD subsetD)
      then show ?thesis using True assms(5) \<open>t \<in> T\<close> by (metis order_le_less)
    qed (simp add: True assms(7))
  next
    case False
    then have x: "x \<in> X" "x \<notin> T" using that by auto
    have "b w < b x" using top_beats [OF assms(1,4) x] .
    then show ?thesis using that assms(5,7) by (metis DiffD1 insertE order.strict_trans order_le_less_trans)
  qed
  ultimately show ?thesis using T assms(9) by (auto simp: top_def min_def)
qed

lemma top_refuse:
  assumes "top b k X T" "finite X" "card T = k" "w \<in> T" "\<forall>t \<in> T. b t \<le> b w" "b w < b c" "D \<subseteq> X" "D \<inter> T = {}"
  shows "top b k (insert c (X - D)) T"
proof -
  have T: "T \<subseteq> X" using assms(1) by (auto simp: top_def)
  then have "T \<subseteq> insert c (X - D)" using assms(8) by blast
  moreover from this have "k \<le> card (insert c (X - D))" using assms(2,3) by (metis card_mono finite_Diff finite_insert)
  moreover have "b t < b c" if "t \<in> T" for t using that assms(5,6) by (metis order_le_less_trans)
  ultimately show ?thesis using assms(1,3) by (auto simp: top_def min_def)
qed

definition set_inv :: "(css_candidate \<Rightarrow> 'b :: linorder) \<Rightarrow> nat \<Rightarrow> css_candidate set \<Rightarrow> candidate_set \<Rightarrow> bool" where
  "set_inv b k C found \<longleftrightarrow>
     wf_map found \<and> (\<forall>(u, c) \<in> set found. cc_rawUrl c = u) \<and>
     top b k (unbeaten b cc_rawUrl C) (set (map_values found))"

lemma found_lookup:
  assumes "wf_map found" "\<forall>(u, c) \<in> set found. cc_rawUrl c = u"
  shows "map_of found u = Some c \<longleftrightarrow> c \<in> set (map_values found) \<and> cc_rawUrl c = u"
  using assms by (force simp: map_of_eq_Some_iff)

lemma found_card:
  assumes "wf_map found" "\<forall>(u, c) \<in> set found. cc_rawUrl c = u"
  shows "card (set (map_values found)) = length found" "distinct (map_values found)"
proof -
  have urls: "map fst found = map cc_rawUrl (map_values found)" using assms(2) by (auto simp: comp_def)
  have "distinct (map cc_rawUrl (map_values found))" using assms(1) unfolding urls .
  then show "distinct (map_values found)" using distinct_map [of cc_rawUrl "map_values found"] by blast
  then show "card (set (map_values found)) = length found" using distinct_card by fastforce
qed

lemma set_map_set_values:
  assumes "wf_map found" "\<forall>(u, c) \<in> set found. cc_rawUrl c = u"
  shows "set (map_values (map_set (cc_rawUrl c) c found)) = insert c {d \<in> set (map_values found). cc_rawUrl d \<noteq> cc_rawUrl c}"
    and "\<forall>(u, d) \<in> set (map_set (cc_rawUrl c) c found). cc_rawUrl d = u"
proof -
  have wf: "wf_map (map_set (cc_rawUrl c) c found)" using assms(1) by simp
  have entry: "(u, d) \<in> set (map_set (cc_rawUrl c) c found) \<longleftrightarrow>
      (if u = cc_rawUrl c then d = c else d \<in> set (map_values found) \<and> cc_rawUrl d = u)" for u d
  proof -
    have "(u, d) \<in> set (map_set (cc_rawUrl c) c found) \<longleftrightarrow> map_of (map_set (cc_rawUrl c) c found) u = Some d"
      by (rule map_of_eq_Some_iff [OF wf, symmetric])
    also have "\<dots> \<longleftrightarrow> (if u = cc_rawUrl c then d = c else d \<in> set (map_values found) \<and> cc_rawUrl d = u)"
      using found_lookup [OF assms, of u d] by auto
    finally show ?thesis .
  qed
  then show "\<forall>(u, d) \<in> set (map_set (cc_rawUrl c) c found). cc_rawUrl d = u" by (auto split: if_splits)
  show "set (map_values (map_set (cc_rawUrl c) c found)) = insert c {d \<in> set (map_values found). cc_rawUrl d \<noteq> cc_rawUrl c}"
  proof (rule set_eqI)
    fix d
    have "d \<in> set (map_values (map_set (cc_rawUrl c) c found)) \<longleftrightarrow> (\<exists>u. (u, d) \<in> set (map_set (cc_rawUrl c) c found))" by force
    then show "d \<in> set (map_values (map_set (cc_rawUrl c) c found)) \<longleftrightarrow> d \<in> insert c {d \<in> set (map_values found). cc_rawUrl d \<noteq> cc_rawUrl c}"
      unfolding entry by auto
  qed
qed

lemma set_map_delete_values:
  assumes "wf_map found" "\<forall>(u, c) \<in> set found. cc_rawUrl c = u" "w \<in> set (map_values found)"
  shows "set (map_values (map_delete (cc_rawUrl w) found)) = set (map_values found) - {w}"
    and "\<forall>(u, d) \<in> set (map_delete (cc_rawUrl w) found). cc_rawUrl d = u"
proof -
  have "cc_rawUrl d = cc_rawUrl w \<longleftrightarrow> d = w" if "d \<in> set (map_values found)" for d
    using found_lookup [OF assms(1,2)] that assms(3) by (metis option.inject)
  moreover have "d \<in> set (map_values (map_delete (cc_rawUrl w) found)) \<longleftrightarrow> d \<in> set (map_values found) \<and> cc_rawUrl d \<noteq> cc_rawUrl w" for d
  proof -
    have "d \<in> set (map_values (map_delete (cc_rawUrl w) found)) \<longleftrightarrow> (\<exists>u. (u, d) \<in> set found \<and> u \<noteq> cc_rawUrl w)"
      by (force simp: AList.delete_eq)
    then show ?thesis using assms(2) by force
  qed
  ultimately show "set (map_values (map_delete (cc_rawUrl w) found)) = set (map_values found) - {w}" by blast
  show "\<forall>(u, d) \<in> set (map_delete (cc_rawUrl w) found). cc_rawUrl d = u"
    using assms(2) by (auto simp: AList.delete_eq)
qed

lemma worst_first_head:
  assumes "worst_first collation cs = w # rest"
  shows "w \<in> set cs \<and> (\<forall>c \<in> set cs. badness collation c \<le> badness collation w)"
proof -
  have rev: "rev (w # rest) = sort_key (badness collation) (rev cs)" using assms by (metis rev_rev_ident worst_first_def)
  have "sorted (map (badness collation) (rev (w # rest)))" unfolding rev by simp
  then have "\<forall>c \<in> set rest. badness collation c \<le> badness collation w" by (simp add: sorted_append)
  moreover have "set cs = set (w # rest)" using arg_cong [OF rev, of set] by simp
  ultimately show ?thesis by auto
qed

lemma candidate_step:
  fixes collation maximum
  defines "b \<equiv> badness collation"
  assumes inv: "set_inv b (nat maximum) C found" and C: "finite C" "c \<notin> C" "inj_on b (insert c C)" and pos: "0 < maximum"
  shows "set_inv b (nat maximum) (insert c C) (place_candidate collation maximum c found)"
    (is "set_inv b ?k _ ?found")
proof -
  let ?U = "unbeaten b cc_rawUrl C" and ?T = "set (map_values found)"
  have wf: "wf_map found" and urls: "\<forall>(u, c) \<in> set found. cc_rawUrl c = u" and T: "top b ?k ?U ?T"
    using inv by (auto simp: set_inv_def)
  have U: "finite ?U" "c \<notin> ?U" "inj_on b ?U" and sub: "?T \<subseteq> ?U"
    using C T by (auto simp: unbeaten_def top_def intro: inj_on_subset)
  have cardT: "card ?T = min ?k (card ?U)" using T unfolding top_def by blast
  have injC: "inj_on b C" using C(3) by (auto intro: inj_on_subset)
  note new = unbeaten_insert [OF C, of cc_rawUrl]
  note card = found_card(1) [OF wf urls]
  let ?D = "{d \<in> ?U. cc_rawUrl d = cc_rawUrl c}"
  have rest: "{d \<in> ?U. cc_rawUrl d \<noteq> cc_rawUrl c} = ?U - ?D" by blast
  show ?thesis
  proof (cases "map_of found (cc_rawUrl c)")
    case (Some d)
    then have d: "d \<in> ?T" "cc_rawUrl d = cc_rawUrl c" using found_lookup [OF wf urls] by auto
    have "x = d" if "x \<in> ?D" for x
      using unbeaten_url [OF injC, of x cc_rawUrl d] that d sub by auto
    then have only: "?D = {d}" using d sub by auto
    have others: "{e \<in> ?T. cc_rawUrl e \<noteq> cc_rawUrl c} = ?T - {d}" using only sub d by auto
    have "b c \<noteq> b d" using C d sub by (metis (no_types, lifting) inj_on_contraD insertCI mem_Collect_eq subsetD unbeaten_def)
    show ?thesis
    proof (cases "b c < b d")
      case True
      then have "unbeaten b cc_rawUrl (insert c C) = insert c (?U - {d})"
        unfolding new rest only using only by (auto dest: less_asym)
      moreover have "set (map_values (map_set (cc_rawUrl c) c found)) = insert c (?T - {d})"
        unfolding set_map_set_values(1) [OF wf urls] others ..
      ultimately show ?thesis
        using top_replace [OF T U(1) d(1) U(2) True] set_map_set_values(2) [OF wf urls, of c] wf_map_set [OF wf]
        by (simp only: set_inv_def simp_thms place_candidate_def Some option.case b_def [symmetric] True if_True)
    next
      case False
      then have "unbeaten b cc_rawUrl (insert c C) = ?U"
        unfolding new using d sub \<open>b c \<noteq> b d\<close> by (metis linorder_neqE subsetD)
      moreover have "?found = found" using Some False by (simp add: place_candidate_def b_def)
      ultimately show ?thesis using wf urls T by (simp only: set_inv_def simp_thms)
    qed
  next
    case None
    then have fresh: "?D \<inter> ?T = {}" using found_lookup [OF wf urls, of "cc_rawUrl c"] by auto
    show ?thesis
    proof (cases "int (length found) < maximum")
      case True
      then have small: "card ?T < ?k" using card by simp
      then have "card ?T = card ?U" using cardT by linarith
      then have "?U = ?T" using card_subset_eq [OF U(1) sub] by simp
      then have "?D = {}" using fresh by blast
      then have "\<not> (\<exists>d \<in> ?U. cc_rawUrl d = cc_rawUrl c \<and> b d < b c)" by blast
      then have "unbeaten b cc_rawUrl (insert c C) = insert c (?U - ?D)" by (simp only: new if_False rest)
      then have "unbeaten b cc_rawUrl (insert c C) = insert c ?U" unfolding \<open>?D = {}\<close> by (simp only: Diff_empty)
      moreover have "set (map_values (map_set (cc_rawUrl c) c found)) = insert c ?T"
        unfolding set_map_set_values(1) [OF wf urls] using \<open>?D = {}\<close> sub by blast
      ultimately show ?thesis
        using top_fill [OF T U(1) small U(2)] set_map_set_values(2) [OF wf urls, of c] wf_map_set [OF wf]
        by (simp only: set_inv_def simp_thms place_candidate_def None option.case True if_True)
    next
      case False
      then have full: "card ?T = ?k" using card cardT by simp
      then have "map_values found \<noteq> []" using pos by auto
      then obtain w rest' where w: "worst_first collation (map_values found) = w # rest'"
        by (metis length_0_conv length_rev length_sort list.exhaust worst_first_def)
      have worst: "w \<in> ?T" "\<forall>t \<in> ?T. b t \<le> b w" using worst_first_head [OF w] by (simp_all add: b_def)
      have beaten: "b w < b d" if "d \<in> ?D" for d using top_beats [OF T worst(1)] that fresh by blast
      show ?thesis
      proof (cases "b c < b w")
        case True
        then have "unbeaten b cc_rawUrl (insert c C) = insert c (?U - ?D)"
        proof -
          have "\<not> (\<exists>d \<in> ?U. cc_rawUrl d = cc_rawUrl c \<and> b d < b c)"
            using beaten True by (metis (mono_tags, lifting) less_asym less_trans mem_Collect_eq)
          then show ?thesis by (simp only: new if_False rest)
        qed
        moreover have "set (map_values (map_set (cc_rawUrl c) c (map_delete (cc_rawUrl w) found))) = insert c (?T - {w})"
          unfolding set_map_set_values(1) [OF wf_map_delete [OF wf] set_map_delete_values(2) [OF wf urls worst(1)]]
            set_map_delete_values(1) [OF wf urls worst(1)] using fresh sub by auto
        ultimately show ?thesis
          using top_oust [OF T U(1) full worst U(2) True Collect_restrict fresh U(3)] wf_map_set [OF wf_map_delete [OF wf]]
            set_map_set_values(2) [OF wf_map_delete [OF wf] set_map_delete_values(2) [OF wf urls worst(1)], of c]
          by (simp only: set_inv_def simp_thms place_candidate_def None option.case False if_False w list.case b_def [symmetric] True if_True)
      next
        case worse: False
        have "b c \<noteq> b w" using C worst(1) sub by (metis (no_types, lifting) inj_on_contraD insertCI mem_Collect_eq subsetD unbeaten_def)
        then have "b w < b c" using worse by simp
        from top_refuse [OF T U(1) full worst this _ fresh] have "top b ?k (insert c (?U - ?D)) ?T" by blast
        then have "top b ?k (unbeaten b cc_rawUrl (insert c C)) ?T"
          using T by (simp only: new rest split: if_split) blast
        moreover have "?found = found" using None False w worse by (simp add: place_candidate_def b_def)
        ultimately show ?thesis using wf urls by (simp only: set_inv_def simp_thms)
      qed
    qed
  qed
qed

section \<open>The result of the scanner\<close>

definition offer :: "mention \<Rightarrow> css_candidate option" where
  "offer m = map_option (\<lambda>u. \<lparr>cc_rawUrl = u, cc_method = fst (snd m), cc_confidence = High, cc_offset = offset_of m\<rparr>) (cleanUrl (fst m))"

definition offers :: "mention list \<Rightarrow> css_candidate list" where
  "offers ms = List.map_filter offer ms"

definition best_candidates :: "(units \<Rightarrow> nat list) \<Rightarrow> css_candidate list \<Rightarrow> css_candidate list" where
  "best_candidates collation cs =
     sort_key (badness collation) (filter (\<lambda>c. c \<in> unbeaten (badness collation) cc_rawUrl (set cs)) cs)"

lemma offer_offset: "offer m = Some c \<Longrightarrow> cc_offset c = offset_of m"
  by (auto simp: offer_def)

lemma badness_offset: "badness collation c = badness collation d \<Longrightarrow> cc_offset c = cc_offset d"
  by (simp add: badness_def)

lemma offers_simps [simp]:
  "offers [] = []" "offers (m # ms) = (case offer m of None \<Rightarrow> offers ms | Some c \<Rightarrow> c # offers ms)"
  "offers (ms @ ms') = offers ms @ offers ms'"
  by (simp_all add: offers_def List.map_filter_def split: option.split)

lemma offers_offsets: "sorted_wrt (<) (map offset_of ms) \<Longrightarrow> sorted_wrt (<) (map cc_offset (offers ms)) \<and>
    set (map cc_offset (offers ms)) \<subseteq> set (map offset_of ms)"
proof (induction ms)
  case (Cons m ms)
  then have sub: "set (map cc_offset (offers ms)) \<subseteq> set (map offset_of ms)"
    and IH: "sorted_wrt (<) (map cc_offset (offers ms))" and less: "\<forall>x \<in> set (map offset_of ms). offset_of m < x" by auto
  show ?case
  proof (cases "offer m")
    case (Some c)
    have "offset_of m < cc_offset y" if "y \<in> set (offers ms)" for y
    proof -
      have "cc_offset y \<in> set (map offset_of ms)" using sub that by auto
      then show ?thesis using less by blast
    qed
    then show ?thesis using Some sub IH offer_offset [OF Some] by auto
  qed (use sub IH in auto)
qed simp

lemma offers_inj:
  assumes "sorted_wrt (<) (map offset_of ms)"
  shows "inj_on (badness collation) (set (offers ms))" "distinct (offers ms)"
proof -
  have "distinct (map cc_offset (offers ms))"
    using offers_offsets [OF assms] strict_sorted_iff by blast
  then have "distinct (offers ms)" and inj: "inj_on cc_offset (set (offers ms))" by (simp_all add: distinct_map)
  then show "distinct (offers ms)" by simp
  show "inj_on (badness collation) (set (offers ms))"
    by (intro inj_onI) (metis badness_offset inj inj_onD)
qed

lemma fold_offers:
  assumes "sorted_wrt (<) (map offset_of ms)" "0 < maximum"
  shows "set_inv (badness collation) (nat maximum) (set (offers ms)) (fold (add_mention (candidate_add collation maximum)) ms [])"
  using assms(1)
proof (induction ms rule: rev_induct)
  case Nil
  then show ?case by (simp add: set_inv_def top_def unbeaten_def)
next
  case (snoc m ms)
  let ?found = "fold (add_mention (candidate_add collation maximum)) ms []"
  have IH: "set_inv (badness collation) (nat maximum) (set (offers ms)) ?found"
    using snoc by (simp add: sorted_wrt_append)
  obtain raw meth off where m: "m = (raw, meth, off)" by (cases m)
  show ?case
  proof (cases "cleanUrl raw")
    case None
    then have "add_mention (candidate_add collation maximum) m ?found = ?found" "offer m = None"
      by (simp_all add: m add_mention_def candidate_add_def offer_def)
    then show ?thesis using IH by simp
  next
    case (Some u)
    let ?c = "\<lparr>cc_rawUrl = u, cc_method = meth, cc_confidence = High, cc_offset = off\<rparr>"
    have offers: "offers (ms @ [m]) = offers ms @ [?c]" using Some by (simp add: offer_def m)
    have fresh: "?c \<notin> set (offers ms)" "inj_on (badness collation) (insert ?c (set (offers ms)))"
      using offers_inj(1) [OF snoc.prems, of collation] offers_inj(2) [OF snoc.prems] unfolding offers by auto
    have turn: "fold (add_mention (candidate_add collation maximum)) (ms @ [m]) [] =
        candidate_add collation maximum raw meth off ?found"
      by (simp add: m add_mention_def)
    have "candidate_add collation maximum raw meth off ?found = place_candidate collation maximum ?c ?found"
      using Some assms(2) by (simp add: candidate_add_def)
    with candidate_step [OF IH _ fresh assms(2)] show ?thesis unfolding turn offers by simp
  qed
qed

lemma top_take:
  assumes T: "top b k (set L) (set vs)" and L: "distinct L" "inj_on b (set L)" and vs: "distinct vs" "sorted (map b vs)"
  shows "take k (sort_key b L) = vs"
proof -
  let ?rest = "sort_key b (filter (\<lambda>c. c \<notin> set vs) L)"
  have sub: "set vs \<subseteq> set L" using T by (simp add: top_def)
  then have all: "set (vs @ ?rest) = set L" by auto
  have split: "sort_key b L = vs @ ?rest"
  proof (rule map_sorted_distinct_set_unique [where f = b])
    show "inj_on b (set (sort_key b L) \<union> set (vs @ ?rest))" unfolding all using L(2) by simp
    have "b v \<le> b x" if "v \<in> set vs" "x \<in> set ?rest" for v x
      using top_beats [OF T that(1), of x] that(2) by (auto intro: less_imp_le)
    then show "sorted (map b (vs @ ?rest))" using vs(2) by (auto simp: sorted_append)
    show "distinct (map b (sort_key b L))" "distinct (map b (vs @ ?rest))"
      using L vs(1) all by (simp_all only: distinct_map set_sort distinct_sort distinct_append) auto
  qed (use all in simp_all)
  have len: "length vs = min k (length L)" using T L(1) vs(1) by (simp add: top_def distinct_card)
  show ?thesis
  proof (cases "length L \<le> k")
    case True
    then have "length (sort_key b L) = length vs" using len by simp
    then have "?rest = []" unfolding split by simp
    then show ?thesis unfolding split using len True by simp
  next
    case False
    then show ?thesis unfolding split using len by simp
  qed
qed

lemma finds_best:
  "scanCssUrls collation s maximum = Some (take (nat maximum) (best_candidates collation (offers (mentions s 0))))"
proof (cases "0 < maximum")
  case False
  have "fold (add_mention (candidate_add collation maximum)) ms [] = []" for ms
    using False by (induction ms) (auto simp: add_mention_def candidate_add_def split: option.split)
  then show ?thesis using False by (simp add: scanCssUrls_def scan_loop_mentions candidate_values_def)
next
  case True
  let ?b = "badness collation" and ?cs = "offers (mentions s 0)"
  let ?found = "fold (add_mention (candidate_add collation maximum)) (mentions s 0) []"
  let ?L = "filter (\<lambda>c. c \<in> unbeaten ?b cc_rawUrl (set ?cs)) ?cs"
  have sorted: "sorted_wrt (<) (map offset_of (mentions s 0))" using mentions_offsets [of s 0] by blast
  note inv = fold_offers [OF sorted True, of collation]
  have wf: "wf_map ?found" and urls: "\<forall>(u, c) \<in> set ?found. cc_rawUrl c = u"
    and T: "top ?b (nat maximum) (unbeaten ?b cc_rawUrl (set ?cs)) (set (map_values ?found))"
    using inv by (auto simp: set_inv_def)
  have "set ?L = unbeaten ?b cc_rawUrl (set ?cs)" by (auto simp: unbeaten_def)
  then have "top ?b (nat maximum) (set ?L) (set (candidate_values collation ?found))"
    using T by (simp add: candidate_values_def)
  moreover have "distinct ?L" "inj_on ?b (set ?L)"
    using offers_inj(1) [OF sorted, of collation] offers_inj(2) [OF sorted] by (auto intro: inj_on_subset)
  moreover have "distinct (candidate_values collation ?found)" "sorted (map ?b (candidate_values collation ?found))"
    using found_card(2) [OF wf urls] by (simp_all add: candidate_values_def)
  ultimately have "take (nat maximum) (sort_key ?b ?L) = candidate_values collation ?found" by (rule top_take)
  then show ?thesis
    by (simp add: scanCssUrls_def scan_loop_mentions best_candidates_def)
qed

text \<open>
  C38: The scanner returns the best of what it sees: of the URLs mentioned in a style sheet, each with its
  best mention, the \<open>maximum\<close> best ones in order. A URL that had to make room is back when a
  later mention of it is good enough, and no limit makes a worse URL win over a better one.
\<close>

theorem css_scanner_finds_best:
  "scanCssUrls collation s maximum = Some (take (nat maximum) (best_candidates collation (offers (mentions s 0))))"
  by (rule finds_best)

section \<open>Reading back what was written\<close>

definition hex_lower :: "int \<Rightarrow> int" where
  "hex_lower d = (if d < 10 then 48 + d else 87 + d)"

definition css_escape :: "int \<Rightarrow> units" where
  "css_escape c = 92 # map (\<lambda>k. hex_lower ((c div 16 ^ k) mod 16)) [5, 4, 3, 2, 1, 0] @ [32]"

definition css_unit :: "int \<Rightarrow> units" where
  "css_unit c = (if is_quote c \<or> c = 92 \<or> line_break c then css_escape c else [c])"

definition css_quoted :: "units \<Rightarrow> units" where
  "css_quoted u = 34 # concat (map css_unit u) @ [34]"

text \<open>A style sheet that mentions the URLs one after the other, each on its own line.\<close>

definition css_sheet :: "units list \<Rightarrow> units" where
  "css_sheet us = concat (map (\<lambda>u. units_of ''url('' @ css_quoted u @ [41, 10]) us)"

lemma unit_at_append [simp]:
  "unit_at (pre @ c # post) (length pre) = Some c" "unit_at pre (length pre) = None"
  by (simp_all add: unit_at_def)

lemma unit_at_behind: "unit_at (pre @ s) (length pre + k) = unit_at s k"
  by (simp add: unit_at_def nth_append)

lemma unit_at_Cons [simp]: "unit_at (c # s) 0 = Some c" "unit_at (c # s) (Suc k) = unit_at s k" "unit_at [] k = None"
  by (simp_all add: unit_at_def)

lemma escape_digits:
  assumes "is_quote c \<or> c = 92 \<or> line_break c"
  shows "\<exists>ds. css_escape c = 92 # ds @ [32] \<and> length ds = 6 \<and> list_all is_hex ds \<and> hex_value ds = c \<and>
    \<not> line_break (hd ds) \<and> c \<noteq> 0 \<and> \<not> 1114111 < c \<and> \<not> isSurrogate c \<and> from_code_point c = [c]"
proof -
  from assms consider "c = 34" | "c = 39" | "c = 92" | "c = 10" | "c = 12" | "c = 13" by (auto simp: is_quote_def line_break_def)
  then show ?thesis
    by cases (simp_all add: css_escape_def hex_lower_def is_hex_def hex_unit_def hex_value_def line_break_def isSurrogate_def from_code_point_def)
qed

lemma consumeEscape_written:
  assumes "is_quote c \<or> c = 92 \<or> line_break c"
  shows "consumeEscape (pre @ css_escape c @ post) (length pre) = Some ([c], length (pre @ css_escape c))"
proof -
  obtain ds where ds: "css_escape c = 92 # ds @ [32]" "length ds = 6" "list_all is_hex ds" "hex_value ds = c"
    "\<not> line_break (hd ds)" "c \<noteq> 0" "\<not> 1114111 < c" "\<not> isSurrogate c" "from_code_point c = [c]"
    using escape_digits [OF assms] by blast
  then obtain d ds' where d: "ds = d # ds'" by (cases ds) auto
  let ?s = "pre @ css_escape c @ post"
  have first: "unit_at ?s (length pre + 1) = Some d"
    unfolding unit_at_behind by (simp add: ds(1) d)
  have "drop (length pre + 1) ?s = ds @ 32 # post" by (simp add: ds(1))
  then have digits: "hex_digits ?s (length pre + 1) = ds"
    using ds(2,3) by (simp add: hex_digits_def takeWhile_eq_all_conv list_all_iff)
  have "unit_at ?s (length pre + (1 + length ds)) = Some 32"
    unfolding unit_at_behind using unit_at_behind [of "92 # ds" "32 # post" 0] by (simp add: ds(1))
  then have behind: "unit_at ?s (length pre + 1 + length ds) = Some 32" by (simp add: add.assoc)
  show ?thesis
    using ds(3,5) unfolding consumeEscape_def first digits
    by (simp add: d [symmetric] Let_def behind [simplified] ds(4,6,7,8,9) js_white_def) (simp add: d ds(1,2))
qed

lemma quoted_loop_written:
  "quoted_loop (pre @ concat (map css_unit u) @ 34 # post) 34 (length pre) v =
     (v @ u, length (pre @ concat (map css_unit u)) + 1, True)"
proof (induction u arbitrary: pre v)
  case Nil
  then show ?case by (subst quoted_loop.simps) simp
next
  case (Cons c u)
  let ?rest = "concat (map css_unit u) @ 34 # post"
  show ?case
  proof (cases "is_quote c \<or> c = 92 \<or> line_break c")
    case True
    then have quoted: "css_unit c = css_escape c" by (simp add: css_unit_def)
    have no_break: "\<not> line_break 92" by (simp add: line_break_def)
    obtain ds where "css_escape c = 92 # ds" by (simp add: css_escape_def)
    then have "unit_at (pre @ css_escape c @ ?rest) (length pre) = Some 92" by simp
    moreover note consumeEscape_written [OF True, of pre ?rest]
    ultimately show ?thesis
      using Cons.IH [of "pre @ css_escape c" "v @ [c]"] no_break quoted
      by (subst quoted_loop.simps) simp
  next
    case False
    then have "css_unit c = [c]" "c \<noteq> 34" "c \<noteq> 92" "\<not> line_break c" by (auto simp: css_unit_def is_quote_def)
    then show ?thesis using Cons.IH [of "pre @ [c]" "v @ [c]"]
      by (subst quoted_loop.simps) simp
  qed
qed

lemma scanQuoted_written:
  "scanQuoted (pre @ css_quoted u @ post) (length pre) = (u, length (pre @ css_quoted u), True)"
  using quoted_loop_written [of "pre @ [34]" u post "[]"] by (simp add: scanQuoted_def css_quoted_def)

lemma skipWhitespace_none: "\<not> js_white c \<Longrightarrow> skipWhitespace (pre @ c # post) (length pre) = length pre"
  by (subst skipWhitespace.simps) simp

lemma scanUrlFunction_written:
  "scanUrlFunction (pre @ 40 # css_quoted u @ 41 # post) (length pre) = Some (u, length pre + 2 + length (css_quoted u))"
proof -
  let ?s = "pre @ 40 # css_quoted u @ 41 # post"
  have "skipWhitespace ?s (length pre) = length pre" by (rule skipWhitespace_none) (simp add: js_white_def)
  moreover have inner: "skipWhitespace ?s (length pre + 1) = length pre + 1"
    using skipWhitespace_none [of 34 "pre @ [40]"] by (simp add: css_quoted_def js_white_def)
  moreover have "unit_at ?s (length pre + 1) = Some 34"
    unfolding unit_at_behind by (simp add: css_quoted_def)
  moreover have "scanQuoted ?s (length pre + 1) = (u, length pre + 1 + length (css_quoted u), True)"
    using scanQuoted_written [of "pre @ [40]" u "41 # post"] by simp
  moreover have "skipWhitespace ?s (length pre + 1 + length (css_quoted u)) = length pre + 1 + length (css_quoted u)"
    using skipWhitespace_none [of 41 "pre @ 40 # css_quoted u" post] by (simp add: js_white_def)
  moreover have "unit_at ?s (length pre + (1 + length (css_quoted u))) = Some 41"
    unfolding unit_at_behind using unit_at_behind [of "40 # css_quoted u" "41 # post" 0] by simp
  ultimately show ?thesis by (simp add: scanUrlFunction_def Let_def is_quote_def add.assoc)
qed

lemma identifier_url:
  "identifier_loop (pre @ 117 # 114 # 108 # 40 # post) (length pre) [] = ([117, 114, 108], length pre + 3)"
proof -
  let ?s = "pre @ 117 # 114 # 108 # 40 # post"
  have units: "unit_at ?s (length pre) = Some 117" "unit_at ?s (length pre + 1) = Some 114"
    "unit_at ?s (length pre + 2) = Some 108" "unit_at ?s (length pre + 3) = Some 40"
    by (simp_all add: unit_at_def nth_append)
  have "identifier_loop ?s (length pre) [] = identifier_loop ?s (length pre + 1) [117]"
    by (subst identifier_loop.simps) (simp add: units isIdentifierCharacter_def)
  also have "\<dots> = identifier_loop ?s (length pre + 2) [117, 114]"
    by (subst identifier_loop.simps) (simp add: units [simplified] isIdentifierCharacter_def)
  also have "\<dots> = identifier_loop ?s (length pre + 3) [117, 114, 108]"
    by (subst identifier_loop.simps) (simp add: units [simplified] isIdentifierCharacter_def eval_nat_numeral)
  also have "\<dots> = ([117, 114, 108], length pre + 3)"
    by (subst identifier_loop.simps) (simp add: units [simplified] isIdentifierCharacter_def)
  finally show ?thesis .
qed

text \<open>Where the URLs of the sheet are mentioned, when it starts at position \<open>i\<close>.\<close>

fun sheet_mentions :: "nat \<Rightarrow> units list \<Rightarrow> mention list" where
  "sheet_mentions i [] = []"
| "sheet_mentions i (u # us) = (u, CssUrl, i) # sheet_mentions (i + 6 + length (css_quoted u)) us"

lemma scan_turn_written:
  "scan_turn note_mention (pre @ 117 # 114 # 108 # 40 # css_quoted u @ 41 # post) (length pre) [] =
     (length pre + 5 + length (css_quoted u), [(u, CssUrl, length pre)])"
proof -
  let ?s = "pre @ 117 # 114 # 108 # 40 # css_quoted u @ 41 # post"
  have "\<not> starts_at ?s [47, 42] (length pre)" by (simp add: starts_at_def)
  moreover have "scanIdentifier ?s (length pre) = Some ([117, 114, 108], length pre + 3)"
    using identifier_url [of pre] by (simp add: scanIdentifier_def)
  moreover have "is_word ''url'' [117, 114, 108]" by (simp add: is_word_def units_of_def lower_unit_def)
  moreover have "scanUrlFunction ?s (length pre + 3) = Some (u, length pre + 5 + length (css_quoted u))"
    using scanUrlFunction_written [of "pre @ [117, 114, 108]" u post] by (simp add: eval_nat_numeral)
  moreover have "unit_at ?s (length pre) = Some 117" by simp
  ultimately show ?thesis unfolding scan_turn_def by (simp only: option.case prod.case if_False if_True Let_def) (simp add: is_quote_def note_mention_def)
qed

lemma scan_turn_line_end:
  "scan_turn note_mention (pre @ 10 # post) (length pre) [] = (length pre + 1, [])"
proof -
  have "identifier_loop (pre @ 10 # post) (length pre) [] = ([], length pre)"
    by (subst identifier_loop.simps) (simp add: isIdentifierCharacter_def)
  then show ?thesis by (simp add: scan_turn_def scanIdentifier_def starts_at_def is_quote_def)
qed

lemma mentions_written: "mentions (pre @ css_sheet us) (length pre) = sheet_mentions (length pre) us"
proof (induction us arbitrary: pre)
  case Nil
  then show ?case by (simp add: css_sheet_def mentions.simps)
next
  case (Cons u us)
  let ?tail = "10 # css_sheet us" and ?pre = "pre @ 117 # 114 # 108 # 40 # css_quoted u @ [41]"
  have s: "pre @ css_sheet (u # us) = pre @ 117 # 114 # 108 # 40 # css_quoted u @ 41 # ?tail"
    by (simp add: css_sheet_def units_of_def)
  have len: "length ?pre = length pre + 5 + length (css_quoted u)" by simp
  have "mentions (pre @ css_sheet (u # us)) (length pre) = (u, CssUrl, length pre) # mentions (pre @ css_sheet (u # us)) (length ?pre)"
    unfolding s len by (subst mentions.simps) (simp add: scan_turn_written)
  also have "mentions (pre @ css_sheet (u # us)) (length ?pre) = mentions (pre @ css_sheet (u # us)) (length ?pre + 1)"
    using scan_turn_line_end [of ?pre "css_sheet us"] unfolding s by (subst mentions.simps) simp
  also have "\<dots> = sheet_mentions (length (?pre @ [10])) us"
    using Cons.IH [of "?pre @ [10]"] unfolding s by simp
  also have "length (?pre @ [10]) = length pre + 6 + length (css_quoted u)" by simp
  finally show ?case by (simp only: sheet_mentions.simps)
qed

lemma sheet_mentions_urls: "map fst (sheet_mentions i us) = us" "\<forall>m \<in> set (sheet_mentions i us). fst (snd m) = CssUrl"
  by (induction us arbitrary: i) auto

lemma sheet_offers:
  assumes "\<forall>u \<in> set us. cleanUrl u = Some u"
  shows "map cc_rawUrl (offers (sheet_mentions i us)) = us" "\<forall>c \<in> set (offers (sheet_mentions i us)). cc_method c = CssUrl"
  using assms by (induction us arbitrary: i) (auto simp: offer_def)

lemma in_offset_order:
  assumes "sorted_wrt (<) (map cc_offset cs)" "\<forall>c \<in> set cs. cc_method c = CssUrl"
  shows "sorted (map (badness collation) cs)"
  using assms by (induction cs) (auto simp: badness_def)



text \<open>
  The position that is recorded for the URL of a source map is the index of the marker in the text of the
  comment, added to the index where the comment starts: it is two units short of the marker, because
  the text starts behind the two units that open the comment.
\<close>

lemma source_map_offset_short:
  assumes "find_from s [42, 47] (start + 2) = Some e"
    and "source_map_match (take (e - (start + 2)) (drop (start + 2) s)) = Some (raw, m)"
  shows "snd (scanComment add s start found) = add raw CssSourceMap (start + m) found \<and>
    unit_at s (start + m + 2) \<in> {Some 35, Some 64}"
proof
  let ?comment = "take (e - (start + 2)) (drop (start + 2) s)"
  show "snd (scanComment add s start found) = add raw CssSourceMap (start + m) found"
    using assms by (simp add: scanComment_def)
  from assms(2) have "source_map_at ?comment m \<noteq> None"
    by (auto simp: source_map_match_def find_Some_iff split: option.splits)
  then have "unit_at ?comment m \<in> {Some 35, Some 64}" by (auto simp: source_map_at_def split: if_splits)
  then show "unit_at s (start + m + 2) \<in> {Some 35, Some 64}"
    by (auto simp: unit_at_def add.commute add.left_commute split: if_splits)
qed

end
