(* ===== verification/Run_Records.thy ===== *)
theory Run_Records
  imports Run_Controller Record_Codec Stable_Json Politeness
begin

text \<open>
  The records of a whole run: its statistics, its manifest and its result (\<open>results/types.ts\<close>,
  \<open>results/run-metadata.ts\<close>), how they are made from the counters (\<open>crawler/run-records.ts\<close>,
  \<open>crawler/finalizer.ts\<close>), their JSON form, and the fingerprints of a configuration
  (\<open>config/fingerprint.ts\<close>).
\<close>

section \<open>Names\<close>

datatype run_status = RunCompleted | RunPartial | RunStoppedByLimit | RunAborted | RunFailed

fun run_status_name :: "run_status \<Rightarrow> string" where
  "run_status_name RunCompleted = ''completed''"
| "run_status_name RunPartial = ''partial''"
| "run_status_name RunStoppedByLimit = ''stopped_by_limit''"
| "run_status_name RunAborted = ''aborted''"
| "run_status_name RunFailed = ''failed''"

fun stop_reason_name :: "stop_reason \<Rightarrow> string" where
  "stop_reason_name RFrontierEmpty = ''frontier_empty''"
| "stop_reason_name RLimitReached = ''limit_reached''"
| "stop_reason_name RAborted = ''aborted''"
| "stop_reason_name RFatalError = ''fatal_error''"

fun limit_name :: "limit_reason \<Rightarrow> string" where
  "limit_name LimScheduledRequests = ''max-scheduled-requests''"
| "limit_name LimFetchedResources = ''max-fetched-resources''"
| "limit_name LimRunTime = ''max-run-time''"
| "limit_name LimDownloadedBytes = ''max-downloaded-bytes''"
| "limit_name LimQueueSize = ''max-queue-size''"
| "limit_name LimSitemapFiles = ''max-sitemap-files''"
| "limit_name LimSitemapEntries = ''max-sitemap-entries''"
| "limit_name LimSitemapIndexDepth = ''max-sitemap-index-depth''"
| "limit_name LimRenderedPages = ''max-rendered-pages''"

fun error_code_name :: "crawl_error_code \<Rightarrow> string" where
  "error_code_name E_CONFIG_ERROR = ''CONFIG_ERROR''"
| "error_code_name E_URL_PARSE_ERROR = ''URL_PARSE_ERROR''"
| "error_code_name E_UNSUPPORTED_PROTOCOL = ''UNSUPPORTED_PROTOCOL''"
| "error_code_name E_SCOPE_REJECTED = ''SCOPE_REJECTED''"
| "error_code_name E_ROBOTS_DISALLOWED = ''ROBOTS_DISALLOWED''"
| "error_code_name E_ROBOTS_FETCH_FAILED = ''ROBOTS_FETCH_FAILED''"
| "error_code_name E_ROBOTS_PARSE_ERROR = ''ROBOTS_PARSE_ERROR''"
| "error_code_name E_NETWORK_SAFETY_REJECTED = ''NETWORK_SAFETY_REJECTED''"
| "error_code_name E_DNS_ERROR = ''DNS_ERROR''"
| "error_code_name E_TLS_ERROR = ''TLS_ERROR''"
| "error_code_name E_FETCH_TIMEOUT = ''FETCH_TIMEOUT''"
| "error_code_name E_FETCH_CONNECT_TIMEOUT = ''FETCH_CONNECT_TIMEOUT''"
| "error_code_name E_FETCH_FIRST_BYTE_TIMEOUT = ''FETCH_FIRST_BYTE_TIMEOUT''"
| "error_code_name E_FETCH_ABORTED = ''FETCH_ABORTED''"
| "error_code_name E_FETCH_NETWORK_ERROR = ''FETCH_NETWORK_ERROR''"
| "error_code_name E_FETCH_DECOMPRESSION_ERROR = ''FETCH_DECOMPRESSION_ERROR''"
| "error_code_name E_UNSUPPORTED_CONTENT_ENCODING = ''UNSUPPORTED_CONTENT_ENCODING''"
| "error_code_name E_HTTP_ERROR = ''HTTP_ERROR''"
| "error_code_name E_TOO_MANY_REDIRECTS = ''TOO_MANY_REDIRECTS''"
| "error_code_name E_REDIRECT_LOOP = ''REDIRECT_LOOP''"
| "error_code_name E_REDIRECT_TARGET_REJECTED = ''REDIRECT_TARGET_REJECTED''"
| "error_code_name E_RESPONSE_TOO_LARGE = ''RESPONSE_TOO_LARGE''"
| "error_code_name E_DECOMPRESSED_RESPONSE_TOO_LARGE = ''DECOMPRESSED_RESPONSE_TOO_LARGE''"
| "error_code_name E_UNSUPPORTED_CONTENT_TYPE = ''UNSUPPORTED_CONTENT_TYPE''"
| "error_code_name E_DECODE_ERROR = ''DECODE_ERROR''"
| "error_code_name E_HTML_PARSE_ERROR = ''HTML_PARSE_ERROR''"
| "error_code_name E_HTML_BUDGET_EXCEEDED = ''HTML_BUDGET_EXCEEDED''"
| "error_code_name E_XML_PARSE_ERROR = ''XML_PARSE_ERROR''"
| "error_code_name E_XML_BUDGET_EXCEEDED = ''XML_BUDGET_EXCEEDED''"
| "error_code_name E_SITEMAP_FETCH_FAILED = ''SITEMAP_FETCH_FAILED''"
| "error_code_name E_SITEMAP_PARSE_ERROR = ''SITEMAP_PARSE_ERROR''"
| "error_code_name E_FEED_PARSE_ERROR = ''FEED_PARSE_ERROR''"
| "error_code_name E_RENDER_TIMEOUT = ''RENDER_TIMEOUT''"
| "error_code_name E_RENDER_ERROR = ''RENDER_ERROR''"
| "error_code_name E_STORAGE_WRITE_ERROR = ''STORAGE_WRITE_ERROR''"
| "error_code_name E_FRONTIER_JOURNAL_ERROR = ''FRONTIER_JOURNAL_ERROR''"
| "error_code_name E_SNAPSHOT_WRITE_ERROR = ''SNAPSHOT_WRITE_ERROR''"
| "error_code_name E_EXTENSION_ERROR = ''EXTENSION_ERROR''"
| "error_code_name E_RESUME_ERROR = ''RESUME_ERROR''"
| "error_code_name E_INTERNAL_ERROR = ''INTERNAL_ERROR''"

fun scope_mode_name :: "scope_mode \<Rightarrow> string" where
  "scope_mode_name ScopeOrigin = ''origin''"
| "scope_mode_name ScopeHost = ''host''"
| "scope_mode_name ScopeDomain = ''domain''"
| "scope_mode_name ScopeCustom = ''custom''"

datatype result_storage = StoreMemory | StoreFilesystem | StoreSqlite

datatype frontier_storage = FrontierMemory | FrontierJournal | FrontierSqlite

fun result_storage_name :: "result_storage \<Rightarrow> string" where
  "result_storage_name StoreMemory = ''memory''"
| "result_storage_name StoreFilesystem = ''filesystem''"
| "result_storage_name StoreSqlite = ''sqlite''"

fun frontier_storage_name :: "frontier_storage \<Rightarrow> string" where
  "frontier_storage_name FrontierMemory = ''memory''"
| "frontier_storage_name FrontierJournal = ''journal''"
| "frontier_storage_name FrontierSqlite = ''sqlite''"

fun frontier_order_name :: "frontier_order \<Rightarrow> string" where
  "frontier_order_name OrderPriority = ''priority''"
| "frontier_order_name OrderBfs = ''bfs''"
| "frontier_order_name OrderDfs = ''dfs''"

fun protocol_name :: "protocol_preference \<Rightarrow> string" where
  "protocol_name PreferAuto = ''auto''"
| "protocol_name PreferHttp1 = ''http1''"
| "protocol_name PreferHttp2 = ''http2''"

section \<open>Records\<close>

text \<open>Numbers of the statistics are what a manifest may hold, not only the natural numbers of counters.\<close>

record crawl_stats =
  st_runId :: string
  st_startedAt :: string
  st_finishedAt :: "string option"
  st_durationMs :: number
  st_seeds :: number
  st_requestsScheduled :: number
  st_requestsAttempted :: number
  st_requestsFetched :: number
  st_requestsTransportFailed :: number
  st_requestsPolicySkipped :: number
  st_requestsCancelled :: number
  st_requestsFailed :: number
  st_urlsSkipped :: number
  st_retries :: number
  st_resourcesRecorded :: number
  st_htmlPagesParsed :: number
  st_xmlResourcesParsed :: number
  st_sitemapsFetched :: number
  st_sitemapEntriesDiscovered :: number
  st_sitemapFilesDiscovered :: number
  st_feedsFetched :: number
  st_feedEntriesDiscovered :: number
  st_linksExtracted :: number
  st_internalLinksExtracted :: number
  st_externalLinksExtracted :: number
  st_javascriptResourcesParsed :: number
  st_javascriptLinksExtracted :: number
  st_cssStylesheetsParsed :: number
  st_cssLinksExtracted :: number
  st_renderedPages :: number
  st_redirectsFollowed :: number
  st_redirectsBlocked :: number
  st_robotsFilesFetched :: number
  st_robotsDisallowedUrls :: number
  st_scopeRejectedUrls :: number
  st_networkSafetyRejectedUrls :: number
  st_parserErrors :: number
  st_decodeErrors :: number
  st_bytesDownloaded :: number
  st_responseCount :: number
  st_responseTimeMsTotal :: number
  st_averageResponseTimeMs :: number
  st_peakConcurrency :: number
  st_peakQueueSize :: number
  st_resumedRequests :: number
  st_recoveredLeases :: number
  st_renewedLeases :: number
  st_releasedLeases :: number
  st_storageBackpressureEvents :: number
  st_droppedEvents :: number
  st_evidenceObjectsWritten :: number
  st_evidenceBytesWritten :: number
  st_changesRecorded :: number
  st_workerHeartbeats :: number
  st_replaysCompleted :: number
  st_stopReason :: "stop_reason option"
  st_stopDetail :: "stop_detail option"

record renderer_metadata =
  rn_name :: string
  rn_version :: "string option"

record run_metadata =
  rm_resultStorage :: result_storage
  rm_frontierBackend :: frontier_storage
  rm_frontierOrder :: frontier_order
  rm_httpProtocolPreference :: protocol_preference
  rm_httpCacheEnabled :: bool
  rm_sessionEnabled :: bool
  rm_persistedCookies :: bool
  rm_renderer :: "renderer_metadata option"

record run_manifest =
  mf_runId :: string
  mf_crawlerVersion :: string
  mf_htmlParserVersion :: "string option"
  mf_xmlParserVersion :: "string option"
  mf_configFingerprint :: string
  mf_operationalConfigFingerprint :: string
  mf_startedAt :: string
  mf_finishedAt :: "string option"
  mf_status :: run_status
  mf_stopReason :: "stop_reason option"
  mf_stopDetail :: "stop_detail option"
  mf_seeds :: "resolved_seed list"
  mf_outputDirectory :: "string option"
  mf_rawSnapshotsEnabled :: bool
  mf_sensitive :: bool
  mf_runtime :: run_metadata
  mf_resumedFrom :: "string option"
  mf_fatalError :: "crawl_error option"
  mf_stats :: crawl_stats

record crawl_result =
  cr_runId :: string
  cr_status :: run_status
  cr_stopReason :: "stop_reason option"
  cr_stopDetail :: "stop_detail option"
  cr_outputDirectory :: "string option"
  cr_manifestPath :: "string option"
  cr_stats :: crawl_stats
  cr_fatalError :: "crawl_error option"

section \<open>Making the records\<close>

definition stop_reason_of :: "stop_detail option \<Rightarrow> stop_reason option" where
  "stop_reason_of detail =
     (case detail of
        None \<Rightarrow> None
      | Some FrontierEmpty \<Rightarrow> Some RFrontierEmpty
      | Some (StopLimit l) \<Rightarrow> Some RLimitReached
      | Some (StopCancelled r) \<Rightarrow> Some RAborted
      | Some (StopFatal e) \<Rightarrow> Some RFatalError)"

record evidence_stats =
  es_objects :: nat
  es_bytes :: nat

record stats_input =
  si_runId :: string
  si_startedAt :: string
  si_startedMs :: number
  si_seeds :: nat
  si_counters :: crawl_counters
  si_renderedPages :: nat
  si_stopDetail :: "stop_detail option"
  si_evidence :: evidence_stats

text \<open>\<open>now\<close> is \<open>nowIso()\<close> and \<open>now_ms\<close> is \<open>performance.now()\<close>.\<close>

definition createCrawlStats :: "string \<Rightarrow> number \<Rightarrow> stats_input \<Rightarrow> crawl_stats" where
  "createCrawlStats now now_ms i =
     (let c = si_counters i in
     \<lparr>st_runId = si_runId i, st_startedAt = si_startedAt i,
      st_finishedAt = (if si_stopDetail i = None then None else Some now),
      st_durationMs = now_ms - si_startedMs i, st_seeds = of_nat (si_seeds i),
      st_requestsScheduled = of_nat (cc_requestsScheduled c),
      st_requestsAttempted = of_nat (cc_requestsAttempted c),
      st_requestsFetched = of_nat (cc_requestsFetched c),
      st_requestsTransportFailed = of_nat (cc_requestsTransportFailed c),
      st_requestsPolicySkipped = of_nat (cc_requestsPolicySkipped c),
      st_requestsCancelled = of_nat (cc_requestsCancelled c),
      st_requestsFailed = of_nat (cc_requestsFailed c), st_urlsSkipped = of_nat (cc_urlsSkipped c),
      st_retries = of_nat (cc_retries c), st_resourcesRecorded = of_nat (cc_resourcesRecorded c),
      st_htmlPagesParsed = of_nat (cc_htmlPagesParsed c),
      st_xmlResourcesParsed = of_nat (cc_xmlResourcesParsed c),
      st_sitemapsFetched = of_nat (cc_sitemapsFetched c),
      st_sitemapEntriesDiscovered = of_nat (cc_sitemapEntriesDiscovered c),
      st_sitemapFilesDiscovered = of_nat (cc_sitemapFilesDiscovered c),
      st_feedsFetched = of_nat (cc_feedsFetched c),
      st_feedEntriesDiscovered = of_nat (cc_feedEntriesDiscovered c),
      st_linksExtracted = of_nat (cc_linksExtracted c),
      st_internalLinksExtracted = of_nat (cc_internalLinksExtracted c),
      st_externalLinksExtracted = of_nat (cc_externalLinksExtracted c),
      st_javascriptResourcesParsed = of_nat (cc_javascriptResourcesParsed c),
      st_javascriptLinksExtracted = of_nat (cc_javascriptLinksExtracted c),
      st_cssStylesheetsParsed = of_nat (cc_cssStylesheetsParsed c),
      st_cssLinksExtracted = of_nat (cc_cssLinksExtracted c),
      st_renderedPages = of_nat (si_renderedPages i),
      st_redirectsFollowed = of_nat (cc_redirectsFollowed c),
      st_redirectsBlocked = of_nat (cc_redirectsBlocked c),
      st_robotsFilesFetched = of_nat (cc_robotsFilesFetched c),
      st_robotsDisallowedUrls = of_nat (cc_robotsDisallowedUrls c),
      st_scopeRejectedUrls = of_nat (cc_scopeRejectedUrls c),
      st_networkSafetyRejectedUrls = of_nat (cc_networkSafetyRejectedUrls c),
      st_parserErrors = of_nat (cc_parserErrors c), st_decodeErrors = of_nat (cc_decodeErrors c),
      st_bytesDownloaded = of_nat (cc_bytesDownloaded c), st_responseCount = of_nat (cc_responseCount c),
      st_responseTimeMsTotal = cc_responseTimeMsTotal c,
      st_averageResponseTimeMs = (if cc_responseCount c = 0 then 0 else cc_responseTimeMsTotal c / of_nat (cc_responseCount c)),
      st_peakConcurrency = of_nat (cc_peakConcurrency c), st_peakQueueSize = of_nat (cc_peakQueueSize c),
      st_resumedRequests = of_nat (cc_resumedRequests c),
      st_recoveredLeases = of_nat (cc_recoveredLeases c), st_renewedLeases = of_nat (cc_renewedLeases c),
      st_releasedLeases = of_nat (cc_releasedLeases c),
      st_storageBackpressureEvents = of_nat (cc_storageBackpressureEvents c),
      st_droppedEvents = of_nat (cc_droppedEvents c),
      st_evidenceObjectsWritten = of_nat (es_objects (si_evidence i)),
      st_evidenceBytesWritten = of_nat (es_bytes (si_evidence i)),
      st_changesRecorded = of_nat (cc_changesRecorded c),
      st_workerHeartbeats = of_nat (cc_workerHeartbeats c),
      st_replaysCompleted = of_nat (cc_replaysCompleted c),
      st_stopReason = stop_reason_of (si_stopDetail i), st_stopDetail = si_stopDetail i\<rparr>)"

record fingerprints =
  fp_exact :: string
  fp_operational :: string

record manifest_input =
  mi_runId :: string
  mi_crawlerVersion :: string
  mi_startedAt :: string
  mi_finishedAt :: "string option"
  mi_status :: run_status
  mi_stopDetail :: "stop_detail option"
  mi_seeds :: "resolved_seed list"
  mi_outputDirectory :: "string option"
  mi_rawSnapshotsEnabled :: bool
  mi_resumedFrom :: "string option"
  mi_fatalError :: "crawl_error option"
  mi_stats :: crawl_stats
  mi_fingerprints :: fingerprints
  mi_runtime :: run_metadata
  mi_sensitive :: bool
  mi_htmlParserVersion :: "string option"
  mi_xmlParserVersion :: "string option"

definition createRunManifest :: "manifest_input \<Rightarrow> run_manifest" where
  "createRunManifest i =
     \<lparr>mf_runId = mi_runId i, mf_crawlerVersion = mi_crawlerVersion i,
      mf_htmlParserVersion = mi_htmlParserVersion i, mf_xmlParserVersion = mi_xmlParserVersion i,
      mf_configFingerprint = fp_exact (mi_fingerprints i),
      mf_operationalConfigFingerprint = fp_operational (mi_fingerprints i),
      mf_startedAt = mi_startedAt i, mf_finishedAt = mi_finishedAt i, mf_status = mi_status i,
      mf_stopReason = stop_reason_of (mi_stopDetail i), mf_stopDetail = mi_stopDetail i,
      mf_seeds = mi_seeds i, mf_outputDirectory = mi_outputDirectory i,
      mf_rawSnapshotsEnabled = mi_rawSnapshotsEnabled i, mf_sensitive = mi_sensitive i,
      mf_runtime = mi_runtime i, mf_resumedFrom = mi_resumedFrom i, mf_fatalError = mi_fatalError i,
      mf_stats = mi_stats i\<rparr>"

definition statusForRun :: "stop_reason option \<Rightarrow> crawl_error option \<Rightarrow> nat \<Rightarrow> nat \<Rightarrow> run_status" where
  "statusForRun reason fatal requestsFailed requestsFetched =
     (if fatal \<noteq> None \<or> reason = Some RFatalError then RunFailed
      else if reason = Some RAborted then RunAborted
      else if reason = Some RLimitReached then RunStoppedByLimit
      else if requestsFailed = 0 then RunCompleted
      else if requestsFetched = 0 then RunFailed else RunPartial)"

text \<open>
  \<open>RunFinalizer\<close>: what it takes from the configuration, the store and the environment. Its \<open>manifest\<close> and
  \<open>result\<close> read the controller, \<open>rendered\<close> is \<open>renderedPageCount()\<close> and \<open>evidence\<close> is \<open>evidenceStats()\<close>.
\<close>

record finalizer =
  fz_runId :: string
  fz_startedAt :: string
  fz_crawlerVersion :: string
  fz_seeds :: "resolved_seed list"
  fz_outputDirectory :: "string option"
  fz_storeRaw :: bool
  fz_resumeFrom :: "string option"
  fz_fingerprints :: fingerprints
  fz_runtime :: run_metadata
  fz_sensitive :: bool
  fz_htmlParserVersion :: "string option"
  fz_xmlParserVersion :: "string option"

definition finalizer_manifest ::
  "string \<Rightarrow> number \<Rightarrow> nat \<Rightarrow> evidence_stats \<Rightarrow> finalizer \<Rightarrow> run_controller \<Rightarrow> run_status \<Rightarrow> string option
     \<Rightarrow> crawl_error option \<Rightarrow> run_manifest"
where
  "finalizer_manifest now now_ms rendered evidence fz rc status finishedAt fatal =
     (let stats = createCrawlStats now now_ms
            \<lparr>si_runId = fz_runId fz, si_startedAt = fz_startedAt fz, si_startedMs = rc_startedMs rc,
             si_seeds = length (fz_seeds fz), si_counters = rc_counters rc, si_renderedPages = rendered,
             si_stopDetail = rc_stop rc, si_evidence = evidence\<rparr>
      in createRunManifest
           \<lparr>mi_runId = fz_runId fz, mi_crawlerVersion = fz_crawlerVersion fz, mi_startedAt = fz_startedAt fz,
            mi_finishedAt = finishedAt, mi_status = status, mi_stopDetail = rc_stop rc, mi_seeds = fz_seeds fz,
            mi_outputDirectory = fz_outputDirectory fz, mi_rawSnapshotsEnabled = fz_storeRaw fz,
            mi_resumedFrom = fz_resumeFrom fz, mi_fatalError = fatal, mi_stats = stats,
            mi_fingerprints = fz_fingerprints fz, mi_runtime = fz_runtime fz, mi_sensitive = fz_sensitive fz,
            mi_htmlParserVersion = fz_htmlParserVersion fz, mi_xmlParserVersion = fz_xmlParserVersion fz\<rparr>)"

definition finalizer_result ::
  "string \<Rightarrow> number \<Rightarrow> nat \<Rightarrow> evidence_stats \<Rightarrow> finalizer \<Rightarrow> run_controller \<Rightarrow> crawl_error option \<Rightarrow> crawl_result"
where
  "finalizer_result now now_ms rendered evidence fz rc fatal =
     (let status = statusForRun (Some (stopReason rc)) fatal (cc_requestsFailed (rc_counters rc))
            (cc_requestsFetched (rc_counters rc));
          manifest = finalizer_manifest now now_ms rendered evidence fz rc status (Some now) fatal
      in \<lparr>cr_runId = fz_runId fz, cr_status = status, cr_stopReason = mf_stopReason manifest,
          cr_stopDetail = mf_stopDetail manifest, cr_outputDirectory = fz_outputDirectory fz,
          cr_manifestPath = map_option (\<lambda>d. d @ ''/manifest.json'') (fz_outputDirectory fz),
          cr_stats = mf_stats manifest, cr_fatalError = fatal\<rparr>)"

text \<open>The manifest that \<open>persistMetadata\<close> writes for a result.\<close>

definition persisted_manifest ::
  "string \<Rightarrow> number \<Rightarrow> nat \<Rightarrow> evidence_stats \<Rightarrow> finalizer \<Rightarrow> run_controller \<Rightarrow> crawl_result \<Rightarrow> run_manifest"
where
  "persisted_manifest now now_ms rendered evidence fz rc result =
     finalizer_manifest now now_ms rendered evidence fz rc (cr_status result) (st_finishedAt (cr_stats result))
       (cr_fatalError result)"

section \<open>JSON\<close>

definition crawl_error_json :: "(timestamp \<Rightarrow> string) \<Rightarrow> crawl_error \<Rightarrow> json" where
  "crawl_error_json iso_of e = JObj (schema_identity ''site-crawler.error'' @
     [(''code'', JStr (error_code_name (ce_code e))), (''message'', JStr (ce_message e)),
      (''url'', opt_str (ce_url e)), (''requestId'', opt_str (ce_requestId e)),
      (''retryable'', JBool (ce_retryable e)), (''fatal'', JBool (ce_fatal e)),
      (''attempt'', case ce_attempt e of None \<Rightarrow> JNull | Some n \<Rightarrow> JNum (of_nat n)),
      (''causeName'', opt_str (ce_causeName e)), (''causeMessage'', opt_str (ce_causeMessage e)),
      (''createdAt'', JStr (iso_of (ce_createdAt e)))])"

fun stop_detail_json :: "(timestamp \<Rightarrow> string) \<Rightarrow> stop_detail \<Rightarrow> json" where
  "stop_detail_json iso_of FrontierEmpty = JObj [(''kind'', JStr ''frontier-empty'')]"
| "stop_detail_json iso_of (StopLimit l) = JObj [(''kind'', JStr ''limit''), (''limit'', JStr (limit_name l))]"
| "stop_detail_json iso_of (StopCancelled r) = JObj [(''kind'', JStr ''cancelled''), (''reason'', JStr r)]"
| "stop_detail_json iso_of (StopFatal e) = JObj [(''kind'', JStr ''fatal''), (''error'', crawl_error_json iso_of e)]"

definition nullable :: "('a \<Rightarrow> json) \<Rightarrow> 'a option \<Rightarrow> json" where
  "nullable f v = (case v of None \<Rightarrow> JNull | Some a \<Rightarrow> f a)"

definition stats_fields :: "(timestamp \<Rightarrow> string) \<Rightarrow> crawl_stats \<Rightarrow> (string \<times> json) list" where
  "stats_fields iso_of s =
     [(''schemaId'', JStr ''site-crawler.stats''), (''schemaVersion'', JNum 1),
      (''runId'', JStr (st_runId s)), (''startedAt'', JStr (st_startedAt s)),
      (''finishedAt'', opt_str (st_finishedAt s)), (''durationMs'', JNum (st_durationMs s)),
      (''seeds'', JNum (st_seeds s)), (''requestsScheduled'', JNum (st_requestsScheduled s)),
      (''requestsAttempted'', JNum (st_requestsAttempted s)),
      (''requestsFetched'', JNum (st_requestsFetched s)),
      (''requestsTransportFailed'', JNum (st_requestsTransportFailed s)),
      (''requestsPolicySkipped'', JNum (st_requestsPolicySkipped s)),
      (''requestsCancelled'', JNum (st_requestsCancelled s)),
      (''requestsFailed'', JNum (st_requestsFailed s)), (''urlsSkipped'', JNum (st_urlsSkipped s)),
      (''retries'', JNum (st_retries s)), (''resourcesRecorded'', JNum (st_resourcesRecorded s)),
      (''htmlPagesParsed'', JNum (st_htmlPagesParsed s)),
      (''xmlResourcesParsed'', JNum (st_xmlResourcesParsed s)),
      (''sitemapsFetched'', JNum (st_sitemapsFetched s)),
      (''sitemapEntriesDiscovered'', JNum (st_sitemapEntriesDiscovered s)),
      (''sitemapFilesDiscovered'', JNum (st_sitemapFilesDiscovered s)),
      (''feedsFetched'', JNum (st_feedsFetched s)),
      (''feedEntriesDiscovered'', JNum (st_feedEntriesDiscovered s)),
      (''linksExtracted'', JNum (st_linksExtracted s)),
      (''internalLinksExtracted'', JNum (st_internalLinksExtracted s)),
      (''externalLinksExtracted'', JNum (st_externalLinksExtracted s)),
      (''javascriptResourcesParsed'', JNum (st_javascriptResourcesParsed s)),
      (''javascriptLinksExtracted'', JNum (st_javascriptLinksExtracted s)),
      (''cssStylesheetsParsed'', JNum (st_cssStylesheetsParsed s)),
      (''cssLinksExtracted'', JNum (st_cssLinksExtracted s)),
      (''renderedPages'', JNum (st_renderedPages s)),
      (''redirectsFollowed'', JNum (st_redirectsFollowed s)),
      (''redirectsBlocked'', JNum (st_redirectsBlocked s)),
      (''robotsFilesFetched'', JNum (st_robotsFilesFetched s)),
      (''robotsDisallowedUrls'', JNum (st_robotsDisallowedUrls s)),
      (''scopeRejectedUrls'', JNum (st_scopeRejectedUrls s)),
      (''networkSafetyRejectedUrls'', JNum (st_networkSafetyRejectedUrls s)),
      (''parserErrors'', JNum (st_parserErrors s)), (''decodeErrors'', JNum (st_decodeErrors s)),
      (''bytesDownloaded'', JNum (st_bytesDownloaded s)), (''responseCount'', JNum (st_responseCount s)),
      (''responseTimeMsTotal'', JNum (st_responseTimeMsTotal s)),
      (''averageResponseTimeMs'', JNum (st_averageResponseTimeMs s)),
      (''peakConcurrency'', JNum (st_peakConcurrency s)), (''peakQueueSize'', JNum (st_peakQueueSize s)),
      (''resumedRequests'', JNum (st_resumedRequests s)),
      (''recoveredLeases'', JNum (st_recoveredLeases s)), (''renewedLeases'', JNum (st_renewedLeases s)),
      (''releasedLeases'', JNum (st_releasedLeases s)),
      (''storageBackpressureEvents'', JNum (st_storageBackpressureEvents s)),
      (''droppedEvents'', JNum (st_droppedEvents s)),
      (''evidenceObjectsWritten'', JNum (st_evidenceObjectsWritten s)),
      (''evidenceBytesWritten'', JNum (st_evidenceBytesWritten s)),
      (''changesRecorded'', JNum (st_changesRecorded s)),
      (''workerHeartbeats'', JNum (st_workerHeartbeats s)),
      (''replaysCompleted'', JNum (st_replaysCompleted s)),
      (''stopReason'', nullable (\<lambda>r. JStr (stop_reason_name r)) (st_stopReason s)),
      (''stopDetail'', nullable (stop_detail_json iso_of) (st_stopDetail s))]"

definition stats_json :: "(timestamp \<Rightarrow> string) \<Rightarrow> crawl_stats \<Rightarrow> json" where
  "stats_json iso_of s = JObj (stats_fields iso_of s)"

definition scope_json :: "scope_config \<Rightarrow> json" where
  "scope_json s = JObj
     [(''mode'', JStr (scope_mode_name (sc_mode s))),
      (''include'', JArr (map JStr (sc_include s))), (''exclude'', JArr (map JStr (sc_exclude s))),
      (''allowedHosts'', JArr (map JStr (sc_allowedHosts s))), (''deniedHosts'', JArr (map JStr (sc_deniedHosts s))),
      (''maxUrlLength'', JNum (of_nat (sc_maxUrlLength s))), (''maxPathSegments'', JNum (of_nat (sc_maxPathSegments s))),
      (''maxQueryParams'', JNum (of_nat (sc_maxQueryParams s))),
      (''maxUrlsPerDirectory'', JNum (of_nat (sc_maxUrlsPerDirectory s))),
      (''maxUrlsPerPathPattern'', JNum (of_nat (sc_maxUrlsPerPathPattern s)))]"

definition seed_json :: "resolved_seed \<Rightarrow> json" where
  "seed_json s = JObj
     [(''url'', JStr (sd_url s)), (''normalizedUrl'', JStr (sd_normalizedUrl s)), (''scope'', scope_json (sd_scope s)),
      (''maxDepth'', nullable JNum (sd_maxDepth s)),
      (''maxScheduledRequests'', nullable (\<lambda>n. JNum (of_nat n)) (sd_maxScheduledRequests s)),
      (''label'', opt_str (sd_label s))]"

definition metadata_json :: "run_metadata \<Rightarrow> json" where
  "metadata_json m = JObj
     [(''resultStorage'', JStr (result_storage_name (rm_resultStorage m))),
      (''frontierBackend'', JStr (frontier_storage_name (rm_frontierBackend m))),
      (''frontierOrder'', JStr (frontier_order_name (rm_frontierOrder m))),
      (''httpProtocolPreference'', JStr (protocol_name (rm_httpProtocolPreference m))),
      (''httpCacheEnabled'', JBool (rm_httpCacheEnabled m)), (''sessionEnabled'', JBool (rm_sessionEnabled m)),
      (''persistedCookies'', JBool (rm_persistedCookies m)),
      (''renderer'', nullable (\<lambda>r. JObj [(''name'', JStr (rn_name r)), (''version'', opt_str (rn_version r))]) (rm_renderer m))]"

definition DELIVERY_GUARANTEES :: json where
  "DELIVERY_GUARANTEES = JObj
     [(''networkFetch'', JStr ''at-least-once''), (''requestIdentity'', JStr ''idempotent''),
      (''discoveryRecording'', JStr ''idempotent''), (''terminalState'', JStr ''idempotent''),
      (''evidenceObjects'', JStr ''content-addressed''), (''activeLeaseOwnership'', JStr ''single-owner'')]"

definition manifest_fields :: "(timestamp \<Rightarrow> string) \<Rightarrow> run_manifest \<Rightarrow> (string \<times> json) list" where
  "manifest_fields iso_of m =
     [(''schemaId'', JStr ''site-crawler.runManifest''), (''schemaVersion'', JNum 1),
      (''runId'', JStr (mf_runId m)), (''crawlerVersion'', JStr (mf_crawlerVersion m)),
      (''htmlParserVersion'', opt_str (mf_htmlParserVersion m)), (''xmlParserVersion'', opt_str (mf_xmlParserVersion m)),
      (''configFingerprint'', JStr (mf_configFingerprint m)),
      (''operationalConfigFingerprint'', JStr (mf_operationalConfigFingerprint m)),
      (''startedAt'', JStr (mf_startedAt m)), (''finishedAt'', opt_str (mf_finishedAt m)),
      (''status'', JStr (run_status_name (mf_status m))),
      (''stopReason'', nullable (\<lambda>r. JStr (stop_reason_name r)) (mf_stopReason m)),
      (''stopDetail'', nullable (stop_detail_json iso_of) (mf_stopDetail m)),
      (''seeds'', JArr (map seed_json (mf_seeds m))), (''outputDirectory'', opt_str (mf_outputDirectory m)),
      (''rawSnapshotsEnabled'', JBool (mf_rawSnapshotsEnabled m)), (''sensitive'', JBool (mf_sensitive m)),
      (''runtime'', metadata_json (mf_runtime m)), (''deliveryGuarantees'', DELIVERY_GUARANTEES),
      (''resumedFrom'', opt_str (mf_resumedFrom m)),
      (''fatalError'', nullable (crawl_error_json iso_of) (mf_fatalError m)),
      (''stats'', stats_json iso_of (mf_stats m))]"

definition manifest_json :: "(timestamp \<Rightarrow> string) \<Rightarrow> run_manifest \<Rightarrow> json" where
  "manifest_json iso_of m = JObj (manifest_fields iso_of m)"

section \<open>Fingerprints of a configuration\<close>

text \<open>
  A resolved configuration is a JSON object; \<open>{...base, key: value, ...}\<close> is \<open>spread\<close>. \<open>json_text\<close> is
  \<open>JSON.stringify\<close>, and \<open>canon\<close> is \<open>canonicalize\<close>.
\<close>

fun fields_of :: "json option \<Rightarrow> (string \<times> json) list" where
  "fields_of (Some (JObj fs)) = fs"
| "fields_of v = []"

definition spread :: "(string \<times> json) list \<Rightarrow> (string \<times> json) list \<Rightarrow> (string \<times> json) list" where
  "spread base changes = foldl (\<lambda>fs (k, v). map_set k v fs) base changes"

definition section_with :: "(string \<times> json) list \<Rightarrow> string \<Rightarrow> (string \<times> json) list \<Rightarrow> string \<times> json" where
  "section_with config name changes = (name, JObj (spread (fields_of (field config name)) changes))"

definition operational_changes :: "(string \<times> (string \<times> json) list) list" where
  "operational_changes =
     [(''network'',
        [(''maxConcurrency'', JNum 0), (''maxConcurrencyPerOrigin'', JNum 0), (''minDelayMsPerOrigin'', JNum 0),
         (''maxRequestsPerMinutePerOrigin'', JNull),
         (''autoThrottle'', JObj [(''enabled'', JBool False), (''targetConcurrencyPerOrigin'', JNum 0),
            (''startDelayMs'', JNum 0), (''minDelayMs'', JNum 0), (''maxDelayMs'', JNum 0), (''smoothing'', JNum 0)])]),
      (''session'', [(''persistCookies'', JBool False), (''cookieFile'', JNull)]),
      (''httpCache'', [(''directory'', JStr [])]),
      (''responseLimits'', [(''memoryThresholdBytes'', JNum 0), (''spoolDirectory'', JNull)]),
      (''storage'',
        [(''directory'', JStr []), (''resumeFrom'', JNull), (''resumePolicy'', JStr ''operational''),
         (''leaseDurationMs'', JNum 0), (''leaseRenewalIntervalMs'', JNum 0), (''lockHeartbeatMs'', JNum 0),
         (''staleLockMs'', JNum 0), (''storeRawHtml'', JBool False), (''storeRawXml'', JBool False),
         (''writeNdjsonExports'', JBool False), (''writeBufferSize'', JNum 0), (''fsync'', JBool False)]),
      (''output'', [(''writeSkippedUrls'', JBool False), (''writeSummary'', JBool False)])]"

definition operationalProjection :: "(string \<times> json) list \<Rightarrow> (string \<times> json) list" where
  "operationalProjection config =
     spread config (map (\<lambda>(name, changes). section_with config name changes) operational_changes)"

definition stableStringify :: "(json \<Rightarrow> string) \<Rightarrow> json \<Rightarrow> string" where
  "stableStringify json_text v = json_text (canon v)"

definition createConfigFingerprints :: "(string \<Rightarrow> string) \<Rightarrow> (json \<Rightarrow> string) \<Rightarrow> (string \<times> json) list \<Rightarrow> fingerprints" where
  "createConfigFingerprints sha json_text config =
     \<lparr>fp_exact = sha (stableStringify json_text (JObj config)),
      fp_operational = sha (stableStringify json_text (JObj (operationalProjection config)))\<rparr>"

end
