(* ===== verification/Resume.thy ===== *)
theory Resume
  imports Run_Records
begin

text \<open>
  Resuming a run: the manifest that a run wrote is parsed (\<open>crawler/resume-schema.ts\<close>,
  \<open>crawler/resume-stats.ts\<close>, \<open>crawler/resume-seeds.ts\<close>, \<open>diagnostics/parse.ts\<close>), the fingerprints are
  compared and the counters restored (\<open>crawler/resume.ts\<close>). Where the model keeps a natural number
  (counters, limits of a scope), a number of the manifest is read by \<open>natural_of\<close>; crawlers write only
  natural numbers there.
\<close>

definition natural_of :: "number \<Rightarrow> nat" where
  "natural_of n = nat \<lfloor>n\<rfloor>"

lemma natural_of_nat [simp]: "natural_of (of_nat n) = n"
  by (simp add: natural_of_def)

definition booleanField :: "(string \<times> json) list \<Rightarrow> string \<Rightarrow> bool parsed" where
  "booleanField fs k = (case field fs k of Some (JBool b) \<Rightarrow> Inr b | _ \<Rightarrow> Inl (BadField k))"

definition nullableNumber :: "(string \<times> json) list \<Rightarrow> string \<Rightarrow> number option parsed" where
  "nullableNumber fs k =
     (case field fs k of Some JNull \<Rightarrow> Inr None | Some (JNum n) \<Rightarrow> Inr (Some n) | _ \<Rightarrow> Inl (BadField k))"

section \<open>Errors\<close>

definition parsed_codes :: "crawl_error_code list" where
  "parsed_codes =
     [E_CONFIG_ERROR, E_URL_PARSE_ERROR, E_UNSUPPORTED_PROTOCOL, E_SCOPE_REJECTED, E_ROBOTS_DISALLOWED,
      E_ROBOTS_FETCH_FAILED, E_ROBOTS_PARSE_ERROR, E_NETWORK_SAFETY_REJECTED, E_DNS_ERROR, E_TLS_ERROR,
      E_FETCH_TIMEOUT, E_FETCH_ABORTED, E_FETCH_NETWORK_ERROR, E_FETCH_DECOMPRESSION_ERROR,
      E_UNSUPPORTED_CONTENT_ENCODING, E_HTTP_ERROR, E_TOO_MANY_REDIRECTS, E_REDIRECT_LOOP,
      E_REDIRECT_TARGET_REJECTED, E_RESPONSE_TOO_LARGE, E_DECOMPRESSED_RESPONSE_TOO_LARGE,
      E_UNSUPPORTED_CONTENT_TYPE, E_DECODE_ERROR, E_HTML_PARSE_ERROR, E_HTML_BUDGET_EXCEEDED,
      E_XML_PARSE_ERROR, E_XML_BUDGET_EXCEEDED, E_SITEMAP_FETCH_FAILED, E_SITEMAP_PARSE_ERROR,
      E_FEED_PARSE_ERROR, E_RENDER_TIMEOUT, E_RENDER_ERROR, E_STORAGE_WRITE_ERROR,
      E_FRONTIER_JOURNAL_ERROR, E_SNAPSHOT_WRITE_ERROR, E_EXTENSION_ERROR, E_RESUME_ERROR, E_INTERNAL_ERROR]"

definition parseCode :: "json option \<Rightarrow> crawl_error_code parsed" where
  "parseCode v = parse_name error_code_name parsed_codes ''code'' v"

definition parseCrawlError :: "(string \<Rightarrow> timestamp) \<Rightarrow> json option \<Rightarrow> crawl_error option parsed" where
  "parseCrawlError date v =
     (if v = Some JNull then Inr None
      else
     bind_result (record_of v ''crawl error'') (\<lambda>input.
     bind_result (assertCurrentSchema input ''site-crawler.error'' ''Crawl error'') (\<lambda>_.
     bind_result (parseCode (field input ''code'')) (\<lambda>code.
     bind_result (stringField input ''message'') (\<lambda>message.
     bind_result (nullableStringField input ''url'') (\<lambda>url.
     bind_result (nullableStringField input ''requestId'') (\<lambda>requestId.
     bind_result (booleanField input ''retryable'') (\<lambda>retryable.
     bind_result (booleanField input ''fatal'') (\<lambda>fatal.
     bind_result (nullableNumber input ''attempt'') (\<lambda>attempt.
     bind_result (nullableStringField input ''causeName'') (\<lambda>causeName.
     bind_result (nullableStringField input ''causeMessage'') (\<lambda>causeMessage.
     bind_result (stringField input ''createdAt'') (\<lambda>createdAt.
       Inr (Some \<lparr>ce_code = code, ce_message = message, ce_url = url, ce_requestId = requestId,
         ce_retryable = retryable, ce_fatal = fatal, ce_attempt = map_option natural_of attempt,
         ce_causeName = causeName, ce_causeMessage = causeMessage, ce_createdAt = date createdAt\<rparr>))))))))))))))"

section \<open>Statistics\<close>

definition all_stop_reasons :: "stop_reason list" where
  "all_stop_reasons = [RFrontierEmpty, RLimitReached, RAborted, RFatalError]"

definition parseStopReason :: "json option \<Rightarrow> stop_reason option parsed" where
  "parseStopReason v =
     (if v = Some JNull then Inr None
      else bind_result (parse_name stop_reason_name all_stop_reasons ''stop reason'' v) (\<lambda>r. Inr (Some r)))"

definition parsed_limits :: "limit_reason list" where
  "parsed_limits = [LimScheduledRequests, LimFetchedResources, LimRunTime, LimDownloadedBytes, LimQueueSize,
     LimSitemapFiles, LimSitemapEntries, LimRenderedPages]"

definition parseLimit :: "json option \<Rightarrow> limit_reason parsed" where
  "parseLimit v = parse_name limit_name parsed_limits ''limit reason'' v"

definition parseStopDetail :: "json option \<Rightarrow> stop_detail option parsed" where
  "parseStopDetail v =
     (if v = Some JNull then Inr None
      else
     bind_result (record_of v ''stop detail'') (\<lambda>input.
       if field input ''kind'' = Some (JStr ''frontier-empty'') then Inr (Some FrontierEmpty)
       else if field input ''kind'' = Some (JStr ''cancelled'') then
         bind_result (stringField input ''reason'') (\<lambda>reason. Inr (Some (StopCancelled reason)))
       else if field input ''kind'' = Some (JStr ''limit'') then
         bind_result (parseLimit (field input ''limit'')) (\<lambda>limit. Inr (Some (StopLimit limit)))
       else Inl (MalformedValue ''stop detail'')))"

definition stats_keys :: "string list" where
  "stats_keys =
     [''schemaId'', ''schemaVersion'', ''runId'', ''startedAt'', ''finishedAt'', ''durationMs'', ''seeds'',
      ''requestsScheduled'', ''requestsAttempted'', ''requestsFetched'', ''requestsTransportFailed'',
      ''requestsPolicySkipped'', ''requestsCancelled'', ''requestsFailed'', ''urlsSkipped'', ''retries'',
      ''resourcesRecorded'', ''htmlPagesParsed'', ''xmlResourcesParsed'', ''sitemapsFetched'',
      ''sitemapEntriesDiscovered'', ''sitemapFilesDiscovered'', ''feedsFetched'',
      ''feedEntriesDiscovered'', ''linksExtracted'', ''internalLinksExtracted'',
      ''externalLinksExtracted'', ''javascriptResourcesParsed'', ''javascriptLinksExtracted'',
      ''cssStylesheetsParsed'', ''cssLinksExtracted'', ''renderedPages'', ''redirectsFollowed'',
      ''redirectsBlocked'', ''robotsFilesFetched'', ''robotsDisallowedUrls'', ''scopeRejectedUrls'',
      ''networkSafetyRejectedUrls'', ''parserErrors'', ''decodeErrors'', ''bytesDownloaded'',
      ''responseCount'', ''responseTimeMsTotal'', ''averageResponseTimeMs'', ''peakConcurrency'',
      ''peakQueueSize'', ''resumedRequests'', ''recoveredLeases'', ''renewedLeases'', ''releasedLeases'',
      ''storageBackpressureEvents'', ''droppedEvents'', ''evidenceObjectsWritten'',
      ''evidenceBytesWritten'', ''changesRecorded'', ''workerHeartbeats'', ''replaysCompleted'',
      ''stopReason'', ''stopDetail'']"

definition parseStats :: "json option \<Rightarrow> crawl_stats parsed" where
  "parseStats v =
     bind_result (exactRecord v ''crawl stats'' stats_keys) (\<lambda>input.
     bind_result (assertCurrentSchema input ''site-crawler.stats'' ''Resume statistics'') (\<lambda>_.
     bind_result (stringField input ''runId'') (\<lambda>runId'.
     bind_result (stringField input ''startedAt'') (\<lambda>startedAt'.
     bind_result (nullableStringField input ''finishedAt'') (\<lambda>finishedAt'.
     bind_result (numberField input ''durationMs'') (\<lambda>durationMs'.
     bind_result (numberField input ''seeds'') (\<lambda>seeds'.
     bind_result (numberField input ''requestsScheduled'') (\<lambda>requestsScheduled'.
     bind_result (numberField input ''requestsAttempted'') (\<lambda>requestsAttempted'.
     bind_result (numberField input ''requestsFetched'') (\<lambda>requestsFetched'.
     bind_result (numberField input ''requestsTransportFailed'') (\<lambda>requestsTransportFailed'.
     bind_result (numberField input ''requestsPolicySkipped'') (\<lambda>requestsPolicySkipped'.
     bind_result (numberField input ''requestsCancelled'') (\<lambda>requestsCancelled'.
     bind_result (numberField input ''requestsFailed'') (\<lambda>requestsFailed'.
     bind_result (numberField input ''urlsSkipped'') (\<lambda>urlsSkipped'.
     bind_result (numberField input ''retries'') (\<lambda>retries'.
     bind_result (numberField input ''resourcesRecorded'') (\<lambda>resourcesRecorded'.
     bind_result (numberField input ''htmlPagesParsed'') (\<lambda>htmlPagesParsed'.
     bind_result (numberField input ''xmlResourcesParsed'') (\<lambda>xmlResourcesParsed'.
     bind_result (numberField input ''sitemapsFetched'') (\<lambda>sitemapsFetched'.
     bind_result (numberField input ''sitemapEntriesDiscovered'') (\<lambda>sitemapEntriesDiscovered'.
     bind_result (numberField input ''sitemapFilesDiscovered'') (\<lambda>sitemapFilesDiscovered'.
     bind_result (numberField input ''feedsFetched'') (\<lambda>feedsFetched'.
     bind_result (numberField input ''feedEntriesDiscovered'') (\<lambda>feedEntriesDiscovered'.
     bind_result (numberField input ''linksExtracted'') (\<lambda>linksExtracted'.
     bind_result (numberField input ''internalLinksExtracted'') (\<lambda>internalLinksExtracted'.
     bind_result (numberField input ''externalLinksExtracted'') (\<lambda>externalLinksExtracted'.
     bind_result (numberField input ''javascriptResourcesParsed'') (\<lambda>javascriptResourcesParsed'.
     bind_result (numberField input ''javascriptLinksExtracted'') (\<lambda>javascriptLinksExtracted'.
     bind_result (numberField input ''cssStylesheetsParsed'') (\<lambda>cssStylesheetsParsed'.
     bind_result (numberField input ''cssLinksExtracted'') (\<lambda>cssLinksExtracted'.
     bind_result (numberField input ''renderedPages'') (\<lambda>renderedPages'.
     bind_result (numberField input ''redirectsFollowed'') (\<lambda>redirectsFollowed'.
     bind_result (numberField input ''redirectsBlocked'') (\<lambda>redirectsBlocked'.
     bind_result (numberField input ''robotsFilesFetched'') (\<lambda>robotsFilesFetched'.
     bind_result (numberField input ''robotsDisallowedUrls'') (\<lambda>robotsDisallowedUrls'.
     bind_result (numberField input ''scopeRejectedUrls'') (\<lambda>scopeRejectedUrls'.
     bind_result (numberField input ''networkSafetyRejectedUrls'') (\<lambda>networkSafetyRejectedUrls'.
     bind_result (numberField input ''parserErrors'') (\<lambda>parserErrors'.
     bind_result (numberField input ''decodeErrors'') (\<lambda>decodeErrors'.
     bind_result (numberField input ''bytesDownloaded'') (\<lambda>bytesDownloaded'.
     bind_result (numberField input ''responseCount'') (\<lambda>responseCount'.
     bind_result (numberField input ''responseTimeMsTotal'') (\<lambda>responseTimeMsTotal'.
     bind_result (numberField input ''averageResponseTimeMs'') (\<lambda>averageResponseTimeMs'.
     bind_result (numberField input ''peakConcurrency'') (\<lambda>peakConcurrency'.
     bind_result (numberField input ''peakQueueSize'') (\<lambda>peakQueueSize'.
     bind_result (numberField input ''resumedRequests'') (\<lambda>resumedRequests'.
     bind_result (numberField input ''recoveredLeases'') (\<lambda>recoveredLeases'.
     bind_result (numberField input ''renewedLeases'') (\<lambda>renewedLeases'.
     bind_result (numberField input ''releasedLeases'') (\<lambda>releasedLeases'.
     bind_result (numberField input ''storageBackpressureEvents'') (\<lambda>storageBackpressureEvents'.
     bind_result (numberField input ''droppedEvents'') (\<lambda>droppedEvents'.
     bind_result (numberField input ''evidenceObjectsWritten'') (\<lambda>evidenceObjectsWritten'.
     bind_result (numberField input ''evidenceBytesWritten'') (\<lambda>evidenceBytesWritten'.
     bind_result (numberField input ''changesRecorded'') (\<lambda>changesRecorded'.
     bind_result (numberField input ''workerHeartbeats'') (\<lambda>workerHeartbeats'.
     bind_result (numberField input ''replaysCompleted'') (\<lambda>replaysCompleted'.
     bind_result (parseStopReason (field input ''stopReason'')) (\<lambda>stopReason'.
     bind_result (parseStopDetail (field input ''stopDetail'')) (\<lambda>stopDetail'.
       Inr \<lparr>st_runId = runId', st_startedAt = startedAt', st_finishedAt = finishedAt',
         st_durationMs = durationMs', st_seeds = seeds', st_requestsScheduled = requestsScheduled',
         st_requestsAttempted = requestsAttempted', st_requestsFetched = requestsFetched',
         st_requestsTransportFailed = requestsTransportFailed',
         st_requestsPolicySkipped = requestsPolicySkipped', st_requestsCancelled = requestsCancelled',
         st_requestsFailed = requestsFailed', st_urlsSkipped = urlsSkipped', st_retries = retries',
         st_resourcesRecorded = resourcesRecorded', st_htmlPagesParsed = htmlPagesParsed',
         st_xmlResourcesParsed = xmlResourcesParsed', st_sitemapsFetched = sitemapsFetched',
         st_sitemapEntriesDiscovered = sitemapEntriesDiscovered',
         st_sitemapFilesDiscovered = sitemapFilesDiscovered', st_feedsFetched = feedsFetched',
         st_feedEntriesDiscovered = feedEntriesDiscovered', st_linksExtracted = linksExtracted',
         st_internalLinksExtracted = internalLinksExtracted',
         st_externalLinksExtracted = externalLinksExtracted',
         st_javascriptResourcesParsed = javascriptResourcesParsed',
         st_javascriptLinksExtracted = javascriptLinksExtracted',
         st_cssStylesheetsParsed = cssStylesheetsParsed', st_cssLinksExtracted = cssLinksExtracted',
         st_renderedPages = renderedPages', st_redirectsFollowed = redirectsFollowed',
         st_redirectsBlocked = redirectsBlocked', st_robotsFilesFetched = robotsFilesFetched',
         st_robotsDisallowedUrls = robotsDisallowedUrls', st_scopeRejectedUrls = scopeRejectedUrls',
         st_networkSafetyRejectedUrls = networkSafetyRejectedUrls', st_parserErrors = parserErrors',
         st_decodeErrors = decodeErrors', st_bytesDownloaded = bytesDownloaded',
         st_responseCount = responseCount', st_responseTimeMsTotal = responseTimeMsTotal',
         st_averageResponseTimeMs = averageResponseTimeMs', st_peakConcurrency = peakConcurrency',
         st_peakQueueSize = peakQueueSize', st_resumedRequests = resumedRequests',
         st_recoveredLeases = recoveredLeases', st_renewedLeases = renewedLeases',
         st_releasedLeases = releasedLeases', st_storageBackpressureEvents = storageBackpressureEvents',
         st_droppedEvents = droppedEvents', st_evidenceObjectsWritten = evidenceObjectsWritten',
         st_evidenceBytesWritten = evidenceBytesWritten', st_changesRecorded = changesRecorded',
         st_workerHeartbeats = workerHeartbeats', st_replaysCompleted = replaysCompleted',
         st_stopReason = stopReason', st_stopDetail = stopDetail'\<rparr>)))))))))))))))))))))))))))))))))))))))))))))))))))))))))))"

section \<open>Seeds\<close>

definition all_scope_modes :: "scope_mode list" where
  "all_scope_modes = [ScopeOrigin, ScopeHost, ScopeDomain, ScopeCustom]"

definition parseScopeMode :: "json option \<Rightarrow> scope_mode parsed" where
  "parseScopeMode v = parse_name scope_mode_name all_scope_modes ''scope mode'' v"

definition parseScope :: "json option \<Rightarrow> scope_config parsed" where
  "parseScope v =
     bind_result (record_of v ''seed scope'') (\<lambda>scope.
     bind_result (parseScopeMode (field scope ''mode'')) (\<lambda>mode.
     bind_result (parseStringArray (field scope ''include'') ''scope.include'') (\<lambda>include.
     bind_result (parseStringArray (field scope ''exclude'') ''scope.exclude'') (\<lambda>exclude.
     bind_result (parseStringArray (field scope ''allowedHosts'') ''scope.allowedHosts'') (\<lambda>allowedHosts.
     bind_result (parseStringArray (field scope ''deniedHosts'') ''scope.deniedHosts'') (\<lambda>deniedHosts.
     bind_result (numberField scope ''maxUrlLength'') (\<lambda>maxUrlLength.
     bind_result (numberField scope ''maxPathSegments'') (\<lambda>maxPathSegments.
     bind_result (numberField scope ''maxQueryParams'') (\<lambda>maxQueryParams.
     bind_result (numberField scope ''maxUrlsPerDirectory'') (\<lambda>maxUrlsPerDirectory.
     bind_result (numberField scope ''maxUrlsPerPathPattern'') (\<lambda>maxUrlsPerPathPattern.
       Inr \<lparr>sc_mode = mode, sc_include = include, sc_exclude = exclude, sc_allowedHosts = allowedHosts,
            sc_deniedHosts = deniedHosts, sc_maxUrlLength = natural_of maxUrlLength,
            sc_maxPathSegments = natural_of maxPathSegments, sc_maxQueryParams = natural_of maxQueryParams,
            sc_maxUrlsPerDirectory = natural_of maxUrlsPerDirectory,
            sc_maxUrlsPerPathPattern = natural_of maxUrlsPerPathPattern\<rparr>)))))))))))"

text \<open>The record of the scope is checked before the fields of the seed, its fields between them.\<close>

definition parseSeed :: "json \<Rightarrow> resolved_seed parsed" where
  "parseSeed v =
     bind_result (record_of (Some v) ''seed'') (\<lambda>seed.
     bind_result (record_of (field seed ''scope'') ''seed scope'') (\<lambda>_.
     bind_result (stringField seed ''url'') (\<lambda>url.
     bind_result (stringField seed ''normalizedUrl'') (\<lambda>normalizedUrl.
     bind_result (parseScope (field seed ''scope'')) (\<lambda>scope.
     bind_result (nullableNumber seed ''maxDepth'') (\<lambda>maxDepth.
     bind_result (nullableNumber seed ''maxScheduledRequests'') (\<lambda>maxScheduledRequests.
     bind_result (nullableStringField seed ''label'') (\<lambda>label.
       Inr \<lparr>sd_url = url, sd_normalizedUrl = normalizedUrl, sd_scope = scope, sd_maxDepth = maxDepth,
            sd_maxScheduledRequests = map_option natural_of maxScheduledRequests, sd_label = label\<rparr>))))))))"

fun parse_seed_list :: "json list \<Rightarrow> resolved_seed list parsed" where
  "parse_seed_list [] = Inr []"
| "parse_seed_list (v # vs) = bind_result (parseSeed v) (\<lambda>s. bind_result (parse_seed_list vs) (\<lambda>ss. Inr (s # ss)))"

definition parseSeeds :: "json option \<Rightarrow> resolved_seed list parsed" where
  "parseSeeds v = (case v of Some (JArr vs) \<Rightarrow> parse_seed_list vs | _ \<Rightarrow> Inl (MalformedValue ''seeds''))"

section \<open>The manifest\<close>

definition all_run_statuses :: "run_status list" where
  "all_run_statuses = [RunCompleted, RunPartial, RunStoppedByLimit, RunAborted, RunFailed]"

definition parseRunStatus :: "json option \<Rightarrow> run_status parsed" where
  "parseRunStatus v = parse_name run_status_name all_run_statuses ''run status'' v"

definition parseManifestStopDetail :: "json option \<Rightarrow> crawl_error option \<Rightarrow> stop_detail option parsed" where
  "parseManifestStopDetail v fatal =
     (if v = Some JNull then Inr None
      else
     bind_result (record_of v ''stop detail'') (\<lambda>detail.
       if field detail ''kind'' = Some (JStr ''fatal'') then
         (case fatal of None \<Rightarrow> Inl (MalformedValue ''stop detail'') | Some e \<Rightarrow> Inr (Some (StopFatal e)))
       else parseStopDetail v))"

definition parseResultStorage :: "json option \<Rightarrow> result_storage parsed" where
  "parseResultStorage v = parse_name result_storage_name [StoreMemory, StoreFilesystem, StoreSqlite] ''result storage'' v"

definition parseFrontier :: "json option \<Rightarrow> frontier_storage parsed" where
  "parseFrontier v = parse_name frontier_storage_name [FrontierMemory, FrontierJournal, FrontierSqlite] ''frontier'' v"

definition parseFrontierOrder :: "json option \<Rightarrow> frontier_order parsed" where
  "parseFrontierOrder v = parse_name frontier_order_name [OrderPriority, OrderBfs, OrderDfs] ''frontier order'' v"

definition parseProtocol :: "json option \<Rightarrow> protocol_preference parsed" where
  "parseProtocol v = parse_name protocol_name [PreferAuto, PreferHttp1, PreferHttp2] ''HTTP protocol'' v"

definition parseRendererMetadata :: "json option \<Rightarrow> renderer_metadata option parsed" where
  "parseRendererMetadata v =
     (if v = Some JNull then Inr None
      else
     bind_result (record_of v ''renderer metadata'') (\<lambda>input.
     bind_result (stringField input ''name'') (\<lambda>name.
     bind_result (nullableStringField input ''version'') (\<lambda>version.
       Inr (Some \<lparr>rn_name = name, rn_version = version\<rparr>)))))"

definition parseRuntimeMetadata :: "json option \<Rightarrow> run_metadata parsed" where
  "parseRuntimeMetadata v =
     bind_result (record_of v ''runtime metadata'') (\<lambda>input.
     bind_result (parseResultStorage (field input ''resultStorage'')) (\<lambda>resultStorage.
     bind_result (parseFrontier (field input ''frontierBackend'')) (\<lambda>frontierBackend.
     bind_result (parseFrontierOrder (field input ''frontierOrder'')) (\<lambda>frontierOrder.
     bind_result (parseProtocol (field input ''httpProtocolPreference'')) (\<lambda>httpProtocolPreference.
     bind_result (booleanField input ''httpCacheEnabled'') (\<lambda>httpCacheEnabled.
     bind_result (booleanField input ''sessionEnabled'') (\<lambda>sessionEnabled.
     bind_result (booleanField input ''persistedCookies'') (\<lambda>persistedCookies.
     bind_result (parseRendererMetadata (field input ''renderer'')) (\<lambda>renderer.
       Inr \<lparr>rm_resultStorage = resultStorage, rm_frontierBackend = frontierBackend,
            rm_frontierOrder = frontierOrder, rm_httpProtocolPreference = httpProtocolPreference,
            rm_httpCacheEnabled = httpCacheEnabled, rm_sessionEnabled = sessionEnabled,
            rm_persistedCookies = persistedCookies, rm_renderer = renderer\<rparr>)))))))))"

definition manifest_keys :: "string list" where
  "manifest_keys = [''schemaId'', ''schemaVersion'', ''runId'', ''crawlerVersion'', ''htmlParserVersion'',
     ''xmlParserVersion'', ''configFingerprint'', ''operationalConfigFingerprint'', ''startedAt'', ''finishedAt'',
     ''status'', ''stopReason'', ''stopDetail'', ''seeds'', ''outputDirectory'', ''rawSnapshotsEnabled'',
     ''sensitive'', ''runtime'', ''deliveryGuarantees'', ''resumedFrom'', ''fatalError'', ''stats'']"

definition parseRunManifest :: "(string \<Rightarrow> timestamp) \<Rightarrow> json \<Rightarrow> run_manifest parsed" where
  "parseRunManifest date v =
     bind_result (exactRecord (Some v) ''run manifest'' manifest_keys) (\<lambda>manifest.
     bind_result (assertCurrentSchema manifest ''site-crawler.runManifest'' ''Resume manifest'') (\<lambda>_.
     bind_result (parseCrawlError date (field manifest ''fatalError'')) (\<lambda>fatal.
     bind_result (stringField manifest ''runId'') (\<lambda>runId.
     bind_result (stringField manifest ''crawlerVersion'') (\<lambda>crawlerVersion.
     bind_result (nullableStringField manifest ''htmlParserVersion'') (\<lambda>htmlParserVersion.
     bind_result (nullableStringField manifest ''xmlParserVersion'') (\<lambda>xmlParserVersion.
     bind_result (stringField manifest ''configFingerprint'') (\<lambda>configFingerprint.
     bind_result (stringField manifest ''operationalConfigFingerprint'') (\<lambda>operationalConfigFingerprint.
     bind_result (stringField manifest ''startedAt'') (\<lambda>startedAt.
     bind_result (nullableStringField manifest ''finishedAt'') (\<lambda>finishedAt.
     bind_result (parseRunStatus (field manifest ''status'')) (\<lambda>status.
     bind_result (parseStopReason (field manifest ''stopReason'')) (\<lambda>reason.
     bind_result (parseManifestStopDetail (field manifest ''stopDetail'') fatal) (\<lambda>detail.
     bind_result (parseSeeds (field manifest ''seeds'')) (\<lambda>seeds.
     bind_result (nullableStringField manifest ''outputDirectory'') (\<lambda>outputDirectory.
     bind_result (booleanField manifest ''rawSnapshotsEnabled'') (\<lambda>rawSnapshotsEnabled.
     bind_result (booleanField manifest ''sensitive'') (\<lambda>sensitive.
     bind_result (parseRuntimeMetadata (field manifest ''runtime'')) (\<lambda>runtime.
     bind_result (nullableStringField manifest ''resumedFrom'') (\<lambda>resumedFrom.
     bind_result (parseStats (field manifest ''stats'')) (\<lambda>stats.
       Inr \<lparr>mf_runId = runId, mf_crawlerVersion = crawlerVersion, mf_htmlParserVersion = htmlParserVersion,
            mf_xmlParserVersion = xmlParserVersion, mf_configFingerprint = configFingerprint,
            mf_operationalConfigFingerprint = operationalConfigFingerprint, mf_startedAt = startedAt,
            mf_finishedAt = finishedAt, mf_status = status, mf_stopReason = reason, mf_stopDetail = detail,
            mf_seeds = seeds, mf_outputDirectory = outputDirectory, mf_rawSnapshotsEnabled = rawSnapshotsEnabled,
            mf_sensitive = sensitive, mf_runtime = runtime, mf_resumedFrom = resumedFrom,
            mf_fatalError = fatal, mf_stats = stats\<rparr>)))))))))))))))))))))"

section \<open>Resuming\<close>

text \<open>The configuration of a run with the directory to resume from, as \<open>configForResume\<close> changes it.\<close>

definition with_resumeFrom :: "string \<Rightarrow> (string \<times> json) list \<Rightarrow> (string \<times> json) list" where
  "with_resumeFrom directory config = spread config [section_with config ''storage'' [(''resumeFrom'', JStr directory)]]"

datatype resume_policy = Exact | Operational

datatype resume_error = BadManifest parse_error | ConfigurationMismatch resume_policy

definition countersFromStats :: "crawl_stats \<Rightarrow> crawl_counters" where
  "countersFromStats s =
     \<lparr>cc_requestsScheduled = natural_of (st_requestsScheduled s),
      cc_requestsAttempted = natural_of (st_requestsAttempted s),
      cc_requestsFetched = natural_of (st_requestsFetched s),
      cc_requestsTransportFailed = natural_of (st_requestsTransportFailed s),
      cc_requestsPolicySkipped = natural_of (st_requestsPolicySkipped s),
      cc_requestsCancelled = natural_of (st_requestsCancelled s),
      cc_requestsFailed = natural_of (st_requestsFailed s), cc_urlsSkipped = natural_of (st_urlsSkipped s),
      cc_retries = natural_of (st_retries s), cc_resourcesRecorded = natural_of (st_resourcesRecorded s),
      cc_htmlPagesParsed = natural_of (st_htmlPagesParsed s),
      cc_xmlResourcesParsed = natural_of (st_xmlResourcesParsed s),
      cc_sitemapsFetched = natural_of (st_sitemapsFetched s),
      cc_sitemapEntriesDiscovered = natural_of (st_sitemapEntriesDiscovered s),
      cc_sitemapFilesDiscovered = natural_of (st_sitemapFilesDiscovered s),
      cc_feedsFetched = natural_of (st_feedsFetched s),
      cc_feedEntriesDiscovered = natural_of (st_feedEntriesDiscovered s),
      cc_linksExtracted = natural_of (st_linksExtracted s),
      cc_internalLinksExtracted = natural_of (st_internalLinksExtracted s),
      cc_externalLinksExtracted = natural_of (st_externalLinksExtracted s),
      cc_javascriptResourcesParsed = natural_of (st_javascriptResourcesParsed s),
      cc_javascriptLinksExtracted = natural_of (st_javascriptLinksExtracted s),
      cc_cssStylesheetsParsed = natural_of (st_cssStylesheetsParsed s),
      cc_cssLinksExtracted = natural_of (st_cssLinksExtracted s),
      cc_redirectsFollowed = natural_of (st_redirectsFollowed s),
      cc_redirectsBlocked = natural_of (st_redirectsBlocked s),
      cc_robotsFilesFetched = natural_of (st_robotsFilesFetched s),
      cc_robotsDisallowedUrls = natural_of (st_robotsDisallowedUrls s),
      cc_scopeRejectedUrls = natural_of (st_scopeRejectedUrls s),
      cc_networkSafetyRejectedUrls = natural_of (st_networkSafetyRejectedUrls s),
      cc_parserErrors = natural_of (st_parserErrors s), cc_decodeErrors = natural_of (st_decodeErrors s),
      cc_bytesDownloaded = natural_of (st_bytesDownloaded s),
      cc_responseCount = natural_of (st_responseCount s),
      cc_responseTimeMsTotal = st_responseTimeMsTotal s,
      cc_peakConcurrency = natural_of (st_peakConcurrency s),
      cc_peakQueueSize = natural_of (st_peakQueueSize s),
      cc_resumedRequests = natural_of (st_resumedRequests s),
      cc_recoveredLeases = natural_of (st_recoveredLeases s),
      cc_renewedLeases = natural_of (st_renewedLeases s),
      cc_releasedLeases = natural_of (st_releasedLeases s),
      cc_storageBackpressureEvents = natural_of (st_storageBackpressureEvents s),
      cc_droppedEvents = natural_of (st_droppedEvents s),
      cc_changesRecorded = natural_of (st_changesRecorded s),
      cc_workerHeartbeats = natural_of (st_workerHeartbeats s),
      cc_replaysCompleted = natural_of (st_replaysCompleted s)\<rparr>"

definition readResumeState ::
  "(string \<Rightarrow> timestamp) \<Rightarrow> json \<Rightarrow> fingerprints \<Rightarrow> resume_policy \<Rightarrow> (resume_error, run_manifest \<times> crawl_counters) result"
where
  "readResumeState date v fingerprints policy =
     (case parseRunManifest date v of
        Inl e \<Rightarrow> Inl (BadManifest e)
      | Inr manifest \<Rightarrow>
          let expected = (case policy of Exact \<Rightarrow> mf_configFingerprint manifest
                            | Operational \<Rightarrow> mf_operationalConfigFingerprint manifest);
              actual = (case policy of Exact \<Rightarrow> fp_exact fingerprints | Operational \<Rightarrow> fp_operational fingerprints)
          in if expected \<noteq> actual then Inl (ConfigurationMismatch policy)
             else Inr (manifest, countersFromStats (mf_stats manifest)))"

end
