(* ===== verification/Resume_Properties.thy ===== *)
theory Resume_Properties
  imports Resume Evidence_Properties
begin

text \<open>
  Which manifests can be resumed: the parser reads a manifest back exactly when it knows its stop and its
  error, counters return as they were, and which changes of the configuration the fingerprints notice.
\<close>

section \<open>Reading names\<close>

lemma stop_reason_written [simp]:
  "parseStopReason (Some (nullable (\<lambda>r. JStr (stop_reason_name r)) r)) = Inr r"
proof (cases r)
  case (Some a)
  then show ?thesis by (cases a) (simp_all add: parseStopReason_def nullable_def parse_name_def all_stop_reasons_def)
qed (simp add: parseStopReason_def nullable_def)

lemma limit_written:
  "parseLimit (Some (JStr (limit_name l))) = (if l = LimSitemapIndexDepth then Inl (MalformedValue ''limit reason'') else Inr l)"
  by (cases l) (simp_all add: parseLimit_def parse_name_def parsed_limits_def)

lemma code_written:
  "parseCode (Some (JStr (error_code_name c))) =
     (if c = E_FETCH_CONNECT_TIMEOUT \<or> c = E_FETCH_FIRST_BYTE_TIMEOUT then Inl (MalformedValue ''code'') else Inr c)"
  by (cases c) (simp_all add: parseCode_def parse_name_def parsed_codes_def)

lemma run_status_written [simp]: "parseRunStatus (Some (JStr (run_status_name x))) = Inr x"
  by (cases x) (simp_all add: parseRunStatus_def parse_name_def all_run_statuses_def)

lemma scope_mode_written [simp]: "parseScopeMode (Some (JStr (scope_mode_name x))) = Inr x"
  by (cases x) (simp_all add: parseScopeMode_def parse_name_def all_scope_modes_def)

lemma result_storage_written [simp]: "parseResultStorage (Some (JStr (result_storage_name x))) = Inr x"
  by (cases x) (simp_all add: parseResultStorage_def parse_name_def)

lemma frontier_storage_written [simp]: "parseFrontier (Some (JStr (frontier_storage_name x))) = Inr x"
  by (cases x) (simp_all add: parseFrontier_def parse_name_def)

lemma frontier_order_written [simp]: "parseFrontierOrder (Some (JStr (frontier_order_name x))) = Inr x"
  by (cases x) (simp_all add: parseFrontierOrder_def parse_name_def)

lemma protocol_written [simp]: "parseProtocol (Some (JStr (protocol_name x))) = Inr x"
  by (cases x) (simp_all add: parseProtocol_def parse_name_def)

lemma string_array_written [simp]: "parseStringArray (Some (JArr (map JStr ss))) name = Inr ss"
  by (simp add: parseStringArray_def)

lemmas field_readers = stringField_def numberField_def booleanField_def nullableStringField_written

lemma nullableNumber_written:
  "field fs k = Some (nullable JNum v) \<Longrightarrow> nullableNumber fs k = Inr v"
  "field fs k = Some (nullable (\<lambda>n. JNum (of_nat n)) w) \<Longrightarrow> nullableNumber fs k = Inr (map_option of_nat w)"
  by (cases v; simp add: nullableNumber_def nullable_def) (cases w; simp add: nullableNumber_def nullable_def)

lemma natural_of_option [simp]: "map_option natural_of (map_option of_nat v) = v"
  by (cases v) simp_all

section \<open>Errors and stops\<close>

definition known_code :: "crawl_error_code \<Rightarrow> bool" where
  "known_code c \<longleftrightarrow> c \<noteq> E_FETCH_CONNECT_TIMEOUT \<and> c \<noteq> E_FETCH_FIRST_BYTE_TIMEOUT"

lemma parseCrawlError_written:
  assumes "\<forall>t. date (iso_of t) = t"
  shows "parseCrawlError date (Some (nullable (crawl_error_json iso_of) v)) =
    (if \<forall>e. v = Some e \<longrightarrow> known_code (ce_code e) then Inr v else Inl (MalformedValue ''code''))"
proof (cases v)
  case (Some e)
  obtain fs where fs: "crawl_error_json iso_of e = JObj fs" by (simp add: crawl_error_json_def)
  note fs_def = fs [unfolded crawl_error_json_def schema_identity_def json.inject, symmetric]
  have "distinct (map fst fs)" unfolding fs_def by simp
  then have input: "record_of (Some (JObj fs)) ''crawl error'' = Inr fs" by (rule record_of_object)
  have schema: "assertCurrentSchema fs ''site-crawler.error'' ''Crawl error'' = Inr ()"
    unfolding fs_def by (simp add: assertCurrentSchema_def hasCurrentSchema_def SITE_CRAWLER_SCHEMA_VERSION_def)
  have code: "field fs ''code'' = Some (JStr (error_code_name (ce_code e)))" unfolding fs_def by simp
  have strings: "stringField fs ''message'' = Inr (ce_message e)" "stringField fs ''createdAt'' = Inr (iso_of (ce_createdAt e))"
    "booleanField fs ''retryable'' = Inr (ce_retryable e)" "booleanField fs ''fatal'' = Inr (ce_fatal e)"
    unfolding fs_def by (simp_all add: stringField_def booleanField_def)
  have nullables: "nullableStringField fs ''url'' = Inr (ce_url e)" "nullableStringField fs ''requestId'' = Inr (ce_requestId e)"
    "nullableStringField fs ''causeName'' = Inr (ce_causeName e)"
    "nullableStringField fs ''causeMessage'' = Inr (ce_causeMessage e)"
    by (rule nullableStringField_written, simp add: fs_def)+
  have attempt: "nullableNumber fs ''attempt'' = Inr (map_option of_nat (ce_attempt e))"
    by (rule nullableNumber_written(2)) (simp add: fs_def nullable_def split: option.split)
  show ?thesis
    using assms unfolding parseCrawlError_def Some nullable_def option.case fs
    by (auto simp add: input schema code code_written strings nullables attempt known_code_def)
qed (simp add: parseCrawlError_def nullable_def)

text \<open>The stops that \<open>parseStopDetail\<close> knows.\<close>

fun known_stop :: "stop_detail option \<Rightarrow> bool" where
  "known_stop (Some (StopFatal e)) = False"
| "known_stop (Some (StopLimit l)) = (l \<noteq> LimSitemapIndexDepth)"
| "known_stop d = True"

lemma parseStopDetail_cases:
  "parseStopDetail (Some (nullable (stop_detail_json iso_of) d)) =
     (case d of
        Some (StopFatal e) \<Rightarrow> Inl (MalformedValue ''stop detail'')
      | Some (StopLimit l) \<Rightarrow> if l = LimSitemapIndexDepth then Inl (MalformedValue ''limit reason'') else Inr d
      | _ \<Rightarrow> Inr d)"
  by (cases d rule: known_stop.cases)
    (simp_all add: parseStopDetail_def nullable_def record_of_object stringField_def limit_written)

lemma parseStopDetail_written:
  "known_stop d \<Longrightarrow> parseStopDetail (Some (nullable (stop_detail_json iso_of) d)) = Inr d"
  "\<not> known_stop d \<Longrightarrow> \<exists>e. parseStopDetail (Some (nullable (stop_detail_json iso_of) d)) = Inl e"
  by (cases d rule: known_stop.cases; simp add: parseStopDetail_cases)
    (cases d rule: known_stop.cases; simp add: parseStopDetail_cases)

section \<open>Statistics\<close>

lemma stats_keys_written: "map fst (stats_fields iso_of s) = stats_keys"
  by (simp add: stats_fields_def stats_keys_def)

text \<open>The keys are told apart by numbers computed from their characters.\<close>

definition key_code :: "string \<Rightarrow> int" where
  "key_code s = foldl (\<lambda>h c. (h * 31 + of_char c) mod 100003) 0 s"

lemma stats_keys_distinct: "distinct stats_keys"
proof -
  have "distinct (map key_code stats_keys)"
    by (simp add: stats_keys_def key_code_def)
  then show ?thesis by (simp add: distinct_map)
qed

lemma field_nth:
  assumes "map fst fs = ks" "distinct ks" "fs ! i = (k, v)" "i < length ks"
  shows "field fs k = Some v"
proof -
  have "(k, v) \<in> set fs" using assms(1,3,4) by (metis length_map nth_mem)
  then show ?thesis using assms(1,2) by (simp add: field_def)
qed

lemma stats_keys_length: "length stats_keys = 59"
  by (simp add: stats_keys_def)

lemmas stats_nth = field_nth [OF stats_keys_written stats_keys_distinct, unfolded stats_keys_length]

lemma stats_lookup:
  "field (stats_fields iso_of s) ''runId'' = Some (JStr (st_runId s))"
  "field (stats_fields iso_of s) ''startedAt'' = Some (JStr (st_startedAt s))"
  "field (stats_fields iso_of s) ''finishedAt'' = Some (opt_str (st_finishedAt s))"
  "field (stats_fields iso_of s) ''durationMs'' = Some (JNum (st_durationMs s))"
  "field (stats_fields iso_of s) ''seeds'' = Some (JNum (st_seeds s))"
  "field (stats_fields iso_of s) ''requestsScheduled'' = Some (JNum (st_requestsScheduled s))"
  "field (stats_fields iso_of s) ''requestsAttempted'' = Some (JNum (st_requestsAttempted s))"
  "field (stats_fields iso_of s) ''requestsFetched'' = Some (JNum (st_requestsFetched s))"
  "field (stats_fields iso_of s) ''requestsTransportFailed'' = Some (JNum (st_requestsTransportFailed s))"
  "field (stats_fields iso_of s) ''requestsPolicySkipped'' = Some (JNum (st_requestsPolicySkipped s))"
  "field (stats_fields iso_of s) ''requestsCancelled'' = Some (JNum (st_requestsCancelled s))"
  "field (stats_fields iso_of s) ''requestsFailed'' = Some (JNum (st_requestsFailed s))"
  "field (stats_fields iso_of s) ''urlsSkipped'' = Some (JNum (st_urlsSkipped s))"
  "field (stats_fields iso_of s) ''retries'' = Some (JNum (st_retries s))"
  "field (stats_fields iso_of s) ''resourcesRecorded'' = Some (JNum (st_resourcesRecorded s))"
  "field (stats_fields iso_of s) ''htmlPagesParsed'' = Some (JNum (st_htmlPagesParsed s))"
  "field (stats_fields iso_of s) ''xmlResourcesParsed'' = Some (JNum (st_xmlResourcesParsed s))"
  "field (stats_fields iso_of s) ''sitemapsFetched'' = Some (JNum (st_sitemapsFetched s))"
  "field (stats_fields iso_of s) ''sitemapEntriesDiscovered'' = Some (JNum (st_sitemapEntriesDiscovered s))"
  "field (stats_fields iso_of s) ''sitemapFilesDiscovered'' = Some (JNum (st_sitemapFilesDiscovered s))"
  "field (stats_fields iso_of s) ''feedsFetched'' = Some (JNum (st_feedsFetched s))"
  "field (stats_fields iso_of s) ''feedEntriesDiscovered'' = Some (JNum (st_feedEntriesDiscovered s))"
  "field (stats_fields iso_of s) ''linksExtracted'' = Some (JNum (st_linksExtracted s))"
  "field (stats_fields iso_of s) ''internalLinksExtracted'' = Some (JNum (st_internalLinksExtracted s))"
  "field (stats_fields iso_of s) ''externalLinksExtracted'' = Some (JNum (st_externalLinksExtracted s))"
  "field (stats_fields iso_of s) ''javascriptResourcesParsed'' = Some (JNum (st_javascriptResourcesParsed s))"
  "field (stats_fields iso_of s) ''javascriptLinksExtracted'' = Some (JNum (st_javascriptLinksExtracted s))"
  "field (stats_fields iso_of s) ''cssStylesheetsParsed'' = Some (JNum (st_cssStylesheetsParsed s))"
  "field (stats_fields iso_of s) ''cssLinksExtracted'' = Some (JNum (st_cssLinksExtracted s))"
  "field (stats_fields iso_of s) ''renderedPages'' = Some (JNum (st_renderedPages s))"
  "field (stats_fields iso_of s) ''redirectsFollowed'' = Some (JNum (st_redirectsFollowed s))"
  "field (stats_fields iso_of s) ''redirectsBlocked'' = Some (JNum (st_redirectsBlocked s))"
  "field (stats_fields iso_of s) ''robotsFilesFetched'' = Some (JNum (st_robotsFilesFetched s))"
  "field (stats_fields iso_of s) ''robotsDisallowedUrls'' = Some (JNum (st_robotsDisallowedUrls s))"
  "field (stats_fields iso_of s) ''scopeRejectedUrls'' = Some (JNum (st_scopeRejectedUrls s))"
  "field (stats_fields iso_of s) ''networkSafetyRejectedUrls'' = Some (JNum (st_networkSafetyRejectedUrls s))"
  "field (stats_fields iso_of s) ''parserErrors'' = Some (JNum (st_parserErrors s))"
  "field (stats_fields iso_of s) ''decodeErrors'' = Some (JNum (st_decodeErrors s))"
  "field (stats_fields iso_of s) ''bytesDownloaded'' = Some (JNum (st_bytesDownloaded s))"
  "field (stats_fields iso_of s) ''responseCount'' = Some (JNum (st_responseCount s))"
  "field (stats_fields iso_of s) ''responseTimeMsTotal'' = Some (JNum (st_responseTimeMsTotal s))"
  "field (stats_fields iso_of s) ''averageResponseTimeMs'' = Some (JNum (st_averageResponseTimeMs s))"
  "field (stats_fields iso_of s) ''peakConcurrency'' = Some (JNum (st_peakConcurrency s))"
  "field (stats_fields iso_of s) ''peakQueueSize'' = Some (JNum (st_peakQueueSize s))"
  "field (stats_fields iso_of s) ''resumedRequests'' = Some (JNum (st_resumedRequests s))"
  "field (stats_fields iso_of s) ''recoveredLeases'' = Some (JNum (st_recoveredLeases s))"
  "field (stats_fields iso_of s) ''renewedLeases'' = Some (JNum (st_renewedLeases s))"
  "field (stats_fields iso_of s) ''releasedLeases'' = Some (JNum (st_releasedLeases s))"
  "field (stats_fields iso_of s) ''storageBackpressureEvents'' = Some (JNum (st_storageBackpressureEvents s))"
  "field (stats_fields iso_of s) ''droppedEvents'' = Some (JNum (st_droppedEvents s))"
  "field (stats_fields iso_of s) ''evidenceObjectsWritten'' = Some (JNum (st_evidenceObjectsWritten s))"
  "field (stats_fields iso_of s) ''evidenceBytesWritten'' = Some (JNum (st_evidenceBytesWritten s))"
  "field (stats_fields iso_of s) ''changesRecorded'' = Some (JNum (st_changesRecorded s))"
  "field (stats_fields iso_of s) ''workerHeartbeats'' = Some (JNum (st_workerHeartbeats s))"
  "field (stats_fields iso_of s) ''replaysCompleted'' = Some (JNum (st_replaysCompleted s))"
  "field (stats_fields iso_of s) ''stopReason'' = Some (nullable (\<lambda>r. JStr (stop_reason_name r)) (st_stopReason s))"
  "field (stats_fields iso_of s) ''stopDetail'' = Some (nullable (stop_detail_json iso_of) (st_stopDetail s))"
  subgoal by (rule stats_nth [where i = 2]) (simp_all add: stats_fields_def)
  subgoal by (rule stats_nth [where i = 3]) (simp_all add: stats_fields_def)
  subgoal by (rule stats_nth [where i = 4]) (simp_all add: stats_fields_def)
  subgoal by (rule stats_nth [where i = 5]) (simp_all add: stats_fields_def)
  subgoal by (rule stats_nth [where i = 6]) (simp_all add: stats_fields_def)
  subgoal by (rule stats_nth [where i = 7]) (simp_all add: stats_fields_def)
  subgoal by (rule stats_nth [where i = 8]) (simp_all add: stats_fields_def)
  subgoal by (rule stats_nth [where i = 9]) (simp_all add: stats_fields_def)
  subgoal by (rule stats_nth [where i = 10]) (simp_all add: stats_fields_def)
  subgoal by (rule stats_nth [where i = 11]) (simp_all add: stats_fields_def)
  subgoal by (rule stats_nth [where i = 12]) (simp_all add: stats_fields_def)
  subgoal by (rule stats_nth [where i = 13]) (simp_all add: stats_fields_def)
  subgoal by (rule stats_nth [where i = 14]) (simp_all add: stats_fields_def)
  subgoal by (rule stats_nth [where i = 15]) (simp_all add: stats_fields_def)
  subgoal by (rule stats_nth [where i = 16]) (simp_all add: stats_fields_def)
  subgoal by (rule stats_nth [where i = 17]) (simp_all add: stats_fields_def)
  subgoal by (rule stats_nth [where i = 18]) (simp_all add: stats_fields_def)
  subgoal by (rule stats_nth [where i = 19]) (simp_all add: stats_fields_def)
  subgoal by (rule stats_nth [where i = 20]) (simp_all add: stats_fields_def)
  subgoal by (rule stats_nth [where i = 21]) (simp_all add: stats_fields_def)
  subgoal by (rule stats_nth [where i = 22]) (simp_all add: stats_fields_def)
  subgoal by (rule stats_nth [where i = 23]) (simp_all add: stats_fields_def)
  subgoal by (rule stats_nth [where i = 24]) (simp_all add: stats_fields_def)
  subgoal by (rule stats_nth [where i = 25]) (simp_all add: stats_fields_def)
  subgoal by (rule stats_nth [where i = 26]) (simp_all add: stats_fields_def)
  subgoal by (rule stats_nth [where i = 27]) (simp_all add: stats_fields_def)
  subgoal by (rule stats_nth [where i = 28]) (simp_all add: stats_fields_def)
  subgoal by (rule stats_nth [where i = 29]) (simp_all add: stats_fields_def)
  subgoal by (rule stats_nth [where i = 30]) (simp_all add: stats_fields_def)
  subgoal by (rule stats_nth [where i = 31]) (simp_all add: stats_fields_def)
  subgoal by (rule stats_nth [where i = 32]) (simp_all add: stats_fields_def)
  subgoal by (rule stats_nth [where i = 33]) (simp_all add: stats_fields_def)
  subgoal by (rule stats_nth [where i = 34]) (simp_all add: stats_fields_def)
  subgoal by (rule stats_nth [where i = 35]) (simp_all add: stats_fields_def)
  subgoal by (rule stats_nth [where i = 36]) (simp_all add: stats_fields_def)
  subgoal by (rule stats_nth [where i = 37]) (simp_all add: stats_fields_def)
  subgoal by (rule stats_nth [where i = 38]) (simp_all add: stats_fields_def)
  subgoal by (rule stats_nth [where i = 39]) (simp_all add: stats_fields_def)
  subgoal by (rule stats_nth [where i = 40]) (simp_all add: stats_fields_def)
  subgoal by (rule stats_nth [where i = 41]) (simp_all add: stats_fields_def)
  subgoal by (rule stats_nth [where i = 42]) (simp_all add: stats_fields_def)
  subgoal by (rule stats_nth [where i = 43]) (simp_all add: stats_fields_def)
  subgoal by (rule stats_nth [where i = 44]) (simp_all add: stats_fields_def)
  subgoal by (rule stats_nth [where i = 45]) (simp_all add: stats_fields_def)
  subgoal by (rule stats_nth [where i = 46]) (simp_all add: stats_fields_def)
  subgoal by (rule stats_nth [where i = 47]) (simp_all add: stats_fields_def)
  subgoal by (rule stats_nth [where i = 48]) (simp_all add: stats_fields_def)
  subgoal by (rule stats_nth [where i = 49]) (simp_all add: stats_fields_def)
  subgoal by (rule stats_nth [where i = 50]) (simp_all add: stats_fields_def)
  subgoal by (rule stats_nth [where i = 51]) (simp_all add: stats_fields_def)
  subgoal by (rule stats_nth [where i = 52]) (simp_all add: stats_fields_def)
  subgoal by (rule stats_nth [where i = 53]) (simp_all add: stats_fields_def)
  subgoal by (rule stats_nth [where i = 54]) (simp_all add: stats_fields_def)
  subgoal by (rule stats_nth [where i = 55]) (simp_all add: stats_fields_def)
  subgoal by (rule stats_nth [where i = 56]) (simp_all add: stats_fields_def)
  subgoal by (rule stats_nth [where i = 57]) (simp_all add: stats_fields_def)
  subgoal by (rule stats_nth [where i = 58]) (simp_all add: stats_fields_def)
  done

lemma parseStats_written:
  "parseStats (Some (stats_json iso_of s)) =
     bind_result (parseStopDetail (Some (nullable (stop_detail_json iso_of) (st_stopDetail s)))) (\<lambda>d. Inr (s\<lparr>st_stopDetail := d\<rparr>))"
proof -
  have "exactRecord (Some (JObj (stats_fields iso_of s))) ''crawl stats'' stats_keys = Inr (stats_fields iso_of s)"
    using stats_keys_distinct by (intro exactRecord_written) (simp_all only: stats_keys_written subset_refl)
  moreover have "assertCurrentSchema (stats_fields iso_of s) ''site-crawler.stats'' ''Resume statistics'' = Inr ()"
    by (simp add: assertCurrentSchema_def hasCurrentSchema_def SITE_CRAWLER_SCHEMA_VERSION_def stats_fields_def)
  ultimately show ?thesis
    unfolding parseStats_def stats_json_def
    by (cases "parseStopDetail (Some (nullable (stop_detail_json iso_of) (st_stopDetail s)))")
      (simp_all add: stringField_def numberField_def nullableStringField_written stats_lookup crawl_stats.equality)
qed

section \<open>The manifest\<close>

lemma parseScope_written: "parseScope (Some (scope_json c)) = Inr c"
  by (simp add: parseScope_def scope_json_def record_of_object numberField_def)

lemma parseSeed_written: "parseSeed (seed_json s) = Inr s"
proof -
  obtain fs where fs: "seed_json s = JObj fs" by (simp add: seed_json_def)
  note fs_def = fs [unfolded seed_json_def json.inject, symmetric]
  have "distinct (map fst fs)" unfolding fs_def by simp
  then have input: "record_of (Some (JObj fs)) ''seed'' = Inr fs" by (rule record_of_object)
  have scope: "field fs ''scope'' = Some (scope_json (sd_scope s))" unfolding fs_def by simp
  then have scope_record: "\<exists>input. record_of (field fs ''scope'') ''seed scope'' = Inr input"
    by (simp add: scope_json_def record_of_object)
  have strings: "stringField fs ''url'' = Inr (sd_url s)" "stringField fs ''normalizedUrl'' = Inr (sd_normalizedUrl s)"
    unfolding fs_def by (simp_all add: stringField_def)
  have label: "nullableStringField fs ''label'' = Inr (sd_label s)"
    by (rule nullableStringField_written) (simp add: fs_def)
  have numbers: "nullableNumber fs ''maxDepth'' = Inr (sd_maxDepth s)"
    "nullableNumber fs ''maxScheduledRequests'' = Inr (map_option of_nat (sd_maxScheduledRequests s))"
    by (rule nullableNumber_written(1), simp add: fs_def) (rule nullableNumber_written(2), simp add: fs_def)
  show ?thesis
    using scope_record unfolding parseSeed_def fs
    by (auto simp add: input strings label numbers scope parseScope_written)
qed

lemma parseSeeds_written [simp]: "parseSeeds (Some (JArr (map seed_json ss))) = Inr ss"
  unfolding parseSeeds_def by (simp, induction ss) (simp_all add: parseSeed_written)

lemma parseRenderer_written:
  "parseRendererMetadata (Some (nullable (\<lambda>r. JObj [(''name'', JStr (rn_name r)), (''version'', opt_str (rn_version r))]) v)) = Inr v"
  by (cases v) (simp_all add: parseRendererMetadata_def nullable_def record_of_object stringField_def nullableStringField_written)

lemma parseRuntime_written: "parseRuntimeMetadata (Some (metadata_json m)) = Inr m"
  by (simp add: parseRuntimeMetadata_def metadata_json_def record_of_object booleanField_def parseRenderer_written)

lemma manifest_lookup:
  "field (manifest_fields iso_of m) ''runId'' = Some (JStr (mf_runId m))"
  "field (manifest_fields iso_of m) ''crawlerVersion'' = Some (JStr (mf_crawlerVersion m))"
  "field (manifest_fields iso_of m) ''htmlParserVersion'' = Some (opt_str (mf_htmlParserVersion m))"
  "field (manifest_fields iso_of m) ''xmlParserVersion'' = Some (opt_str (mf_xmlParserVersion m))"
  "field (manifest_fields iso_of m) ''configFingerprint'' = Some (JStr (mf_configFingerprint m))"
  "field (manifest_fields iso_of m) ''operationalConfigFingerprint'' = Some (JStr (mf_operationalConfigFingerprint m))"
  "field (manifest_fields iso_of m) ''startedAt'' = Some (JStr (mf_startedAt m))"
  "field (manifest_fields iso_of m) ''finishedAt'' = Some (opt_str (mf_finishedAt m))"
  "field (manifest_fields iso_of m) ''status'' = Some (JStr (run_status_name (mf_status m)))"
  "field (manifest_fields iso_of m) ''stopReason'' = Some (nullable (\<lambda>r. JStr (stop_reason_name r)) (mf_stopReason m))"
  "field (manifest_fields iso_of m) ''stopDetail'' = Some (nullable (stop_detail_json iso_of) (mf_stopDetail m))"
  "field (manifest_fields iso_of m) ''seeds'' = Some (JArr (map seed_json (mf_seeds m)))"
  "field (manifest_fields iso_of m) ''outputDirectory'' = Some (opt_str (mf_outputDirectory m))"
  "field (manifest_fields iso_of m) ''rawSnapshotsEnabled'' = Some (JBool (mf_rawSnapshotsEnabled m))"
  "field (manifest_fields iso_of m) ''sensitive'' = Some (JBool (mf_sensitive m))"
  "field (manifest_fields iso_of m) ''runtime'' = Some (metadata_json (mf_runtime m))"
  "field (manifest_fields iso_of m) ''resumedFrom'' = Some (opt_str (mf_resumedFrom m))"
  "field (manifest_fields iso_of m) ''fatalError'' = Some (nullable (crawl_error_json iso_of) (mf_fatalError m))"
  "field (manifest_fields iso_of m) ''stats'' = Some (stats_json iso_of (mf_stats m))"
  by (simp_all add: manifest_fields_def)

lemma manifest_keys_written: "map fst (manifest_fields iso_of m) = manifest_keys"
  by (simp add: manifest_fields_def manifest_keys_def)

lemma manifest_keys_distinct: "distinct manifest_keys"
  by code_simp

text \<open>The stop of the manifest is read together with its fatal error.\<close>

lemma parseManifestStopDetail_written:
  "parseManifestStopDetail (Some (nullable (stop_detail_json iso_of) d)) fatal =
     (case d of
        Some (StopFatal e) \<Rightarrow> (case fatal of None \<Rightarrow> Inl (MalformedValue ''stop detail'') | Some e' \<Rightarrow> Inr (Some (StopFatal e')))
      | _ \<Rightarrow> parseStopDetail (Some (nullable (stop_detail_json iso_of) d)))"
  by (cases d rule: known_stop.cases) (simp_all add: parseManifestStopDetail_def parseStopDetail_def nullable_def record_of_object)

lemma parseRunManifest_written:
  assumes "\<forall>t. date (iso_of t) = t"
  shows "parseRunManifest date (manifest_json iso_of m) =
     (if \<exists>e. mf_fatalError m = Some e \<and> \<not> known_code (ce_code e) then Inl (MalformedValue ''code'')
      else bind_result (parseManifestStopDetail (Some (nullable (stop_detail_json iso_of) (mf_stopDetail m))) (mf_fatalError m)) (\<lambda>d.
        bind_result (parseStats (Some (stats_json iso_of (mf_stats m)))) (\<lambda>s. Inr (m\<lparr>mf_stopDetail := d, mf_stats := s\<rparr>))))"
proof -
  have "exactRecord (Some (JObj (manifest_fields iso_of m))) ''run manifest'' manifest_keys = Inr (manifest_fields iso_of m)"
    using manifest_keys_distinct by (intro exactRecord_written) (simp_all only: manifest_keys_written subset_refl)
  moreover have "assertCurrentSchema (manifest_fields iso_of m) ''site-crawler.runManifest'' ''Resume manifest'' = Inr ()"
    by (simp add: assertCurrentSchema_def hasCurrentSchema_def SITE_CRAWLER_SCHEMA_VERSION_def manifest_fields_def)
  moreover note parseCrawlError_written [OF assms, of "mf_fatalError m"]
  ultimately show ?thesis
    unfolding parseRunManifest_def manifest_json_def
    by (cases "parseManifestStopDetail (Some (nullable (stop_detail_json iso_of) (mf_stopDetail m))) (mf_fatalError m)";
        cases "parseStats (Some (stats_json iso_of (mf_stats m)))")
      (auto simp add: stringField_def booleanField_def nullableStringField_written manifest_lookup parseRuntime_written
        intro!: run_manifest.equality)
qed

definition readable :: "run_manifest \<Rightarrow> bool" where
  "readable m \<longleftrightarrow>
     (\<forall>e. mf_fatalError m = Some e \<longrightarrow> known_code (ce_code e)) \<and>
     (case mf_stopDetail m of Some (StopFatal e) \<Rightarrow> mf_fatalError m = Some e | d \<Rightarrow> known_stop d) \<and>
     known_stop (st_stopDetail (mf_stats m))"

lemma manifest_update_same:
  "m\<lparr>mf_stopDetail := d, mf_stats := s\<rparr> = m \<longleftrightarrow> d = mf_stopDetail m \<and> s = mf_stats m"
  by (cases m) auto

lemma stats_update_same: "s\<lparr>st_stopDetail := d\<rparr> = s \<longleftrightarrow> d = st_stopDetail s"
  by (cases s) auto

text \<open>
  A manifest is read back as it was written exactly when its parts are known to the parsers: the code of
  its fatal error is, a fatal stop comes with its error, any other stop is known, and so is the
  stop that is repeated in the statistics.
\<close>

theorem manifest_read_exactly:
  assumes "\<forall>t. date (iso_of t) = t"
  shows "(parseRunManifest date (manifest_json iso_of m) = Inr m) = readable m"
proof -
  have stats: "(parseStats (Some (stats_json iso_of (mf_stats m))) = Inr s) = (known_stop (st_stopDetail (mf_stats m)) \<and> s = mf_stats m)" for s
    unfolding parseStats_written
    by (cases "st_stopDetail (mf_stats m)" rule: known_stop.cases) (auto simp add: parseStopDetail_cases)
  have detail: "(parseManifestStopDetail (Some (nullable (stop_detail_json iso_of) (mf_stopDetail m))) (mf_fatalError m) = Inr (mf_stopDetail m))
      = (case mf_stopDetail m of Some (StopFatal e) \<Rightarrow> mf_fatalError m = Some e | d \<Rightarrow> known_stop d)"
    by (cases "mf_stopDetail m" rule: known_stop.cases)
      (auto simp add: parseManifestStopDetail_written parseStopDetail_cases split: option.split)
  show ?thesis
    unfolding parseRunManifest_written [OF assms] readable_def detail [symmetric]
    by (auto simp add: bind_result_Inr stats manifest_update_same)
qed

section \<open>Resuming a run\<close>

lemma counters_restored: "countersFromStats (createCrawlStats now now_ms i) = si_counters i"
  by (simp add: countersFromStats_def createCrawlStats_def Let_def)

text \<open>What the parsers stumble over.\<close>

fun stumble :: "stop_detail option \<Rightarrow> parse_error option" where
  "stumble (Some (StopFatal e)) =
     Some (if known_code (ce_code e) then MalformedValue ''stop detail'' else MalformedValue ''code'')"
| "stumble (Some (StopLimit LimSitemapIndexDepth)) = Some (MalformedValue ''limit reason'')"
| "stumble d = None"

definition fingerprint_for :: "resume_policy \<Rightarrow> fingerprints \<Rightarrow> string" where
  "fingerprint_for policy f = (case policy of Exact \<Rightarrow> fp_exact f | Operational \<Rightarrow> fp_operational f)"

lemma persisted_parts:
  assumes "m = persisted_manifest now now_ms rendered evidence fz rc (finalizer_result now' now_ms' rendered' evidence' fz rc (fatalError rc))"
  shows "mf_stopDetail m = rc_stop rc" "mf_fatalError m = fatalError rc" "st_stopDetail (mf_stats m) = rc_stop rc"
    "countersFromStats (mf_stats m) = rc_counters rc"
    "mf_configFingerprint m = fp_exact (fz_fingerprints fz)" "mf_operationalConfigFingerprint m = fp_operational (fz_fingerprints fz)"
  unfolding assms persisted_manifest_def finalizer_result_def finalizer_manifest_def Let_def createRunManifest_def
  by (simp_all add: counters_restored) (simp_all add: createCrawlStats_def Let_def)

lemma resumed_from_persisted:
  assumes "\<forall>t. date (iso_of t) = t"
    and m: "m = persisted_manifest now now_ms rendered evidence fz rc (finalizer_result now' now_ms' rendered' evidence' fz rc (fatalError rc))"
  shows "readResumeState date (manifest_json iso_of m) fingerprints policy =
    (case stumble (rc_stop rc) of
       Some e \<Rightarrow> Inl (BadManifest e)
     | None \<Rightarrow>
         if fingerprint_for policy (fz_fingerprints fz) = fingerprint_for policy fingerprints
         then Inr (m, rc_counters rc) else Inl (ConfigurationMismatch policy))"
proof -
  note parts = persisted_parts [OF m]
  have parsed: "parseRunManifest date (manifest_json iso_of m) =
      (case stumble (rc_stop rc) of Some e \<Rightarrow> Inl e | None \<Rightarrow> Inr m)"
    unfolding parseRunManifest_written [OF assms(1)] parseStats_written parts
    by (cases "rc_stop rc" rule: stumble.cases)
      (auto simp add: parseManifestStopDetail_written parseStopDetail_cases parts fatalError_def manifest_update_same stats_update_same)
  show ?thesis
    unfolding readResumeState_def parsed fingerprint_for_def
    by (cases policy) (auto simp add: parts split: option.split)
qed

text \<open>
  C11: A run is resumed from the manifest that its end has persisted with all its counters as they were, if
  the fingerprint that the policy asks for is the same. There are two exceptions: a run that was
  stopped by a fatal error, and one that was stopped by the limit of the sitemap index depth. Their manifests
  are rejected, whatever the configuration is.
\<close>

theorem resume_restores_run:
  assumes "\<forall>t. date (iso_of t) = t"
    and "m = persisted_manifest now now_ms rendered evidence fz rc (finalizer_result now' now_ms' rendered' evidence' fz rc (fatalError rc))"
  shows "readResumeState date (manifest_json iso_of m) fingerprints policy =
    (case stumble (rc_stop rc) of
       Some e \<Rightarrow> Inl (BadManifest e)
     | None \<Rightarrow>
         if fingerprint_for policy (fz_fingerprints fz) = fingerprint_for policy fingerprints
         then Inr (m, rc_counters rc) else Inl (ConfigurationMismatch policy))"
  by (rule resumed_from_persisted [OF assms])

lemma failed_run_not_resumed:
  assumes "\<forall>t. date (iso_of t) = t"
    and "m = persisted_manifest now now_ms rendered evidence fz rc (finalizer_result now' now_ms' rendered' evidence' fz rc (fatalError rc))"
    and "rc_stop rc = Some (StopFatal e)"
  shows "\<exists>err. readResumeState date (manifest_json iso_of m) fingerprints policy = Inl (BadManifest err)"
  unfolding resumed_from_persisted [OF assms(1,2)] assms(3) by simp

lemma depth_limited_run_not_resumed:
  assumes "\<forall>t. date (iso_of t) = t"
    and "m = persisted_manifest now now_ms rendered evidence fz rc (finalizer_result now' now_ms' rendered' evidence' fz rc (fatalError rc))"
    and "rc_stop rc = Some (StopLimit LimSitemapIndexDepth)"
  shows "readResumeState date (manifest_json iso_of m) fingerprints policy = Inl (BadManifest (MalformedValue ''limit reason''))"
  unfolding resumed_from_persisted [OF assms(1,2)] assms(3) by simp

definition sample_finalizer :: finalizer where
  "sample_finalizer = \<lparr>fz_runId = ''r'', fz_startedAt = ''t'', fz_crawlerVersion = ''1'', fz_seeds = [],
     fz_outputDirectory = None, fz_storeRaw = False, fz_resumeFrom = None,
     fz_fingerprints = \<lparr>fp_exact = ''e'', fp_operational = ''o''\<rparr>,
     fz_runtime = \<lparr>rm_resultStorage = StoreFilesystem, rm_frontierBackend = FrontierJournal,
       rm_frontierOrder = OrderPriority, rm_httpProtocolPreference = PreferAuto, rm_httpCacheEnabled = False,
       rm_sessionEnabled = False, rm_persistedCookies = False, rm_renderer = None\<rparr>,
     fz_sensitive = False, fz_htmlParserVersion = None, fz_xmlParserVersion = None\<rparr>"

definition sample_manifest :: "stop_detail \<Rightarrow> run_manifest" where
  "sample_manifest d = (let rc = (new_controller 0)\<lparr>rc_stop := Some d\<rparr>; none = \<lparr>es_objects = 0, es_bytes = 0\<rparr> in
     persisted_manifest ''n'' 1 0 none sample_finalizer rc
       (finalizer_result ''n'' 1 0 none sample_finalizer rc (fatalError rc)))"

lemma resume_restores_run_witness:
  "readResumeState sample_date (manifest_json sample_iso (sample_manifest (StopCancelled ''c'')))
     \<lparr>fp_exact = ''other'', fp_operational = ''o''\<rparr> Operational = Inr (sample_manifest (StopCancelled ''c''), new_counters)"
  unfolding resume_restores_run [OF sample_date_iso sample_manifest_def [unfolded Let_def]]
  by (simp add: fingerprint_for_def sample_finalizer_def new_controller_def)

lemma manifest_read_exactly_witness:
  "parseRunManifest sample_date (manifest_json sample_iso (sample_manifest FrontierEmpty)) = Inr (sample_manifest FrontierEmpty)"
  unfolding manifest_read_exactly [OF sample_date_iso] readable_def
    persisted_parts [OF sample_manifest_def [unfolded Let_def]]
  by (simp add: fatalError_def)

end
