(* ===== verification/Fingerprint_Properties.thy ===== *)
theory Fingerprint_Properties
  imports Resume_Properties
begin

text \<open>
  Which changes of a configuration the fingerprints notice, and what this means for resuming: the
  operational fingerprint ignores exactly the operational settings, and the exact one never matches.
\<close>

section \<open>Objects up to the order of keys\<close>

definition same :: "json option \<Rightarrow> json option \<Rightarrow> bool" where
  "same a b \<longleftrightarrow> map_option canon a = map_option canon b"

abbreviation unique_keys :: "(string \<times> json) list \<Rightarrow> bool" where
  "unique_keys fs \<equiv> distinct (map fst fs)"

lemma canon_fields:
  assumes "unique_keys fs" "unique_keys gs"
  shows "canon (JObj fs) = canon (JObj gs) \<longleftrightarrow> (\<forall>k. same (field fs k) (field gs k))"
proof -
  let ?S = "\<lambda>fs. sort_key fst (map (map_prod id canon) fs)"
  have keys: "map fst (map (map_prod id canon) hs) = map fst hs" for hs by simp
  have unique: "distinct (map fst (?S hs))" if "unique_keys hs" for hs
    using that keys [of hs] by (metis distinct_map distinct_sort set_sort)
  have sets: "set (?S fs) = set (?S gs) \<longleftrightarrow> map_of (map (map_prod id canon) fs) = map_of (map (map_prod id canon) gs)"
    using assms by (simp only: set_sort map_of_inject_set keys)
  have looked_up: "map_of (map (map_prod id canon) hs) k = map_option canon (map_of hs k)" for hs :: "(string \<times> json) list" and k
    by (induction hs) auto
  have maps: "map_of (map (map_prod id canon) fs) = map_of (map (map_prod id canon) gs) \<longleftrightarrow> (\<forall>k. same (field fs k) (field gs k))"
    by (simp only: fun_eq_iff same_def field_def looked_up)
  have "?S fs = ?S gs" if "set (?S fs) = set (?S gs)"
  proof (rule map_sorted_distinct_set_unique [where f = fst])
    show "inj_on fst (set (?S fs) \<union> set (?S gs))"
      using unique [OF assms(1)] that by (simp only: distinct_map Un_absorb)
  qed (use that unique assms in \<open>simp_all del: set_sort\<close>)
  then show ?thesis using sets maps by (auto simp del: set_sort)
qed

lemma field_map_set: "field (map_set k v fs) k' = (if k' = k then Some v else field fs k')"
  by (simp add: field_def map_of_map_set)

lemma unique_map_set: "unique_keys fs \<Longrightarrow> unique_keys (map_set k v fs)"
  by (rule wf_map_set)

lemma spread_Cons: "spread base ((k, v) # changes) = spread (map_set k v base) changes"
  by (simp add: spread_def)

lemma unique_spread: "unique_keys base \<Longrightarrow> unique_keys (spread base changes)"
  by (induction changes arbitrary: base) (auto simp: spread_def unique_map_set)

lemma field_spread:
  "distinct (map fst changes) \<Longrightarrow> field (spread base changes) k = (case map_of changes k of Some v \<Rightarrow> Some v | None \<Rightarrow> field base k)"
proof (induction changes arbitrary: base)
  case (Cons change changes)
  obtain k' v where change: "change = (k', v)" by (cases change)
  have "map_of changes k' = None" using Cons.prems by (auto simp: change map_of_eq_None_iff)
  then show ?case using Cons by (auto simp: change spread_Cons field_map_set split: option.split)
qed (simp add: spread_def)

lemma spread_same:
  assumes "unique_keys fs" "unique_keys gs" "distinct (map fst changes)"
  shows "canon (JObj (spread fs changes)) = canon (JObj (spread gs changes)) \<longleftrightarrow>
    (\<forall>k. map_of changes k = None \<longrightarrow> same (field fs k) (field gs k))"
  unfolding canon_fields [OF unique_spread [OF assms(1)] unique_spread [OF assms(2)]] field_spread [OF assms(3)]
  by (auto simp: same_def split: option.split)

section \<open>Operational settings\<close>

definition settings_ok :: "(string \<times> json) list \<Rightarrow> bool" where
  "settings_ok c \<longleftrightarrow> unique_keys c \<and> (\<forall>k. unique_keys (fields_of (field c k)))"

text \<open>Two configurations agree in every setting that is not operational.\<close>

definition same_semantics :: "(string \<times> json) list \<Rightarrow> (string \<times> json) list \<Rightarrow> bool" where
  "same_semantics c c' \<longleftrightarrow>
     (\<forall>k. case map_of operational_changes k of
            None \<Rightarrow> same (field c k) (field c' k)
          | Some changes \<Rightarrow>
              \<forall>k'. map_of changes k' = None \<longrightarrow> same (field (fields_of (field c k)) k') (field (fields_of (field c' k)) k'))"

lemma operational_names: "distinct (map fst operational_changes)"
  by (simp add: operational_changes_def)

lemma operational_keys: "map_of operational_changes k = Some changes \<Longrightarrow> distinct (map fst changes)"
  by (auto simp: operational_changes_def split: if_splits)

lemma field_projection:
  "field (operationalProjection c) k =
     (case map_of operational_changes k of
        Some changes \<Rightarrow> Some (JObj (spread (fields_of (field c k)) changes)) | None \<Rightarrow> field c k)"
proof -
  have map_sections: "map fst (map (\<lambda>(name, changes). section_with c name changes) cs) = map fst cs"
    "map_of (map (\<lambda>(name, changes). section_with c name changes) cs) k =
       map_option (\<lambda>changes. JObj (spread (fields_of (field c k)) changes)) (map_of cs k)" for cs
    by (induction cs) (auto simp: section_with_def)
  show ?thesis
    unfolding operationalProjection_def
    by (subst field_spread) (use operational_names in \<open>auto simp: map_sections simp del: map_map split: option.split\<close>)
qed

lemma unique_projection: "settings_ok c \<Longrightarrow> unique_keys (operationalProjection c)"
  by (simp add: settings_ok_def operationalProjection_def unique_spread)

lemma projection_same:
  assumes "settings_ok c" "settings_ok c'"
  shows "canon (JObj (operationalProjection c)) = canon (JObj (operationalProjection c')) \<longleftrightarrow> same_semantics c c'"
proof -
  have sections: "same (Some (JObj (spread (fields_of (field c k)) changes))) (Some (JObj (spread (fields_of (field c' k)) changes))) \<longleftrightarrow>
      (\<forall>k'. map_of changes k' = None \<longrightarrow> same (field (fields_of (field c k)) k') (field (fields_of (field c' k)) k'))"
    if "map_of operational_changes k = Some changes" for k changes
  proof -
    have "unique_keys (fields_of (field c k))" "unique_keys (fields_of (field c' k))"
      using assms by (simp_all add: settings_ok_def)
    from spread_same [OF this operational_keys [OF that]] show ?thesis by (simp add: same_def del: canon.simps)
  qed
  show ?thesis
    unfolding canon_fields [OF unique_projection [OF assms(1)] unique_projection [OF assms(2)]] field_projection same_semantics_def
    by (intro all_cong1) (auto simp: sections split: option.split)
qed

text \<open>Values that are not the same have different digests.\<close>

definition no_collision :: "(string \<Rightarrow> string) \<Rightarrow> (json \<Rightarrow> string) \<Rightarrow> json \<Rightarrow> json \<Rightarrow> bool" where
  "no_collision sha json_text v w \<longleftrightarrow>
     (sha (stableStringify json_text v) = sha (stableStringify json_text w) \<longrightarrow> canon v = canon w)"

lemma digests_differ: "no_collision sha json_text v w \<Longrightarrow>
  (sha (stableStringify json_text v) = sha (stableStringify json_text w)) = (canon v = canon w)"
  by (auto simp: no_collision_def stableStringify_def)


section \<open>Resuming from a directory\<close>

lemma with_resumeFrom_field:
  "field (with_resumeFrom dir c) k =
     (if k = ''storage'' then Some (JObj (map_set ''resumeFrom'' (JStr dir) (fields_of (field c ''storage'')))) else field c k)"
  by (simp add: with_resumeFrom_def spread_def section_with_def field_map_set)

lemma with_resumeFrom_ok: "settings_ok c \<Longrightarrow> settings_ok (with_resumeFrom dir c)"
  unfolding settings_ok_def with_resumeFrom_field
  by (auto simp: with_resumeFrom_def spread_def section_with_def unique_map_set)

lemma resumeFrom_operational:
  assumes "settings_ok c"
  shows "same_semantics c (with_resumeFrom dir c)"
proof -
  have "map_of operational_changes ''storage'' \<noteq> None" "\<And>changes. map_of operational_changes ''storage'' = Some changes \<Longrightarrow> map_of changes ''resumeFrom'' \<noteq> None"
    by (auto simp: operational_changes_def)
  then show ?thesis
    unfolding same_semantics_def with_resumeFrom_field
    by (auto simp: same_def field_map_set split: option.split)
qed

lemma resumeFrom_noticed:
  assumes "settings_ok c" "field c ''storage'' = Some (JObj storage)" "field storage ''resumeFrom'' = Some JNull"
  shows "canon (JObj c) \<noteq> canon (JObj (with_resumeFrom dir c))"
proof
  assume "canon (JObj c) = canon (JObj (with_resumeFrom dir c))"
  then have "same (field c ''storage'') (field (with_resumeFrom dir c) ''storage'')"
    using canon_fields [of c "with_resumeFrom dir c"] with_resumeFrom_ok [OF assms(1), of dir] assms(1)
    by (simp add: settings_ok_def del: canon.simps)
  then have "canon (JObj storage) = canon (JObj (map_set ''resumeFrom'' (JStr dir) storage))"
    by (simp add: with_resumeFrom_field assms(2) same_def del: canon.simps)
  moreover have "unique_keys storage" using assms(1,2) unfolding settings_ok_def by (metis fields_of.simps(1))
  ultimately have "same (field storage ''resumeFrom'') (field (map_set ''resumeFrom'' (JStr dir) storage) ''resumeFrom'')"
    using canon_fields [of storage "map_set ''resumeFrom'' (JStr dir) storage"] unique_map_set [of storage] by (simp del: canon.simps)
  then show False by (simp add: assms(3) field_map_set same_def)
qed

text \<open>
  C13: Resuming with the configuration of the first run fails under the policy \<open>exact\<close>, which is the default,
  because the setting \<open>resumeFrom\<close> is part of the exact fingerprint; under the policy \<open>operational\<close> it
  succeeds. The run had not been resumed itself, and was stopped by neither a fatal error nor the
  limit of the sitemap index depth.
\<close>

theorem exact_policy_refuses_resume:
  assumes "\<forall>t. date (iso_of t) = t" and "settings_ok c"
    and "field c ''storage'' = Some (JObj storage)" "field storage ''resumeFrom'' = Some JNull"
    and "no_collision sha json_text (JObj c) (JObj (with_resumeFrom dir c))"
    and "fz_fingerprints fz = createConfigFingerprints sha json_text c" and "stumble (rc_stop rc) = None"
    and m: "m = persisted_manifest now now_ms rendered evidence fz rc (finalizer_result now' now_ms' rendered' evidence' fz rc (fatalError rc))"
  shows "readResumeState date (manifest_json iso_of m) (createConfigFingerprints sha json_text (with_resumeFrom dir c)) Exact =
      Inl (ConfigurationMismatch Exact) \<and>
    readResumeState date (manifest_json iso_of m) (createConfigFingerprints sha json_text (with_resumeFrom dir c)) Operational =
      Inr (m, rc_counters rc)"
proof -
  have "canon (JObj (operationalProjection c)) = canon (JObj (operationalProjection (with_resumeFrom dir c)))"
    using projection_same [OF assms(2) with_resumeFrom_ok [OF assms(2)]] resumeFrom_operational [OF assms(2)] by blast
  then have "fp_operational (createConfigFingerprints sha json_text c) =
      fp_operational (createConfigFingerprints sha json_text (with_resumeFrom dir c))"
    by (simp add: createConfigFingerprints_def stableStringify_def del: canon.simps)
  moreover have "fp_exact (createConfigFingerprints sha json_text c) \<noteq>
      fp_exact (createConfigFingerprints sha json_text (with_resumeFrom dir c))"
    using digests_differ [OF assms(5)] resumeFrom_noticed [OF assms(2,3,4), of dir]
    by (simp add: createConfigFingerprints_def del: canon.simps)
  ultimately show ?thesis
    unfolding resumed_from_persisted [OF assms(1) m] assms(6,7) by (simp add: fingerprint_for_def)
qed

section \<open>An example\<close>

definition sample_config :: "(string \<times> json) list" where
  "sample_config = [(''storage'', JObj [(''resumeFrom'', JNull), (''fsync'', JBool True)]), (''seeds'', JArr [])]"

definition sample_text :: "json \<Rightarrow> string" where
  "sample_text v = (if v = canon (JObj sample_config) then ''c'' else ''d'')"

lemma sample_config_ok: "settings_ok sample_config"
  by (simp add: settings_ok_def sample_config_def field_def)


lemma exact_policy_refuses_resume_witness:
  "readResumeState sample_date (manifest_json sample_iso
       (persisted_manifest ''n'' 1 0 \<lparr>es_objects = 0, es_bytes = 0\<rparr>
         (sample_finalizer\<lparr>fz_fingerprints := createConfigFingerprints id sample_text sample_config\<rparr>) (new_controller 0)
         (finalizer_result ''n'' 1 0 \<lparr>es_objects = 0, es_bytes = 0\<rparr>
           (sample_finalizer\<lparr>fz_fingerprints := createConfigFingerprints id sample_text sample_config\<rparr>) (new_controller 0)
           (fatalError (new_controller 0)))))
     (createConfigFingerprints id sample_text (with_resumeFrom ''d'' sample_config)) Exact = Inl (ConfigurationMismatch Exact)"
proof (rule exact_policy_refuses_resume [OF sample_date_iso sample_config_ok, THEN conjunct1])
  show "no_collision id sample_text (JObj sample_config) (JObj (with_resumeFrom ''d'' sample_config))"
    using resumeFrom_noticed [OF sample_config_ok, of "[(''resumeFrom'', JNull), (''fsync'', JBool True)]" "''d''"]
    by (auto simp: no_collision_def stableStringify_def sample_text_def sample_config_def field_def simp del: canon.simps)
qed (simp add: sample_config_def, simp_all add: new_controller_def)

end
