(* ===== verification/Json_Line_Sink.thy ===== *)
theory Json_Line_Sink
  imports Prelude
begin

text \<open>
  The buffered writer of result records, class \<open>JsonLineSink\<close> of \<open>storage/json-line-sink.ts\<close>, as used by
  concurrent calls. A call of \<open>write\<close>, \<open>flush\<close> or \<open>close\<close> has a ticket. It runs until its first
  \<open>await\<close> in one step; the end of a write to the file and the rest of the call that started it are one
  step, and so is the rest of a call that waited for it. Records are their lines, the text of
  \<open>JSON.stringify\<close> with a line end.
\<close>

section \<open>The sink\<close>

record sink =
  sn_buffer :: "string list"
  sn_flushing :: "nat option"                   \<comment> \<open>the promise \<open>flushing\<close>: the call that writes\<close>
  sn_closed :: bool
  sn_opened :: bool                             \<comment> \<open>\<open>handle !== null\<close>\<close>
  sn_flushEvery :: nat
  sn_pressure :: "nat list"                     \<comment> \<open>the calls of \<open>onBackpressure\<close>\<close>
  sn_running :: "(nat, string list) jsmap"      \<comment> \<open>calls that write, with their batch\<close>
  sn_waiting :: "(nat, nat) jsmap"              \<comment> \<open>calls that wait for the write of another one\<close>
  sn_closing :: "nat list"                      \<comment> \<open>calls of \<open>close\<close>\<close>
  sn_results :: "(nat, bool) jsmap"             \<comment> \<open>calls that have ended, and whether without an error\<close>
  sn_text :: string                             \<comment> \<open>the file\<close>

definition new_sink :: "nat \<Rightarrow> sink" where
  "new_sink flushEvery =
     \<lparr>sn_buffer = [], sn_flushing = None, sn_closed = False, sn_opened = False, sn_flushEvery = flushEvery,
      sn_pressure = [], sn_running = [], sn_waiting = [], sn_closing = [], sn_results = [], sn_text = []\<rparr>"

definition end_call :: "nat \<Rightarrow> bool \<Rightarrow> sink \<Rightarrow> sink" where
  "end_call t ok s = s\<lparr>sn_results := map_set t ok (sn_results s)\<rparr>"

text \<open>\<open>flush\<close> behind its first \<open>await\<close>: takes the buffer and starts \<open>writeBatch\<close>.\<close>

definition flush_batch :: "nat \<Rightarrow> sink \<Rightarrow> sink" where
  "flush_batch t s =
     (if sn_buffer s = [] then end_call t True s
      else s\<lparr>sn_buffer := [], sn_running := map_set t (sn_buffer s) (sn_running s), sn_flushing := Some t,
             sn_opened := True\<rparr>)"

definition sink_flush :: "nat \<Rightarrow> sink \<Rightarrow> sink" where
  "sink_flush t s =
     (case sn_flushing s of
        Some n \<Rightarrow> s\<lparr>sn_waiting := map_set t n (sn_waiting s)\<rparr>
      | None \<Rightarrow> flush_batch t s)"

definition pressure :: "sink \<Rightarrow> sink" where
  "pressure s = s\<lparr>sn_pressure := sn_pressure s @ [length (sn_buffer s)]\<rparr>"

definition sink_write :: "nat \<Rightarrow> string \<Rightarrow> sink \<Rightarrow> sink" where
  "sink_write t line s =
     (if sn_closed s then end_call t False s
      else
        let s = s\<lparr>sn_buffer := sn_buffer s @ [line]\<rparr>;
            s = (if sn_flushing s \<noteq> None then pressure s else s)
        in if sn_flushEvery s \<le> length (sn_buffer s) then sink_flush t (pressure s) else end_call t True s)"

definition sink_close :: "nat \<Rightarrow> sink \<Rightarrow> sink" where
  "sink_close t s =
     (if sn_closed s then end_call t True s else sink_flush t (s\<lparr>sn_closing := sn_closing s @ [t]\<rparr>))"

text \<open>The write of a batch ends: completely, or with an error after \<open>k\<close> characters.\<close>

datatype outcome = Written | FailedAfter nat

definition write_ends :: "nat \<Rightarrow> outcome \<Rightarrow> sink \<Rightarrow> sink" where
  "write_ends t result s =
     (case map_of (sn_running s) t of
        None \<Rightarrow> s
      | Some batch \<Rightarrow>
          let s = s\<lparr>sn_running := map_delete t (sn_running s), sn_flushing := None\<rparr>
          in case result of
               Written \<Rightarrow> end_call t True (s\<lparr>sn_text := sn_text s @ concat batch\<rparr>)
             | FailedAfter k \<Rightarrow> end_call t False
                 (s\<lparr>sn_text := sn_text s @ take k (concat batch), sn_buffer := batch @ sn_buffer s\<rparr>))"

text \<open>A call that waited continues once the write it waited for has ended, and fails if that failed.\<close>

definition resume_call :: "nat \<Rightarrow> sink \<Rightarrow> sink" where
  "resume_call t s =
     (case map_of (sn_waiting s) t of
        None \<Rightarrow> s
      | Some n \<Rightarrow>
          (case map_of (sn_results s) n of
             None \<Rightarrow> s
           | Some ok \<Rightarrow>
               let s = s\<lparr>sn_waiting := map_delete t (sn_waiting s)\<rparr>
               in if ok then flush_batch t s else end_call t False s))"

text \<open>\<open>close\<close> behind its \<open>flush\<close>.\<close>

definition close_ends :: "nat \<Rightarrow> sink \<Rightarrow> sink" where
  "close_ends t s =
     (if t \<in> set (sn_closing s) \<and> map_of (sn_results s) t = Some True
      then s\<lparr>sn_closed := True, sn_opened := False\<rparr> else s)"

datatype sink_event =
    Write string
  | Flush
  | Close
  | WriteEnds nat outcome
  | Resume nat
  | CloseEnds nat

text \<open>The ticket of a call is the number of the event that makes it.\<close>

fun sink_step :: "nat \<Rightarrow> sink_event \<Rightarrow> sink \<Rightarrow> sink" where
  "sink_step t (Write line) s = sink_write t line s"
| "sink_step t Flush s = sink_flush t s"
| "sink_step t Close s = sink_close t s"
| "sink_step t (WriteEnds n result) s = write_ends n result s"
| "sink_step t (Resume n) s = resume_call n s"
| "sink_step t (CloseEnds n) s = close_ends n s"

fun sink_run :: "nat \<Rightarrow> sink_event list \<Rightarrow> sink \<Rightarrow> sink" where
  "sink_run t [] s = s"
| "sink_run t (e # es) s = sink_run (Suc t) es (sink_step t e s)"

text \<open>The lines that the sink accepted.\<close>

fun accepted :: "nat \<Rightarrow> sink_event list \<Rightarrow> sink \<Rightarrow> string list" where
  "accepted t [] s = []"
| "accepted t (Write line # es) s = (if sn_closed s then [] else [line]) @ accepted (Suc t) es (sink_step t (Write line) s)"
| "accepted t (e # es) s = accepted (Suc t) es (sink_step t e s)"

end
