(* ===== verification/Result_Store.thy ===== *)
theory Result_Store
  imports Json_Line_Sink Evidence Run_Records
begin

text \<open>
  The stores of results: \<open>storage/filesystem-store.ts\<close> with one sink per kind of record and the
  content-addressed evidence, \<open>storage/memory-store.ts\<close>, and \<open>storage/redact-config.ts\<close>. The calls of a store
  are awaited one after another, and writes to files succeed; \<open>Json_Line_Sink\<close> has the interleavings and
  failures. A call gives its result and the store, which it may have changed before an error.
  \<open>json_text\<close> and \<open>json_pretty\<close> are \<open>JSON.stringify\<close> without and with indentation.
\<close>

section \<open>Redacted configuration\<close>

definition isSecretHeader :: "string \<Rightarrow> bool" where
  "isSecretHeader name \<longleftrightarrow> to_lower name \<in> {''authorization'', ''cookie'', ''proxy-authorization''}"

definition redacted :: json where
  "redacted = JStr ''[redacted]''"

fun items_of :: "json option \<Rightarrow> json list" where
  "items_of (Some (JArr vs)) = vs"
| "items_of v = []"

definition redact_items :: "string list \<Rightarrow> json list \<Rightarrow> json" where
  "redact_items secrets vs = JArr (map (\<lambda>v. JObj (spread (fields_of (Some v)) (map (\<lambda>k. (k, redacted)) secrets))) vs)"

definition redactConfig :: "(string \<times> json) list \<Rightarrow> (string \<times> json) list" where
  "redactConfig config =
     (let network = fields_of (field config ''network'');
          session = fields_of (field config ''session'');
          headers = foldl (\<lambda>out (k, v). map_set k (if isSecretHeader k then redacted else v) out) []
            (fields_of (field network ''headers''))
      in spread config
           [(''network'', JObj (spread network [(''headers'', JObj headers)])),
            (''session'', JObj (spread session
              [(''initialCookies'', redact_items [''cookie''] (items_of (field session ''initialCookies''))),
               (''basicAuth'', redact_items [''username'', ''password''] (items_of (field session ''basicAuth''))),
               (''bearerAuth'', redact_items [''token''] (items_of (field session ''bearerAuth'')))]))])"

section \<open>Records and files\<close>

datatype record_kind =
    KRequest | KRequestState | KDiscovery | KResource | KHtmlPage | KXmlResource | KSitemapEntry
  | KFeedEntry | KLink | KSkipped | KError | KRobots

fun record_file :: "record_kind \<Rightarrow> string" where
  "record_file KRequest = ''requests.ndjson''"
| "record_file KRequestState = ''request-states.ndjson''"
| "record_file KDiscovery = ''discoveries.ndjson''"
| "record_file KResource = ''resources.ndjson''"
| "record_file KHtmlPage = ''pages.ndjson''"
| "record_file KXmlResource = ''xml.ndjson''"
| "record_file KSitemapEntry = ''sitemaps.ndjson''"
| "record_file KFeedEntry = ''feeds.ndjson''"
| "record_file KLink = ''links.ndjson''"
| "record_file KSkipped = ''skipped.ndjson''"
| "record_file KError = ''errors.ndjson''"
| "record_file KRobots = ''robots.ndjson''"

datatype store_error = RecordRejected contract_error | EvidenceFailed evidence_error

type_synonym ('a, 's) stored = "(store_error, 'a) result \<times> 's"

type_synonym contract_index = "(string, runtime_contract) jsmap"

section \<open>The store in a directory\<close>

record file_store =
  fs_flushEvery :: nat
  fs_storeRawHtml :: bool
  fs_storeRawXml :: bool
  fs_writeRecords :: bool
  fs_sinks :: "(string, sink) jsmap"
  fs_documents :: "(string, string) jsmap"     \<comment> \<open>files that are replaced as a whole\<close>
  fs_evidence :: run_files
  fs_objects :: nat
  fs_bytes :: nat

definition new_file_store :: "nat \<Rightarrow> bool \<Rightarrow> bool \<Rightarrow> bool \<Rightarrow> file_store" where
  "new_file_store flushEvery rawHtml rawXml writeRecords =
     \<lparr>fs_flushEvery = flushEvery, fs_storeRawHtml = rawHtml, fs_storeRawXml = rawXml,
      fs_writeRecords = writeRecords, fs_sinks = [], fs_documents = [], fs_evidence = [], fs_objects = 0, fs_bytes = 0\<rparr>"

text \<open>A call of a sink that is awaited, with the write it may start.\<close>

definition sink_now :: "(nat \<Rightarrow> sink \<Rightarrow> sink) \<Rightarrow> sink \<Rightarrow> sink" where
  "sink_now call s = (let t = length (sn_results s) in write_ends t Written (call t s))"

definition file_append ::
  "contract_index \<Rightarrow> (json \<Rightarrow> string) \<Rightarrow> string \<Rightarrow> json \<Rightarrow> file_store \<Rightarrow> (unit, file_store) stored"
where
  "file_append idx json_text fileName v st =
     (if \<not> fs_writeRecords st then (Inr (), st)
      else case validatePersistedRecord idx v of
          Inl e \<Rightarrow> (Inl (RecordRejected e), st)
        | Inr _ \<Rightarrow>
            let sink = (case map_of (fs_sinks st) fileName of Some s \<Rightarrow> s | None \<Rightarrow> new_sink (fs_flushEvery st));
                line = json_text v @ [CHR 0x0A]
            in (Inr (), st\<lparr>fs_sinks := map_set fileName (sink_now (\<lambda>t. sink_write t line) sink) (fs_sinks st)\<rparr>))"

definition file_write ::
  "contract_index \<Rightarrow> (json \<Rightarrow> string) \<Rightarrow> record_kind \<Rightarrow> json \<Rightarrow> file_store \<Rightarrow> (unit, file_store) stored"
where
  "file_write idx json_text kind v st = file_append idx json_text (record_file kind) v st"

definition shouldStore :: "evidence_kind \<Rightarrow> file_store \<Rightarrow> bool" where
  "shouldStore kind st = (if kind = EvXml then fs_storeRawXml st else fs_storeRawHtml st)"

definition association_json :: "string \<Rightarrow> evidence_reference \<Rightarrow> string \<Rightarrow> json" where
  "association_json requestId reference now = JObj (schema_identity ''site-crawler.evidenceAssociation'' @
     [(''requestId'', JStr requestId), (''reference'', evidence_json reference), (''recordedAt'', JStr now)])"

definition persistEvidence ::
  "contract_index \<Rightarrow> (json \<Rightarrow> string) \<Rightarrow> byte_hash \<Rightarrow> string \<Rightarrow> string \<Rightarrow> evidence_kind \<Rightarrow> string \<Rightarrow> bytes
     \<Rightarrow> file_store \<Rightarrow> (evidence_reference, file_store) stored"
where
  "persistEvidence idx json_text sha now requestId kind mediaType content st =
     (case writeBytes sha now kind mediaType content (fs_evidence st) of
        Inl e \<Rightarrow> (Inl (EvidenceFailed e), st)
      | Inr ((reference, created), files) \<Rightarrow>
          let st = st\<lparr>fs_evidence := files\<rparr>;
              st = (if created
                    then st\<lparr>fs_objects := fs_objects st + 1, fs_bytes := fs_bytes st + nat (er_byteLength reference)\<rparr>
                    else st)
          in case file_append idx json_text ''evidence.ndjson'' (association_json requestId reference now) st of
               (Inl e, st) \<Rightarrow> (Inl e, st)
             | (Inr _, st) \<Rightarrow> (Inr reference, st))"

definition file_writeEvidence ::
  "contract_index \<Rightarrow> (json \<Rightarrow> string) \<Rightarrow> byte_hash \<Rightarrow> string \<Rightarrow> string \<Rightarrow> evidence_kind \<Rightarrow> string \<Rightarrow> bytes
     \<Rightarrow> file_store \<Rightarrow> (evidence_reference option, file_store) stored"
where
  "file_writeEvidence idx json_text sha now requestId kind mediaType content st =
     (if \<not> shouldStore kind st then (Inr None, st)
      else case persistEvidence idx json_text sha now requestId kind mediaType content st of
          (Inl e, st) \<Rightarrow> (Inl e, st) | (Inr r, st) \<Rightarrow> (Inr (Some r), st))"

definition file_evidenceStats :: "file_store \<Rightarrow> evidence_stats" where
  "file_evidenceStats st = \<lparr>es_objects = fs_objects st, es_bytes = fs_bytes st\<rparr>"

definition writeTextAtomic :: "string \<Rightarrow> string \<Rightarrow> file_store \<Rightarrow> file_store" where
  "writeTextAtomic fileName content st = st\<lparr>fs_documents := map_set fileName content (fs_documents st)\<rparr>"

definition writeJsonAtomic ::
  "contract_index \<Rightarrow> (json \<Rightarrow> string) \<Rightarrow> string \<Rightarrow> json \<Rightarrow> file_store \<Rightarrow> (unit, file_store) stored"
where
  "writeJsonAtomic idx json_pretty fileName v st =
     (case validatePersistedRecord idx v of
        Inl e \<Rightarrow> (Inl (RecordRejected e), st)
      | Inr _ \<Rightarrow> (Inr (), writeTextAtomic fileName (json_pretty v @ [CHR 0x0A]) st))"

definition file_init ::
  "contract_index \<Rightarrow> (json \<Rightarrow> string) \<Rightarrow> json \<Rightarrow> (string \<times> json) list \<Rightarrow> file_store \<Rightarrow> (unit, file_store) stored"
where
  "file_init idx json_pretty manifest config st =
     (case writeJsonAtomic idx json_pretty ''manifest.json'' manifest st of
        (Inl e, st) \<Rightarrow> (Inl e, st)
      | (Inr _, st) \<Rightarrow> writeJsonAtomic idx json_pretty ''config.resolved.json'' (JObj (redactConfig config)) st)"

definition file_flush :: "file_store \<Rightarrow> file_store" where
  "file_flush st = st\<lparr>fs_sinks := map (map_prod id (sink_now sink_flush)) (fs_sinks st)\<rparr>"

text \<open>\<open>close\<close> flushes and forgets the sinks; what it leaves of a sink is its file.\<close>

definition sink_close_now :: "sink \<Rightarrow> sink" where
  "sink_close_now s = (let t = length (sn_results s) in close_ends t (write_ends t Written (sink_close t s)))"

definition file_close :: "file_store \<Rightarrow> (string, string) jsmap \<times> file_store" where
  "file_close st = (map (\<lambda>(k, s). (k, sn_text (sink_close_now s))) (fs_sinks st), st\<lparr>fs_sinks := []\<rparr>)"

section \<open>The store in memory\<close>

record memory_store =
  ms_storeRawHtml :: bool
  ms_storeRawXml :: bool
  ms_records :: "json list"
  ms_snapshots :: "(string, bytes) jsmap"
  ms_bytes :: nat

definition new_memory_store :: "bool \<Rightarrow> bool \<Rightarrow> memory_store" where
  "new_memory_store rawHtml rawXml =
     \<lparr>ms_storeRawHtml = rawHtml, ms_storeRawXml = rawXml, ms_records = [], ms_snapshots = [], ms_bytes = 0\<rparr>"

definition memory_persist :: "contract_index \<Rightarrow> json \<Rightarrow> memory_store \<Rightarrow> (unit, memory_store) stored" where
  "memory_persist idx v st =
     (case validatePersistedRecord idx v of
        Inl e \<Rightarrow> (Inl (RecordRejected e), st)
      | Inr v \<Rightarrow> (Inr (), st\<lparr>ms_records := ms_records st @ [v]\<rparr>))"

definition memory_snapshot ::
  "byte_hash \<Rightarrow> string \<Rightarrow> evidence_kind \<Rightarrow> string \<Rightarrow> bytes \<Rightarrow> memory_store \<Rightarrow> evidence_reference \<times> memory_store"
where
  "memory_snapshot sha now kind mediaType content st =
     (let digest = sha content;
          st = (if map_of (ms_snapshots st) digest = None
                then st\<lparr>ms_bytes := ms_bytes st + length content\<rparr> else st)
      in (\<lparr>er_digest = digest, er_kind = kind, er_mediaType = mediaType, er_byteLength = int (length content),
           er_capture = Complete (int (length content)), er_relativePath = ''memory/evidence/sha256/'' @ digest,
           er_createdAt = now\<rparr>, st\<lparr>ms_snapshots := map_set digest content (ms_snapshots st)\<rparr>))"

definition memory_writeEvidence ::
  "byte_hash \<Rightarrow> string \<Rightarrow> evidence_kind \<Rightarrow> string \<Rightarrow> bytes \<Rightarrow> memory_store \<Rightarrow> evidence_reference option \<times> memory_store"
where
  "memory_writeEvidence sha now kind mediaType content st =
     (if \<not> (if kind = EvXml then ms_storeRawXml st else ms_storeRawHtml st) then (None, st)
      else let (r, st) = memory_snapshot sha now kind mediaType content st in (Some r, st))"

definition memory_evidenceStats :: "memory_store \<Rightarrow> evidence_stats" where
  "memory_evidenceStats st = \<lparr>es_objects = length (ms_snapshots st), es_bytes = ms_bytes st\<rparr>"

section \<open>Runs of a store\<close>

datatype store_op =
    PutRecord record_kind json
  | PutEvidence string string evidence_kind string bytes   \<comment> \<open>time, request, kind, media type, bytes\<close>

text \<open>The store after a sequence of calls; \<open>None\<close> when one of them fails.\<close>

fun file_run :: "contract_index \<Rightarrow> (json \<Rightarrow> string) \<Rightarrow> byte_hash \<Rightarrow> store_op list \<Rightarrow> file_store \<Rightarrow> file_store option" where
  "file_run idx json_text sha [] st = Some st"
| "file_run idx json_text sha (PutRecord kind v # ops) st =
     (case file_write idx json_text kind v st of (Inl e, _) \<Rightarrow> None | (Inr _, st) \<Rightarrow> file_run idx json_text sha ops st)"
| "file_run idx json_text sha (PutEvidence now requestId kind mediaType content # ops) st =
     (case file_writeEvidence idx json_text sha now requestId kind mediaType content st of
        (Inl e, _) \<Rightarrow> None | (Inr _, st) \<Rightarrow> file_run idx json_text sha ops st)"

fun memory_run :: "contract_index \<Rightarrow> byte_hash \<Rightarrow> store_op list \<Rightarrow> memory_store \<Rightarrow> memory_store option" where
  "memory_run idx sha [] st = Some st"
| "memory_run idx sha (PutRecord kind v # ops) st =
     (case memory_persist idx v st of (Inl e, _) \<Rightarrow> None | (Inr _, st) \<Rightarrow> memory_run idx sha ops st)"
| "memory_run idx sha (PutEvidence now requestId kind mediaType content # ops) st =
     memory_run idx sha ops (snd (memory_writeEvidence sha now kind mediaType content st))"

end
