(* ===== verification/Sink_Properties.thy ===== *)
theory Sink_Properties
  imports Json_Line_Sink
begin

text \<open>
  What the sink does to the records it accepts, for every interleaving of its calls: it holds them or
  has written them, and keeps their order as long as one write runs at a time. Two of its
  promises fail: a flush may end before the records are written, and a failed write may be repeated
  behind the part of it that reached the file.
\<close>

section \<open>Records that are held\<close>

definition held :: "sink \<Rightarrow> string multiset" where
  "held s = mset (sn_buffer s) + (\<Sum>batch\<leftarrow>map_values (sn_running s). mset batch)"

lemma sum_map_delete:
  fixes f :: "'v \<Rightarrow> 'a multiset"
  assumes "wf_map m" "map_of m k = Some v"
  shows "(\<Sum>x\<leftarrow>map_values m. f x) = f v + (\<Sum>x\<leftarrow>map_values (map_delete k m). f x)"
proof -
  have "image_mset f (mset (map_values m)) = image_mset f (add_mset v (mset (map_values (map_delete k m))))"
    using mset_map_values_delete [OF assms] by (rule arg_cong)
  then have "mset (map f (map_values m)) = mset (f v # map f (map_values (map_delete k m)))"
    by (simp only: mset_map mset.simps image_mset_add_mset)
  from arg_cong [OF this, of sum_mset] show ?thesis by (simp only: sum_mset_sum_list) simp
qed

text \<open>The lines that the events write.\<close>

fun written_by :: "sink_event \<Rightarrow> sink \<Rightarrow> string list" where
  "written_by (WriteEnds n Written) s = (case map_of (sn_running s) n of None \<Rightarrow> [] | Some batch \<Rightarrow> batch)"
| "written_by e s = []"

fun written :: "nat \<Rightarrow> sink_event list \<Rightarrow> sink \<Rightarrow> string list" where
  "written t [] s = []"
| "written t (e # es) s = written_by e s @ written (Suc t) es (sink_step t e s)"

fun accepted_by :: "sink_event \<Rightarrow> sink \<Rightarrow> string list" where
  "accepted_by (Write line) s = (if sn_closed s then [] else [line])"
| "accepted_by e s = []"

lemma accepted_Cons: "accepted t (e # es) s = accepted_by e s @ accepted (Suc t) es (sink_step t e s)"
  by (cases e) simp_all

text \<open>Calls that write or wait have distinct tickets, all of them older than the clock.\<close>

definition apart :: "nat \<Rightarrow> (nat \<Rightarrow> 'a option) \<Rightarrow> (nat \<Rightarrow> 'b option) \<Rightarrow> bool" where
  "apart t R W \<longleftrightarrow> dom R \<union> dom W \<subseteq> {..<t} \<and> dom R \<inter> dom W = {}"

lemma apart_fresh: "apart t R W \<Longrightarrow> R t = None \<and> W t = None"
  by (auto simp: apart_def domIff)

lemma apart_Suc: "apart t R W \<Longrightarrow> apart (Suc t) R W"
  by (auto simp: apart_def less_Suc_eq)

lemma apart_run: "apart t R W \<Longrightarrow> n \<le> t \<Longrightarrow> W n = None \<Longrightarrow> apart (Suc t) (R(n \<mapsto> b)) W"
  by (auto simp: apart_def less_Suc_eq_le le_less)

lemma apart_wait: "apart t R W \<Longrightarrow> apart (Suc t) R (W(t \<mapsto> m))"
  by (auto simp: apart_def less_Suc_eq)

lemma apart_drop: "apart t R W \<Longrightarrow> apart t (R(n := None)) W" "apart t R W \<Longrightarrow> apart t R (W(n := None))"
  by (auto simp: apart_def)

lemma apart_waiting: "apart t R W \<Longrightarrow> W n = Some m \<Longrightarrow> n \<le> t \<and> R n = None"
  by (fastforce simp: apart_def)

definition tickets_ok :: "nat \<Rightarrow> sink \<Rightarrow> bool" where
  "tickets_ok t s \<longleftrightarrow>
     wf_map (sn_running s) \<and> wf_map (sn_waiting s) \<and> apart t (map_of (sn_running s)) (map_of (sn_waiting s))"

text \<open>Errors of a write leave nothing in the file.\<close>

fun clean :: "sink_event \<Rightarrow> bool" where
  "clean (WriteEnds n (FailedAfter k)) = (k = 0)"
| "clean e = True"

lemma sink_selectors [simp]:
  "sn_buffer (end_call t ok s) = sn_buffer s" "sn_running (end_call t ok s) = sn_running s"
  "sn_waiting (end_call t ok s) = sn_waiting s" "sn_text (end_call t ok s) = sn_text s"
  "sn_flushing (end_call t ok s) = sn_flushing s" "sn_closed (end_call t ok s) = sn_closed s"
  "sn_flushEvery (end_call t ok s) = sn_flushEvery s"
  "sn_buffer (pressure s) = sn_buffer s" "sn_running (pressure s) = sn_running s"
  "sn_waiting (pressure s) = sn_waiting s" "sn_text (pressure s) = sn_text s"
  "sn_flushing (pressure s) = sn_flushing s" "sn_closed (pressure s) = sn_closed s"
  "sn_flushEvery (pressure s) = sn_flushEvery s"
  by (simp_all add: end_call_def pressure_def)

lemma flush_batch_running:
  "sn_running (flush_batch t s) = (if sn_buffer s = [] then sn_running s else map_set t (sn_buffer s) (sn_running s))"
  "sn_waiting (flush_batch t s) = sn_waiting s" "sn_text (flush_batch t s) = sn_text s"
  "sn_buffer (flush_batch t s) = []"
  by (simp_all add: flush_batch_def)

lemma sink_flush_fields:
  "sn_text (sink_flush t s) = sn_text s"
  "sn_waiting (sink_flush t s) = (case sn_flushing s of None \<Rightarrow> sn_waiting s | Some n \<Rightarrow> map_set t n (sn_waiting s))"
  by (simp_all add: sink_flush_def flush_batch_running split: option.split)

lemma held_flush_batch: "map_of (sn_running s) t = None \<Longrightarrow> held (flush_batch t s) = held s"
  unfolding held_def flush_batch_running by (simp add: map_set_new)

lemma held_simps [simp]:
  "held (end_call t ok s) = held s" "held (pressure s) = held s"
  "held (s\<lparr>sn_waiting := w\<rparr>) = held s" "held (s\<lparr>sn_closing := c\<rparr>) = held s"
  "held (s\<lparr>sn_closed := b, sn_opened := b'\<rparr>) = held s"
  "held (s\<lparr>sn_buffer := sn_buffer s @ [line]\<rparr>) = held s + {#line#}"
  by (simp_all add: held_def)

lemma held_sink_flush: "map_of (sn_running s) t = None \<Longrightarrow> held (sink_flush t s) = held s"
  by (simp add: sink_flush_def held_flush_batch split: option.split)

lemma tickets_fresh: "tickets_ok t s \<Longrightarrow> map_of (sn_running s) t = None \<and> map_of (sn_waiting s) t = None"
  by (auto simp: tickets_ok_def dest: apart_fresh)

lemma tickets_waiting:
  "tickets_ok t s \<Longrightarrow> map_of (sn_waiting s) n = Some m \<Longrightarrow> n \<le> t \<and> map_of (sn_running s) n = None"
  unfolding tickets_ok_def by (blast dest: apart_waiting)

lemma tickets_flush_batch:
  "tickets_ok t s \<Longrightarrow> n \<le> t \<Longrightarrow> map_of (sn_waiting s) n = None \<Longrightarrow> tickets_ok (Suc t) (flush_batch n s)"
  by (simp add: tickets_ok_def flush_batch_running apart_run apart_Suc)

lemma tickets_flush: "tickets_ok t s \<Longrightarrow> tickets_ok (Suc t) (sink_flush t s)"
  using tickets_flush_batch [of t s t] tickets_fresh [of t s]
  by (auto simp: sink_flush_def tickets_ok_def apart_wait split: option.split)

lemma tickets_fields:
  "sn_running s = sn_running s' \<Longrightarrow> sn_waiting s = sn_waiting s' \<Longrightarrow> tickets_ok t s \<Longrightarrow> tickets_ok t s'"
  by (simp add: tickets_ok_def)

lemma tickets_Suc: "tickets_ok t s \<Longrightarrow> tickets_ok (Suc t) s"
  by (simp add: tickets_ok_def apart_Suc)

lemma step_tickets:
  assumes "tickets_ok t s"
  shows "tickets_ok (Suc t) (sink_step t e s)"
proof (cases e)
  case (Write line)
  then show ?thesis using assms tickets_Suc [OF assms]
    by (auto simp: sink_write_def Let_def intro!: tickets_flush elim: tickets_fields [rotated 2])
next
  case Close
  then show ?thesis using assms tickets_Suc [OF assms]
    by (auto simp: sink_close_def intro!: tickets_flush elim: tickets_fields [rotated 2])
next
  case (WriteEnds n result)
  then show ?thesis using tickets_Suc [OF assms]
    by (auto simp: write_ends_def Let_def tickets_ok_def apart_drop split: option.split outcome.split)
next
  case (Resume n)
  show ?thesis
  proof (cases "map_of (sn_waiting s) n")
    case (Some m)
    let ?s = "s\<lparr>sn_waiting := map_delete n (sn_waiting s)\<rparr>"
    have ok: "tickets_ok t ?s" and n: "n \<le> t"
      using assms tickets_waiting [OF assms Some] by (auto simp: tickets_ok_def apart_drop)
    then have "tickets_ok (Suc t) (flush_batch n ?s)" by (rule tickets_flush_batch) simp
    moreover have "tickets_ok (Suc t) (end_call n False ?s)"
      using tickets_Suc [OF ok] by (rule tickets_fields [rotated 2]) simp_all
    ultimately show ?thesis using Some tickets_Suc [OF assms] Resume
      by (auto simp: resume_call_def Let_def split: option.split)
  qed (use tickets_Suc [OF assms] Resume in \<open>simp add: resume_call_def\<close>)
next
  case (CloseEnds n)
  then show ?thesis using tickets_Suc [OF assms] by (auto simp: close_ends_def elim: tickets_fields [rotated 2])
qed (simp add: tickets_flush [OF assms])

lemma step_held:
  assumes "tickets_ok t s"
  shows "held (sink_step t e s) + mset (written_by e s) = held s + mset (accepted_by e s)"
proof (cases e)
  case (Write line)
  then show ?thesis using tickets_fresh [OF assms] by (auto simp: sink_write_def Let_def held_sink_flush)
next
  case Close
  then show ?thesis using tickets_fresh [OF assms]
    by (auto simp: sink_close_def held_sink_flush)
next
  case (WriteEnds n result)
  show ?thesis
  proof (cases "map_of (sn_running s) n")
    case (Some batch)
    have "wf_map (sn_running s)" using assms by (simp add: tickets_ok_def)
    from sum_map_delete [OF this Some, of mset] show ?thesis using WriteEnds Some
      by (cases result) (simp_all add: write_ends_def Let_def held_def)
  qed (use WriteEnds in \<open>cases result; simp add: write_ends_def\<close>)
next
  case (Resume n)
  show ?thesis
  proof (cases "map_of (sn_waiting s) n")
    case (Some m)
    then have "map_of (sn_running s) n = None" using tickets_waiting [OF assms] by blast
    then have "held (flush_batch n (s\<lparr>sn_waiting := map_delete n (sn_waiting s)\<rparr>)) = held s"
      by (simp add: held_flush_batch)
    then show ?thesis using Resume Some
      by (auto simp: resume_call_def Let_def split: option.split)
  qed (simp add: Resume resume_call_def)
next
  case (CloseEnds n)
  then show ?thesis by (auto simp: close_ends_def)
qed (use tickets_fresh [OF assms] in \<open>simp add: held_sink_flush\<close>)

lemma step_text: "clean e \<Longrightarrow> sn_text (sink_step t e s) = sn_text s @ concat (written_by e s)"
  by (cases e rule: clean.cases)
    (auto simp: sink_write_def sink_close_def write_ends_def resume_call_def close_ends_def Let_def sink_flush_fields
      flush_batch_running split: option.split)

lemma run_accounts:
  "tickets_ok t s \<Longrightarrow> held (sink_run t es s) + mset (written t es s) = held s + mset (accepted t es s)"
proof (induction es arbitrary: t s)
  case (Cons e es)
  let ?s = "sink_step t e s"
  have "held (sink_run (Suc t) es ?s) + mset (written (Suc t) es ?s) = held ?s + mset (accepted (Suc t) es ?s)"
    using Cons.IH [OF step_tickets [OF Cons.prems]] .
  with step_held [OF Cons.prems, of e] show ?case unfolding accepted_Cons by (simp add: ac_simps)
qed simp

lemma run_text: "list_all clean es \<Longrightarrow> sn_text (sink_run t es s) = sn_text s @ concat (written t es s)"
  by (induction es arbitrary: t s) (simp_all add: step_text)

lemma new_sink_ok: "tickets_ok t (new_sink n)" "held (new_sink n) = {#}" "sn_text (new_sink n) = []"
  by (simp_all add: tickets_ok_def held_def new_sink_def apart_def)

text \<open>
  C27: No record is lost, doubled or made up, however the calls of the sink interleave: as long as a failed write
  leaves nothing in the file, the file is the text of some lines, and these lines with the ones that
  are buffered or being written are the lines that were accepted.
\<close>

theorem sink_loses_nothing:
  assumes "list_all clean es"
  shows "\<exists>lines. sn_text (sink_run 0 es (new_sink n)) = concat lines \<and>
    held (sink_run 0 es (new_sink n)) + mset lines = mset (accepted 0 es (new_sink n))"
  using run_accounts [OF new_sink_ok(1)] run_text [OF assms]
  by (intro exI [of _ "written 0 es (new_sink n)"]) (simp add: new_sink_ok)

lemma sink_loses_nothing_witness:
  "\<exists>lines. sn_text (sink_run 0 [Write ''a'', Flush, Write ''b'', WriteEnds 1 (FailedAfter 0), Flush] (new_sink 9)) = concat lines \<and>
    held (sink_run 0 [Write ''a'', Flush, Write ''b'', WriteEnds 1 (FailedAfter 0), Flush] (new_sink 9)) + mset lines =
      {#''a'', ''b''#}"
  using sink_loses_nothing [of "[Write ''a'', Flush, Write ''b'', WriteEnds 1 (FailedAfter 0), Flush]" 9]
  by (simp add: new_sink_def sink_write_def sink_flush_def flush_batch_def write_ends_def end_call_def Let_def)

section \<open>Order\<close>

text \<open>The file as it will be when everything that is held has been written in order.\<close>

definition ordered :: "sink \<Rightarrow> string" where
  "ordered s = sn_text s @ concat (concat (map_values (sn_running s))) @ concat (sn_buffer s)"

fun one_at_a_time :: "nat \<Rightarrow> sink_event list \<Rightarrow> sink \<Rightarrow> bool" where
  "one_at_a_time t [] s = (length (sn_running s) \<le> 1)"
| "one_at_a_time t (e # es) s = (length (sn_running s) \<le> 1 \<and> one_at_a_time (Suc t) es (sink_step t e s))"

lemma one_at_a_time_now: "one_at_a_time t es s \<Longrightarrow> length (sn_running s) \<le> 1"
  by (cases es) simp_all

lemma ordered_simps [simp]:
  "ordered (end_call t ok s) = ordered s" "ordered (pressure s) = ordered s"
  "ordered (s\<lparr>sn_waiting := w\<rparr>) = ordered s" "ordered (s\<lparr>sn_closing := c\<rparr>) = ordered s"
  "ordered (s\<lparr>sn_closed := b, sn_opened := b'\<rparr>) = ordered s"
  "ordered (s\<lparr>sn_buffer := sn_buffer s @ [line]\<rparr>) = ordered s @ line"
  by (simp_all add: ordered_def)

lemma ordered_flush_batch:
  assumes "map_of (sn_running s) t = None" "length (sn_running (flush_batch t s)) \<le> 1"
  shows "ordered (flush_batch t s) = ordered s"
proof (cases "sn_buffer s = []")
  case False
  then have "sn_running s = []" using assms by (simp add: flush_batch_running map_set_new)
  then show ?thesis by (simp add: ordered_def flush_batch_running)
qed (simp add: flush_batch_def)

lemma ordered_sink_flush:
  "map_of (sn_running s) t = None \<Longrightarrow> length (sn_running (sink_flush t s)) \<le> 1 \<Longrightarrow> ordered (sink_flush t s) = ordered s"
  by (auto simp: sink_flush_def ordered_flush_batch split: option.splits)

lemma single_map: "map_of m n = Some v \<Longrightarrow> length m \<le> 1 \<Longrightarrow> m = [(n, v)]"
  by (cases m) (auto split: if_splits)

lemma step_ordered:
  assumes "tickets_ok t s" "clean e" "length (sn_running s) \<le> 1" "length (sn_running (sink_step t e s)) \<le> 1"
  shows "ordered (sink_step t e s) = ordered s @ concat (accepted_by e s)"
proof (cases e)
  case (Write line)
  then show ?thesis using assms(4) tickets_fresh [OF assms(1)]
    by (auto simp: sink_write_def Let_def ordered_sink_flush)
next
  case Close
  then show ?thesis using assms(4) tickets_fresh [OF assms(1)] by (auto simp: sink_close_def ordered_sink_flush)
next
  case (WriteEnds n result)
  show ?thesis
  proof (cases "map_of (sn_running s) n")
    case (Some batch)
    from single_map [OF this assms(3)] show ?thesis using WriteEnds assms(2)
      by (cases result) (simp_all add: write_ends_def Let_def ordered_def)
  qed (simp add: WriteEnds write_ends_def)
next
  case (Resume n)
  show ?thesis
  proof (cases "map_of (sn_waiting s) n")
    case (Some m)
    then have "map_of (sn_running s) n = None" using tickets_waiting [OF assms(1)] by blast
    then show ?thesis using Resume Some assms(4)
      by (auto simp: resume_call_def Let_def ordered_flush_batch split: option.splits if_splits)
  qed (simp add: Resume resume_call_def)
next
  case (CloseEnds n)
  then show ?thesis by (auto simp: close_ends_def)
qed (use assms(4) tickets_fresh [OF assms(1)] in \<open>simp add: ordered_sink_flush\<close>)

lemma run_ordered:
  "tickets_ok t s \<Longrightarrow> list_all clean es \<Longrightarrow> one_at_a_time t es s \<Longrightarrow>
     ordered (sink_run t es s) = ordered s @ concat (accepted t es s)"
proof (induction es arbitrary: t s)
  case (Cons e es)
  then have "length (sn_running (sink_step t e s)) \<le> 1" by (auto dest: one_at_a_time_now)
  then have "ordered (sink_step t e s) = ordered s @ concat (accepted_by e s)"
    using Cons.prems by (intro step_ordered) simp_all
  with Cons step_tickets [OF Cons.prems(1), of e] show ?case unfolding accepted_Cons by simp
qed simp

text \<open>
  While no two writes to the file run at the same time, the records reach it in the order in which they were
  accepted: the file, the batch that is being written and the buffer together are the accepted
  lines in order, also after failed writes that are repeated.
\<close>

theorem sink_keeps_order:
  assumes "list_all clean es" "one_at_a_time 0 es (new_sink n)"
  shows "ordered (sink_run 0 es (new_sink n)) = concat (accepted 0 es (new_sink n))"
  using run_ordered [OF new_sink_ok(1) assms] by (simp add: ordered_def new_sink_def)

lemmas sink_unfolds = new_sink_def sink_write_def sink_flush_def sink_close_def flush_batch_def write_ends_def
  resume_call_def close_ends_def end_call_def pressure_def Let_def

lemma sink_keeps_order_witness:
  "ordered (sink_run 0 [Write ''a'', Flush, Write ''b'', WriteEnds 1 (FailedAfter 0), Write ''c'', Flush] (new_sink 9)) = ''abc''"
  by (subst sink_keeps_order) (simp_all add: sink_unfolds)

section \<open>What the sink does not promise\<close>

text \<open>
  Two calls of \<open>flush\<close> wait for a write. When it has ended, the first of them takes the buffer and starts to
  write it; the second finds the buffer empty and ends, although the record that was accepted before it was
  called is not in the file yet.
\<close>

lemma flush_ends_early:
  defines "s \<equiv> sink_run 0 [Write ''a'', Flush, Write ''b'', Flush, Flush, WriteEnds 1 Written, Resume 3, Resume 4] (new_sink 9)"
  shows "map_of (sn_results s) 4 = Some True" "sn_text s = ''a''" "sn_running s = [(3, [''b''])]"
  by (simp_all add: s_def sink_unfolds)

text \<open>With a record in between, the second call starts another write beside the first, which may overtake it.\<close>

lemma writes_overtake:
  "sn_text (sink_run 0 [Write ''a'', Flush, Write ''b'', Flush, Flush, WriteEnds 1 Written, Resume 3, Write ''c'', Resume 4,
     WriteEnds 4 Written, WriteEnds 3 Written] (new_sink 9)) = ''acb''"
  by (simp add: sink_unfolds)

text \<open>
  A write that fails in the middle is repeated from its beginning by the next flush: the part of it that
  reached the file stays there, and a line that was torn is glued to the first line of the batch.
\<close>

lemma failed_write_torn:
  "sn_text (sink_run 0 [Write line, Flush, WriteEnds 1 (FailedAfter k), Flush, WriteEnds 3 Written] (new_sink 9)) =
    take k line @ line"
  by (simp add: sink_unfolds)

end
