(* ===== verification/Store_Properties.thy ===== *)
theory Store_Properties
  imports Result_Store Sink_Properties Fingerprint_Properties
begin

text \<open>
  The two stores of results keep the same records and count the same evidence, and the stored
  configuration has no secrets.
\<close>

section \<open>Sinks that are used by one call after another\<close>

definition idle :: "sink \<Rightarrow> bool" where
  "idle s \<longleftrightarrow> sn_running s = [] \<and> sn_flushing s = None \<and> \<not> sn_closed s"

definition content :: "sink \<Rightarrow> string" where
  "content s = sn_text s @ concat (sn_buffer s)"

lemma idle_new: "idle (new_sink n)" "content (new_sink n) = []"
  by (simp_all add: idle_def content_def new_sink_def)

lemma idle_write:
  assumes "idle s"
  shows "idle (sink_now (\<lambda>t. sink_write t line) s)" "content (sink_now (\<lambda>t. sink_write t line) s) = content s @ line"
  using assms
  by (simp_all add: sink_now_def idle_def content_def sink_write_def sink_flush_def flush_batch_def write_ends_def
    end_call_def pressure_def Let_def)

lemma idle_flush:
  assumes "idle s"
  shows "idle (sink_now sink_flush s)" "content (sink_now sink_flush s) = content s" "sn_text (sink_now sink_flush s) = content s"
  using assms
  by (simp_all add: sink_now_def idle_def content_def sink_flush_def flush_batch_def write_ends_def end_call_def Let_def)

lemma idle_close: "idle s \<Longrightarrow> sn_text (sink_close_now s) = content s"
  by (simp add: sink_close_now_def idle_def content_def sink_close_def sink_flush_def flush_batch_def write_ends_def
    close_ends_def end_call_def Let_def)

section \<open>Files of records\<close>

definition sinks_idle :: "file_store \<Rightarrow> bool" where
  "sinks_idle st \<longleftrightarrow> (\<forall>f s. map_of (fs_sinks st) f = Some s \<longrightarrow> idle s)"

text \<open>What the file of a name has got so far, including what is still buffered.\<close>

definition file_content :: "string \<Rightarrow> file_store \<Rightarrow> string" where
  "file_content f st = (case map_of (fs_sinks st) f of None \<Rightarrow> [] | Some s \<Rightarrow> content s)"

lemma file_append_effect:
  assumes "file_append idx json_text f v st = (Inr u, st')" "fs_writeRecords st" "sinks_idle st"
  shows "(\<exists>v'. validatePersistedRecord idx v = Inr v') \<and> sinks_idle st' \<and>
    file_content g st' = file_content g st @ (if g = f then json_text v @ [CHR 0x0A] else [])"
    "fs_evidence st' = fs_evidence st" "fs_objects st' = fs_objects st" "fs_bytes st' = fs_bytes st"
    "fs_writeRecords st' = fs_writeRecords st" "fs_storeRawHtml st' = fs_storeRawHtml st"
    "fs_storeRawXml st' = fs_storeRawXml st"
  using assms
  by (auto simp: file_append_def Let_def sinks_idle_def file_content_def idle_write idle_new split: sum.splits option.splits if_splits)

lemma record_file_inj: "record_file k = record_file k' \<longleftrightarrow> k = k'"
  by (cases k; cases k') simp_all

lemma record_file_not_evidence: "record_file k \<noteq> ''evidence.ndjson''"
  by (cases k) simp_all

section \<open>Both stores\<close>

fun records_of :: "store_op list \<Rightarrow> json list" where
  "records_of [] = []"
| "records_of (PutRecord kind v # ops) = v # records_of ops"
| "records_of (op # ops) = records_of ops"

fun kind_records :: "record_kind \<Rightarrow> store_op list \<Rightarrow> json list" where
  "kind_records k [] = []"
| "kind_records k (PutRecord kind v # ops) = (if kind = k then v # kind_records k ops else kind_records k ops)"
| "kind_records k (op # ops) = kind_records k ops"

definition lines_text :: "(json \<Rightarrow> string) \<Rightarrow> json list \<Rightarrow> string" where
  "lines_text json_text vs = concat (map (\<lambda>v. json_text v @ [CHR 0x0A]) vs)"

text \<open>The evidence of the directory is the one in memory, under the path of its digest.\<close>

definition same_evidence :: "file_store \<Rightarrow> memory_store \<Rightarrow> bool" where
  "same_evidence st ms \<longleftrightarrow>
     (\<forall>d. is_digest d \<longrightarrow> map_of (fs_evidence st) (relativeObjectPath d) = map_of (ms_snapshots ms) d) \<and>
     fs_objects st = length (ms_snapshots ms) \<and> fs_bytes st = ms_bytes ms \<and>
     fs_storeRawHtml st = ms_storeRawHtml ms \<and> fs_storeRawXml st = ms_storeRawXml ms"

lemma object_path_inj:
  assumes "is_digest d" "is_digest d'"
  shows "relativeObjectPath d = relativeObjectPath d' \<longleftrightarrow> d = d'"
proof
  assume "relativeObjectPath d = relativeObjectPath d'"
  then have "split_on (CHR ''/'') (relativeObjectPath d) = split_on (CHR ''/'') (relativeObjectPath d')" by simp
  then show "d = d'" unfolding object_path_segments [OF assms(1)] object_path_segments [OF assms(2)] by simp
qed simp

lemma evidence_step:
  assumes sha: "hash_ok sha" and same: "same_evidence st ms" and idle: "sinks_idle st" "fs_writeRecords st"
    and ok: "file_writeEvidence idx json_text sha now requestId kind mediaType bytes st = (Inr r, st')"
  shows "same_evidence st' (snd (memory_writeEvidence sha now kind mediaType bytes ms)) \<and> sinks_idle st' \<and> fs_writeRecords st' \<and>
    (f \<noteq> ''evidence.ndjson'' \<longrightarrow> file_content f st' = file_content f st) \<and>
    ms_records (snd (memory_writeEvidence sha now kind mediaType bytes ms)) = ms_records ms"
proof (cases "shouldStore kind st")
  case False
  then show ?thesis using same idle ok
    by (auto simp: file_writeEvidence_def memory_writeEvidence_def shouldStore_def same_evidence_def split: if_splits)
next
  case True
  let ?p = "relativeObjectPath (sha bytes)"
  have digest: "is_digest (sha bytes)" using sha by (simp add: hash_ok_def)
  obtain reference created files where written: "writeBytes sha now kind mediaType bytes (fs_evidence st) = Inr ((reference, created), files)"
    using ok True by (auto simp: file_writeEvidence_def persistEvidence_def split: sum.splits prod.splits)
  have r: "er_byteLength reference = int (length bytes)" using written_object(2) [OF written] by simp
  define mid where "mid = (let st = st\<lparr>fs_evidence := files\<rparr>
     in if created then st\<lparr>fs_objects := fs_objects st + 1, fs_bytes := fs_bytes st + nat (er_byteLength reference)\<rparr> else st)"
  have appended: "file_append idx json_text ''evidence.ndjson'' (association_json requestId reference now) mid = (Inr (), st')"
    using ok True written unfolding file_writeEvidence_def persistEvidence_def mid_def
    by (auto simp: Let_def split: sum.splits prod.splits)
  have mid: "sinks_idle mid" "fs_writeRecords mid" "fs_sinks mid = fs_sinks st"
    using idle by (auto simp: mid_def sinks_idle_def Let_def)
  note effect = file_append_effect [OF appended mid(2,1)]
  have fresh: "created \<longleftrightarrow> map_of (ms_snapshots ms) (sha bytes) = None"
    and files: "files = (if created then map_set ?p bytes (fs_evidence st) else fs_evidence st)"
    and kept: "\<not> created \<Longrightarrow> map_of (fs_evidence st) ?p = Some bytes"
    using written same digest
    by (auto simp: writeBytes_def writeOnce_def Let_def same_evidence_def split: option.splits if_splits)
  have paths: "map_of files (relativeObjectPath d) = map_of (map_set (sha bytes) bytes (ms_snapshots ms)) d" if "is_digest d" for d
  proof -
    have "map_of (fs_evidence st) (relativeObjectPath d) = map_of (ms_snapshots ms) d"
      using same that by (simp add: same_evidence_def)
    then show ?thesis using object_path_inj [OF that digest] kept by (auto simp: files)
  qed
  have mem: "snd (memory_writeEvidence sha now kind mediaType bytes ms) =
      ms\<lparr>ms_bytes := (if created then ms_bytes ms + length bytes else ms_bytes ms),
         ms_snapshots := map_set (sha bytes) bytes (ms_snapshots ms)\<rparr>"
    using True same fresh
    by (auto simp: memory_writeEvidence_def memory_snapshot_def shouldStore_def same_evidence_def Let_def)
  have counts: "fs_objects mid = length (map_set (sha bytes) bytes (ms_snapshots ms))"
    "fs_bytes mid = (if created then ms_bytes ms + length bytes else ms_bytes ms)"
    using same fresh r by (auto simp: mid_def Let_def same_evidence_def length_map_set)
  have fields: "fs_evidence mid = files" "fs_storeRawHtml mid = fs_storeRawHtml st" "fs_storeRawXml mid = fs_storeRawXml st"
    by (simp_all add: mid_def Let_def)
  have "same_evidence st' (snd (memory_writeEvidence sha now kind mediaType bytes ms))"
    unfolding mem same_evidence_def using effect counts fields paths same by (simp add: same_evidence_def)
  moreover have "sinks_idle st'" "fs_writeRecords st'" using effect mid(2) by auto
  moreover have "file_content f st' = file_content f st" if "f \<noteq> ''evidence.ndjson''"
    using effect(1) [of f] that mid(3) by (simp add: file_content_def)
  ultimately show ?thesis unfolding mem by simp
qed

lemma stores_run:
  assumes "hash_ok sha" "same_evidence st ms" "sinks_idle st" "fs_writeRecords st"
    and "file_run idx json_text sha ops st = Some st'"
  shows "\<exists>ms' vs. memory_run idx sha ops ms = Some ms' \<and> same_evidence st' ms' \<and> sinks_idle st' \<and>
    ms_records ms' = ms_records ms @ vs \<and> list_all2 (\<lambda>v v'. validatePersistedRecord idx v = Inr v') (records_of ops) vs \<and>
    (\<forall>k. file_content (record_file k) st' = file_content (record_file k) st @ lines_text json_text (kind_records k ops))"
  using assms(2-5)
proof (induction ops arbitrary: st ms)
  case Nil
  then show ?case by (auto simp: lines_text_def)
next
  case (Cons op ops)
  show ?case
  proof (cases op)
    case (PutRecord kind v)
    obtain u mid where written: "file_write idx json_text kind v st = (Inr u, mid)" and rest: "file_run idx json_text sha ops mid = Some st'"
      using Cons.prems(4) unfolding PutRecord by (auto split: prod.splits sum.splits)
    note effect = file_append_effect [OF written [unfolded file_write_def] Cons.prems(3,2)]
    obtain v' where v': "validatePersistedRecord idx v = Inr v'" using effect(1) by blast
    let ?ms = "ms\<lparr>ms_records := ms_records ms @ [v']\<rparr>"
    have "same_evidence mid ?ms" using Cons.prems(1) effect by (simp add: same_evidence_def)
    from Cons.IH [OF this _ _ rest] effect(1,5) Cons.prems(3) obtain ms' vs where
      "memory_run idx sha ops ?ms = Some ms'" "same_evidence st' ms'" "sinks_idle st'" "ms_records ms' = ms_records ?ms @ vs"
      "list_all2 (\<lambda>v v'. validatePersistedRecord idx v = Inr v') (records_of ops) vs"
      "\<forall>k. file_content (record_file k) st' = file_content (record_file k) mid @ lines_text json_text (kind_records k ops)"
      by blast
    then show ?thesis using v' effect(1) unfolding PutRecord
      by (intro exI [of _ ms'] exI [of _ "v' # vs"]) (auto simp: memory_persist_def lines_text_def record_file_inj)
  next
    case (PutEvidence now requestId kind mediaType bytes)
    obtain r mid where written: "file_writeEvidence idx json_text sha now requestId kind mediaType bytes st = (Inr r, mid)"
      and rest: "file_run idx json_text sha ops mid = Some st'"
      using Cons.prems(4) unfolding PutEvidence by (auto split: prod.splits sum.splits)
    note step = evidence_step [OF assms(1) Cons.prems(1,2,3) written]
    have "file_content (record_file k) mid = file_content (record_file k) st" for k
      using step [of "record_file k"] record_file_not_evidence by blast
    moreover from Cons.IH [OF _ _ _ rest] step obtain ms' vs where
      "memory_run idx sha ops (snd (memory_writeEvidence sha now kind mediaType bytes ms)) = Some ms'" "same_evidence st' ms'"
      "sinks_idle st'" "ms_records ms' = ms_records ms @ vs"
      "list_all2 (\<lambda>v v'. validatePersistedRecord idx v = Inr v') (records_of ops) vs"
      "\<forall>k. file_content (record_file k) st' = file_content (record_file k) mid @ lines_text json_text (kind_records k ops)"
      by metis
    ultimately show ?thesis unfolding PutEvidence by auto
  qed
qed

lemma file_flush_content:
  assumes "sinks_idle st"
  shows "map_of (fs_sinks (file_flush st)) f = map_option (sink_now sink_flush) (map_of (fs_sinks st) f)"
proof -
  have "map_of (map (map_prod id g) m) f = map_option g (map_of m f)" for g :: "sink \<Rightarrow> sink" and m
    by (induction m) auto
  then show ?thesis by (simp add: file_flush_def)
qed


text \<open>An index of contracts that accepts every record of one schema.\<close>

definition sample_contract :: runtime_contract where
  "sample_contract = \<lparr>rt_name = ''s'', rt_schemaId = ''s'', rt_parse = Inr\<rparr>"

definition sample_record :: json where
  "sample_record = JObj (schema_identity ''s'')"

lemma sample_accepted: "validatePersistedRecord [(''s'', sample_contract)] sample_record = Inr sample_record"
  by (simp add: validatePersistedRecord_def isSchemaVersion_def sample_record_def sample_contract_def schema_identity_def)

lemma sample_file_run:
  "\<exists>st. file_run [(''s'', sample_contract)] (\<lambda>v. ''j'') sample_sha [PutRecord KLink sample_record, PutRecord KError sample_record]
     (new_file_store 9 True True True) = Some st"
  by (simp add: file_write_def file_append_def sample_accepted new_file_store_def Let_def)


section \<open>Secrets\<close>

definition headers_of :: "(string \<times> json) list \<Rightarrow> (string \<times> json) list" where
  "headers_of config = fields_of (field (fields_of (field config ''network'')) ''headers'')"

definition session_items :: "string \<Rightarrow> (string \<times> json) list \<Rightarrow> json list" where
  "session_items name config = items_of (field (fields_of (field config ''session'')) name)"

lemma foldl_headers:
  "map_of (foldl (\<lambda>out (k, v). map_set k (if isSecretHeader k then redacted else v) out) out hs) name =
     (case map_of (rev hs) name of Some v \<Rightarrow> Some (if isSecretHeader name then redacted else v) | None \<Rightarrow> map_of out name)"
proof (induction hs arbitrary: out)
  case (Cons h hs)
  obtain k v where h: "h = (k, v)" by (cases h)
  show ?case unfolding h by (auto simp: Cons.IH map_add_def split: option.split)
qed simp

lemma redacted_network:
  "field (redactConfig config) ''network'' = Some (JObj (spread (fields_of (field config ''network''))
     [(''headers'', JObj (foldl (\<lambda>out (k, v). map_set k (if isSecretHeader k then redacted else v) out) [] (headers_of config)))]))"
  unfolding redactConfig_def Let_def headers_of_def by (subst field_spread) simp_all

lemma redacted_session:
  "field (redactConfig config) ''session'' = Some (JObj (spread (fields_of (field config ''session''))
      [(''initialCookies'', redact_items [''cookie''] (session_items ''initialCookies'' config)),
       (''basicAuth'', redact_items [''username'', ''password''] (session_items ''basicAuth'' config)),
       (''bearerAuth'', redact_items [''token''] (session_items ''bearerAuth'' config))]))"
  unfolding redactConfig_def Let_def session_items_def by (subst field_spread) simp_all

lemma redact_items_hidden:
  assumes "e \<in> set (items_of (Some (redact_items secrets vs)))" "k \<in> set secrets" "distinct secrets"
  shows "field (fields_of (Some e)) k = Some redacted"
proof -
  obtain v where e: "e = JObj (spread (fields_of (Some v)) (map (\<lambda>k. (k, redacted)) secrets))"
    using assms(1) by (auto simp: redact_items_def)
  have keys: "map fst (map (\<lambda>k. (k, redacted)) secrets) = secrets" by (induction secrets) simp_all
  have "map_of (map (\<lambda>k. (k, redacted)) secrets) k = Some redacted"
    using assms(2) by (induction secrets) auto
  then show ?thesis unfolding e fields_of.simps using field_spread [of "map (\<lambda>k. (k, redacted)) secrets"] assms(3) keys by simp
qed


definition secret_config :: "(string \<times> json) list" where
  "secret_config = [(''network'', JObj [(''headers'', JObj [(''Cookie'', JStr ''s''), (''Accept'', JStr ''x'')])])]"


end
