(* ===== verification/Spec2Isabelle.thy ===== *)
theory Spec2Isabelle
  imports Frontier_Properties Politeness_Properties Controller_Properties Scheduler_Properties
    Robots_Properties Url_Properties Journal_File Contract_Properties Stored_Records Lock_Properties
    Execution_Properties Cache_Properties Fetch_Properties Handler_Properties Worker_Properties
    Sqlite_Properties Coordination_Properties Diff_Properties Event_Hub
    Evidence_Properties Css_Properties Fingerprint_Properties Store_Properties
begin

text \<open>
  A verification development for the site crawler: a program that crawls web sites from seed URLs
  within a scope, politely and resumably, and records what it finds. File names below are relative
  to the directory \<open>src\<close> of the repository.

  \<^bold>\<open>The program.\<close> Seeds and discovered links are offered to the request scheduler, which checks
  quotas, the scope and the limits per directory and path pattern, and enqueues the URL in the
  frontier. The frontier keeps the queue of pending requests, the active leases and an append-only
  journal from which a later run resumes; a lock file keeps two runs out of one directory. Workers
  lease requests as the politeness controller admits their origin, ask the robots service, fetch,
  and finish the lease. The run controller counts, observes the limits and decides when to stop.
  Records are persisted under runtime contracts.

  \<^bold>\<open>Which theory models which part.\<close>
  \<^item> \<open>Prelude\<close>: JavaScript's ordered maps as association lists with \<open>map_set\<close> and \<open>map_delete\<close>,
    string operations, glob patterns (\<open>globishToRegExp\<close> of \<open>core/utils.ts\<close>) with their meaning
    \<open>expands\<close>, JSON values, results.
  \<^item> \<open>Records\<close>: the records and unions of \<open>requests/types.ts\<close>, \<open>links/types.ts\<close>, \<open>frontier/types.ts\<close>,
    \<open>results/types.ts\<close>, \<open>url/types.ts\<close>.
  \<^item> \<open>Frontier_Queue\<close>: \<open>frontier/state.ts\<close>, \<open>frontier/queue-order.ts\<close>.
  \<^item> \<open>Journal\<close>, \<open>Journal_Properties\<close>: the journal records, checksum chain, validation and recovery
    (\<open>frontier/journal-codec.ts\<close>, \<open>journal-validation.ts\<close>, \<open>recovery.ts\<close>); the declarative life cycle
    of a request that validation is equivalent to.
  \<^item> \<open>Journal_File\<close>: \<open>frontier/journal.ts\<close>, the text of the file with torn and failed writes.
  \<^item> \<open>Contracts\<close>, \<open>Contract_Properties\<close>: \<open>contracts/\<close>, the run-time check of persisted records, the
    JSON Schema published for them, the table of all persisted records and the catalogue.
  \<^item> \<open>Record_Codec\<close>, \<open>Stored_Records\<close>: records as JSON and back (\<open>frontier/journal-codec.ts\<close>,
    \<open>requests/parse.ts\<close>, \<open>validation/primitives.ts\<close>); what is written passes the contracts.
  \<^item> \<open>Url_Scope\<close>, \<open>Url_Properties\<close>: \<open>url/normalizer.ts\<close>, \<open>url/path-pattern.ts\<close>, \<open>url/scope-policy.ts\<close>.
  \<^item> \<open>Frontier_Backend\<close>: request factory, lease manager, enqueuer and \<open>backends/journal-backend.ts\<close>.
  \<^item> \<open>Frontier_System\<close>, \<open>Frontier_Properties\<close>: the backend used by several workers as a step
    relation. \<open>leaseNext\<close> is two steps, the removal from the queue and the journalled lease, with
    any step of another worker between them; every other operation's journal append and its
    continuation are one step.
  \<^item> \<open>Selection\<close>: the interface \<open>LeaseSelection\<close> of \<open>frontier/backend-types.ts\<close> as a locale with the laws
    the backend relies on.
  \<^item> \<open>Politeness\<close>, \<open>Politeness_Properties\<close>: \<open>politeness/index.ts\<close>, \<open>politeness/model.ts\<close>, and the
    interpretation of the interface \<open>LeaseSelection\<close> on the controller.
  \<^item> \<open>Robots\<close>, \<open>Robots_Properties\<close>: \<open>robots/parser.ts\<close>, \<open>robots/matcher.ts\<close>, \<open>robots/service.ts\<close>.
  \<^item> \<open>Run_Controller\<close>, \<open>Controller_Properties\<close>: \<open>runtime/run-controller.ts\<close>, errors of \<open>diagnostics/\<close>.
  \<^item> \<open>Scheduler\<close>, \<open>Scheduler_Properties\<close>: \<open>crawler/request-scheduler.ts\<close>, \<open>crawler/skip-recorder.ts\<close>.
  \<^item> \<open>Run_Lock\<close>, \<open>Lock_Properties\<close>: \<open>frontier/run-lock.ts\<close>, once with atomic operations and once as
    the sequence of file system calls that processes interleave.
  \<^item> \<open>Http_Types\<close>, \<open>Http_Cache\<close>, \<open>Http_Session\<close>, \<open>Http_Fetcher\<close>: the HTTP client under \<open>http/\<close>, its
    results and errors, the cache on disk, the cookies and credentials, and the redirect loop;
    \<open>Cache_Properties\<close> and \<open>Fetch_Properties\<close> hold their theorems.
  \<^item> \<open>Request_Policy\<close>, \<open>Retry\<close>, \<open>Execution_Properties\<close>: what happens around a fetch,
    \<open>crawler/request-policy.ts\<close>, \<open>redirect-target-policy.ts\<close>, \<open>seed-resolver.ts\<close>, \<open>retrying-fetcher.ts\<close>.
  \<^item> \<open>Request_Handler\<close>, \<open>Handler_Properties\<close>: the handler of a request with its terminalizer, the calls of
    user code and the middleware (\<open>crawler/request-handler.ts\<close>, \<open>request-terminalizer.ts\<close>,
    \<open>middleware-runner.ts\<close>, \<open>extensions/runner.ts\<close>). User code is a parameter that may fail or see the
    run aborted in the meantime.
  \<^item> \<open>Worker_Pool\<close>, \<open>Worker_Properties\<close>: \<open>crawler/worker-pool.ts\<close>, \<open>crawler/lease-heartbeat.ts\<close>, a lease from
    its grant to its end, with the renewals that happen in between.
  \<^item> \<open>Sql_Table\<close>, \<open>Sqlite_Frontier\<close>, \<open>Sqlite_Properties\<close>: the frontier in a database
    (\<open>frontier/backends/sqlite-*.ts\<close>). A table is the list of its rows by \<open>rowid\<close>, an SQL statement an
    operation of \<open>Sql_Table\<close> with its conditions and its number of changes.
  \<^item> \<open>Worker_Coordination\<close>, \<open>Worker_Protocol\<close>, \<open>Coordination_Properties\<close>: \<open>workers/\<close>, the tables by which worker
    processes share origins and the messages they exchange.
  \<^item> \<open>Stable_Json\<close>, \<open>Run_Diff\<close>, \<open>Diff_Properties\<close>: \<open>diff/\<close>, the comparison of two runs.
  \<^item> \<open>Event_Hub\<close>: \<open>events/index.ts\<close>, the bounded buffers by which subscribers get the events of a run.
  \<^item> \<open>Evidence\<close>, \<open>Evidence_Properties\<close>: \<open>core/portable-path.ts\<close> and, under \<open>evidence/\<close>, the references to evidence
    with their parser and the content-addressed store, whose writes may be torn.
  \<^item> \<open>Run_Records\<close>, \<open>Resume\<close>, \<open>Resume_Properties\<close>, \<open>Fingerprint_Properties\<close>: the statistics and the manifest of a run
    as the finalizer persists them (\<open>crawler/run-records.ts\<close>, \<open>crawler/finalizer.ts\<close>), their parsers
    (\<open>crawler/resume*.ts\<close>, \<open>diagnostics/parse.ts\<close>) and the fingerprints of a configuration
    (\<open>config/fingerprint.ts\<close>).
  \<^item> \<open>Json_Line_Sink\<close>, \<open>Sink_Properties\<close>: \<open>storage/json-line-sink.ts\<close>, the buffered writer of records, as a
    sequence of steps of concurrent calls whose writes may fail.
  \<^item> \<open>Result_Store\<close>, \<open>Store_Properties\<close>: \<open>storage/filesystem-store.ts\<close>, \<open>storage/memory-store.ts\<close> and
    \<open>storage/redact-config.ts\<close>, the stores of results, used by one call after another.
  \<^item> \<open>Css_Scanner\<close>, \<open>Css_Properties\<close>: \<open>css/scanner.ts\<close>, the URLs in a style sheet, with the bounded set that
    keeps the best of them.

  \<^bold>\<open>How code becomes definitions.\<close> A class is a record of its fields, a method a function from the
  state to the result and the new state; a thrown error is \<open>Inl\<close> of an error datatype. \<open>null\<close> is
  \<open>None\<close>. Numbers of the source that may be fractional are rationals (\<open>number\<close>): rounding of
  doubles is not modelled. Times are integers in milliseconds; where a record stores their text,
  the conversions are parameters with the law that parsing inverts printing. Strings are lists of
  characters, for robots lists of UTF-16 units. Code outside the repository is a parameter:
  the URL parser, \<open>sha256\<close>, \<open>JSON.stringify\<close>, the outcome of a file write, the clock.

  \<^bold>\<open>What the theorems show.\<close> The journal accepts exactly the histories in which every request obeys
  its life cycle; its codec and file lose nothing; recovery from any reachable state finds every
  unfinished request once; the workers lose or duplicate no request; quotas and limits hold over
  every sequence of admissions and survive a resume; the rate limit and concurrency limit hold over
  every interval; robots files are matched by the longest rule; stops are final; published schemas
  agree with the checks; the lock excludes when its operations are atomic; a fetch sends boundedly
  many requests, leaves the policies at no redirect and sends credentials to their origin only; a
  request is retried as long as its result is worth it; the cache gives back what was stored. A lease
  that was granted is ended and its politeness reservation given back whatever happens in between.
  The database frontier chooses, deduplicates and limits as the journal frontier does, keeps a request
  that is finished finished, and is drained by leasing and finishing. Worker processes do not overload
  an origin, and read the messages they write. A comparison of runs reports exactly what changed. The
  CSS scanner ends, keeps the best candidates in order and reads back the URLs that are written. What was
  stored as evidence is read back, and nothing else is. A run is resumed with its counters, and the
  operational fingerprint notices exactly the settings that are not operational. The writer of records
  loses and doubles none, the stores keep the same records, and the configuration they write holds no secret. Some
  theorems show behaviour that looks unintended: \<open>resume_of_leased_request_breaks_journal\<close>,
  \<open>append_after_torn_tail_corrupts\<close>, \<open>taken_request_not_outstanding\<close>, \<open>lock_creation_race\<close>,
  \<open>robots_rejected_load_is_permanent\<close>, \<open>seed_scope_ignored_at_fetch\<close>,
  \<open>invalid_target_forgets_hops\<close>, \<open>cache_torn_store\<close>, \<open>failing_hook_escapes_handler\<close>,
  \<open>failed_by_middleware_twice\<close>, \<open>late_renewal_fails_run\<close>, \<open>reregistered_worker_keeps_identity\<close>,
  \<open>robots_outcome_change_unreported\<close>, \<open>torn_object_is_permanent\<close>, \<open>source_map_offset_short\<close>,
  \<open>failed_run_not_resumed\<close>, \<open>depth_limited_run_not_resumed\<close>, \<open>code_written\<close>, \<open>exact_policy_refuses_resume\<close>,
  \<open>flush_ends_early\<close>, \<open>writes_overtake\<close> and \<open>failed_write_torn\<close>.

  \<^bold>\<open>Loops.\<close> The redirect loop ends because the hop index passes the limit, the retry loop because
  the attempt passes the limit of the request; both are total functions with these measures. The
  loop over a style sheet is a partial function that is proved to return, because every turn advances.

  \<^bold>\<open>Not modelled.\<close> Extraction from HTML, XML and JavaScript trees works on third-party parsers;
  the result store in a database, summaries in Markdown, evidence bundles, operations, command line, rendering and telemetry are file, process and
  browser I/O; opening, transactions and row decoding of SQLite are platform calls. The composition root (\<open>crawler/runtime/\<close>) only wires components.
\<close>

end
